(* ===== verification/Prelude.thy ===== *)
theory Prelude
  imports Main "HOL-Library.Word"
begin

section \<open>Shared vocabulary of the binding model\<close>

text \<open>
  The types and generic lemmas every component of the model uses: bytes, Python objects and
  exceptions as the C++ side sees them, C++ exceptions, results of fallible calls, and the
  parts of the Python runtime that are decided outside the repository (user classes, the
  memory layout of objects), gathered in one record.

  The interpreter modelled is 64-bit CPython 3 (the repository asks for Python 3.9) on an
  LP64 platform. A Python exception is the left part of a sum, the value the right part; this
  is the \<open>NULL\<close>-plus-\<open>PyErr_Occurred\<close> protocol of the C code with the label
  \<open>__pyx_L1_error\<close> read as ``return the pending exception''.
\<close>

subsection \<open>Bytes and C strings\<close>

type_synonym byte = "8 word"
type_synonym bytes = "8 word list"

text \<open>What a \<open>const char *\<close> consumer reads of a buffer: everything before the first NUL.\<close>

definition c_str :: "bytes \<Rightarrow> bytes" where
  "c_str bs = takeWhile (\<lambda>b. b \<noteq> 0) bs"

subsection \<open>Python objects and exceptions\<close>

text \<open>
  \<open>PCF i\<close> is the \<open>ColumnFamilyHandle\<close> object with identity \<open>i\<close>, \<open>PObj i\<close> any
  other object (instances of user classes, floats, ...) with identity \<open>i\<close>.
\<close>

datatype pyobj =
    PNone
  | PBool bool
  | PInt int
  | PBytes bytes
  | PByteArray bytes
  | PStr string
  | PTuple "pyobj list"
  | PList "pyobj list"
  | PDict "(pyobj \<times> pyobj) list"
  | PCF nat
  | PObj nat

text \<open>The builtin exceptions the code raises, the classes of \<open>rocksdb/errors.py\<close>, user classes.\<close>

datatype exn_class =
    TypeError | ValueError | OverflowError | KeyError | IndexError | MemoryError
  | StopIteration | RuntimeError | ArithmeticError | BuiltinIOError | AssertionError
  | AttributeError | NotImplementedError | SystemError | NameError | ImportError
  | PlainException | DeprecationWarning
  | NotFound | Corruption | NotSupported | InvalidArgument | RocksIOError
  | MergeInProgress | Incomplete
  | UserExn nat

text \<open>
  The argument an exception is raised with: none, a constant text, a \<open>bytes\<close> object, or the
  result of formatting a template with objects (formatting itself is the interpreter's).
\<close>

datatype msg = NoMsg | Text string | Data bytes | Fmt string "pyobj list"

datatype pyexn = Exn (exn_class: exn_class) (exn_msg: msg)

text \<open>
  C++ exceptions by class, with the text of \<open>what()\<close>; \<open>not_std\<close> is anything not derived
  from \<open>std::exception\<close>. The wrappers themselves throw only \<open>std::runtime_error\<close>.
\<close>

datatype cpp_class =
    bad_alloc | bad_cast | bad_typeid | domain_error | invalid_argument | ios_failure
  | out_of_range | overflow_error | range_error | underflow_error | runtime_error
  | std_exception | not_std

datatype cpp_exn = Cpp cpp_class bytes

abbreviation Runtime_error :: "bytes \<Rightarrow> cpp_exn" where
  "Runtime_error \<equiv> Cpp runtime_error"

text \<open>
  \<open>__Pyx_CppExn2PyErr\<close>, called in the \<open>catch(...)\<close> around every C++ call: a Python
  exception that is already pending wins, otherwise the C++ class decides.
\<close>

fun cpp_class_exn :: "cpp_class \<Rightarrow> exn_class" where
  "cpp_class_exn bad_alloc = MemoryError"
| "cpp_class_exn bad_cast = TypeError"
| "cpp_class_exn bad_typeid = TypeError"
| "cpp_class_exn domain_error = ValueError"
| "cpp_class_exn invalid_argument = ValueError"
| "cpp_class_exn ios_failure = BuiltinIOError"
| "cpp_class_exn out_of_range = IndexError"
| "cpp_class_exn overflow_error = OverflowError"
| "cpp_class_exn range_error = ArithmeticError"
| "cpp_class_exn underflow_error = ArithmeticError"
| "cpp_class_exn runtime_error = RuntimeError"
| "cpp_class_exn std_exception = RuntimeError"
| "cpp_class_exn not_std = RuntimeError"

fun CppExn2PyErr :: "pyexn option \<Rightarrow> cpp_exn \<Rightarrow> pyexn" where
  "CppExn2PyErr (Some pending) _ = pending"
| "CppExn2PyErr None (Cpp c what) =
     Exn (cpp_class_exn c) (if c = not_std then Text ''Unknown exception'' else Data (c_str what))"

subsection \<open>The part of the runtime outside the repository\<close>

text \<open>
  \<^item> \<open>nb_int\<close>: the \<open>__int__\<close> slot of an object's type (\<open>None\<close>: no slot);
  \<^item> \<open>truth\<close>: the truth value of an object that is not \<open>True\<close>, \<open>False\<close> or \<open>None\<close>
    and not a builtin value;
  \<^item> \<open>str_of\<close>, \<open>format_exc\<close>: \<open>str(error)\<close> and \<open>traceback.format_exc()\<close>;
  \<^item> \<open>peek\<close>: the bytes found at the place of a \<open>bytes\<close> object's buffer in an object that
    is not a \<open>bytes\<close> object (an unchecked \<open>PyBytes_AS_STRING\<close> reads there);
  \<^item> \<open>warn_int\<close>: what \<open>PyErr_WarnFormat\<close> gives for a \<open>DeprecationWarning\<close>
    (\<open>Some\<close> exception when warnings are errors);
  \<^item> \<open>log_fails\<close>: the exception \<open>rocksdb::Log\<close> throws for a message, if any;
  \<^item> \<open>fs_encode\<close>, \<open>fs_decode\<close>: \<open>str.encode\<close> with the file system encoding, and
    \<open>PyUnicode_Decode\<close> with it and the error handler \<open>replace\<close>;
  \<^item> \<open>getitem\<close>: \<open>o[i]\<close> for an object that is neither a list nor a tuple;
  \<^item> \<open>str_items\<close>: the one-character strings a \<open>str\<close> consists of (a \<open>PStr\<close> holds the
    UTF-8 encoding of the text);
  \<^item> \<open>iter_of\<close>: what iterating over an object gives: an exception from \<open>iter()\<close>, or the
    items it yields and the exception it ends with, if it does not just stop;
  \<^item> \<open>len_of\<close>: \<open>len(o)\<close> for an object that is not a builtin value.
\<close>

record pyenv =
  nb_int :: "nat \<Rightarrow> (pyexn + pyobj) option"
  truth :: "nat \<Rightarrow> pyexn + bool"
  str_of :: "pyexn \<Rightarrow> pyexn + pyobj"
  format_exc :: "pyexn \<Rightarrow> pyexn + pyobj"
  peek :: "pyobj \<Rightarrow> bytes"
  warn_int :: "pyexn option"
  log_fails :: "string \<Rightarrow> bytes \<Rightarrow> pyexn option"
  fs_encode :: "string \<Rightarrow> pyexn + pyobj"
  fs_decode :: "bytes \<Rightarrow> pyexn + pyobj"
  getitem :: "pyobj \<Rightarrow> nat \<Rightarrow> pyexn + pyobj"
  str_items :: "string \<Rightarrow> pyobj list"
  iter_of :: "nat \<Rightarrow> pyexn + (pyobj list \<times> pyexn option)"
  len_of :: "nat \<Rightarrow> pyexn + nat"

text \<open>
  A runtime used by witnesses: no \<open>__int__\<close> slots, texts encoded byte for byte, an unchecked
  buffer read of a \<open>str\<close> finds the state byte \<open>0xE4\<close> of a compact ASCII string.
\<close>

definition ascii_bytes :: "string \<Rightarrow> bytes" where
  "ascii_bytes s = map of_char s"

definition plain_env :: pyenv where
  "plain_env =
     \<lparr>nb_int = (\<lambda>_. None), truth = (\<lambda>_. Inr True),
      str_of = (\<lambda>e. Inr (PStr (case exn_msg e of Text t \<Rightarrow> t | _ \<Rightarrow> []))),
      format_exc = (\<lambda>_. Inr (PStr ''Traceback'')),
      peek = (\<lambda>_. [228, 0]), warn_int = None, log_fails = (\<lambda>_ _. None),
      fs_encode = (\<lambda>s. Inr (PBytes (ascii_bytes s))),
      fs_decode = (\<lambda>bs. Inr (PStr (map (\<lambda>b. char_of (unat b)) bs))),
      getitem = (\<lambda>_ _. Inl (Exn TypeError (Text ''object is not subscriptable''))),
      str_items = map (\<lambda>c. PStr [c]),
      iter_of = (\<lambda>_. Inl (Exn TypeError (Text ''object is not iterable''))),
      len_of = (\<lambda>_. Inl (Exn TypeError (Text ''object has no len()'')))\<rparr>"

subsection \<open>Results\<close>

definition bind_res :: "'e + 'a \<Rightarrow> ('a \<Rightarrow> 'e + 'b) \<Rightarrow> 'e + 'b" where
  "bind_res m f = (case m of Inl e \<Rightarrow> Inl e | Inr x \<Rightarrow> f x)"

fun map_res :: "('a \<Rightarrow> 'e + 'b) \<Rightarrow> 'a list \<Rightarrow> 'e + 'b list" where
  "map_res f [] = Inr []"
| "map_res f (x # xs) = bind_res (f x) (\<lambda>y. bind_res (map_res f xs) (\<lambda>ys. Inr (y # ys)))"

definition is_ok :: "'e + 'a \<Rightarrow> bool" where
  "is_ok r = (case r of Inl _ \<Rightarrow> False | Inr _ \<Rightarrow> True)"

text \<open>A C++ call inside \<open>try { ... } catch(...) { __Pyx_CppExn2PyErr(); ... }\<close>.\<close>

definition catch_cpp :: "cpp_exn + 'a \<Rightarrow> pyexn + 'a" where
  "catch_cpp r = (case r of Inl x \<Rightarrow> Inl (CppExn2PyErr None x) | Inr v \<Rightarrow> Inr v)"

lemma catch_cpp_simps [simp]:
  "catch_cpp (Inr v) = Inr v" "catch_cpp (Inl x) = Inl (CppExn2PyErr None x)"
  by (simp_all add: catch_cpp_def)

lemma catch_cpp_Inr_iff [simp]: "catch_cpp r = Inr v \<longleftrightarrow> r = Inr v"
  by (cases r) auto

lemma bind_res_simps [simp]:
  "bind_res (Inl e) f = Inl e"
  "bind_res (Inr x) f = f x"
  by (simp_all add: bind_res_def)

lemma is_ok_simps [simp]: "\<not> is_ok (Inl e)" "is_ok (Inr x)"
  by (simp_all add: is_ok_def)

lemma bind_res_Inr_conv: "bind_res m f = Inr y \<longleftrightarrow> (\<exists>x. m = Inr x \<and> f x = Inr y)"
  by (cases m) auto

lemma bind_res_Inl_conv:
  "bind_res m f = Inl e \<longleftrightarrow> m = Inl e \<or> (\<exists>x. m = Inr x \<and> f x = Inl e)"
  by (cases m) auto

lemma bind_res_assoc: "bind_res (bind_res m f) g = bind_res m (\<lambda>x. bind_res (f x) g)"
  by (cases m) auto

lemmas bind_res_convs = bind_res_Inr_conv bind_res_Inl_conv

lemma map_res_Inr: "(\<And>x. x \<in> set xs \<Longrightarrow> f x = Inr (g x)) \<Longrightarrow> map_res f xs = Inr (map g xs)"
  by (induction xs) auto

lemma map_res_length: "map_res f xs = Inr ys \<Longrightarrow> length ys = length xs"
  by (induction xs arbitrary: ys) (auto simp: bind_res_convs)

lemma c_str_no_nul: "0 \<notin> set bs \<Longrightarrow> c_str bs = bs"
  by (auto simp: c_str_def takeWhile_eq_all_conv)

lemma c_str_Nil_iff: "c_str bs = [] \<longleftrightarrow> bs = [] \<or> hd bs = 0"
  by (cases bs) (auto simp: c_str_def)

lemma c_str_idem [simp]: "c_str (c_str bs) = c_str bs"
  by (auto simp: c_str_def takeWhile_eq_all_conv dest: set_takeWhileD)

subsection \<open>Iteration\<close>

text \<open>
  The items of \<open>for x in o\<close> for the builtin types, and the loop whose body may fail: the
  body's exception ends it, an exception of the iterator itself comes after the items it
  yielded.
\<close>

fun py_iter :: "pyenv \<Rightarrow> pyobj \<Rightarrow> pyexn + (pyobj list \<times> pyexn option)" where
  "py_iter E (PList xs) = Inr (xs, None)"
| "py_iter E (PTuple xs) = Inr (xs, None)"
| "py_iter E (PDict kvs) = Inr (map fst kvs, None)"
| "py_iter E (PBytes bs) = Inr (map (\<lambda>b. PInt (uint b)) bs, None)"
| "py_iter E (PByteArray bs) = Inr (map (\<lambda>b. PInt (uint b)) bs, None)"
| "py_iter E (PStr s) = Inr (str_items E s, None)"
| "py_iter E (PObj i) = iter_of E i"
| "py_iter E x = Inl (Exn TypeError (Fmt ''object is not iterable'' [x]))"

definition for_each :: "pyenv \<Rightarrow> pyobj \<Rightarrow> (pyobj \<Rightarrow> pyexn + 'a) \<Rightarrow> pyexn + 'a list" where
  "for_each E ob body =
     bind_res (py_iter E ob) (\<lambda>(xs, stop).
       bind_res (map_res body xs) (\<lambda>ys. case stop of None \<Rightarrow> Inr ys | Some e \<Rightarrow> Inl e))"

lemma for_each_list: "for_each E (PList xs) body = map_res body xs"
  by (cases "map_res body xs") (simp_all add: for_each_def)

lemma for_each_tuple: "for_each E (PTuple xs) body = map_res body xs"
  by (cases "map_res body xs") (simp_all add: for_each_def)

subsection \<open>Collections of facts\<close>

named_theorems check_rules \<open>equations that decide a run-time type check on a constructor\<close>

end
