(* ===== verification/IntConv.thy ===== *)
theory IntConv
  imports Prelude
begin

unbundle bit_operations_syntax

section \<open>Conversions between Python integers and C integers\<close>

text \<open>
  The helpers \<open>__Pyx_PyInt_As_<type>\<close> and \<open>__Pyx_PyInt_From_<type>\<close> of
  \<open>rocksdb/_rocksdb.cpp\<close>, through which every option value, identifier and callback result
  passes. A Python integer is CPython's sign-magnitude object: a signed digit count and
  30-bit digits, least significant first. C values are mathematical integers kept in the range
  of their type, and every C conversion is a \<open>c_cast\<close>, which wraps.
\<close>

subsection \<open>C integer types\<close>

datatype ctype = CT (cname: string) (bits: nat) (is_signed: bool)

definition c_int :: ctype where "c_int = CT ''int'' 32 True"
definition c_long :: ctype where "c_long = CT ''long'' 64 True"
definition c_ulong :: ctype where "c_ulong = CT ''unsigned long'' 64 False"
definition c_size_t :: ctype where "c_size_t = CT ''size_t'' 64 False"
definition c_uint32_t :: ctype where "c_uint32_t = CT ''uint32_t'' 32 False"
definition c_int32_t :: ctype where "c_int32_t = CT ''int32_t'' 32 True"
definition c_uint64_t :: ctype where "c_uint64_t = CT ''uint64_t'' 64 False"
definition c_int64_t :: ctype where "c_int64_t = CT ''int64_t'' 64 True"
definition c_uint :: ctype where "c_uint = CT ''unsigned int'' 32 False"
definition c_digit :: ctype where "c_digit = CT ''digit'' 32 False"
definition c_sdigit :: ctype where "c_sdigit = CT ''sdigit'' 32 True"

definition c_cast :: "ctype \<Rightarrow> int \<Rightarrow> int" where
  "c_cast T v = (if is_signed T then signed_take_bit (bits T - 1) v else take_bit (bits T) v)"

definition in_range :: "ctype \<Rightarrow> int \<Rightarrow> bool" where
  "in_range T v =
     (if is_signed T then - (2 ^ (bits T - 1)) \<le> v \<and> v < 2 ^ (bits T - 1)
      else 0 \<le> v \<and> v < 2 ^ bits T)"

subsection \<open>CPython's integer objects\<close>

definition PyLong_SHIFT :: nat where "PyLong_SHIFT = 30"

record pylong =
  Py_SIZE :: int
  ob_digit :: "int list"

function digits_of :: "nat \<Rightarrow> int list" where
  "digits_of n = (if n = 0 then [] else int (n mod 2 ^ 30) # digits_of (n div 2 ^ 30))"
  by pat_completeness auto
termination
  by (relation "measure id") auto

declare digits_of.simps [simp del]

definition pylong_of :: "int \<Rightarrow> pylong" where
  "pylong_of n =
     (let ds = digits_of (nat \<bar>n\<bar>)
      in \<lparr>Py_SIZE = (if n < 0 then - int (length ds) else int (length ds)), ob_digit = ds\<rparr>)"

fun digits_value :: "int list \<Rightarrow> int" where
  "digits_value [] = 0"
| "digits_value (d # ds) = d + 2 ^ 30 * digits_value ds"

definition pylong_value :: "pylong \<Rightarrow> int" where
  "pylong_value x =
     (if Py_SIZE x < 0 then - digits_value (ob_digit x) else digits_value (ob_digit x))"

text \<open>
  \<open>PyLong_AsLong\<close> and \<open>PyLong_AsUnsignedLong\<close> of the C API (both 64-bit): the value, or
  \<open>OverflowError\<close>.
\<close>

definition PyLong_AsLong :: "pylong \<Rightarrow> pyexn + int" where
  "PyLong_AsLong x =
     (if in_range c_long (pylong_value x) then Inr (pylong_value x)
      else Inl (Exn OverflowError (Text ''Python int too large to convert to C long'')))"

definition PyLong_AsUnsignedLong :: "pylong \<Rightarrow> pyexn + int" where
  "PyLong_AsUnsignedLong x =
     (if in_range c_ulong (pylong_value x) then Inr (pylong_value x)
      else Inl (Exn OverflowError
             (Text ''Python int too large to convert to C unsigned long'')))"

subsection \<open>The checked narrowing macro\<close>

definition raise_overflow :: "ctype \<Rightarrow> pyexn + int" where
  "raise_overflow T = Inl (Exn OverflowError (Text (''value too large to convert to '' @ cname T)))"

definition raise_neg_overflow :: "ctype \<Rightarrow> pyexn + int" where
  "raise_neg_overflow T =
     Inl (Exn OverflowError (Text (''can't convert negative value to '' @ cname T)))"

text \<open>
  \<open>__PYX__VERIFY_RETURN_INT(T, F, v, exc)\<close>: the value \<open>v\<close> of type \<open>F\<close> is narrowed to
  \<open>T\<close> only if casting there and back gives it again. With \<open>exc\<close> the value comes from a
  fallible call; a failed call returns \<open>-1\<close> with its exception pending, the macro then
  returns \<open>(T) -1\<close> on each path, and the caller sees the pending exception.
\<close>

definition verify_return_int :: "ctype \<Rightarrow> ctype \<Rightarrow> int \<Rightarrow> pyexn + int" where
  "verify_return_int T F v =
     (if bits T < bits F \<and> v \<noteq> c_cast F (c_cast T v)
      then (if \<not> is_signed T \<and> v < 0 then raise_neg_overflow T else raise_overflow T)
      else Inr (c_cast T v))"

definition verify_return_int_exc :: "ctype \<Rightarrow> ctype \<Rightarrow> pyexn + int \<Rightarrow> pyexn + int" where
  "verify_return_int_exc T F r =
     (case r of Inl e \<Rightarrow> Inl e | Inr v \<Rightarrow> verify_return_int T F v)"


subsection \<open>The digit switch\<close>

text \<open>
  \<open>(((T)digits[k-1] << PyLong_SHIFT) | ...) << PyLong_SHIFT | (T)digits[0]\<close>, computed in
  the type \<open>T\<close>.
\<close>

definition join_digits :: "ctype \<Rightarrow> int list \<Rightarrow> int" where
  "join_digits T ds =
     foldr (\<lambda>d acc. c_cast T (push_bit PyLong_SHIFT acc) OR c_cast T d) ds 0"

text \<open>
  The cases \<open>2\<close>, \<open>3\<close>, \<open>4\<close> of \<open>switch (Py_SIZE(x))\<close> and, for a signed target,
  \<open>-2\<close>, \<open>-3\<close>, \<open>-4\<close>: the first branch joins the digits in \<open>unsigned long\<close>, the
  second in the target type, and what is left falls out of the switch (\<open>slow\<close>).
\<close>

definition case_pos :: "ctype \<Rightarrow> pylong \<Rightarrow> nat \<Rightarrow> pyexn + int \<Rightarrow> pyexn + int" where
  "case_pos T x k slow =
     (if bits T > (k - 1) * PyLong_SHIFT
      then (if bits c_ulong > k * PyLong_SHIFT
            then verify_return_int T c_ulong (join_digits c_ulong (take k (ob_digit x)))
            else if (if is_signed T then bits T - 1 > k * PyLong_SHIFT
                     else bits T \<ge> k * PyLong_SHIFT)
            then Inr (c_cast T (join_digits T (take k (ob_digit x))))
            else slow)
      else slow)"

definition case_neg :: "ctype \<Rightarrow> pylong \<Rightarrow> nat \<Rightarrow> pyexn + int \<Rightarrow> pyexn + int" where
  "case_neg T x k slow =
     (if bits T - 1 > (k - 1) * PyLong_SHIFT
      then (if bits c_ulong > k * PyLong_SHIFT
            then verify_return_int T c_long
                   (c_cast c_long (- c_cast c_long (join_digits c_ulong (take k (ob_digit x)))))
            else if bits T - 1 > k * PyLong_SHIFT
            then Inr (c_cast T (- 1 * join_digits T (take k (ob_digit x))))
            else slow)
      else slow)"

text \<open>\<open>_PyLong_AsByteArray\<close>, the last resort for targets wider than \<open>long long\<close>.\<close>

definition PyLong_AsByteArray :: "ctype \<Rightarrow> pylong \<Rightarrow> pyexn + int" where
  "PyLong_AsByteArray T x =
     (if in_range T (pylong_value x) then Inr (pylong_value x)
      else Inl (Exn OverflowError (Text ''int too big to convert'')))"

definition as_unsigned :: "ctype \<Rightarrow> pylong \<Rightarrow> pyexn + int" where
  "as_unsigned T x =
     (let slow = (if Py_SIZE x < 0 then raise_neg_overflow T
                  else if bits T \<le> bits c_ulong
                  then verify_return_int_exc T c_ulong (PyLong_AsUnsignedLong x)
                  else PyLong_AsByteArray T x)
      in if Py_SIZE x = 0 then Inr 0
         else if Py_SIZE x = 1 then verify_return_int T c_digit (ob_digit x ! 0)
         else if Py_SIZE x = 2 then case_pos T x 2 slow
         else if Py_SIZE x = 3 then case_pos T x 3 slow
         else if Py_SIZE x = 4 then case_pos T x 4 slow
         else slow)"

definition as_signed :: "ctype \<Rightarrow> pylong \<Rightarrow> pyexn + int" where
  "as_signed T x =
     (let slow = (if bits T \<le> bits c_long
                  then verify_return_int_exc T c_long (PyLong_AsLong x)
                  else PyLong_AsByteArray T x)
      in if Py_SIZE x = 0 then Inr 0
         else if Py_SIZE x = - 1
         then verify_return_int T c_sdigit (c_cast c_sdigit (- c_cast c_sdigit (ob_digit x ! 0)))
         else if Py_SIZE x = 1 then verify_return_int T c_digit (ob_digit x ! 0)
         else if Py_SIZE x = - 2 then case_neg T x 2 slow
         else if Py_SIZE x = 2 then case_pos T x 2 slow
         else if Py_SIZE x = - 3 then case_neg T x 3 slow
         else if Py_SIZE x = 3 then case_pos T x 3 slow
         else if Py_SIZE x = - 4 then case_neg T x 4 slow
         else if Py_SIZE x = 4 then case_pos T x 4 slow
         else slow)"

definition as_pylong :: "ctype \<Rightarrow> pylong \<Rightarrow> pyexn + int" where
  "as_pylong T x = (if is_signed T then as_signed T x else as_unsigned T x)"

subsection \<open>Objects that are not integers\<close>

text \<open>\<open>PyLong_Check\<close>: \<open>bool\<close> is a subclass of \<open>int\<close>.\<close>

fun PyLong_Check :: "pyobj \<Rightarrow> int option" where
  "PyLong_Check (PInt n) = Some n"
| "PyLong_Check (PBool b) = Some (if b then 1 else 0)"
| "PyLong_Check _ = None"

text \<open>\<open>__Pyx_PyNumber_IntOrLongWrongResultType\<close> and \<open>__Pyx_PyNumber_IntOrLong\<close>.\<close>

definition IntOrLongWrongResultType :: "pyenv \<Rightarrow> pyobj \<Rightarrow> pyexn + pyobj" where
  "IntOrLongWrongResultType E r =
     (case PyLong_Check r of
        Some _ \<Rightarrow> (case warn_int E of Some e \<Rightarrow> Inl e | None \<Rightarrow> Inr r)
      | None \<Rightarrow> Inl (Exn TypeError (Fmt ''__int__ returned non-int (type %.200s)'' [r])))"

fun is_exact_int :: "pyobj \<Rightarrow> bool" where
  "is_exact_int (PInt _) = True"
| "is_exact_int _ = False"

definition no_int :: "pyexn + pyobj" where
  "no_int = Inl (Exn TypeError (Text ''an integer is required''))"

definition PyNumber_IntOrLong :: "pyenv \<Rightarrow> pyobj \<Rightarrow> pyexn + pyobj" where
  "PyNumber_IntOrLong E x =
     (case PyLong_Check x of
        Some _ \<Rightarrow> Inr x
      | None \<Rightarrow>
          (case x of
             PObj i \<Rightarrow>
               (case nb_int E i of
                  None \<Rightarrow> no_int
                | Some (Inl e) \<Rightarrow> Inl e
                | Some (Inr r) \<Rightarrow> if is_exact_int r then Inr r else IntOrLongWrongResultType E r)
           | _ \<Rightarrow> no_int))"

definition PyInt_As :: "ctype \<Rightarrow> pyenv \<Rightarrow> pyobj \<Rightarrow> pyexn + int" where
  "PyInt_As T E x =
     (case PyLong_Check x of
        Some n \<Rightarrow> as_pylong T (pylong_of n)
      | None \<Rightarrow>
          bind_res (PyNumber_IntOrLong E x)
            (\<lambda>y. case PyLong_Check y of
                   Some n \<Rightarrow> as_pylong T (pylong_of n)
                 | None \<Rightarrow> Inl (Exn TypeError (Text ''an integer is required''))))"

subsection \<open>The instances the module contains\<close>

definition PyInt_As_int :: "pyenv \<Rightarrow> pyobj \<Rightarrow> pyexn + int" where
  "PyInt_As_int = PyInt_As c_int"
definition PyInt_As_long :: "pyenv \<Rightarrow> pyobj \<Rightarrow> pyexn + int" where
  "PyInt_As_long = PyInt_As c_long"
definition PyInt_As_size_t :: "pyenv \<Rightarrow> pyobj \<Rightarrow> pyexn + int" where
  "PyInt_As_size_t = PyInt_As c_size_t"
definition PyInt_As_uint32_t :: "pyenv \<Rightarrow> pyobj \<Rightarrow> pyexn + int" where
  "PyInt_As_uint32_t = PyInt_As c_uint32_t"
definition PyInt_As_int32_t :: "pyenv \<Rightarrow> pyobj \<Rightarrow> pyexn + int" where
  "PyInt_As_int32_t = PyInt_As c_int32_t"
definition PyInt_As_uint64_t :: "pyenv \<Rightarrow> pyobj \<Rightarrow> pyexn + int" where
  "PyInt_As_uint64_t = PyInt_As c_uint64_t"
definition PyInt_As_unsigned_int :: "pyenv \<Rightarrow> pyobj \<Rightarrow> pyexn + int" where
  "PyInt_As_unsigned_int = PyInt_As c_uint"

text \<open>
  \<open>__Pyx_PyInt_From_<type>\<close>: the value is widened to \<open>long\<close> or \<open>unsigned long\<close> by the
  size and signedness of its type and boxed.
\<close>

definition PyInt_From :: "ctype \<Rightarrow> int \<Rightarrow> pyobj" where
  "PyInt_From T v =
     (if is_signed T
      then (if bits T \<le> bits c_long then PInt (c_cast c_long v) else PInt (c_cast T v))
      else (if bits T < bits c_long then PInt (c_cast c_long v)
            else if bits T \<le> bits c_ulong then PInt (c_cast c_ulong v)
            else PInt (c_cast T v)))"

definition PyInt_From_int :: "int \<Rightarrow> pyobj" where "PyInt_From_int = PyInt_From c_int"
definition PyInt_From_long :: "int \<Rightarrow> pyobj" where "PyInt_From_long = PyInt_From c_long"
definition PyInt_From_uint32_t :: "int \<Rightarrow> pyobj" where
  "PyInt_From_uint32_t = PyInt_From c_uint32_t"
definition PyInt_From_uint64_t :: "int \<Rightarrow> pyobj" where
  "PyInt_From_uint64_t = PyInt_From c_uint64_t"
definition PyInt_From_unsigned_int :: "int \<Rightarrow> pyobj" where
  "PyInt_From_unsigned_int = PyInt_From c_uint"
definition PyInt_From_int64_t :: "int \<Rightarrow> pyobj" where
  "PyInt_From_int64_t = PyInt_From c_int64_t"

text \<open>\<open>__Pyx_PyInt_FromSize_t\<close> calls \<open>PyLong_FromSize_t\<close> in CPython 3.\<close>

definition PyInt_FromSize_t :: "int \<Rightarrow> pyobj" where
  "PyInt_FromSize_t v = PInt (c_cast c_size_t v)"

subsection \<open>Truth values\<close>

text \<open>
  \<open>__Pyx_PyObject_IsTrue\<close>: \<open>True\<close>, \<open>False\<close> and \<open>None\<close> by identity, everything else by
  \<open>PyObject_IsTrue\<close>: numbers are true unless zero, containers unless empty, and an instance
  without \<open>__bool__\<close> and \<open>__len__\<close> (a \<open>ColumnFamilyHandle\<close>) is true.
\<close>

fun PyObject_IsTrue :: "pyenv \<Rightarrow> pyobj \<Rightarrow> pyexn + bool" where
  "PyObject_IsTrue E (PBool b) = Inr b"
| "PyObject_IsTrue E PNone = Inr False"
| "PyObject_IsTrue E (PInt n) = Inr (n \<noteq> 0)"
| "PyObject_IsTrue E (PBytes bs) = Inr (bs \<noteq> [])"
| "PyObject_IsTrue E (PStr s) = Inr (s \<noteq> [])"
| "PyObject_IsTrue E (PByteArray bs) = Inr (bs \<noteq> [])"
| "PyObject_IsTrue E (PTuple xs) = Inr (xs \<noteq> [])"
| "PyObject_IsTrue E (PList xs) = Inr (xs \<noteq> [])"
| "PyObject_IsTrue E (PDict xs) = Inr (xs \<noteq> [])"
| "PyObject_IsTrue E (PCF i) = Inr True"
| "PyObject_IsTrue E (PObj i) = truth E i"

text \<open>\<open>__Pyx_PyBool_FromLong\<close>\<close>

definition PyBool_FromLong :: "bool \<Rightarrow> pyobj" where
  "PyBool_FromLong b = PBool b"

subsection \<open>Exactness of the conversions\<close>

lemma digits_value_digits_of: "digits_value (digits_of n) = int n"
proof (induction n rule: digits_of.induct)
  case (1 n)
  show ?case
  proof (cases "n = 0")
    case True
    then show ?thesis by (simp add: digits_of.simps)
  next
    case False
    have "int (n mod 2 ^ 30 + 2 ^ 30 * (n div 2 ^ 30)) = int n"
      by (rule arg_cong [OF mod_mult_div_eq])
    then have "int (n mod 2 ^ 30) + 2 ^ 30 * int (n div 2 ^ 30) = int n"
      by (simp only: of_nat_add of_nat_mult of_nat_power of_nat_numeral)
    moreover have "digits_of n = int (n mod 2 ^ 30) # digits_of (n div 2 ^ 30)"
      using False by (subst digits_of.simps) simp
    ultimately show ?thesis using 1 [OF False] by (simp only: digits_value.simps)
  qed
qed

lemma digits_of_digit: "d \<in> set (digits_of n) \<Longrightarrow> 0 \<le> d \<and> d < 2 ^ 30"
proof (induction n rule: digits_of.induct)
  case (1 n)
  show ?case
  proof (cases "n = 0")
    case True
    with "1.prems" show ?thesis by (simp add: digits_of.simps [of 0])
  next
    case False
    with 1 show ?thesis by (auto simp: digits_of.simps [of n])
  qed
qed

lemma digits_of_Nil_iff [simp]: "digits_of n = [] \<longleftrightarrow> n = 0"
  by (subst digits_of.simps) simp

lemma length_digits_of_le: "length (digits_of n) \<le> k \<longleftrightarrow> n < 2 ^ (30 * k)"
proof (induction n arbitrary: k rule: digits_of.induct)
  case (1 n)
  show ?case
  proof (cases "n = 0")
    case True
    then show ?thesis by (simp add: digits_of.simps)
  next
    case False
    show ?thesis
    proof (cases k)
      case 0
      with False show ?thesis by (simp add: digits_of.simps [of n])
    next
      case (Suc j)
      have "n div 2 ^ 30 < 2 ^ (30 * j) \<longleftrightarrow> n < 2 ^ (30 * j) * 2 ^ 30"
        by (rule div_less_iff_less_mult) simp
      also have "(2::nat) ^ (30 * j) * 2 ^ 30 = 2 ^ (30 * k)"
        unfolding Suc by (subst power_add [symmetric]) (simp add: algebra_simps)
      finally show ?thesis
        using 1 [OF False, of j] False Suc by (simp add: digits_of.simps [of n])
    qed
  qed
qed

lemma Py_SIZE_neg_iff: "Py_SIZE (pylong_of n) < 0 \<longleftrightarrow> n < 0"
  by (auto simp: pylong_of_def Let_def)

lemma pylong_value_of [simp]: "pylong_value (pylong_of n) = n"
  unfolding pylong_value_def Py_SIZE_neg_iff
  by (simp add: pylong_of_def Let_def digits_value_digits_of)

lemma c_cast_in_range: "0 < bits T \<Longrightarrow> in_range T v \<Longrightarrow> c_cast T v = v"
  by (auto simp: c_cast_def in_range_def signed_take_bit_int_eq_self take_bit_int_eq_self split: if_splits)

lemma in_range_c_cast: "0 < bits T \<Longrightarrow> in_range T (c_cast T v)"
  by (auto simp: c_cast_def in_range_def signed_take_bit_int_greater_eq_minus_exp signed_take_bit_int_less_exp)

lemma digits_value_bound:
  "(\<And>d. d \<in> set ds \<Longrightarrow> 0 \<le> d \<and> d < 2 ^ 30) \<Longrightarrow>
   0 \<le> digits_value ds \<and> digits_value ds < 2 ^ (30 * length ds)"
proof (induction ds)
  case (Cons d ds)
  then have "0 \<le> d" "d < 2 ^ 30" "0 \<le> digits_value ds" "digits_value ds \<le> 2 ^ (30 * length ds) - 1"
    by force+
  moreover have "2 ^ 30 * digits_value ds \<le> 2 ^ 30 * (2 ^ (30 * length ds) - 1)"
    using calculation(4) by (rule mult_left_mono) simp
  ultimately show ?case by (simp add: power_add algebra_simps)
qed simp

lemma push_or: "0 \<le> b \<Longrightarrow> b < 2 ^ n \<Longrightarrow> push_bit n a OR b = 2 ^ n * a + (b::int)"
proof -
  assume "0 \<le> b" "b < 2 ^ n"
  then have b: "take_bit n b = b" by (simp add: take_bit_int_eq_self)
  have "push_bit n a AND take_bit n b = 0"
    by (rule bit_eqI) (auto simp: bit_simps)
  then have "push_bit n a + b = push_bit n a OR b"
    using b by (metis disjunctive_add_eq_or)
  then show ?thesis by (simp add: push_bit_eq_mult mult.commute)
qed

lemma join_digits_value:
  assumes "\<And>d. d \<in> set ds \<Longrightarrow> 0 \<le> d \<and> d < 2 ^ 30" "30 * length ds \<le> bits T" "\<not> is_signed T"
  shows "join_digits T ds = digits_value ds"
  using assms
proof (induction ds)
  case Nil
  then show ?case by (simp add: join_digits_def)
next
  case (Cons d ds)
  let ?v = "digits_value ds"
  have IH: "foldr (\<lambda>d acc. c_cast T (push_bit PyLong_SHIFT acc) OR c_cast T d) ds 0 = ?v"
    using Cons by (simp add: join_digits_def)
  have d: "0 \<le> d" "d < 2 ^ 30" using Cons.prems(1) by auto
  have full: "0 \<le> digits_value (d # ds)" "digits_value (d # ds) < 2 ^ (30 * length (d # ds))"
    using digits_value_bound [of "d # ds"] Cons.prems(1) by auto
  have v: "0 \<le> ?v" using digits_value_bound [of ds] Cons.prems(1) by auto
  have le: "(2::int) ^ (30 * length (d # ds)) \<le> 2 ^ bits T"
    using Cons.prems(2) by (intro power_increasing) auto
  have lt: "d + 2 ^ 30 * ?v < 2 ^ bits T"
    using full(2) le by (simp only: digits_value.simps)
  have "0 \<le> 2 ^ 30 * ?v" using v by simp
  moreover from this lt d(1) have "2 ^ 30 * ?v < 2 ^ bits T" "d < 2 ^ bits T"
    by linarith+
  ultimately
  have "c_cast T (push_bit PyLong_SHIFT ?v) = push_bit 30 ?v" "c_cast T d = d"
    using Cons.prems(3) d(1)
    by (simp_all add: c_cast_def PyLong_SHIFT_def push_bit_eq_mult mult.commute take_bit_int_eq_self)
  then show ?case
    using IH push_or [OF d, of ?v] by (simp add: join_digits_def)
qed

definition narrowed :: "ctype \<Rightarrow> int \<Rightarrow> pyexn + int \<Rightarrow> bool" where
  "narrowed T v r =
     (if in_range T v then r = Inr v else (\<exists>msg. r = Inl (Exn OverflowError (Text msg))))"

lemma in_range_widen:
  assumes "in_range T w" "bits T < bits F" "is_signed F \<or> 0 \<le> w"
  shows "in_range F w"
proof -
  have pw: "(2::int) ^ bits T \<le> 2 ^ (bits F - 1)" "(2::int) ^ (bits T - 1) \<le> 2 ^ (bits F - 1)"
    "(2::int) ^ (bits F - 1) \<le> 2 ^ bits F"
    using assms(2) by (intro power_increasing; simp)+
  have "(0::int) < 2 ^ (bits F - 1)" by simp
  with pw assms(1,3) show ?thesis
    unfolding in_range_def by (cases "is_signed T"; cases "is_signed F"; simp only: if_True if_False simp_thms;
        (intro conjI)?; linarith)
qed

lemma c_cast_back:
  assumes "0 < bits T" "bits T < bits F"
    and "is_signed F \<or> \<not> is_signed T \<or> v < 2 ^ (bits F - 1)"
    and same: "c_cast F (c_cast T v) = v"
  shows "in_range T v"
proof -
  let ?w = "c_cast T v"
  have w: "in_range T ?w" using assms(1) by (rule in_range_c_cast)
  show ?thesis
  proof (cases "is_signed F \<or> 0 \<le> ?w")
    case True
    with w assms(2) have "in_range F ?w" by (rule in_range_widen)
    then have "c_cast F ?w = ?w" using assms(2) by (intro c_cast_in_range) auto
    with same w show ?thesis by simp
  next
    case False
    then have neg: "?w < 0" and F: "\<not> is_signed F" by auto
    with w have T: "is_signed T" by (auto simp: in_range_def split: if_splits)
    have pw: "(2::int) ^ (bits T - 1) \<le> 2 ^ (bits F - 1)"
      using assms(2) by (intro power_increasing; simp)
    have pF: "(2::int) ^ bits F = 2 * 2 ^ (bits F - 1)"
      using assms(2) by (cases "bits F") auto
    have low: "- (2 ^ (bits F - 1)) \<le> ?w"
      using w T pw unfolding in_range_def by (simp only: if_True) linarith
    have "c_cast F ?w = (?w + 2 ^ bits F) mod 2 ^ bits F"
      using F by (simp add: c_cast_def take_bit_eq_mod)
    also have "\<dots> = ?w + 2 ^ bits F"
      using neg low pF by (intro mod_pos_pos_trivial) linarith+
    finally have "v = ?w + 2 ^ bits F" using same by simp
    with low pF assms(3) F T show ?thesis by auto
  qed
qed

lemma verify_narrowed:
  assumes "0 < bits T" "in_range F v"
    and "is_signed F \<or> \<not> is_signed T \<or> v < 2 ^ (bits F - 1)"
    and "bits F \<le> bits T \<Longrightarrow> in_range T v"
  shows "narrowed T v (verify_return_int T F v)"
proof (cases "in_range T v")
  case True
  have "bits T < bits F \<Longrightarrow> c_cast F v = v"
    using assms(1,2) by (intro c_cast_in_range) auto
  then show ?thesis
    using True c_cast_in_range [OF assms(1) True]
    by (auto simp: narrowed_def verify_return_int_def)
next
  case False
  then have "bits T < bits F" using assms(4) by force
  then have "c_cast F (c_cast T v) \<noteq> v"
    using c_cast_back [of T F v] assms(1,3) False by blast
  then show ?thesis
    using False \<open>bits T < bits F\<close>
    by (auto simp: narrowed_def verify_return_int_def raise_overflow_def raise_neg_overflow_def)
qed

lemmas ctype_defs =
  c_int_def c_long_def c_ulong_def c_size_t_def c_uint32_t_def c_int32_t_def c_uint64_t_def
  c_int64_t_def c_uint_def c_digit_def c_sdigit_def

definition std_width :: "ctype \<Rightarrow> bool" where
  "std_width T \<longleftrightarrow> bits T = 32 \<or> bits T = 64"

lemma pylong_of_simps:
  "ob_digit (pylong_of n) = digits_of (nat \<bar>n\<bar>)"
  "Py_SIZE (pylong_of n) =
     (if n < 0 then - int (length (digits_of (nat \<bar>n\<bar>))) else int (length (digits_of (nat \<bar>n\<bar>))))"
  by (simp_all add: pylong_of_def Let_def)

lemma size_bound: "length (digits_of (nat \<bar>n\<bar>)) \<le> k \<longleftrightarrow> \<bar>n\<bar> < 2 ^ (30 * k)"
proof -
  have "nat \<bar>n\<bar> < 2 ^ (30 * k) \<longleftrightarrow> \<bar>n\<bar> < int (2 ^ (30 * k))"
    by (rule nat_less_iff) simp
  then show ?thesis by (simp add: length_digits_of_le)
qed

lemma narrowed_overflow: "\<not> in_range T v \<Longrightarrow> narrowed T v (Inl (Exn OverflowError (Text msg)))"
  by (simp add: narrowed_def)

lemma slow_signed:
  assumes "is_signed T" "std_width T"
  shows "narrowed T n (verify_return_int_exc T c_long (PyLong_AsLong (pylong_of n)))"
proof (cases "in_range c_long n")
  case True
  then have "narrowed T n (verify_return_int T c_long n)"
    using assms by (intro verify_narrowed) (auto simp: std_width_def ctype_defs in_range_def)
  then show ?thesis using True by (simp add: verify_return_int_exc_def PyLong_AsLong_def)
next
  case False
  then have "\<not> in_range T n"
    using assms by (auto simp: std_width_def ctype_defs in_range_def)
  then show ?thesis
    using False by (simp add: verify_return_int_exc_def PyLong_AsLong_def narrowed_overflow)
qed

lemma slow_unsigned:
  assumes "\<not> is_signed T" "std_width T"
  shows "narrowed T n (if Py_SIZE (pylong_of n) < 0 then raise_neg_overflow T
           else verify_return_int_exc T c_ulong (PyLong_AsUnsignedLong (pylong_of n)))"
proof (cases "n < 0")
  case True
  then have "\<not> in_range T n" using assms by (auto simp: in_range_def)
  then show ?thesis
    using True by (simp add: Py_SIZE_neg_iff raise_neg_overflow_def narrowed_overflow)
next
  case nonneg: False
  show ?thesis
  proof (cases "in_range c_ulong n")
    case True
    then have "narrowed T n (verify_return_int T c_ulong n)"
      using assms by (intro verify_narrowed) (auto simp: std_width_def ctype_defs in_range_def)
    then show ?thesis
      using True nonneg
      by (simp add: verify_return_int_exc_def PyLong_AsUnsignedLong_def Py_SIZE_neg_iff)
  next
    case False
    then have "\<not> in_range T n"
      using assms nonneg by (auto simp: std_width_def ctype_defs in_range_def)
    then show ?thesis
      using False nonneg
      by (simp add: verify_return_int_exc_def PyLong_AsUnsignedLong_def narrowed_overflow
          Py_SIZE_neg_iff)
  qed
qed

lemma case_pos_wide: "std_width T \<Longrightarrow> 3 \<le> k \<Longrightarrow> case_pos T x k slow = slow"
  by (auto simp: case_pos_def std_width_def PyLong_SHIFT_def ctype_defs)

lemma case_neg_wide: "std_width T \<Longrightarrow> 3 \<le> k \<Longrightarrow> case_neg T x k slow = slow"
  by (auto simp: case_neg_def std_width_def PyLong_SHIFT_def ctype_defs)

lemma two_digits:
  assumes "length (digits_of (nat \<bar>n\<bar>)) = 2"
  shows "join_digits c_ulong (take 2 (ob_digit (pylong_of n))) = \<bar>n\<bar>" and "\<bar>n\<bar> < 2 ^ 60"
proof -
  have "join_digits c_ulong (digits_of (nat \<bar>n\<bar>)) = digits_value (digits_of (nat \<bar>n\<bar>))"
    using assms by (intro join_digits_value) (auto dest: digits_of_digit simp: ctype_defs)
  then show "join_digits c_ulong (take 2 (ob_digit (pylong_of n))) = \<bar>n\<bar>"
    using assms by (simp add: pylong_of_simps digits_value_digits_of)
  show "\<bar>n\<bar> < 2 ^ 60" using size_bound [of n 2] assms by simp
qed

lemma one_digit:
  assumes "length (digits_of (nat \<bar>n\<bar>)) = 1"
  shows "ob_digit (pylong_of n) ! 0 = \<bar>n\<bar>" and "\<bar>n\<bar> < 2 ^ 30"
proof -
  from assms obtain d where d: "digits_of (nat \<bar>n\<bar>) = [d]" by (auto simp: length_Suc_conv)
  then show "ob_digit (pylong_of n) ! 0 = \<bar>n\<bar>"
    using digits_value_digits_of [of "nat \<bar>n\<bar>"] by (simp add: pylong_of_simps)
  show "\<bar>n\<bar> < 2 ^ 30" using size_bound [of n 1] assms by simp
qed

lemma case_pos_two:
  assumes "std_width T" "0 \<le> n" "length (digits_of (nat \<bar>n\<bar>)) = 2"
  shows "narrowed T n (case_pos T (pylong_of n) 2 slow)"
proof -
  have "narrowed T n (verify_return_int T c_ulong n)"
    using two_digits(2) [OF assms(3)] assms(1,2)
    by (intro verify_narrowed) (auto simp: std_width_def ctype_defs in_range_def)
  then show ?thesis
    using assms two_digits(1) [OF assms(3)]
    by (auto simp: case_pos_def std_width_def PyLong_SHIFT_def ctype_defs)
qed

lemma case_neg_two:
  assumes "std_width T" "n < 0" "length (digits_of (nat \<bar>n\<bar>)) = 2" "is_signed T"
  shows "narrowed T n (case_neg T (pylong_of n) 2 slow)"
proof -
  have b: "\<bar>n\<bar> < 2 ^ 60" by (rule two_digits(2) [OF assms(3)])
  have "narrowed T n (verify_return_int T c_long n)"
    using b assms(1,2,4)
    by (intro verify_narrowed) (auto simp: std_width_def ctype_defs in_range_def)
  moreover have "c_cast c_long \<bar>n\<bar> = \<bar>n\<bar>" "c_cast c_long n = n"
    using b by (auto intro!: c_cast_in_range simp: ctype_defs in_range_def)
  ultimately show ?thesis
    using assms two_digits(1) [OF assms(3)]
    by (auto simp: case_neg_def std_width_def PyLong_SHIFT_def c_ulong_def c_long_def)
qed

lemma case_one:
  assumes "std_width T" "length (digits_of (nat \<bar>n\<bar>)) = 1"
  shows "0 \<le> n \<Longrightarrow> narrowed T n (verify_return_int T c_digit (ob_digit (pylong_of n) ! 0))"
    and "n < 0 \<Longrightarrow> is_signed T \<Longrightarrow> narrowed T n (verify_return_int T c_sdigit
           (c_cast c_sdigit (- c_cast c_sdigit (ob_digit (pylong_of n) ! 0))))"
proof -
  have b: "\<bar>n\<bar> < 2 ^ 30" by (rule one_digit(2) [OF assms(2)])
  {
    assume "0 \<le> n"
    then show "narrowed T n (verify_return_int T c_digit (ob_digit (pylong_of n) ! 0))"
      using one_digit(1) [OF assms(2)] b assms(1)
      by (simp, intro verify_narrowed) (auto simp: std_width_def ctype_defs in_range_def)
  }
  assume neg: "n < 0" "is_signed T"
  have "c_cast c_sdigit \<bar>n\<bar> = \<bar>n\<bar>" "c_cast c_sdigit n = n"
    using b by (auto intro!: c_cast_in_range simp: ctype_defs in_range_def)
  moreover have "narrowed T n (verify_return_int T c_sdigit n)"
    using b assms(1) neg by (intro verify_narrowed) (auto simp: std_width_def ctype_defs in_range_def)
  ultimately show "narrowed T n (verify_return_int T c_sdigit
           (c_cast c_sdigit (- c_cast c_sdigit (ob_digit (pylong_of n) ! 0))))"
    using one_digit(1) [OF assms(2)] neg by simp
qed

lemma narrowed_zero: "std_width T \<Longrightarrow> narrowed T 0 (Inr 0)"
  by (simp add: narrowed_def in_range_def)

lemma as_signed_narrowed:
  assumes "is_signed T" "std_width T"
  shows "narrowed T n (as_signed T (pylong_of n))"
proof -
  let ?L = "length (digits_of (nat \<bar>n\<bar>))"
  have le: "bits T \<le> bits c_long" using assms(2) by (auto simp: std_width_def ctype_defs)
  have slow: "narrowed T n (verify_return_int_exc T c_long (PyLong_AsLong (pylong_of n)))"
    using assms by (rule slow_signed)
  have "n = 0 \<or> ?L \<noteq> 0" by simp
  then have "n = 0 \<or> n \<noteq> 0 \<and> ?L = 1 \<or> n \<noteq> 0 \<and> ?L = 2 \<or> n \<noteq> 0 \<and> 3 \<le> ?L"
    by arith
  then consider "n = 0" | "n \<noteq> 0" "?L = 1" | "n \<noteq> 0" "?L = 2" | "n \<noteq> 0" "3 \<le> ?L"
    by blast
  then show ?thesis
  proof cases
    case 1
    then show ?thesis using narrowed_zero [OF assms(2)] by (simp add: as_signed_def pylong_of_simps)
  next
    case 2
    then show ?thesis
      using case_one [OF assms(2) 2(2)] assms(1)
      by (cases "n < 0") (simp_all add: as_signed_def pylong_of_simps(2))
  next
    case 3
    then show ?thesis
      using case_pos_two [OF assms(2) _ 3(2)] case_neg_two [OF assms(2) _ 3(2) assms(1)]
      by (cases "n < 0") (simp_all add: as_signed_def pylong_of_simps(2))
  next
    case 4
    then show ?thesis
      using slow le case_pos_wide [OF assms(2)] case_neg_wide [OF assms(2)]
      by (cases "n < 0") (auto simp: as_signed_def pylong_of_simps(2) Let_def)
  qed
qed

lemma as_unsigned_narrowed:
  assumes "\<not> is_signed T" "std_width T"
  shows "narrowed T n (as_unsigned T (pylong_of n))"
proof -
  let ?L = "length (digits_of (nat \<bar>n\<bar>))"
  have le: "bits T \<le> bits c_ulong" using assms(2) by (auto simp: std_width_def ctype_defs)
  note slow = slow_unsigned [OF assms, of n]
  have "n = 0 \<or> ?L \<noteq> 0" by simp
  then have "n = 0 \<or> n < 0 \<or> 0 < n \<and> ?L = 1 \<or> 0 < n \<and> ?L = 2 \<or> 0 < n \<and> 3 \<le> ?L"
    by arith
  then consider "n = 0" | "n < 0" | "0 < n" "?L = 1" | "0 < n" "?L = 2" | "0 < n" "3 \<le> ?L"
    by blast
  then show ?thesis
  proof cases
    case 1
    then show ?thesis using narrowed_zero [OF assms(2)] by (simp add: as_unsigned_def pylong_of_simps)
  next
    case 2
    then show ?thesis
      using slow by (simp add: as_unsigned_def pylong_of_simps(2))
  next
    case 3
    then show ?thesis
      using case_one(1) [OF assms(2) 3(2)] by (simp add: as_unsigned_def pylong_of_simps(2))
  next
    case 4
    then show ?thesis
      using case_pos_two [OF assms(2) _ 4(2)] by (simp add: as_unsigned_def pylong_of_simps(2))
  next
    case 5
    then show ?thesis
      using slow le case_pos_wide [OF assms(2)]
      by (auto simp: as_unsigned_def pylong_of_simps(2) Let_def)
  qed
qed

lemma as_pylong_narrowed: "std_width T \<Longrightarrow> narrowed T n (as_pylong T (pylong_of n))"
  by (simp add: as_pylong_def as_signed_narrowed as_unsigned_narrowed)

lemma as_pylong_in_range:
  assumes "std_width T" "as_pylong T (pylong_of m) = Inr n"
  shows "n = m" and "in_range T n"
  using as_pylong_narrowed [OF assms(1), of m] assms(2) by (auto simp: narrowed_def split: if_splits)

lemma PyInt_As_PInt: "PyInt_As T E (PInt n) = as_pylong T (pylong_of n)"
  by (simp add: PyInt_As_def)

lemma PyInt_As_range: "std_width T \<Longrightarrow> PyInt_As T E x = Inr n \<Longrightarrow> in_range T n"
  by (auto simp: PyInt_As_def bind_res_convs split: option.splits dest: as_pylong_in_range)

lemmas PyInt_As_instances =
  PyInt_As_int_def PyInt_As_long_def PyInt_As_size_t_def PyInt_As_uint32_t_def
  PyInt_As_int32_t_def PyInt_As_uint64_t_def PyInt_As_unsigned_int_def

lemmas PyInt_From_instances =
  PyInt_From_int_def PyInt_From_long_def PyInt_From_uint32_t_def PyInt_From_uint64_t_def
  PyInt_From_unsigned_int_def PyInt_From_int64_t_def

lemma std_width_ctypes [simp]:
  "std_width c_int" "std_width c_long" "std_width c_size_t" "std_width c_uint32_t"
  "std_width c_int32_t" "std_width c_uint64_t" "std_width c_int64_t" "std_width c_uint"
  by (simp_all add: std_width_def ctype_defs)

lemma PyInt_From_value:
  assumes "std_width T" "in_range T n"
  shows "PyInt_From T n = PInt n"
proof -
  have "0 < bits T" using assms(1) by (auto simp: std_width_def)
  moreover have "is_signed T \<Longrightarrow> in_range c_long n"
    "\<not> is_signed T \<Longrightarrow> bits T < bits c_long \<Longrightarrow> in_range c_long n"
    "\<not> is_signed T \<Longrightarrow> in_range c_ulong n"
    using assms by (auto simp: std_width_def in_range_def ctype_defs)
  moreover have "0 < bits c_long" "0 < bits c_ulong" by (simp_all add: ctype_defs)
  ultimately show ?thesis
    using assms(2) by (auto simp: PyInt_From_def c_cast_in_range)
qed

subsection \<open>The interface of an integer field\<close>

text \<open>
  A component that stores a C integer on behalf of Python (an option, an identifier) needs a
  pair of conversions with these laws; the getter and setter lemmas are proved once from them.
\<close>

locale int_slot =
  fixes as_c :: "pyenv \<Rightarrow> pyobj \<Rightarrow> pyexn + int"
    and from_c :: "int \<Rightarrow> pyobj"
    and valid :: "int \<Rightarrow> bool"
  assumes as_valid: "valid n \<Longrightarrow> as_c E (PInt n) = Inr n"
    and as_invalid: "\<not> valid n \<Longrightarrow> \<exists>msg. as_c E (PInt n) = Inl (Exn OverflowError (Text msg))"
    and as_result: "as_c E x = Inr n \<Longrightarrow> valid n"
    and from_valid: "valid n \<Longrightarrow> from_c n = PInt n"
begin

lemma store_load: "as_c E x = Inr n \<Longrightarrow> as_c E' (from_c n) = Inr n"
  by (simp add: as_result as_valid from_valid)

lemma load_store: "valid n \<Longrightarrow> as_c E (from_c n) = Inr n"
  by (simp add: as_valid from_valid)

lemma store_int_iff: "as_c E (PInt n) = Inr m \<longleftrightarrow> valid n \<and> m = n"
  by (metis as_invalid as_valid Inl_Inr_False Inr_inject)

lemma from_inject: "valid n \<Longrightarrow> valid m \<Longrightarrow> from_c n = from_c m \<Longrightarrow> n = m"
  by (simp add: from_valid)

end

lemma int_slot_PyInt: "std_width T \<Longrightarrow> int_slot (PyInt_As T) (PyInt_From T) (in_range T)"
  by unfold_locales
    (use as_pylong_narrowed in \<open>auto simp: PyInt_As_PInt narrowed_def PyInt_From_value
      dest: PyInt_As_range\<close>)

interpretation slot_int: int_slot PyInt_As_int PyInt_From_int "in_range c_int"
  unfolding PyInt_As_int_def PyInt_From_int_def by (rule int_slot_PyInt) simp

interpretation slot_long: int_slot PyInt_As_long PyInt_From_long "in_range c_long"
  unfolding PyInt_As_long_def PyInt_From_long_def by (rule int_slot_PyInt) simp

interpretation slot_uint32: int_slot PyInt_As_uint32_t PyInt_From_uint32_t "in_range c_uint32_t"
  unfolding PyInt_As_uint32_t_def PyInt_From_uint32_t_def by (rule int_slot_PyInt) simp

interpretation slot_uint64: int_slot PyInt_As_uint64_t PyInt_From_uint64_t "in_range c_uint64_t"
  unfolding PyInt_As_uint64_t_def PyInt_From_uint64_t_def by (rule int_slot_PyInt) simp

interpretation slot_uint: int_slot PyInt_As_unsigned_int PyInt_From_unsigned_int "in_range c_uint"
  unfolding PyInt_As_unsigned_int_def PyInt_From_unsigned_int_def by (rule int_slot_PyInt) simp

lemma PyInt_FromSize_t_eq: "PyInt_FromSize_t = PyInt_From c_size_t"
  by (simp add: fun_eq_iff PyInt_FromSize_t_def PyInt_From_def ctype_defs c_cast_def)

interpretation slot_size_t: int_slot PyInt_As_size_t PyInt_FromSize_t "in_range c_size_t"
  unfolding PyInt_As_size_t_def PyInt_FromSize_t_eq by (rule int_slot_PyInt) simp

subsection \<open>Properties\<close>

text \<open>
  C10. Each of the seven converters the module contains maps a Python integer of any size to
  itself when it fits the C type, and raises OverflowError otherwise: no digit count, sign or
  width combination of the digit switch wraps silently.
\<close>

theorem PyInt_As_exact:
  "narrowed c_int n (PyInt_As_int E (PInt n)) \<and>
   narrowed c_long n (PyInt_As_long E (PInt n)) \<and>
   narrowed c_size_t n (PyInt_As_size_t E (PInt n)) \<and>
   narrowed c_uint32_t n (PyInt_As_uint32_t E (PInt n)) \<and>
   narrowed c_int32_t n (PyInt_As_int32_t E (PInt n)) \<and>
   narrowed c_uint64_t n (PyInt_As_uint64_t E (PInt n)) \<and>
   narrowed c_uint n (PyInt_As_unsigned_int E (PInt n))"
  by (simp add: PyInt_As_instances PyInt_As_PInt as_pylong_narrowed)

text \<open>
  Boxing a C value and converting it back is the identity for every value of the type, for
  each converter pair the module uses for option fields.
\<close>

theorem PyInt_From_As_roundtrip:
  assumes "in_range c_int a" "in_range c_uint32_t b" "in_range c_uint64_t c"
    "in_range c_uint d" "in_range c_size_t e"
  shows "PyInt_As_int E (PyInt_From_int a) = Inr a \<and>
    PyInt_As_uint32_t E (PyInt_From_uint32_t b) = Inr b \<and>
    PyInt_As_uint64_t E (PyInt_From_uint64_t c) = Inr c \<and>
    PyInt_As_unsigned_int E (PyInt_From_unsigned_int d) = Inr d \<and>
    PyInt_As_size_t E (PyInt_FromSize_t e) = Inr e"
  using assms
  by (simp add: slot_int.load_store slot_uint32.load_store slot_uint64.load_store
      slot_uint.load_store slot_size_t.load_store)

theorem PyInt_From_As_roundtrip_witness:
  "PyInt_As_int plain_env (PyInt_From_int (- 2147483648)) = Inr (- 2147483648) \<and>
   PyInt_As_size_t plain_env (PyInt_FromSize_t 18446744073709551615) = Inr 18446744073709551615"
  using PyInt_From_As_roundtrip [of "- 2147483648" 4294967295 0 7 18446744073709551615 plain_env]
  by (simp add: in_range_def ctype_defs)

end
