(* ===== verification/ByteStrings.thy ===== *)
theory ByteStrings
  imports IntConv
begin

section \<open>Conversions between Python strings and C++ strings\<close>

text \<open>
  The helpers at the head of \<open>rocksdb/_rocksdb.cpp\<close> (\<open>bytes_to_string\<close>,
  \<open>string_to_bytes\<close>, \<open>bytes_to_slice\<close>, \<open>slice_to_bytes\<close>, \<open>path_to_string\<close>,
  \<open>string_to_path\<close>), the container conversions Cython instantiates, and integer indexing.
  A \<open>std::string\<close> and the memory a \<open>Slice\<close> points to are byte lists.
\<close>

subsection \<open>Bytes objects\<close>

text \<open>\<open>PyBytes_AsString\<close> and \<open>PyBytes_Size\<close>: a TypeError unless the object is \<open>bytes\<close>.\<close>

fun PyBytes_AsString :: "pyobj \<Rightarrow> pyexn + bytes" where
  "PyBytes_AsString (PBytes bs) = Inr bs"
| "PyBytes_AsString x = Inl (Exn TypeError (Fmt ''expected bytes, %.200s found'' [x]))"

fun PyBytes_Size :: "pyobj \<Rightarrow> pyexn + nat" where
  "PyBytes_Size (PBytes bs) = Inr (length bs)"
| "PyBytes_Size x = Inl (Exn TypeError (Fmt ''expected bytes, %.200s found'' [x]))"

text \<open>\<open>std::string(p, n)\<close> and \<open>Slice(p, n)\<close> take \<open>n\<close> bytes, NUL bytes included.\<close>

definition bytes_to_string :: "pyobj \<Rightarrow> pyexn + bytes" where
  "bytes_to_string path =
     bind_res (PyBytes_AsString path) (\<lambda>p.
     bind_res (PyBytes_Size path) (\<lambda>n. Inr (take n p)))"

definition bytes_to_slice :: "pyobj \<Rightarrow> pyexn + bytes" where
  "bytes_to_slice ob =
     bind_res (PyBytes_AsString ob) (\<lambda>p.
     bind_res (PyBytes_Size ob) (\<lambda>n. Inr (take n p)))"

definition string_to_bytes :: "bytes \<Rightarrow> pyobj" where
  "string_to_bytes s = PBytes s"

definition slice_to_bytes :: "bytes \<Rightarrow> pyobj" where
  "slice_to_bytes sl = PBytes sl"

text \<open>\<open>PyBytes_FromString\<close> stops at the first NUL.\<close>

definition PyBytes_FromString :: "bytes \<Rightarrow> pyobj" where
  "PyBytes_FromString s = PBytes (c_str s)"

lemma bytes_to_string_simps [simp]:
  "bytes_to_string (PBytes bs) = Inr bs" "bytes_to_slice (PBytes bs) = Inr bs"
  by (simp_all add: bytes_to_string_def bytes_to_slice_def)

lemma PyBytes_AsString_iff: "PyBytes_AsString x = Inr bs \<longleftrightarrow> x = PBytes bs"
  by (cases x) auto

lemma bytes_to_string_iff: "bytes_to_string x = Inr bs \<longleftrightarrow> x = PBytes bs"
  by (cases x) (auto simp: bytes_to_string_def)

lemma bytes_to_slice_iff: "bytes_to_slice x = Inr bs \<longleftrightarrow> x = PBytes bs"
  by (cases x) (auto simp: bytes_to_slice_def)

lemma bytes_to_string_error: "bytes_to_string x = Inl e \<Longrightarrow> exn_class e = TypeError"
  by (cases x) (auto simp: bytes_to_string_def)

lemma bytes_to_slice_error: "bytes_to_slice x = Inl e \<Longrightarrow> exn_class e = TypeError"
  by (cases x) (auto simp: bytes_to_slice_def)

subsection \<open>Unchecked casts\<close>

text \<open>
  \<open><bytes>x\<close> in the source is a pointer cast: \<open>__Pyx_PyBytes_AsString\<close> is the macro
  \<open>PyBytes_AS_STRING\<close>, which does not look at the type. Its consumers read a C string.
\<close>

definition raw_buffer :: "pyenv \<Rightarrow> pyobj \<Rightarrow> bytes" where
  "raw_buffer E x = (case x of PBytes bs \<Rightarrow> bs | _ \<Rightarrow> peek E x)"

subsection \<open>Strings of any accepted type\<close>

text \<open>
  \<open>__Pyx_PyObject_AsStringAndSize\<close> in a build without a default string encoding, and the
  conversion to \<open>std::string\<close> built on it: \<open>bytes\<close> and \<open>bytearray\<close>, nothing else.
\<close>

fun PyObject_AsStringAndSize :: "pyobj \<Rightarrow> pyexn + bytes" where
  "PyObject_AsStringAndSize (PByteArray bs) = Inr bs"
| "PyObject_AsStringAndSize x = PyBytes_AsString x"

definition convert_string_from_py :: "pyobj \<Rightarrow> pyexn + bytes" where
  "convert_string_from_py ob =
     bind_res (PyObject_AsStringAndSize ob) (\<lambda>p. Inr p)"

definition convert_PyBytes_string_to_py :: "bytes \<Rightarrow> pyobj" where
  "convert_PyBytes_string_to_py s = PBytes s"

definition convert_vector_to_py_string :: "bytes list \<Rightarrow> pyobj" where
  "convert_vector_to_py_string v = PList (map convert_PyBytes_string_to_py v)"

definition convert_vector_to_py_int :: "int list \<Rightarrow> pyobj" where
  "convert_vector_to_py_int v = PList (map PyInt_From_int v)"

definition convert_vector_from_py_int :: "pyenv \<Rightarrow> pyobj \<Rightarrow> pyexn + int list" where
  "convert_vector_from_py_int E ob = for_each E ob (PyInt_As_int E)"

subsection \<open>File system paths\<close>

definition path_to_string :: "pyenv \<Rightarrow> pyobj \<Rightarrow> pyexn + bytes" where
  "path_to_string E path =
     (case path of
        PBytes _ \<Rightarrow> bytes_to_string path
      | PStr s \<Rightarrow> bind_res (fs_encode E s) bytes_to_string
      | _ \<Rightarrow> Inl (Exn TypeError (Fmt ''Wrong type for path: %s'' [path])))"

definition string_to_path :: "pyenv \<Rightarrow> bytes \<Rightarrow> pyexn + pyobj" where
  "string_to_path E path = fs_decode E path"

subsection \<open>Indexing by a constant\<close>

text \<open>
  \<open>__Pyx_GetItemInt_Fast\<close> with bounds check and without wrap-around: lists and tuples are
  read directly, an index out of range and every other type go to the object's own protocol.
\<close>

definition GetItemInt_Fast :: "pyenv \<Rightarrow> pyobj \<Rightarrow> nat \<Rightarrow> pyexn + pyobj" where
  "GetItemInt_Fast E ob i =
     (case ob of
        PList xs \<Rightarrow>
          if i < length xs then Inr (xs ! i)
          else Inl (Exn IndexError (Text ''list index out of range''))
      | PTuple xs \<Rightarrow>
          if i < length xs then Inr (xs ! i)
          else Inl (Exn IndexError (Text ''tuple index out of range''))
      | _ \<Rightarrow> getitem E ob i)"

lemma GetItemInt_simps [simp]:
  "GetItemInt_Fast E (PTuple [a, b]) 0 = Inr a"
  "GetItemInt_Fast E (PTuple [a, b]) (Suc 0) = Inr b"
  by (simp_all add: GetItemInt_Fast_def)

subsection \<open>Lists of integers\<close>

lemma vector_int_roundtrip:
  "(\<And>n. n \<in> set v \<Longrightarrow> in_range c_int n) \<Longrightarrow>
   convert_vector_from_py_int E (convert_vector_to_py_int v) = Inr v"
  by (induction v)
    (auto simp: convert_vector_from_py_int_def convert_vector_to_py_int_def for_each_list
      slot_int.load_store)

lemma map_res_range:
  "map_res (PyInt_As_int E) xs = Inr v \<Longrightarrow> n \<in> set v \<Longrightarrow> in_range c_int n"
  by (induction xs arbitrary: v) (auto simp: bind_res_convs dest: slot_int.as_result)

lemma vector_int_range:
  "convert_vector_from_py_int E ob = Inr v \<Longrightarrow> n \<in> set v \<Longrightarrow> in_range c_int n"
  by (auto simp: convert_vector_from_py_int_def for_each_def bind_res_convs
      split: option.splits dest: map_res_range)

end
