(* ===== verification/Status.thy ===== *)
theory Status
  imports ByteStrings
begin

section \<open>Status values and the exceptions they become\<close>

text \<open>
  \<open>rocksdb::Status\<close> is RocksDB's; what the binding sees of one is the answer of each
  predicate it calls and the text of \<open>ToString()\<close>. \<open>check_status\<close> tests them in the
  source's order.
\<close>

record status =
  st_ok :: bool
  IsNotFound :: bool
  IsCorruption :: bool
  IsNotSupported :: bool
  IsInvalidArgument :: bool
  IsIOError :: bool
  IsMergeInProgress :: bool
  IsIncomplete :: bool
  ToString :: bytes

text \<open>\<open>raise errors.X(st.ToString())\<close>\<close>

definition raise_status :: "exn_class \<Rightarrow> status \<Rightarrow> pyexn + unit" where
  "raise_status cls st = Inl (Exn cls (Data (ToString st)))"

text \<open>The tests after the first three, and the last ones with the code nobody asked for.\<close>

definition check_last :: "status \<Rightarrow> pyexn + unit" where
  "check_last st =
     (if IsMergeInProgress st then raise_status MergeInProgress st
      else if IsIncomplete st then raise_status Incomplete st
      else Inl (Exn PlainException
             (Fmt ''Unknown error: %s'' [convert_PyBytes_string_to_py (ToString st)])))"

definition check_more :: "status \<Rightarrow> pyexn + unit" where
  "check_more st =
     (if IsNotSupported st then raise_status NotSupported st
      else if IsInvalidArgument st then raise_status InvalidArgument st
      else if IsIOError st then raise_status RocksIOError st
      else check_last st)"

declare raise_status_def [simp] check_last_def [simp] check_more_def [simp]

definition check_status :: "status \<Rightarrow> pyexn + unit" where
  "check_status st =
     (if st_ok st then Inr ()
      else if IsNotFound st then raise_status NotFound st
      else if IsCorruption st then raise_status Corruption st
      else check_more st)"

text \<open>
  The codes RocksDB documents, and the status of a code: at most one predicate answers yes.
  \<open>OtherCode\<close> stands for the codes the binding has no test for (busy, timed out, ...).
\<close>

datatype code = Ok | NotFoundCode | CorruptionCode | NotSupportedCode | InvalidArgumentCode
  | IOErrorCode | MergeInProgressCode | IncompleteCode | OtherCode

definition status_of :: "code \<Rightarrow> bytes \<Rightarrow> status" where
  "status_of c m =
     \<lparr>st_ok = (c = Ok), IsNotFound = (c = NotFoundCode), IsCorruption = (c = CorruptionCode),
      IsNotSupported = (c = NotSupportedCode), IsInvalidArgument = (c = InvalidArgumentCode),
      IsIOError = (c = IOErrorCode), IsMergeInProgress = (c = MergeInProgressCode),
      IsIncomplete = (c = IncompleteCode), ToString = m\<rparr>"

fun code_class :: "code \<Rightarrow> exn_class" where
  "code_class NotFoundCode = NotFound"
| "code_class CorruptionCode = Corruption"
| "code_class NotSupportedCode = NotSupported"
| "code_class InvalidArgumentCode = InvalidArgument"
| "code_class IOErrorCode = RocksIOError"
| "code_class MergeInProgressCode = MergeInProgress"
| "code_class IncompleteCode = Incomplete"
| "code_class Ok = PlainException"
| "code_class OtherCode = PlainException"

lemma check_status_Inr_iff [simp]: "check_status st = Inr u \<longleftrightarrow> st_ok st"
  by (simp add: check_status_def)

lemma check_status_ok [simp]: "st_ok st \<Longrightarrow> check_status st = Inr ()"
  by simp

lemma check_status_error: "\<not> st_ok st \<Longrightarrow> \<exists>e. check_status st = Inl e"
  by (cases "check_status st") auto

lemma check_status_of:
  "c \<noteq> Ok \<Longrightarrow> \<exists>m'. check_status (status_of c m) = Inl (Exn (code_class c) m')"
  by (cases c) (auto simp: check_status_def status_of_def)

subsection \<open>Properties\<close>

text \<open>
  C37. A status becomes an exception exactly when its code is not OK; each of the seven codes the
  binding knows has an exception class of its own that carries the status text, and every
  other code becomes a plain Exception.
\<close>

theorem status_exception_classes:
  "(check_status (status_of c m) = Inr () \<longleftrightarrow> c = Ok) \<and>
   (c \<notin> {Ok, OtherCode} \<longrightarrow> check_status (status_of c m) = Inl (Exn (code_class c) (Data m))) \<and>
   (c \<notin> {Ok, OtherCode} \<and> c' \<notin> {Ok, OtherCode} \<and> code_class c = code_class c' \<longrightarrow> c = c') \<and>
   (\<exists>t. check_status (status_of OtherCode m) = Inl (Exn PlainException t))"
  by (cases c; cases c') (simp_all add: check_status_def status_of_def)

theorem status_exception_classes_witness:
  "check_status (status_of CorruptionCode [66]) = Inl (Exn Corruption (Data [66]))"
  using status_exception_classes [of CorruptionCode "[66]" Ok] by simp

end
