(* ===== verification/Callbacks.thy ===== *)
theory Callbacks
  imports Status
begin

section \<open>Callbacks from RocksDB into Python\<close>

text \<open>
  The comparator, filter-policy and slice-transform bridges: the C++ classes of
  \<open>rocksdb/cpp/comparator_wrapper.hpp\<close>, \<open>filter_policy_wrapper.hpp\<close> and
  \<open>slice_transform_wrapper.hpp\<close>, the callback functions of \<open>rocksdb/_rocksdb.cpp\<close> they
  hold, and the Cython classes that own them. A user object is known by its answers to
  \<open>isinstance\<close> and to method calls (attribute lookup included).
\<close>

subsection \<open>User objects and the outcome of a callback\<close>

datatype iface =
  IComparator | IFilterPolicy | IMergeOperator | IAssociativeMergeOperator | ISliceTransform

record user_ob =
  ob_self :: pyobj
  isinst :: "iface \<Rightarrow> pyexn + bool"
  call :: "string \<Rightarrow> pyobj list \<Rightarrow> pyexn + pyobj"

type_synonym log_ptr = "nat option"
type_synonym log_line = "log_ptr \<times> string \<times> bytes"

text \<open>
  What a callback leaves behind: its C return value, the text assigned to the
  \<open>string& error_msg\<close> argument (empty: not assigned), the lines written to the logger, and
  the exception reported by \<open>__Pyx_WriteUnraisable\<close>.
\<close>

record 'a cb_out =
  cb_ret :: 'a
  cb_error :: bytes
  cb_log :: "log_line list"
  cb_unraisable :: "pyexn option"

definition returned :: "'a \<Rightarrow> 'a cb_out" where
  "returned v = \<lparr>cb_ret = v, cb_error = [], cb_log = [], cb_unraisable = None\<rparr>"

subsection \<open>The exception handlers\<close>

text \<open>The check in front of an unchecked \<open><bytes>\<close> cast: only \<open>None\<close> is refused.\<close>

definition not_None :: "pyobj \<Rightarrow> pyexn + pyobj" where
  "not_None x =
     (if x = PNone then Inl (Exn TypeError (Text ''expected bytes, NoneType found'')) else Inr x)"

definition rocksdb_Log :: "pyenv \<Rightarrow> log_ptr \<Rightarrow> string \<Rightarrow> bytes \<Rightarrow> pyexn + log_line" where
  "rocksdb_Log E log fmt arg =
     (case log_fails E fmt (c_str arg) of
        Some e \<Rightarrow> Inl e
      | None \<Rightarrow> Inr (log, fmt, c_str arg))"

text \<open>\<open>tb = traceback.format_exc(); logger.Log(log, fmt, <bytes>tb)\<close>\<close>

definition log_traceback :: "pyenv \<Rightarrow> log_ptr \<Rightarrow> string \<Rightarrow> pyexn \<Rightarrow> pyexn + log_line" where
  "log_traceback E log fmt e =
     bind_res (format_exc E e) (\<lambda>tb.
     bind_res (not_None tb) (\<lambda>tb. rocksdb_Log E log fmt (raw_buffer E tb)))"

text \<open>
  \<open>except BaseException as error\<close>: log the traceback, then
  \<open>error_msg.assign(<bytes>str(error))\<close>. When one of these steps fails, the new exception is
  written out as unraisable and the callback returns its default with \<open>error_msg\<close> unassigned.
\<close>

definition except_as_error :: "pyenv \<Rightarrow> log_ptr \<Rightarrow> string \<Rightarrow> 'a \<Rightarrow> pyexn \<Rightarrow> 'a cb_out" where
  "except_as_error E log fmt d e =
     (case log_traceback E log fmt e of
        Inl e' \<Rightarrow> \<lparr>cb_ret = d, cb_error = [], cb_log = [], cb_unraisable = Some e'\<rparr>
      | Inr l \<Rightarrow>
          (case bind_res (str_of E e) not_None of
             Inl e' \<Rightarrow> \<lparr>cb_ret = d, cb_error = [], cb_log = [l], cb_unraisable = Some e'\<rparr>
           | Inr m \<Rightarrow>
               \<lparr>cb_ret = d, cb_error = c_str (raw_buffer E m), cb_log = [l],
                cb_unraisable = None\<rparr>))"

definition try_callback :: "pyenv \<Rightarrow> log_ptr \<Rightarrow> string \<Rightarrow> 'a \<Rightarrow> pyexn + 'a \<Rightarrow> 'a cb_out" where
  "try_callback E log fmt d body =
     (case body of Inr v \<Rightarrow> returned v | Inl e \<Rightarrow> except_as_error E log fmt d e)"

text \<open>
  \<open>if (error_msg.size()) throw std::runtime_error(error_msg.c_str()); return val;\<close> in every
  wrapper method.
\<close>

definition throw_error :: "'a cb_out \<Rightarrow> cpp_exn + 'a" where
  "throw_error out =
     (if length (cb_error out) \<noteq> 0 then Inl (Runtime_error (c_str (cb_error out)))
      else Inr (cb_ret out))"

subsection \<open>Comparators\<close>

definition compare_callback ::
    "pyenv \<Rightarrow> user_ob \<Rightarrow> log_ptr \<Rightarrow> bytes \<Rightarrow> bytes \<Rightarrow> int cb_out" where
  "compare_callback E ctx log a b =
     try_callback E log ''Error in compare callback: %s'' 0
       (bind_res (call ctx ''compare'' [slice_to_bytes a, slice_to_bytes b]) (PyInt_As_int E))"

record ComparatorWrapper =
  cw_name :: bytes
  compare_context :: user_ob
  cw_info_log :: log_ptr

definition new_ComparatorWrapper :: "bytes \<Rightarrow> user_ob \<Rightarrow> ComparatorWrapper" where
  "new_ComparatorWrapper name ctx =
     \<lparr>cw_name = name, compare_context = ctx, cw_info_log = None\<rparr>"

definition Compare :: "pyenv \<Rightarrow> ComparatorWrapper \<Rightarrow> bytes \<Rightarrow> bytes \<Rightarrow> cpp_exn + int" where
  "Compare E w a b = throw_error (compare_callback E (compare_context w) (cw_info_log w) a b)"

definition ComparatorWrapper_Name :: "ComparatorWrapper \<Rightarrow> bytes" where
  "ComparatorWrapper_Name w = c_str (cw_name w)"

definition ComparatorWrapper_set_info_log :: "log_ptr \<Rightarrow> ComparatorWrapper \<Rightarrow> ComparatorWrapper"
  where "ComparatorWrapper_set_info_log log w = w\<lparr>cw_info_log := log\<rparr>"

text \<open>
  The generated test \<open>isinstance(ob, I)\<close> of the generic classes, and the \<open>TypeError\<close> it
  raises.
\<close>

definition check_instance :: "user_ob \<Rightarrow> iface \<Rightarrow> pyexn + unit" where
  "check_instance ob I =
     bind_res (isinst ob I) (\<lambda>b.
       if \<not> b then Inl (Exn TypeError (Fmt ''%s is not of type %s'' [ob_self ob])) else Inr ())"

definition ob_name :: "user_ob \<Rightarrow> pyexn + bytes" where
  "ob_name ob = bind_res (call ob ''name'' []) bytes_to_string"

record PyGenericComparator =
  gc_ob :: user_ob
  comparator_ptr :: ComparatorWrapper

definition PyGenericComparator_cinit :: "user_ob \<Rightarrow> pyexn + PyGenericComparator" where
  "PyGenericComparator_cinit ob =
     bind_res (check_instance ob IComparator) (\<lambda>_.
     bind_res (ob_name ob) (\<lambda>name.
       Inr \<lparr>gc_ob = ob, comparator_ptr = new_ComparatorWrapper name ob\<rparr>))"

definition PyGenericComparator_set_info_log ::
    "log_ptr \<Rightarrow> PyGenericComparator \<Rightarrow> PyGenericComparator" where
  "PyGenericComparator_set_info_log log c =
     c\<lparr>comparator_ptr := ComparatorWrapper_set_info_log log (comparator_ptr c)\<rparr>"

text \<open>
  \<open>PyBytewiseComparator\<close> forwards to RocksDB's comparator, whose order and name are
  parameters.
\<close>

definition PyBytewiseComparator_compare ::
    "(bytes \<Rightarrow> bytes \<Rightarrow> int) \<Rightarrow> pyobj \<Rightarrow> pyobj \<Rightarrow> pyexn + pyobj" where
  "PyBytewiseComparator_compare cmp a b =
     bind_res (bytes_to_slice a) (\<lambda>sa.
     bind_res (bytes_to_slice b) (\<lambda>sb. Inr (PyInt_From_int (cmp sa sb))))"

definition PyBytewiseComparator_name :: "bytes \<Rightarrow> pyobj" where
  "PyBytewiseComparator_name Name = PyBytes_FromString Name"

subsection \<open>Filter policies\<close>

text \<open>\<open>[slice_to_bytes(keys[i]) for i in range(n)]\<close>; \<open>n\<close> is the length of the key array.\<close>

definition create_filter_body :: "user_ob \<Rightarrow> bytes list \<Rightarrow> bytes \<Rightarrow> pyexn + bytes" where
  "create_filter_body ctx keys dst =
     bind_res (call ctx ''create_filter'' [PList (map slice_to_bytes keys)]) (\<lambda>ret.
     bind_res (bytes_to_string ret) (\<lambda>s. Inr (dst @ s)))"

definition key_may_match_body :: "pyenv \<Rightarrow> user_ob \<Rightarrow> bytes \<Rightarrow> bytes \<Rightarrow> pyexn + bool" where
  "key_may_match_body E ctx key filt =
     bind_res (call ctx ''key_may_match'' [slice_to_bytes key, slice_to_bytes filt]) (PyObject_IsTrue E)"

declare create_filter_body_def [simp] key_may_match_body_def [simp]


definition key_may_match_callback ::
    "pyenv \<Rightarrow> user_ob \<Rightarrow> log_ptr \<Rightarrow> bytes \<Rightarrow> bytes \<Rightarrow> bool cb_out" where
  "key_may_match_callback E ctx log key filt =
     try_callback E log ''Error in key_mach_match callback: %s'' False (key_may_match_body E ctx key filt)"

record FilterPolicyWrapper =
  fp_name :: bytes
  fp_ctx :: user_ob
  fp_info_log :: log_ptr

definition new_FilterPolicyWrapper :: "bytes \<Rightarrow> user_ob \<Rightarrow> FilterPolicyWrapper" where
  "new_FilterPolicyWrapper name ctx = \<lparr>fp_name = name, fp_ctx = ctx, fp_info_log = None\<rparr>"


definition KeyMayMatch ::
    "pyenv \<Rightarrow> FilterPolicyWrapper \<Rightarrow> bytes \<Rightarrow> bytes \<Rightarrow> cpp_exn + bool" where
  "KeyMayMatch E w key filt =
     throw_error (key_may_match_callback E (fp_ctx w) (fp_info_log w) key filt)"

definition FilterPolicyWrapper_Name :: "FilterPolicyWrapper \<Rightarrow> bytes" where
  "FilterPolicyWrapper_Name w = c_str (fp_name w)"

definition FilterPolicyWrapper_set_info_log :: "log_ptr \<Rightarrow> FilterPolicyWrapper \<Rightarrow> FilterPolicyWrapper"
  where "FilterPolicyWrapper_set_info_log log w = w\<lparr>fp_info_log := log\<rparr>"

record PyGenericFilterPolicy =
  gf_ob :: user_ob
  policy :: FilterPolicyWrapper

definition PyGenericFilterPolicy_cinit :: "user_ob \<Rightarrow> pyexn + PyGenericFilterPolicy" where
  "PyGenericFilterPolicy_cinit ob =
     bind_res (check_instance ob IFilterPolicy) (\<lambda>_.
     bind_res (ob_name ob) (\<lambda>name.
       Inr \<lparr>gf_ob = ob, policy = new_FilterPolicyWrapper name ob\<rparr>))"

definition PyGenericFilterPolicy_set_info_log ::
    "log_ptr \<Rightarrow> PyGenericFilterPolicy \<Rightarrow> PyGenericFilterPolicy" where
  "PyGenericFilterPolicy_set_info_log log p =
     p\<lparr>policy := FilterPolicyWrapper_set_info_log log (policy p)\<rparr>"

text \<open>
  RocksDB's Bloom filter as the binding uses it: the object \<open>NewBloomFilterPolicy\<close> returns.
\<close>

record bloom_policy =
  bloom_Name :: bytes
  bloom_CreateFilter :: "bytes list \<Rightarrow> int \<Rightarrow> cpp_exn + bytes"
  bloom_KeyMayMatch :: "bytes \<Rightarrow> bytes \<Rightarrow> cpp_exn + bool"

definition PyBloomFilterPolicy_cinit ::
    "(int \<Rightarrow> cpp_exn + bloom_policy) \<Rightarrow> int \<Rightarrow> pyexn + bloom_policy" where
  "PyBloomFilterPolicy_cinit NewBloomFilterPolicy bits_per_key =
     catch_cpp (NewBloomFilterPolicy bits_per_key)"

definition PyBloomFilterPolicy_name :: "bloom_policy \<Rightarrow> pyobj" where
  "PyBloomFilterPolicy_name p = PyBytes_FromString (bloom_Name p)"

definition PyBloomFilterPolicy_create_filter ::
    "pyenv \<Rightarrow> bloom_policy \<Rightarrow> pyobj \<Rightarrow> pyexn + pyobj" where
  "PyBloomFilterPolicy_create_filter E p keys =
     bind_res (for_each E keys bytes_to_slice) (\<lambda>c_keys.
     bind_res (catch_cpp (bloom_CreateFilter p c_keys (c_cast c_int (int (length c_keys)))))
       (\<lambda>dst. Inr (string_to_bytes dst)))"

definition PyBloomFilterPolicy_key_may_match ::
    "bloom_policy \<Rightarrow> pyobj \<Rightarrow> pyobj \<Rightarrow> pyexn + pyobj" where
  "PyBloomFilterPolicy_key_may_match p key filt =
     bind_res (bytes_to_slice key) (\<lambda>k.
     bind_res (bytes_to_slice filt) (\<lambda>f.
     bind_res (catch_cpp (bloom_KeyMayMatch p k f)) (\<lambda>b. Inr (PyBool_FromLong b))))"

subsection \<open>Slice transforms\<close>

text \<open>
  The \<open>Slice\<close> a transform returns: \<open>size\<close> bytes from \<open>offset\<close> inside the memory of the
  source slice, or the default-constructed empty slice.
\<close>

datatype view = View (view_offset: int) (view_size: int) | DefaultSlice

definition transform_body :: "pyenv \<Rightarrow> user_ob \<Rightarrow> bytes \<Rightarrow> pyexn + view" where
  "transform_body E ctx src =
     bind_res (call ctx ''transform'' [slice_to_bytes src]) (\<lambda>ret.
     bind_res (bind_res (GetItemInt_Fast E ret 0) (PyInt_As_size_t E)) (\<lambda>offset.
     bind_res (bind_res (GetItemInt_Fast E ret 1) (PyInt_As_size_t E)) (\<lambda>sz.
       if c_cast c_size_t (offset + sz) > int (length src)
       then Inl (Exn PlainException (Fmt ''offset(%i) + size(%i) is bigger than slice(%i)''
              [PyInt_FromSize_t offset, PyInt_FromSize_t sz, PyInt_FromSize_t (int (length src))]))
       else Inr (View offset sz))))"

definition slice_transform_callback ::
    "pyenv \<Rightarrow> user_ob \<Rightarrow> log_ptr \<Rightarrow> bytes \<Rightarrow> view cb_out" where
  "slice_transform_callback E ctx log src =
     try_callback E log ''Error in slice transfrom callback: %s'' DefaultSlice
       (transform_body E ctx src)"

definition slice_in_domain_body :: "pyenv \<Rightarrow> user_ob \<Rightarrow> bytes \<Rightarrow> pyexn + bool" where
  "slice_in_domain_body E ctx src = bind_res (call ctx ''in_domain'' [slice_to_bytes src]) (PyObject_IsTrue E)"

definition slice_in_range_body :: "pyenv \<Rightarrow> user_ob \<Rightarrow> bytes \<Rightarrow> pyexn + bool" where
  "slice_in_range_body E ctx src = bind_res (call ctx ''in_range'' [slice_to_bytes src]) (PyObject_IsTrue E)"

declare slice_in_domain_body_def [simp] slice_in_range_body_def [simp]



record SliceTransformWrapper =
  st_name :: bytes
  st_ctx :: user_ob
  st_info_log :: log_ptr

definition new_SliceTransformWrapper :: "bytes \<Rightarrow> user_ob \<Rightarrow> SliceTransformWrapper" where
  "new_SliceTransformWrapper name ctx = \<lparr>st_name = name, st_ctx = ctx, st_info_log = None\<rparr>"

definition SliceTransformWrapper_Name :: "SliceTransformWrapper \<Rightarrow> bytes" where
  "SliceTransformWrapper_Name w = c_str (st_name w)"

definition Transform :: "pyenv \<Rightarrow> SliceTransformWrapper \<Rightarrow> bytes \<Rightarrow> cpp_exn + view" where
  "Transform E w src = throw_error (slice_transform_callback E (st_ctx w) (st_info_log w) src)"



definition SliceTransformWrapper_set_info_log ::
    "log_ptr \<Rightarrow> SliceTransformWrapper \<Rightarrow> SliceTransformWrapper" where
  "SliceTransformWrapper_set_info_log log w = w\<lparr>st_info_log := log\<rparr>"

record PySliceTransform =
  gs_ob :: user_ob
  transfomer :: SliceTransformWrapper

definition PySliceTransform_cinit :: "user_ob \<Rightarrow> pyexn + PySliceTransform" where
  "PySliceTransform_cinit ob =
     bind_res (check_instance ob ISliceTransform) (\<lambda>_.
     bind_res (ob_name ob) (\<lambda>name.
       Inr \<lparr>gs_ob = ob, transfomer = new_SliceTransformWrapper name ob\<rparr>))"

definition PySliceTransform_set_info_log :: "log_ptr \<Rightarrow> PySliceTransform \<Rightarrow> PySliceTransform" where
  "PySliceTransform_set_info_log log t =
     t\<lparr>transfomer := SliceTransformWrapper_set_info_log log (transfomer t)\<rparr>"

subsection \<open>The error channel every wrapper method shares\<close>

text \<open>The text a failed callback hands to its wrapper; empty when there is none.\<close>

definition visible_error :: "pyenv \<Rightarrow> log_ptr \<Rightarrow> string \<Rightarrow> pyexn \<Rightarrow> bytes" where
  "visible_error E log fmt e = cb_error (except_as_error E log fmt () e)"

lemma except_as_error_ret [simp]: "cb_ret (except_as_error E log fmt d e) = d"
  by (simp add: except_as_error_def split: sum.splits)

lemma except_as_error_error [simp]:
  "cb_error (except_as_error E log fmt d e) = visible_error E log fmt e"
  by (simp add: except_as_error_def visible_error_def split: sum.splits)

lemma visible_error_c_str [simp]: "c_str (visible_error E log fmt e) = visible_error E log fmt e"
  by (simp add: visible_error_def except_as_error_def c_str_def [of "[]"] split: sum.splits)

text \<open>
  The handler copies the message only when nothing in it fails; what it copies is the memory
  of the message object read as a C string.
\<close>

lemma visible_error_text:
  assumes "format_exc E e = Inr tb" "tb \<noteq> PNone" "log_fails E fmt (c_str (raw_buffer E tb)) = None"
    and "str_of E e = Inr m" "m \<noteq> PNone"
  shows "visible_error E log fmt e = c_str (raw_buffer E m)"
  using assms
  by (simp add: visible_error_def except_as_error_def log_traceback_def rocksdb_Log_def not_None_def)

lemma visible_error_failed:
  assumes "log_traceback E log fmt e = Inl e' \<or> str_of E e = Inl e'"
  shows "visible_error E log fmt e = []"
  using assms by (auto simp: visible_error_def except_as_error_def split: sum.splits)

lemma throw_returned [simp]: "throw_error (returned v) = Inr v"
  by (simp add: throw_error_def returned_def)

lemma throw_except:
  "throw_error (except_as_error E log fmt d e) =
     (if visible_error E log fmt e = [] then Inr d else Inl (Runtime_error (visible_error E log fmt e)))"
  by (simp add: throw_error_def)

lemma try_callback_simps [simp]:
  "try_callback E log fmt d (Inr v) = returned v"
  "try_callback E log fmt d (Inl e) = except_as_error E log fmt d e"
  by (simp_all add: try_callback_def)

text \<open>
  \<open>body\<close> is the outcome of the user's method converted to its C type, \<open>cback\<close> the callback
  the wrapper holds, \<open>meth\<close> the virtual method RocksDB calls.
\<close>

locale error_channel =
  fixes body :: "pyenv \<Rightarrow> 'x \<Rightarrow> pyexn + 'r"
    and cback :: "pyenv \<Rightarrow> 'x \<Rightarrow> 'r cb_out"
    and meth :: "pyenv \<Rightarrow> 'x \<Rightarrow> cpp_exn + 'r"
    and log_of :: "'x \<Rightarrow> log_ptr"
    and fmt :: string
    and default :: "'x \<Rightarrow> 'r"
  assumes cback_value: "body E x = Inr v \<Longrightarrow> cback E x = returned v"
    and cback_error: "body E x = Inl e \<Longrightarrow> cback E x = except_as_error E (log_of x) fmt (default x) e"
    and meth_cback: "meth E x = throw_error (cback E x)"
begin

lemma meth_value: "body E x = Inr v \<Longrightarrow> meth E x = Inr v"
  by (simp add: meth_cback cback_value)

lemma meth_error:
  "body E x = Inl e \<Longrightarrow>
   meth E x = (if visible_error E (log_of x) fmt e = [] then Inr (default x)
               else Inl (Runtime_error (visible_error E (log_of x) fmt e)))"
  by (simp add: meth_cback cback_error throw_except)

lemma meth_throws_iff:
  "meth E x = Inl c \<longleftrightarrow>
   (\<exists>e. body E x = Inl e \<and> visible_error E (log_of x) fmt e \<noteq> [] \<and>
        c = Runtime_error (visible_error E (log_of x) fmt e))"
  by (cases "body E x") (auto simp: meth_value meth_error)

lemma meth_returns:
  assumes "meth E x = Inr v"
  shows "body E x = Inr v \<or>
    v = default x \<and> (\<exists>e. body E x = Inl e \<and> visible_error E (log_of x) fmt e = [])"
  using assms by (cases "body E x") (auto simp: meth_value meth_error split: if_splits)

lemma callback_logs:
  assumes "body E x = Inl e" "log_traceback E (log_of x) fmt e = Inr l"
  shows "cb_log (cback E x) = [l]"
  using assms by (simp add: cback_error except_as_error_def split: sum.splits)

end

text \<open>The Python side of the six callbacks.\<close>

definition compare_outcome :: "pyenv \<Rightarrow> ComparatorWrapper \<times> bytes \<times> bytes \<Rightarrow> pyexn + int" where
  "compare_outcome E = (\<lambda>(w, a, b).
     bind_res (call (compare_context w) ''compare'' [PBytes a, PBytes b]) (PyInt_As_int E))"


definition key_may_match_outcome ::
    "pyenv \<Rightarrow> FilterPolicyWrapper \<times> bytes \<times> bytes \<Rightarrow> pyexn + bool" where
  "key_may_match_outcome E = (\<lambda>(w, key, filt).
     bind_res (call (fp_ctx w) ''key_may_match'' [PBytes key, PBytes filt]) (PyObject_IsTrue E))"


definition transform_outcome :: "pyenv \<Rightarrow> SliceTransformWrapper \<times> bytes \<Rightarrow> pyexn + view" where
  "transform_outcome E = (\<lambda>(w, src). transform_body E (st_ctx w) src)"

lemma slice_to_bytes_eq: "slice_to_bytes = PBytes" "string_to_bytes = PBytes"
  by (simp_all add: fun_eq_iff slice_to_bytes_def string_to_bytes_def)

interpretation ch_compare: error_channel compare_outcome
  "\<lambda>E (w, a, b). compare_callback E (compare_context w) (cw_info_log w) a b"
  "\<lambda>E (w, a, b). Compare E w a b" "\<lambda>(w, _). cw_info_log w"
  "''Error in compare callback: %s''" "\<lambda>_. 0"
  by unfold_locales
    (auto simp: compare_outcome_def compare_callback_def Compare_def slice_to_bytes_eq)


interpretation ch_match: error_channel key_may_match_outcome
  "\<lambda>E (w, key, filt). key_may_match_callback E (fp_ctx w) (fp_info_log w) key filt"
  "\<lambda>E (w, key, filt). KeyMayMatch E w key filt" "\<lambda>(w, _). fp_info_log w"
  "''Error in key_mach_match callback: %s''" "\<lambda>_. False"
  by unfold_locales
    (auto simp: key_may_match_outcome_def key_may_match_callback_def KeyMayMatch_def
      slice_to_bytes_eq)

interpretation ch_transform: error_channel transform_outcome
  "\<lambda>E (w, src). slice_transform_callback E (st_ctx w) (st_info_log w) src"
  "\<lambda>E (w, src). Transform E w src" "\<lambda>(w, _). st_info_log w"
  "''Error in slice transfrom callback: %s''" "\<lambda>_. DefaultSlice"
  by unfold_locales (auto simp: transform_outcome_def slice_transform_callback_def Transform_def)



subsection \<open>Construction\<close>

lemma ob_name_iff: "ob_name ob = Inr n \<longleftrightarrow> call ob ''name'' [] = Inr (PBytes n)"
  by (simp add: ob_name_def bind_res_convs bytes_to_string_iff)

lemma check_instance_iff: "check_instance ob I = Inr u \<longleftrightarrow> isinst ob I = Inr True"
  by (auto simp: check_instance_def bind_res_convs)

lemma PyGenericComparator_cinit_iff:
  "PyGenericComparator_cinit ob = Inr c \<longleftrightarrow>
   isinst ob IComparator = Inr True \<and>
   (\<exists>n. call ob ''name'' [] = Inr (PBytes n) \<and>
        c = \<lparr>gc_ob = ob, comparator_ptr = new_ComparatorWrapper n ob\<rparr>)"
  by (auto simp: PyGenericComparator_cinit_def bind_res_convs check_instance_iff ob_name_iff)

lemma PyGenericFilterPolicy_cinit_iff:
  "PyGenericFilterPolicy_cinit ob = Inr p \<longleftrightarrow>
   isinst ob IFilterPolicy = Inr True \<and>
   (\<exists>n. call ob ''name'' [] = Inr (PBytes n) \<and>
        p = \<lparr>gf_ob = ob, policy = new_FilterPolicyWrapper n ob\<rparr>)"
  by (auto simp: PyGenericFilterPolicy_cinit_def bind_res_convs check_instance_iff ob_name_iff)

lemma PySliceTransform_cinit_iff:
  "PySliceTransform_cinit ob = Inr t \<longleftrightarrow>
   isinst ob ISliceTransform = Inr True \<and>
   (\<exists>n. call ob ''name'' [] = Inr (PBytes n) \<and>
        t = \<lparr>gs_ob = ob, transfomer = new_SliceTransformWrapper n ob\<rparr>)"
  by (auto simp: PySliceTransform_cinit_def bind_res_convs check_instance_iff ob_name_iff)

subsection \<open>Slices a transform can return\<close>

lemma PyInt_As_size_t_range: "PyInt_As_size_t E x = Inr n \<Longrightarrow> 0 \<le> n \<and> n < 2 ^ 64"
  using slot_size_t.as_result [of E x n] by (simp add: in_range_def ctype_defs)

lemma size_t_add:
  assumes "0 \<le> a" "a < 2 ^ 64" "0 \<le> b" "b < 2 ^ 64"
  shows "c_cast c_size_t (a + b) = (if a + b < 2 ^ 64 then a + b else a + b - 2 ^ 64)"
proof (cases "a + b < 2 ^ 64")
  case True
  then show ?thesis using assms by (simp add: c_cast_def ctype_defs take_bit_int_eq_self)
next
  case False
  have "(a + b) mod 2 ^ 64 = (a + b - 2 ^ 64) mod 2 ^ 64" by (simp only: minus_mod_self2)
  also have "\<dots> = a + b - 2 ^ 64" using assms False by (intro mod_pos_pos_trivial) auto
  finally show ?thesis using False by (simp add: c_cast_def ctype_defs take_bit_eq_mod)
qed

lemma transform_body_view:
  assumes "transform_body E ctx src = Inr v"
  obtains ret offset sz where "call ctx ''transform'' [PBytes src] = Inr ret"
    "0 \<le> offset" "offset < 2 ^ 64" "0 \<le> sz" "sz < 2 ^ 64" "v = View offset sz"
    "c_cast c_size_t (offset + sz) \<le> int (length src)"
  using assms
  by (auto simp: transform_body_def bind_res_convs slice_to_bytes_eq
      dest!: PyInt_As_size_t_range split: if_splits)

subsection \<open>Properties\<close>



text \<open>
  When a Python 3 comparator raises, the message that reaches RocksDB is not the text of the
  exception but the memory found inside the str object, and when that memory starts with a NUL
  the error disappears and the keys compare as equal.
\<close>

theorem compare_error_text_lost:
  assumes "call (compare_context w) ''compare'' [PBytes a, PBytes b] = Inl e"
    and "format_exc E e = Inr (PStr tb)" "str_of E e = Inr (PStr s)"
    and "log_fails E ''Error in compare callback: %s'' (c_str (peek E (PStr tb))) = None"
  shows "Compare E w a b =
    (let m = c_str (peek E (PStr s)) in if m = [] then Inr 0 else Inl (Runtime_error m))"
proof -
  have "visible_error E (cw_info_log w) ''Error in compare callback: %s'' e = c_str (peek E (PStr s))"
    using assms by (subst visible_error_text [of E e "PStr tb" _ "PStr s"]) (simp_all add: raw_buffer_def)
  moreover have "compare_outcome E (w, a, b) = Inl e"
    using assms(1) by (simp add: compare_outcome_def)
  ultimately show ?thesis
    using ch_compare.meth_error [of E "(w, a, b)" e] by (simp add: Let_def)
qed

text \<open>
  C33. A slice a transform returns starts and ends inside the source slice, unless offset and
  size add up to 2^64 or more, when only the wrapped sum is inside.
\<close>

theorem transform_in_bounds:
  assumes "Transform E w src = Inr (View offset sz)"
  shows "0 \<le> offset \<and> 0 \<le> sz \<and>
    (if offset + sz < 2 ^ 64 then offset + sz \<le> int (length src)
     else offset + sz - 2 ^ 64 \<le> int (length src))"
proof -
  have "transform_body E (st_ctx w) src = Inr (View offset sz)"
    using ch_transform.meth_returns [of E "(w, src)" "View offset sz"] assms
    by (auto simp: transform_outcome_def)
  then show ?thesis
    by (rule transform_body_view) (auto simp: size_t_add split: if_splits)
qed

text \<open>
  The bound check of the transform callback can be passed with an offset outside every
  source slice: a transform that answers (2^64 - 1, 1) yields a one-byte slice that starts one
  byte before the source, for a source of any length, even the empty one.
\<close>

theorem transform_check_wraps:
  "Transform E (new_SliceTransformWrapper n
      \<lparr>ob_self = PNone, isinst = (\<lambda>_. Inr True),
       call = (\<lambda>_ _. Inr (PTuple [PInt (2 ^ 64 - 1), PInt 1]))\<rparr>) src
   = Inr (View (2 ^ 64 - 1) 1)"
proof -
  have "PyInt_As_size_t E (PInt (2 ^ 64 - 1)) = Inr (2 ^ 64 - 1)" "PyInt_As_size_t E (PInt 1) = Inr 1"
    by (simp_all add: slot_size_t.as_valid in_range_def ctype_defs)
  then show ?thesis
    by (simp add: Transform_def slice_transform_callback_def transform_body_def
        new_SliceTransformWrapper_def size_t_add [of "2 ^ 64 - 1" 1, simplified])
qed

text \<open>
  A filter rejects a key only because the Python policy answered with a false value, or
  because its call failed without a readable message; every other answer keeps the key.
\<close>

theorem key_may_match_rejects:
  assumes "KeyMayMatch E w key filt = Inr False"
  shows "(\<exists>r. call (fp_ctx w) ''key_may_match'' [PBytes key, PBytes filt] = Inr r \<and>
              PyObject_IsTrue E r = Inr False) \<or>
    (\<exists>e. key_may_match_outcome E (w, key, filt) = Inl e \<and>
      visible_error E (fp_info_log w) ''Error in key_mach_match callback: %s'' e = [])"
  using ch_match.meth_returns [of E "(w, key, filt)" False] assms
  by (auto simp: key_may_match_outcome_def bind_res_convs)

definition answering :: "(string \<Rightarrow> pyobj list \<Rightarrow> pyexn + pyobj) \<Rightarrow> user_ob" where
  "answering f = \<lparr>ob_self = PNone, isinst = (\<lambda>_. Inr True), call = f\<rparr>"


theorem compare_error_text_lost_witness:
  "Compare plain_env (new_ComparatorWrapper []
     (answering (\<lambda>_ _. Inl (Exn ValueError (Text ''bad key''))))) [1] [2]
   = Inl (Runtime_error [228])"
  by (subst compare_error_text_lost [where e = "Exn ValueError (Text ''bad key'')"
        and tb = "''Traceback''" and s = "''bad key''"])
    (simp_all add: new_ComparatorWrapper_def answering_def plain_env_def c_str_def)

theorem transform_in_bounds_witness:
  "Transform plain_env (new_SliceTransformWrapper [] (answering (\<lambda>_ _. Inr (PTuple [PInt 1, PInt 2]))))
     [7, 8, 9] = Inr (View 1 2) \<and> (1::int) + 2 \<le> int (length [7::byte, 8, 9])"
proof -
  have "PyInt_As_size_t plain_env (PInt 1) = Inr 1" "PyInt_As_size_t plain_env (PInt 2) = Inr 2"
    by (simp_all add: slot_size_t.as_valid in_range_def ctype_defs)
  then have t: "Transform plain_env
      (new_SliceTransformWrapper [] (answering (\<lambda>_ _. Inr (PTuple [PInt 1, PInt 2])))) [7, 8, 9]
      = Inr (View 1 2)"
    by (simp add: Transform_def slice_transform_callback_def transform_body_def answering_def
        new_SliceTransformWrapper_def size_t_add [of 1 2, simplified])
  with transform_in_bounds [OF this] show ?thesis by simp
qed

theorem key_may_match_rejects_witness:
  "KeyMayMatch plain_env (new_FilterPolicyWrapper [] (answering (\<lambda>_ _. Inr PNone))) [1] [] = Inr False \<and>
   PyObject_IsTrue plain_env PNone = Inr False"
proof -
  have "KeyMayMatch plain_env (new_FilterPolicyWrapper [] (answering (\<lambda>_ _. Inr PNone))) [1] [] = Inr False"
    by (simp add: KeyMayMatch_def key_may_match_callback_def new_FilterPolicyWrapper_def answering_def)
  with key_may_match_rejects [OF this] show ?thesis by auto
qed

end
