(* ===== verification/Merge.thy ===== *)
theory Merge
  imports Callbacks
begin

section \<open>Merge operators\<close>

text \<open>
  \<open>rocksdb/cpp/merge_operator_wrapper.hpp\<close>, the three merge callbacks of
  \<open>rocksdb/_rocksdb.cpp\<close> and \<open>PyMergeOperator\<close>. A merge method returns whether it succeeded
  and leaves its result in \<open>*new_value\<close>; the model returns both, the second component being the
  contents of \<open>*new_value\<close> afterwards.
\<close>

text \<open>The bare \<open>except:\<close> of the three callbacks: log the traceback, return \<open>False\<close>.\<close>

definition except_as_false ::
    "pyenv \<Rightarrow> log_ptr \<Rightarrow> string \<Rightarrow> bytes \<Rightarrow> pyexn \<Rightarrow> (bool \<times> bytes) cb_out" where
  "except_as_false E log fmt new_value e =
     (case log_traceback E log fmt e of
        Inl e' \<Rightarrow> \<lparr>cb_ret = (False, new_value), cb_error = [], cb_log = [], cb_unraisable = Some e'\<rparr>
      | Inr l \<Rightarrow>
          \<lparr>cb_ret = (False, new_value), cb_error = [], cb_log = [l], cb_unraisable = None\<rparr>)"

text \<open>
  \<open>if ret[0]: new_value.assign(bytes_to_string(ret[1])); return True\<close> and
  \<open>return False\<close>.
\<close>

definition assign_result :: "pyenv \<Rightarrow> bytes \<Rightarrow> pyobj \<Rightarrow> pyexn + bool \<times> bytes" where
  "assign_result E new_value ret =
     bind_res (bind_res (GetItemInt_Fast E ret 0) (PyObject_IsTrue E)) (\<lambda>ok.
       if ok
       then bind_res (bind_res (GetItemInt_Fast E ret 1) bytes_to_string) (\<lambda>s. Inr (True, s))
       else Inr (False, new_value))"

definition opt_to_py :: "bytes option \<Rightarrow> pyobj" where
  "opt_to_py v = (case v of None \<Rightarrow> PNone | Some sl \<Rightarrow> slice_to_bytes sl)"

definition merge_callback ::
    "pyenv \<Rightarrow> user_ob \<Rightarrow> bytes \<Rightarrow> bytes option \<Rightarrow> bytes \<Rightarrow> bytes \<Rightarrow> log_ptr \<Rightarrow> (bool \<times> bytes) cb_out"
  where
  "merge_callback E ctx key existing_value val new_value log =
     (let py_existing_value = opt_to_py existing_value
      in case bind_res (call ctx ''merge'' [slice_to_bytes key, py_existing_value, slice_to_bytes val])
                (assign_result E new_value) of
           Inr r \<Rightarrow> returned r
         | Inl e \<Rightarrow> except_as_false E log ''Error in merge_callback: %s'' new_value e)"

text \<open>The bodies of the \<open>try\<close> blocks of the other two callbacks, and the callbacks.\<close>

definition full_merge_body ::
    "pyenv \<Rightarrow> user_ob \<Rightarrow> bytes \<Rightarrow> pyobj \<Rightarrow> bytes list \<Rightarrow> bytes \<Rightarrow> pyexn + bool \<times> bytes" where
  "full_merge_body E ctx key py_existing_value op_list new_value =
     bind_res (call ctx ''full_merge''
         [slice_to_bytes key, py_existing_value, PList (map string_to_bytes op_list)])
       (assign_result E new_value)"

definition partial_merge_body ::
    "pyenv \<Rightarrow> user_ob \<Rightarrow> bytes \<Rightarrow> bytes \<Rightarrow> bytes \<Rightarrow> bytes \<Rightarrow> pyexn + bool \<times> bytes" where
  "partial_merge_body E ctx key left_op right_op new_value =
     bind_res (call ctx ''partial_merge'' [slice_to_bytes key, slice_to_bytes left_op, slice_to_bytes right_op])
       (assign_result E new_value)"

declare full_merge_body_def [simp] partial_merge_body_def [simp]

definition full_merge_callback ::
    "pyenv \<Rightarrow> user_ob \<Rightarrow> bytes \<Rightarrow> bytes option \<Rightarrow> bytes list \<Rightarrow> bytes \<Rightarrow> log_ptr \<Rightarrow>
     (bool \<times> bytes) cb_out" where
  "full_merge_callback E ctx key existing_value op_list new_value log =
     (case full_merge_body E ctx key (opt_to_py existing_value) op_list new_value of
        Inr r \<Rightarrow> returned r
      | Inl e \<Rightarrow> except_as_false E log ''Error in full_merge_callback: %s'' new_value e)"

definition partial_merge_callback ::
    "pyenv \<Rightarrow> user_ob \<Rightarrow> bytes \<Rightarrow> bytes \<Rightarrow> bytes \<Rightarrow> bytes \<Rightarrow> log_ptr \<Rightarrow> (bool \<times> bytes) cb_out" where
  "partial_merge_callback E ctx key left_op right_op new_value log =
     (case partial_merge_body E ctx key left_op right_op new_value of
        Inr r \<Rightarrow> returned r
      | Inl e \<Rightarrow> except_as_false E log ''Error in partial_merge_callback: %s'' new_value e)"

record AssociativeMergeOperatorWrapper =
  am_name :: bytes
  merge_context :: user_ob

record MergeOperatorWrapper =
  mo_name :: bytes
  full_merge_context :: user_ob
  partial_merge_context :: user_ob

definition new_AssociativeMergeOperatorWrapper ::
    "bytes \<Rightarrow> user_ob \<Rightarrow> AssociativeMergeOperatorWrapper" where
  "new_AssociativeMergeOperatorWrapper name ctx = \<lparr>am_name = name, merge_context = ctx\<rparr>"

definition new_MergeOperatorWrapper :: "bytes \<Rightarrow> user_ob \<Rightarrow> user_ob \<Rightarrow> MergeOperatorWrapper" where
  "new_MergeOperatorWrapper name full partial =
     \<lparr>mo_name = name, full_merge_context = full, partial_merge_context = partial\<rparr>"

definition Merge_method ::
    "pyenv \<Rightarrow> AssociativeMergeOperatorWrapper \<Rightarrow> bytes \<Rightarrow> bytes option \<Rightarrow> bytes \<Rightarrow> bytes \<Rightarrow> log_ptr \<Rightarrow>
     bool \<times> bytes" where
  "Merge_method E w key existing_value val new_value log =
     cb_ret (merge_callback E (merge_context w) key existing_value val new_value log)"

definition FullMerge ::
    "pyenv \<Rightarrow> MergeOperatorWrapper \<Rightarrow> bytes \<Rightarrow> bytes option \<Rightarrow> bytes list \<Rightarrow> bytes \<Rightarrow> log_ptr \<Rightarrow>
     bool \<times> bytes" where
  "FullMerge E w key existing_value operand_list new_value log =
     cb_ret (full_merge_callback E (full_merge_context w) key existing_value operand_list
       new_value log)"

definition PartialMerge ::
    "pyenv \<Rightarrow> MergeOperatorWrapper \<Rightarrow> bytes \<Rightarrow> bytes \<Rightarrow> bytes \<Rightarrow> bytes \<Rightarrow> log_ptr \<Rightarrow> bool \<times> bytes" where
  "PartialMerge E w key left_operand right_operand new_value log =
     cb_ret (partial_merge_callback E (partial_merge_context w) key left_operand right_operand
       new_value log)"

definition AssociativeMergeOperatorWrapper_Name :: "AssociativeMergeOperatorWrapper \<Rightarrow> bytes" where
  "AssociativeMergeOperatorWrapper_Name w = c_str (am_name w)"

definition MergeOperatorWrapper_Name :: "MergeOperatorWrapper \<Rightarrow> bytes" where
  "MergeOperatorWrapper_Name w = c_str (mo_name w)"

text \<open>\<open>PyMergeOperator\<close>: the operator pointer holds one of the two wrappers.\<close>

datatype merge_op = Associative AssociativeMergeOperatorWrapper | Generic MergeOperatorWrapper

record PyMergeOperator =
  mop_ob :: user_ob
  merge_op :: merge_op

definition PyMergeOperator_cinit :: "user_ob \<Rightarrow> pyexn + PyMergeOperator" where
  "PyMergeOperator_cinit ob =
     bind_res (isinst ob IAssociativeMergeOperator) (\<lambda>assoc.
       if assoc
       then bind_res (ob_name ob) (\<lambda>name.
              Inr \<lparr>mop_ob = ob, merge_op = Associative (new_AssociativeMergeOperatorWrapper name ob)\<rparr>)
       else bind_res (isinst ob IMergeOperator) (\<lambda>generic.
              if generic
              then bind_res (ob_name ob) (\<lambda>name.
                     Inr \<lparr>mop_ob = ob, merge_op = Generic (new_MergeOperatorWrapper name ob ob)\<rparr>)
              else Inl (Exn TypeError (Fmt ''%s is not of this types %s'' [ob_self ob]))))"

subsection \<open>The contract of a merge method\<close>

definition merge_outcome :: "pyenv \<Rightarrow> (string \<Rightarrow> pyobj list \<Rightarrow> pyexn + pyobj) \<Rightarrow> string \<Rightarrow> pyobj list \<Rightarrow>
    pyexn + bytes option" where
  "merge_outcome E f m args =
     bind_res (f m args) (\<lambda>ret.
     bind_res (bind_res (GetItemInt_Fast E ret 0) (PyObject_IsTrue E)) (\<lambda>ok.
       if ok then bind_res (bind_res (GetItemInt_Fast E ret 1) bytes_to_string) (\<lambda>s. Inr (Some s))
       else Inr None))"

lemma except_as_false_ret [simp]: "cb_ret (except_as_false E log fmt nv e) = (False, nv)"
  by (simp add: except_as_false_def split: sum.splits)

lemma returned_ret [simp]: "cb_ret (returned r) = r"
  by (simp add: returned_def)

lemma assign_result_outcome:
  "bind_res (f m args) (assign_result E nv) =
     bind_res (merge_outcome E f m args)
       (\<lambda>r. Inr (case r of Some s \<Rightarrow> (True, s) | None \<Rightarrow> (False, nv)))"
  by (auto simp: merge_outcome_def assign_result_def bind_res_def split: sum.splits if_splits)

lemma merge_case:
  "cb_ret (case bind_res (f m args) (assign_result E nv) of
             Inr r \<Rightarrow> returned r | Inl e \<Rightarrow> except_as_false E log fmt nv e) =
     (case merge_outcome E f m args of Inr (Some s) \<Rightarrow> (True, s) | _ \<Rightarrow> (False, nv))"
  unfolding assign_result_outcome by (cases "merge_outcome E f m args") (auto split: option.splits)

locale merge_channel =
  fixes outcome :: "pyenv \<Rightarrow> 'x \<Rightarrow> pyexn + bytes option"
    and meth :: "pyenv \<Rightarrow> 'x \<Rightarrow> bytes \<Rightarrow> bool \<times> bytes"
  assumes meth_outcome:
    "meth E x nv = (case outcome E x of Inr (Some s) \<Rightarrow> (True, s) | _ \<Rightarrow> (False, nv))"
begin

lemma success_iff: "meth E x nv = (True, s) \<longleftrightarrow> outcome E x = Inr (Some s)"
  by (auto simp: meth_outcome split: sum.splits option.splits)

lemma failure_keeps: "meth E x nv = (False, s) \<Longrightarrow> s = nv"
  by (auto simp: meth_outcome split: sum.splits option.splits)

lemma failure_iff:
  "\<not> fst (meth E x nv) \<longleftrightarrow> outcome E x = Inr None \<or> (\<exists>e. outcome E x = Inl e)"
  by (auto simp: meth_outcome split: sum.splits option.splits)

lemma independent_of_target: "fst (meth E x nv) = fst (meth E x nv')"
  by (auto simp: meth_outcome split: sum.splits option.splits)

end

interpretation m_assoc: merge_channel
  "\<lambda>E (w, key, ev, v, log). merge_outcome E (call (merge_context w)) ''merge''
     [PBytes key, opt_to_py ev, PBytes v]"
  "\<lambda>E (w, key, ev, v, log) nv. Merge_method E w key ev v nv log"
  by unfold_locales (auto simp: Merge_method_def merge_callback_def merge_case slice_to_bytes_eq)

interpretation m_full: merge_channel
  "\<lambda>E (w, key, ev, ops, log). merge_outcome E (call (full_merge_context w)) ''full_merge''
     [PBytes key, opt_to_py ev, PList (map PBytes ops)]"
  "\<lambda>E (w, key, ev, ops, log) nv. FullMerge E w key ev ops nv log"
  by unfold_locales (auto simp: FullMerge_def full_merge_callback_def merge_case slice_to_bytes_eq)

interpretation m_partial: merge_channel
  "\<lambda>E (w, key, l, r, log). merge_outcome E (call (partial_merge_context w)) ''partial_merge''
     [PBytes key, PBytes l, PBytes r]"
  "\<lambda>E (w, key, l, r, log) nv. PartialMerge E w key l r nv log"
  by unfold_locales (auto simp: PartialMerge_def partial_merge_callback_def merge_case slice_to_bytes_eq)

text \<open>What a successful outcome says about the Python answer.\<close>

lemma merge_outcome_Some:
  "merge_outcome E f m args = Inr (Some s) \<longleftrightarrow>
   (\<exists>ret flag. f m args = Inr ret \<and> GetItemInt_Fast E ret 0 = Inr flag \<and>
      PyObject_IsTrue E flag = Inr True \<and> GetItemInt_Fast E ret 1 = Inr (PBytes s))"
  by (auto simp: merge_outcome_def bind_res_convs bytes_to_string_iff)


lemma PyMergeOperator_cinit_iff:
  "PyMergeOperator_cinit ob = Inr p \<longleftrightarrow>
   (\<exists>n. call ob ''name'' [] = Inr (PBytes n) \<and> mop_ob p = ob \<and>
     (isinst ob IAssociativeMergeOperator = Inr True \<and>
      merge_op p = Associative \<lparr>am_name = n, merge_context = ob\<rparr> \<or>
      isinst ob IAssociativeMergeOperator = Inr False \<and> isinst ob IMergeOperator = Inr True \<and>
      merge_op p = Generic \<lparr>mo_name = n, full_merge_context = ob, partial_merge_context = ob\<rparr>))"
  by (cases p) (auto simp: PyMergeOperator_cinit_def bind_res_convs ob_name_iff
      new_AssociativeMergeOperatorWrapper_def new_MergeOperatorWrapper_def)


subsection \<open>Properties\<close>

text \<open>
  C38. A merge method reports success exactly when the Python method returned a pair whose first
  item is true and whose second item is a bytes object, and then the new value is that object;
  in all other cases, exceptions included, it reports failure and the new value is untouched.
\<close>

theorem merge_methods_contract:
  "(case Merge_method E a key ev v nv log of
      (True, s) \<Rightarrow> merge_outcome E (call (merge_context a)) ''merge''
         [PBytes key, opt_to_py ev, PBytes v] = Inr (Some s)
    | (False, s) \<Rightarrow> s = nv \<and> (\<forall>t. merge_outcome E (call (merge_context a)) ''merge''
         [PBytes key, opt_to_py ev, PBytes v] \<noteq> Inr (Some t))) \<and>
   (case FullMerge E w key ev ops nv log of
      (True, s) \<Rightarrow> merge_outcome E (call (full_merge_context w)) ''full_merge''
         [PBytes key, opt_to_py ev, PList (map PBytes ops)] = Inr (Some s)
    | (False, s) \<Rightarrow> s = nv \<and> (\<forall>t. merge_outcome E (call (full_merge_context w)) ''full_merge''
         [PBytes key, opt_to_py ev, PList (map PBytes ops)] \<noteq> Inr (Some t))) \<and>
   (case PartialMerge E w key l r nv log of
      (True, s) \<Rightarrow> merge_outcome E (call (partial_merge_context w)) ''partial_merge''
         [PBytes key, PBytes l, PBytes r] = Inr (Some s)
    | (False, s) \<Rightarrow> s = nv \<and> (\<forall>t. merge_outcome E (call (partial_merge_context w)) ''partial_merge''
         [PBytes key, PBytes l, PBytes r] \<noteq> Inr (Some t)))"
  using m_assoc.meth_outcome [of E "(a, key, ev, v, log)" nv]
    m_full.meth_outcome [of E "(w, key, ev, ops, log)" nv]
    m_partial.meth_outcome [of E "(w, key, l, r, log)" nv]
  by (auto split: sum.splits option.splits)

text \<open>
  An exception in a merge callback is never lost: it is logged with the callback's own
  message, or, when logging it fails, that failure is reported as unraisable; in both cases the
  merge fails.
\<close>

theorem merge_exception_reported:
  assumes "call ctx ''merge'' [PBytes key, opt_to_py ev, PBytes v] = Inl e"
  shows "case log_traceback E log ''Error in merge_callback: %s'' e of
      Inr l \<Rightarrow> merge_callback E ctx key ev v nv log =
        \<lparr>cb_ret = (False, nv), cb_error = [], cb_log = [l], cb_unraisable = None\<rparr>
    | Inl e' \<Rightarrow> merge_callback E ctx key ev v nv log =
        \<lparr>cb_ret = (False, nv), cb_error = [], cb_log = [], cb_unraisable = Some e'\<rparr>"
  using assms
  by (simp add: merge_callback_def except_as_false_def slice_to_bytes_eq split: sum.splits)




theorem merge_exception_reported_witness:
  "cb_ret (merge_callback plain_env (answering (\<lambda>_ _. Inl (Exn ValueError NoMsg))) [1] None [2] [9] None)
     = (False, [9]) \<and>
   cb_log (merge_callback plain_env (answering (\<lambda>_ _. Inl (Exn ValueError NoMsg))) [1] None [2] [9] None)
     = [(None, ''Error in merge_callback: %s'', [228])]"
proof -
  let ?ob = "answering (\<lambda>_ _. Inl (Exn ValueError NoMsg))"
  have c: "call ?ob ''merge'' [PBytes [1], opt_to_py None, PBytes [2]] = Inl (Exn ValueError NoMsg)"
    by (simp add: answering_def)
  have l: "log_traceback plain_env None ''Error in merge_callback: %s'' (Exn ValueError NoMsg) =
      Inr (None, ''Error in merge_callback: %s'', [228])"
    by (simp add: log_traceback_def rocksdb_Log_def not_None_def plain_env_def raw_buffer_def c_str_def)
  show ?thesis
    using merge_exception_reported [OF c, where E = plain_env and nv = "[9]" and log = None] l
    by simp
qed

end
