(* ===== verification/ColumnFamily.thy ===== *)
theory ColumnFamily
  imports Status
begin

section \<open>Column family handles\<close>

text \<open>
  The classes \<open>_ColumnFamilyHandle\<close> and \<open>ColumnFamilyHandle\<close> of \<open>rocksdb/_rocksdb.cpp\<close>. The
  first owns a \<open>rocksdb::ColumnFamilyHandle*\<close> and is kept alive by the database object only; the
  second is what Python code holds: a weak reference to the first, so that a handle used after
  its column family is gone is an error and not a dangling pointer. Objects and C++ pointers
  are named by numbers.
\<close>

text \<open>A weak reference: its own identity and the object it refers to.\<close>

datatype weakref = Weakref (wr_id: nat) (wr_target: nat)

record real_handle =
  handle :: nat
  weak_handle :: "nat option"

record cf_handle =
  cf_ref :: weakref
  cf_name :: bytes
  cf_id :: int

text \<open>
  \<open>reals\<close> are the live \<open>_ColumnFamilyHandle\<close> objects, \<open>cfs\<close> the \<open>ColumnFamilyHandle\<close> objects,
  \<open>deleted\<close> the C++ handles destroyed so far, \<open>fresh\<close> the next unused object identity.
\<close>

record cf_store =
  reals :: "nat \<Rightarrow> real_handle option"
  cfs :: "nat \<Rightarrow> cf_handle option"
  deleted :: "nat list"
  fresh :: nat

definition empty_store :: cf_store where
  "empty_store = \<lparr>reals = (\<lambda>_. None), cfs = (\<lambda>_. None), deleted = [], fresh = 0\<rparr>"

text \<open>What RocksDB says of a handle: \<open>GetName()\<close> and \<open>GetID()\<close>, a 32-bit unsigned number.\<close>

record cf_lib =
  GetName :: "nat \<Rightarrow> bytes"
  GetID :: "nat \<Rightarrow> int"

subsection \<open>The owning object\<close>

definition from_handle_ptr :: "nat \<Rightarrow> cf_store \<Rightarrow> nat \<times> cf_store" where
  "from_handle_ptr ptr S =
     (fresh S, S\<lparr>reals := (reals S)(fresh S \<mapsto> \<lparr>handle = ptr, weak_handle = None\<rparr>),
        fresh := fresh S + 1\<rparr>)"

text \<open>
  \<open>__dealloc__\<close>, run when the last reference to the object goes: the C++ handle is deleted. Weak
  references to the object are cleared by this.
\<close>

definition dealloc_real :: "nat \<Rightarrow> cf_store \<Rightarrow> cf_store" where
  "dealloc_real r S =
     (case reals S r of
        None \<Rightarrow> S
      | Some h \<Rightarrow> S\<lparr>reals := (reals S)(r := None), deleted := handle h # deleted S\<rparr>)"

definition real_name :: "cf_lib \<Rightarrow> real_handle \<Rightarrow> pyobj" where
  "real_name L h = convert_PyBytes_string_to_py (GetName L (handle h))"

text \<open>\<open>GetID()\<close> is received in an \<open>int\<close>.\<close>

definition real_id :: "cf_lib \<Rightarrow> real_handle \<Rightarrow> pyobj" where
  "real_id L h = PyInt_From_int (c_cast c_int (GetID L (handle h)))"

subsection \<open>The weak object\<close>

text \<open>Calling a weak reference: the object, or \<open>None\<close>.\<close>

definition deref :: "cf_store \<Rightarrow> weakref \<Rightarrow> real_handle option" where
  "deref S w = reals S (wr_target w)"

definition attribute_error :: pyexn where
  "attribute_error = Exn AttributeError (Text ''NoneType'')"

definition ColumnFamilyHandle_cinit :: "pyenv \<Rightarrow> cf_lib \<Rightarrow> cf_store \<Rightarrow> weakref \<Rightarrow> pyexn + cf_handle"
  where
  "ColumnFamilyHandle_cinit E L S w =
     bind_res (case deref S w of None \<Rightarrow> Inl attribute_error | Some h \<Rightarrow> PyBytes_AsString (real_name L h))
       (\<lambda>name.
     bind_res (case deref S w of None \<Rightarrow> Inl attribute_error | Some h \<Rightarrow> PyInt_As_int E (real_id L h))
       (\<lambda>i. Inr \<lparr>cf_ref = w, cf_name = name, cf_id = i\<rparr>))"

text \<open>
  \<open>from_wrapper\<close>: \<open>weakref.ref(real_handle)\<close> is a new weak reference, the new
  \<open>ColumnFamilyHandle\<close> gets the identity after it.
\<close>

definition from_wrapper :: "pyenv \<Rightarrow> cf_lib \<Rightarrow> nat \<Rightarrow> cf_store \<Rightarrow> pyexn + nat \<times> cf_store" where
  "from_wrapper E L r S =
     bind_res (ColumnFamilyHandle_cinit E L S (Weakref (fresh S) r)) (\<lambda>c.
       Inr (fresh S + 1, S\<lparr>cfs := (cfs S)(fresh S + 1 \<mapsto> c), fresh := fresh S + 2\<rparr>))"

text \<open>The property \<open>weakref\<close> of the owning object makes one \<open>ColumnFamilyHandle\<close> and keeps it.\<close>

definition weakref_get :: "pyenv \<Rightarrow> cf_lib \<Rightarrow> nat \<Rightarrow> cf_store \<Rightarrow> pyexn + nat \<times> cf_store" where
  "weakref_get E L r S =
     (case reals S r of
        None \<Rightarrow> Inl attribute_error
      | Some h \<Rightarrow>
          (case weak_handle h of
             Some i \<Rightarrow> Inr (i, S)
           | None \<Rightarrow>
               bind_res (from_wrapper E L r S) (\<lambda>(i, S').
                 Inr (i, S'\<lparr>reals := (reals S')(r \<mapsto> h\<lparr>weak_handle := Some i\<rparr>)\<rparr>))))"

definition is_valid :: "cf_store \<Rightarrow> cf_handle \<Rightarrow> bool" where
  "is_valid S c \<longleftrightarrow> deref S (cf_ref c) \<noteq> None"

text \<open>\<open>get_handle\<close>, the only way from a \<open>ColumnFamilyHandle\<close> to the C++ pointer.\<close>

definition get_handle :: "cf_store \<Rightarrow> nat \<Rightarrow> pyexn + nat" where
  "get_handle S i =
     (case cfs S i of
        None \<Rightarrow> Inl attribute_error
      | Some c \<Rightarrow>
          (case deref S (cf_ref c) of
             None \<Rightarrow> Inl (Exn ValueError
                     (Fmt ''%s is no longer a valid ColumnFamilyHandle!'' [PCF i]))
           | Some h \<Rightarrow> Inr (handle h)))"

subsection \<open>Comparison and hashing\<close>

text \<open>
  Equality of weak references: of the objects while both are alive (by identity, as
  \<open>_ColumnFamilyHandle\<close> defines no equality), of the references themselves otherwise.
\<close>

definition weakref_eq :: "cf_store \<Rightarrow> weakref \<Rightarrow> weakref \<Rightarrow> bool" where
  "weakref_eq S v w =
     (if deref S v \<noteq> None \<and> deref S w \<noteq> None then wr_target v = wr_target w else wr_id v = wr_id w)"

definition cf_eq :: "cf_store \<Rightarrow> cf_handle \<Rightarrow> cf_handle \<Rightarrow> bool" where
  "cf_eq S c d =
     (if cf_name c \<noteq> cf_name d then False
      else if cf_id c \<noteq> cf_id d then False
      else weakref_eq S (cf_ref c) (cf_ref d))"

text \<open>\<open>other\<close> is \<open>None\<close> for an object that is not a \<open>ColumnFamilyHandle\<close>.\<close>

definition ColumnFamilyHandle_eq :: "cf_store \<Rightarrow> cf_handle \<Rightarrow> cf_handle option \<Rightarrow> bool" where
  "ColumnFamilyHandle_eq S c other = (case other of Some d \<Rightarrow> cf_eq S c d | None \<Rightarrow> False)"

definition ColumnFamilyHandle_ne :: "cf_store \<Rightarrow> cf_handle \<Rightarrow> cf_handle option \<Rightarrow> bool" where
  "ColumnFamilyHandle_ne S c other = (\<not> ColumnFamilyHandle_eq S c other)"

text \<open>\<open>None\<close> as a result is Python's \<open>NotImplemented\<close>.\<close>

definition ColumnFamilyHandle_lt :: "cf_handle \<Rightarrow> cf_handle option \<Rightarrow> bool option" where
  "ColumnFamilyHandle_lt c other =
     (case other of Some d \<Rightarrow> Some (cf_id c < cf_id d) | None \<Rightarrow> None)"

text \<open>The other three, between two handles: they call \<open>__lt__\<close>.\<close>

definition ColumnFamilyHandle_gt :: "cf_handle \<Rightarrow> cf_handle \<Rightarrow> bool option" where
  "ColumnFamilyHandle_gt c d = ColumnFamilyHandle_lt d (Some c)"

definition ColumnFamilyHandle_le :: "cf_handle \<Rightarrow> cf_handle \<Rightarrow> bool option" where
  "ColumnFamilyHandle_le c d = map_option Not (ColumnFamilyHandle_lt d (Some c))"

definition ColumnFamilyHandle_ge :: "cf_handle \<Rightarrow> cf_handle \<Rightarrow> bool option" where
  "ColumnFamilyHandle_ge c d = map_option Not (ColumnFamilyHandle_lt c (Some d))"

text \<open>\<open>hash((self.id, self.name, id(self._ref)))\<close>: \<open>h\<close> is the hash of tuples.\<close>

definition ColumnFamilyHandle_hash :: "(int \<times> bytes \<times> nat \<Rightarrow> int) \<Rightarrow> cf_handle \<Rightarrow> int" where
  "ColumnFamilyHandle_hash h c = h (cf_id c, cf_name c, wr_id (cf_ref c))"

subsection \<open>The life of a store\<close>

text \<open>
  The steps: RocksDB hands out a new C++ handle that becomes owned, Python asks for the weak
  object, the last reference to an owner goes. RocksDB never hands out a handle that is still
  owned; handles are named once, so a deleted one does not come back under its old name.
\<close>

inductive cf_step :: "pyenv \<Rightarrow> cf_lib \<Rightarrow> cf_store \<Rightarrow> cf_store \<Rightarrow> bool" for E L where
  adopt: "ptr \<notin> set (deleted S) \<Longrightarrow> (\<forall>r h. reals S r = Some h \<longrightarrow> handle h \<noteq> ptr) \<Longrightarrow>
    cf_step E L S (snd (from_handle_ptr ptr S))"
| weak: "weakref_get E L r S = Inr (i, S') \<Longrightarrow> cf_step E L S S'"
| drop: "cf_step E L S (dealloc_real r S)"

inductive cf_reachable :: "pyenv \<Rightarrow> cf_lib \<Rightarrow> cf_store \<Rightarrow> bool" for E L where
  start: "cf_reachable E L empty_store"
| step: "cf_reachable E L S \<Longrightarrow> cf_step E L S S' \<Longrightarrow> cf_reachable E L S'"

definition handles_inv :: "cf_store \<Rightarrow> bool" where
  "handles_inv S \<longleftrightarrow>
     distinct (deleted S) \<and>
     (\<forall>r h. reals S r = Some h \<longrightarrow> handle h \<notin> set (deleted S)) \<and>
     (\<forall>r r' h h'. reals S r = Some h \<longrightarrow> reals S r' = Some h' \<longrightarrow> handle h = handle h' \<longrightarrow> r = r')"

definition weak_inv :: "cf_store \<Rightarrow> bool" where
  "weak_inv S \<longleftrightarrow>
     (\<forall>r h. reals S r = Some h \<longrightarrow> r < fresh S) \<and>
     (\<forall>i c. cfs S i = Some c \<longrightarrow>
        i = wr_id (cf_ref c) + 1 \<and> i < fresh S \<and> wr_target (cf_ref c) < fresh S) \<and>
     (\<forall>r h i. reals S r = Some h \<longrightarrow> weak_handle h = Some i \<longrightarrow>
        (\<exists>c. cfs S i = Some c \<and> wr_target (cf_ref c) = r)) \<and>
     (\<forall>i c h. cfs S i = Some c \<longrightarrow> reals S (wr_target (cf_ref c)) = Some h \<longrightarrow>
        weak_handle h = Some i)"

lemma handles_invI:
  assumes "distinct (deleted S)"
    and "\<And>r h. reals S r = Some h \<Longrightarrow> handle h \<notin> set (deleted S)"
    and "\<And>r r' h h'. reals S r = Some h \<Longrightarrow> reals S r' = Some h' \<Longrightarrow> handle h = handle h' \<Longrightarrow> r = r'"
  shows "handles_inv S"
  using assms unfolding handles_inv_def by blast

lemma handles_invD:
  assumes "handles_inv S"
  shows "distinct (deleted S)"
    and "reals S r = Some h \<Longrightarrow> handle h \<notin> set (deleted S)"
    and "reals S r = Some h \<Longrightarrow> reals S r' = Some h' \<Longrightarrow> handle h = handle h' \<Longrightarrow> r = r'"
  using assms unfolding handles_inv_def by blast+

lemma weak_invI:
  assumes "\<And>r h. reals S r = Some h \<Longrightarrow> r < fresh S"
    and "\<And>i c. cfs S i = Some c \<Longrightarrow>
        i = wr_id (cf_ref c) + 1 \<and> i < fresh S \<and> wr_target (cf_ref c) < fresh S"
    and "\<And>r h i. reals S r = Some h \<Longrightarrow> weak_handle h = Some i \<Longrightarrow>
        \<exists>c. cfs S i = Some c \<and> wr_target (cf_ref c) = r"
    and "\<And>i c h. cfs S i = Some c \<Longrightarrow> reals S (wr_target (cf_ref c)) = Some h \<Longrightarrow>
        weak_handle h = Some i"
  shows "weak_inv S"
  using assms unfolding weak_inv_def by blast

lemma weak_invD:
  assumes "weak_inv S"
  shows "reals S r = Some h \<Longrightarrow> r < fresh S"
    and "cfs S i = Some c \<Longrightarrow> i = wr_id (cf_ref c) + 1"
    and "cfs S i = Some c \<Longrightarrow> i < fresh S"
    and "cfs S i = Some c \<Longrightarrow> wr_target (cf_ref c) < fresh S"
    and "reals S r = Some h \<Longrightarrow> weak_handle h = Some i \<Longrightarrow>
        \<exists>c. cfs S i = Some c \<and> wr_target (cf_ref c) = r"
    and "cfs S i = Some c \<Longrightarrow> reals S (wr_target (cf_ref c)) = Some h \<Longrightarrow> weak_handle h = Some i"
  using assms unfolding weak_inv_def by blast+

lemma weakref_get_cases:
  assumes "weakref_get E L r S = Inr (i, S')"
  obtains h where "reals S r = Some h" "weak_handle h = Some i" "S' = S"
  | h c where "reals S r = Some h" "weak_handle h = None" "i = fresh S + 1"
      "cf_ref c = Weakref (fresh S) r" "cf_name c = GetName L (handle h)"
      "S' = S\<lparr>reals := (reals S)(r \<mapsto> h\<lparr>weak_handle := Some i\<rparr>), cfs := (cfs S)(i \<mapsto> c),
              fresh := fresh S + 2\<rparr>"
proof (cases "reals S r")
  case None
  then show ?thesis using assms by (simp add: weakref_get_def)
next
  case (Some h)
  show ?thesis
  proof (cases "weak_handle h")
    case None
    then obtain c where c: "ColumnFamilyHandle_cinit E L S (Weakref (fresh S) r) = Inr c"
      "i = fresh S + 1"
      "S' = S\<lparr>reals := (reals S)(r \<mapsto> h\<lparr>weak_handle := Some i\<rparr>), cfs := (cfs S)(i \<mapsto> c),
              fresh := fresh S + 2\<rparr>"
      using assms Some by (auto simp: weakref_get_def from_wrapper_def bind_res_convs)
    have "cf_ref c = Weakref (fresh S) r \<and> cf_name c = GetName L (handle h)"
      using c(1) Some
      by (auto simp: ColumnFamilyHandle_cinit_def bind_res_convs deref_def real_name_def
          convert_PyBytes_string_to_py_def)
    then show ?thesis using that(2) [of h c] Some None c(2,3) by simp
  next
    case (Some j)
    then have "i = j" "S' = S" using assms \<open>reals S r = Some h\<close> by (simp_all add: weakref_get_def)
    then show ?thesis using that(1) [of h] Some \<open>reals S r = Some h\<close> by simp
  qed
qed

lemma handles_inv_new:
  assumes "handles_inv S" "ptr \<notin> set (deleted S)"
    and new: "\<forall>r h. reals S r = Some h \<longrightarrow> handle h \<noteq> ptr"
  shows "handles_inv (snd (from_handle_ptr ptr S))"
proof (rule handles_invI)
  let ?S = "snd (from_handle_ptr ptr S)"
  note D = handles_invD [OF assms(1)]
  show "distinct (deleted ?S)" using D(1) by (simp add: from_handle_ptr_def)
  show "handle h \<notin> set (deleted ?S)" if "reals ?S r = Some h" for r h
    using D(2) [of r h] assms(2) that by (auto simp: from_handle_ptr_def split: if_splits)
  show "r = r'" if "reals ?S r = Some h" "reals ?S r' = Some h'" "handle h = handle h'" for r r' h h'
    using that D(3) [of r h r' h'] new [rule_format, of r h] new [rule_format, of r' h']
    by (auto simp: from_handle_ptr_def split: if_splits)
qed

lemma handles_inv_weakref:
  assumes "weakref_get E L r S = Inr (i, S')" "handles_inv S"
  shows "handles_inv S'"
  using assms(1)
proof (rule weakref_get_cases)
  fix h assume "S' = S"
  then show ?thesis using assms(2) by simp
next
  fix h c
  assume a: "reals S r = Some h"
    "S' = S\<lparr>reals := (reals S)(r \<mapsto> h\<lparr>weak_handle := Some i\<rparr>), cfs := (cfs S)(i \<mapsto> c),
            fresh := fresh S + 2\<rparr>"
  note D = handles_invD [OF assms(2)]
  have same: "\<exists>g'. reals S q = Some g' \<and> handle g' = handle g" if "reals S' q = Some g" for q g
    using that a by (auto split: if_splits)
  show ?thesis
  proof (rule handles_invI)
    show "distinct (deleted S')" using D(1) a(2) by simp
    show "handle g \<notin> set (deleted S')" if "reals S' q = Some g" for q g
    proof -
      from same [OF that] obtain g' where "reals S q = Some g'" "handle g' = handle g" by blast
      then show ?thesis using D(2) [of q g'] a(2) by simp
    qed
    show "q = q'" if "reals S' q = Some g" "reals S' q' = Some g'" "handle g = handle g'" for q q' g g'
      using same [OF that(1)] same [OF that(2)] that(3) D(3) by metis
  qed
qed

lemma handles_inv_dealloc:
  assumes "handles_inv S"
  shows "handles_inv (dealloc_real r S)"
proof (cases "reals S r")
  case None
  then show ?thesis using assms by (simp add: dealloc_real_def)
next
  case (Some h)
  note D = handles_invD [OF assms]
  let ?S = "dealloc_real r S"
  have S': "?S = S\<lparr>reals := (reals S)(r := None), deleted := handle h # deleted S\<rparr>"
    using Some by (simp add: dealloc_real_def)
  show ?thesis
  proof (rule handles_invI)
    show "distinct (deleted ?S)" using D(1) D(2) [OF Some] by (simp add: S')
    show "handle g \<notin> set (deleted ?S)" if "reals ?S q = Some g" for q g
      using D(2) [of q g] D(3) [OF Some, of q g] that by (auto simp: S' split: if_splits)
    show "q = q'" if "reals ?S q = Some g" "reals ?S q' = Some g'" "handle g = handle g'" for q q' g g'
      using that D(3) [of q g q' g'] by (auto simp: S' split: if_splits)
  qed
qed

lemma handles_inv_step: "cf_step E L S S' \<Longrightarrow> handles_inv S \<Longrightarrow> handles_inv S'"
  by (induction rule: cf_step.induct)
    (auto intro: handles_inv_new handles_inv_weakref handles_inv_dealloc)

lemma weak_inv_new:
  assumes "weak_inv S"
  shows "weak_inv (snd (from_handle_ptr ptr S))"
proof (rule weak_invI)
  let ?S = "snd (from_handle_ptr ptr S)"
  note D = weak_invD [OF assms]
  have S': "reals ?S = (reals S)(fresh S \<mapsto> \<lparr>handle = ptr, weak_handle = None\<rparr>)" "cfs ?S = cfs S"
    "fresh ?S = fresh S + 1"
    by (simp_all add: from_handle_ptr_def)
  show "r < fresh ?S" if "reals ?S r = Some h" for r h
    using that D(1) [of r h] by (auto simp: S' split: if_splits)
  show "i = wr_id (cf_ref c) + 1 \<and> i < fresh ?S \<and> wr_target (cf_ref c) < fresh ?S"
    if "cfs ?S i = Some c" for i c
    using that D(2,3,4) [of i c] by (auto simp: S')
  show "\<exists>c. cfs ?S i = Some c \<and> wr_target (cf_ref c) = r"
    if "reals ?S r = Some h" "weak_handle h = Some i" for r h i
    using that D(5) [of r h i] by (auto simp: S' split: if_splits)
  show "weak_handle h = Some i" if "cfs ?S i = Some c" "reals ?S (wr_target (cf_ref c)) = Some h" for i c h
    using that D(4) [of i c] D(6) [of i c h] by (auto simp: S' split: if_splits)
qed

lemma weak_inv_dealloc:
  assumes "weak_inv S"
  shows "weak_inv (dealloc_real r S)"
proof (rule weak_invI)
  let ?S = "dealloc_real r S"
  note D = weak_invD [OF assms]
  have S': "cfs ?S = cfs S" "fresh ?S = fresh S" "reals ?S q = Some h \<Longrightarrow> reals S q = Some h" for q h
    by (auto simp: dealloc_real_def split: option.splits if_splits)
  show "q < fresh ?S" if "reals ?S q = Some h" for q h
    using S'(3) [OF that] D(1) by (simp add: S')
  show "i = wr_id (cf_ref c) + 1 \<and> i < fresh ?S \<and> wr_target (cf_ref c) < fresh ?S"
    if "cfs ?S i = Some c" for i c
    using that D(2,3,4) [of i c] by (auto simp: S')
  show "\<exists>c. cfs ?S i = Some c \<and> wr_target (cf_ref c) = q"
    if "reals ?S q = Some h" "weak_handle h = Some i" for q h i
    using S'(3) [OF that(1)] that(2) D(5) by (simp add: S')
  show "weak_handle h = Some i" if "cfs ?S i = Some c" "reals ?S (wr_target (cf_ref c)) = Some h" for i c h
    using S'(3) [OF that(2)] that(1) D(6) by (simp add: S')
qed

lemma weak_inv_weakref:
  assumes "weakref_get E L r S = Inr (i, S')" "weak_inv S"
  shows "weak_inv S'"
  using assms(1)
proof (rule weakref_get_cases)
  fix h assume "S' = S"
  then show ?thesis using assms(2) by simp
next
  fix h c
  assume a: "reals S r = Some h" "weak_handle h = None" "i = fresh S + 1"
    "cf_ref c = Weakref (fresh S) r"
    "S' = S\<lparr>reals := (reals S)(r \<mapsto> h\<lparr>weak_handle := Some i\<rparr>), cfs := (cfs S)(i \<mapsto> c),
            fresh := fresh S + 2\<rparr>"
  note D = weak_invD [OF assms(2)]
  have r: "r < fresh S" using D(1) a(1) by blast
  have none: "wr_target (cf_ref d) \<noteq> r" if "cfs S j = Some d" for j d
    using D(6) [OF that] a(1,2) by auto
  show ?thesis
  proof (rule weak_invI)
    fix q g assume "reals S' q = Some g"
    then show "q < fresh S'" using D(1) [of q] r a(5) by (auto split: if_splits)
  next
    fix j d assume "cfs S' j = Some d"
    then show "j = wr_id (cf_ref d) + 1 \<and> j < fresh S' \<and> wr_target (cf_ref d) < fresh S'"
      using D(2,3,4) [of j d] r a(3,4,5) by (auto split: if_splits)
  next
    fix q g j assume "reals S' q = Some g" "weak_handle g = Some j"
    then show "\<exists>d. cfs S' j = Some d \<and> wr_target (cf_ref d) = q"
      using D(5) [of q g j] D(3) [of j] a(3,4,5) by (auto split: if_splits)
  next
    fix j d g assume "cfs S' j = Some d" "reals S' (wr_target (cf_ref d)) = Some g"
    then show "weak_handle g = Some j"
      using D(6) [of j d g] none [of j d] a(4,5) by (auto split: if_splits)
  qed
qed

lemma weak_inv_step: "cf_step E L S S' \<Longrightarrow> weak_inv S \<Longrightarrow> weak_inv S'"
  by (induction rule: cf_step.induct)
    (auto intro: weak_inv_new weak_inv_weakref weak_inv_dealloc)

lemma inv_empty: "handles_inv empty_store" "weak_inv empty_store"
  by (simp_all add: handles_inv_def weak_inv_def empty_store_def)

lemma reachable_inv: "cf_reachable E L S \<Longrightarrow> handles_inv S \<and> weak_inv S"
  by (induction rule: cf_reachable.induct) (auto simp: inv_empty handles_inv_step weak_inv_step)

lemmas reachable_handles = reachable_inv [THEN conjunct1]
lemmas reachable_weak = reachable_inv [THEN conjunct2]

lemma get_handle_iff:
  "get_handle S i = Inr p \<longleftrightarrow>
   (\<exists>c h. cfs S i = Some c \<and> reals S (wr_target (cf_ref c)) = Some h \<and> p = handle h)"
  by (auto simp: get_handle_def deref_def split: option.splits)

text \<open>An object that is gone stays gone, and a \<open>ColumnFamilyHandle\<close> never changes.\<close>

lemma step_keeps_cfs:
  assumes "cf_step E L S S'" "weak_inv S" "cfs S i = Some c"
  shows "cfs S' i = Some c"
  using assms(1)
proof cases
  case (adopt ptr)
  then show ?thesis using assms(3) by (simp add: from_handle_ptr_def)
next
  case (weak r j)
  from weak show ?thesis
    by (rule weakref_get_cases) (use assms(3) weak_invD(3) [OF assms(2,3)] in auto)
next
  case (drop r)
  then show ?thesis using assms(3) by (simp add: dealloc_real_def split: option.splits)
qed

lemma step_keeps_dead:
  assumes "cf_step E L S S'" "r < fresh S" "reals S r = None"
  shows "reals S' r = None" and "r < fresh S'"
proof -
  have "reals S' r = None \<and> r < fresh S'"
    using assms(1)
  proof cases
    case (adopt ptr)
    then show ?thesis using assms(2,3) by (simp add: from_handle_ptr_def)
  next
    case (weak q j)
    from weak show ?thesis by (rule weakref_get_cases) (use assms(2,3) in auto)
  next
    case (drop q)
    then show ?thesis using assms(2,3) by (auto simp: dealloc_real_def split: option.splits)
  qed
  then show "reals S' r = None" "r < fresh S'" by auto
qed

lemma steps_keep_invalid:
  assumes "(cf_step E L)\<^sup>*\<^sup>* S S'" "weak_inv S" "cfs S i = Some c"
    "reals S (wr_target (cf_ref c)) = None"
  shows "cfs S' i = Some c \<and> reals S' (wr_target (cf_ref c)) = None"
proof -
  have "weak_inv S' \<and> cfs S' i = Some c \<and> reals S' (wr_target (cf_ref c)) = None"
    using assms(1)
  proof (induction rule: rtranclp_induct)
    case base
    then show ?case using assms by simp
  next
    case (step S1 S2)
    then show ?case
      using weak_inv_step [OF step(2)] step_keeps_cfs [OF step(2)] step_keeps_dead(1) [OF step(2)]
        weak_invD(4) by blast
  qed
  then show ?thesis by blast
qed

subsection \<open>Properties\<close>

text \<open>
  C5. In every reachable store a column family handle gives out a C++ pointer only if that handle
  is owned by a live object and has not been deleted, and no C++ handle is deleted twice.
\<close>

theorem get_handle_never_dangles:
  assumes "cf_reachable E L S"
  shows "distinct (deleted S) \<and>
    (\<forall>i p. get_handle S i = Inr p \<longrightarrow>
      p \<notin> set (deleted S) \<and> (\<exists>r h. reals S r = Some h \<and> handle h = p))"
proof -
  note D = handles_invD [OF reachable_handles [OF assms]]
  show ?thesis using D(1) D(2) by (auto simp: get_handle_iff)
qed

text \<open>
  When the owner of a column family goes, its handle turns invalid for good: after any
  further steps of the store, using it raises ValueError and is_valid is False.
\<close>

theorem dropped_handle_stays_invalid:
  assumes "cf_reachable E L S" "cfs S i = Some c"
    and "(cf_step E L)\<^sup>*\<^sup>* (dealloc_real (wr_target (cf_ref c)) S) S'"
  shows "get_handle S' i = Inl (Exn ValueError
      (Fmt ''%s is no longer a valid ColumnFamilyHandle!'' [PCF i])) \<and> \<not> is_valid S' c"
proof -
  let ?S = "dealloc_real (wr_target (cf_ref c)) S"
  have "cfs ?S i = Some c" "reals ?S (wr_target (cf_ref c)) = None"
    using assms(2) by (auto simp: dealloc_real_def split: option.splits)
  then have "cfs S' i = Some c \<and> reals S' (wr_target (cf_ref c)) = None"
    using steps_keep_invalid [OF assms(3) weak_inv_dealloc [OF reachable_weak [OF assms(1)]]] by simp
  then show ?thesis by (simp add: get_handle_def deref_def is_valid_def)
qed

text \<open>
  In every reachable store two column family handles compare equal exactly when they are the
  same object, so equality is an equivalence, is not changed by an invalidation, and agrees with
  the hash.
\<close>

theorem cf_eq_iff_same:
  assumes "cf_reachable E L S" "cfs S i = Some c" "cfs S j = Some d"
  shows "(ColumnFamilyHandle_eq S c (Some d) \<longleftrightarrow> i = j) \<and>
    (ColumnFamilyHandle_ne S c (Some d) \<longleftrightarrow> i \<noteq> j) \<and>
    (ColumnFamilyHandle_eq S c (Some d) \<longrightarrow>
       ColumnFamilyHandle_hash h c = ColumnFamilyHandle_hash h d)"
proof -
  note D = weak_invD [OF reachable_weak [OF assms(1)]]
  have "cf_eq S c d \<longleftrightarrow> i = j"
  proof
    assume eq: "cf_eq S c d"
    show "i = j"
    proof (cases "deref S (cf_ref c) \<noteq> None \<and> deref S (cf_ref d) \<noteq> None")
      case True
      then have "wr_target (cf_ref c) = wr_target (cf_ref d)"
        using eq by (auto simp: cf_eq_def weakref_eq_def split: if_splits)
      then show ?thesis
        using True D(6) [OF assms(2)] D(6) [OF assms(3)] by (auto simp: deref_def)
    next
      case False
      then have "wr_id (cf_ref c) = wr_id (cf_ref d)"
        using eq by (auto simp: cf_eq_def weakref_eq_def split: if_splits)
      then show ?thesis using D(2) [OF assms(2)] D(2) [OF assms(3)] by simp
    qed
  next
    assume "i = j"
    then show "cf_eq S c d" using assms(2,3) by (auto simp: cf_eq_def weakref_eq_def)
  qed
  then show ?thesis
    using assms(2,3) by (auto simp: ColumnFamilyHandle_eq_def ColumnFamilyHandle_ne_def)
qed

text \<open>
  The five ordering methods of column family handles agree: among handles they are the total
  preorder of the ids, and with a foreign object less-than answers NotImplemented.
\<close>

theorem cf_order_consistent:
  "ColumnFamilyHandle_lt c None = None \<and>
   (ColumnFamilyHandle_lt c (Some d) = Some True \<longleftrightarrow> ColumnFamilyHandle_ge c d = Some False) \<and>
   (ColumnFamilyHandle_gt c d = Some True \<longleftrightarrow> ColumnFamilyHandle_le c d = Some False) \<and>
   (ColumnFamilyHandle_le c d = Some True \<or> ColumnFamilyHandle_le d c = Some True) \<and>
   (ColumnFamilyHandle_le c d = Some True \<and> ColumnFamilyHandle_le d e = Some True \<longrightarrow>
      ColumnFamilyHandle_le c e = Some True)"
  by (auto simp: ColumnFamilyHandle_lt_def ColumnFamilyHandle_gt_def ColumnFamilyHandle_le_def
      ColumnFamilyHandle_ge_def)

subsection \<open>A store for examples\<close>

definition demo_lib :: cf_lib where
  "demo_lib = \<lparr>GetName = (\<lambda>p. [of_nat p]), GetID = int\<rparr>"

definition demo_handle :: cf_handle where
  "demo_handle = \<lparr>cf_ref = Weakref 1 0, cf_name = [7], cf_id = 7\<rparr>"

definition demo_store :: cf_store where
  "demo_store = \<lparr>reals = [0 \<mapsto> \<lparr>handle = 7, weak_handle = Some 2\<rparr>], cfs = [2 \<mapsto> demo_handle],
     deleted = [], fresh = 3\<rparr>"

lemma demo_weakref:
  "weakref_get plain_env demo_lib 0 (snd (from_handle_ptr 7 empty_store)) = Inr (2, demo_store)"
proof -
  have "PyInt_As_int plain_env (PInt 7) = Inr 7"
    by (simp add: slot_int.as_valid in_range_def ctype_defs)
  moreover have "PyInt_From_int (c_cast c_int 7) = PInt 7"
    by (simp add: PyInt_From_int_def PyInt_From_def c_cast_def ctype_defs)
  ultimately show ?thesis
    by (simp add: weakref_get_def from_wrapper_def from_handle_ptr_def empty_store_def deref_def
        ColumnFamilyHandle_cinit_def real_name_def real_id_def demo_lib_def demo_store_def
        demo_handle_def convert_PyBytes_string_to_py_def fun_eq_iff)
qed

lemma demo_reachable: "cf_reachable plain_env demo_lib demo_store"
proof -
  let ?S = "snd (from_handle_ptr 7 empty_store)"
  have "cf_reachable plain_env demo_lib ?S"
    by (rule cf_reachable.step [OF cf_reachable.start], rule cf_step.adopt) (simp_all add: empty_store_def)
  then show ?thesis by (rule cf_reachable.step) (rule cf_step.weak [OF demo_weakref])
qed

theorem get_handle_never_dangles_witness:
  "get_handle demo_store 2 = Inr 7 \<and> 7 \<notin> set (deleted demo_store)"
proof -
  have "get_handle demo_store 2 = Inr 7"
    by (simp add: get_handle_iff demo_store_def demo_handle_def)
  with get_handle_never_dangles [OF demo_reachable] show ?thesis by blast
qed

theorem dropped_handle_stays_invalid_witness:
  "\<not> is_valid (dealloc_real 0 demo_store) demo_handle"
  using dropped_handle_stays_invalid [OF demo_reachable, of 2 demo_handle "dealloc_real 0 demo_store"]
  by (simp add: demo_store_def demo_handle_def)

theorem cf_eq_iff_same_witness:
  "ColumnFamilyHandle_eq demo_store demo_handle (Some demo_handle)"
  using cf_eq_iff_same [OF demo_reachable, of 2 demo_handle 2 demo_handle]
  by (simp add: demo_store_def)

theorem cf_order_consistent_witness:
  "ColumnFamilyHandle_le demo_handle demo_handle = Some True"
  using cf_order_consistent [of demo_handle demo_handle demo_handle] by blast

end
