(* ===== verification/PyIterator.thy ===== *)
theory PyIterator
  imports Prelude
begin

section \<open>Python iterators\<close>

text \<open>
  The iterator protocol as its clients use it: \<open>__next__\<close> gives an item or raises
  \<open>StopIteration\<close>. The model's iterator classes are interpretations of the locale below, each
  with what it has left to yield; draining one is \<open>list(it)\<close>.
\<close>

text \<open>
  \<open>list(it)\<close> in at most \<open>n\<close> calls of \<open>__next__\<close>: \<open>None\<close> when the bound is not enough, \<open>Inl\<close>
  when an exception other than \<open>StopIteration\<close> ends it.
\<close>

fun drain :: "('s \<Rightarrow> (pyexn + pyobj) \<times> 's) \<Rightarrow> nat \<Rightarrow> 's \<Rightarrow> (pyexn + pyobj list) option \<times> 's" where
  "drain nx 0 s = (None, s)"
| "drain nx (Suc n) s =
     (case nx s of
        (Inr x, s') \<Rightarrow>
          (case drain nx n s' of
             (Some (Inr xs), s'') \<Rightarrow> (Some (Inr (x # xs)), s'')
           | r \<Rightarrow> r)
      | (Inl e, s') \<Rightarrow> (Some (if exn_class e = StopIteration then Inr [] else Inl e), s'))"

locale py_iterator =
  fixes nxt :: "'s \<Rightarrow> (pyexn + pyobj) \<times> 's"
    and inv :: "'s \<Rightarrow> bool"
    and rest :: "'s \<Rightarrow> pyobj list"
  assumes next_item: "inv s \<Longrightarrow> rest s = x # xs \<Longrightarrow> \<exists>s'. nxt s = (Inr x, s') \<and> inv s' \<and> rest s' = xs"
    and next_stop: "inv s \<Longrightarrow> rest s = [] \<Longrightarrow>
      \<exists>m s'. nxt s = (Inl (Exn StopIteration m), s') \<and> inv s' \<and> rest s' = []"
begin

lemma next_inv: "inv s \<Longrightarrow> inv (snd (nxt s))"
  by (cases "rest s") (force dest: next_item next_stop)+

lemma next_item_iff: "inv s \<Longrightarrow> fst (nxt s) = Inr x \<longleftrightarrow> (\<exists>xs. rest s = x # xs)"
  by (cases "rest s") (force dest: next_item next_stop)+

lemma next_stops_iff: "inv s \<Longrightarrow> (\<exists>e. fst (nxt s) = Inl e) \<longleftrightarrow> rest s = []"
  by (cases "rest s") (force dest: next_item next_stop)+

lemma drain_rest:
  "inv s \<Longrightarrow> length (rest s) < n \<Longrightarrow>
   \<exists>s'. drain nxt n s = (Some (Inr (rest s)), s') \<and> inv s' \<and> rest s' = []"
proof (induction n arbitrary: s)
  case (Suc n)
  show ?case
  proof (cases "rest s")
    case Nil
    then show ?thesis using next_stop [OF Suc.prems(1)] by force
  next
    case (Cons x xs)
    then obtain s' where s': "nxt s = (Inr x, s')" "inv s'" "rest s' = xs"
      using next_item [OF Suc.prems(1)] by blast
    then obtain t where "drain nxt n s' = (Some (Inr xs), t)" "inv t" "rest t = []"
      using Suc.IH [OF s'(2)] Suc.prems(2) Cons by auto
    then show ?thesis using s' Cons by simp
  qed
qed simp

lemma drain_value: "inv s \<Longrightarrow> length (rest s) < n \<Longrightarrow> fst (drain nxt n s) = Some (Inr (rest s))"
  using drain_rest by fastforce

text \<open>Once it has stopped, it stops again.\<close>

lemma stays_stopped:
  assumes "inv s" "fst (nxt s) = Inl e"
  shows "\<exists>m. fst (nxt (snd (nxt s))) = Inl (Exn StopIteration m)"
proof -
  have "rest s = []" using next_stops_iff [OF assms(1)] assms(2) by blast
  then obtain m s' where "nxt s = (Inl (Exn StopIteration m), s')" "inv s'" "rest s' = []"
    using next_stop [OF assms(1)] by blast
  then show ?thesis using next_stop [of s'] by force
qed

end

end
