(* ===== verification/WriteBatch.thy ===== *)
theory WriteBatch
  imports ColumnFamily PyIterator
begin

section \<open>Write batches\<close>

text \<open>
  The Cython classes \<open>WriteBatch\<close> and \<open>WriteBatchIterator\<close> of \<open>rocksdb/_rocksdb.cpp\<close>, and
  \<open>RecordItemsHandler\<close> with \<open>get_batch_items\<close> of \<open>rocksdb/cpp/write_batch_iter_helper.hpp\<close>.
  RocksDB's own \<open>rocksdb::WriteBatch\<close> is a parameter: the type \<open>'b\<close> and its methods.
\<close>

subsection \<open>Keys with a column family\<close>

text \<open>
  \<open>if isinstance(key, tuple): column_family, key = key; cf_handle = column_family.get_handle()\<close>,
  which every reading and writing method starts with. \<open>None\<close> is the initial handle.
\<close>

definition unpack_key :: "cf_store \<Rightarrow> pyobj \<Rightarrow> pyexn + nat option \<times> pyobj" where
  "unpack_key S key =
     (case key of
        PTuple xs \<Rightarrow>
          (case xs of
             [column_family, k] \<Rightarrow>
               (case column_family of
                  PCF i \<Rightarrow> bind_res (get_handle S i) (\<lambda>h. Inr (Some h, k))
                | _ \<Rightarrow> Inl (Exn TypeError
                         (Fmt ''Cannot convert %.200s to %.200s'' [column_family])))
           | _ \<Rightarrow>
               if length xs > 2
               then Inl (Exn ValueError (Text ''too many values to unpack (expected 2)''))
               else Inl (Exn ValueError (Fmt ''need more than %zd values to unpack''
                      [PInt (int (length xs))])))
      | _ \<Rightarrow> Inr (None, key))"

subsection \<open>The recorded operations\<close>

datatype Optype = PutRecord | MergeRecord | DeleteRecord

record BatchItem =
  bi_op :: Optype
  column_family_id :: int
  bi_key :: bytes
  bi_value :: bytes

text \<open>The calls \<open>rocksdb::WriteBatch::Iterate\<close> makes on its handler.\<close>

datatype handler_call =
    CallPutCF int bytes bytes
  | CallMergeCF int bytes bytes
  | CallDeleteCF int bytes

text \<open>
  \<open>RecordItemsHandler\<close>: each method appends to \<open>*items\<close> and returns \<open>Status::OK()\<close>
  (\<open>True\<close>); a \<open>rocksdb::Slice()\<close> is empty.
\<close>

fun RecordItemsHandler :: "handler_call \<Rightarrow> BatchItem list \<Rightarrow> bool \<times> BatchItem list" where
  "RecordItemsHandler (CallPutCF cf key val) items =
     (True, items @ [\<lparr>bi_op = PutRecord, column_family_id = cf, bi_key = key, bi_value = val\<rparr>])"
| "RecordItemsHandler (CallMergeCF cf key val) items =
     (True, items @ [\<lparr>bi_op = MergeRecord, column_family_id = cf, bi_key = key, bi_value = val\<rparr>])"
| "RecordItemsHandler (CallDeleteCF cf key) items =
     (True, items @ [\<lparr>bi_op = DeleteRecord, column_family_id = cf, bi_key = key, bi_value = []\<rparr>])"

subsection \<open>RocksDB's batch\<close>

text \<open>
  \<open>wb_Iterate b\<close>: the handler calls a full iteration makes and the status it returns when every
  call returned OK.
\<close>

record 'b batch_lib =
  wb_new :: "cpp_exn + 'b"
  wb_of_data :: "bytes \<Rightarrow> cpp_exn + 'b"
  wb_Put :: "'b \<Rightarrow> nat option \<Rightarrow> bytes \<Rightarrow> bytes \<Rightarrow> cpp_exn + 'b"
  wb_Merge :: "'b \<Rightarrow> nat option \<Rightarrow> bytes \<Rightarrow> bytes \<Rightarrow> cpp_exn + 'b"
  wb_Delete :: "'b \<Rightarrow> nat option \<Rightarrow> bytes \<Rightarrow> cpp_exn + 'b"
  wb_Clear :: "'b \<Rightarrow> cpp_exn + 'b"
  wb_Data :: "'b \<Rightarrow> cpp_exn + bytes"
  wb_Count :: "'b \<Rightarrow> cpp_exn + int"
  wb_Iterate :: "'b \<Rightarrow> handler_call list \<times> status"

text \<open>
  \<open>get_batch_items\<close>: runs the iteration with a recording handler; a handler call that returned
  something else than OK would end it.
\<close>

fun run_handler :: "handler_call list \<Rightarrow> BatchItem list \<Rightarrow> BatchItem list" where
  "run_handler [] items = items"
| "run_handler (c # cs) items =
     (case RecordItemsHandler c items of
        (ok, items') \<Rightarrow> if ok then run_handler cs items' else items')"

definition get_batch_items :: "'b batch_lib \<Rightarrow> 'b \<Rightarrow> BatchItem list \<Rightarrow> status \<times> BatchItem list" where
  "get_batch_items L b items =
     (case wb_Iterate L b of (calls, st) \<Rightarrow> (st, run_handler calls items))"

subsection \<open>The Python class\<close>

text \<open>
  \<open>version\<close> counts the changes of the batch: the recorded slices point into its memory, which
  a change may move.
\<close>

record 'b WriteBatch =
  batch :: 'b
  version :: nat

definition WriteBatch_cinit :: "'b batch_lib \<Rightarrow> pyobj \<Rightarrow> pyexn + 'b WriteBatch" where
  "WriteBatch_cinit L data =
     (if data \<noteq> PNone
      then bind_res (bytes_to_string data) (\<lambda>s.
             bind_res (catch_cpp (wb_of_data L s)) (\<lambda>b. Inr \<lparr>batch = b, version = 0\<rparr>))
      else bind_res (catch_cpp (wb_new L)) (\<lambda>b. Inr \<lparr>batch = b, version = 0\<rparr>))"

definition changed :: "'b WriteBatch \<Rightarrow> 'b \<Rightarrow> 'b WriteBatch" where
  "changed self b = \<lparr>batch = b, version = version self + 1\<rparr>"

definition WriteBatch_put ::
    "'b batch_lib \<Rightarrow> cf_store \<Rightarrow> 'b WriteBatch \<Rightarrow> pyobj \<Rightarrow> pyobj \<Rightarrow> pyexn + 'b WriteBatch" where
  "WriteBatch_put L S self key val =
     bind_res (unpack_key S key) (\<lambda>(cf_handle, key).
     bind_res (bytes_to_slice key) (\<lambda>k.
     bind_res (bytes_to_slice val) (\<lambda>v.
     bind_res (catch_cpp (wb_Put L (batch self) cf_handle k v)) (\<lambda>b. Inr (changed self b)))))"

definition WriteBatch_merge ::
    "'b batch_lib \<Rightarrow> cf_store \<Rightarrow> 'b WriteBatch \<Rightarrow> pyobj \<Rightarrow> pyobj \<Rightarrow> pyexn + 'b WriteBatch" where
  "WriteBatch_merge L S self key val =
     bind_res (unpack_key S key) (\<lambda>(cf_handle, key).
     bind_res (bytes_to_slice key) (\<lambda>k.
     bind_res (bytes_to_slice val) (\<lambda>v.
     bind_res (catch_cpp (wb_Merge L (batch self) cf_handle k v)) (\<lambda>b. Inr (changed self b)))))"

definition WriteBatch_delete ::
    "'b batch_lib \<Rightarrow> cf_store \<Rightarrow> 'b WriteBatch \<Rightarrow> pyobj \<Rightarrow> pyexn + 'b WriteBatch" where
  "WriteBatch_delete L S self key =
     bind_res (unpack_key S key) (\<lambda>(cf_handle, key).
     bind_res (bytes_to_slice key) (\<lambda>k.
     bind_res (catch_cpp (wb_Delete L (batch self) cf_handle k)) (\<lambda>b. Inr (changed self b))))"

definition WriteBatch_clear :: "'b batch_lib \<Rightarrow> 'b WriteBatch \<Rightarrow> pyexn + 'b WriteBatch" where
  "WriteBatch_clear L self =
     bind_res (catch_cpp (wb_Clear L (batch self))) (\<lambda>b. Inr (changed self b))"

definition WriteBatch_data :: "'b batch_lib \<Rightarrow> 'b WriteBatch \<Rightarrow> pyexn + pyobj" where
  "WriteBatch_data L self =
     bind_res (catch_cpp (wb_Data L (batch self))) (\<lambda>s. Inr (string_to_bytes s))"

definition WriteBatch_count :: "'b batch_lib \<Rightarrow> 'b WriteBatch \<Rightarrow> pyexn + pyobj" where
  "WriteBatch_count L self =
     bind_res (catch_cpp (wb_Count L (batch self))) (\<lambda>n. Inr (PyInt_From_int n))"

subsection \<open>The iterator\<close>

record WriteBatchIterator =
  items :: "BatchItem list"
  pos :: nat
  it_version :: nat

definition WriteBatchIterator_init :: "'b batch_lib \<Rightarrow> 'b WriteBatch \<Rightarrow> pyexn + WriteBatchIterator"
  where
  "WriteBatchIterator_init L b =
     (case get_batch_items L (batch b) [] of
        (st, its) \<Rightarrow>
          bind_res (check_status st) (\<lambda>_. Inr \<lparr>items = its, pos = 0, it_version = version b\<rparr>))"

text \<open>
  Reading a recorded slice: its bytes while the batch is unchanged, whatever the memory holds
  (\<open>junk\<close>) afterwards.
\<close>

definition read_slice :: "(bytes \<Rightarrow> bytes) \<Rightarrow> nat \<Rightarrow> WriteBatchIterator \<Rightarrow> bytes \<Rightarrow> bytes" where
  "read_slice junk ver it sl = (if ver = it_version it then sl else junk sl)"

definition op_name :: "Optype \<Rightarrow> pyobj" where
  "op_name op =
     (if op = PutRecord then PStr ''Put'' else if op = MergeRecord then PStr ''Merge''
      else PStr ''Delete'')"

definition WriteBatchIterator_next ::
    "(bytes \<Rightarrow> bytes) \<Rightarrow> nat \<Rightarrow> WriteBatchIterator \<Rightarrow> (pyexn + pyobj) \<times> WriteBatchIterator" where
  "WriteBatchIterator_next junk ver self =
     (if pos self = length (items self) then (Inl (Exn StopIteration NoMsg), self)
      else
        let item = items self ! pos self;
            op = op_name (bi_op item);
            key = slice_to_bytes (read_slice junk ver self (bi_key item));
            val = slice_to_bytes (read_slice junk ver self (bi_value item));
            ret = (if column_family_id item \<noteq> 0
                   then PTuple [op, PTuple [PyInt_From_uint32_t (column_family_id item), key], val]
                   else PTuple [op, key, val])
        in (Inr ret, self\<lparr>pos := pos self + 1\<rparr>))"

subsection \<open>Iteration yields the records\<close>

definition item_of :: "handler_call \<Rightarrow> BatchItem" where
  "item_of c = (case c of
     CallPutCF cf k v \<Rightarrow> \<lparr>bi_op = PutRecord, column_family_id = cf, bi_key = k, bi_value = v\<rparr>
   | CallMergeCF cf k v \<Rightarrow> \<lparr>bi_op = MergeRecord, column_family_id = cf, bi_key = k, bi_value = v\<rparr>
   | CallDeleteCF cf k \<Rightarrow> \<lparr>bi_op = DeleteRecord, column_family_id = cf, bi_key = k, bi_value = []\<rparr>)"

lemma run_handler_map: "run_handler calls its = its @ map item_of calls"
proof (induction calls arbitrary: its)
  case (Cons c cs)
  then show ?case by (cases c) (simp_all add: item_of_def)
qed simp

lemma get_batch_items_eq:
  "wb_Iterate L b = (calls, st) \<Longrightarrow> get_batch_items L b [] = (st, map item_of calls)"
  by (simp add: get_batch_items_def run_handler_map)

definition shown_item :: "BatchItem \<Rightarrow> pyobj" where
  "shown_item it =
     PTuple [op_name (bi_op it),
       (if column_family_id it \<noteq> 0
        then PTuple [PyInt_From_uint32_t (column_family_id it), PBytes (bi_key it)]
        else PBytes (bi_key it)),
       PBytes (bi_value it)]"

interpretation batch_it: py_iterator "WriteBatchIterator_next junk ver"
  "\<lambda>it :: WriteBatchIterator. it_version it = ver \<and> pos it \<le> length (items it)"
  "\<lambda>it :: WriteBatchIterator. map shown_item (drop (pos it) (items it))" for junk ver
proof unfold_locales
  fix s :: WriteBatchIterator and x xs
  assume inv: "it_version s = ver \<and> pos s \<le> length (items s)"
    and r: "map shown_item (drop (pos s) (items s)) = x # xs"
  then have lt: "pos s < length (items s)" by (metis drop_all list.distinct(1) list.map(1) not_le)
  then have d: "drop (pos s) (items s) = items s ! pos s # drop (pos s + 1) (items s)"
    by (simp add: Cons_nth_drop_Suc)
  show "\<exists>s'. WriteBatchIterator_next junk ver s = (Inr x, s') \<and>
      (it_version s' = ver \<and> pos s' \<le> length (items s')) \<and>
      map shown_item (drop (pos s') (items s')) = xs"
    using inv lt r d
    by (auto simp: WriteBatchIterator_next_def Let_def read_slice_def shown_item_def slice_to_bytes_def)
next
  fix s :: WriteBatchIterator
  assume "it_version s = ver \<and> pos s \<le> length (items s)"
    "map shown_item (drop (pos s) (items s)) = []"
  then have "pos s = length (items s)" "it_version s = ver" by auto
  then show "\<exists>m s'. WriteBatchIterator_next junk ver s = (Inl (Exn StopIteration m), s') \<and>
      (it_version s' = ver \<and> pos s' \<le> length (items s')) \<and>
      map shown_item (drop (pos s') (items s')) = []"
    by (auto simp: WriteBatchIterator_next_def)
qed

subsection \<open>Sequences of changes\<close>

datatype batch_cmd = DoPut pyobj pyobj | DoMerge pyobj pyobj | DoDelete pyobj | DoClear

fun run_cmd :: "'b batch_lib \<Rightarrow> cf_store \<Rightarrow> 'b WriteBatch \<Rightarrow> batch_cmd \<Rightarrow> pyexn + 'b WriteBatch" where
  "run_cmd L S b (DoPut key val) = WriteBatch_put L S b key val"
| "run_cmd L S b (DoMerge key val) = WriteBatch_merge L S b key val"
| "run_cmd L S b (DoDelete key) = WriteBatch_delete L S b key"
| "run_cmd L S b DoClear = WriteBatch_clear L b"

fun run_cmds ::
    "'b batch_lib \<Rightarrow> cf_store \<Rightarrow> 'b WriteBatch \<Rightarrow> batch_cmd list \<Rightarrow> pyexn + 'b WriteBatch" where
  "run_cmds L S b [] = Inr b"
| "run_cmds L S b (c # cs) = bind_res (run_cmd L S b c) (\<lambda>b'. run_cmds L S b' cs)"

text \<open>
  What RocksDB documents of its batch: updates are recorded in the order they are applied, a
  null handle means the default column family, whose id is 0, iterating makes one handler
  call per record in that order and returns OK, \<open>Clear\<close> drops all records.
\<close>

definition batch_contract :: "'b batch_lib \<Rightarrow> (nat \<Rightarrow> int) \<Rightarrow> ('b \<Rightarrow> handler_call list) \<Rightarrow> bool" where
  "batch_contract L num recs \<longleftrightarrow>
     (\<forall>b. wb_new L = Inr b \<longrightarrow> recs b = []) \<and>
     (\<forall>b h k v b'. wb_Put L b h k v = Inr b' \<longrightarrow>
        recs b' = recs b @ [CallPutCF (case h of None \<Rightarrow> 0 | Some p \<Rightarrow> num p) k v]) \<and>
     (\<forall>b h k v b'. wb_Merge L b h k v = Inr b' \<longrightarrow>
        recs b' = recs b @ [CallMergeCF (case h of None \<Rightarrow> 0 | Some p \<Rightarrow> num p) k v]) \<and>
     (\<forall>b h k b'. wb_Delete L b h k = Inr b' \<longrightarrow>
        recs b' = recs b @ [CallDeleteCF (case h of None \<Rightarrow> 0 | Some p \<Rightarrow> num p) k]) \<and>
     (\<forall>b b'. wb_Clear L b = Inr b' \<longrightarrow> recs b' = []) \<and>
     (\<forall>b. fst (wb_Iterate L b) = recs b \<and> st_ok (snd (wb_Iterate L b)))"

lemma batch_contractD:
  assumes "batch_contract L num recs"
  shows "wb_new L = Inr b \<Longrightarrow> recs b = []"
    and "wb_Put L b h k v = Inr b' \<Longrightarrow>
        recs b' = recs b @ [CallPutCF (case h of None \<Rightarrow> 0 | Some p \<Rightarrow> num p) k v]"
    and "wb_Merge L b h k v = Inr b' \<Longrightarrow>
        recs b' = recs b @ [CallMergeCF (case h of None \<Rightarrow> 0 | Some p \<Rightarrow> num p) k v]"
    and "wb_Delete L b h k = Inr b' \<Longrightarrow>
        recs b' = recs b @ [CallDeleteCF (case h of None \<Rightarrow> 0 | Some p \<Rightarrow> num p) k]"
    and "wb_Clear L b = Inr b' \<Longrightarrow> recs b' = []"
    and "wb_Iterate L b = (recs b, snd (wb_Iterate L b))" "st_ok (snd (wb_Iterate L b))"
  using assms unfolding batch_contract_def by (blast, blast, blast, blast, blast, simp add: prod_eq_iff, simp)

text \<open>What Python should see: the key as it was given, with the family's id instead of its handle.\<close>

definition seen_key :: "cf_store \<Rightarrow> (nat \<Rightarrow> int) \<Rightarrow> pyobj \<Rightarrow> pyobj" where
  "seen_key S num key =
     (case unpack_key S key of
        Inr (Some h, k) \<Rightarrow> if num h = 0 then k else PTuple [PyInt_From_uint32_t (num h), k]
      | Inr (None, k) \<Rightarrow> k
      | Inl e \<Rightarrow> key)"

fun seen_after :: "cf_store \<Rightarrow> (nat \<Rightarrow> int) \<Rightarrow> pyobj list \<Rightarrow> batch_cmd \<Rightarrow> pyobj list" where
  "seen_after S num xs (DoPut key val) = xs @ [PTuple [PStr ''Put'', seen_key S num key, val]]"
| "seen_after S num xs (DoMerge key val) = xs @ [PTuple [PStr ''Merge'', seen_key S num key, val]]"
| "seen_after S num xs (DoDelete key) = xs @ [PTuple [PStr ''Delete'', seen_key S num key, PBytes []]]"
| "seen_after S num xs DoClear = []"

lemma op_name_simps [simp]:
  "op_name PutRecord = PStr ''Put''" "op_name MergeRecord = PStr ''Merge''"
  "op_name DeleteRecord = PStr ''Delete''"
  by (simp_all add: op_name_def)

lemma run_cmd_seen:
  assumes "batch_contract L num recs" "run_cmd L S b c = Inr b'"
  shows "map (shown_item \<circ> item_of) (recs (batch b')) =
    seen_after S num (map (shown_item \<circ> item_of) (recs (batch b))) c"
proof -
  note C = batch_contractD [OF assms(1)]
  show ?thesis
    using assms(2)
    by (cases c)
      (auto simp: WriteBatch_put_def WriteBatch_merge_def WriteBatch_delete_def WriteBatch_clear_def
        bind_res_convs bytes_to_slice_iff changed_def seen_key_def shown_item_def
        item_of_def split: sum.splits option.splits dest!: C(2-5))
qed

lemma run_cmds_seen:
  assumes "batch_contract L num recs" "run_cmds L S b cs = Inr b'"
  shows "map (shown_item \<circ> item_of) (recs (batch b')) =
    foldl (seen_after S num) (map (shown_item \<circ> item_of) (recs (batch b))) cs"
  using assms(2)
  by (induction cs arbitrary: b) (auto simp: bind_res_convs dest!: run_cmd_seen [OF assms(1)])

lemma seen_after_length: "length (foldl (seen_after S num) xs cs) \<le> length xs + length cs"
proof (induction cs arbitrary: xs)
  case (Cons c cs)
  have "length (seen_after S num xs c) \<le> length xs + 1" by (cases c) simp_all
  then show ?case using Cons [of "seen_after S num xs c"] by simp
qed simp

lemma unpack_key_errors:
  "unpack_key S key = Inl e \<longleftrightarrow>
   (\<exists>xs. key = PTuple xs \<and>
     (length xs > 2 \<and> e = Exn ValueError (Text ''too many values to unpack (expected 2)'') \<or>
      length xs < 2 \<and> e = Exn ValueError (Fmt ''need more than %zd values to unpack''
        [PInt (int (length xs))]) \<or>
      (\<exists>c k. xs = [c, k] \<and> (\<nexists>i. c = PCF i) \<and>
         e = Exn TypeError (Fmt ''Cannot convert %.200s to %.200s'' [c])) \<or>
      (\<exists>i k. xs = [PCF i, k] \<and> get_handle S i = Inl e)))"
  by (cases key; cases "length (case key of PTuple xs \<Rightarrow> xs | _ \<Rightarrow> []) = 2")
    (auto simp: unpack_key_def bind_res_convs numeral_2_eq_2 length_Suc_conv
      split: list.splits pyobj.splits)

subsection \<open>Properties\<close>

text \<open>
  C13. Iterating over a batch yields every operation applied to it since the last clear, in order,
  each as a tuple of its name, its key (paired with the column family id unless that is the
  default family) and its value, and then stops; for every sequence of successful puts, merges,
  deletes and clears on a new batch that is not changed while it is iterated.
\<close>

theorem batch_iterates_commands:
  assumes "batch_contract L num recs" "WriteBatch_cinit L PNone = Inr b0"
    and "run_cmds L S b0 cmds = Inr b" "length cmds < n"
  shows "\<exists>it. WriteBatchIterator_init L b = Inr it \<and>
    fst (drain (WriteBatchIterator_next junk (version b)) n it) =
      Some (Inr (foldl (seen_after S num) [] cmds))"
proof -
  note C = batch_contractD [OF assms(1)]
  have "recs (batch b0) = []"
    using assms(2) C(1) by (auto simp: WriteBatch_cinit_def bind_res_convs)
  then have seen: "map (shown_item \<circ> item_of) (recs (batch b)) = foldl (seen_after S num) [] cmds"
    using run_cmds_seen [OF assms(1,3)] by simp
  define it where "it = \<lparr>items = map item_of (recs (batch b)), pos = 0, it_version = version b\<rparr>"
  have "WriteBatchIterator_init L b = Inr it"
    using get_batch_items_eq [OF C(6)] C(7)
    by (simp add: WriteBatchIterator_init_def bind_res_convs it_def)
  moreover have "fst (drain (WriteBatchIterator_next junk (version b)) n it) =
      Some (Inr (map shown_item (drop (pos it) (items it))))"
    using seen_after_length [of S num "[]" cmds] seen [symmetric] assms(4)
    by (intro batch_it.drain_value) (simp_all add: it_def)
  ultimately show ?thesis using seen by (simp add: it_def)
qed

text \<open>
  Once the iterator of a batch has raised an exception it has no more items: every later call
  raises StopIteration.
\<close>

theorem batch_iterator_stays_stopped:
  assumes "pos it \<le> length (items it)" "fst (WriteBatchIterator_next junk (it_version it) it) = Inl e"
  shows "\<exists>m. fst (WriteBatchIterator_next junk (it_version it)
      (snd (WriteBatchIterator_next junk (it_version it) it))) = Inl (Exn StopIteration m)"
  using batch_it.stays_stopped [where ver = "it_version it" and s = it and junk = junk and e = e] assms by simp

text \<open>
  Every changing operation refuses a tuple key of another length than 2 (ValueError), a pair
  that does not start with a column family handle (TypeError) and a pair with the handle of a
  dropped family (ValueError), whatever the values are; the batch is not touched then.
\<close>

theorem batch_key_errors:
  assumes "f = (\<lambda>key. WriteBatch_put L S b key v) \<or> f = (\<lambda>key. WriteBatch_merge L S b key v) \<or>
    f = WriteBatch_delete L S b"
  shows "(length xs \<noteq> 2 \<longrightarrow> (\<exists>m. f (PTuple xs) = Inl (Exn ValueError m))) \<and>
    ((\<forall>i. c \<noteq> PCF i) \<longrightarrow> (\<exists>m. f (PTuple [c, k]) = Inl (Exn TypeError m))) \<and>
    (cfs S i = Some d \<and> \<not> is_valid S d \<longrightarrow> (\<exists>m. f (PTuple [PCF i, k]) = Inl (Exn ValueError m)))"
proof -
  have f: "f key = Inl e" if "unpack_key S key = Inl e" for key e
    using assms that by (auto simp: WriteBatch_put_def WriteBatch_merge_def WriteBatch_delete_def)
  have "\<exists>m. unpack_key S (PTuple xs) = Inl (Exn ValueError m)" if "length xs \<noteq> 2"
    using that by (cases "length xs > 2") (auto simp: unpack_key_errors)
  moreover have "\<exists>m. unpack_key S (PTuple [c, k]) = Inl (Exn TypeError m)" if "\<forall>i. c \<noteq> PCF i"
    using that by (auto simp: unpack_key_errors)
  moreover have "\<exists>m. unpack_key S (PTuple [PCF i, k]) = Inl (Exn ValueError m)"
    if "cfs S i = Some d \<and> \<not> is_valid S d"
    using that by (auto simp: unpack_key_errors get_handle_def is_valid_def)
  ultimately show ?thesis using f by blast
qed

subsection \<open>A batch for examples\<close>

text \<open>The ids of the families of handles; 9 is a second handle of the default family.\<close>

definition demo_num :: "nat \<Rightarrow> int" where
  "demo_num p = (if p = 9 then 0 else int p)"

definition cf_num :: "nat option \<Rightarrow> int" where
  "cf_num h = (case h of None \<Rightarrow> 0 | Some p \<Rightarrow> demo_num p)"

definition list_batch :: "handler_call list batch_lib" where
  "list_batch =
     \<lparr>wb_new = Inr [], wb_of_data = (\<lambda>_. Inr []),
      wb_Put = (\<lambda>b h k v. Inr (b @ [CallPutCF (cf_num h) k v])),
      wb_Merge = (\<lambda>b h k v. Inr (b @ [CallMergeCF (cf_num h) k v])),
      wb_Delete = (\<lambda>b h k. Inr (b @ [CallDeleteCF (cf_num h) k])),
      wb_Clear = (\<lambda>_. Inr []), wb_Data = (\<lambda>_. Inr []), wb_Count = (\<lambda>b. Inr (int (length b))),
      wb_Iterate = (\<lambda>b. (b, status_of Ok []))\<rparr>"

lemma list_batch_contract: "batch_contract list_batch demo_num id"
  by (simp add: batch_contract_def list_batch_def cf_num_def status_of_def split: option.splits)

theorem batch_iterates_commands_witness:
  "\<exists>it. WriteBatchIterator_init list_batch
      \<lparr>batch = [CallPutCF 0 [1] [2], CallMergeCF 7 [3] [4], CallDeleteCF 0 [5]], version = 3\<rparr> = Inr it \<and>
    fst (drain (WriteBatchIterator_next rev 3) 4 it) =
      Some (Inr [PTuple [PStr ''Put'', PBytes [1], PBytes [2]],
        PTuple [PStr ''Merge'', PTuple [PInt 7, PBytes [3]], PBytes [4]],
        PTuple [PStr ''Delete'', PBytes [5], PBytes []]])"
proof -
  let ?cmds = "[DoPut (PBytes [1]) (PBytes [2]), DoMerge (PTuple [PCF 2, PBytes [3]]) (PBytes [4]),
    DoDelete (PBytes [5])]"
  let ?b = "\<lparr>batch = [CallPutCF 0 [1] [2], CallMergeCF 7 [3] [4], CallDeleteCF 0 [5]], version = 3\<rparr>"
  have c: "WriteBatch_cinit list_batch PNone = Inr \<lparr>batch = [], version = 0\<rparr>"
    by (simp add: WriteBatch_cinit_def list_batch_def)
  have h: "unpack_key demo_store (PTuple [PCF 2, PBytes [3]]) = Inr (Some 7, PBytes [3])"
    by (simp add: unpack_key_def get_handle_def deref_def demo_store_def demo_handle_def)
  have n: "unpack_key S (PBytes k) = Inr (None, PBytes k)" for S k
    by (simp add: unpack_key_def)
  have r: "run_cmds list_batch demo_store \<lparr>batch = [], version = 0\<rparr> ?cmds = Inr ?b"
    by (simp add: WriteBatch_put_def WriteBatch_merge_def WriteBatch_delete_def h n changed_def
        list_batch_def cf_num_def demo_num_def)
  have s: "foldl (seen_after demo_store demo_num) [] ?cmds =
      [PTuple [PStr ''Put'', PBytes [1], PBytes [2]],
        PTuple [PStr ''Merge'', PTuple [PInt 7, PBytes [3]], PBytes [4]],
        PTuple [PStr ''Delete'', PBytes [5], PBytes []]]"
    by (simp add: seen_key_def h n slot_uint32.from_valid in_range_def ctype_defs demo_num_def)
  show ?thesis
    using batch_iterates_commands [OF list_batch_contract c r, of 4 rev] unfolding s by simp
qed

theorem batch_iterator_stays_stopped_witness:
  "\<exists>m. fst (WriteBatchIterator_next id 0 (snd (WriteBatchIterator_next id 0
      \<lparr>items = [], pos = 0, it_version = 0\<rparr>))) = Inl (Exn StopIteration m)"
  using batch_iterator_stays_stopped [of "\<lparr>items = [], pos = 0, it_version = 0\<rparr>" id
      "Exn StopIteration NoMsg"]
  by (simp add: WriteBatchIterator_next_def)

theorem batch_key_errors_witness:
  "\<exists>m. WriteBatch_delete list_batch empty_store \<lparr>batch = [], version = 0\<rparr> (PTuple []) =
     Inl (Exn ValueError m)"
  using batch_key_errors [of "WriteBatch_delete list_batch empty_store \<lparr>batch = [], version = 0\<rparr>"
      list_batch empty_store "\<lparr>batch = [], version = 0\<rparr>" PNone "[]" PNone PNone 0 demo_handle]
  by simp

end
