(* ===== verification/ArgParse.thy ===== *)
theory ArgParse
  imports Prelude
begin

section \<open>Unpacking of call arguments\<close>

text \<open>
  The argument unpacking every generated Python wrapper (\<open>__pyx_pw_...\<close>) of
  \<open>rocksdb/_rocksdb.cpp\<close> performs: positional arguments go into an array of values, keywords
  fill the rest while a counter of unconsumed keywords is kept, and what the counter leaves
  goes through \<open>__Pyx_ParseOptionalKeywords\<close>. A wrapper is described by its name, the number
  of its required parameters and the parameters with their defaults. The keyword dictionary is
  an association list with distinct names.
\<close>

type_synonym kwargs = "(string \<times> pyobj) list"

record signature =
  fn_name :: string
  num_required :: nat
  params :: "(string \<times> pyobj option) list"

definition RaiseArgtupleInvalid :: "string \<Rightarrow> pyexn + 'a" where
  "RaiseArgtupleInvalid fn = Inl (Exn TypeError (Text (fn @ ''() takes other positional arguments'')))"

definition RaiseDoubleKeywordsError :: "string \<Rightarrow> string \<Rightarrow> pyexn + 'a" where
  "RaiseDoubleKeywordsError fn kw =
     Inl (Exn TypeError (Text (fn @ ''() got multiple values for keyword argument '' @ kw)))"

definition invalid_keyword :: "string \<Rightarrow> string \<Rightarrow> pyexn + 'a" where
  "invalid_keyword fn kw =
     Inl (Exn TypeError (Text (fn @ ''() got an unexpected keyword argument '' @ kw)))"

text \<open>
  The second \<open>switch (pos_args)\<close> of a wrapper, from parameter \<open>i\<close> on: a required parameter must
  be a keyword, an optional one is looked up only while keywords are left over.
\<close>

fun scan_keywords ::
    "string \<Rightarrow> nat \<Rightarrow> kwargs \<Rightarrow> nat \<Rightarrow> (string \<times> pyobj option) list \<Rightarrow> nat \<Rightarrow>
     pyexn + pyobj option list \<times> nat" where
  "scan_keywords fn req kwds i [] kw_args = Inr ([], kw_args)"
| "scan_keywords fn req kwds i ((name, dflt) # ps) kw_args =
     (if i < req
      then (case map_of kwds name of
              None \<Rightarrow> RaiseArgtupleInvalid fn
            | Some v \<Rightarrow> bind_res (scan_keywords fn req kwds (i + 1) ps (kw_args - 1))
                (\<lambda>(vs, k). Inr (Some v # vs, k)))
      else (case (if kw_args > 0 then map_of kwds name else None) of
              Some v \<Rightarrow> bind_res (scan_keywords fn req kwds (i + 1) ps (kw_args - 1))
                (\<lambda>(vs, k). Inr (Some v # vs, k))
            | None \<Rightarrow> bind_res (scan_keywords fn req kwds (i + 1) ps kw_args)
                (\<lambda>(vs, k). Inr (dflt # vs, k))))"

text \<open>
  \<open>__Pyx_ParseOptionalKeywords\<close>: \<open>before\<close> are the names taken by position, \<open>after\<close> the others
  with their values; \<open>kwds2\<close> is the dictionary for unknown names, if the function has one.
\<close>

fun set_value :: "string list \<Rightarrow> string \<Rightarrow> pyobj \<Rightarrow> pyobj option list \<Rightarrow> pyobj option list" where
  "set_value (n # ns) key v (x # xs) = (if n = key then Some v # xs else x # set_value ns key v xs)"
| "set_value _ key v xs = xs"

fun ParseOptionalKeywords ::
    "string \<Rightarrow> string list \<Rightarrow> string list \<Rightarrow> kwargs \<Rightarrow> kwargs option \<Rightarrow> pyobj option list \<Rightarrow>
     pyexn + pyobj option list \<times> kwargs option" where
  "ParseOptionalKeywords fn before after [] kwds2 vals = Inr (vals, kwds2)"
| "ParseOptionalKeywords fn before after ((key, v) # kwds) kwds2 vals =
     (if key \<in> set after
      then ParseOptionalKeywords fn before after kwds kwds2 (set_value after key v vals)
      else if key \<in> set before then RaiseDoubleKeywordsError fn key
      else case kwds2 of
             None \<Rightarrow> invalid_keyword fn key
           | Some ks \<Rightarrow> ParseOptionalKeywords fn before after kwds (Some (ks @ [(key, v)])) vals)"

text \<open>A wrapper with a fixed parameter list.\<close>

definition unpack_arguments :: "signature \<Rightarrow> pyobj list \<Rightarrow> kwargs \<Rightarrow> pyexn + pyobj option list" where
  "unpack_arguments sg args kwds =
     (let pos_args = length args; rest = drop pos_args (params sg) in
      if pos_args > length (params sg) then RaiseArgtupleInvalid (fn_name sg)
      else bind_res (scan_keywords (fn_name sg) (num_required sg) kwds pos_args rest (length kwds))
        (\<lambda>(vals, kw_args).
          if kw_args > 0
          then bind_res (ParseOptionalKeywords (fn_name sg) (map fst (take pos_args (params sg)))
                 (map fst rest) kwds None vals)
               (\<lambda>(vals', _). Inr (map Some args @ vals'))
          else Inr (map Some args @ vals)))"

text \<open>
  A wrapper with \<open>*args\<close> and \<open>**kwargs\<close>: surplus positional arguments form the tuple, unknown
  keywords the dictionary.
\<close>

definition unpack_star ::
    "signature \<Rightarrow> pyobj list \<Rightarrow> kwargs \<Rightarrow> pyexn + pyobj option list \<times> pyobj list \<times> kwargs" where
  "unpack_star sg args kwds =
     (let used = min (length args) (length (params sg)); rest = drop used (params sg) in
      bind_res (scan_keywords (fn_name sg) (num_required sg) kwds used rest (length kwds))
        (\<lambda>(vals, kw_args).
          if kw_args > 0
          then bind_res (ParseOptionalKeywords (fn_name sg) (map fst (take used (params sg)))
                 (map fst rest) kwds (Some []) vals)
               (\<lambda>(vals', ks). Inr (map Some (take used args) @ vals', drop used args,
                  case ks of Some l \<Rightarrow> l | None \<Rightarrow> []))
          else Inr (map Some (take used args) @ vals, drop used args, [])))"

subsection \<open>The binding rule\<close>

text \<open>
  What a parameter receives by Python's rules, and when a call is well formed.
\<close>

definition bound_value :: "pyobj list \<Rightarrow> kwargs \<Rightarrow> nat \<Rightarrow> string \<times> pyobj option \<Rightarrow> pyobj option" where
  "bound_value args kwds i p =
     (if i < length args then Some (args ! i)
      else case map_of kwds (fst p) of Some v \<Rightarrow> Some v | None \<Rightarrow> snd p)"

definition call_ok :: "signature \<Rightarrow> pyobj list \<Rightarrow> kwargs \<Rightarrow> bool" where
  "call_ok sg args kwds \<longleftrightarrow>
     length args \<le> length (params sg) \<and>
     (\<forall>k \<in> set (map fst kwds). k \<in> set (map fst (drop (length args) (params sg)))) \<and>
     (\<forall>i < length (params sg). length args \<le> i \<longrightarrow> i < num_required sg \<longrightarrow>
        map_of kwds (fst (params sg ! i)) \<noteq> None)"

definition sig_ok :: "signature \<Rightarrow> bool" where
  "sig_ok sg \<longleftrightarrow> distinct (map fst (params sg)) \<and> num_required sg \<le> length (params sg)"

lemmas arg_errors = RaiseArgtupleInvalid_def RaiseDoubleKeywordsError_def invalid_keyword_def

definition kw_value :: "kwargs \<Rightarrow> string \<times> pyobj option \<Rightarrow> pyobj option" where
  "kw_value kwds p = (case map_of kwds (fst p) of Some v \<Rightarrow> Some v | None \<Rightarrow> snd p)"

abbreviation kw_names :: "kwargs \<Rightarrow> string set" where
  "kw_names kwds \<equiv> fst ` set kwds"

text \<open>The counter of the scan counts the keywords not seen yet.\<close>

lemma scan_keywords_spec:
  assumes "distinct (map fst ps)"
    and "left = m + card (kw_names kwds \<inter> fst ` set ps)"
  shows "scan_keywords fn req kwds i ps left =
    (if \<forall>j < length ps. i + j < req \<longrightarrow> map_of kwds (fst (ps ! j)) \<noteq> None
     then Inr (map (kw_value kwds) ps, m) else RaiseArgtupleInvalid fn)"
  using assms
proof (induction ps arbitrary: i left)
  case Nil
  then show ?case by simp
next
  case (Cons p ps)
  obtain name dflt where p: "p = (name, dflt)" by (cases p)
  have new: "name \<notin> fst ` set ps" and dist: "distinct (map fst ps)" using Cons.prems(1) p by auto
  have fin: "finite (kw_names kwds \<inter> fst ` set ps)" by simp
  define b where "b \<longleftrightarrow>
    (\<forall>j < length ps. (i + 1) + j < req \<longrightarrow> map_of kwds (fst (ps ! j)) \<noteq> None)"
  have split: "(\<forall>j < length (p # ps). i + j < req \<longrightarrow> map_of kwds (fst ((p # ps) ! j)) \<noteq> None) \<longleftrightarrow>
      (i < req \<longrightarrow> map_of kwds name \<noteq> None) \<and> b"
    by (simp add: p All_less_Suc2 b_def)
  show ?case
  proof (cases "map_of kwds name")
    case None
    then have "name \<notin> kw_names kwds" by (simp add: map_of_eq_None_iff)
    then have "left = m + card (kw_names kwds \<inter> fst ` set ps)" using Cons.prems(2) p by simp
    then have IH: "scan_keywords fn req kwds (i + 1) ps left =
        (if b then Inr (map (kw_value kwds) ps, m) else RaiseArgtupleInvalid fn)"
      unfolding b_def using Cons.IH [OF dist, of left "i + 1"] by simp
    show ?thesis
    proof (cases "i < req")
      case True
      then show ?thesis using None unfolding split by (simp add: p)
    next
      case False
      have "scan_keywords fn req kwds i (p # ps) left =
          bind_res (scan_keywords fn req kwds (i + 1) ps left) (\<lambda>(vs, k). Inr (dflt # vs, k))"
        using False None p by simp
      also have "\<dots> = (if b then Inr (dflt # map (kw_value kwds) ps, m) else RaiseArgtupleInvalid fn)"
        unfolding IH by (simp add: arg_errors)
      finally show ?thesis
        using False None unfolding split by (simp add: p kw_value_def)
    qed
  next
    case (Some v)
    then have "name \<in> kw_names kwds" by (metis domI dom_map_of_conv_image_fst)
    then have "kw_names kwds \<inter> fst ` set (p # ps) = insert name (kw_names kwds \<inter> fst ` set ps)"
      using p by auto
    then have left: "left = m + card (kw_names kwds \<inter> fst ` set ps) + 1"
      using Cons.prems(2) new by simp
    then have IH: "scan_keywords fn req kwds (i + 1) ps (left - 1) =
        (if b then Inr (map (kw_value kwds) ps, m) else RaiseArgtupleInvalid fn)"
      unfolding b_def using Cons.IH [OF dist, of "left - 1" "i + 1"] by simp
    have "scan_keywords fn req kwds i (p # ps) left =
        bind_res (scan_keywords fn req kwds (i + 1) ps (left - 1)) (\<lambda>(vs, k). Inr (Some v # vs, k))"
      using Some left p by simp
    also have "\<dots> = (if b then Inr (Some v # map (kw_value kwds) ps, m) else RaiseArgtupleInvalid fn)"
      unfolding IH by (simp add: arg_errors)
    finally show ?thesis
      using Some unfolding split by (simp add: p kw_value_def)
  qed
qed

lemma ParseOptionalKeywords_unknown:
  "\<exists>k \<in> kw_names kwds. k \<notin> set after \<Longrightarrow>
   \<exists>m. ParseOptionalKeywords fn before after kwds None vals = Inl (Exn TypeError m)"
proof (induction kwds arbitrary: vals)
  case (Cons kv kwds)
  obtain k v where kv: "kv = (k, v)" by (cases kv)
  show ?case
  proof (cases "k \<in> set after")
    case True
    then show ?thesis using Cons.IH [of "set_value after k v vals"] Cons.prems kv by auto
  next
    case False
    then show ?thesis using kv by (simp add: arg_errors)
  qed
qed simp

lemma card_known:
  assumes "distinct (map fst kwds)"
  shows "length kwds = (length kwds - card (kw_names kwds \<inter> A)) + card (kw_names kwds \<inter> A)"
    and "length kwds - card (kw_names kwds \<inter> A) = 0 \<longleftrightarrow> kw_names kwds \<subseteq> A"
proof -
  have c: "card (kw_names kwds) = length kwds"
    using distinct_card [OF assms] by simp
  have le: "card (kw_names kwds \<inter> A) \<le> length kwds"
    using card_mono [of "kw_names kwds" "kw_names kwds \<inter> A"] c by simp
  then show "length kwds = (length kwds - card (kw_names kwds \<inter> A)) + card (kw_names kwds \<inter> A)"
    by simp
  show "length kwds - card (kw_names kwds \<inter> A) = 0 \<longleftrightarrow> kw_names kwds \<subseteq> A"
  proof
    assume "length kwds - card (kw_names kwds \<inter> A) = 0"
    then have "card (kw_names kwds \<inter> A) = card (kw_names kwds)" using le c by simp
    then have "kw_names kwds \<inter> A = kw_names kwds" by (intro card_subset_eq) simp_all
    then show "kw_names kwds \<subseteq> A" by blast
  next
    assume "kw_names kwds \<subseteq> A"
    then show "length kwds - card (kw_names kwds \<inter> A) = 0" using c by (simp add: Int_absorb2)
  qed
qed

lemma required_drop:
  "(\<forall>j < length (drop n ps). n + j < req \<longrightarrow> P (drop n ps ! j)) \<longleftrightarrow>
   (\<forall>i < length ps. n \<le> i \<longrightarrow> i < req \<longrightarrow> P (ps ! i))"
proof (intro iffI allI impI)
  fix i assume a: "\<forall>j < length (drop n ps). n + j < req \<longrightarrow> P (drop n ps ! j)"
    "i < length ps" "n \<le> i" "i < req"
  then show "P (ps ! i)" using a(1) [rule_format, of "i - n"] by simp
next
  fix j assume "\<forall>i < length ps. n \<le> i \<longrightarrow> i < req \<longrightarrow> P (ps ! i)" "j < length (drop n ps)" "n + j < req"
  then show "P (drop n ps ! j)" by simp
qed

lemma bound_values_split:
  assumes "length args \<le> length ps"
  shows "map (\<lambda>i. bound_value args kwds i (ps ! i)) [0..<length ps] =
    map Some args @ map (kw_value kwds) (drop (length args) ps)"
proof (rule nth_equalityI)
  show "length (map (\<lambda>i. bound_value args kwds i (ps ! i)) [0..<length ps]) =
      length (map Some args @ map (kw_value kwds) (drop (length args) ps))"
    using assms by simp
  fix i assume "i < length (map (\<lambda>i. bound_value args kwds i (ps ! i)) [0..<length ps])"
  then show "map (\<lambda>i. bound_value args kwds i (ps ! i)) [0..<length ps] ! i =
      (map Some args @ map (kw_value kwds) (drop (length args) ps)) ! i"
    using assms
    by (cases "map_of kwds (fst (ps ! i))") (auto simp: bound_value_def kw_value_def nth_append)
qed

lemma unpack_arguments_spec:
  assumes "sig_ok sg" "distinct (map fst kwds)"
  shows "call_ok sg args kwds \<Longrightarrow> unpack_arguments sg args kwds =
      Inr (map (\<lambda>i. bound_value args kwds i (params sg ! i)) [0..<length (params sg)])"
    and "\<not> call_ok sg args kwds \<Longrightarrow> \<exists>m. unpack_arguments sg args kwds = Inl (Exn TypeError m)"
proof -
  let ?n = "length args" and ?rest = "drop (length args) (params sg)"
  let ?m = "length kwds - card (kw_names kwds \<inter> fst ` set ?rest)"
  have dist: "distinct (map fst ?rest)"
    using assms(1) by (simp add: sig_ok_def drop_map [symmetric] distinct_drop)
  note scan = scan_keywords_spec [OF dist card_known(1) [OF assms(2)],
      where fn = "fn_name sg" and req = "num_required sg" and i = ?n]
  note known = card_known(2) [OF assms(2), of "fst ` set ?rest"]
  have req: "(\<forall>j < length ?rest. ?n + j < num_required sg \<longrightarrow> map_of kwds (fst (?rest ! j)) \<noteq> None) \<longleftrightarrow>
      (\<forall>i < length (params sg). ?n \<le> i \<longrightarrow> i < num_required sg \<longrightarrow> map_of kwds (fst (params sg ! i)) \<noteq> None)"
    by (rule required_drop [where P = "\<lambda>p. map_of kwds (fst p) \<noteq> None"])
  {
    assume ok: "call_ok sg args kwds"
    then have "kw_names kwds \<subseteq> fst ` set ?rest" by (auto simp: call_ok_def drop_map)
    with known have m0: "?m = 0" by simp
    show "unpack_arguments sg args kwds =
        Inr (map (\<lambda>i. bound_value args kwds i (params sg ! i)) [0..<length (params sg)])"
      using ok m0 scan bound_values_split [of args "params sg" kwds] req
      by (simp add: unpack_arguments_def call_ok_def Let_def)
  }
  assume bad: "\<not> call_ok sg args kwds"
  show "\<exists>m. unpack_arguments sg args kwds = Inl (Exn TypeError m)"
  proof (cases "?n \<le> length (params sg) \<and>
      (\<forall>j < length ?rest. ?n + j < num_required sg \<longrightarrow> map_of kwds (fst (?rest ! j)) \<noteq> None)")
    case False
    then show ?thesis
    proof (cases "?n \<le> length (params sg)")
      case True
      with False have "scan_keywords (fn_name sg) (num_required sg) kwds ?n ?rest (length kwds) =
          RaiseArgtupleInvalid (fn_name sg)"
        unfolding scan using True by (intro if_not_P) blast
      then show ?thesis using True by (simp add: unpack_arguments_def Let_def arg_errors)
    qed (simp add: unpack_arguments_def Let_def arg_errors)
  next
    case True
    with bad req have "\<not> kw_names kwds \<subseteq> fst ` set ?rest" by (auto simp: call_ok_def)
    then obtain k where "k \<in> kw_names kwds" "k \<notin> set (map fst ?rest)" by auto
    then obtain m where "ParseOptionalKeywords (fn_name sg) (map fst (take ?n (params sg)))
        (map fst ?rest) kwds None (map (kw_value kwds) ?rest) = Inl (Exn TypeError m)"
      using ParseOptionalKeywords_unknown by blast
    moreover have "?m > 0" using known \<open>\<not> kw_names kwds \<subseteq> fst ` set ?rest\<close> by simp
    moreover have "scan_keywords (fn_name sg) (num_required sg) kwds ?n ?rest (length kwds) =
        Inr (map (kw_value kwds) ?rest, ?m)"
      unfolding scan using True by (intro if_P) blast
    ultimately show ?thesis using True by (simp add: unpack_arguments_def Let_def)
  qed
qed

subsection \<open>Properties\<close>

text \<open>
  Argument unpacking follows Python's binding rule: a call succeeds exactly when there are not
  too many positional arguments, every keyword names a parameter not filled by position and every
  required parameter is given, and then each parameter gets its positional value, else its
  keyword, else its default; every other call is a TypeError. The order of keywords is
  irrelevant, and the counter that lets the scan stop early never hides a keyword.
\<close>

theorem unpack_arguments_binds:
  assumes "sig_ok sg" "distinct (map fst kwds)"
  shows "if call_ok sg args kwds
    then unpack_arguments sg args kwds =
      Inr (map (\<lambda>i. bound_value args kwds i (params sg ! i)) [0..<length (params sg)])
    else \<exists>m. unpack_arguments sg args kwds = Inl (Exn TypeError m)"
  using unpack_arguments_spec [OF assms, of args] by simp

definition put_signature :: signature where
  "put_signature = \<lparr>fn_name = ''put'', num_required = 2,
     params = [(''key'', None), (''value'', None), (''sync'', Some (PBool False)),
               (''disable_wal'', Some (PBool False))]\<rparr>"

theorem unpack_arguments_binds_witness:
  "unpack_arguments put_signature [PBytes [1]] [(''disable_wal'', PBool True), (''value'', PBytes [2])] =
   Inr [Some (PBytes [1]), Some (PBytes [2]), Some (PBool False), Some (PBool True)]"
  using unpack_arguments_binds [of put_signature
      "[(''disable_wal'', PBool True), (''value'', PBytes [2])]" "[PBytes [1]]"]
  by (simp add: sig_ok_def call_ok_def put_signature_def bound_value_def upt_conv_Cons
      numeral_eq_Suc less_Suc_eq)

end
