(* ===== verification/Database.thy ===== *)
theory Database
  imports WriteBatch ArgParse
begin

section \<open>Reading and writing a database\<close>

text \<open>
  The data operations of the Cython class \<open>DB\<close> in \<open>rocksdb/_rocksdb.cpp\<close>: writes, reads, key
  existence, properties, compaction, and the read options they build. RocksDB is a parameter:
  a record of its methods over a state \<open>'d\<close> (everything behind a \<open>rocksdb::DB*\<close>, the disk
  included); \<open>'b\<close> is its write batch. An operation maps the state to a result and a new state;
  the GIL is released only around the calls of these methods.
\<close>

subsection \<open>Operations with a state\<close>

type_synonym ('s, 'a) py = "'s \<Rightarrow> (pyexn + 'a) \<times> 's"

definition ret_py :: "'a \<Rightarrow> ('s, 'a) py" where
  "ret_py v s = (Inr v, s)"

definition lift_py :: "pyexn + 'a \<Rightarrow> ('s, 'a) py" where
  "lift_py r s = (r, s)"

definition bind_py :: "('s, 'a) py \<Rightarrow> ('a \<Rightarrow> ('s, 'b) py) \<Rightarrow> ('s, 'b) py" where
  "bind_py m f s = (case m s of (Inl e, s') \<Rightarrow> (Inl e, s') | (Inr v, s') \<Rightarrow> f v s')"

text \<open>A call of a RocksDB method; its C++ exceptions become Python exceptions.\<close>

definition cpp_py :: "('s \<Rightarrow> (cpp_exn + 'a) \<times> 's) \<Rightarrow> ('s, 'a) py" where
  "cpp_py f s = (case f s of (r, s') \<Rightarrow> (catch_cpp r, s'))"

lemma py_simps [simp]:
  "bind_py (ret_py v) f = f v"
  "bind_py (lift_py (Inr v)) f = f v"
  "bind_py (lift_py (Inl e)) f = lift_py (Inl e)"
  "ret_py v s = (Inr v, s)" "lift_py r s = (r, s)"
  by (simp_all add: fun_eq_iff bind_py_def ret_py_def lift_py_def)

lemma bind_py_Inr:
  "bind_py m f s = (Inr v, t) \<longleftrightarrow> (\<exists>u s'. m s = (Inr u, s') \<and> f u s' = (Inr v, t))"
  by (auto simp: bind_py_def split: prod.splits sum.splits)

subsection \<open>RocksDB\<close>

record write_opts =
  wo_sync :: bool
  disableWAL :: bool

datatype read_tier = kReadAllTier | kBlockCacheTier

record read_opts =
  ro_verify_checksums :: bool
  ro_fill_cache :: bool
  ro_snapshot :: "nat option"
  ro_read_tier :: read_tier

datatype blc = blc_skip | blc_is_filter | blc_force

record compact_opts =
  change_level :: bool
  target_level :: int
  bottommost_level_compaction :: blc

record live_file =
  lf_name :: bytes
  lf_level :: int
  lf_size :: int
  lf_smallestkey :: bytes
  lf_largestkey :: bytes
  lf_smallest_seqno :: int
  lf_largest_seqno :: int

record ('d, 'b) db_lib =
  lib_default_ReadOptions :: read_opts
  lib_DefaultColumnFamily :: "nat \<Rightarrow> 'd \<Rightarrow> nat"
  lib_Put :: "nat \<Rightarrow> write_opts \<Rightarrow> nat \<Rightarrow> bytes \<Rightarrow> bytes \<Rightarrow> 'd \<Rightarrow> (cpp_exn + status) \<times> 'd"
  lib_Delete :: "nat \<Rightarrow> write_opts \<Rightarrow> nat \<Rightarrow> bytes \<Rightarrow> 'd \<Rightarrow> (cpp_exn + status) \<times> 'd"
  lib_Merge :: "nat \<Rightarrow> write_opts \<Rightarrow> nat \<Rightarrow> bytes \<Rightarrow> bytes \<Rightarrow> 'd \<Rightarrow> (cpp_exn + status) \<times> 'd"
  lib_Write :: "nat \<Rightarrow> write_opts \<Rightarrow> 'b \<Rightarrow> 'd \<Rightarrow> (cpp_exn + status) \<times> 'd"
  lib_Get :: "nat \<Rightarrow> read_opts \<Rightarrow> nat \<Rightarrow> bytes \<Rightarrow> 'd \<Rightarrow> (cpp_exn + status \<times> bytes) \<times> 'd"
  lib_MultiGet ::
    "nat \<Rightarrow> read_opts \<Rightarrow> nat list \<Rightarrow> bytes list \<Rightarrow> 'd \<Rightarrow> (cpp_exn + (status \<times> bytes) list) \<times> 'd"
  lib_KeyMayExist :: "nat \<Rightarrow> read_opts \<Rightarrow> nat \<Rightarrow> bytes \<Rightarrow> 'd \<Rightarrow> (cpp_exn + bool \<times> bytes \<times> bool) \<times> 'd"
  lib_GetProperty :: "nat \<Rightarrow> nat \<Rightarrow> bytes \<Rightarrow> 'd \<Rightarrow> (cpp_exn + bool \<times> bytes) \<times> 'd"
  lib_GetLiveFilesMetaData :: "nat \<Rightarrow> 'd \<Rightarrow> (cpp_exn + live_file list) \<times> 'd"
  lib_CompactRange ::
    "nat \<Rightarrow> compact_opts \<Rightarrow> nat \<Rightarrow> bytes option \<Rightarrow> bytes option \<Rightarrow> 'd \<Rightarrow> (cpp_exn + status) \<times> 'd"

text \<open>
  What an operation sees of the Python heap: the column family handles, and the C++ snapshot of
  each \<open>Snapshot\<close> object.
\<close>

record heap =
  cf_objects :: cf_store
  snapshots :: "nat \<Rightarrow> nat option"

subsection \<open>Keys and options\<close>

text \<open>\<open>if isinstance(key, tuple): column_family, key = key else: column_family = None\<close>\<close>

definition split_key :: "pyobj \<Rightarrow> pyexn + pyobj \<times> pyobj" where
  "split_key key =
     (case key of
        PTuple xs \<Rightarrow>
          (case xs of
             [column_family, k] \<Rightarrow> Inr (column_family, k)
           | _ \<Rightarrow>
               if length xs > 2
               then Inl (Exn ValueError (Text ''too many values to unpack (expected 2)''))
               else Inl (Exn ValueError (Fmt ''need more than %zd values to unpack''
                      [PInt (int (length xs))])))
      | _ \<Rightarrow> Inr (PNone, key))"

text \<open>\<open>(<ColumnFamilyHandle?>column_family).get_handle()\<close>\<close>

definition typed_handle :: "heap \<Rightarrow> pyobj \<Rightarrow> pyexn + nat" where
  "typed_handle H column_family =
     (case column_family of
        PCF i \<Rightarrow> get_handle (cf_objects H) i
      | _ \<Rightarrow> Inl (Exn TypeError (Fmt ''Cannot convert %.200s to %.200s'' [column_family])))"

text \<open>
  \<open>cf_handle = self.db.DefaultColumnFamily(); if column_family: cf_handle = ...\<close>: anything false
  (\<open>None\<close>, but also \<open>0\<close> or \<open>b''\<close>) means the default family.
\<close>

definition choose_handle :: "pyenv \<Rightarrow> heap \<Rightarrow> nat \<Rightarrow> pyobj \<Rightarrow> pyexn + nat" where
  "choose_handle E H dflt column_family =
     bind_res (PyObject_IsTrue E column_family) (\<lambda>t.
       if t then typed_handle H column_family else Inr dflt)"

definition write_options :: "pyenv \<Rightarrow> pyobj \<Rightarrow> pyobj \<Rightarrow> pyexn + write_opts" where
  "write_options E sync disable_wal =
     bind_res (PyObject_IsTrue E sync) (\<lambda>s.
     bind_res (PyObject_IsTrue E disable_wal) (\<lambda>w. Inr \<lparr>wo_sync = s, disableWAL = w\<rparr>))"

subsection \<open>Writing\<close>

text \<open>The end of the three writes: the call with the lock released, its status, the result \<open>None\<close>.\<close>

definition put_unlocked ::
    "('d, 'b) db_lib \<Rightarrow> nat \<Rightarrow> write_opts \<Rightarrow> nat \<Rightarrow> bytes \<Rightarrow> bytes \<Rightarrow> ('d, pyobj) py" where
  "put_unlocked L db opts cf_handle c_key c_value =
     bind_py (cpp_py (lib_Put L db opts cf_handle c_key c_value)) (\<lambda>st.
     bind_py (lift_py (check_status st)) (\<lambda>_. ret_py PNone))"

definition delete_unlocked :: "('d, 'b) db_lib \<Rightarrow> nat \<Rightarrow> write_opts \<Rightarrow> nat \<Rightarrow> bytes \<Rightarrow> ('d, pyobj) py" where
  "delete_unlocked L db opts cf_handle c_key =
     bind_py (cpp_py (lib_Delete L db opts cf_handle c_key)) (\<lambda>st.
     bind_py (lift_py (check_status st)) (\<lambda>_. ret_py PNone))"

definition merge_unlocked ::
    "('d, 'b) db_lib \<Rightarrow> nat \<Rightarrow> write_opts \<Rightarrow> nat \<Rightarrow> bytes \<Rightarrow> bytes \<Rightarrow> ('d, pyobj) py" where
  "merge_unlocked L db opts cf_handle c_key c_value =
     bind_py (cpp_py (lib_Merge L db opts cf_handle c_key c_value)) (\<lambda>st.
     bind_py (lift_py (check_status st)) (\<lambda>_. ret_py PNone))"

declare put_unlocked_def [simp] delete_unlocked_def [simp] merge_unlocked_def [simp]

definition DB_put ::
    "pyenv \<Rightarrow> ('d, 'b) db_lib \<Rightarrow> heap \<Rightarrow> nat \<Rightarrow> pyobj \<Rightarrow> pyobj \<Rightarrow> pyobj \<Rightarrow> pyobj \<Rightarrow> ('d, pyobj) py" where
  "DB_put E L H db key val sync disable_wal d =
     bind_py (lift_py (write_options E sync disable_wal)) (\<lambda>opts.
     bind_py (lift_py (split_key key)) (\<lambda>(column_family, key).
     bind_py (lift_py (bytes_to_slice key)) (\<lambda>c_key.
     bind_py (lift_py (bytes_to_slice val)) (\<lambda>c_value.
     bind_py (lift_py (choose_handle E H (lib_DefaultColumnFamily L db d) column_family)) (\<lambda>cf_handle.
     put_unlocked L db opts cf_handle c_key c_value))))) d"

definition DB_delete ::
    "pyenv \<Rightarrow> ('d, 'b) db_lib \<Rightarrow> heap \<Rightarrow> nat \<Rightarrow> pyobj \<Rightarrow> pyobj \<Rightarrow> pyobj \<Rightarrow> ('d, pyobj) py" where
  "DB_delete E L H db key sync disable_wal d =
     bind_py (lift_py (write_options E sync disable_wal)) (\<lambda>opts.
     bind_py (lift_py (split_key key)) (\<lambda>(column_family, key).
     bind_py (lift_py (bytes_to_slice key)) (\<lambda>c_key.
     bind_py (lift_py (choose_handle E H (lib_DefaultColumnFamily L db d) column_family)) (\<lambda>cf_handle.
     delete_unlocked L db opts cf_handle c_key)))) d"

definition DB_merge ::
    "pyenv \<Rightarrow> ('d, 'b) db_lib \<Rightarrow> heap \<Rightarrow> nat \<Rightarrow> pyobj \<Rightarrow> pyobj \<Rightarrow> pyobj \<Rightarrow> pyobj \<Rightarrow> ('d, pyobj) py" where
  "DB_merge E L H db key val sync disable_wal d =
     bind_py (lift_py (write_options E sync disable_wal)) (\<lambda>opts.
     bind_py (lift_py (split_key key)) (\<lambda>(column_family, key).
     bind_py (lift_py (bytes_to_slice key)) (\<lambda>c_key.
     bind_py (lift_py (bytes_to_slice val)) (\<lambda>c_value.
     bind_py (lift_py (choose_handle E H (lib_DefaultColumnFamily L db d) column_family)) (\<lambda>cf_handle.
     merge_unlocked L db opts cf_handle c_key c_value))))) d"

definition DB_write ::
    "pyenv \<Rightarrow> ('d, 'b) db_lib \<Rightarrow> nat \<Rightarrow> 'b WriteBatch \<Rightarrow> pyobj \<Rightarrow> pyobj \<Rightarrow> ('d, pyobj) py" where
  "DB_write E L db b sync disable_wal =
     bind_py (lift_py (write_options E sync disable_wal)) (\<lambda>opts.
     bind_py (cpp_py (lib_Write L db opts (batch b))) (\<lambda>st.
     bind_py (lift_py (check_status st)) (\<lambda>_. ret_py PNone)))"

subsection \<open>Read options\<close>

text \<open>\<open>__parse_read_opts\<close> returns its four arguments as a dictionary.\<close>

definition read_opts_signature :: signature where
  "read_opts_signature = \<lparr>fn_name = ''__parse_read_opts'', num_required = 0,
     params = [(''verify_checksums'', Some (PBool False)), (''fill_cache'', Some (PBool True)),
               (''snapshot'', Some PNone), (''read_tier'', Some (PStr ''all''))]\<rparr>"

definition parse_read_opts :: "pyobj list \<Rightarrow> kwargs \<Rightarrow> pyexn + pyobj option list" where
  "parse_read_opts args kwds = unpack_arguments read_opts_signature args kwds"

text \<open>
  \<open>build_read_opts\<close>. A read tier that is not a string compares unequal (an object with an
  \<open>__eq__\<close> of its own is not modelled). The function is declared without an exception value:
  what is raised inside it is written out as unraisable and the caller goes on with
  default-constructed options. \<open>read_opts_body\<close> is the body, \<open>build_read_opts\<close> the function with
  the exception it reports.
\<close>

definition snapshot_ptr :: "heap \<Rightarrow> pyobj \<Rightarrow> pyexn + nat option" where
  "snapshot_ptr H snapshot =
     (if snapshot \<noteq> PNone
      then (case (case snapshot of PObj i \<Rightarrow> snapshots H i | _ \<Rightarrow> None) of
              Some p \<Rightarrow> Inr (Some p)
            | None \<Rightarrow> Inl (Exn TypeError (Fmt ''Cannot convert %.200s to %.200s'' [snapshot])))
      else Inr None)"

definition read_opts_body :: "pyenv \<Rightarrow> heap \<Rightarrow> pyobj option list \<Rightarrow> pyexn + read_opts" where
  "read_opts_body E H py_opts =
     (case py_opts of
        [Some verify_checksums, Some fill_cache, Some snapshot, Some read_tier] \<Rightarrow>
          bind_res (PyObject_IsTrue E verify_checksums) (\<lambda>vc.
          bind_res (PyObject_IsTrue E fill_cache) (\<lambda>fc.
          bind_res (snapshot_ptr H snapshot) (\<lambda>sp.
            if read_tier = PStr ''all''
            then Inr \<lparr>ro_verify_checksums = vc, ro_fill_cache = fc, ro_snapshot = sp,
                      ro_read_tier = kReadAllTier\<rparr>
            else if read_tier = PStr ''cache''
            then Inr \<lparr>ro_verify_checksums = vc, ro_fill_cache = fc, ro_snapshot = sp,
                      ro_read_tier = kBlockCacheTier\<rparr>
            else Inl (Exn ValueError (Text ''Invalid read_tier'')))))
      | _ \<Rightarrow> Inl (Exn KeyError NoMsg))"

definition build_read_opts ::
    "pyenv \<Rightarrow> ('d, 'b) db_lib \<Rightarrow> heap \<Rightarrow> pyobj option list \<Rightarrow> read_opts \<times> pyexn option" where
  "build_read_opts E L H py_opts =
     (case read_opts_body E H py_opts of
        Inr opts \<Rightarrow> (opts, None)
      | Inl e \<Rightarrow> (lib_default_ReadOptions L, Some e))"

text \<open>\<open>self.build_read_opts(self.__parse_read_opts(*args, **kwargs))\<close>\<close>

definition read_options ::
    "pyenv \<Rightarrow> ('d, 'b) db_lib \<Rightarrow> heap \<Rightarrow> pyobj list \<Rightarrow> kwargs \<Rightarrow> pyexn + read_opts" where
  "read_options E L H args kwds =
     bind_res (parse_read_opts args kwds) (\<lambda>py_opts. Inr (fst (build_read_opts E L H py_opts)))"

subsection \<open>Reading\<close>

definition get_unlocked ::
    "('d, 'b) db_lib \<Rightarrow> nat \<Rightarrow> read_opts \<Rightarrow> nat \<Rightarrow> bytes \<Rightarrow> ('d, pyobj) py" where
  "get_unlocked L db opts cf_handle c_key =
     bind_py (cpp_py (lib_Get L db opts cf_handle c_key)) (\<lambda>(st, res).
       if st_ok st then ret_py (string_to_bytes res)
       else if IsNotFound st then ret_py PNone
       else bind_py (lift_py (check_status st)) (\<lambda>_. ret_py PNone))"

declare get_unlocked_def [simp]

definition DB_get ::
    "pyenv \<Rightarrow> ('d, 'b) db_lib \<Rightarrow> heap \<Rightarrow> nat \<Rightarrow> pyobj \<Rightarrow> pyobj list \<Rightarrow> kwargs \<Rightarrow> ('d, pyobj) py" where
  "DB_get E L H db key args kwds d =
     bind_py (lift_py (read_options E L H args kwds)) (\<lambda>opts.
     bind_py (lift_py (split_key key)) (\<lambda>(column_family, key).
     bind_py (lift_py (bytes_to_slice key)) (\<lambda>c_key.
     bind_py (lift_py (choose_handle E H (lib_DefaultColumnFamily L db d) column_family)) (\<lambda>cf_handle.
     get_unlocked L db opts cf_handle c_key)))) d"

text \<open>
  \<open>multi_get\<close>: the loop over the keys, each with the handle of its family or the default one
  (here a pair whose first item is not a handle is always refused).
\<close>

definition multi_get_key :: "heap \<Rightarrow> nat \<Rightarrow> pyobj \<Rightarrow> pyexn + nat \<times> bytes" where
  "multi_get_key H dflt key =
     (case key of
        PTuple _ \<Rightarrow>
          bind_res (split_key key) (\<lambda>(py_handle, key).
          bind_res (typed_handle H py_handle) (\<lambda>cf_handle.
          bind_res (bytes_to_slice key) (\<lambda>k. Inr (cf_handle, k))))
      | _ \<Rightarrow> bind_res (bytes_to_slice key) (\<lambda>k. Inr (dflt, k)))"

text \<open>\<open>len(keys)\<close>.\<close>

definition py_len :: "pyenv \<Rightarrow> pyobj \<Rightarrow> pyexn + nat" where
  "py_len E x = (case x of
     PList xs \<Rightarrow> Inr (length xs) | PTuple xs \<Rightarrow> Inr (length xs) | PDict xs \<Rightarrow> Inr (length xs)
   | PBytes bs \<Rightarrow> Inr (length bs) | PByteArray bs \<Rightarrow> Inr (length bs)
   | PStr s \<Rightarrow> Inr (length (str_items E s)) | PObj i \<Rightarrow> len_of E i
   | _ \<Rightarrow> Inl (Exn TypeError (Fmt ''object of type %s has no len()'' [x])))"

text \<open>\<open>ret_dict[key] = value\<close>: a new key goes to the end, a present one keeps its place.\<close>

fun dict_set :: "(pyobj \<times> pyobj) list \<Rightarrow> pyobj \<Rightarrow> pyobj \<Rightarrow> (pyobj \<times> pyobj) list" where
  "dict_set [] k v = [(k, v)]"
| "dict_set ((k', v') # kvs) k v =
     (if k' = k then (k', v) # kvs else (k', v') # dict_set kvs k v)"

text \<open>The loop that fills the result, from index \<open>i\<close> on.\<close>

fun fill_result ::
    "pyenv \<Rightarrow> pyobj \<Rightarrow> nat \<Rightarrow> (status \<times> bytes) list \<Rightarrow> (pyobj \<times> pyobj) list \<Rightarrow>
     pyexn + (pyobj \<times> pyobj) list" where
  "fill_result E keys i [] ret_dict = Inr ret_dict"
| "fill_result E keys i ((st, v) # rs) ret_dict =
     (if st_ok st
      then bind_res (GetItemInt_Fast E keys i) (\<lambda>k.
             fill_result E keys (i + 1) rs (dict_set ret_dict k (string_to_bytes v)))
      else if IsNotFound st
      then bind_res (GetItemInt_Fast E keys i) (\<lambda>k.
             fill_result E keys (i + 1) rs (dict_set ret_dict k PNone))
      else bind_res (check_status st) (\<lambda>_. fill_result E keys (i + 1) rs ret_dict))"

definition multi_get_unlocked ::
    "('d, 'b) db_lib \<Rightarrow> nat \<Rightarrow> read_opts \<Rightarrow> (nat \<times> bytes) list \<Rightarrow> ('d, (status \<times> bytes) list) py" where
  "multi_get_unlocked L db opts ks = cpp_py (lib_MultiGet L db opts (map fst ks) (map snd ks))"

declare multi_get_unlocked_def [simp]

definition DB_multi_get ::
    "pyenv \<Rightarrow> ('d, 'b) db_lib \<Rightarrow> heap \<Rightarrow> nat \<Rightarrow> pyobj \<Rightarrow> pyobj list \<Rightarrow> kwargs \<Rightarrow> ('d, pyobj) py" where
  "DB_multi_get E L H db keys args kwds d =
     bind_py (lift_py (py_len E keys)) (\<lambda>n.
     bind_py (lift_py (for_each E keys (multi_get_key H (lib_DefaultColumnFamily L db d)))) (\<lambda>ks.
     bind_py (lift_py (read_options E L H args kwds)) (\<lambda>opts.
     bind_py (multi_get_unlocked L db opts ks) (\<lambda>res.
     bind_py (lift_py (fill_result E keys 0 (take n res) [])) (\<lambda>kvs. ret_py (PDict kvs)))))) d"

text \<open>
  \<open>key_may_exist\<close>: with \<open>fetch\<close> the value RocksDB found cheaply comes along; RocksDB's answer is
  (may exist, value, value found).
\<close>

definition key_may_exist_key :: "heap \<Rightarrow> nat \<Rightarrow> pyobj \<Rightarrow> pyexn + nat \<times> pyobj" where
  "key_may_exist_key H dflt key =
     (case key of
        PTuple _ \<Rightarrow> bind_res (split_key key) (\<lambda>(column_family, key).
          bind_res (typed_handle H column_family) (\<lambda>h. Inr (h, key)))
      | _ \<Rightarrow> Inr (dflt, key))"

definition key_may_exist_fetch ::
    "('d, 'b) db_lib \<Rightarrow> nat \<Rightarrow> read_opts \<Rightarrow> nat \<Rightarrow> bytes \<Rightarrow> ('d, pyobj) py" where
  "key_may_exist_fetch L db opts cf_handle c_key =
     bind_py (cpp_py (lib_KeyMayExist L db opts cf_handle c_key)) (\<lambda>(exists, val, value_found).
       if exists
       then (if value_found then ret_py (PTuple [PBool True, string_to_bytes val])
             else ret_py (PTuple [PBool True, PNone]))
       else ret_py (PTuple [PBool False, PNone]))"

definition key_may_exist_probe ::
    "('d, 'b) db_lib \<Rightarrow> nat \<Rightarrow> read_opts \<Rightarrow> nat \<Rightarrow> bytes \<Rightarrow> ('d, pyobj) py" where
  "key_may_exist_probe L db opts cf_handle c_key =
     bind_py (cpp_py (lib_KeyMayExist L db opts cf_handle c_key)) (\<lambda>(exists, val, value_found).
       ret_py (PTuple [PyBool_FromLong exists, PNone]))"

declare key_may_exist_key_def [simp] key_may_exist_fetch_def [simp] key_may_exist_probe_def [simp]

definition DB_key_may_exist ::
    "pyenv \<Rightarrow> ('d, 'b) db_lib \<Rightarrow> heap \<Rightarrow> nat \<Rightarrow> pyobj \<Rightarrow> pyobj \<Rightarrow> pyobj list \<Rightarrow> kwargs \<Rightarrow> ('d, pyobj) py"
  where
  "DB_key_may_exist E L H db key fetch args kwds d =
     bind_py (lift_py (read_options E L H args kwds)) (\<lambda>opts.
     bind_py (lift_py (key_may_exist_key H (lib_DefaultColumnFamily L db d) key)) (\<lambda>(cf_handle, key).
     bind_py (lift_py (bytes_to_slice key)) (\<lambda>c_key.
     bind_py (lift_py (PyObject_IsTrue E fetch)) (\<lambda>fetch.
       if fetch then key_may_exist_fetch L db opts cf_handle c_key
       else key_may_exist_probe L db opts cf_handle c_key)))) d"

definition DB_get_property ::
    "pyenv \<Rightarrow> ('d, 'b) db_lib \<Rightarrow> heap \<Rightarrow> nat \<Rightarrow> pyobj \<Rightarrow> pyobj \<Rightarrow> ('d, pyobj) py" where
  "DB_get_property E L H db prop column_family d =
     bind_py (lift_py (bytes_to_slice prop)) (\<lambda>c_prop.
     bind_py (lift_py (choose_handle E H (lib_DefaultColumnFamily L db d) column_family)) (\<lambda>cf_handle.
     bind_py (cpp_py (lib_GetProperty L db cf_handle c_prop)) (\<lambda>(ret, val).
       if ret then ret_py (string_to_bytes val) else ret_py PNone))) d"

definition live_file_dict :: "pyenv \<Rightarrow> live_file \<Rightarrow> pyexn + pyobj" where
  "live_file_dict E ob =
     bind_res (string_to_path E (lf_name ob)) (\<lambda>name.
       Inr (PDict
         [(PStr ''name'', name),
          (PStr ''level'', PyInt_From_int (lf_level ob)),
          (PStr ''size'', PyInt_From_uint64_t (lf_size ob)),
          (PStr ''smallestkey'', string_to_bytes (lf_smallestkey ob)),
          (PStr ''largestkey'', string_to_bytes (lf_largestkey ob)),
          (PStr ''smallest_seqno'', PyInt_From_uint64_t (lf_smallest_seqno ob)),
          (PStr ''largest_seqno'', PyInt_From_uint64_t (lf_largest_seqno ob))]))"

definition DB_get_live_files_metadata :: "pyenv \<Rightarrow> ('d, 'b) db_lib \<Rightarrow> nat \<Rightarrow> ('d, pyobj) py" where
  "DB_get_live_files_metadata E L db =
     bind_py (cpp_py (lib_GetLiveFilesMetaData L db)) (\<lambda>metadata.
     bind_py (lift_py (map_res (live_file_dict E) metadata)) (\<lambda>ret. ret_py (PList ret)))"

text \<open>
  \<open>compact_range(begin, end, column_family, **py_options)\<close>: \<open>py_options.get(name, default)\<close>;
  names it does not know are ignored.
\<close>

definition kw_get :: "kwargs \<Rightarrow> string \<Rightarrow> pyobj \<Rightarrow> pyobj" where
  "kw_get kwds name dflt = (case map_of kwds name of Some v \<Rightarrow> v | None \<Rightarrow> dflt)"

definition opt_slice :: "pyobj \<Rightarrow> pyexn + bytes option" where
  "opt_slice x = (if x \<noteq> PNone then bind_res (bytes_to_slice x) (\<lambda>s. Inr (Some s)) else Inr None)"

definition compact_options :: "pyenv \<Rightarrow> kwargs \<Rightarrow> pyexn + compact_opts" where
  "compact_options E py_options =
     bind_res (PyObject_IsTrue E (kw_get py_options ''change_level'' (PBool False))) (\<lambda>cl.
     bind_res (PyInt_As_int E (kw_get py_options ''target_level'' (PInt (- 1)))) (\<lambda>tl.
       let blc = kw_get py_options ''bottommost_level_compaction'' (PStr ''if_compaction_filter'') in
       if blc = PStr ''skip''
       then Inr \<lparr>change_level = cl, target_level = tl, bottommost_level_compaction = blc_skip\<rparr>
       else if blc = PStr ''if_compaction_filter''
       then Inr \<lparr>change_level = cl, target_level = tl, bottommost_level_compaction = blc_is_filter\<rparr>
       else if blc = PStr ''force''
       then Inr \<lparr>change_level = cl, target_level = tl, bottommost_level_compaction = blc_force\<rparr>
       else Inl (Exn ValueError (Text ''bottommost_level_compaction is not valid''))))"

definition DB_compact_range ::
    "pyenv \<Rightarrow> ('d, 'b) db_lib \<Rightarrow> heap \<Rightarrow> nat \<Rightarrow> pyobj \<Rightarrow> pyobj \<Rightarrow> pyobj \<Rightarrow> kwargs \<Rightarrow> ('d, pyobj) py" where
  "DB_compact_range E L H db range_begin range_end column_family py_options d =
     bind_py (lift_py (compact_options E py_options)) (\<lambda>c_options.
     bind_py (lift_py (opt_slice range_begin)) (\<lambda>begin_ptr.
     bind_py (lift_py (opt_slice range_end)) (\<lambda>end_ptr.
     bind_py (lift_py (choose_handle E H (lib_DefaultColumnFamily L db d) column_family)) (\<lambda>cf_handle.
     bind_py (cpp_py (lib_CompactRange L db c_options cf_handle begin_ptr end_ptr)) (\<lambda>st.
     bind_py (lift_py (check_status st)) (\<lambda>_. ret_py PNone)))))) d"

subsection \<open>The Python wrappers\<close>

text \<open>
  \<open>__pyx_pw_..._put\<close> and its siblings: unpack the arguments, then call the body. A missing value
  cannot occur after a successful unpacking (\<open>call_args\<close> then returns what it got).
\<close>

definition delete_signature :: signature where
  "delete_signature = \<lparr>fn_name = ''delete'', num_required = 1,
     params = [(''key'', None), (''sync'', Some (PBool False)), (''disable_wal'', Some (PBool False))]\<rparr>"

definition merge_signature :: signature where
  "merge_signature = \<lparr>fn_name = ''merge'', num_required = 2,
     params = [(''key'', None), (''value'', None), (''sync'', Some (PBool False)),
               (''disable_wal'', Some (PBool False))]\<rparr>"

definition get_signature :: signature where
  "get_signature = \<lparr>fn_name = ''get'', num_required = 1, params = [(''key'', None)]\<rparr>"

definition multi_get_signature :: signature where
  "multi_get_signature = \<lparr>fn_name = ''multi_get'', num_required = 1, params = [(''keys'', None)]\<rparr>"

definition key_may_exist_signature :: signature where
  "key_may_exist_signature = \<lparr>fn_name = ''key_may_exist'', num_required = 1,
     params = [(''key'', None), (''fetch'', Some (PBool False))]\<rparr>"

definition values_of :: "pyobj option list \<Rightarrow> pyobj list" where
  "values_of vs = map (\<lambda>v. case v of Some x \<Rightarrow> x | None \<Rightarrow> PNone) vs"

definition DB_put_call ::
    "pyenv \<Rightarrow> ('d, 'b) db_lib \<Rightarrow> heap \<Rightarrow> nat \<Rightarrow> pyobj list \<Rightarrow> kwargs \<Rightarrow> ('d, pyobj) py" where
  "DB_put_call E L H db args kwds =
     bind_py (lift_py (unpack_arguments put_signature args kwds)) (\<lambda>vs.
       case values_of vs of
         [key, val, sync, disable_wal] \<Rightarrow> DB_put E L H db key val sync disable_wal
       | _ \<Rightarrow> lift_py (RaiseArgtupleInvalid ''put''))"

definition DB_delete_call ::
    "pyenv \<Rightarrow> ('d, 'b) db_lib \<Rightarrow> heap \<Rightarrow> nat \<Rightarrow> pyobj list \<Rightarrow> kwargs \<Rightarrow> ('d, pyobj) py" where
  "DB_delete_call E L H db args kwds =
     bind_py (lift_py (unpack_arguments delete_signature args kwds)) (\<lambda>vs.
       case values_of vs of
         [key, sync, disable_wal] \<Rightarrow> DB_delete E L H db key sync disable_wal
       | _ \<Rightarrow> lift_py (RaiseArgtupleInvalid ''delete''))"

definition DB_merge_call ::
    "pyenv \<Rightarrow> ('d, 'b) db_lib \<Rightarrow> heap \<Rightarrow> nat \<Rightarrow> pyobj list \<Rightarrow> kwargs \<Rightarrow> ('d, pyobj) py" where
  "DB_merge_call E L H db args kwds =
     bind_py (lift_py (unpack_arguments merge_signature args kwds)) (\<lambda>vs.
       case values_of vs of
         [key, val, sync, disable_wal] \<Rightarrow> DB_merge E L H db key val sync disable_wal
       | _ \<Rightarrow> lift_py (RaiseArgtupleInvalid ''merge''))"

definition DB_get_call ::
    "pyenv \<Rightarrow> ('d, 'b) db_lib \<Rightarrow> heap \<Rightarrow> nat \<Rightarrow> pyobj list \<Rightarrow> kwargs \<Rightarrow> ('d, pyobj) py" where
  "DB_get_call E L H db args kwds =
     bind_py (lift_py (unpack_star get_signature args kwds)) (\<lambda>(vs, rest, kw).
       case values_of vs of
         [key] \<Rightarrow> DB_get E L H db key rest kw
       | _ \<Rightarrow> lift_py (RaiseArgtupleInvalid ''get''))"

definition DB_multi_get_call ::
    "pyenv \<Rightarrow> ('d, 'b) db_lib \<Rightarrow> heap \<Rightarrow> nat \<Rightarrow> pyobj list \<Rightarrow> kwargs \<Rightarrow> ('d, pyobj) py" where
  "DB_multi_get_call E L H db args kwds =
     bind_py (lift_py (unpack_star multi_get_signature args kwds)) (\<lambda>(vs, rest, kw).
       case values_of vs of
         [keys] \<Rightarrow> DB_multi_get E L H db keys rest kw
       | _ \<Rightarrow> lift_py (RaiseArgtupleInvalid ''multi_get''))"

definition DB_key_may_exist_call ::
    "pyenv \<Rightarrow> ('d, 'b) db_lib \<Rightarrow> heap \<Rightarrow> nat \<Rightarrow> pyobj list \<Rightarrow> kwargs \<Rightarrow> ('d, pyobj) py" where
  "DB_key_may_exist_call E L H db args kwds =
     bind_py (lift_py (unpack_star key_may_exist_signature args kwds)) (\<lambda>(vs, rest, kw).
       case values_of vs of
         [key, fetch] \<Rightarrow> DB_key_may_exist E L H db key fetch rest kw
       | _ \<Rightarrow> lift_py (RaiseArgtupleInvalid ''key_may_exist''))"

subsection \<open>The database as a map\<close>

text \<open>
  The key a call means: the handle of its family and the bytes. \<open>multi_get\<close> resolves keys its own
  way, but to the same thing when it accepts them.
\<close>

definition resolve_key :: "pyenv \<Rightarrow> heap \<Rightarrow> nat \<Rightarrow> pyobj \<Rightarrow> pyexn + nat \<times> bytes" where
  "resolve_key E H dflt key =
     bind_res (split_key key) (\<lambda>(column_family, k).
     bind_res (bytes_to_slice k) (\<lambda>c_key.
     bind_res (choose_handle E H dflt column_family) (\<lambda>h. Inr (h, c_key))))"

lemma multi_get_key_resolves:
  "multi_get_key H dflt key = Inr hk \<Longrightarrow> resolve_key E H dflt key = Inr hk"
proof (cases "\<exists>xs. key = PTuple xs")
  case True
  assume m: "multi_get_key H dflt key = Inr hk"
  then obtain c k where "split_key key = Inr (c, k)" "typed_handle H c = Inr (fst hk)"
    "bytes_to_slice k = Inr (snd hk)"
    using True by (auto simp: multi_get_key_def bind_res_convs)
  moreover from this(2) have "PyObject_IsTrue E c = Inr True"
    by (cases c) (simp_all add: typed_handle_def)
  ultimately show ?thesis by (simp add: resolve_key_def choose_handle_def)
next
  case False
  assume "multi_get_key H dflt key = Inr hk"
  with False have "bytes_to_slice key = Inr (snd hk)" "fst hk = dflt" "split_key key = Inr (PNone, key)"
    by (cases key; auto simp: multi_get_key_def split_key_def bind_res_convs)+
  then show ?thesis by (cases hk) (simp add: resolve_key_def choose_handle_def)
qed

text \<open>
  What a key means to Python code, without the code: the handle of its family and the bytes. A pair
  names a family by a handle whose owner is alive; anything false stands for the default family.
\<close>

fun py_false :: "pyenv \<Rightarrow> pyobj \<Rightarrow> bool" where
  "py_false E PNone = True"
| "py_false E (PBool b) = (\<not> b)"
| "py_false E (PInt n) = (n = 0)"
| "py_false E (PBytes bs) = (bs = [])"
| "py_false E (PByteArray bs) = (bs = [])"
| "py_false E (PStr s) = (s = [])"
| "py_false E (PTuple xs) = (xs = [])"
| "py_false E (PList xs) = (xs = [])"
| "py_false E (PDict kvs) = (kvs = [])"
| "py_false E (PCF i) = False"
| "py_false E (PObj i) = (truth E i = Inr False)"

definition live_handle :: "cf_store \<Rightarrow> nat \<Rightarrow> nat option" where
  "live_handle S i = Option.bind (cfs S i) (\<lambda>c. map_option handle (reals S (wr_target (cf_ref c))))"

definition family_meant :: "pyenv \<Rightarrow> heap \<Rightarrow> nat \<Rightarrow> pyobj \<Rightarrow> nat option" where
  "family_meant E H dflt c =
     (if py_false E c then Some dflt
      else case c of PCF i \<Rightarrow> live_handle (cf_objects H) i | _ \<Rightarrow> None)"

fun key_meant :: "pyenv \<Rightarrow> heap \<Rightarrow> nat \<Rightarrow> pyobj \<Rightarrow> (nat \<times> bytes) option" where
  "key_meant E H dflt (PBytes k) = Some (dflt, k)"
| "key_meant E H dflt (PTuple [c, PBytes k]) = map_option (\<lambda>h. (h, k)) (family_meant E H dflt c)"
| "key_meant E H dflt _ = None"

lemma py_false_iff: "py_false E x \<longleftrightarrow> PyObject_IsTrue E x = Inr False"
  by (cases x) auto

lemma get_handle_live: "get_handle S i = Inr h \<longleftrightarrow> live_handle S i = Some h"
  by (auto simp: get_handle_def live_handle_def deref_def split: option.splits)

lemma choose_handle_meant: "choose_handle E H dflt c = Inr h \<longleftrightarrow> family_meant E H dflt c = Some h"
proof (cases "py_false E c")
  case True
  then show ?thesis by (auto simp: family_meant_def choose_handle_def py_false_iff)
next
  case False
  then show ?thesis
    by (cases c; cases "PyObject_IsTrue E c")
      (auto simp: family_meant_def choose_handle_def py_false_iff typed_handle_def get_handle_live
        split: if_splits)
qed

lemma resolve_key_meant: "resolve_key E H dflt key = Inr hk \<longleftrightarrow> key_meant E H dflt key = Some hk"
proof (cases "(E, H, dflt, key)" rule: key_meant.cases)
  case (1 E' H' dflt' k)
  then show ?thesis by (auto simp: resolve_key_def split_key_def choose_handle_def)
next
  case (2 E' H' dflt' c k)
  then show ?thesis
    by (cases hk) (auto simp: resolve_key_def split_key_def bind_res_convs choose_handle_meant)
qed (auto simp: resolve_key_def split_key_def bind_res_convs bytes_to_slice_iff split: if_splits list.splits)

type_synonym contents = "nat \<Rightarrow> bytes \<Rightarrow> bytes option"

text \<open>
  What RocksDB documents of point operations on one database, \<open>val d\<close> being the contents of its
  families and \<open>fam h\<close> the family a handle belongs to: several handles may belong to one family, as
  \<open>DefaultColumnFamily()\<close> and the handle that \<open>Open\<close> returned for \<open>default\<close> do. A successful put or
  delete changes one key of one family, a read changes nothing, a read of the newest data answers
  OK with the value or NotFound, other statuses say nothing, and the default family stays the
  same handle. \<open>MultiGet\<close> answers for each key what \<open>Get\<close> may answer.
\<close>

definition answer_ok :: "contents \<Rightarrow> nat \<Rightarrow> bytes \<Rightarrow> status \<times> bytes \<Rightarrow> bool" where
  "answer_ok m h k = (\<lambda>(st, v).
     (st_ok st \<longrightarrow> m h k = Some v) \<and> (\<not> st_ok st \<longrightarrow> IsNotFound st \<longrightarrow> m h k = None))"

definition newest :: "read_opts \<Rightarrow> bool" where
  "newest o' \<longleftrightarrow> ro_snapshot o' = None \<and> ro_read_tier o' = kReadAllTier"

definition kv_contract :: "('d, 'b) db_lib \<Rightarrow> nat \<Rightarrow> (nat \<Rightarrow> nat) \<Rightarrow> ('d \<Rightarrow> contents) \<Rightarrow> bool" where
  "kv_contract L db fam val \<longleftrightarrow>
     (\<forall>o' h k v d st d'. lib_Put L db o' h k v d = (Inr st, d') \<longrightarrow> st_ok st \<longrightarrow>
        val d' = (val d)(fam h := (val d (fam h))(k \<mapsto> v)) \<and>
        lib_DefaultColumnFamily L db d' = lib_DefaultColumnFamily L db d) \<and>
     (\<forall>o' h k d st d'. lib_Delete L db o' h k d = (Inr st, d') \<longrightarrow> st_ok st \<longrightarrow>
        val d' = (val d)(fam h := (val d (fam h))(k := None)) \<and>
        lib_DefaultColumnFamily L db d' = lib_DefaultColumnFamily L db d) \<and>
     (\<forall>o' h k d r d'. lib_Get L db o' h k d = (Inr r, d') \<longrightarrow>
        val d' = val d \<and> lib_DefaultColumnFamily L db d' = lib_DefaultColumnFamily L db d \<and>
        (newest o' \<longrightarrow> answer_ok (val d) (fam h) k r)) \<and>
     (\<forall>o' hs ks d rs d'. lib_MultiGet L db o' hs ks d = (Inr rs, d') \<longrightarrow> length hs = length ks \<longrightarrow>
        val d' = val d \<and> lib_DefaultColumnFamily L db d' = lib_DefaultColumnFamily L db d \<and>
        length rs = length ks \<and>
        (newest o' \<longrightarrow> (\<forall>i < length ks. answer_ok (val d) (fam (hs ! i)) (ks ! i) (rs ! i))))"

lemma kv_contractD:
  assumes "kv_contract L db fam val"
  shows "lib_Put L db o' h k v d = (Inr st, d') \<Longrightarrow> st_ok st \<Longrightarrow>
        val d' = (val d)(fam h := (val d (fam h))(k \<mapsto> v)) \<and>
        lib_DefaultColumnFamily L db d' = lib_DefaultColumnFamily L db d"
    and "lib_Delete L db o' h k d = (Inr st, d') \<Longrightarrow> st_ok st \<Longrightarrow>
        val d' = (val d)(fam h := (val d (fam h))(k := None)) \<and>
        lib_DefaultColumnFamily L db d' = lib_DefaultColumnFamily L db d"
    and "lib_Get L db ro h k d = (Inr r, d') \<Longrightarrow>
        val d' = val d \<and> lib_DefaultColumnFamily L db d' = lib_DefaultColumnFamily L db d \<and>
        (newest ro \<longrightarrow> answer_ok (val d) (fam h) k r)"
    and "lib_MultiGet L db ro hs ks d = (Inr rs, d') \<Longrightarrow> length hs = length ks \<Longrightarrow>
        val d' = val d \<and> lib_DefaultColumnFamily L db d' = lib_DefaultColumnFamily L db d \<and>
        length rs = length ks \<and>
        (newest ro \<longrightarrow> (\<forall>i < length ks. answer_ok (val d) (fam (hs ! i)) (ks ! i) (rs ! i)))"
  using assms unfolding kv_contract_def by metis+

lemma cpp_py_Inr: "cpp_py f s = (Inr v, t) \<longleftrightarrow> f s = (Inr v, t)"
  by (auto simp: cpp_py_def split: prod.splits)

lemma lift_py_Inr: "lift_py r s = (Inr v, t) \<longleftrightarrow> r = Inr v \<and> t = s"
  by (auto simp: lift_py_def)

lemmas py_convs = bind_py_Inr cpp_py_Inr lift_py_Inr ret_py_def

lemma DB_put_ok:
  assumes "kv_contract L db fam val" "DB_put E L H db key v sync wal d = (Inr r, d')"
  obtains h k bs where "resolve_key E H (lib_DefaultColumnFamily L db d) key = Inr (h, k)"
    "v = PBytes bs" "r = PNone" "val d' = (val d)(fam h := (val d (fam h))(k \<mapsto> bs))"
    "lib_DefaultColumnFamily L db d' = lib_DefaultColumnFamily L db d"
  using assms(2)
  by (auto simp: DB_put_def py_convs bind_res_convs resolve_key_def bytes_to_slice_iff
      dest!: kv_contractD(1) [OF assms(1)] split: prod.splits)

lemma DB_delete_ok:
  assumes "kv_contract L db fam val" "DB_delete E L H db key sync wal d = (Inr r, d')"
  obtains h k where "resolve_key E H (lib_DefaultColumnFamily L db d) key = Inr (h, k)"
    "r = PNone" "val d' = (val d)(fam h := (val d (fam h))(k := None))"
    "lib_DefaultColumnFamily L db d' = lib_DefaultColumnFamily L db d"
  using assms(2)
  by (auto simp: DB_delete_def py_convs bind_res_convs resolve_key_def bytes_to_slice_iff
      dest!: kv_contractD(2) [OF assms(1)] split: prod.splits)

definition shown_value :: "bytes option \<Rightarrow> pyobj" where
  "shown_value v = (case v of Some bs \<Rightarrow> PBytes bs | None \<Rightarrow> PNone)"

lemma answer_shown:
  "answer_ok m h k (st, v) \<Longrightarrow> st_ok st \<Longrightarrow> shown_value (m h k) = PBytes v"
  "answer_ok m h k (st, v) \<Longrightarrow> \<not> st_ok st \<Longrightarrow> IsNotFound st \<Longrightarrow> shown_value (m h k) = PNone"
  by (simp_all add: answer_ok_def shown_value_def)

lemma plain_read_options:
  "\<exists>ro. read_options E L H [] [] = Inr ro \<and> newest ro"
  by (simp add: read_options_def parse_read_opts_def unpack_arguments_def read_opts_signature_def
      build_read_opts_def read_opts_body_def snapshot_ptr_def newest_def)

lemma DB_get_ok:
  assumes "kv_contract L db fam val" "DB_get E L H db key [] [] d = (Inr r, d')"
  obtains h k where "resolve_key E H (lib_DefaultColumnFamily L db d) key = Inr (h, k)"
    "r = shown_value (val d (fam h) k)" "val d' = val d"
    "lib_DefaultColumnFamily L db d' = lib_DefaultColumnFamily L db d"
proof -
  obtain ro where ro: "read_options E L H [] [] = Inr ro" "newest ro"
    using plain_read_options by blast
  from assms(2) ro obtain c k' k h st res where
    "split_key key = Inr (c, k')" "bytes_to_slice k' = Inr k"
    "choose_handle E H (lib_DefaultColumnFamily L db d) c = Inr h"
    and g: "lib_Get L db ro h k d = (Inr (st, res), d')"
    and r: "st_ok st \<and> r = PBytes res \<or> \<not> st_ok st \<and> IsNotFound st \<and> r = PNone"
    by (auto simp: DB_get_def py_convs string_to_bytes_def split: if_splits)
  then have "resolve_key E H (lib_DefaultColumnFamily L db d) key = Inr (h, k)"
    by (simp add: resolve_key_def)
  moreover have "r = shown_value (val d (fam h) k)"
    using kv_contractD(3) [OF assms(1) g] ro(2) r answer_shown by metis
  ultimately show ?thesis using kv_contractD(3) [OF assms(1) g] that by blast
qed

lemma map_res_nth:
  "map_res f xs = Inr ys \<Longrightarrow> i < length xs \<Longrightarrow> f (xs ! i) = Inr (ys ! i)"
  by (induction xs arbitrary: ys i) (auto simp: bind_res_convs nth_Cons split: nat.splits)

lemma fill_result_list:
  "fill_result E (PList keys) i rs kvs = Inr kvs' \<Longrightarrow> i + length rs \<le> length keys \<Longrightarrow>
   (\<And>j. j < length rs \<Longrightarrow> answer_ok m (hs ! (i + j)) (ks ! (i + j)) (rs ! j)) \<Longrightarrow>
   kvs' = foldl (\<lambda>kvs j. dict_set kvs (keys ! j) (shown_value (m (hs ! j) (ks ! j)))) kvs
     [i..<i + length rs]"
proof (induction rs arbitrary: i kvs)
  case Nil
  then show ?case by simp
next
  case (Cons r rs)
  obtain st v where r: "r = (st, v)" by (cases r)
  have lt: "i < length keys" using Cons.prems(2) by simp
  have a: "answer_ok m (hs ! i) (ks ! i) (st, v)" using Cons.prems(3) [of 0] r by simp
  have "fill_result E (PList keys) (i + 1) rs
      (dict_set kvs (keys ! i) (shown_value (m (hs ! i) (ks ! i)))) = Inr kvs'"
    using Cons.prems(1) lt answer_shown [OF a] r
    by (auto simp: GetItemInt_Fast_def string_to_bytes_def bind_res_convs split: if_splits)
  moreover have "(i + 1) + length rs \<le> length keys" using Cons.prems(2) by simp
  moreover have "answer_ok m (hs ! (i + 1 + j)) (ks ! (i + 1 + j)) (rs ! j)" if "j < length rs" for j
    using Cons.prems(3) [of "Suc j"] that by simp
  ultimately have "kvs' = foldl (\<lambda>kvs j. dict_set kvs (keys ! j) (shown_value (m (hs ! j) (ks ! j))))
      (dict_set kvs (keys ! i) (shown_value (m (hs ! i) (ks ! i)))) [i + 1..<i + 1 + length rs]"
    by (rule Cons.IH)
  moreover have "[i..<i + length (r # rs)] = i # [i + 1..<i + 1 + length rs]"
    by (simp add: upt_conv_Cons del: upt_Suc)
  ultimately show ?case by (simp del: upt_Suc)
qed

lemma foldl_index:
  "foldl (\<lambda>a j. f a (xs ! j) (g (xs ! j))) a [0..<length xs] = foldl (\<lambda>a x. f a x (g x)) a xs"
proof -
  have "foldl (\<lambda>a x. f a x (g x)) a (map ((!) xs) [0..<length xs]) =
      foldl (\<lambda>a j. f a (xs ! j) (g (xs ! j))) a [0..<length xs]"
    by (simp add: foldl_map)
  then show ?thesis by (simp add: map_nth)
qed

lemma foldl_eqI: "(\<And>a x. x \<in> set xs \<Longrightarrow> f a x = g a x) \<Longrightarrow> foldl f a xs = foldl g a xs"
  by (induction xs arbitrary: a) auto

text \<open>The family and bytes a key means, and the value it is bound to, as Python sees it.\<close>

definition place :: "pyenv \<Rightarrow> heap \<Rightarrow> (nat \<Rightarrow> nat) \<Rightarrow> nat \<Rightarrow> pyobj \<Rightarrow> (nat \<times> bytes) option" where
  "place E H fam dflt key = map_option (apfst fam) (key_meant E H dflt key)"

definition seen_value :: "(pyobj \<Rightarrow> (nat \<times> bytes) option) \<Rightarrow> contents \<Rightarrow> pyobj \<Rightarrow> pyobj" where
  "seen_value pl m key = (case pl key of Some (f, k) \<Rightarrow> shown_value (m f k) | None \<Rightarrow> PNone)"

lemma resolve_key_place:
  "resolve_key E H dflt key = Inr (h, k) \<Longrightarrow> place E H fam dflt key = Some (fam h, k)"
  by (simp add: place_def resolve_key_meant)

lemma DB_multi_get_ok:
  assumes "kv_contract L db fam val" "DB_multi_get E L H db (PList keys) [] [] d = (Inr r, d')"
  shows "r = PDict (foldl (\<lambda>kvs key. dict_set kvs key
           (seen_value (place E H fam (lib_DefaultColumnFamily L db d)) (val d) key)) [] keys)"
    and "val d' = val d" "lib_DefaultColumnFamily L db d' = lib_DefaultColumnFamily L db d"
proof -
  let ?dflt = "lib_DefaultColumnFamily L db d"
  obtain ro where ro: "read_options E L H [] [] = Inr ro" "newest ro"
    using plain_read_options by blast
  from assms(2) ro obtain ks rs kvs where
    ks: "map_res (multi_get_key H ?dflt) keys = Inr ks"
    and g: "lib_MultiGet L db ro (map fst ks) (map snd ks) d = (Inr rs, d')"
    and f: "fill_result E (PList keys) 0 (take (length keys) rs) [] = Inr kvs" "r = PDict kvs"
    by (auto simp: DB_multi_get_def py_convs py_len_def for_each_list)
  have len: "length ks = length keys" using map_res_length [OF ks] .
  note C = kv_contractD(4) [OF assms(1) g]
  have rs: "length rs = length keys"
    "\<And>i. i < length keys \<Longrightarrow> answer_ok (val d) (map (fam \<circ> fst) ks ! i) (map snd ks ! i) (rs ! i)"
    using C ro(2) len by auto
  have "kvs = foldl (\<lambda>kvs j. dict_set kvs (keys ! j)
      (shown_value (val d (map (fam \<circ> fst) ks ! j) (map snd ks ! j)))) [] [0..<length keys]"
    using fill_result_list [OF f(1), of "val d" "map (fam \<circ> fst) ks" "map snd ks"] rs by simp
  also have "\<dots> = foldl (\<lambda>kvs j. dict_set kvs (keys ! j)
      (seen_value (place E H fam ?dflt) (val d) (keys ! j))) [] [0..<length keys]"
  proof (rule foldl_eqI)
    fix a j assume "j \<in> set [0..<length keys]"
    then have j: "j < length keys" by simp
    have "resolve_key E H ?dflt (keys ! j) = Inr (fst (ks ! j), snd (ks ! j))"
      unfolding prod.collapse by (rule multi_get_key_resolves) (rule map_res_nth [OF ks j])
    note p = resolve_key_place [OF this, of fam]
    show "dict_set a (keys ! j) (shown_value (val d (map (fam \<circ> fst) ks ! j) (map snd ks ! j))) =
        dict_set a (keys ! j) (seen_value (place E H fam ?dflt) (val d) (keys ! j))"
      using j len by (simp add: seen_value_def p)
  qed
  also have "\<dots> = foldl (\<lambda>kvs key. dict_set kvs key
      (seen_value (place E H fam ?dflt) (val d) key)) [] keys"
    by (rule foldl_index)
  finally show "r = PDict (foldl (\<lambda>kvs key. dict_set kvs key
      (seen_value (place E H fam ?dflt) (val d) key)) [] keys)" using f(2) by simp
  show "val d' = val d" "lib_DefaultColumnFamily L db d' = ?dflt" using C by auto
qed

subsection \<open>Sequences of operations\<close>

datatype kv_op = OpPut pyobj pyobj | OpDelete pyobj | OpGet pyobj | OpMultiGet "pyobj list"

fun run_op :: "pyenv \<Rightarrow> ('d, 'b) db_lib \<Rightarrow> heap \<Rightarrow> nat \<Rightarrow> kv_op \<Rightarrow> ('d, pyobj) py" where
  "run_op E L H db (OpPut key v) = DB_put E L H db key v (PBool False) (PBool False)"
| "run_op E L H db (OpDelete key) = DB_delete E L H db key (PBool False) (PBool False)"
| "run_op E L H db (OpGet key) = DB_get E L H db key [] []"
| "run_op E L H db (OpMultiGet keys) = DB_multi_get E L H db (PList keys) [] []"

fun run_ops :: "pyenv \<Rightarrow> ('d, 'b) db_lib \<Rightarrow> heap \<Rightarrow> nat \<Rightarrow> kv_op list \<Rightarrow> ('d, pyobj list) py" where
  "run_ops E L H db [] = ret_py []"
| "run_ops E L H db (c # cs) =
     bind_py (run_op E L H db c) (\<lambda>r. bind_py (run_ops E L H db cs) (\<lambda>rs. ret_py (r # rs)))"

text \<open>The specification: a map from families and keys to values; \<open>pl\<close> gives the place of a key in it.\<close>

fun spec_op :: "(pyobj \<Rightarrow> (nat \<times> bytes) option) \<Rightarrow> kv_op \<Rightarrow> contents \<Rightarrow> pyobj \<times> contents" where
  "spec_op pl (OpPut key v) m =
     (PNone, case (pl key, v) of (Some (f, k), PBytes bs) \<Rightarrow> m(f := (m f)(k \<mapsto> bs)) | _ \<Rightarrow> m)"
| "spec_op pl (OpDelete key) m =
     (PNone, case pl key of Some (f, k) \<Rightarrow> m(f := (m f)(k := None)) | None \<Rightarrow> m)"
| "spec_op pl (OpGet key) m = (seen_value pl m key, m)"
| "spec_op pl (OpMultiGet keys) m =
     (PDict (foldl (\<lambda>kvs key. dict_set kvs key (seen_value pl m key)) [] keys), m)"

fun spec_ops :: "(pyobj \<Rightarrow> (nat \<times> bytes) option) \<Rightarrow> kv_op list \<Rightarrow> contents \<Rightarrow> pyobj list \<times> contents" where
  "spec_ops pl [] m = ([], m)"
| "spec_ops pl (c # cs) m =
     (case spec_op pl c m of (r, m1) \<Rightarrow> (case spec_ops pl cs m1 of (rs, m2) \<Rightarrow> (r # rs, m2)))"

lemma run_op_spec:
  assumes "kv_contract L db fam val" "run_op E L H db c d = (Inr r, d')"
  shows "spec_op (place E H fam (lib_DefaultColumnFamily L db d)) c (val d) = (r, val d') \<and>
    lib_DefaultColumnFamily L db d' = lib_DefaultColumnFamily L db d"
proof (cases c)
  case (OpPut key v)
  then show ?thesis using assms(2) by (auto elim!: DB_put_ok [OF assms(1)] simp: resolve_key_place)
next
  case (OpDelete key)
  then show ?thesis using assms(2) by (auto elim!: DB_delete_ok [OF assms(1)] simp: resolve_key_place)
next
  case (OpGet key)
  then show ?thesis
    using assms(2) by (auto elim!: DB_get_ok [OF assms(1)] simp: seen_value_def resolve_key_place)
next
  case (OpMultiGet keys)
  then show ?thesis using assms(2) DB_multi_get_ok [OF assms(1), of E H keys d r d'] by simp
qed

lemma run_ops_spec:
  assumes "kv_contract L db fam val" "run_ops E L H db cs d = (Inr rs, d')"
  shows "spec_ops (place E H fam (lib_DefaultColumnFamily L db d)) cs (val d) = (rs, val d')"
  using assms(2)
proof (induction cs arbitrary: d rs)
  case Nil
  then show ?case by simp
next
  case (Cons c cs)
  then obtain r d1 rs1 where r: "run_op E L H db c d = (Inr r, d1)"
    "run_ops E L H db cs d1 = (Inr rs1, d')" "rs = r # rs1"
    by (auto simp: bind_py_Inr)
  then show ?case using run_op_spec [OF assms(1) r(1)] Cons.IH [OF r(2)] by simp
qed

subsection \<open>Properties\<close>

text \<open>
  C1. Puts, deletes, gets and multi-gets implement a map: whatever sequence of them runs without an
  exception, with plain keys and keys of column families mixed, returns what the same sequence
  returns on a mathematical map from families and keys to values, and leaves the database with
  the contents of that map. Two handles of one family, such as the default handle and a handle
  looked up for \<open>default\<close>, are the same place of the map.
\<close>

theorem db_refines_map:
  assumes "kv_contract L db fam val" "run_ops E L H db cs d = (Inr rs, d')"
  shows "spec_ops (place E H fam (lib_DefaultColumnFamily L db d)) cs (val d) = (rs, val d')"
  using assms by (rule run_ops_spec)

text \<open>
  What is wrong with a key that means nothing: a tuple that is no pair (\<open>ValueError\<close>), bytes missing
  (\<open>TypeError\<close>), a family that is no handle (\<open>TypeError\<close>, or what its truth value raised) or whose
  owner is gone (\<open>ValueError\<close>).
\<close>

fun key_error :: "pyenv \<Rightarrow> heap \<Rightarrow> pyobj \<Rightarrow> pyexn \<Rightarrow> bool" where
  "key_error E H (PTuple [c, PBytes k]) e =
     (case c of
        PCF i \<Rightarrow> exn_class e = (if cfs (cf_objects H) i = None then AttributeError else ValueError)
      | PObj i \<Rightarrow> truth E i = Inl e \<or> exn_class e = TypeError
      | _ \<Rightarrow> exn_class e = TypeError)"
| "key_error E H (PTuple [c, k]) e = (exn_class e = TypeError)"
| "key_error E H (PTuple xs) e = (exn_class e = ValueError)"
| "key_error E H key e = (exn_class e = TypeError)"

lemma bad_family:
  assumes "family_meant E H dflt c = None"
  shows "\<exists>e. choose_handle E H dflt c = Inl e \<and> key_error E H (PTuple [c, PBytes k]) e"
proof -
  obtain e where e: "choose_handle E H dflt c = Inl e"
    using assms choose_handle_meant by (metis not_Some_eq sum.exhaust)
  then show ?thesis
    by (cases c)
      (auto simp: choose_handle_def typed_handle_def bind_res_Inl_conv get_handle_def attribute_error_def
        split: if_splits option.splits)
qed

lemma bad_key:
  assumes "key_meant E H dflt key = None"
  shows "\<exists>e. key_error E H key e \<and>
    (split_key key = Inl e \<or>
     (\<exists>c k. split_key key = Inr (c, k) \<and>
       (bytes_to_slice k = Inl e \<or>
        (\<exists>bs. bytes_to_slice k = Inr bs \<and> choose_handle E H dflt c = Inl e))))"
proof (cases "(E, H, dflt, key)" rule: key_meant.cases)
  case (2 E' H' dflt' c k)
  then obtain e where "choose_handle E H dflt c = Inl e" "key_error E H (PTuple [c, PBytes k]) e"
    using bad_family [of E H dflt c k] assms by auto
  then show ?thesis
    using 2 by (intro exI [of _ e]) (simp add: split_key_def bytes_to_slice_def del: key_error.simps)
qed (use assms in \<open>auto simp: split_key_def bytes_to_slice_def split: if_splits list.splits\<close>)

lemma bad_key_multi:
  assumes "key_meant E H dflt key = None"
  shows "\<exists>e. multi_get_key H dflt key = Inl e"
  using assms multi_get_key_resolves [of H dflt key _ E] resolve_key_meant [of E H dflt key]
  by (cases "multi_get_key H dflt key") auto

lemma map_res_fails: "f x = Inl e \<Longrightarrow> \<exists>e. map_res f (xs @ x # ys) = Inl e"
  by (induction xs) (auto simp: bind_res_def split: sum.splits)

lemma bad_key_may_exist:
  assumes "key_meant E H dflt key = None"
  shows "\<exists>e. bind_res (key_may_exist_key H dflt key) (\<lambda>(h, k). bind_res (bytes_to_slice k) (\<lambda>s. Inr (h, s))) = Inl e"
proof -
  have "bind_res (key_may_exist_key H dflt key) (\<lambda>(h, k). bind_res (bytes_to_slice k) (\<lambda>s. Inr (h, s))) =
      multi_get_key H dflt key"
    by (cases key) (auto simp: multi_get_key_def bind_res_def split: sum.splits prod.splits)
  then show ?thesis using bad_key_multi [OF assms] by simp
qed

text \<open>
  C39. A key that means nothing (not bytes, a tuple that is no pair of a family and bytes, a dropped or
  foreign family) is reported before RocksDB is called: put, merge, delete and get raise the same
  exception, of the class that says what is wrong, and so do key_may_exist and a multi_get with such a
  key anywhere in its list; all leave the database exactly as it was.
\<close>

theorem db_rejects_bad_keys:
  assumes "key_meant E H (lib_DefaultColumnFamily L db d) key = None"
  shows "(\<exists>e. key_error E H key e \<and>
      DB_put E L H db key (PBytes v) (PBool s) (PBool w) d = (Inl e, d) \<and>
      DB_merge E L H db key (PBytes v) (PBool s) (PBool w) d = (Inl e, d) \<and>
      DB_delete E L H db key (PBool s) (PBool w) d = (Inl e, d) \<and>
      DB_get E L H db key [] [] d = (Inl e, d)) \<and>
    (\<exists>e. DB_key_may_exist E L H db key (PBool b) [] [] d = (Inl e, d)) \<and>
    (\<exists>e. DB_multi_get E L H db (PList (ks @ key # ks')) [] [] d = (Inl e, d))"
proof -
  let ?dflt = "lib_DefaultColumnFamily L db d"
  obtain ro where ro: "read_options E L H [] [] = Inr ro" using plain_read_options by blast
  have w: "write_options E (PBool s) (PBool w) = Inr \<lparr>wo_sync = s, disableWAL = w\<rparr>"
    by (simp add: write_options_def)
  obtain e where e: "key_error E H key e" and bad: "split_key key = Inl e \<or>
     (\<exists>c k. split_key key = Inr (c, k) \<and>
       (bytes_to_slice k = Inl e \<or> (\<exists>bs. bytes_to_slice k = Inr bs \<and> choose_handle E H ?dflt c = Inl e)))"
    using bad_key [OF assms] by blast
  have writes: "DB_put E L H db key (PBytes v) (PBool s) (PBool w) d = (Inl e, d) \<and>
      DB_merge E L H db key (PBytes v) (PBool s) (PBool w) d = (Inl e, d) \<and>
      DB_delete E L H db key (PBool s) (PBool w) d = (Inl e, d) \<and>
      DB_get E L H db key [] [] d = (Inl e, d)"
    using bad
    by (elim disjE exE conjE) (simp_all add: DB_put_def DB_merge_def DB_delete_def DB_get_def w ro)
  have probe: "\<exists>e. DB_key_may_exist E L H db key (PBool b) [] [] d = (Inl e, d)"
    using bad_key_may_exist [OF assms] ro
    by (auto simp: DB_key_may_exist_def bind_py_def lift_py_def bind_res_Inl_conv simp del: key_may_exist_key_def)
  obtain e2 where m: "multi_get_key H ?dflt key = Inl e2" using bad_key_multi [OF assms] by blast
  obtain e' where "map_res (multi_get_key H ?dflt) (ks @ key # ks') = Inl e'"
    using map_res_fails [where f = "multi_get_key H ?dflt", OF m, of ks ks'] by blast
  then have "DB_multi_get E L H db (PList (ks @ key # ks')) [] [] d = (Inl e', d)"
    by (simp add: DB_multi_get_def py_len_def for_each_list)
  then show ?thesis using e writes probe by blast
qed

text \<open>
  Invalid read options are not refused: when evaluating them raises (an unknown read tier, an
  object that is no snapshot), the exception is swallowed and the read runs with
  default-constructed options, so that a get with a bad snapshot returns the newest value.
\<close>

theorem bad_read_options_ignored:
  assumes "parse_read_opts args kwds = Inr py_opts" "read_opts_body E H py_opts = Inl e"
    and "lib_Get L db (lib_default_ReadOptions L) (lib_DefaultColumnFamily L db d) k d =
      (Inr (st, v), d')" "st_ok st"
  shows "DB_get E L H db (PBytes k) args kwds d = (Inr (PBytes v), d')"
  using assms
  by (simp add: DB_get_def read_options_def build_read_opts_def split_key_def choose_handle_def
      bind_py_def cpp_py_def string_to_bytes_def)

subsection \<open>A database for examples\<close>

text \<open>Handle 9 belongs to the default family, whose handle inside the database is 0.\<close>

definition alias_fam :: "nat \<Rightarrow> nat" where
  "alias_fam h = nat (demo_num h)"

definition map_lib :: "(contents, handler_call list) db_lib" where
  "map_lib =
     \<lparr>lib_default_ReadOptions = \<lparr>ro_verify_checksums = True, ro_fill_cache = True,
        ro_snapshot = None, ro_read_tier = kReadAllTier\<rparr>,
      lib_DefaultColumnFamily = (\<lambda>_ _. 0),
      lib_Put = (\<lambda>_ _ h k v d. (Inr (status_of Ok []), d(alias_fam h := (d (alias_fam h))(k \<mapsto> v)))),
      lib_Delete = (\<lambda>_ _ h k d. (Inr (status_of Ok []), d(alias_fam h := (d (alias_fam h))(k := None)))),
      lib_Merge = (\<lambda>_ _ h k v d. (Inr (status_of NotSupportedCode []), d)),
      lib_Write = (\<lambda>_ _ b d. (Inr (status_of NotSupportedCode []), d)),
      lib_Get = (\<lambda>_ _ h k d. (Inr (case d (alias_fam h) k of Some v \<Rightarrow> (status_of Ok [], v)
         | None \<Rightarrow> (status_of NotFoundCode [], [])), d)),
      lib_MultiGet = (\<lambda>_ _ hs ks d. (Inr (map (\<lambda>(h, k). case d (alias_fam h) k of Some v \<Rightarrow> (status_of Ok [], v)
         | None \<Rightarrow> (status_of NotFoundCode [], [])) (zip hs ks)), d)),
      lib_KeyMayExist = (\<lambda>_ _ h k d. (Inr (d (alias_fam h) k \<noteq> None, [], False), d)),
      lib_GetProperty = (\<lambda>_ _ _ d. (Inr (False, []), d)),
      lib_GetLiveFilesMetaData = (\<lambda>_ d. (Inr [], d)),
      lib_CompactRange = (\<lambda>_ _ _ _ _ d. (Inr (status_of Ok []), d))\<rparr>"

lemma map_lib_contract: "kv_contract map_lib db alias_fam id"
  by (auto simp: kv_contract_def map_lib_def answer_ok_def status_of_def split: option.splits)

text \<open>The object 2 is the handle of a family, the object 4 the handle Python got for \<open>default\<close>.\<close>

definition demo_heap :: heap where
  "demo_heap = \<lparr>cf_objects = demo_store, snapshots = (\<lambda>_. None)\<rparr>"

definition alias_heap :: heap where
  "alias_heap =
     \<lparr>cf_objects =
        \<lparr>reals = [0 \<mapsto> \<lparr>handle = 7, weak_handle = Some 2\<rparr>, 3 \<mapsto> \<lparr>handle = 9, weak_handle = Some 4\<rparr>],
         cfs = [2 \<mapsto> demo_handle, 4 \<mapsto> \<lparr>cf_ref = Weakref 5 3, cf_name = [100], cf_id = 0\<rparr>],
         deleted = [], fresh = 6\<rparr>,
      snapshots = (\<lambda>_. None)\<rparr>"

lemma alias_handles: "get_handle (cf_objects alias_heap) 2 = Inr 7" "get_handle (cf_objects alias_heap) 4 = Inr 9"
  by (simp_all add: get_handle_def deref_def alias_heap_def demo_handle_def)

theorem db_refines_map_witness:
  "fst (run_ops plain_env map_lib alias_heap 0
     [OpPut (PBytes [1]) (PBytes [2]), OpPut (PTuple [PCF 2, PBytes [1]]) (PBytes [3]),
      OpGet (PTuple [PCF 4, PBytes [1]]),
      OpMultiGet [PBytes [1], PBytes [9], PTuple [PCF 2, PBytes [1]]]] (\<lambda>_ _. None)) =
   Inr [PNone, PNone, PBytes [2],
     PDict [(PBytes [1], PBytes [2]), (PBytes [9], PNone), (PTuple [PCF 2, PBytes [1]], PBytes [3])]]"
proof -
  let ?ops = "[OpPut (PBytes [1]) (PBytes [2]), OpPut (PTuple [PCF 2, PBytes [1]]) (PBytes [3]),
      OpGet (PTuple [PCF 4, PBytes [1]]),
      OpMultiGet [PBytes [1], PBytes [9], PTuple [PCF 2, PBytes [1]]]]"
  let ?pl = "place plain_env alias_heap alias_fam 0"
  have k: "?pl (PBytes bs) = Some (0, bs)" "?pl (PTuple [PCF 2, PBytes bs]) = Some (7, bs)"
    "?pl (PTuple [PCF 4, PBytes bs]) = Some (0, bs)" for bs
    by (simp_all add: place_def family_meant_def live_handle_def alias_heap_def demo_handle_def alias_fam_def demo_num_def)
  have "\<exists>rs d'. run_ops plain_env map_lib alias_heap 0 ?ops (\<lambda>_ _. None) = (Inr rs, d')"
    by (simp add: DB_put_def DB_get_def DB_multi_get_def write_options_def split_key_def choose_handle_def
        typed_handle_def alias_handles read_options_def parse_read_opts_def unpack_arguments_def
        read_opts_signature_def build_read_opts_def read_opts_body_def snapshot_ptr_def py_len_def
        for_each_list multi_get_key_def GetItemInt_Fast_def bind_py_def cpp_py_def map_lib_def
        status_of_def alias_fam_def demo_num_def)
  then obtain rs d' where r: "run_ops plain_env map_lib alias_heap 0 ?ops (\<lambda>_ _. None) = (Inr rs, d')"
    by blast
  have "lib_DefaultColumnFamily map_lib 0 (\<lambda>_ _. None) = 0" by (simp add: map_lib_def)
  then have "spec_ops ?pl ?ops (\<lambda>_ _. None) = (rs, d')"
    using db_refines_map [OF map_lib_contract r] by (simp only: id_apply)
  then have "rs = [PNone, PNone, PBytes [2], PDict [(PBytes [1], PBytes [2]), (PBytes [9], PNone),
      (PTuple [PCF 2, PBytes [1]], PBytes [3])]]"
    by (simp add: k seen_value_def shown_value_def)
  then show ?thesis using r by simp
qed

theorem db_rejects_bad_keys_witness:
  "\<exists>e. exn_class e = ValueError \<and>
     DB_get plain_env map_lib (demo_heap\<lparr>cf_objects := dealloc_real 0 demo_store\<rparr>) 0
       (PTuple [PCF 2, PBytes [1]]) [] [] (\<lambda>_ _. None) = (Inl e, (\<lambda>_ _. None))"
proof -
  let ?H = "demo_heap\<lparr>cf_objects := dealloc_real 0 demo_store\<rparr>"
  let ?dflt = "lib_DefaultColumnFamily map_lib 0 (\<lambda>_ _. None)"
  have c: "cfs (cf_objects ?H) 2 \<noteq> None" and n: "live_handle (cf_objects ?H) 2 = None"
    by (simp_all add: live_handle_def dealloc_real_def demo_store_def demo_handle_def)
  then have m: "key_meant plain_env ?H ?dflt (PTuple [PCF 2, PBytes [1]]) = None"
    by (simp add: family_meant_def)
  obtain e where "key_error plain_env ?H (PTuple [PCF 2, PBytes [1]]) e"
      "DB_get plain_env map_lib ?H 0 (PTuple [PCF 2, PBytes [1]]) [] [] (\<lambda>_ _. None) = (Inl e, (\<lambda>_ _. None))"
    using db_rejects_bad_keys [OF m, of "[]" False False False "[]" "[]"] by blast
  with c show ?thesis by auto
qed

theorem bad_read_options_ignored_witness:
  "DB_get plain_env map_lib demo_heap 0 (PBytes [1]) [] [(''read_tier'', PStr ''bogus'')]
     (\<lambda>_ _. Some [5]) = (Inr (PBytes [5]), (\<lambda>_ _. Some [5]))"
proof -
  have p: "parse_read_opts [] [(''read_tier'', PStr ''bogus'')] =
      Inr [Some (PBool False), Some (PBool True), Some PNone, Some (PStr ''bogus'')]"
    by (simp add: parse_read_opts_def unpack_arguments_def read_opts_signature_def)
  show ?thesis
    by (rule bad_read_options_ignored [OF p, where e = "Exn ValueError (Text ''Invalid read_tier'')"
        and st = "status_of Ok []"])
      (simp_all add: read_opts_body_def snapshot_ptr_def map_lib_def status_of_def)
qed

end
