(* ===== verification/Families.thy ===== *)
theory Families
  imports Database Callbacks
begin

section \<open>Opening, closing and column families\<close>

text \<open>
  The part of the Cython class \<open>DB\<close> that owns things: opening and closing a database, creating and
  dropping column families, looking them up. The state has the Python objects involved:
  \<open>Options\<close> and \<open>ColumnFamilyOptions\<close> objects with their \<open>in_use\<close> flag, the column family handles,
  the \<open>DB\<close> objects, and RocksDB behind them (state \<open>'d\<close>). An object of class \<open>Options\<close> is also a
  \<open>ColumnFamilyOptions\<close>, as in the source.
\<close>

subsection \<open>State\<close>

datatype hook = ComparatorHook | TableFactoryHook | PrefixExtractorHook

text \<open>A \<open>DB\<close> object: \<open>None\<close> in \<open>cf_options\<close> is the default family that shares the options of the database.\<close>

record db_object =
  db_ptr :: "nat option"
  db_opts :: "nat option"
  cf_handles :: "nat list"
  cf_options :: "nat option list"

record 'd world =
  wstore :: cf_store
  in_use :: "nat \<Rightarrow> bool"
  info_logs :: "nat \<times> hook \<Rightarrow> log_ptr"
  dbs :: "nat \<Rightarrow> db_object option"
  rocks :: 'd

text \<open>
  RocksDB: \<open>open\<close> gets the read-only flag, the options object, the path and the descriptors (name
  and the options object it copies from, \<open>None\<close>: the database's) and yields a status, the handles
  and the database pointer. \<open>is_cf_options\<close> and \<open>has_hook\<close> describe the options objects.
\<close>

record 'd family_lib =
  fam_open :: "bool \<Rightarrow> nat \<Rightarrow> bytes \<Rightarrow> (bytes \<times> nat option) list \<Rightarrow> 'd \<Rightarrow>
     (cpp_exn + status \<times> nat list \<times> nat option) \<times> 'd"
  fam_info_log :: "nat \<Rightarrow> nat \<Rightarrow> 'd \<Rightarrow> cpp_exn + log_ptr"
  fam_default :: "nat \<Rightarrow> 'd \<Rightarrow> nat"
  fam_delete_db :: "nat \<Rightarrow> 'd \<Rightarrow> 'd"
  fam_create :: "nat \<Rightarrow> nat \<Rightarrow> bytes \<Rightarrow> 'd \<Rightarrow> (cpp_exn + status \<times> nat) \<times> 'd"
  fam_drop :: "nat \<Rightarrow> nat \<Rightarrow> 'd \<Rightarrow> (cpp_exn + status) \<times> 'd"
  fam_cf :: cf_lib
  kDefaultColumnFamilyName :: bytes
  is_cf_options :: "nat \<Rightarrow> bool"
  has_hook :: "nat \<Rightarrow> hook \<Rightarrow> bool"

definition set_in_use :: "nat \<Rightarrow> bool \<Rightarrow> 'd world \<Rightarrow> 'd world" where
  "set_in_use o' b W = W\<lparr>in_use := (in_use W)(o' := b)\<rparr>"

definition set_db :: "nat \<Rightarrow> db_object \<Rightarrow> 'd world \<Rightarrow> 'd world" where
  "set_db self D W = W\<lparr>dbs := (dbs W)(self \<mapsto> D)\<rparr>"

definition plain_exception :: "string \<Rightarrow> pyexn" where
  "plain_exception t = Exn PlainException (Text t)"

subsection \<open>Opening\<close>

text \<open>The checks of one family: its name, the class of its options object, and that the object is not used yet.\<close>

definition family_name :: "pyobj \<Rightarrow> pyexn + bytes" where
  "family_name fam_name =
     (case fam_name of
        PBytes name \<Rightarrow> Inr name
      | _ \<Rightarrow> Inl (Exn TypeError (Fmt ''column family name %r is not of type <class 'bytes'>!'' [fam_name])))"

definition family_options :: "'d family_lib \<Rightarrow> pyobj \<Rightarrow> pyexn + nat" where
  "family_options L cf_opts =
     (case (case cf_opts of PObj i \<Rightarrow> if is_cf_options L i then Some i else None | _ \<Rightarrow> None) of
        Some i \<Rightarrow> Inr i
      | None \<Rightarrow> Inl (Exn TypeError
          (Fmt ''column family options %r is not of type <class 'rocksdb._rocksdb.ColumnFamilyOptions'>!''
            [cf_opts])))"

definition claim_options :: "pyobj \<Rightarrow> nat \<Rightarrow> 'd world \<Rightarrow> (pyexn + unit) \<times> 'd world" where
  "claim_options fam_name i W =
     (if in_use W i
      then (Inl (Exn PlainException
             (Fmt ''ColumnFamilyOptions object for %s is already used by another Column Family'' [fam_name])), W)
      else (Inr (), set_in_use i True W))"

declare family_name_def [simp] family_options_def [simp] claim_options_def [simp]

text \<open>
  The loop over \<open>column_families.items()\<close>. Each family's options object is marked as used as soon as
  it passes its checks; an exception later in the loop leaves the marks.
\<close>

fun collect_families ::
    "'d family_lib \<Rightarrow> (pyobj \<times> pyobj) list \<Rightarrow> 'd world \<Rightarrow> (pyexn + (bytes \<times> nat) list) \<times> 'd world" where
  "collect_families L [] W = (Inr [], W)"
| "collect_families L ((fam_name, cf_opts) # kvs) W =
     (case family_name fam_name of
        Inl e \<Rightarrow> (Inl e, W)
      | Inr name \<Rightarrow>
          (case family_options L cf_opts of
             Inl e \<Rightarrow> (Inl e, W)
           | Inr i \<Rightarrow>
               (case claim_options fam_name i W of
                  (Inl e, W') \<Rightarrow> (Inl e, W')
                | (Inr _, W') \<Rightarrow>
                    (case collect_families L kvs W' of
                       (Inl e, W'') \<Rightarrow> (Inl e, W'')
                     | (Inr ds, W'') \<Rightarrow> (Inr ((name, i) # ds), W'')))))"

text \<open>\<open>for handle in column_family_handles: self.cf_handles.append(from_handle_ptr(handle))\<close>\<close>

fun adopt_handles :: "nat list \<Rightarrow> cf_store \<Rightarrow> nat list \<times> cf_store" where
  "adopt_handles [] S = ([], S)"
| "adopt_handles (h # hs) S =
     (case from_handle_ptr h S of
        (r, S') \<Rightarrow> (case adopt_handles hs S' of (rs, S'') \<Rightarrow> (r # rs, S'')))"

text \<open>\<open>set_info_log\<close> on the Python objects an options object refers to.\<close>

definition inject_log :: "'d family_lib \<Rightarrow> nat \<Rightarrow> log_ptr \<Rightarrow> 'd world \<Rightarrow> 'd world" where
  "inject_log L o' log W =
     W\<lparr>info_logs := (\<lambda>(p, k). if p = o' \<and> has_hook L p k then log else info_logs W (p, k))\<rparr>"

fun inject_families ::
    "'d family_lib \<Rightarrow> nat \<Rightarrow> (nat \<times> nat option) list \<Rightarrow> 'd world \<Rightarrow> (pyexn + unit) \<times> 'd world" where
  "inject_families L db [] W = (Inr (), W)"
| "inject_families L db ((h, None) # hs) W = inject_families L db hs W"
| "inject_families L db ((h, Some o') # hs) W =
     (case catch_cpp (fam_info_log L db h (rocks W)) of
        Inl e \<Rightarrow> (Inl e, W)
      | Inr log \<Rightarrow> inject_families L db hs (inject_log L o' log W))"

definition empty_db :: db_object where
  "empty_db = \<lparr>db_ptr = None, db_opts = None, cf_handles = [], cf_options = []\<rparr>"

text \<open>
  \<open>__dealloc__\<close>: with an open database, the handles go first, the families' options become free,
  the database is closed; the options of the database become free in any case.
\<close>

fun release_handles :: "nat list \<Rightarrow> cf_store \<Rightarrow> cf_store" where
  "release_handles [] S = S"
| "release_handles (r # rs) S = release_handles rs (dealloc_real r S)"

fun free_options :: "nat option list \<Rightarrow> 'd world \<Rightarrow> 'd world" where
  "free_options [] W = W"
| "free_options (None # os) W = free_options os W"
| "free_options (Some o' # os) W = free_options os (set_in_use o' False W)"

definition DB_dealloc :: "'d family_lib \<Rightarrow> nat \<Rightarrow> 'd world \<Rightarrow> 'd world" where
  "DB_dealloc L self W =
     (case dbs W self of
        None \<Rightarrow> W
      | Some D \<Rightarrow>
          let W1 = (case db_ptr D of
                None \<Rightarrow> W
              | Some db \<Rightarrow>
                  (let W' = free_options (cf_options D)
                         (W\<lparr>wstore := release_handles (cf_handles D) (wstore W)\<rparr>)
                   in W'\<lparr>rocks := fam_delete_db L db (rocks W')\<rparr>));
              W2 = (case db_opts D of None \<Rightarrow> W1 | Some o' \<Rightarrow> set_in_use o' False W1)
          in W2\<lparr>dbs := (dbs W2)(self := None)\<rparr>)"

text \<open>
  \<open>__cinit__\<close>. A status of OK with a null database pointer, on which the code would dereference
  the pointer, is an error here.
\<close>

definition wants_default :: "'d family_lib \<Rightarrow> (pyobj \<times> pyobj) list option \<Rightarrow> bool" where
  "wants_default L column_families =
     (case column_families of
        None \<Rightarrow> True
      | Some kvs \<Rightarrow> kvs = [] \<or> PBytes (kDefaultColumnFamilyName L) \<notin> fst ` set kvs)"

definition default_family :: "'d family_lib \<Rightarrow> (pyobj \<times> pyobj) list option \<Rightarrow> (bytes \<times> nat option) list" where
  "default_family L column_families =
     (if wants_default L column_families then [(kDefaultColumnFamilyName L, None)] else [])"

text \<open>Opening with the lock released, for reading only if \<open>read_only\<close> is true.\<close>

definition open_families ::
    "pyenv \<Rightarrow> 'd family_lib \<Rightarrow> pyobj \<Rightarrow> nat \<Rightarrow> bytes \<Rightarrow> (bytes \<times> nat option) list \<Rightarrow> 'd \<Rightarrow>
     (pyexn + status \<times> nat list \<times> nat option) \<times> 'd" where
  "open_families E L read_only opts db_path descs d =
     (case PyObject_IsTrue E read_only of
        Inl e \<Rightarrow> (Inl e, d)
      | Inr ro \<Rightarrow>
          (case fam_open L ro opts db_path descs d of
             (Inl x, d') \<Rightarrow> (Inl (CppExn2PyErr None x), d')
           | (Inr r, d') \<Rightarrow> (Inr r, d')))"

text \<open>\<open>self.opts = opts\<close>, \<open>self.opts.in_use = True\<close>\<close>

definition keep_options :: "nat \<Rightarrow> nat \<Rightarrow> db_object \<Rightarrow> 'd world \<Rightarrow> 'd world" where
  "keep_options self opts D W = set_in_use opts True (set_db self (D\<lparr>db_opts := Some opts\<rparr>) W)"

declare default_family_def [simp] open_families_def [simp] keep_options_def [simp]

definition finish_open ::
    "'d family_lib \<Rightarrow> nat \<Rightarrow> nat \<Rightarrow> nat list \<Rightarrow> nat option list \<Rightarrow> nat \<Rightarrow> 'd world \<Rightarrow>
     (pyexn + unit) \<times> 'd world" where
  "finish_open L self opts hs cfos db W =
     (case adopt_handles hs (wstore W) of
        (rs, S) \<Rightarrow>
          let D = \<lparr>db_ptr = Some db, db_opts = None, cf_handles = rs, cf_options = cfos\<rparr>;
              W1 = set_db self D (W\<lparr>wstore := S\<rparr>)
          in (case catch_cpp (fam_info_log L db (fam_default L db (rocks W1)) (rocks W1)) of
                Inl e \<Rightarrow> (Inl e, W1)
              | Inr log \<Rightarrow>
                  (case inject_families L db (zip hs cfos) (inject_log L opts log W1) of
                     (Inl e, W2) \<Rightarrow> (Inl e, W2)
                   | (Inr _, W2) \<Rightarrow> (Inr (), keep_options self opts D W2))))"

definition DB_cinit ::
    "pyenv \<Rightarrow> 'd family_lib \<Rightarrow> nat \<Rightarrow> pyobj \<Rightarrow> nat \<Rightarrow> (pyobj \<times> pyobj) list option \<Rightarrow> pyobj \<Rightarrow> 'd world \<Rightarrow>
     (pyexn + unit) \<times> 'd world" where
  "DB_cinit E L self db_name opts column_families read_only W =
     (if in_use W opts then (Inl (plain_exception ''Options object is already used by another DB''), W)
      else
        case path_to_string E db_name of
          Inl e \<Rightarrow> (Inl e, W)
        | Inr db_path \<Rightarrow>
            (case collect_families L (case column_families of None \<Rightarrow> [] | Some kvs \<Rightarrow> kvs) W of
               (Inl e, W1) \<Rightarrow> (Inl e, W1)
             | (Inr ds, W1) \<Rightarrow>
                 let descs = default_family L column_families @ map (\<lambda>(n, i). (n, Some i)) ds;
                     cfos = map snd descs
                 in (case open_families E L read_only opts db_path descs (rocks W1) of
                       (Inl e, d) \<Rightarrow> (Inl e, W1\<lparr>rocks := d\<rparr>)
                     | (Inr (st, hs, p), d) \<Rightarrow>
                         (let W2 = set_db self (empty_db\<lparr>db_ptr := p, cf_options := cfos\<rparr>) (W1\<lparr>rocks := d\<rparr>)
                          in case check_status st of
                               Inl e \<Rightarrow> (Inl e, W2)
                             | Inr _ \<Rightarrow>
                                 (case p of
                                    None \<Rightarrow> (Inl (plain_exception ''null database''), W2)
                                  | Some db \<Rightarrow> finish_open L self opts hs cfos db W2)))))"

text \<open>
  Creating the object: when \<open>__cinit__\<close> fails, the object under construction is destroyed, which
  runs \<open>__dealloc__\<close>.
\<close>

definition DB_new ::
    "pyenv \<Rightarrow> 'd family_lib \<Rightarrow> nat \<Rightarrow> pyobj \<Rightarrow> nat \<Rightarrow> (pyobj \<times> pyobj) list option \<Rightarrow> pyobj \<Rightarrow> 'd world \<Rightarrow>
     (pyexn + unit) \<times> 'd world" where
  "DB_new E L self db_name opts column_families read_only W =
     (case DB_cinit E L self db_name opts column_families read_only (set_db self empty_db W) of
        (Inl e, W') \<Rightarrow> (Inl e, DB_dealloc L self W')
      | (Inr _, W') \<Rightarrow> (Inr (), W'))"

subsection \<open>Column families\<close>

text \<open>Running over \<open>self.cf_handles\<close>, comparing names.\<close>

definition find_family :: "'d family_lib \<Rightarrow> cf_store \<Rightarrow> nat list \<Rightarrow> pyobj \<Rightarrow> nat option" where
  "find_family L S rs name =
     find (\<lambda>r. case reals S r of
        Some h \<Rightarrow> real_name (fam_cf L) h = name | None \<Rightarrow> False) rs"

text \<open>\<open>__Pyx_ArgTypeTest\<close> of a parameter declared \<open>bytes\<close>: \<open>None\<close> passes.\<close>

definition bytes_or_None :: "pyobj \<Rightarrow> pyexn + unit" where
  "bytes_or_None x = (case x of PBytes _ \<Rightarrow> Inr () | PNone \<Rightarrow> Inr ()
     | _ \<Rightarrow> Inl (Exn TypeError (Fmt ''Argument has incorrect type'' [x])))"

definition DB_get_column_family ::
    "pyenv \<Rightarrow> 'd family_lib \<Rightarrow> nat \<Rightarrow> pyobj \<Rightarrow> 'd world \<Rightarrow> (pyexn + pyobj) \<times> 'd world" where
  "DB_get_column_family E L self name W =
     (case dbs W self of
        None \<Rightarrow> (Inl attribute_error, W)
      | Some D \<Rightarrow>
          case bytes_or_None name of
            Inl e \<Rightarrow> (Inl e, W)
          | Inr _ \<Rightarrow>
          (case find_family L (wstore W) (cf_handles D) name of
             None \<Rightarrow> (Inr PNone, W)
           | Some r \<Rightarrow>
               (case weakref_get E (fam_cf L) r (wstore W) of
                  Inl e \<Rightarrow> (Inl e, W)
                | Inr (i, S) \<Rightarrow> (Inr (PCF i), W\<lparr>wstore := S\<rparr>))))"

definition DB_create_column_family ::
    "pyenv \<Rightarrow> 'd family_lib \<Rightarrow> nat \<Rightarrow> pyobj \<Rightarrow> nat \<Rightarrow> 'd world \<Rightarrow> (pyexn + pyobj) \<times> 'd world" where
  "DB_create_column_family E L self name copts W =
     (case dbs W self of
        None \<Rightarrow> (Inl attribute_error, W)
      | Some D \<Rightarrow>
          (case bind_res (bytes_or_None name) (\<lambda>_. convert_string_from_py name) of
             Inl e \<Rightarrow> (Inl e, W)
           | Inr c_name \<Rightarrow>
               if find_family L (wstore W) (cf_handles D) name \<noteq> None
               then (Inl (Exn ValueError (Fmt ''%s is already an existing column family'' [name])), W)
               else if in_use W copts
               then (Inl (plain_exception ''ColumnFamilyOptions are in_use by another column family''), W)
               else
                 let W1 = set_in_use copts True W
                 in case db_ptr D of
                      None \<Rightarrow> (Inl (plain_exception ''null database''), W1)
                    | Some db \<Rightarrow>
                        (case fam_create L db copts c_name (rocks W1) of
                           (Inl x, d) \<Rightarrow> (Inl (CppExn2PyErr None x), W1\<lparr>rocks := d\<rparr>)
                         | (Inr (st, h), d) \<Rightarrow>
                             (let W2 = W1\<lparr>rocks := d\<rparr>
                              in case check_status st of
                                   Inl e \<Rightarrow> (Inl e, W2)
                                 | Inr _ \<Rightarrow>
                                     (case from_handle_ptr h (wstore W2) of
                                        (r, S) \<Rightarrow>
                                          let W3 = set_db self (D\<lparr>cf_handles := cf_handles D @ [r],
                                                     cf_options := cf_options D @ [Some copts]\<rparr>)
                                                     (W2\<lparr>wstore := S\<rparr>)
                                          in (case weakref_get E (fam_cf L) r (wstore W3) of
                                                Inl e \<Rightarrow> (Inl e, W3)
                                              | Inr (i, S') \<Rightarrow> (Inr (PCF i), W3\<lparr>wstore := S'\<rparr>)))))))"

text \<open>\<open>self.cf_handles.index(py_handle)\<close>\<close>

fun list_index :: "nat list \<Rightarrow> nat \<Rightarrow> nat option" where
  "list_index [] x = None"
| "list_index (y # ys) x = (if x = y then Some 0 else map_option Suc (list_index ys x))"

definition remove_at :: "nat \<Rightarrow> 'a list \<Rightarrow> 'a list" where
  "remove_at i xs = take i xs @ drop (Suc i) xs"

definition DB_drop_column_family ::
    "'d family_lib \<Rightarrow> nat \<Rightarrow> nat \<Rightarrow> 'd world \<Rightarrow> (pyexn + pyobj) \<times> 'd world" where
  "DB_drop_column_family L self i W =
     (case (dbs W self, cfs (wstore W) i) of
        (Some D, Some c) \<Rightarrow>
          (case get_handle (wstore W) i of
             Inl e \<Rightarrow> (Inl e, W)
           | Inr h \<Rightarrow>
               (case db_ptr D of
                  None \<Rightarrow> (Inl (plain_exception ''null database''), W)
                | Some db \<Rightarrow>
                    (case fam_drop L db h (rocks W) of
                       (Inl x, d) \<Rightarrow> (Inl (CppExn2PyErr None x), W\<lparr>rocks := d\<rparr>)
                     | (Inr st, d) \<Rightarrow>
                         (let W1 = W\<lparr>rocks := d\<rparr>; py_handle = wr_target (cf_ref c)
                          in case check_status st of
                               Inl e \<Rightarrow> (Inl e, W1)
                             | Inr _ \<Rightarrow>
                                 (case list_index (cf_handles D) py_handle of
                                    None \<Rightarrow> (Inl (Exn ValueError (Text ''value is not in list'')), W1)
                                  | Some idx \<Rightarrow>
                                      if idx < length (cf_options D)
                                      then
                                        let copts = cf_options D ! idx;
                                            W2 = set_db self (D\<lparr>cf_options := remove_at idx (cf_options D),
                                                   cf_handles := remove_at idx (cf_handles D)\<rparr>) W1;
                                            W3 = W2\<lparr>wstore := dealloc_real py_handle (wstore W2)\<rparr>
                                        in (Inr PNone, case copts of None \<Rightarrow> W3 | Some o' \<Rightarrow> set_in_use o' False W3)
                                      else (Inl (Exn IndexError (Text ''pop index out of range'')), W1))))))
      | _ \<Rightarrow> (Inl attribute_error, W))"

text \<open>The property \<open>column_families\<close>.\<close>

fun weakrefs :: "pyenv \<Rightarrow> cf_lib \<Rightarrow> nat list \<Rightarrow> cf_store \<Rightarrow> (pyexn + pyobj list) \<times> cf_store" where
  "weakrefs E L [] S = (Inr [], S)"
| "weakrefs E L (r # rs) S =
     (case weakref_get E L r S of
        Inl e \<Rightarrow> (Inl e, S)
      | Inr (i, S') \<Rightarrow>
          (case weakrefs E L rs S' of
             (Inl e, S'') \<Rightarrow> (Inl e, S'')
           | (Inr xs, S'') \<Rightarrow> (Inr (PCF i # xs), S'')))"

definition DB_column_families ::
    "pyenv \<Rightarrow> 'd family_lib \<Rightarrow> nat \<Rightarrow> 'd world \<Rightarrow> (pyexn + pyobj) \<times> 'd world" where
  "DB_column_families E L self W =
     (case dbs W self of
        None \<Rightarrow> (Inl attribute_error, W)
      | Some D \<Rightarrow>
          (case weakrefs E (fam_cf L) (cf_handles D) (wstore W) of
             (r, S) \<Rightarrow> (map_sum id PList r, W\<lparr>wstore := S\<rparr>)))"

subsection \<open>What each helper changes\<close>

lemma world_updates [simp]:
  "wstore (set_in_use o' b W) = wstore W" "dbs (set_in_use o' b W) = dbs W"
  "rocks (set_in_use o' b W) = rocks W" "in_use (set_in_use o' b W) = (in_use W)(o' := b)"
  "wstore (set_db self D W) = wstore W" "dbs (set_db self D W) = (dbs W)(self \<mapsto> D)"
  "rocks (set_db self D W) = rocks W" "in_use (set_db self D W) = in_use W"
  "wstore (inject_log L o' lg W) = wstore W" "dbs (inject_log L o' lg W) = dbs W"
  "rocks (inject_log L o' lg W) = rocks W" "in_use (inject_log L o' lg W) = in_use W"
  by (simp_all add: set_in_use_def set_db_def inject_log_def)

lemma collect_families_frame:
  assumes "collect_families L kvs W = (res, W')"
  shows "wstore W' = wstore W \<and> dbs W' = dbs W \<and> rocks W' = rocks W \<and>
    (\<forall>p. in_use W p \<longrightarrow> in_use W' p)"
  using assms
proof (induction kvs arbitrary: W res W')
  case Nil
  then show ?case by simp
next
  case (Cons kv kvs)
  obtain n c where kv: "kv = (n, c)" by (cases kv)
  show ?case
  proof (cases "\<exists>name i. n = PBytes name \<and> c = PObj i \<and> is_cf_options L i \<and> \<not> in_use W i")
    case True
    then obtain name i where d: "n = PBytes name" "c = PObj i" "is_cf_options L i" "\<not> in_use W i" by blast
    obtain res1 W1 where c: "collect_families L kvs (set_in_use i True W) = (res1, W1)" by fastforce
    have "W' = W1" using Cons.prems d kv c by (auto split: sum.splits)
    then show ?thesis using Cons.IH [OF c] by auto
  next
    case False
    then have "W' = W"
      using Cons.prems kv by (auto split: pyobj.splits if_splits option.splits)
    then show ?thesis by simp
  qed
qed

lemma collect_families_ok:
  assumes "collect_families L kvs W = (Inr ds, W')"
  shows "distinct (map snd ds) \<and> (\<forall>i\<in>set (map snd ds). \<not> in_use W i \<and> PObj i \<in> snd ` set kvs) \<and>
    (\<forall>p. in_use W' p \<longleftrightarrow> in_use W p \<or> p \<in> set (map snd ds)) \<and>
    map (\<lambda>p. PBytes (fst p)) ds = map fst kvs"
  using assms
proof (induction kvs arbitrary: W ds W')
  case Nil
  then show ?case by simp
next
  case (Cons kv kvs)
  obtain n c where kv: "kv = (n, c)" by (cases kv)
  from Cons.prems kv obtain name i ds' where d: "n = PBytes name" "c = PObj i" "\<not> in_use W i"
    "collect_families L kvs (set_in_use i True W) = (Inr ds', W')" "ds = (name, i) # ds'"
    by (auto split: pyobj.splits if_splits sum.splits prod.splits option.splits)
  have I: "distinct (map snd ds')" "map (\<lambda>p. PBytes (fst p)) ds' = map fst kvs"
    "\<And>j. j \<in> set (map snd ds') \<Longrightarrow> j \<noteq> i \<and> \<not> in_use W j \<and> PObj j \<in> snd ` set kvs"
    "\<And>p. in_use W' p \<longleftrightarrow> p = i \<or> in_use W p \<or> p \<in> set (map snd ds')"
    using Cons.IH [OF d(4)] by (auto split: if_splits)
  have "distinct (map snd ds)" using I(1) I(3) [of i] d(5) by auto
  moreover have "\<forall>j\<in>set (map snd ds). \<not> in_use W j \<and> PObj j \<in> snd ` set (kv # kvs)"
    using I(3) d kv by auto
  moreover have "\<forall>p. in_use W' p \<longleftrightarrow> in_use W p \<or> p \<in> set (map snd ds)"
    using I(4) d(5) by auto
  ultimately show ?case using I(2) d kv by simp
qed

lemma adopt_handles_effect:
  assumes "adopt_handles hs S = (rs, S')"
  shows "rs = [fresh S..<fresh S + length hs] \<and> fresh S' = fresh S + length hs \<and>
    cfs S' = cfs S \<and> deleted S' = deleted S \<and>
    (\<forall>r. reals S' r = (if fresh S \<le> r \<and> r < fresh S + length hs
       then Some \<lparr>handle = hs ! (r - fresh S), weak_handle = None\<rparr> else reals S r))"
  using assms
proof (induction hs arbitrary: S rs S')
  case Nil
  then show ?case by auto
next
  case (Cons h hs)
  obtain rs' where r: "adopt_handles hs (snd (from_handle_ptr h S)) = (rs', S')" "rs = fresh S # rs'"
    using Cons.prems by (auto simp: from_handle_ptr_def split: prod.splits)
  note C = Cons.IH [OF r(1)]
  have "rs = [fresh S..<fresh S + length (h # hs)]"
    using C r(2) by (simp add: from_handle_ptr_def upt_conv_Cons del: upt_Suc)
  moreover have "reals S' r = (if fresh S \<le> r \<and> r < fresh S + length (h # hs)
       then Some \<lparr>handle = (h # hs) ! (r - fresh S), weak_handle = None\<rparr> else reals S r)" for r
  proof (cases "r = fresh S")
    case True
    then show ?thesis using C by (simp add: from_handle_ptr_def)
  next
    case False
    then show ?thesis
      using C by (auto simp: from_handle_ptr_def nth_Cons' Suc_diff_le)
  qed
  ultimately show ?case using C by (simp add: from_handle_ptr_def)
qed

lemma release_handles_effect:
  "reals (release_handles rs S) = (\<lambda>r. if r \<in> set rs then None else reals S r) \<and>
   cfs (release_handles rs S) = cfs S \<and> fresh (release_handles rs S) = fresh S \<and>
   set (deleted (release_handles rs S)) \<subseteq>
     set (deleted S) \<union> {handle h | r h. r \<in> set rs \<and> reals S r = Some h}"
proof (induction rs arbitrary: S)
  case Nil
  then show ?case by simp
next
  case (Cons r rs)
  have E: "reals (dealloc_real r S) = (reals S)(r := None)" "cfs (dealloc_real r S) = cfs S"
    "fresh (dealloc_real r S) = fresh S"
    "set (deleted (dealloc_real r S)) \<subseteq> set (deleted S) \<union> {handle h | h. reals S r = Some h}"
    by (auto simp: dealloc_real_def split: option.splits)
  note I = Cons.IH [of "dealloc_real r S"]
  have "set (deleted (release_handles rs (dealloc_real r S))) \<subseteq>
      set (deleted S) \<union> {handle h | q h. q \<in> set (r # rs) \<and> reals S q = Some h}"
  proof
    fix p assume "p \<in> set (deleted (release_handles rs (dealloc_real r S)))"
    then consider "p \<in> set (deleted (dealloc_real r S))"
      | q h where "q \<in> set rs" "reals (dealloc_real r S) q = Some h" "p = handle h"
      using I by blast
    then show "p \<in> set (deleted S) \<union> {handle h | q h. q \<in> set (r # rs) \<and> reals S q = Some h}"
    proof cases
      case 1
      then show ?thesis using E(4) by auto
    next
      case (2 q h)
      then have "reals S q = Some h" using E(1) by (simp split: if_splits)
      then show ?thesis using 2 by auto
    qed
  qed
  moreover have "reals (release_handles rs (dealloc_real r S)) = (\<lambda>q. if q \<in> set (r # rs) then None else reals S q)"
    using I E(1) by auto
  ultimately show ?case using I E(2,3) by simp
qed

lemma free_options_effect [simp]:
  "wstore (free_options os W) = wstore W" "dbs (free_options os W) = dbs W"
  "rocks (free_options os W) = rocks W"
  "in_use (free_options os W) p \<longleftrightarrow> in_use W p \<and> Some p \<notin> set os"
  by (induction os W rule: free_options.induct) auto

lemma inject_families_frame:
  assumes "inject_families L db hs W = (res, W')"
  shows "wstore W' = wstore W \<and> dbs W' = dbs W \<and> rocks W' = rocks W \<and> in_use W' = in_use W"
  using assms
proof (induction L db hs W rule: inject_families.induct)
  case (1 L db W)
  then show ?case by simp
next
  case (2 L db h hs W)
  then show ?case by simp
next
  case (3 L db h p hs W)
  show ?case
  proof (cases "catch_cpp (fam_info_log L db h (rocks W))")
    case (Inl e)
    then show ?thesis using "3.prems" by simp
  next
    case (Inr lg)
    then have "inject_families L db hs (inject_log L p lg W) = (res, W')" using "3.prems" by simp
    then show ?thesis using "3.IH" [OF Inr] by simp
  qed
qed

lemma weakref_get_store:
  assumes "weakref_get E L r S = Inr (i, S')"
  shows "(reals S' q = None \<longleftrightarrow> reals S q = None) \<and> deleted S' = deleted S \<and>
    (\<forall>h. reals S' q = Some h \<longrightarrow> (\<exists>g. reals S q = Some g \<and> handle g = handle h))"
  using assms by (rule weakref_get_cases) auto

end
