(* ===== verification/FamilyInvariant.thy ===== *)
theory FamilyInvariant
  imports Families "HOL-Library.Multiset"
begin

section \<open>The ownership invariant\<close>

text \<open>
  What RocksDB promises about handles, the invariant of the objects that own them (options, handles,
  databases), and that opening, closing, creating, dropping and looking up keep it.
\<close>

subsection \<open>The contract of RocksDB and the invariant\<close>

text \<open>
  \<open>issued d\<close> are the C++ handles RocksDB has given out up to the state \<open>d\<close>. It gives out one new
  handle per descriptor when a database opens, one when a family is created, and never one again.
\<close>

definition fam_contract :: "'d family_lib \<Rightarrow> ('d \<Rightarrow> nat set) \<Rightarrow> bool" where
  "fam_contract L issued \<longleftrightarrow>
     (\<forall>ro o' p ds d r d'. fam_open L ro o' p ds d = (r, d') \<longrightarrow> issued d \<subseteq> issued d' \<and>
        (\<forall>st hs q. r = Inr (st, hs, q) \<longrightarrow> st_ok st \<longrightarrow>
           length hs = length ds \<and> distinct hs \<and> set hs \<inter> issued d = {} \<and>
           set hs \<subseteq> issued d' \<and> q \<noteq> None)) \<and>
     (\<forall>db o' n d r d'. fam_create L db o' n d = (r, d') \<longrightarrow> issued d \<subseteq> issued d' \<and>
        (\<forall>st h. r = Inr (st, h) \<longrightarrow> st_ok st \<longrightarrow> h \<notin> issued d \<and> h \<in> issued d')) \<and>
     (\<forall>db h d. issued d \<subseteq> issued (snd (fam_drop L db h d))) \<and>
     (\<forall>db d. issued d \<subseteq> issued (fam_delete_db L db d))"

lemma fam_contractD:
  assumes "fam_contract L issued"
  shows "fam_open L ro o' p ds d = (r, d') \<Longrightarrow> issued d \<subseteq> issued d'"
    and "fam_open L ro o' p ds d = (Inr (st, hs, q), d') \<Longrightarrow> st_ok st \<Longrightarrow>
      length hs = length ds \<and> distinct hs \<and> set hs \<inter> issued d = {} \<and> set hs \<subseteq> issued d' \<and> q \<noteq> None"
    and "fam_create L db o' n d = (x, d') \<Longrightarrow> issued d \<subseteq> issued d'"
    and "fam_create L db o' n d = (Inr (st, h), d') \<Longrightarrow> st_ok st \<Longrightarrow> h \<notin> issued d \<and> h \<in> issued d'"
    and "fam_drop L db h d = (y, d') \<Longrightarrow> issued d \<subseteq> issued d'"
    and "issued d \<subseteq> issued (fam_delete_db L db d)"
  using assms unfolding fam_contract_def
  by (metis (no_types, lifting), metis (no_types, lifting), metis (no_types, lifting), metis (no_types, lifting), metis snd_conv, blast)

text \<open>The options objects a database holds on to.\<close>

definition uses :: "db_object \<Rightarrow> nat list" where
  "uses D = (case db_opts D of None \<Rightarrow> [] | Some o' \<Rightarrow> [o']) @ map the (filter (\<lambda>x. x \<noteq> None) (cf_options D))"

definition store_inv :: "pyenv \<Rightarrow> 'd family_lib \<Rightarrow> ('d \<Rightarrow> nat set) \<Rightarrow> cf_store \<Rightarrow> 'd \<Rightarrow> bool" where
  "store_inv E L issued S d \<longleftrightarrow>
     cf_reachable E (fam_cf L) S \<and> set (deleted S) \<subseteq> issued d \<and>
     (\<forall>r h. reals S r = Some h \<longrightarrow> handle h \<in> issued d)"

text \<open>
  One open database: aligned lists, live handles, options that are marked as used. What is said of
  options holds as long as \<open>sh\<close> is false: no database was opened with its own options object given
  again as the options of one of its families.
\<close>

definition db_ok :: "bool \<Rightarrow> 'd world \<Rightarrow> db_object \<Rightarrow> bool" where
  "db_ok sh W D \<longleftrightarrow>
     db_ptr D \<noteq> None \<and> db_opts D \<noteq> None \<and> length (cf_handles D) = length (cf_options D) \<and>
     distinct (cf_handles D) \<and> (\<forall>r\<in>set (cf_handles D). reals (wstore W) r \<noteq> None) \<and>
     (\<not> sh \<longrightarrow> distinct (uses D) \<and> (\<forall>p\<in>set (uses D). in_use W p))"

definition apart :: "bool \<Rightarrow> db_object \<Rightarrow> db_object \<Rightarrow> bool" where
  "apart sh D D' \<longleftrightarrow> set (cf_handles D) \<inter> set (cf_handles D') = {} \<and>
     (\<not> sh \<longrightarrow> set (uses D) \<inter> set (uses D') = {})"

definition world_inv :: "pyenv \<Rightarrow> 'd family_lib \<Rightarrow> ('d \<Rightarrow> nat set) \<Rightarrow> bool \<Rightarrow> 'd world \<Rightarrow> bool" where
  "world_inv E L issued sh W \<longleftrightarrow>
     store_inv E L issued (wstore W) (rocks W) \<and>
     (\<forall>s D. dbs W s = Some D \<longrightarrow> db_ok sh W D) \<and>
     (\<forall>s s' D D'. dbs W s = Some D \<longrightarrow> dbs W s' = Some D' \<longrightarrow> s \<noteq> s' \<longrightarrow> apart sh D D')"

lemma apart_sym: "apart sh D D' \<Longrightarrow> apart sh D' D"
  by (auto simp: apart_def)

lemma world_inv_shared: "world_inv E L issued sh W \<Longrightarrow> world_inv E L issued (sh \<or> b) W"
  by (auto simp: world_inv_def db_ok_def apart_def)

lemma world_invD:
  assumes "world_inv E L issued sh W"
  shows "store_inv E L issued (wstore W) (rocks W)"
    and "dbs W s = Some D \<Longrightarrow> db_ok sh W D"
    and "dbs W s = Some D \<Longrightarrow> dbs W s' = Some D' \<Longrightarrow> s \<noteq> s' \<Longrightarrow> apart sh D D'"
  using assms unfolding world_inv_def by blast+

lemma db_okI:
  assumes "db_ptr D \<noteq> None" "db_opts D \<noteq> None" "length (cf_handles D) = length (cf_options D)"
    "distinct (cf_handles D)" "\<And>r. r \<in> set (cf_handles D) \<Longrightarrow> reals (wstore W) r \<noteq> None"
    "\<not> sh \<Longrightarrow> distinct (uses D)" "\<And>p. \<not> sh \<Longrightarrow> p \<in> set (uses D) \<Longrightarrow> in_use W p"
  shows "db_ok sh W D"
  using assms unfolding db_ok_def by blast

lemma db_okD:
  assumes "db_ok sh W D"
  shows "db_ptr D \<noteq> None" "db_opts D \<noteq> None" "length (cf_handles D) = length (cf_options D)"
    "distinct (cf_handles D)" "r \<in> set (cf_handles D) \<Longrightarrow> reals (wstore W) r \<noteq> None"
    "\<not> sh \<Longrightarrow> distinct (uses D)" "\<not> sh \<Longrightarrow> p \<in> set (uses D) \<Longrightarrow> in_use W p"
  using assms unfolding db_ok_def by blast+

text \<open>
  How the invariant is kept: a step that changes one database object \<open>self\<close> (or removes it) keeps it
  when it takes nothing away from the others.
\<close>

lemma world_inv_frame:
  assumes "world_inv E L issued sh W" "store_inv E L issued (wstore W') (rocks W')"
    and "\<And>s. s \<noteq> self \<Longrightarrow> dbs W' s = dbs W s"
    and "\<And>D. dbs W' self = Some D \<Longrightarrow> db_ok sh W' D"
    and "\<And>s D D'. dbs W' self = Some D \<Longrightarrow> s \<noteq> self \<Longrightarrow> dbs W s = Some D' \<Longrightarrow> apart sh D D'"
    and "\<And>s D p. \<not> sh \<Longrightarrow> s \<noteq> self \<Longrightarrow> dbs W s = Some D \<Longrightarrow> p \<in> set (uses D) \<Longrightarrow> in_use W' p"
    and "\<And>s D r. s \<noteq> self \<Longrightarrow> dbs W s = Some D \<Longrightarrow> r \<in> set (cf_handles D) \<Longrightarrow>
      reals (wstore W') r \<noteq> None"
  shows "world_inv E L issued sh W'"
proof -
  note I = world_invD [OF assms(1)]
  have "db_ok sh W' D" if "dbs W' s = Some D" for s D
  proof (cases "s = self")
    case True
    then show ?thesis using assms(4) that by blast
  next
    case False
    then have d: "dbs W s = Some D" using that assms(3) by simp
    note O = db_okD [OF I(2) [OF d]]
    show ?thesis
      by (rule db_okI) (use O assms(6) [OF _ False d] assms(7) [OF False d] in blast)+
  qed
  moreover have "apart sh D D'" if "dbs W' s = Some D" "dbs W' s' = Some D'" "s \<noteq> s'" for s s' D D'
  proof -
    consider "s = self" | "s' = self" | "s \<noteq> self" "s' \<noteq> self" by blast
    then show ?thesis
    proof cases
      case 1
      then show ?thesis using that assms(3) [of s'] assms(5) [of D s' D'] by simp
    next
      case 2
      then show ?thesis using that assms(3) [of s] assms(5) [of D' s D] by (simp add: apart_sym)
    next
      case 3
      then show ?thesis using that assms(3) I(3) by simp
    qed
  qed
  ultimately show ?thesis using assms(2) unfolding world_inv_def by blast
qed

subsection \<open>The store under the operations\<close>

lemma store_invI:
  assumes "cf_reachable E (fam_cf L) S" "set (deleted S) \<subseteq> issued d"
    "\<And>r h. reals S r = Some h \<Longrightarrow> handle h \<in> issued d"
  shows "store_inv E L issued S d"
  using assms unfolding store_inv_def by blast

lemma store_invD:
  assumes "store_inv E L issued S d"
  shows "cf_reachable E (fam_cf L) S" "set (deleted S) \<subseteq> issued d"
    "reals S r = Some h \<Longrightarrow> handle h \<in> issued d"
  using assms unfolding store_inv_def by blast+

lemma store_inv_mono: "store_inv E L issued S d \<Longrightarrow> issued d \<subseteq> issued d' \<Longrightarrow> store_inv E L issued S d'"
  unfolding store_inv_def by blast

lemma store_inv_new:
  assumes "store_inv E L issued S d" "issued d \<subseteq> issued d'" "h \<notin> issued d" "h \<in> issued d'"
  shows "store_inv E L issued (snd (from_handle_ptr h S)) d'"
proof (rule store_invI)
  note I = store_invD [OF assms(1)]
  show "cf_reachable E (fam_cf L) (snd (from_handle_ptr h S))"
    by (rule cf_reachable.step [OF I(1)], rule cf_step.adopt) (use I(2,3) assms(3) in auto)
  show "set (deleted (snd (from_handle_ptr h S))) \<subseteq> issued d'"
    using I(2) assms(2) by (simp add: from_handle_ptr_def)
  show "handle g \<in> issued d'" if "reals (snd (from_handle_ptr h S)) r = Some g" for r g
    using that I(3) [of r g] assms(2,4) by (auto simp: from_handle_ptr_def split: if_splits)
qed

lemma store_inv_adopt:
  assumes "store_inv E L issued S d" "distinct hs" "set hs \<inter> (set (deleted S) \<union> {handle h | r h. reals S r = Some h}) = {}"
    "issued d \<subseteq> issued d'" "set hs \<subseteq> issued d'" "adopt_handles hs S = (rs, S')"
  shows "store_inv E L issued S' d'"
  using assms
proof (induction hs arbitrary: S d rs S')
  case Nil
  then show ?case by (auto intro: store_inv_mono)
next
  case (Cons h hs)
  let ?S = "snd (from_handle_ptr h S)"
  obtain rs' where r: "adopt_handles hs ?S = (rs', S')"
    using Cons.prems(6) by (auto simp: from_handle_ptr_def split: prod.splits)
  note I = store_invD [OF Cons.prems(1)]
  have "cf_reachable E (fam_cf L) ?S"
    by (rule cf_reachable.step [OF I(1)], rule cf_step.adopt) (use Cons.prems(3) in auto)
  then have "store_inv E L issued ?S d'"
    using I(2,3) Cons.prems(4,5) by (intro store_invI) (auto simp: from_handle_ptr_def split: if_splits)
  moreover have "p \<notin> set (deleted ?S) \<union> {handle h | r h. reals ?S r = Some h}" if "p \<in> set hs" for p
  proof -
    have "p \<notin> set (deleted S) \<union> {handle h | r h. reals S r = Some h}" "p \<noteq> h"
      using that Cons.prems(2,3) by (meson disjoint_iff list.set_intros(2), auto)
    then show ?thesis by (auto simp: from_handle_ptr_def split: if_splits)
  qed
  then have "set hs \<inter> (set (deleted ?S) \<union> {handle h | r h. reals ?S r = Some h}) = {}" by blast
  ultimately show ?case
    using Cons.IH [OF _ _ _ _ _ r] Cons.prems(2,5) by simp
qed

lemma store_inv_release: "store_inv E L issued S d \<Longrightarrow> store_inv E L issued (release_handles rs S) d"
proof (induction rs arbitrary: S)
  case Nil
  then show ?case by simp
next
  case (Cons r rs)
  note I = store_invD [OF Cons.prems]
  have "store_inv E L issued (dealloc_real r S) d"
    by (rule store_invI, rule cf_reachable.step [OF I(1)], rule cf_step.drop)
      (use I(2,3) in \<open>auto simp: dealloc_real_def split: option.splits if_splits\<close>)
  then show ?case using Cons.IH by simp
qed

lemma store_inv_dealloc: "store_inv E L issued S d \<Longrightarrow> store_inv E L issued (dealloc_real r S) d"
  using store_inv_release [of E L issued S d "[r]"] by simp

lemma store_inv_weakref:
  assumes "store_inv E L issued S d" "weakref_get E (fam_cf L) r S = Inr (i, S')"
  shows "store_inv E L issued S' d"
proof (rule store_invI)
  note I = store_invD [OF assms(1)]
  show "cf_reachable E (fam_cf L) S'"
    by (rule cf_reachable.step [OF I(1) cf_step.weak [OF assms(2)]])
  show "set (deleted S') \<subseteq> issued d" using weakref_get_store [OF assms(2)] I(2) by simp
  show "handle h \<in> issued d" if "reals S' q = Some h" for q h
    using weakref_get_store [OF assms(2), of q] that I(3) by fastforce
qed

lemma store_fresh:
  assumes "store_inv E L issued S d" "reals S r \<noteq> None"
  shows "r < fresh S"
  using weak_invD(1) [OF reachable_weak [OF store_invD(1) [OF assms(1)]]] assms(2) by blast

subsection \<open>Opening and closing keep the invariant\<close>

lemma DB_dealloc_effect:
  assumes "dbs W self = Some D"
  shows "dbs (DB_dealloc L self W) = (dbs W)(self := None)"
    and "wstore (DB_dealloc L self W) =
      (if db_ptr D = None then wstore W else release_handles (cf_handles D) (wstore W))"
    and "in_use (DB_dealloc L self W) p \<longleftrightarrow>
      in_use W p \<and> \<not> (db_ptr D \<noteq> None \<and> Some p \<in> set (cf_options D)) \<and> db_opts D \<noteq> Some p"
    and "rocks (DB_dealloc L self W) =
      (case db_ptr D of None \<Rightarrow> rocks W | Some db \<Rightarrow> fam_delete_db L db (rocks W))"
  using assms by (auto simp: DB_dealloc_def Let_def split: option.splits)

lemma finish_open_cases:
  assumes "finish_open L self opts hs cfos db W = (res, W')"
  obtains rs S D where "adopt_handles hs (wstore W) = (rs, S)" "wstore W' = S"
    "dbs W' = (dbs W)(self \<mapsto> D)" "rocks W' = rocks W" "db_ptr D = Some db" "cf_handles D = rs"
    "cf_options D = cfos"
    "(\<exists>e. res = Inl e) \<and> db_opts D = None \<and> in_use W' = in_use W \<or>
     res = Inr () \<and> db_opts D = Some opts \<and> in_use W' = (in_use W)(opts := True)"
proof -
  obtain rs S where a: "adopt_handles hs (wstore W) = (rs, S)" by fastforce
  define D1 where "D1 = \<lparr>db_ptr = Some db, db_opts = None, cf_handles = rs, cf_options = cfos\<rparr>"
  define W1 where "W1 = set_db self D1 (W\<lparr>wstore := S\<rparr>)"
  have run: "(case catch_cpp (fam_info_log L db (fam_default L db (rocks W1)) (rocks W1)) of
        Inl e \<Rightarrow> (Inl e, W1)
      | Inr log \<Rightarrow>
          (case inject_families L db (zip hs cfos) (inject_log L opts log W1) of
             (Inl e, W2) \<Rightarrow> (Inl e, W2)
           | (Inr _, W2) \<Rightarrow>
               (Inr (), set_in_use opts True (set_db self
                  \<lparr>db_ptr = Some db, db_opts = Some opts, cf_handles = rs, cf_options = cfos\<rparr> W2))))
      = (res, W')"
    using assms by (simp only: finish_open_def a prod.case Let_def D1_def W1_def keep_options_def
      db_object.update_convs)
  have W1: "wstore W1 = S" "dbs W1 = (dbs W)(self \<mapsto> D1)" "rocks W1 = rocks W" "in_use W1 = in_use W"
    by (simp_all add: W1_def)
  show ?thesis
  proof (cases "catch_cpp (fam_info_log L db (fam_default L db (rocks W1)) (rocks W1))")
    case (Inl e)
    then have "res = Inl e" "W' = W1"
      using run by (simp_all only: Inl sum.case prod.inject)
    then show ?thesis using that [of rs S D1] a W1 by (simp add: D1_def)
  next
    case log: (Inr log)
    obtain r2 W2 where i: "inject_families L db (zip hs cfos) (inject_log L opts log W1) = (r2, W2)" by fastforce
    have W2: "wstore W2 = S" "dbs W2 = (dbs W)(self \<mapsto> D1)" "rocks W2 = rocks W" "in_use W2 = in_use W"
      using inject_families_frame [OF i] W1 by simp_all
    show ?thesis
    proof (cases r2)
      case (Inl e)
      then have "res = Inl e" "W' = W2"
        using run by (simp_all only: log i Inl sum.case prod.case prod.inject)
      then show ?thesis using that [of rs S D1] a W2 by (simp add: D1_def)
    next
      case (Inr u)
      define D2 where "D2 = \<lparr>db_ptr = Some db, db_opts = Some opts, cf_handles = rs, cf_options = cfos\<rparr>"
      have "res = Inr ()" "W' = set_in_use opts True (set_db self D2 W2)"
        using run by (simp_all only: log i Inr sum.case prod.case prod.inject D2_def)
      then show ?thesis using that [of rs S D2] a W2 by (simp add: D2_def)
    qed
  qed
qed

lemma DB_cinit_cases:
  assumes "DB_cinit E L self n opts fams ro W = (res, W')" "dbs W self = Some empty_db"
    and fc: "fam_contract L issued"
  obtains (refused) e where "res = Inl e" "wstore W' = wstore W" "dbs W' = dbs W"
      "\<forall>p. in_use W p \<longrightarrow> in_use W' p" "issued (rocks W) \<subseteq> issued (rocks W')"
  | (failed) e p ds cfos W1 where "res = Inl e" "wstore W' = wstore W"
      "collect_families L (case fams of None \<Rightarrow> [] | Some kvs \<Rightarrow> kvs) W = (Inr ds, W1)"
      "filter (\<lambda>x. x \<noteq> None) cfos = map (Some \<circ> snd) ds" "in_use W' = in_use W1"
      "dbs W' = (dbs W)(self \<mapsto> empty_db\<lparr>db_ptr := p, cf_options := cfos\<rparr>)"
      "issued (rocks W) \<subseteq> issued (rocks W')"
  | (opened) ds cfos W1 hs db W2 where "\<not> in_use W opts"
      "collect_families L (case fams of None \<Rightarrow> [] | Some kvs \<Rightarrow> kvs) W = (Inr ds, W1)"
      "filter (\<lambda>x. x \<noteq> None) cfos = map (Some \<circ> snd) ds" "length hs = length cfos"
      "distinct hs" "set hs \<inter> issued (rocks W) = {}" "set hs \<subseteq> issued (rocks W2)"
      "issued (rocks W) \<subseteq> issued (rocks W2)" "wstore W2 = wstore W" "in_use W2 = in_use W1"
      "\<exists>D. dbs W2 = (dbs W)(self \<mapsto> D)" "finish_open L self opts hs cfos db W2 = (res, W')"
proof (cases "in_use W opts")
  case True
  then show ?thesis using assms by (intro refused) (auto simp: DB_cinit_def)
next
  case free: False
  show ?thesis
  proof (cases "path_to_string E n")
    case (Inl e)
    then show ?thesis using assms free by (intro refused) (auto simp: DB_cinit_def)
  next
    case path: (Inr db_path)
    obtain r1 W1 where c: "collect_families L (case fams of None \<Rightarrow> [] | Some kvs \<Rightarrow> kvs) W = (r1, W1)"
      by fastforce
    note F = collect_families_frame [OF c]
    show ?thesis
    proof (cases r1)
      case (Inl e)
      then show ?thesis using assms free path c F by (intro refused) (auto simp: DB_cinit_def)
    next
      case ds: (Inr ds)
      define descs where "descs = (if wants_default L fams then [(kDefaultColumnFamilyName L, None)] else []) @
          map (\<lambda>(n, i). (n, Some i)) ds"
      have cfos: "filter (\<lambda>x. x \<noteq> None) (map snd descs) = map (Some \<circ> snd) ds"
      proof -
        have "filter (\<lambda>x. x \<noteq> None) (map snd (map (\<lambda>(n, i). (n, Some i)) ds)) = map (Some \<circ> snd) ds"
          by (induction ds) auto
        then show ?thesis by (simp add: descs_def)
      qed
      show ?thesis
      proof (cases "PyObject_IsTrue E ro")
        case (Inl e)
        then show ?thesis using assms free path c ds F
          by (intro refused) (auto simp: DB_cinit_def Let_def)
      next
        case ro: (Inr b)
        obtain r2 d where o': "fam_open L b opts db_path descs (rocks W1) = (r2, d)" by fastforce
        have mono: "issued (rocks W) \<subseteq> issued d" using fam_contractD(1) [OF fc o'] F by simp
        note run = assms(1) [unfolded DB_cinit_def, simplified free path c ds sum.case prod.case if_False
            Let_def default_family_def, folded descs_def, simplified open_families_def ro o' prod.case sum.case]
        show ?thesis
        proof (cases r2)
          case (Inl x)
          then have "res = Inl (CppExn2PyErr None x)" "W' = W1\<lparr>rocks := d\<rparr>" using run by simp_all
          then show ?thesis using F mono by (intro refused) auto
        next
          case (Inr t)
          obtain st hs p where t: "t = (st, hs, p)" by (cases t)
          define W2 where "W2 = set_db self (empty_db\<lparr>db_ptr := p, cf_options := map snd descs\<rparr>) (W1\<lparr>rocks := d\<rparr>)"
          have W2: "wstore W2 = wstore W" "in_use W2 = in_use W1" "rocks W2 = d"
            "dbs W2 = (dbs W)(self \<mapsto> empty_db\<lparr>db_ptr := p, cf_options := map snd descs\<rparr>)"
            using F by (simp_all add: W2_def)
          show ?thesis
          proof (cases "st_ok st \<and> p \<noteq> None")
            case True
            then obtain db where db: "p = Some db" by blast
            have fin: "finish_open L self opts hs (map snd descs) db W2 = (res, W')"
              using run Inr t True db by (simp add: W2_def)
            note C = fam_contractD(2) [OF fc o' [unfolded Inr t]]
            show ?thesis
              by (rule opened [OF free c [unfolded ds] cfos _ _ _ _ _ W2(1,2) _ fin])
                (use C True F W2 mono in auto)
          next
            case False
            then have "(\<exists>e. res = Inl e) \<and> W' = W2"
            proof (cases "check_status st")
              case (Inl e)
              then have "res = Inl e" "W' = W2" using run \<open>r2 = Inr t\<close> t by (simp_all add: W2_def)
              then show ?thesis by blast
            next
              case (Inr u)
              then have "res = Inl (plain_exception ''null database'')" "W' = W2"
                using run \<open>r2 = Inr t\<close> t False by (auto simp: W2_def)
              then show ?thesis by blast
            qed
            then show ?thesis
              using failed [OF _ _ c [unfolded ds] cfos _ _ _] W2 mono by blast
          qed
        qed
      qed
    qed
  qed
qed

lemma world_inv_dealloc:
  assumes "world_inv E L issued sh W" "fam_contract L issued"
  shows "world_inv E L issued sh (DB_dealloc L self W)"
proof (cases "dbs W self")
  case None
  then show ?thesis using assms(1) by (simp add: DB_dealloc_def)
next
  case (Some D)
  note I = world_invD [OF assms(1)]
  note X = DB_dealloc_effect [OF Some, of L]
  note O = db_okD [OF I(2) [OF Some]]
  obtain db where db: "db_ptr D = Some db" using O(1) by blast
  have own: "p \<in> set (uses D)" if "Some p \<in> set (cf_options D) \<or> db_opts D = Some p" for p
    using that by (force simp: uses_def)
  show ?thesis
  proof (rule world_inv_frame [OF assms(1), where self = self])
    show "store_inv E L issued (wstore (DB_dealloc L self W)) (rocks (DB_dealloc L self W))"
      using store_inv_mono [OF store_inv_release [OF I(1)] fam_contractD(6) [OF assms(2)]] db X(2,4)
      by simp
    show "dbs (DB_dealloc L self W) s = dbs W s" if "s \<noteq> self" for s using X(1) that by simp
    show "in_use (DB_dealloc L self W) p" if "\<not> sh" "s \<noteq> self" "dbs W s = Some D'" "p \<in> set (uses D')" for s D' p
      using that I(3) [OF that(3) Some that(2)] db_okD(7) [OF I(2) [OF that(3)]] own [of p] X(3) [of p]
      by (auto simp: apart_def)
    show "reals (wstore (DB_dealloc L self W)) r \<noteq> None"
      if "s \<noteq> self" "dbs W s = Some D'" "r \<in> set (cf_handles D')" for s D' r
      using that I(3) [OF that(2) Some that(1)] db_okD(5) [OF I(2) [OF that(2)]]
        release_handles_effect [of "cf_handles D" "wstore W"] X(2) db
      by (auto simp: apart_def)
  qed (use X(1) in auto)
qed

lemma uses_fresh:
  assumes "collect_families L kvs W = (Inr ds, W1)" "filter (\<lambda>x. x \<noteq> None) cfos = map (Some \<circ> snd) ds"
  shows "map the (filter (\<lambda>x. x \<noteq> None) cfos) = map snd ds"
    and "Some p \<in> set cfos \<longleftrightarrow> p \<in> set (map snd ds)"
    and "distinct (map snd ds)"
    and "p \<in> set (map snd ds) \<Longrightarrow> \<not> in_use W p \<and> PObj p \<in> snd ` set kvs"
    and "in_use W1 p \<longleftrightarrow> in_use W p \<or> p \<in> set (map snd ds)"
proof -
  show "map the (filter (\<lambda>x. x \<noteq> None) cfos) = map snd ds" using assms(2) by (simp add: comp_def)
  have "Some p \<in> set cfos \<longleftrightarrow> Some p \<in> set (filter (\<lambda>x. x \<noteq> None) cfos)" by auto
  then show "Some p \<in> set cfos \<longleftrightarrow> p \<in> set (map snd ds)" unfolding assms(2) by auto
qed (use collect_families_ok [OF assms(1)] in auto)

text \<open>
  What constructing a \<open>DB\<close> leaves behind: nothing is taken from anyone else; on success there is a
  new object with handles and options of its own.
\<close>

lemma DB_new_effect:
  assumes "DB_new E L self n opts fams ro W = (res, W')" "dbs W self = None"
    and fc: "fam_contract L issued" and st: "store_inv E L issued (wstore W) (rocks W)"
    and sep: "\<not> sh \<Longrightarrow> \<forall>kvs. fams = Some kvs \<longrightarrow> PObj opts \<notin> snd ` set kvs"
  shows "store_inv E L issued (wstore W') (rocks W')"
    and "s \<noteq> self \<Longrightarrow> dbs W' s = dbs W s"
    and "in_use W p \<Longrightarrow> in_use W' p"
    and "reals (wstore W) r \<noteq> None \<Longrightarrow> reals (wstore W') r \<noteq> None"
    and "res = Inl e \<Longrightarrow> dbs W' self = None"
    and "res = Inr u \<Longrightarrow> \<exists>D. dbs W' self = Some D \<and> db_ok sh W' D \<and> db_opts D = Some opts \<and>
      (\<forall>r\<in>set (cf_handles D). fresh (wstore W) \<le> r) \<and> (\<forall>p\<in>set (uses D). \<not> in_use W p)"
proof -
  let ?kvs = "case fams of None \<Rightarrow> [] | Some kvs \<Rightarrow> kvs"
  define W0 where "W0 = set_db self empty_db W"
  have W0: "wstore W0 = wstore W" "rocks W0 = rocks W" "in_use W0 = in_use W"
    "dbs W0 = (dbs W)(self \<mapsto> empty_db)" "dbs W0 self = Some empty_db"
    by (simp_all add: W0_def)
  obtain r1 W1 where c: "DB_cinit E L self n opts fams ro W0 = (r1, W1)" by fastforce
  have run: "(case r1 of Inl e \<Rightarrow> (Inl e, DB_dealloc L self W1) | Inr _ \<Rightarrow> (Inr (), W1)) = (res, W')"
    using assms(1) c by (simp add: DB_new_def W0_def)
  have P: "store_inv E L issued (wstore W') (rocks W') \<and>
    (\<forall>s. s \<noteq> self \<longrightarrow> dbs W' s = dbs W s) \<and> (\<forall>p. in_use W p \<longrightarrow> in_use W' p) \<and>
    (\<forall>r. reals (wstore W) r \<noteq> None \<longrightarrow> reals (wstore W') r \<noteq> None) \<and>
    ((\<exists>e. res = Inl e) \<and> dbs W' self = None \<or>
     (\<exists>D. res = Inr () \<and> dbs W' self = Some D \<and> db_ok sh W' D \<and> db_opts D = Some opts \<and>
      (\<forall>r\<in>set (cf_handles D). fresh (wstore W) \<le> r) \<and> (\<forall>p\<in>set (uses D). \<not> in_use W p)))"
  proof (cases rule: DB_cinit_cases [OF c W0(5) fc, case_names refused failed opened])
    case (refused e)
    then have D: "dbs W1 self = Some empty_db" using W0 by simp
    have "res = Inl e" "W' = DB_dealloc L self W1" using run refused by simp_all
    then show ?thesis
      using refused W0 DB_dealloc_effect [OF D, of L] st store_inv_mono [OF st, of "rocks W1"]
      by (simp add: empty_db_def)
  next
    case (failed e p ds cfos W2)
    note U = uses_fresh [OF failed(3,4)]
    let ?D = "empty_db\<lparr>db_ptr := p, cf_options := cfos\<rparr>"
    have D: "dbs W1 self = Some ?D" using failed by simp
    have r: "res = Inl e" "W' = DB_dealloc L self W1" using run failed by simp_all
    note X = DB_dealloc_effect [OF D, of L]
    have "in_use W' q" if "in_use W q" for q
      using that U(2,4,5) [of q] X(3) [of q] failed(5) W0 r by (auto simp: empty_db_def)
    moreover have "wstore W' = wstore W" using X(2) failed(2) W0 r by (simp add: empty_db_def)
    moreover have "issued (rocks W) \<subseteq> issued (rocks W')"
      using X(4) r failed(7) W0 fam_contractD(6) [OF fc]
      by (auto split: option.splits)
    moreover have "dbs W' = (dbs W)(self := None)" using X(1) r failed(6) W0 by simp
    ultimately show ?thesis using r store_inv_mono [OF st] by auto
  next
    case (opened ds cfos W2 hs db W3)
    note U = uses_fresh [OF opened(2,3)]
    have used: "in_use W3 p \<longleftrightarrow> in_use W p \<or> p \<in> set (map snd ds)" for p
      using U(5) opened(10) W0 by simp
    have fresh_uses: "\<not> in_use W p \<and> (\<not> sh \<longrightarrow> p \<noteq> opts)" if "p \<in> set (map snd ds)" for p
      using U(4) [OF that] sep W0 by (auto split: option.splits)
    from opened(12) obtain rs S D where f: "adopt_handles hs (wstore W3) = (rs, S)" "wstore W1 = S"
      "dbs W1 = (dbs W3)(self \<mapsto> D)" "rocks W1 = rocks W3" "db_ptr D = Some db" "cf_handles D = rs"
      "cf_options D = cfos"
      "(\<exists>e. r1 = Inl e) \<and> db_opts D = None \<and> in_use W1 = in_use W3 \<or>
       r1 = Inr () \<and> db_opts D = Some opts \<and> in_use W1 = (in_use W3)(opts := True)"
      by (rule finish_open_cases)
    have dbs1: "dbs W1 = (dbs W)(self \<mapsto> D)" using f(3) opened(11) W0 by auto
    have S0: "wstore W3 = wstore W" using opened(9) W0 by simp
    note A = adopt_handles_effect [OF f(1)]
    have "set (deleted (wstore W)) \<union> {handle h | r h. reals (wstore W) r = Some h} \<subseteq> issued (rocks W)"
      using store_invD(2,3) [OF st] by auto
    then have "set hs \<inter> (set (deleted (wstore W)) \<union> {handle h | r h. reals (wstore W) r = Some h}) = {}"
      using opened(6) W0 by fastforce
    then have stS: "store_inv E L issued S (rocks W3)"
      using store_inv_adopt [OF st opened(5) _ _ _ f(1) [unfolded S0], of "rocks W3"] opened(7,8) W0
      by simp
    have keep: "reals S r = reals (wstore W) r" if "reals (wstore W) r \<noteq> None" for r
      using store_fresh [OF st that] A S0 by auto
    have lenrs: "length rs = length cfos" "distinct rs" "\<And>r. r \<in> set rs \<Longrightarrow> fresh (wstore W) \<le> r"
      "\<And>r. r \<in> set rs \<Longrightarrow> reals S r \<noteq> None"
      using A opened(4) S0 by auto
    from f(8) show ?thesis
    proof (elim disjE conjE exE)
      fix e assume e: "r1 = Inl e" "db_opts D = None" "in_use W1 = in_use W3"
      have D: "dbs W1 self = Some D" using dbs1 by simp
      note X = DB_dealloc_effect [OF D, of L]
      have r: "res = Inl e" "W' = DB_dealloc L self W1" using run e by simp_all
      have ws: "wstore W' = release_handles rs S" using X(2) r f(2,5,6) by simp
      have "store_inv E L issued (wstore W') (rocks W')"
        using store_inv_mono [OF store_inv_release [OF stS, of rs] fam_contractD(6) [OF fc]] X(4) r f(4,5)
        by (simp add: ws [unfolded r(2)])
      moreover have "reals (wstore W') r \<noteq> None" if "reals (wstore W) r \<noteq> None" for r
        using keep [OF that] lenrs(3) [of r] store_fresh [OF st that] that
          release_handles_effect [of rs S] by (auto simp: ws)
      moreover have "in_use W' q" if "in_use W q" for q
        using X(3) [of q] r e used [of q] fresh_uses [of q] U(2) [of q] that f(7) by auto
      ultimately show ?thesis using X(1) r dbs1 by auto
    next
      assume e: "r1 = Inr ()" "db_opts D = Some opts" "in_use W1 = (in_use W3)(opts := True)"
      have r: "res = Inr ()" "W' = W1" using run e by simp_all
      have us: "uses D = opts # map snd ds" using U(1) e(2) f(7) by (simp add: uses_def)
      have "db_ok sh W' D"
        by (rule db_okI)
          (use e f(5,6,7) lenrs f(2) r us fresh_uses U(3) used in auto)
      moreover have "\<forall>p\<in>set (uses D). \<not> in_use W p"
        using us fresh_uses opened(1) W0 by auto
      ultimately show ?thesis
        using r stS f(2,4,6) dbs1 e keep lenrs(3) used by auto
    qed
  qed
  then show "store_inv E L issued (wstore W') (rocks W')"
    and "s \<noteq> self \<Longrightarrow> dbs W' s = dbs W s"
    and "in_use W p \<Longrightarrow> in_use W' p"
    and "reals (wstore W) r \<noteq> None \<Longrightarrow> reals (wstore W') r \<noteq> None"
    and "res = Inl e \<Longrightarrow> dbs W' self = None"
    and "res = Inr u \<Longrightarrow> \<exists>D. dbs W' self = Some D \<and> db_ok sh W' D \<and> db_opts D = Some opts \<and>
      (\<forall>r\<in>set (cf_handles D). fresh (wstore W) \<le> r) \<and> (\<forall>p\<in>set (uses D). \<not> in_use W p)"
    by blast+
qed

lemma world_inv_new:
  assumes "world_inv E L issued sh W" "fam_contract L issued" "dbs W self = None"
    and "\<not> sh \<Longrightarrow> \<forall>kvs. fams = Some kvs \<longrightarrow> PObj opts \<notin> snd ` set kvs"
    and n: "DB_new E L self n opts fams ro W = (res, W')"
  shows "world_inv E L issued sh W'"
proof -
  note I = world_invD [OF assms(1)]
  note X = DB_new_effect [where sh = sh, OF n assms(3,2) I(1) assms(4)]
  have self: "db_ok sh W' D \<and> (\<forall>r\<in>set (cf_handles D). fresh (wstore W) \<le> r) \<and>
      (\<forall>p\<in>set (uses D). \<not> in_use W p)" if "dbs W' self = Some D" for D
  proof (cases res)
    case (Inl e)
    then show ?thesis using X(5) that by simp
  next
    case (Inr u)
    then show ?thesis using X(6) that by fastforce
  qed
  show ?thesis
  proof (rule world_inv_frame [OF assms(1) X(1), where self = self])
    show "apart sh D D'" if "dbs W' self = Some D" "s \<noteq> self" "dbs W s = Some D'" for s D D'
    proof -
      note O = db_okD [OF I(2) [OF that(3)]]
      have "r \<notin> set (cf_handles D')" if "r \<in> set (cf_handles D)" for r
        using self [OF \<open>dbs W' self = Some D\<close>] that store_fresh [OF I(1)] O(5) [of r] by fastforce
      then show ?thesis using self [OF that(1)] O(7) by (auto simp: apart_def)
    qed
    show "in_use W' p" if "\<not> sh" "s \<noteq> self" "dbs W s = Some D" "p \<in> set (uses D)" for s D p
      using X(3) db_okD(7) [OF I(2) [OF that(3)] that(1,4)] by blast
    show "reals (wstore W') r \<noteq> None" if "dbs W s = Some D" "r \<in> set (cf_handles D)" for s D r
      using X(4) db_okD(5) [OF I(2) [OF that(1)] that(2)] by blast
  qed (use X(2) self in blast)+
qed

subsection \<open>Creating and dropping families\<close>

lemma uses_append: "uses (D\<lparr>cf_handles := hs, cf_options := cf_options D @ [Some p]\<rparr>) = uses D @ [p]"
  by (simp add: uses_def)

lemma DB_create_cases:
  assumes "DB_create_column_family E L self name copts W = (res, W')"
  obtains (refused) e where "res = Inl e" "W' = W"
  | (failed) e D where "res = Inl e" "dbs W self = Some D" "\<not> in_use W copts"
      "W' = (set_in_use copts True W)\<lparr>rocks := rocks W'\<rparr>"
      "db_ptr D \<noteq> None \<longrightarrow> (\<exists>db c r. fam_create L db copts c (rocks W) = (r, rocks W'))"
      "db_ptr D = None \<longrightarrow> rocks W' = rocks W"
  | (created) D db c_name st h S where "dbs W self = Some D" "\<not> in_use W copts" "db_ptr D = Some db"
      "convert_string_from_py name = Inr c_name"
      "find_family L (wstore W) (cf_handles D) name = None"
      "fam_create L db copts c_name (rocks W) = (Inr (st, h), rocks W')" "st_ok st"
      "dbs W' = (dbs W)(self \<mapsto> D\<lparr>cf_handles := cf_handles D @ [fresh (wstore W)],
         cf_options := cf_options D @ [Some copts]\<rparr>)"
      "in_use W' = (in_use W)(copts := True)" "S = snd (from_handle_ptr h (wstore W))"
      "(\<exists>e. res = Inl e \<and> weakref_get E (fam_cf L) (fresh (wstore W)) S = Inl e) \<and> wstore W' = S \<or>
       (\<exists>i. weakref_get E (fam_cf L) (fresh (wstore W)) S = Inr (i, wstore W') \<and> res = Inr (PCF i))"
proof (cases "dbs W self")
  case None
  then show ?thesis using assms by (intro refused) (auto simp: DB_create_column_family_def)
next
  case D: (Some D)
  show ?thesis
  proof (cases "bind_res (bytes_or_None name) (\<lambda>_. convert_string_from_py name)")
    case (Inl e)
    then show ?thesis using assms D by (intro refused) (auto simp: DB_create_column_family_def)
  next
    case n: (Inr c_name)
    show ?thesis
    proof (cases "find_family L (wstore W) (cf_handles D) name \<noteq> None \<or> in_use W copts")
      case True
      then have "(\<exists>e. res = Inl e) \<and> W' = W" using assms D n
        by (auto simp: DB_create_column_family_def split: if_splits)
      then show ?thesis using refused by blast
    next
      case free: False
      show ?thesis
      proof (cases "db_ptr D")
        case None
        then show ?thesis using assms D n free
          by (intro failed [of _ D]) (auto simp: DB_create_column_family_def Let_def set_in_use_def)
      next
        case db: (Some db)
        obtain r d where c: "fam_create L db copts c_name (rocks W) = (r, d)" by fastforce
        show ?thesis
        proof (cases r)
          case (Inl x)
          then have "res = Inl (CppExn2PyErr None x)" "W' = (set_in_use copts True W)\<lparr>rocks := d\<rparr>"
            using assms D n free db c by (simp_all add: DB_create_column_family_def Let_def)
          moreover have "\<exists>db c r. fam_create L db copts c (rocks W) = (r, d)" using c by blast
          ultimately show ?thesis using D free db by (intro failed [of _ D]) auto
        next
          case r: (Inr sh)
          obtain st h where sh: "sh = (st, h)" by (cases sh)
          show ?thesis
          proof (cases "check_status st")
            case (Inl e)
            then have "res = Inl e" "W' = (set_in_use copts True W)\<lparr>rocks := d\<rparr>"
              using assms D n free db c r sh by (simp_all add: DB_create_column_family_def Let_def)
            moreover have "\<exists>db c r. fam_create L db copts c (rocks W) = (r, d)" using c by blast
            ultimately show ?thesis using D free db by (intro failed [of e D]) auto
          next
            case (Inr u)
            define S where "S = snd (from_handle_ptr h (wstore W))"
            define D' where "D' = D\<lparr>cf_handles := cf_handles D @ [fresh (wstore W)],
              cf_options := cf_options D @ [Some copts]\<rparr>"
            define W3 where "W3 = set_db self D' ((set_in_use copts True W)\<lparr>rocks := d, wstore := S\<rparr>)"
            have fh: "from_handle_ptr h (wstore W) = (fresh (wstore W), S)"
              by (simp add: S_def from_handle_ptr_def)
            have W3: "wstore W3 = S" "rocks W3 = d" "dbs W3 = (dbs W)(self \<mapsto> D')"
              "in_use W3 = (in_use W)(copts := True)"
              by (simp_all add: W3_def)
            have run: "(case weakref_get E (fam_cf L) (fresh (wstore W)) S of
                  Inl e \<Rightarrow> (Inl e, W3) | Inr (i, S') \<Rightarrow> (Inr (PCF i), W3\<lparr>wstore := S'\<rparr>)) = (res, W')"
              unfolding W3_def D'_def using assms D n free db c r sh Inr
              by (simp add: DB_create_column_family_def Let_def fh)
            have "rocks W' = d" "dbs W' = (dbs W)(self \<mapsto> D')" "in_use W' = (in_use W)(copts := True)"
              "(\<exists>e. res = Inl e \<and> weakref_get E (fam_cf L) (fresh (wstore W)) S = Inl e) \<and> wstore W' = S \<or>
               (\<exists>i. weakref_get E (fam_cf L) (fresh (wstore W)) S = Inr (i, wstore W') \<and> res = Inr (PCF i))"
              using run W3 by (auto split: sum.splits)
            then show ?thesis
              using D free db n c r sh Inr S_def
              by (intro created [of D db c_name st h S]) (auto simp: D'_def bind_res_Inr_conv)
          qed
        qed
      qed
    qed
  qed
qed

lemma world_inv_create:
  assumes "world_inv E L issued sh W" "fam_contract L issued"
    and c: "DB_create_column_family E L self name copts W = (res, W')"
  shows "world_inv E L issued sh W'"
proof -
  note I = world_invD [OF assms(1)]
  from c show ?thesis
  proof (cases rule: DB_create_cases)
    case (refused e)
    then show ?thesis using assms(1) by simp
  next
    case (failed e D)
    have W': "wstore W' = wstore W" "dbs W' = dbs W" "in_use W' = (in_use W)(copts := True)"
      by (subst failed(4), simp)+
    have "issued (rocks W) \<subseteq> issued (rocks W')"
      using failed(5,6) fam_contractD(3) [OF assms(2)] by (cases "db_ptr D = None") (simp, blast)
    then have "store_inv E L issued (wstore W') (rocks W')" using store_inv_mono [OF I(1)] W' by simp
    then show ?thesis
      by (rule world_inv_frame [OF assms(1), where self = self])
        (use W' I(2,3) db_okD(5,7) in \<open>auto simp: db_ok_def\<close>)
  next
    case (created D db c_name st h S)
    let ?D = "D\<lparr>cf_handles := cf_handles D @ [fresh (wstore W)], cf_options := cf_options D @ [Some copts]\<rparr>"
    note C = fam_contractD(3) [OF assms(2) created(6)] fam_contractD(4) [OF assms(2) created(6,7)]
    note O = db_okD [OF I(2) [OF created(1)]]
    have S: "store_inv E L issued S (rocks W')"
      unfolding created(10) by (rule store_inv_new [OF I(1)]) (use C in auto)
    have st: "store_inv E L issued (wstore W') (rocks W')"
      using created(11) S store_inv_weakref [OF S] by auto
    have alive: "reals (wstore W') r \<noteq> None" if "r = fresh (wstore W) \<or> reals (wstore W) r \<noteq> None" for r
    proof -
      have "reals S r \<noteq> None" using that by (auto simp: created(10) from_handle_ptr_def)
      moreover have "reals (wstore W') r = None \<longleftrightarrow> reals S r = None"
        using created(11) weakref_get_store by blast
      ultimately show ?thesis by simp
    qed
    have old: "r \<noteq> fresh (wstore W)" if "dbs W s = Some D'" "r \<in> set (cf_handles D')" for s D' r
      using store_fresh [OF I(1), of r] db_okD(5) [OF I(2) [OF that(1)] that(2)] by fastforce
    have free: "p \<noteq> copts" if "dbs W s = Some D'" "p \<in> set (uses D')" "\<not> sh" for s D' p
      using db_okD(7) [OF I(2) [OF that(1)] that(3,2)] created(2) by auto
    show ?thesis
    proof (rule world_inv_frame [OF assms(1) st, where self = self])
      show "db_ok sh W' D'" if "dbs W' self = Some D'" for D'
      proof -
        have D': "D' = ?D" using that created(8) by simp
        show ?thesis
          unfolding D'
        proof (rule db_okI)
          show "distinct (cf_handles ?D)" using O(4) old [OF created(1)] by auto
          show "reals (wstore W') r \<noteq> None" if "r \<in> set (cf_handles ?D)" for r
            using alive [of r] O(5) [of r] that by auto
          show "distinct (uses ?D)" if "\<not> sh"
            using O(6) free [OF created(1)] that by (auto simp: uses_append)
          show "in_use W' p" if "\<not> sh" "p \<in> set (uses ?D)" for p
            using O(7) [of p] that created(9) by (auto simp: uses_append)
        qed (use O in auto)
      qed
      show "apart sh D' D''" if "dbs W' self = Some D'" "s \<noteq> self" "dbs W s = Some D''" for s D' D''
        using that I(3) [OF created(1) that(3)] old [OF that(3)] free [OF that(3)] created(8)
        by (auto simp: apart_def uses_append)
      show "dbs W' s = dbs W s" if "s \<noteq> self" for s using that created(8) by simp
      show "in_use W' p" if "\<not> sh" "s \<noteq> self" "dbs W s = Some D'" "p \<in> set (uses D')" for s D' p
        using db_okD(7) [OF I(2) [OF that(3)] that(1,4)] created(9) by simp
      show "reals (wstore W') r \<noteq> None" if "s \<noteq> self" "dbs W s = Some D'" "r \<in> set (cf_handles D')" for s D' r
        using alive db_okD(5) [OF I(2) [OF that(2)] that(3)] by blast
    qed
  qed
qed

lemma list_index_Some: "list_index xs x = Some i \<Longrightarrow> i < length xs \<and> xs ! i = x"
  by (induction xs arbitrary: i) (auto split: if_splits)

lemma list_index_None: "list_index xs x = None \<longleftrightarrow> x \<notin> set xs"
  by (induction xs) auto

lemma remove_at_props:
  assumes "i < length xs"
  shows "mset xs = add_mset (xs ! i) (mset (remove_at i xs))"
proof -
  have "xs = take i xs @ xs ! i # drop (Suc i) xs" using assms by (rule id_take_nth_drop)
  then have "mset xs = mset (take i xs @ xs ! i # drop (Suc i) xs)" by simp
  then show ?thesis by (simp add: remove_at_def)
qed

lemma length_remove_at: "i < length xs \<Longrightarrow> length (remove_at i xs) = length xs - 1"
  by (simp add: remove_at_def)

lemma set_remove_at: "set (remove_at i xs) \<subseteq> set xs"
  by (auto simp: remove_at_def dest: in_set_takeD in_set_dropD)

lemma distinct_remove_at:
  assumes "distinct xs" "i < length xs"
  shows "distinct (remove_at i xs)" and "set (remove_at i xs) = set xs - {xs ! i}"
proof -
  have "xs = take i xs @ xs ! i # drop (Suc i) xs" using assms(2) by (rule id_take_nth_drop)
  then have "distinct (take i xs @ xs ! i # drop (Suc i) xs)"
    "set xs = set (take i xs @ xs ! i # drop (Suc i) xs)" using assms(1) by metis+
  then show "distinct (remove_at i xs)" "set (remove_at i xs) = set xs - {xs ! i}"
    by (auto simp: remove_at_def)
qed

lemma DB_drop_cases:
  assumes "DB_drop_column_family L self i W = (res, W')"
  obtains (failed) e where "res = Inl e" "W' = W\<lparr>rocks := rocks W'\<rparr>"
      "rocks W' = rocks W \<or> (\<exists>db h r. fam_drop L db h (rocks W) = (r, rocks W'))"
  | (dropped) D db c h st idx where "res = Inr PNone" "dbs W self = Some D" "db_ptr D = Some db"
      "cfs (wstore W) i = Some c" "get_handle (wstore W) i = Inr h"
      "fam_drop L db h (rocks W) = (Inr st, rocks W')" "st_ok st"
      "idx < length (cf_handles D)" "idx < length (cf_options D)"
      "cf_handles D ! idx = wr_target (cf_ref c)"
      "wstore W' = dealloc_real (wr_target (cf_ref c)) (wstore W)"
      "dbs W' = (dbs W)(self \<mapsto> D\<lparr>cf_options := remove_at idx (cf_options D),
         cf_handles := remove_at idx (cf_handles D)\<rparr>)"
      "in_use W' = (\<lambda>p. in_use W p \<and> cf_options D ! idx \<noteq> Some p)"
proof (cases "dbs W self")
  case None
  then show ?thesis using assms by (intro failed) (auto simp: DB_drop_column_family_def split: option.splits)
next
  case D: (Some D)
  show ?thesis
  proof (cases "cfs (wstore W) i")
    case None
    then show ?thesis using assms D by (intro failed) (auto simp: DB_drop_column_family_def)
  next
    case c: (Some c)
    show ?thesis
    proof (cases "get_handle (wstore W) i")
      case (Inl e)
      then show ?thesis using assms D c by (intro failed) (auto simp: DB_drop_column_family_def)
    next
      case h: (Inr h)
      show ?thesis
      proof (cases "db_ptr D")
        case None
        then show ?thesis using assms D c h by (intro failed) (auto simp: DB_drop_column_family_def)
      next
        case db: (Some db)
        obtain r d where f: "fam_drop L db h (rocks W) = (r, d)" by fastforce
        then have ex: "\<exists>db h r. fam_drop L db h (rocks W) = (r, d)" by blast
        note run = assms [unfolded DB_drop_column_family_def D c h db f option.case sum.case prod.case Let_def]
        show ?thesis
        proof (cases r)
          case (Inl x)
          then have "res = Inl (CppExn2PyErr None x)" "W' = W\<lparr>rocks := d\<rparr>" using run by simp_all
          then show ?thesis using ex by (intro failed) simp_all
        next
          case st: (Inr st)
          show ?thesis
          proof (cases "check_status st")
            case (Inl e)
            then have "res = Inl e" "W' = W\<lparr>rocks := d\<rparr>" using run st by simp_all
            then show ?thesis using ex by (intro failed) simp_all
          next
            case ok: (Inr u)
            show ?thesis
            proof (cases "list_index (cf_handles D) (wr_target (cf_ref c))")
              case None
              then have "res = Inl (Exn ValueError (Text ''value is not in list''))" "W' = W\<lparr>rocks := d\<rparr>"
                using run st ok by simp_all
              then show ?thesis using ex by (intro failed) simp_all
            next
              case idx: (Some idx)
              show ?thesis
              proof (cases "idx < length (cf_options D)")
                case False
                then have "res = Inl (Exn IndexError (Text ''pop index out of range''))" "W' = W\<lparr>rocks := d\<rparr>"
                  using run st ok idx by simp_all
                then show ?thesis using ex by (intro failed) simp_all
              next
                case True
                define W3 where "W3 = (let W2 = set_db self (D\<lparr>cf_options := remove_at idx (cf_options D),
                    cf_handles := remove_at idx (cf_handles D)\<rparr>) (W\<lparr>rocks := d\<rparr>)
                  in W2\<lparr>wstore := dealloc_real (wr_target (cf_ref c)) (wstore W2)\<rparr>)"
                have W': "res = Inr PNone"
                  "W' = (case cf_options D ! idx of None \<Rightarrow> W3 | Some p \<Rightarrow> set_in_use p False W3)"
                  unfolding W3_def Let_def using run st ok idx True by simp_all
                have W3: "wstore W3 = dealloc_real (wr_target (cf_ref c)) (wstore W)" "rocks W3 = d"
                  "dbs W3 = (dbs W)(self \<mapsto> D\<lparr>cf_options := remove_at idx (cf_options D),
                     cf_handles := remove_at idx (cf_handles D)\<rparr>)" "in_use W3 = in_use W"
                  by (simp_all add: W3_def Let_def)
                have "wstore W' = wstore W3" "rocks W' = d" "dbs W' = dbs W3"
                  "in_use W' = (\<lambda>p. in_use W p \<and> cf_options D ! idx \<noteq> Some p)"
                  using W'(2) W3 by (auto split: option.splits simp: fun_eq_iff)
                then show ?thesis
                  using W'(1) W3 D db c h f st ok list_index_Some [OF idx] True
                  by (intro dropped [of D db c h st idx]) auto
              qed
            qed
          qed
        qed
      qed
    qed
  qed
qed

lemma uses_remove_at:
  assumes "idx < length (cf_options D)"
  shows "mset (uses D) =
    (case cf_options D ! idx of None \<Rightarrow> {#} | Some p \<Rightarrow> {#p#}) +
      mset (uses (D\<lparr>cf_options := remove_at idx (cf_options D), cf_handles := hs\<rparr>))"
proof -
  have "mset (cf_options D) = add_mset (cf_options D ! idx) (mset (remove_at idx (cf_options D)))"
    by (rule remove_at_props [OF assms])
  then have "mset (map the (filter (\<lambda>x. x \<noteq> None) (cf_options D))) =
      image_mset the (filter_mset (\<lambda>x. x \<noteq> None)
        (add_mset (cf_options D ! idx) (mset (remove_at idx (cf_options D)))))"
    by (simp add: mset_filter)
  then show ?thesis by (auto simp: uses_def mset_filter split: option.splits)
qed

lemma uses_after_drop:
  assumes "idx < length (cf_options D)" "distinct (uses D)"
  shows "distinct (uses (D\<lparr>cf_options := remove_at idx (cf_options D), cf_handles := hs\<rparr>))"
    and "set (uses (D\<lparr>cf_options := remove_at idx (cf_options D), cf_handles := hs\<rparr>)) =
      set (uses D) - {p. cf_options D ! idx = Some p}"
proof -
  let ?D = "D\<lparr>cf_options := remove_at idx (cf_options D), cf_handles := hs\<rparr>"
  note M = uses_remove_at [OF assms(1), of hs]
  have "distinct (uses ?D) \<and> set (uses ?D) = set (uses D) - {p. cf_options D ! idx = Some p}"
  proof (cases "cf_options D ! idx")
    case None
    then have m: "mset (uses D) = mset (uses ?D)" using M by simp
    show ?thesis
      using assms(2) None mset_eq_imp_distinct_iff [OF m] mset_eq_setD [OF m] by simp
  next
    case (Some p)
    then have "mset (uses D) = mset (p # uses ?D)" using M by simp
    then have "distinct (p # uses ?D)" "set (uses D) = set (p # uses ?D)"
      using assms(2) mset_eq_imp_distinct_iff mset_eq_setD by blast+
    then show ?thesis using Some by auto
  qed
  then show "distinct (uses ?D)" "set (uses ?D) = set (uses D) - {p. cf_options D ! idx = Some p}"
    by blast+
qed

lemma world_inv_drop:
  assumes "world_inv E L issued sh W" "fam_contract L issued"
    and d: "DB_drop_column_family L self i W = (res, W')"
  shows "world_inv E L issued sh W'"
proof -
  note I = world_invD [OF assms(1)]
  from d show ?thesis
  proof (cases rule: DB_drop_cases)
    case (failed e)
    have W': "wstore W' = wstore W" "dbs W' = dbs W" "in_use W' = in_use W"
      by (subst failed(2), simp)+
    have "issued (rocks W) \<subseteq> issued (rocks W')"
      using failed(3) fam_contractD(5) [OF assms(2)] by (elim disjE) (simp, blast)
    then have "store_inv E L issued (wstore W') (rocks W')" using store_inv_mono [OF I(1)] W' by simp
    then show ?thesis
      by (rule world_inv_frame [OF assms(1), where self = self])
        (use W' I(2,3) db_okD(5,7) in \<open>auto simp: db_ok_def\<close>)
  next
    case (dropped D db c h st idx)
    let ?r = "wr_target (cf_ref c)"
    let ?D = "D\<lparr>cf_options := remove_at idx (cf_options D), cf_handles := remove_at idx (cf_handles D)\<rparr>"
    note O = db_okD [OF I(2) [OF dropped(2)]]
    have U: "distinct (uses ?D)" "set (uses ?D) = set (uses D) - {p. cf_options D ! idx = Some p}" if "\<not> sh"
      using uses_after_drop [OF dropped(9) O(6) [OF that], of "remove_at idx (cf_handles D)"] by blast+
    note R = distinct_remove_at [OF O(4) dropped(8), unfolded dropped(10)]
    have st: "store_inv E L issued (wstore W') (rocks W')"
      using store_inv_mono [OF store_inv_dealloc [OF I(1)] fam_contractD(5) [OF assms(2) dropped(6)]]
      by (simp add: dropped(11))
    have alive: "reals (wstore W') r \<noteq> None" if "reals (wstore W) r \<noteq> None" "r \<noteq> ?r" for r
      using that by (auto simp: dropped(11) dealloc_real_def split: option.splits)
    have own: "?r \<in> set (cf_handles D)" using dropped(8,10) nth_mem by fastforce
    have ownp: "p \<in> set (uses D)" if "cf_options D ! idx = Some p" for p
    proof -
      have "Some p \<in> set (cf_options D)" using that dropped(9) nth_mem by fastforce
      then show ?thesis by (force simp: uses_def)
    qed
    show ?thesis
    proof (rule world_inv_frame [OF assms(1) st, where self = self])
      show "db_ok sh W' D'" if "dbs W' self = Some D'" for D'
      proof -
        have D': "D' = ?D" using that dropped(12) by simp
        show ?thesis
          unfolding D'
        proof (rule db_okI)
          show "reals (wstore W') r \<noteq> None" if "r \<in> set (cf_handles ?D)" for r
            using alive [of r] O(5) [of r] R(2) that by auto
          show "in_use W' p" if "\<not> sh" "p \<in> set (uses ?D)" for p
            using O(7) [of p] that U(2) dropped(13) by auto
          show "length (cf_handles ?D) = length (cf_options ?D)"
            using length_remove_at [OF dropped(8)] length_remove_at [OF dropped(9)] O(3) by simp
        qed (use O(1,2) U(1) R(1) in simp_all)
      qed
      show "apart sh D' D''" if "dbs W' self = Some D'" "s \<noteq> self" "dbs W s = Some D''" for s D' D''
        using that I(3) [OF dropped(2) that(3)] R(2) U(2) dropped(12) by (auto simp: apart_def)
      show "dbs W' s = dbs W s" if "s \<noteq> self" for s using that dropped(12) by simp
      show "in_use W' p" if "\<not> sh" "s \<noteq> self" "dbs W s = Some D'" "p \<in> set (uses D')" for s D' p
        using db_okD(7) [OF I(2) [OF that(3)] that(1,4)] I(3) [OF that(3) dropped(2) that(2)] that(1,4)
          ownp [of p] dropped(13) by (auto simp: apart_def)
      show "reals (wstore W') r \<noteq> None" if "s \<noteq> self" "dbs W s = Some D'" "r \<in> set (cf_handles D')" for s D' r
        using alive db_okD(5) [OF I(2) [OF that(2)] that(3)] I(3) [OF that(2) dropped(2) that(1)] that(3) own
        by (auto simp: apart_def)
    qed
  qed
qed

lemma world_inv_store:
  assumes "world_inv E L issued sh W" "store_inv E L issued S (rocks W)"
    and "\<And>r. reals (wstore W) r \<noteq> None \<Longrightarrow> reals S r \<noteq> None"
  shows "world_inv E L issued sh (W\<lparr>wstore := S\<rparr>)"
proof -
  note I = world_invD [OF assms(1)]
  have ok: "db_ok sh (W\<lparr>wstore := S\<rparr>) D" if "dbs W s = Some D" for s D
    using I(2) [OF that] assms(3) by (simp add: db_ok_def)
  show ?thesis
  proof (rule world_inv_frame [OF assms(1), where self = 0])
    show "in_use (W\<lparr>wstore := S\<rparr>) p" if "\<not> sh" "dbs W s = Some D" "p \<in> set (uses D)" for s D p
      using db_okD(7) [OF ok [OF that(2)] that(1,3)] .
    show "reals (wstore (W\<lparr>wstore := S\<rparr>)) r \<noteq> None"
      if "dbs W s = Some D" "r \<in> set (cf_handles D)" for s D r
      using db_okD(5) [OF ok [OF that(1)] that(2)] .
    show "apart sh D D'" if "dbs (W\<lparr>wstore := S\<rparr>) 0 = Some D" "s \<noteq> 0" "dbs W s = Some D'" for s D D'
      using I(3) [of 0 D s D'] that by simp
  qed (use assms(2) ok in simp_all)
qed

lemma weakrefs_effect:
  assumes "weakrefs E (fam_cf L) rs S = (res, S')" "store_inv E L issued S d"
  shows "store_inv E L issued S' d \<and> (\<forall>r. reals S' r = None \<longleftrightarrow> reals S r = None)"
  using assms
proof (induction rs arbitrary: S res)
  case Nil
  then show ?case by simp
next
  case (Cons r rs)
  show ?case
  proof (cases "weakref_get E (fam_cf L) r S")
    case (Inl e)
    then show ?thesis using Cons.prems by simp
  next
    case (Inr iS)
    obtain i S1 where iS: "iS = (i, S1)" by (cases iS)
    have w: "weakref_get E (fam_cf L) r S = Inr (i, S1)" using Inr iS by simp
    obtain r2 S2 where rest: "weakrefs E (fam_cf L) rs S1 = (r2, S2)" by fastforce
    have "S2 = S'" using Cons.prems(1) w rest by (auto split: sum.splits)
    then show ?thesis
      using Cons.IH [OF rest [unfolded \<open>S2 = S'\<close>] store_inv_weakref [OF Cons.prems(2) w]] weakref_get_store [OF w] by simp
  qed
qed

lemma world_inv_lookup:
  assumes "world_inv E L issued sh W" "DB_get_column_family E L self name W = (res, W')"
  shows "world_inv E L issued sh W'"
proof -
  have "W' = W \<or> (\<exists>r i S. weakref_get E (fam_cf L) r (wstore W) = Inr (i, S) \<and> W' = W\<lparr>wstore := S\<rparr>)"
    using assms(2) by (auto simp: DB_get_column_family_def split: option.splits sum.splits prod.splits)
  then show ?thesis
  proof (elim disjE exE conjE)
    fix r i S
    assume w: "weakref_get E (fam_cf L) r (wstore W) = Inr (i, S)" "W' = W\<lparr>wstore := S\<rparr>"
    show ?thesis
      unfolding w(2)
      by (rule world_inv_store [OF assms(1) store_inv_weakref [OF world_invD(1) [OF assms(1)] w(1)]])
        (simp add: weakref_get_store [OF w(1), THEN conjunct1])
  qed (use assms(1) in simp)
qed

lemma world_inv_list:
  assumes "world_inv E L issued sh W" "DB_column_families E L self W = (res, W')"
  shows "world_inv E L issued sh W'"
proof (cases "dbs W self")
  case None
  then show ?thesis using assms by (simp add: DB_column_families_def)
next
  case (Some D)
  obtain r S where w: "weakrefs E (fam_cf L) (cf_handles D) (wstore W) = (r, S)" by fastforce
  then have W': "W' = W\<lparr>wstore := S\<rparr>" using assms(2) Some by (simp add: DB_column_families_def)
  note e = weakrefs_effect [OF w world_invD(1) [OF assms(1)]]
  show ?thesis
    unfolding W' by (rule world_inv_store [OF assms(1)]) (simp_all add: e)
qed

end
