(* ===== verification/FamilyLifecycle.thy ===== *)
theory FamilyLifecycle
  imports FamilyInvariant
begin

section \<open>The life of databases and families\<close>

text \<open>
  The step relation of the operations on databases and families, the states a process can reach, and
  the properties of opening, closing, creating and dropping, with a small process as an example.
\<close>

subsection \<open>The life of a process\<close>

text \<open>
  The steps: a \<open>DB\<close> object is created (or fails to be) or destroyed, a family is created, dropped,
  looked up, the families are listed, and RocksDB goes on with its data. \<open>sh\<close> remembers whether some
  \<open>DB\<close> was constructed with its own options object given again as the options of a family, which the
  code accepts: see \<open>options_alias_example\<close>.
\<close>

definition given_again :: "nat \<Rightarrow> (pyobj \<times> pyobj) list option \<Rightarrow> bool" where
  "given_again opts fams \<longleftrightarrow> (case fams of None \<Rightarrow> False | Some kvs \<Rightarrow> PObj opts \<in> snd ` set kvs)"

inductive world_step ::
    "pyenv \<Rightarrow> 'd family_lib \<Rightarrow> ('d \<Rightarrow> nat set) \<Rightarrow> bool \<Rightarrow> 'd world \<Rightarrow> bool \<Rightarrow> 'd world \<Rightarrow> bool"
  for E L issued where
  step_new: "dbs W self = None \<Longrightarrow>
    world_step E L issued sh W (sh \<or> given_again opts fams) (snd (DB_new E L self n opts fams ro W))"
| step_close: "world_step E L issued sh W sh (DB_dealloc L self W)"
| step_create: "world_step E L issued sh W sh (snd (DB_create_column_family E L self name copts W))"
| step_drop: "world_step E L issued sh W sh (snd (DB_drop_column_family L self i W))"
| step_lookup: "world_step E L issued sh W sh (snd (DB_get_column_family E L self name W))"
| step_list: "world_step E L issued sh W sh (snd (DB_column_families E L self W))"
| step_data: "issued (rocks W) \<subseteq> issued d \<Longrightarrow> world_step E L issued sh W sh (W\<lparr>rocks := d\<rparr>)"

definition start_world :: "'d \<Rightarrow> 'd world" where
  "start_world d = \<lparr>wstore = empty_store, in_use = (\<lambda>_. False), info_logs = (\<lambda>_. None),
     dbs = (\<lambda>_. None), rocks = d\<rparr>"

inductive world_reachable :: "pyenv \<Rightarrow> 'd family_lib \<Rightarrow> ('d \<Rightarrow> nat set) \<Rightarrow> bool \<Rightarrow> 'd world \<Rightarrow> bool"
  for E L issued where
  world_start: "world_reachable E L issued False (start_world d)"
| world_next: "world_reachable E L issued sh W \<Longrightarrow> world_step E L issued sh W sh' W' \<Longrightarrow>
    world_reachable E L issued sh' W'"

lemma world_inv_data:
  assumes "world_inv E L issued sh W" "issued (rocks W) \<subseteq> issued d"
  shows "world_inv E L issued sh (W\<lparr>rocks := d\<rparr>)"
proof -
  note I = world_invD [OF assms(1)]
  have ok: "db_ok sh (W\<lparr>rocks := d\<rparr>) D" if "dbs W s = Some D" for s D
    using I(2) [OF that] by (simp add: db_ok_def)
  show ?thesis
    unfolding world_inv_def using store_inv_mono [OF I(1) assms(2)] ok I(3) by simp
qed

lemma world_inv_step:
  assumes "world_step E L issued sh W sh' W'" "world_inv E L issued sh W" "fam_contract L issued"
  shows "world_inv E L issued sh' W'"
  using assms(1)
proof cases
  case (step_new self opts fams n ro)
  obtain res W1 where n: "DB_new E L self n opts fams ro W = (res, W1)" by fastforce
  have "\<forall>kvs. fams = Some kvs \<longrightarrow> PObj opts \<notin> snd ` set kvs"
    if "\<not> (sh \<or> given_again opts fams)"
    using that by (auto simp: given_again_def simp del: image_iff split: option.splits)
  then show ?thesis
    using world_inv_new [OF world_inv_shared [OF assms(2), of "given_again opts fams"] assms(3) step_new(3) _ n]
      step_new(1,2) n by auto
next
  case (step_close self)
  then show ?thesis using world_inv_dealloc [OF assms(2,3)] by simp
next
  case (step_create self name copts)
  then show ?thesis using world_inv_create [OF assms(2,3) surjective_pairing] by simp
next
  case (step_drop self i)
  then show ?thesis using world_inv_drop [OF assms(2,3) surjective_pairing] by simp
next
  case (step_lookup self name)
  then show ?thesis using world_inv_lookup [OF assms(2) surjective_pairing] by simp
next
  case (step_list self)
  then show ?thesis using world_inv_list [OF assms(2) surjective_pairing] by simp
next
  case (step_data d)
  then show ?thesis using world_inv_data [OF assms(2)] by simp
qed

lemma world_inv_start: "world_inv E L issued sh (start_world d)"
  by (simp add: world_inv_def store_inv_def start_world_def cf_reachable.start)
    (simp add: empty_store_def)

lemma reachable_world_inv:
  "world_reachable E L issued sh W \<Longrightarrow> fam_contract L issued \<Longrightarrow> world_inv E L issued sh W"
  by (induction rule: world_reachable.induct) (auto intro: world_inv_start world_inv_step)

subsection \<open>Looking a family up\<close>

lemma find_family_Some_append:
  assumes "find_family L S rs name = None" "reals S r = Some h" "real_name (fam_cf L) h = name"
  shows "find_family L S (rs @ [r]) name = Some r"
  using assms by (induction rs) (auto simp: find_family_def split: if_splits option.splits)

lemma find_family_cong:
  assumes "\<And>r. r \<in> set rs \<Longrightarrow> map_option (real_name (fam_cf L)) (reals S' r) =
      map_option (real_name (fam_cf L)) (reals S r)"
  shows "find_family L S' rs name = find_family L S rs name"
  using assms
proof (induction rs)
  case Nil
  then show ?case by (simp add: find_family_def)
next
  case (Cons r rs)
  have "(case reals S' r of Some h \<Rightarrow> real_name (fam_cf L) h = name | None \<Rightarrow> False) =
      (case reals S r of Some h \<Rightarrow> real_name (fam_cf L) h = name | None \<Rightarrow> False)"
    using Cons.prems [of r] by (auto split: option.splits)
  then show ?case using Cons.IH Cons.prems by (simp add: find_family_def)
qed

lemma one_weak_object:
  assumes "weak_inv S" "cfs S i = Some c" "cfs S j = Some d" "wr_target (cf_ref c) = wr_target (cf_ref d)"
    "reals S (wr_target (cf_ref c)) = Some h"
  shows "i = j"
  using weak_invD(6) [OF assms(1,2,5)] weak_invD(6) [OF assms(1,3), of h] assms(4,5) by simp

lemma get_handle_cong:
  assumes "cfs S' j = cfs S j" "\<And>c. cfs S j = Some c \<Longrightarrow> reals S' (wr_target (cf_ref c)) = reals S (wr_target (cf_ref c))"
  shows "get_handle S' j = get_handle S j"
  using assms by (auto simp: get_handle_def deref_def split: option.splits)

text \<open>RocksDB documents that a handle carries the name its family was created with.\<close>

definition names_kept :: "'d family_lib \<Rightarrow> bool" where
  "names_kept L \<longleftrightarrow> (\<forall>db o' n d st h d'. fam_create L db o' n d = (Inr (st, h), d') \<longrightarrow> st_ok st \<longrightarrow>
     GetName (fam_cf L) h = n)"

subsection \<open>Properties\<close>


text \<open>
  C27. A successful drop_column_family makes the handle it was given invalid and no other one, frees
  exactly the options object that belonged to that handle, and keeps the two lists of the database
  aligned.
\<close>

theorem drop_invalidates_exactly_one:
  assumes "world_reachable E L issued sh W" "fam_contract L issued"
    and "DB_drop_column_family L self i W = (Inr v, W')"
  shows "v = PNone \<and>
    get_handle (wstore W') i = Inl (Exn ValueError (Fmt ''%s is no longer a valid ColumnFamilyHandle!'' [PCF i])) \<and>
    (\<forall>j. j \<noteq> i \<longrightarrow> get_handle (wstore W') j = get_handle (wstore W) j) \<and>
    (\<exists>D D' idx c. dbs W self = Some D \<and> cfs (wstore W) i = Some c \<and> idx < length (cf_handles D) \<and>
       cf_handles D ! idx = wr_target (cf_ref c) \<and> dbs W' = (dbs W)(self \<mapsto> D') \<and>
       zip (cf_handles D') (cf_options D') = remove_at idx (zip (cf_handles D) (cf_options D)) \<and>
       in_use W' = (\<lambda>p. in_use W p \<and> cf_options D ! idx \<noteq> Some p))"
  using assms(3)
proof (cases rule: DB_drop_cases)
  case (failed e)
  then show ?thesis by simp
next
  case (dropped D db c h st idx)
  note I = reachable_world_inv [OF assms(1,2)]
  note wi = reachable_weak [OF store_invD(1) [OF world_invD(1) [OF I]]]
  obtain g where g: "reals (wstore W) (wr_target (cf_ref c)) = Some g"
    using dropped(4,5) by (auto simp: get_handle_iff)
  have S': "reals (wstore W') = (reals (wstore W))(wr_target (cf_ref c) := None)"
    "cfs (wstore W') = cfs (wstore W)"
    using g by (simp_all add: dropped(11) dealloc_real_def)
  have "get_handle (wstore W') j = get_handle (wstore W) j" if "j \<noteq> i" for j
    by (rule get_handle_cong) (use S' one_weak_object [OF wi dropped(4) _ _ g] that in auto)
  moreover have "get_handle (wstore W') i =
      Inl (Exn ValueError (Fmt ''%s is no longer a valid ColumnFamilyHandle!'' [PCF i]))"
    using S' dropped(4) by (simp add: get_handle_def deref_def)
  moreover have "zip (remove_at idx (cf_handles D)) (remove_at idx (cf_options D)) =
      remove_at idx (zip (cf_handles D) (cf_options D))"
    using dropped(8,9) by (simp add: remove_at_def take_zip drop_zip zip_append)
  moreover have "\<exists>D D' idx c. dbs W self = Some D \<and> cfs (wstore W) i = Some c \<and>
      idx < length (cf_handles D) \<and> cf_handles D ! idx = wr_target (cf_ref c) \<and>
      dbs W' = (dbs W)(self \<mapsto> D') \<and>
      zip (cf_handles D') (cf_options D') = remove_at idx (zip (cf_handles D) (cf_options D)) \<and>
      in_use W' = (\<lambda>p. in_use W p \<and> cf_options D ! idx \<noteq> Some p)"
    by (intro exI [of _ D] exI [of _ "D\<lparr>cf_options := remove_at idx (cf_options D),
        cf_handles := remove_at idx (cf_handles D)\<rparr>"] exI [of _ idx] exI [of _ c])
      (use dropped calculation in simp)
  ultimately show ?thesis using dropped(1) by blast
qed

text \<open>
  C28. A family just created is found again: create_column_family answers a handle, looking the name
  up answers the same object without any change, creating the name again is refused without any
  change, and before the call the name was not found.
\<close>

theorem create_then_get:
  assumes "world_reachable E L issued sh W" "fam_contract L issued" "names_kept L"
    and "DB_create_column_family E L self (PBytes n) copts W = (Inr v, W')"
  shows "DB_get_column_family E L self (PBytes n) W = (Inr PNone, W) \<and>
    DB_get_column_family E L self (PBytes n) W' = (Inr v, W') \<and>
    DB_create_column_family E L self (PBytes n) copts' W' =
      (Inl (Exn ValueError (Fmt ''%s is already an existing column family'' [PBytes n])), W')"
  using assms(4)
proof (cases rule: DB_create_cases)
  case (created D db c_name st h S)
  note I = reachable_world_inv [OF assms(1,2)]
  let ?r = "fresh (wstore W)"
  have cn: "c_name = n" using created(4) by (simp add: convert_string_from_py_def)
  have name: "GetName (fam_cf L) h = n"
    using assms(3) created(6,7) cn unfolding names_kept_def by blast
  obtain i where i: "weakref_get E (fam_cf L) ?r S = Inr (i, wstore W')" "v = PCF i"
    using created(11) by auto
  have Sr: "reals S ?r = Some \<lparr>handle = h, weak_handle = None\<rparr>"
    by (simp add: created(10) from_handle_ptr_def)
  have r': "reals (wstore W') = (reals S)(?r \<mapsto> \<lparr>handle = h, weak_handle = Some i\<rparr>)"
    using i(1) by (rule weakref_get_cases) (use Sr in auto)
  have old: "find_family L (wstore W') (cf_handles D) (PBytes n) = None"
  proof -
    have "find_family L (wstore W') (cf_handles D) (PBytes n) =
        find_family L (wstore W) (cf_handles D) (PBytes n)"
    proof (rule find_family_cong)
      fix r assume "r \<in> set (cf_handles D)"
      then have "r < ?r"
        using store_fresh [OF world_invD(1) [OF I]] db_okD(5) [OF world_invD(2) [OF I created(1)]] by blast
      then show "map_option (real_name (fam_cf L)) (reals (wstore W') r) =
          map_option (real_name (fam_cf L)) (reals (wstore W) r)"
        by (simp add: r' created(10) from_handle_ptr_def)
    qed
    then show ?thesis using created(5) by simp
  qed
  have found: "find_family L (wstore W') (cf_handles D @ [?r]) (PBytes n) = Some ?r"
    by (rule find_family_Some_append [OF old, where h = "\<lparr>handle = h, weak_handle = Some i\<rparr>"])
      (simp_all add: r' real_name_def name convert_PyBytes_string_to_py_def)
  have w: "weakref_get E (fam_cf L) ?r (wstore W') = Inr (i, wstore W')"
    by (simp add: weakref_get_def r')
  have D': "dbs W' self = Some (D\<lparr>cf_handles := cf_handles D @ [?r],
      cf_options := cf_options D @ [Some copts]\<rparr>)"
    using created(8) by simp
  show ?thesis
    using created(1,5) found w D' i(2)
    by (simp add: DB_get_column_family_def DB_create_column_family_def bytes_or_None_def
        convert_string_from_py_def)
qed simp_all

text \<open>
  C29. Closing a database invalidates every handle of its families, frees exactly the options objects
  it held, and leaves the handles and options of everyone else alone.
\<close>

theorem close_releases_everything:
  assumes "world_reachable E L issued sh W" "fam_contract L issued" "dbs W self = Some D"
  shows "dbs (DB_dealloc L self W) = (dbs W)(self := None) \<and>
    (\<forall>p. in_use (DB_dealloc L self W) p \<longleftrightarrow> in_use W p \<and> p \<notin> set (uses D)) \<and>
    (\<forall>i c. cfs (wstore W) i = Some c \<longrightarrow>
       get_handle (wstore (DB_dealloc L self W)) i =
         (if wr_target (cf_ref c) \<in> set (cf_handles D)
          then Inl (Exn ValueError (Fmt ''%s is no longer a valid ColumnFamilyHandle!'' [PCF i]))
          else get_handle (wstore W) i))"
proof -
  note I = reachable_world_inv [OF assms(1,2)]
  note O = db_okD [OF world_invD(2) [OF I assms(3)]]
  note X = DB_dealloc_effect [OF assms(3), of L]
  have u: "p \<in> set (uses D) \<longleftrightarrow> Some p \<in> set (cf_options D) \<or> db_opts D = Some p" for p
    by (auto simp: uses_def split: option.splits) force
  have "in_use (DB_dealloc L self W) p \<longleftrightarrow> in_use W p \<and> p \<notin> set (uses D)" for p
    using X(3) [of p] u [of p] O(1) by auto
  moreover have "get_handle (wstore (DB_dealloc L self W)) i =
         (if wr_target (cf_ref c) \<in> set (cf_handles D)
          then Inl (Exn ValueError (Fmt ''%s is no longer a valid ColumnFamilyHandle!'' [PCF i]))
          else get_handle (wstore W) i)" if "cfs (wstore W) i = Some c" for i c
    using that X(2) O(1) release_handles_effect [of "cf_handles D" "wstore W"]
    by (auto simp: get_handle_def deref_def)
  ultimately show ?thesis using X(1) by blast
qed

text \<open>
  A failed open does not free the options of the families: when RocksDB refuses to open (no
  database pointer), the options object of a requested family stays marked as used although no
  database holds it, so opening again with it always fails.
\<close>

theorem failed_open_leaks_options:
  assumes "world_reachable E L issued False W" "fam_contract L issued"
    and "dbs W self = None" "\<not> in_use W opts" "path_to_string E n = Inr path"
    and "PyObject_IsTrue E ro = Inr b"
    and "collect_families L ((PBytes f, PObj p) # kvs) (set_db self empty_db W) = (Inr ds, W1)"
    and "\<And>descs d. \<exists>st d'. fam_open L b opts path descs d = (Inr (st, [], None), d') \<and> \<not> st_ok st"
    and "DB_new E L self n opts (Some ((PBytes f, PObj p) # kvs)) ro W = (res, W')"
    and "PObj opts \<notin> snd ` set ((PBytes f, PObj p) # kvs)"
  shows "(\<exists>e. res = Inl e) \<and> in_use W' p \<and> (\<forall>s D. dbs W' s = Some D \<longrightarrow> p \<notin> set (uses D)) \<and>
    fst (DB_new E L self n opts (Some ((PBytes f, PObj p) # kvs')) ro W') =
      Inl (Exn PlainException
        (Fmt ''ColumnFamilyOptions object for %s is already used by another Column Family'' [PBytes f]))"
proof -
  let ?W0 = "set_db self empty_db W"
  let ?kvs = "(PBytes f, PObj p) # kvs"
  define descs where "descs = (if wants_default L (Some ?kvs) then [(kDefaultColumnFamilyName L, None)] else []) @
      map (\<lambda>(n, i). (n, Some i)) ds"
  note F = collect_families_frame [OF assms(7)]
  note K = collect_families_ok [OF assms(7)]
  have pc: "is_cf_options L p" "\<not> in_use W p" "p \<in> set (map snd ds)"
    using assms(7) by (auto split: if_splits sum.splits prod.splits)
  obtain st d' where o': "fam_open L b opts path descs (rocks W1) = (Inr (st, [], None), d')" "\<not> st_ok st"
    using assms(8) by blast
  obtain e where e: "check_status st = Inl e" using check_status_error [OF o'(2)] by blast
  define W2 where "W2 = set_db self (empty_db\<lparr>db_ptr := None, cf_options := map snd descs\<rparr>) (W1\<lparr>rocks := d'\<rparr>)"
  have c: "DB_cinit E L self n opts (Some ?kvs) ro ?W0 = (Inl e, W2)"
    unfolding DB_cinit_def W2_def Let_def option.case assms(5,6,7) sum.case prod.case
      default_family_def open_families_def descs_def [symmetric] o' e using assms(4) by simp
  have r: "res = Inl e" "W' = DB_dealloc L self W2" using assms(9) c by (simp_all add: DB_new_def)
  have D: "dbs W2 self = Some (empty_db\<lparr>db_ptr := None, cf_options := map snd descs\<rparr>)"
    by (simp add: W2_def)
  note X = DB_dealloc_effect [OF D, of L]
  have use: "in_use W' q \<longleftrightarrow> in_use W q \<or> q \<in> set (map snd ds)" for q
    using X(3) [of q] r(2) K by (simp add: W2_def empty_db_def)
  have dbs: "dbs W' = dbs W"
    using X(1) r(2) F assms(3) by (auto simp: W2_def)
  have "q \<notin> set (uses D)" if "dbs W' s = Some D" "q = p" for s D q
    using that dbs pc(2) db_okD(7) [OF world_invD(2) [OF reachable_world_inv [OF assms(1,2)]]] by auto
  moreover have "fst (DB_new E L self n opts (Some ((PBytes f, PObj p) # kvs')) ro W') =
      Inl (Exn PlainException
        (Fmt ''ColumnFamilyOptions object for %s is already used by another Column Family'' [PBytes f]))"
  proof -
    have "in_use W' p" using use pc(3) by blast
    moreover have "\<not> in_use W' opts" using use assms(4,10) K by auto
    ultimately show ?thesis
      using pc(1) assms(5) by (simp add: DB_new_def DB_cinit_def)
  qed
  ultimately show ?thesis using r(1) use pc(3) by blast
qed

text \<open>
  The same happens to a family that RocksDB refuses to create: the exception is reported, but the
  options object stays marked as used although no database holds it, and creating the family again
  with it is refused.
\<close>

theorem failed_create_leaks_options:
  assumes "world_reachable E L issued False W" "fam_contract L issued"
    and "dbs W self = Some D" "find_family L (wstore W) (cf_handles D) (PBytes n) = None"
    and "\<not> in_use W copts"
    and "\<And>db d. \<exists>st h d'. fam_create L db copts n d = (Inr (st, h), d') \<and> \<not> st_ok st"
    and "DB_create_column_family E L self (PBytes n) copts W = (res, W')"
  shows "(\<exists>e. res = Inl e) \<and> in_use W' copts \<and> (\<forall>s D. dbs W' s = Some D \<longrightarrow> copts \<notin> set (uses D)) \<and>
    DB_create_column_family E L self (PBytes n) copts W' =
      (Inl (plain_exception ''ColumnFamilyOptions are in_use by another column family''), W')"
proof -
  note I = reachable_world_inv [OF assms(1,2)]
  obtain db where db: "db_ptr D = Some db" using db_okD(1) [OF world_invD(2) [OF I assms(3)]] by blast
  obtain st h d' where c: "fam_create L db copts n (rocks W) = (Inr (st, h), d')" "\<not> st_ok st"
    using assms(6) by blast
  obtain e where e: "check_status st = Inl e" using check_status_error [OF c(2)] by blast
  have r: "res = Inl e" "W' = (set_in_use copts True W)\<lparr>rocks := d'\<rparr>"
    using assms(7) assms(3,4,5) db c e
    by (simp_all add: DB_create_column_family_def bytes_or_None_def convert_string_from_py_def Let_def)
  have "copts \<notin> set (uses D')" if "dbs W' s = Some D'" for s D'
    using that r(2) assms(5) db_okD(7) [OF world_invD(2) [OF I]] by auto
  moreover have "DB_create_column_family E L self (PBytes n) copts W' =
      (Inl (plain_exception ''ColumnFamilyOptions are in_use by another column family''), W')"
    using r(2) assms(3,4)
    by (simp add: DB_create_column_family_def bytes_or_None_def convert_string_from_py_def)
  ultimately show ?thesis using r by simp
qed

subsection \<open>A process for examples\<close>

definition fam_demo :: "nat family_lib" where
  "fam_demo = \<lparr>
     fam_open = (\<lambda>ro p path ds d. if path = [] then (Inr (status_of InvalidArgumentCode [], [], None), d)
       else (Inr (status_of Ok [], [d..<d + length ds], Some 0), d + length ds)),
     fam_info_log = (\<lambda>_ _ _. Inr None), fam_default = (\<lambda>_ _. 0), fam_delete_db = (\<lambda>_ d. d),
     fam_create = (\<lambda>_ _ n d. if n = [of_nat d] then (Inr (status_of Ok [], d), d + 1)
       else (Inr (status_of InvalidArgumentCode [], 0), d)),
     fam_drop = (\<lambda>_ _ d. (Inr (status_of Ok []), d)), fam_cf = demo_lib,
     kDefaultColumnFamilyName = [100], is_cf_options = (\<lambda>_. True), has_hook = (\<lambda>_ _. False)\<rparr>"

lemma fam_demo_contract: "fam_contract fam_demo (\<lambda>d. {..<d})"
  unfolding fam_contract_def
  by (auto simp: fam_demo_def status_of_def split: if_splits)

lemma fam_demo_names: "names_kept fam_demo"
  by (auto simp: names_kept_def fam_demo_def demo_lib_def status_of_def split: if_splits)

definition demo_opened :: "nat world" where
  "demo_opened = \<lparr>wstore = \<lparr>reals = [0 \<mapsto> \<lparr>handle = 3, weak_handle = None\<rparr>], cfs = Map.empty,
       deleted = [], fresh = 1\<rparr>,
     in_use = (\<lambda>_. False)(5 := True), info_logs = (\<lambda>_. None),
     dbs = [0 \<mapsto> \<lparr>db_ptr = Some 0, db_opts = Some 5, cf_handles = [0], cf_options = [None]\<rparr>],
     rocks = 4\<rparr>"

definition demo_created :: "nat world" where
  "demo_created = \<lparr>wstore = \<lparr>reals = [0 \<mapsto> \<lparr>handle = 3, weak_handle = None\<rparr>,
         1 \<mapsto> \<lparr>handle = 4, weak_handle = Some 3\<rparr>],
       cfs = [3 \<mapsto> \<lparr>cf_ref = Weakref 2 1, cf_name = [4], cf_id = 4\<rparr>], deleted = [], fresh = 4\<rparr>,
     in_use = (\<lambda>_. False)(5 := True, 6 := True), info_logs = (\<lambda>_. None),
     dbs = [0 \<mapsto> \<lparr>db_ptr = Some 0, db_opts = Some 5, cf_handles = [0, 1], cf_options = [None, Some 6]\<rparr>],
     rocks = 5\<rparr>"

lemma demo_open:
  "DB_new plain_env fam_demo 0 (PBytes [1]) 5 None (PBool False) (start_world 3) = (Inr (), demo_opened)"
  by (simp add: DB_new_def DB_cinit_def start_world_def path_to_string_def wants_default_def fam_demo_def
      finish_open_def from_handle_ptr_def empty_store_def empty_db_def set_db_def set_in_use_def
      inject_log_def demo_opened_def status_of_def fun_eq_iff)

lemma demo_create:
  "DB_create_column_family plain_env fam_demo 0 (PBytes [4]) 6 demo_opened = (Inr (PCF 3), demo_created)"
proof -
  have "PyInt_As_int plain_env (PInt 4) = Inr 4"
    by (simp add: slot_int.as_valid in_range_def ctype_defs)
  moreover have "PyInt_From_int (c_cast c_int 4) = PInt 4"
    by (simp add: PyInt_From_int_def PyInt_From_def c_cast_def ctype_defs)
  ultimately show ?thesis
    by (simp add: DB_create_column_family_def demo_opened_def demo_created_def bytes_or_None_def
        convert_string_from_py_def find_family_def fam_demo_def real_name_def demo_lib_def
        convert_PyBytes_string_to_py_def from_handle_ptr_def set_db_def set_in_use_def status_of_def
        weakref_get_def from_wrapper_def ColumnFamilyHandle_cinit_def deref_def real_id_def fun_eq_iff)
qed

lemma demo_opened_reachable: "world_reachable plain_env fam_demo (\<lambda>d. {..<d}) False demo_opened"
proof -
  have "world_step plain_env fam_demo (\<lambda>d. {..<d}) False (start_world 3) (False \<or> given_again 5 None)
      (snd (DB_new plain_env fam_demo 0 (PBytes [1]) 5 None (PBool False) (start_world 3)))"
    by (rule step_new) (simp add: start_world_def)
  then show ?thesis using world_next [OF world_start] by (simp add: demo_open given_again_def)
qed

lemma demo_created_reachable: "world_reachable plain_env fam_demo (\<lambda>d. {..<d}) False demo_created"
  using world_next [OF demo_opened_reachable step_create [where self = 0 and name = "PBytes [4]" and copts = 6]]
  by (simp add: demo_create)


theorem drop_invalidates_exactly_one_witness:
  "get_handle (wstore (snd (DB_drop_column_family fam_demo 0 3 demo_created))) 3 =
     Inl (Exn ValueError (Fmt ''%s is no longer a valid ColumnFamilyHandle!'' [PCF 3]))"
proof -
  obtain res W' where d: "DB_drop_column_family fam_demo 0 3 demo_created = (res, W')" by fastforce
  have "fst (DB_drop_column_family fam_demo 0 3 demo_created) = Inr PNone"
    by (simp add: DB_drop_column_family_def demo_created_def get_handle_def deref_def fam_demo_def status_of_def
        Let_def)
  then have d: "DB_drop_column_family fam_demo 0 3 demo_created = (Inr PNone, W')" using d by simp
  show ?thesis
    using drop_invalidates_exactly_one [OF demo_created_reachable fam_demo_contract d, THEN conjunct2,
        THEN conjunct1] d by simp
qed

theorem create_then_get_witness:
  "DB_get_column_family plain_env fam_demo 0 (PBytes [4]) demo_created = (Inr (PCF 3), demo_created)"
  using create_then_get [OF demo_opened_reachable fam_demo_contract fam_demo_names demo_create] by blast

theorem close_releases_everything_witness:
  "\<not> in_use (DB_dealloc fam_demo 0 demo_created) 6"
proof -
  let ?D = "\<lparr>db_ptr = Some 0, db_opts = Some 5, cf_handles = [0, 1], cf_options = [None, Some 6]\<rparr>"
  have "dbs demo_created 0 = Some ?D" by (simp add: demo_created_def)
  from close_releases_everything [OF demo_created_reachable fam_demo_contract this]
  show ?thesis by (simp add: uses_def)
qed

theorem failed_open_leaks_options_witness:
  "in_use (snd (DB_new plain_env fam_demo 1 (PBytes []) 7 (Some [(PBytes [9], PObj 8)]) (PBool False)
     demo_created)) 8"
proof -
  have c: "collect_families fam_demo [(PBytes [9], PObj 8)] (set_db 1 empty_db demo_created) =
      (Inr [([9], 8)], set_in_use 8 True (set_db 1 empty_db demo_created))"
    by (simp add: fam_demo_def demo_created_def)
  obtain res W' where n: "DB_new plain_env fam_demo 1 (PBytes []) 7 (Some [(PBytes [9], PObj 8)]) (PBool False)
     demo_created = (res, W')" by fastforce
  have "in_use W' 8"
    by (rule failed_open_leaks_options [where path = "[]" and b = False, OF demo_created_reachable fam_demo_contract _ _ _ _ c _ n,
          THEN conjunct2, THEN conjunct1])
      (auto simp: demo_created_def path_to_string_def fam_demo_def status_of_def)
  then show ?thesis using n by simp
qed

theorem failed_create_leaks_options_witness:
  "in_use (snd (DB_create_column_family plain_env fam_demo 0 (PBytes []) 8 demo_created)) 8"
proof -
  let ?D = "\<lparr>db_ptr = Some 0, db_opts = Some 5, cf_handles = [0, 1], cf_options = [None, Some 6]\<rparr>"
  have d: "dbs demo_created 0 = Some ?D" by (simp add: demo_created_def)
  obtain res W' where n: "DB_create_column_family plain_env fam_demo 0 (PBytes []) 8 demo_created = (res, W')"
    by fastforce
  have "in_use W' 8"
    by (rule failed_create_leaks_options [OF demo_created_reachable fam_demo_contract d _ _ _ n,
          THEN conjunct2, THEN conjunct1])
      (auto simp: demo_created_def find_family_def real_name_def demo_lib_def fam_demo_def status_of_def
        convert_PyBytes_string_to_py_def)
  then show ?thesis using n by simp
qed

text \<open>
  The same object as options of the database and of a family: dropping the family then frees the
  options of a database that is still open.
\<close>

lemma options_alias_example:
  "let W1 = snd (DB_new plain_env fam_demo 0 (PBytes [1]) 5 (Some [(PBytes [100], PObj 5)]) (PBool False)
       (start_world 3));
     W2 = snd (DB_get_column_family plain_env fam_demo 0 (PBytes [3]) W1);
     W3 = snd (DB_drop_column_family fam_demo 0 2 W2)
   in in_use W1 5 \<and> map_option db_opts (dbs W3 0) = Some (Some 5) \<and> \<not> in_use W3 5"
proof -
  have "PyInt_As_int plain_env (PInt 3) = Inr 3"
    by (simp add: slot_int.as_valid in_range_def ctype_defs)
  moreover have "PyInt_From_int (c_cast c_int 3) = PInt 3"
    by (simp add: PyInt_From_int_def PyInt_From_def c_cast_def ctype_defs)
  ultimately show ?thesis
    by (simp add: DB_new_def DB_cinit_def start_world_def path_to_string_def wants_default_def fam_demo_def
      finish_open_def from_handle_ptr_def empty_store_def empty_db_def set_db_def set_in_use_def
      inject_log_def status_of_def DB_get_column_family_def bytes_or_None_def find_family_def real_name_def
      demo_lib_def convert_PyBytes_string_to_py_def DB_drop_column_family_def get_handle_def deref_def
      weakref_get_def from_wrapper_def ColumnFamilyHandle_cinit_def real_id_def dealloc_real_def remove_at_def)
qed

end
