(* ===== verification/Iterators.thy ===== *)
theory Iterators
  imports PyIterator Database
begin

section \<open>Iterators and snapshots\<close>

text \<open>
  The iterator classes of \<open>rocksdb/_rocksdb.cpp\<close> over a \<open>rocksdb::Iterator\<close>, their reversed view,
  the methods of \<open>DB\<close> that make them, and snapshots. RocksDB's iterator is a parameter: a record of
  its methods over a state \<open>'i\<close>. Its methods are called without the GIL; each call is one step.
\<close>

subsection \<open>RocksDB's iterator\<close>

record 'i iter_lib =
  it_Valid :: "'i \<Rightarrow> cpp_exn + bool"
  it_key :: "'i \<Rightarrow> cpp_exn + bytes"
  it_value :: "'i \<Rightarrow> cpp_exn + bytes"
  it_status :: "'i \<Rightarrow> cpp_exn + status"
  it_Next :: "'i \<Rightarrow> (cpp_exn + unit) \<times> 'i"
  it_Prev :: "'i \<Rightarrow> (cpp_exn + unit) \<times> 'i"
  it_SeekToFirst :: "'i \<Rightarrow> (cpp_exn + unit) \<times> 'i"
  it_SeekToLast :: "'i \<Rightarrow> (cpp_exn + unit) \<times> 'i"
  it_Seek :: "bytes \<Rightarrow> 'i \<Rightarrow> (cpp_exn + unit) \<times> 'i"
  it_SeekForPrev :: "bytes \<Rightarrow> 'i \<Rightarrow> (cpp_exn + unit) \<times> 'i"

text \<open>
  An iterator object: its class, which decides what \<open>get_ob\<close> returns, the C++ iterator, the
  identity of the column family handle. Calls through a null pointer, which no object made by
  \<open>DB\<close> has, are undefined in C++ and an error here.
\<close>

datatype iter_kind = BaseIterator | KeysIterator | ValuesIterator | ItemsIterator

record 'i db_iter =
  it_kind :: iter_kind
  it_ptr :: "'i option"
  it_handle :: "nat option"

definition BaseIterator_cinit :: "iter_kind \<Rightarrow> nat option \<Rightarrow> 'i db_iter" where
  "BaseIterator_cinit k h = \<lparr>it_kind = k, it_ptr = None, it_handle = h\<rparr>"

definition null_iterator :: pyexn where
  "null_iterator = Exn RuntimeError (Text ''null iterator'')"

definition ptr_read :: "('i \<Rightarrow> cpp_exn + 'a) \<Rightarrow> ('i db_iter, 'a) py" where
  "ptr_read f self =
     (case it_ptr self of None \<Rightarrow> (Inl null_iterator, self) | Some i \<Rightarrow> (catch_cpp (f i), self))"

definition ptr_move :: "('i \<Rightarrow> (cpp_exn + unit) \<times> 'i) \<Rightarrow> ('i db_iter, unit) py" where
  "ptr_move f self =
     (case it_ptr self of
        None \<Rightarrow> (Inl null_iterator, self)
      | Some i \<Rightarrow> (case f i of (r, i') \<Rightarrow> (catch_cpp r, self\<lparr>it_ptr := Some i'\<rparr>)))"

text \<open>\<open>check_status(self.ptr.status())\<close>\<close>

definition check_iter :: "'i iter_lib \<Rightarrow> ('i db_iter, unit) py" where
  "check_iter Q = bind_py (ptr_read (it_status Q)) (\<lambda>st. lift_py (check_status st))"

subsection \<open>What an iterator yields\<close>

definition with_handle :: "nat option \<Rightarrow> bytes \<Rightarrow> pyobj" where
  "with_handle h k = (case h of Some i \<Rightarrow> PTuple [PCF i, slice_to_bytes k] | None \<Rightarrow> slice_to_bytes k)"

definition KeysIterator_get_ob :: "'i iter_lib \<Rightarrow> ('i db_iter, pyobj) py" where
  "KeysIterator_get_ob Q self =
     bind_py (ptr_read (it_key Q)) (\<lambda>c_key.
     bind_py (check_iter Q) (\<lambda>_. ret_py (with_handle (it_handle self) c_key))) self"

definition ValuesIterator_get_ob :: "'i iter_lib \<Rightarrow> ('i db_iter, pyobj) py" where
  "ValuesIterator_get_ob Q =
     bind_py (ptr_read (it_value Q)) (\<lambda>c_value.
     bind_py (check_iter Q) (\<lambda>_. ret_py (slice_to_bytes c_value)))"

definition ItemsIterator_get_ob :: "'i iter_lib \<Rightarrow> ('i db_iter, pyobj) py" where
  "ItemsIterator_get_ob Q self =
     bind_py (ptr_read (it_key Q)) (\<lambda>c_key.
     bind_py (ptr_read (it_value Q)) (\<lambda>c_value.
     bind_py (check_iter Q) (\<lambda>_.
       ret_py (PTuple [with_handle (it_handle self) c_key, slice_to_bytes c_value])))) self"

text \<open>The virtual call \<open>self.get_ob()\<close>.\<close>

definition get_ob :: "'i iter_lib \<Rightarrow> ('i db_iter, pyobj) py" where
  "get_ob Q self =
     (case it_kind self of
        BaseIterator \<Rightarrow> ret_py PNone self
      | KeysIterator \<Rightarrow> KeysIterator_get_ob Q self
      | ValuesIterator \<Rightarrow> ValuesIterator_get_ob Q self
      | ItemsIterator \<Rightarrow> ItemsIterator_get_ob Q self)"

subsection \<open>Moving\<close>

definition BaseIterator_next :: "'i iter_lib \<Rightarrow> ('i db_iter, pyobj) py" where
  "BaseIterator_next Q =
     bind_py (ptr_read (it_Valid Q)) (\<lambda>v.
       if \<not> v then lift_py (Inl (Exn StopIteration NoMsg))
       else bind_py (get_ob Q) (\<lambda>ret.
            bind_py (ptr_move (it_Next Q)) (\<lambda>_.
            bind_py (check_iter Q) (\<lambda>_. ret_py ret))))"

definition BaseIterator_get :: "'i iter_lib \<Rightarrow> ('i db_iter, pyobj) py" where
  "BaseIterator_get Q = get_ob Q"

definition BaseIterator_seek_to_first :: "'i iter_lib \<Rightarrow> ('i db_iter, unit) py" where
  "BaseIterator_seek_to_first Q = bind_py (ptr_move (it_SeekToFirst Q)) (\<lambda>_. check_iter Q)"

definition BaseIterator_seek_to_last :: "'i iter_lib \<Rightarrow> ('i db_iter, unit) py" where
  "BaseIterator_seek_to_last Q = bind_py (ptr_move (it_SeekToLast Q)) (\<lambda>_. check_iter Q)"

definition BaseIterator_seek :: "'i iter_lib \<Rightarrow> pyobj \<Rightarrow> ('i db_iter, unit) py" where
  "BaseIterator_seek Q key =
     bind_py (lift_py (bytes_to_slice key)) (\<lambda>c_key.
     bind_py (ptr_move (it_Seek Q c_key)) (\<lambda>_. check_iter Q))"

definition BaseIterator_seek_for_prev :: "'i iter_lib \<Rightarrow> pyobj \<Rightarrow> ('i db_iter, unit) py" where
  "BaseIterator_seek_for_prev Q key =
     bind_py (lift_py (bytes_to_slice key)) (\<lambda>c_key.
     bind_py (ptr_move (it_SeekForPrev Q c_key)) (\<lambda>_. check_iter Q))"

text \<open>
  \<open>ReversedIterator\<close> wraps an iterator and works on it: its state is the state of the iterator, and
  reversing it gives that iterator back.
\<close>

definition ReversedIterator_next :: "'i iter_lib \<Rightarrow> ('i db_iter, pyobj) py" where
  "ReversedIterator_next Q =
     bind_py (ptr_read (it_Valid Q)) (\<lambda>v.
       if \<not> v then lift_py (Inl (Exn StopIteration NoMsg))
       else bind_py (get_ob Q) (\<lambda>ret.
            bind_py (ptr_move (it_Prev Q)) (\<lambda>_.
            bind_py (check_iter Q) (\<lambda>_. ret_py ret))))"

definition ReversedIterator_seek :: "'i iter_lib \<Rightarrow> pyobj \<Rightarrow> ('i db_iter, pyobj) py" where
  "ReversedIterator_seek Q key = bind_py (BaseIterator_seek Q key) (\<lambda>_. ret_py PNone)"

definition ReversedIterator_seek_for_prev :: "'i iter_lib \<Rightarrow> pyobj \<Rightarrow> ('i db_iter, pyobj) py" where
  "ReversedIterator_seek_for_prev Q key = bind_py (BaseIterator_seek_for_prev Q key) (\<lambda>_. ret_py PNone)"

definition ReversedIterator_seek_to_first :: "'i iter_lib \<Rightarrow> ('i db_iter, pyobj) py" where
  "ReversedIterator_seek_to_first Q = bind_py (BaseIterator_seek_to_first Q) (\<lambda>_. ret_py PNone)"

definition ReversedIterator_seek_to_last :: "'i iter_lib \<Rightarrow> ('i db_iter, pyobj) py" where
  "ReversedIterator_seek_to_last Q = bind_py (BaseIterator_seek_to_last Q) (\<lambda>_. ret_py PNone)"

definition ReversedIterator_get :: "'i iter_lib \<Rightarrow> ('i db_iter, pyobj) py" where
  "ReversedIterator_get Q = BaseIterator_get Q"

subsection \<open>The methods of the database\<close>

text \<open>
  \<open>NewIterators\<close> gets the vector it fills; the code has resized it before (null pointers) and does
  not look at the status it returns.
\<close>

record ('d, 'i) iter_db_lib =
  lib_NewIterator :: "nat \<Rightarrow> read_opts \<Rightarrow> nat \<Rightarrow> 'd \<Rightarrow> (cpp_exn + 'i) \<times> 'd"
  lib_NewIterators :: "nat \<Rightarrow> read_opts \<Rightarrow> nat list \<Rightarrow> 'i option list \<Rightarrow> 'd \<Rightarrow>
     (cpp_exn + status \<times> 'i option list) \<times> 'd"
  lib_GetSnapshot :: "nat \<Rightarrow> 'd \<Rightarrow> (cpp_exn + nat) \<times> 'd"
  lib_ReleaseSnapshot :: "nat \<Rightarrow> nat \<Rightarrow> 'd \<Rightarrow> 'd"

text \<open>A parameter declared \<open>ColumnFamilyHandle\<close> takes a handle or \<open>None\<close>.\<close>

definition handle_arg :: "pyobj \<Rightarrow> pyexn + nat option" where
  "handle_arg x = (case x of PCF i \<Rightarrow> Inr (Some i) | PNone \<Rightarrow> Inr None
     | _ \<Rightarrow> Inl (Exn TypeError (Fmt ''Argument has incorrect type'' [x])))"

definition arg_handle :: "heap \<Rightarrow> nat \<Rightarrow> nat option \<Rightarrow> pyexn + nat" where
  "arg_handle H dflt cf = (case cf of None \<Rightarrow> Inr dflt | Some i \<Rightarrow> get_handle (cf_objects H) i)"

definition DB_iterkeys ::
    "('d, 'b) db_lib \<Rightarrow> ('d, 'i) iter_db_lib \<Rightarrow> pyenv \<Rightarrow> heap \<Rightarrow> nat \<Rightarrow> pyobj \<Rightarrow> pyobj list \<Rightarrow> kwargs \<Rightarrow>
     ('d, 'i db_iter) py" where
  "DB_iterkeys L N E H db column_family args kwds d =
     bind_py (lift_py (handle_arg column_family)) (\<lambda>cf.
     bind_py (lift_py (arg_handle H (lib_DefaultColumnFamily L db d) cf)) (\<lambda>cf_handle.
     bind_py (lift_py (read_options E L H args kwds)) (\<lambda>opts.
     bind_py (cpp_py (lib_NewIterator N db opts cf_handle)) (\<lambda>p.
       ret_py ((BaseIterator_cinit KeysIterator cf)\<lparr>it_ptr := Some p\<rparr>))))) d"

definition DB_itervalues ::
    "('d, 'b) db_lib \<Rightarrow> ('d, 'i) iter_db_lib \<Rightarrow> pyenv \<Rightarrow> heap \<Rightarrow> nat \<Rightarrow> pyobj \<Rightarrow> pyobj list \<Rightarrow> kwargs \<Rightarrow>
     ('d, 'i db_iter) py" where
  "DB_itervalues L N E H db column_family args kwds d =
     bind_py (lift_py (handle_arg column_family)) (\<lambda>cf.
     bind_py (lift_py (arg_handle H (lib_DefaultColumnFamily L db d) cf)) (\<lambda>cf_handle.
     bind_py (lift_py (read_options E L H args kwds)) (\<lambda>opts.
     bind_py (cpp_py (lib_NewIterator N db opts cf_handle)) (\<lambda>p.
       ret_py ((BaseIterator_cinit ValuesIterator None)\<lparr>it_ptr := Some p\<rparr>))))) d"

definition DB_iteritems ::
    "('d, 'b) db_lib \<Rightarrow> ('d, 'i) iter_db_lib \<Rightarrow> pyenv \<Rightarrow> heap \<Rightarrow> nat \<Rightarrow> pyobj \<Rightarrow> pyobj list \<Rightarrow> kwargs \<Rightarrow>
     ('d, 'i db_iter) py" where
  "DB_iteritems L N E H db column_family args kwds d =
     bind_py (lift_py (handle_arg column_family)) (\<lambda>cf.
     bind_py (lift_py (arg_handle H (lib_DefaultColumnFamily L db d) cf)) (\<lambda>cf_handle.
     bind_py (lift_py (read_options E L H args kwds)) (\<lambda>opts.
     bind_py (cpp_py (lib_NewIterator N db opts cf_handle)) (\<lambda>p.
       ret_py ((BaseIterator_cinit ItemsIterator cf)\<lparr>it_ptr := Some p\<rparr>))))) d"

text \<open>
  The methods over several families. \<open>family_handles\<close> is their first loop, \<open>pair_iterators\<close> the last
  one, which takes the next family for each iterator (\<open>StopIteration\<close> when there is none left).
\<close>

definition family_handles :: "pyenv \<Rightarrow> heap \<Rightarrow> pyobj \<Rightarrow> pyexn + nat list" where
  "family_handles E H column_families = for_each E column_families (typed_handle H)"

fun pair_iterators :: "iter_kind \<Rightarrow> 'i option list \<Rightarrow> pyobj list \<Rightarrow> pyexn + 'i db_iter list" where
  "pair_iterators k [] fams = Inr []"
| "pair_iterators k (p # ps) [] = Inl (Exn StopIteration NoMsg)"
| "pair_iterators k (p # ps) (cf # fams) =
     bind_res (handle_arg cf) (\<lambda>h.
     bind_res (pair_iterators k ps fams) (\<lambda>its.
       Inr ((BaseIterator_cinit k h)\<lparr>it_ptr := p\<rparr> # its)))"

definition new_iterators ::
    "('d, 'b) db_lib \<Rightarrow> ('d, 'i) iter_db_lib \<Rightarrow> pyenv \<Rightarrow> heap \<Rightarrow> nat \<Rightarrow> pyobj \<Rightarrow> pyobj list \<Rightarrow> kwargs \<Rightarrow>
     ('d, 'i option list) py" where
  "new_iterators L N E H db column_families args kwds =
     bind_py (lift_py (py_len E column_families)) (\<lambda>n.
     bind_py (lift_py (family_handles E H column_families)) (\<lambda>cf_handles.
     bind_py (lift_py (read_options E L H args kwds)) (\<lambda>opts.
     bind_py (cpp_py (lib_NewIterators N db opts cf_handles (replicate n None))) (\<lambda>(st, iters).
       ret_py iters))))"

definition DB_iterskeys ::
    "('d, 'b) db_lib \<Rightarrow> ('d, 'i) iter_db_lib \<Rightarrow> pyenv \<Rightarrow> heap \<Rightarrow> nat \<Rightarrow> pyobj \<Rightarrow> pyobj list \<Rightarrow> kwargs \<Rightarrow>
     ('d, 'i db_iter list) py" where
  "DB_iterskeys L N E H db column_families args kwds =
     bind_py (new_iterators L N E H db column_families args kwds) (\<lambda>iters.
     bind_py (lift_py (py_iter E column_families)) (\<lambda>(fams, _).
       lift_py (pair_iterators KeysIterator iters fams)))"

definition DB_itersvalues ::
    "('d, 'b) db_lib \<Rightarrow> ('d, 'i) iter_db_lib \<Rightarrow> pyenv \<Rightarrow> heap \<Rightarrow> nat \<Rightarrow> pyobj \<Rightarrow> pyobj list \<Rightarrow> kwargs \<Rightarrow>
     ('d, 'i db_iter list) py" where
  "DB_itersvalues L N E H db column_families args kwds =
     bind_py (new_iterators L N E H db column_families args kwds) (\<lambda>iters.
       ret_py (map (\<lambda>p. (BaseIterator_cinit ValuesIterator None)\<lparr>it_ptr := p\<rparr>) iters))"

text \<open>The second definition with the name \<open>iterskeys\<close>, over items.\<close>

definition DB_iterskeys_items ::
    "('d, 'b) db_lib \<Rightarrow> ('d, 'i) iter_db_lib \<Rightarrow> pyenv \<Rightarrow> heap \<Rightarrow> nat \<Rightarrow> pyobj \<Rightarrow> pyobj list \<Rightarrow> kwargs \<Rightarrow>
     ('d, 'i db_iter list) py" where
  "DB_iterskeys_items L N E H db column_families args kwds =
     bind_py (new_iterators L N E H db column_families args kwds) (\<lambda>iters.
     bind_py (lift_py (py_iter E column_families)) (\<lambda>(fams, _).
       lift_py (pair_iterators ItemsIterator iters fams)))"

text \<open>
  The rows of the method table of \<open>DB\<close> for these three. When the type is made ready, CPython enters
  the rows in order and keeps the first one of a name, so \<open>map_of\<close> is the lookup of a method.
\<close>

definition multi_methods ::
    "('d, 'b) db_lib \<Rightarrow> ('d, 'i) iter_db_lib \<Rightarrow> pyenv \<Rightarrow> heap \<Rightarrow>
     (string \<times> (nat \<Rightarrow> pyobj \<Rightarrow> pyobj list \<Rightarrow> kwargs \<Rightarrow> ('d, 'i db_iter list) py)) list" where
  "multi_methods L N E H =
     [(''iterskeys'', DB_iterskeys L N E H), (''itersvalues'', DB_itersvalues L N E H),
      (''iterskeys'', DB_iterskeys_items L N E H)]"

subsection \<open>Snapshots\<close>

record snapshot_object =
  snap_ptr :: "nat option"
  snap_db :: nat

definition Snapshot_cinit :: "('d, 'i) iter_db_lib \<Rightarrow> nat \<Rightarrow> ('d, snapshot_object) py" where
  "Snapshot_cinit N db =
     bind_py (cpp_py (lib_GetSnapshot N db)) (\<lambda>p. ret_py \<lparr>snap_ptr = Some p, snap_db = db\<rparr>)"

definition Snapshot_dealloc :: "('d, 'i) iter_db_lib \<Rightarrow> snapshot_object \<Rightarrow> 'd \<Rightarrow> 'd" where
  "Snapshot_dealloc N s d = (case snap_ptr s of None \<Rightarrow> d | Some p \<Rightarrow> lib_ReleaseSnapshot N (snap_db s) p d)"

definition DB_snapshot :: "('d, 'i) iter_db_lib \<Rightarrow> nat \<Rightarrow> ('d, snapshot_object) py" where
  "DB_snapshot N db = Snapshot_cinit N db"

subsection \<open>The contract of RocksDB's iterator\<close>

text \<open>
  \<open>ents i\<close> are the entries an iterator runs over, in order, \<open>posn i\<close> its position (\<open>None\<close>: not valid),
  \<open>le\<close> the order of the keys. Every move keeps the entries; without errors the status is OK.
\<close>

definition iter_contract ::
    "'i iter_lib \<Rightarrow> ('i \<Rightarrow> (bytes \<times> bytes) list) \<Rightarrow> ('i \<Rightarrow> nat option) \<Rightarrow> (bytes \<Rightarrow> bytes \<Rightarrow> bool) \<Rightarrow> bool" where
  "iter_contract Q ents posn le \<longleftrightarrow> (\<forall>i.
     (case posn i of None \<Rightarrow> True | Some p \<Rightarrow> p < length (ents i)) \<and>
     it_Valid Q i = Inr (posn i \<noteq> None) \<and> (\<exists>st. it_status Q i = Inr st \<and> st_ok st) \<and>
     (\<forall>p. posn i = Some p \<longrightarrow>
        it_key Q i = Inr (fst (ents i ! p)) \<and> it_value Q i = Inr (snd (ents i ! p)) \<and>
        (\<exists>j. it_Next Q i = (Inr (), j) \<and> ents j = ents i \<and>
           posn j = (if Suc p < length (ents i) then Some (Suc p) else None)) \<and>
        (\<exists>j. it_Prev Q i = (Inr (), j) \<and> ents j = ents i \<and>
           posn j = (case p of 0 \<Rightarrow> None | Suc q \<Rightarrow> Some q))) \<and>
     (\<exists>j. it_SeekToFirst Q i = (Inr (), j) \<and> ents j = ents i \<and>
        posn j = (if ents i = [] then None else Some 0)) \<and>
     (\<exists>j. it_SeekToLast Q i = (Inr (), j) \<and> ents j = ents i \<and>
        posn j = (if ents i = [] then None else Some (length (ents i) - 1))) \<and>
     (\<forall>k. \<exists>j. it_Seek Q k i = (Inr (), j) \<and> ents j = ents i \<and>
        posn j = (let n = length (takeWhile (\<lambda>e. \<not> le k (fst e)) (ents i)) in
           if n < length (ents i) then Some n else None)) \<and>
     (\<forall>k. \<exists>j. it_SeekForPrev Q k i = (Inr (), j) \<and> ents j = ents i \<and>
        posn j = (case length (takeWhile (\<lambda>e. le (fst e) k) (ents i)) of 0 \<Rightarrow> None | Suc n \<Rightarrow> Some n)))"

lemma iter_contractD:
  assumes "iter_contract Q ents posn le"
  shows "posn i = Some p \<Longrightarrow> p < length (ents i)"
    and "it_Valid Q i = Inr (posn i \<noteq> None)"
    and "\<exists>st. it_status Q i = Inr st \<and> st_ok st"
    and "posn i = Some p \<Longrightarrow> it_key Q i = Inr (fst (ents i ! p))"
    and "posn i = Some p \<Longrightarrow> it_value Q i = Inr (snd (ents i ! p))"
    and "posn i = Some p \<Longrightarrow> \<exists>j. it_Next Q i = (Inr (), j) \<and> ents j = ents i \<and>
           posn j = (if Suc p < length (ents i) then Some (Suc p) else None)"
    and "posn i = Some p \<Longrightarrow> \<exists>j. it_Prev Q i = (Inr (), j) \<and> ents j = ents i \<and>
           posn j = (case p of 0 \<Rightarrow> None | Suc q \<Rightarrow> Some q)"
    and "\<exists>j. it_SeekToFirst Q i = (Inr (), j) \<and> ents j = ents i \<and>
        posn j = (if ents i = [] then None else Some 0)"
    and "\<exists>j. it_SeekToLast Q i = (Inr (), j) \<and> ents j = ents i \<and>
        posn j = (if ents i = [] then None else Some (length (ents i) - 1))"
    and "\<exists>j. it_Seek Q k i = (Inr (), j) \<and> ents j = ents i \<and>
        posn j = (let n = length (takeWhile (\<lambda>e. \<not> le k (fst e)) (ents i)) in
           if n < length (ents i) then Some n else None)"
    and "\<exists>j. it_SeekForPrev Q k i = (Inr (), j) \<and> ents j = ents i \<and>
        posn j = (case length (takeWhile (\<lambda>e. le (fst e) k) (ents i)) of 0 \<Rightarrow> None | Suc n \<Rightarrow> Some n)"
proof -
  note C = assms [unfolded iter_contract_def, THEN spec [of _ i]]
  show "posn i = Some p \<Longrightarrow> p < length (ents i)" using C [THEN conjunct1] by simp
  note C = C [THEN conjunct2]
  show "it_Valid Q i = Inr (posn i \<noteq> None)" by (rule C [THEN conjunct1])
  note C = C [THEN conjunct2]
  show "\<exists>st. it_status Q i = Inr st \<and> st_ok st" by (rule C [THEN conjunct1])
  note C = C [THEN conjunct2]
  note P = C [THEN conjunct1, rule_format]
  show "posn i = Some p \<Longrightarrow> it_key Q i = Inr (fst (ents i ! p))" using P [of p] by simp
  show "posn i = Some p \<Longrightarrow> it_value Q i = Inr (snd (ents i ! p))" using P [of p] by simp
  show "posn i = Some p \<Longrightarrow> \<exists>j. it_Next Q i = (Inr (), j) \<and> ents j = ents i \<and>
           posn j = (if Suc p < length (ents i) then Some (Suc p) else None)"
    using P [of p] by blast
  show "posn i = Some p \<Longrightarrow> \<exists>j. it_Prev Q i = (Inr (), j) \<and> ents j = ents i \<and>
           posn j = (case p of 0 \<Rightarrow> None | Suc q \<Rightarrow> Some q)"
    using P [of p] by blast
  note C = C [THEN conjunct2]
  show "\<exists>j. it_SeekToFirst Q i = (Inr (), j) \<and> ents j = ents i \<and>
        posn j = (if ents i = [] then None else Some 0)" by (rule C [THEN conjunct1])
  note C = C [THEN conjunct2]
  show "\<exists>j. it_SeekToLast Q i = (Inr (), j) \<and> ents j = ents i \<and>
        posn j = (if ents i = [] then None else Some (length (ents i) - 1))" by (rule C [THEN conjunct1])
  note C = C [THEN conjunct2]
  show "\<exists>j. it_Seek Q k i = (Inr (), j) \<and> ents j = ents i \<and>
        posn j = (let n = length (takeWhile (\<lambda>e. \<not> le k (fst e)) (ents i)) in
           if n < length (ents i) then Some n else None)" by (rule C [THEN conjunct1, THEN spec])
  note C = C [THEN conjunct2]
  show "\<exists>j. it_SeekForPrev Q k i = (Inr (), j) \<and> ents j = ents i \<and>
        posn j = (case length (takeWhile (\<lambda>e. le (fst e) k) (ents i)) of 0 \<Rightarrow> None | Suc n \<Rightarrow> Some n)"
    by (rule C [THEN spec])
qed

subsection \<open>What is left to yield\<close>

text \<open>The item an iterator of a class shows for an entry.\<close>

definition shown_item :: "iter_kind \<Rightarrow> nat option \<Rightarrow> bytes \<times> bytes \<Rightarrow> pyobj" where
  "shown_item k h e =
     (case k of
        BaseIterator \<Rightarrow> PNone
      | KeysIterator \<Rightarrow> with_handle h (fst e)
      | ValuesIterator \<Rightarrow> slice_to_bytes (snd e)
      | ItemsIterator \<Rightarrow> PTuple [with_handle h (fst e), slice_to_bytes (snd e)])"

definition shown :: "'i db_iter \<Rightarrow> bytes \<times> bytes \<Rightarrow> pyobj" where
  "shown self = shown_item (it_kind self) (it_handle self)"

definition entries_of :: "('i \<Rightarrow> (bytes \<times> bytes) list) \<Rightarrow> 'i db_iter \<Rightarrow> (bytes \<times> bytes) list" where
  "entries_of ents self = (case it_ptr self of None \<Rightarrow> [] | Some i \<Rightarrow> ents i)"

definition position_of :: "('i \<Rightarrow> nat option) \<Rightarrow> 'i db_iter \<Rightarrow> nat option" where
  "position_of posn self = (case it_ptr self of None \<Rightarrow> None | Some i \<Rightarrow> posn i)"

definition forward_rest ::
    "('i \<Rightarrow> (bytes \<times> bytes) list) \<Rightarrow> ('i \<Rightarrow> nat option) \<Rightarrow> 'i db_iter \<Rightarrow> pyobj list" where
  "forward_rest ents posn self =
     (case position_of posn self of None \<Rightarrow> [] | Some p \<Rightarrow> map (shown self) (drop p (entries_of ents self)))"

definition backward_rest ::
    "('i \<Rightarrow> (bytes \<times> bytes) list) \<Rightarrow> ('i \<Rightarrow> nat option) \<Rightarrow> 'i db_iter \<Rightarrow> pyobj list" where
  "backward_rest ents posn self =
     (case position_of posn self of
        None \<Rightarrow> [] | Some p \<Rightarrow> map (shown self) (rev (take (Suc p) (entries_of ents self))))"

definition iter_inv ::
    "'i iter_lib \<Rightarrow> ('i \<Rightarrow> (bytes \<times> bytes) list) \<Rightarrow> ('i \<Rightarrow> nat option) \<Rightarrow> (bytes \<Rightarrow> bytes \<Rightarrow> bool) \<Rightarrow>
     'i db_iter \<Rightarrow> bool" where
  "iter_inv Q ents posn le self \<longleftrightarrow> iter_contract Q ents posn le \<and> it_ptr self \<noteq> None"

lemma check_iter_ok: "iter_inv Q ents posn le s \<Longrightarrow> check_iter Q s = (Inr (), s)"
proof -
  assume a: "iter_inv Q ents posn le s"
  then obtain i where i: "it_ptr s = Some i" by (auto simp: iter_inv_def)
  obtain st where "it_status Q i = Inr st" "st_ok st"
    using iter_contractD(3) [of Q ents posn le i] a by (auto simp: iter_inv_def)
  then show ?thesis using i by (simp add: check_iter_def bind_py_def ptr_read_def)
qed

lemma get_ob_ok:
  assumes "iter_inv Q ents posn le s" "position_of posn s = Some p"
  shows "get_ob Q s = (Inr (shown s (entries_of ents s ! p)), s)"
proof -
  obtain i where i: "it_ptr s = Some i" using assms(1) by (auto simp: iter_inv_def)
  then have p: "posn i = Some p" using assms(2) by (simp add: position_of_def)
  have C: "iter_contract Q ents posn le" using assms(1) by (simp add: iter_inv_def)
  note kv = iter_contractD(4) [OF C p] iter_contractD(5) [OF C p]
  show ?thesis
    using i kv check_iter_ok [OF assms(1)]
    by (cases "it_kind s") (simp_all add: get_ob_def KeysIterator_get_ob_def ValuesIterator_get_ob_def
        ItemsIterator_get_ob_def shown_def shown_item_def entries_of_def bind_py_def ptr_read_def)
qed

lemma iter_inv_ptr [simp]: "iter_inv Q ents posn le s \<Longrightarrow> iter_inv Q ents posn le (s\<lparr>it_ptr := Some j\<rparr>)"
  by (simp add: iter_inv_def)

lemma shown_ptr [simp]: "shown (s\<lparr>it_ptr := q\<rparr>) = shown s"
  by (simp add: shown_def)

lemma BaseIterator_next_item:
  assumes "iter_inv Q ents posn le s" "position_of posn s = Some p"
  shows "\<exists>j. BaseIterator_next Q s = (Inr (shown s (entries_of ents s ! p)), s\<lparr>it_ptr := Some j\<rparr>) \<and>
    ents j = entries_of ents s \<and>
    posn j = (if Suc p < length (entries_of ents s) then Some (Suc p) else None)"
proof -
  obtain i where i: "it_ptr s = Some i" using assms(1) by (auto simp: iter_inv_def)
  then have p: "posn i = Some p" using assms(2) by (simp add: position_of_def)
  have C: "iter_contract Q ents posn le" using assms(1) by (simp add: iter_inv_def)
  obtain j where j: "it_Next Q i = (Inr (), j)" "ents j = ents i"
      "posn j = (if Suc p < length (ents i) then Some (Suc p) else None)"
    using iter_contractD(6) [OF C p] by blast
  have "BaseIterator_next Q s = (Inr (shown s (entries_of ents s ! p)), s\<lparr>it_ptr := Some j\<rparr>)"
    using i p j(1) get_ob_ok [OF assms] iter_contractD(2) [OF C, of i]
      check_iter_ok [OF iter_inv_ptr [OF assms(1)]]
    by (simp add: BaseIterator_next_def bind_py_def ptr_read_def ptr_move_def)
  then show ?thesis using i j(2,3) by (intro exI [of _ j]) (simp add: entries_of_def)
qed

lemma ReversedIterator_next_item:
  assumes "iter_inv Q ents posn le s" "position_of posn s = Some p"
  shows "\<exists>j. ReversedIterator_next Q s = (Inr (shown s (entries_of ents s ! p)), s\<lparr>it_ptr := Some j\<rparr>) \<and>
    ents j = entries_of ents s \<and> posn j = (case p of 0 \<Rightarrow> None | Suc q \<Rightarrow> Some q)"
proof -
  obtain i where i: "it_ptr s = Some i" using assms(1) by (auto simp: iter_inv_def)
  then have p: "posn i = Some p" using assms(2) by (simp add: position_of_def)
  have C: "iter_contract Q ents posn le" using assms(1) by (simp add: iter_inv_def)
  obtain j where j: "it_Prev Q i = (Inr (), j)" "ents j = ents i"
      "posn j = (case p of 0 \<Rightarrow> None | Suc q \<Rightarrow> Some q)"
    using iter_contractD(7) [OF C p] by blast
  have "ReversedIterator_next Q s = (Inr (shown s (entries_of ents s ! p)), s\<lparr>it_ptr := Some j\<rparr>)"
    using i p j(1) get_ob_ok [OF assms] iter_contractD(2) [OF C, of i]
      check_iter_ok [OF iter_inv_ptr [OF assms(1)]]
    by (simp add: ReversedIterator_next_def bind_py_def ptr_read_def ptr_move_def)
  then show ?thesis using i j(2,3) by (intro exI [of _ j]) (simp add: entries_of_def)
qed

lemma next_stops:
  assumes "iter_inv Q ents posn le s" "position_of posn s = None"
  shows "BaseIterator_next Q s = (Inl (Exn StopIteration NoMsg), s)"
    and "ReversedIterator_next Q s = (Inl (Exn StopIteration NoMsg), s)"
proof -
  obtain i where i: "it_ptr s = Some i" using assms(1) by (auto simp: iter_inv_def)
  then have p: "posn i = None" using assms(2) by (simp add: position_of_def)
  have C: "iter_contract Q ents posn le" using assms(1) by (simp add: iter_inv_def)
  show "BaseIterator_next Q s = (Inl (Exn StopIteration NoMsg), s)"
    "ReversedIterator_next Q s = (Inl (Exn StopIteration NoMsg), s)"
    using i p iter_contractD(2) [OF C, of i]
    by (simp_all add: BaseIterator_next_def ReversedIterator_next_def bind_py_def ptr_read_def)
qed

lemma position_bound:
  assumes "iter_inv Q ents posn le s" "position_of posn s = Some p"
  shows "p < length (entries_of ents s)"
  using assms iter_contractD(1) [of Q ents posn le]
  by (auto simp: iter_inv_def position_of_def entries_of_def split: option.splits)

interpretation fwd_it: py_iterator "BaseIterator_next Q" "iter_inv Q ents posn le" "forward_rest ents posn"
  for Q ents posn le
proof unfold_locales
  fix s x xs
  assume s: "iter_inv Q ents posn le s" "forward_rest ents posn s = x # xs"
  then obtain p where p: "position_of posn s = Some p" by (auto simp: forward_rest_def split: option.splits)
  note b = position_bound [OF s(1) p]
  have x: "x = shown s (entries_of ents s ! p)" "xs = map (shown s) (drop (Suc p) (entries_of ents s))"
    using s(2) p b by (auto simp: forward_rest_def Cons_nth_drop_Suc [symmetric])
  obtain j where j: "BaseIterator_next Q s = (Inr x, s\<lparr>it_ptr := Some j\<rparr>)" "ents j = entries_of ents s"
    "posn j = (if Suc p < length (entries_of ents s) then Some (Suc p) else None)"
    using BaseIterator_next_item [OF s(1) p] x by blast
  have "forward_rest ents posn (s\<lparr>it_ptr := Some j\<rparr>) = xs"
    using j x by (simp add: forward_rest_def position_of_def entries_of_def)
  then show "\<exists>s'. BaseIterator_next Q s = (Inr x, s') \<and> iter_inv Q ents posn le s' \<and>
      forward_rest ents posn s' = xs"
    using j(1) s(1) by auto
next
  fix s
  assume s: "iter_inv Q ents posn le s" "forward_rest ents posn s = []"
  have "position_of posn s = None"
    using s(2) position_bound [OF s(1)] by (auto simp: forward_rest_def split: option.splits)
  then show "\<exists>m s'. BaseIterator_next Q s = (Inl (Exn StopIteration m), s') \<and> iter_inv Q ents posn le s' \<and>
      forward_rest ents posn s' = []"
    using next_stops(1) [OF s(1)] s by blast
qed

interpretation rev_it: py_iterator "ReversedIterator_next Q" "iter_inv Q ents posn le" "backward_rest ents posn"
  for Q ents posn le
proof unfold_locales
  fix s x xs
  assume s: "iter_inv Q ents posn le s" "backward_rest ents posn s = x # xs"
  then obtain p where p: "position_of posn s = Some p" by (auto simp: backward_rest_def split: option.splits)
  note b = position_bound [OF s(1) p]
  have x: "x = shown s (entries_of ents s ! p)" "xs = map (shown s) (rev (take p (entries_of ents s)))"
    using s(2) p b by (auto simp: backward_rest_def take_Suc_conv_app_nth)
  obtain j where j: "ReversedIterator_next Q s = (Inr x, s\<lparr>it_ptr := Some j\<rparr>)" "ents j = entries_of ents s"
    "posn j = (case p of 0 \<Rightarrow> None | Suc q \<Rightarrow> Some q)"
    using ReversedIterator_next_item [OF s(1) p] x by blast
  have "backward_rest ents posn (s\<lparr>it_ptr := Some j\<rparr>) = xs"
    using j x by (cases p) (simp_all add: backward_rest_def position_of_def entries_of_def)
  then show "\<exists>s'. ReversedIterator_next Q s = (Inr x, s') \<and> iter_inv Q ents posn le s' \<and>
      backward_rest ents posn s' = xs"
    using j(1) s(1) by auto
next
  fix s
  assume s: "iter_inv Q ents posn le s" "backward_rest ents posn s = []"
  have "position_of posn s = None"
    using s(2) position_bound [OF s(1)] by (fastforce simp: backward_rest_def split: option.splits)
  then show "\<exists>m s'. ReversedIterator_next Q s = (Inl (Exn StopIteration m), s') \<and> iter_inv Q ents posn le s' \<and>
      backward_rest ents posn s' = []"
    using next_stops(2) [OF s(1)] s by blast
qed

subsection \<open>Seeking\<close>

lemma seek_run:
  assumes "iter_inv Q ents posn le s" "it_ptr s = Some i" "h i = (Inr (), j)"
  shows "bind_py (ptr_move h) (\<lambda>_. check_iter Q) s = (Inr (), s\<lparr>it_ptr := Some j\<rparr>)"
  using assms check_iter_ok [OF iter_inv_ptr [OF assms(1)], of j] by (simp add: bind_py_def ptr_move_def)

text \<open>In a list sorted by a total preorder of the keys the entries from a key on are a suffix.\<close>

definition sorted_entries :: "(bytes \<Rightarrow> bytes \<Rightarrow> bool) \<Rightarrow> (bytes \<times> bytes) list \<Rightarrow> bool" where
  "sorted_entries le es \<longleftrightarrow> sorted_wrt (\<lambda>e e'. le (fst e) (fst e')) es"

definition total_preorder :: "(bytes \<Rightarrow> bytes \<Rightarrow> bool) \<Rightarrow> bool" where
  "total_preorder le \<longleftrightarrow> (\<forall>x y. le x y \<or> le y x) \<and> (\<forall>x y z. le x y \<longrightarrow> le y z \<longrightarrow> le x z)"

lemma entries_from:
  assumes "sorted_entries le es" "total_preorder le"
  shows "drop (length (takeWhile (\<lambda>e. \<not> le k (fst e)) es)) es = filter (\<lambda>e. le k (fst e)) es"
  using assms(1)
proof (induction es)
  case Nil
  then show ?case by simp
next
  case (Cons e es)
  then have s: "sorted_entries le es" "\<And>e'. e' \<in> set es \<Longrightarrow> le (fst e) (fst e')"
    by (auto simp: sorted_entries_def)
  show ?case
  proof (cases "le k (fst e)")
    case True
    then have "\<And>e'. e' \<in> set es \<Longrightarrow> le k (fst e')" using s(2) assms(2) unfolding total_preorder_def by blast
    then show ?thesis using True by (simp add: filter_True)
  next
    case False
    then show ?thesis using Cons.IH [OF s(1)] by simp
  qed
qed

lemma entries_upto:
  assumes "sorted_entries le es" "total_preorder le"
  shows "take (length (takeWhile (\<lambda>e. le (fst e) k) es)) es = filter (\<lambda>e. le (fst e) k) es"
  using assms(1)
proof (induction es)
  case Nil
  then show ?case by simp
next
  case (Cons e es)
  then have s: "sorted_entries le es" "\<And>e'. e' \<in> set es \<Longrightarrow> le (fst e) (fst e')"
    by (auto simp: sorted_entries_def)
  show ?case
  proof (cases "le (fst e) k")
    case True
    then show ?thesis using Cons.IH [OF s(1)] by simp
  next
    case False
    then have "\<And>e'. e' \<in> set es \<Longrightarrow> \<not> le (fst e') k" using s(2) assms(2) unfolding total_preorder_def by blast
    then show ?thesis using False by (simp add: filter_False)
  qed
qed

lemma rest_simps:
  assumes "it_ptr s = Some i"
  shows "forward_rest ents posn (s\<lparr>it_ptr := Some j\<rparr>) =
      (case posn j of None \<Rightarrow> [] | Some p \<Rightarrow> map (shown s) (drop p (ents j)))"
    and "backward_rest ents posn (s\<lparr>it_ptr := Some j\<rparr>) =
      (case posn j of None \<Rightarrow> [] | Some p \<Rightarrow> map (shown s) (rev (take (Suc p) (ents j))))"
  by (simp_all add: forward_rest_def backward_rest_def position_of_def entries_of_def split: option.split)

lemma seek_rest:
  assumes "iter_inv Q ents posn le s" "it_ptr s = Some i" "sorted_entries le (ents i)" "total_preorder le"
    and "BaseIterator_seek Q (PBytes k) s = (r, s')"
  shows "r = Inr () \<and> iter_inv Q ents posn le s' \<and>
    forward_rest ents posn s' = map (shown s) (filter (\<lambda>e. le k (fst e)) (ents i))"
proof -
  have C: "iter_contract Q ents posn le" using assms(1) by (simp add: iter_inv_def)
  obtain j where j: "it_Seek Q k i = (Inr (), j)" "ents j = ents i"
    "posn j = (let n = length (takeWhile (\<lambda>e. \<not> le k (fst e)) (ents i)) in
           if n < length (ents i) then Some n else None)"
    using iter_contractD(10) [OF C] by blast
  have s': "r = Inr ()" "s' = s\<lparr>it_ptr := Some j\<rparr>"
    using assms(5) seek_run [of Q ents posn le s i "it_Seek Q k" j, OF assms(1,2) j(1)]
    by (simp_all add: BaseIterator_seek_def bytes_to_slice_def)
  have "forward_rest ents posn s' = map (shown s) (drop (length (takeWhile (\<lambda>e. \<not> le k (fst e)) (ents i))) (ents i))"
    using j(2,3) by (simp add: s'(2) rest_simps [OF assms(2)] Let_def)
  then show ?thesis using s' assms(1) entries_from [OF assms(3,4)] by simp
qed

lemma seek_for_prev_rest:
  assumes "iter_inv Q ents posn le s" "it_ptr s = Some i" "sorted_entries le (ents i)" "total_preorder le"
    and "BaseIterator_seek_for_prev Q (PBytes k) s = (r, s')"
  shows "r = Inr () \<and> iter_inv Q ents posn le s' \<and>
    backward_rest ents posn s' = map (shown s) (rev (filter (\<lambda>e. le (fst e) k) (ents i)))"
proof -
  have C: "iter_contract Q ents posn le" using assms(1) by (simp add: iter_inv_def)
  let ?n = "length (takeWhile (\<lambda>e. le (fst e) k) (ents i))"
  obtain j where j: "it_SeekForPrev Q k i = (Inr (), j)" "ents j = ents i"
    "posn j = (case ?n of 0 \<Rightarrow> None | Suc n \<Rightarrow> Some n)"
    using iter_contractD(11) [OF C] by blast
  have s': "r = Inr ()" "s' = s\<lparr>it_ptr := Some j\<rparr>"
    using assms(5) seek_run [of Q ents posn le s i "it_SeekForPrev Q k" j, OF assms(1,2) j(1)]
    by (simp_all add: BaseIterator_seek_for_prev_def bytes_to_slice_def)
  have "backward_rest ents posn s' = map (shown s) (rev (take ?n (ents i)))"
    using j(2,3) by (cases ?n) (simp_all add: s'(2) rest_simps [OF assms(2)])
  then show ?thesis using s' assms(1) entries_upto [OF assms(3,4)] by simp
qed

lemma seek_ends_rest:
  assumes "iter_inv Q ents posn le s" "it_ptr s = Some i"
  shows "BaseIterator_seek_to_first Q s = (r, s') \<Longrightarrow> r = Inr () \<and> iter_inv Q ents posn le s' \<and>
      forward_rest ents posn s' = map (shown s) (ents i)"
    and "BaseIterator_seek_to_last Q s = (r, s') \<Longrightarrow> r = Inr () \<and> iter_inv Q ents posn le s' \<and>
      backward_rest ents posn s' = map (shown s) (rev (ents i))"
proof -
  have C: "iter_contract Q ents posn le" using assms(1) by (simp add: iter_inv_def)
  obtain j where j: "it_SeekToFirst Q i = (Inr (), j)" "ents j = ents i"
    "posn j = (if ents i = [] then None else Some 0)"
    using iter_contractD(8) [OF C] by blast
  show "BaseIterator_seek_to_first Q s = (r, s') \<Longrightarrow> r = Inr () \<and> iter_inv Q ents posn le s' \<and>
      forward_rest ents posn s' = map (shown s) (ents i)"
    using j seek_run [of Q ents posn le s i "it_SeekToFirst Q" j, OF assms j(1)] assms
    by (auto simp: BaseIterator_seek_to_first_def rest_simps [OF assms(2)])
  obtain j where j: "it_SeekToLast Q i = (Inr (), j)" "ents j = ents i"
    "posn j = (if ents i = [] then None else Some (length (ents i) - 1))"
    using iter_contractD(9) [OF C] by blast
  show "BaseIterator_seek_to_last Q s = (r, s') \<Longrightarrow> r = Inr () \<and> iter_inv Q ents posn le s' \<and>
      backward_rest ents posn s' = map (shown s) (rev (ents i))"
    using j seek_run [of Q ents posn le s i "it_SeekToLast Q" j, OF assms j(1)] assms
    by (auto simp: BaseIterator_seek_to_last_def rest_simps [OF assms(2)])
qed

subsection \<open>Iterators of several families\<close>

lemma pair_iterators_nth:
  assumes "pair_iterators k ps fams = Inr its" "j < length ps"
  shows "length its = length ps \<and> j < length fams \<and>
    (\<exists>h. handle_arg (fams ! j) = Inr h \<and> its ! j = \<lparr>it_kind = k, it_ptr = ps ! j, it_handle = h\<rparr>)"
  using assms
proof (induction k ps fams arbitrary: its j rule: pair_iterators.induct)
  case (3 k p ps f fams)
  then obtain h its' where h: "handle_arg f = Inr h" "pair_iterators k ps fams = Inr its'"
    "its = \<lparr>it_kind = k, it_ptr = p, it_handle = h\<rparr> # its'"
    by (auto simp: bind_res_convs BaseIterator_cinit_def)
  show ?case
  proof (cases j)
    case 0
    have "length its' = length ps"
    proof (cases ps)
      case Nil
      then show ?thesis using h(2) by simp
    next
      case (Cons q qs)
      then show ?thesis using "3.IH" [OF h(2), of 0] by simp
    qed
    then show ?thesis using 0 h by simp
  next
    case (Suc m)
    then show ?thesis using "3.IH" [OF h(2), of m] "3.prems"(2) h by simp
  qed
qed simp_all

lemma family_handles_nth:
  assumes "family_handles E H (PList fams) = Inr hs"
  shows "length hs = length fams"
    and "j < length fams \<Longrightarrow> \<exists>c. fams ! j = PCF c \<and> get_handle (cf_objects H) c = Inr (hs ! j)"
proof -
  have m: "map_res (typed_handle H) fams = Inr hs"
    using assms by (simp add: family_handles_def for_each_list)
  show "length hs = length fams" by (rule map_res_length [OF m])
  assume "j < length fams"
  then have "typed_handle H (fams ! j) = Inr (hs ! j)" by (rule map_res_nth [OF m])
  then show "\<exists>c. fams ! j = PCF c \<and> get_handle (cf_objects H) c = Inr (hs ! j)"
    by (cases "fams ! j") (auto simp: typed_handle_def)
qed

text \<open>
  The status \<open>NewIterators\<close> returns is not looked at: when it fails before touching the vector, the
  iterators handed to Python have null pointers.
\<close>

lemma iterskeys_ignores_status:
  assumes "family_handles E H (PList [PCF c]) = Inr hs" "read_options E L H args kwds = Inr opts"
    and "lib_NewIterators N db opts hs [None] d = (Inr (status_of NotSupportedCode [], [None]), d')"
  shows "DB_iterskeys L N E H db (PList [PCF c]) args kwds d =
    (Inr [\<lparr>it_kind = KeysIterator, it_ptr = None, it_handle = Some c\<rparr>], d')"
  using assms
  by (simp add: DB_iterskeys_def new_iterators_def bind_py_def cpp_py_def py_len_def handle_arg_def
      BaseIterator_cinit_def)

subsection \<open>Properties\<close>

text \<open>
  C9. Iterating forward is complete and ordered: after seek(k) listing an iterator yields exactly the
  entries with keys from k on, in order, and after seek_to_first all of them, as keys, values or
  items according to its class, with the family handle where it has one.
\<close>

theorem iterate_forward:
  assumes "iter_contract Q ents posn le" "it_ptr it = Some i" "sorted_entries le (ents i)"
    "total_preorder le" "length (ents i) < n"
  shows "(\<exists>s. BaseIterator_seek Q (PBytes k) it = (Inr (), s) \<and>
      fst (drain (BaseIterator_next Q) n s) = Some (Inr (map (shown_item (it_kind it) (it_handle it))
        (filter (\<lambda>e. le k (fst e)) (ents i))))) \<and>
    (\<exists>s. BaseIterator_seek_to_first Q it = (Inr (), s) \<and>
      fst (drain (BaseIterator_next Q) n s) = Some (Inr (map (shown_item (it_kind it) (it_handle it)) (ents i))))"
proof -
  have I: "iter_inv Q ents posn le it" using assms(1,2) by (simp add: iter_inv_def)
  obtain r s where s: "BaseIterator_seek Q (PBytes k) it = (r, s)" by fastforce
  note S = seek_rest [OF I assms(2,3,4) s]
  have "length (forward_rest ents posn s) < n"
    using S assms(5) le_less_trans [OF length_filter_le] by simp
  then have f: "fst (drain (BaseIterator_next Q) n s) = Some (Inr (forward_rest ents posn s))"
    using S by (intro fwd_it.drain_value) auto
  obtain r1 s1 where s1: "BaseIterator_seek_to_first Q it = (r1, s1)" by fastforce
  note S1 = seek_ends_rest(1) [OF I assms(2) s1]
  have f1: "fst (drain (BaseIterator_next Q) n s1) = Some (Inr (forward_rest ents posn s1))"
    using S1 assms(5) by (intro fwd_it.drain_value) auto
  show ?thesis
    using s S f s1 S1 f1 by (simp add: shown_def)
qed

text \<open>
  C26. Iterating backward is complete and ordered: after seek_for_prev(k) the reversed iterator yields
  exactly the entries with keys up to k in descending order, and after seek_to_last all of them.
\<close>

theorem iterate_backward:
  assumes "iter_contract Q ents posn le" "it_ptr it = Some i" "sorted_entries le (ents i)"
    "total_preorder le" "length (ents i) < n"
  shows "(\<exists>s. BaseIterator_seek_for_prev Q (PBytes k) it = (Inr (), s) \<and>
      fst (drain (ReversedIterator_next Q) n s) = Some (Inr (map (shown_item (it_kind it) (it_handle it))
        (rev (filter (\<lambda>e. le (fst e) k) (ents i)))))) \<and>
    (\<exists>s. BaseIterator_seek_to_last Q it = (Inr (), s) \<and>
      fst (drain (ReversedIterator_next Q) n s) =
        Some (Inr (map (shown_item (it_kind it) (it_handle it)) (rev (ents i)))))"
proof -
  have I: "iter_inv Q ents posn le it" using assms(1,2) by (simp add: iter_inv_def)
  obtain r s where s: "BaseIterator_seek_for_prev Q (PBytes k) it = (r, s)" by fastforce
  note S = seek_for_prev_rest [OF I assms(2,3,4) s]
  have "length (backward_rest ents posn s) < n"
    using S assms(5) le_less_trans [OF length_filter_le] by simp
  then have f: "fst (drain (ReversedIterator_next Q) n s) = Some (Inr (backward_rest ents posn s))"
    using S by (intro rev_it.drain_value) auto
  obtain r1 s1 where s1: "BaseIterator_seek_to_last Q it = (r1, s1)" by fastforce
  note S1 = seek_ends_rest(2) [OF I assms(2) s1]
  have f1: "fst (drain (ReversedIterator_next Q) n s1) = Some (Inr (backward_rest ents posn s1))"
    using S1 assms(5) by (intro rev_it.drain_value) auto
  show ?thesis
    using s S f s1 S1 f1 by (simp add: shown_def)
qed

text \<open>
  The method that iterskeys names returns one iterator over the keys of each family it was given,
  in that order and with its handle; so the second definition of that name, which would iterate over
  items, is never reached.
\<close>

theorem iterskeys_in_order:
  assumes "map_of (multi_methods L N E H) ''iterskeys'' = Some f"
    and "f db (PList fams) args kwds d = (Inr its, d')"
    and "\<And>opts hs v d st v' d'. lib_NewIterators N db opts hs v d = (Inr (st, v'), d') \<Longrightarrow>
      list_all2 (\<lambda>h p. \<exists>i. p = Some i \<and> over h i) hs v'"
  shows "length its = length fams \<and>
    (\<forall>j<length fams. \<exists>c h i. fams ! j = PCF c \<and> get_handle (cf_objects H) c = Inr h \<and> over h i \<and>
       its ! j = \<lparr>it_kind = KeysIterator, it_ptr = Some i, it_handle = Some c\<rparr>)"
proof -
  have "f = DB_iterskeys L N E H" using assms(1) by (simp add: multi_methods_def)
  then obtain hs opts st v' where h: "family_handles E H (PList fams) = Inr hs"
    "lib_NewIterators N db opts hs (replicate (length fams) None) d = (Inr (st, v'), d')"
    "pair_iterators KeysIterator v' fams = Inr its"
    using assms(2)
    by (auto simp: DB_iterskeys_def new_iterators_def py_convs py_len_def)
  note A = assms(3) [OF h(2)]
  have len: "length v' = length fams"
    using list_all2_lengthD [OF A] family_handles_nth(1) [OF h(1)] by simp
  have "length its = length fams"
  proof (cases "length fams")
    case 0
    then show ?thesis using h(3) len by simp
  next
    case (Suc m)
    then show ?thesis using pair_iterators_nth [OF h(3), of 0] len by simp
  qed
  moreover have "\<exists>c h i. fams ! j = PCF c \<and> get_handle (cf_objects H) c = Inr h \<and> over h i \<and>
       its ! j = \<lparr>it_kind = KeysIterator, it_ptr = Some i, it_handle = Some c\<rparr>" if j: "j < length fams" for j
  proof -
    obtain c where c: "fams ! j = PCF c" "get_handle (cf_objects H) c = Inr (hs ! j)"
      using family_handles_nth(2) [OF h(1) j] by blast
    obtain i where i: "v' ! j = Some i" "over (hs ! j) i"
      using list_all2_nthD [OF A, of j] j family_handles_nth(1) [OF h(1)] by auto
    have "its ! j = \<lparr>it_kind = KeysIterator, it_ptr = Some i, it_handle = Some c\<rparr>"
      using pair_iterators_nth [OF h(3), of j] j len c(1) i(1) by (auto simp: handle_arg_def)
    then show ?thesis using c i by blast
  qed
  ultimately show ?thesis by blast
qed

subsection \<open>Iterators for examples\<close>

type_synonym demo_iter = "(bytes \<times> bytes) list \<times> nat"

definition shorter :: "bytes \<Rightarrow> bytes \<Rightarrow> bool" where
  "shorter x y \<longleftrightarrow> length x \<le> length y"

definition demo_iter_lib :: "demo_iter iter_lib" where
  "demo_iter_lib = \<lparr>
     it_Valid = (\<lambda>(es, p). Inr (p < length es)),
     it_key = (\<lambda>(es, p). Inr (fst (es ! p))), it_value = (\<lambda>(es, p). Inr (snd (es ! p))),
     it_status = (\<lambda>_. Inr (status_of Ok [])),
     it_Next = (\<lambda>(es, p). (Inr (), (es, Suc p))),
     it_Prev = (\<lambda>(es, p). (Inr (), (es, if p = 0 then length es else p - 1))),
     it_SeekToFirst = (\<lambda>(es, p). (Inr (), (es, 0))),
     it_SeekToLast = (\<lambda>(es, p). (Inr (), (es, length es - 1))),
     it_Seek = (\<lambda>k (es, p). (Inr (), (es, length (takeWhile (\<lambda>e. \<not> shorter k (fst e)) es)))),
     it_SeekForPrev = (\<lambda>k (es, p). (Inr (), (es,
       case length (takeWhile (\<lambda>e. shorter (fst e) k) es) of 0 \<Rightarrow> length es | Suc n \<Rightarrow> n)))\<rparr>"

definition demo_posn :: "demo_iter \<Rightarrow> nat option" where
  "demo_posn i = (if snd i < length (fst i) then Some (snd i) else None)"

lemma demo_iter_contract: "iter_contract demo_iter_lib fst demo_posn shorter"
  unfolding iter_contract_def
proof (rule allI)
  fix i :: demo_iter
  obtain es p where i: "i = (es, p)" by (cases i)
  have n: "length (takeWhile P es) \<le> length es" for P :: "bytes \<times> bytes \<Rightarrow> bool"
    by (rule length_takeWhile_le)
  have m: "n < length es" if "length (takeWhile P es) = Suc n" for n and P :: "bytes \<times> bytes \<Rightarrow> bool"
    using n [of P] that by simp
  note D = i demo_iter_lib_def demo_posn_def status_of_def
  show "(case demo_posn i of None \<Rightarrow> True | Some p \<Rightarrow> p < length (fst i)) \<and>
     it_Valid demo_iter_lib i = Inr (demo_posn i \<noteq> None) \<and>
     (\<exists>st. it_status demo_iter_lib i = Inr st \<and> st_ok st) \<and>
     (\<forall>p. demo_posn i = Some p \<longrightarrow>
        it_key demo_iter_lib i = Inr (fst (fst i ! p)) \<and> it_value demo_iter_lib i = Inr (snd (fst i ! p)) \<and>
        (\<exists>j. it_Next demo_iter_lib i = (Inr (), j) \<and> fst j = fst i \<and>
           demo_posn j = (if Suc p < length (fst i) then Some (Suc p) else None)) \<and>
        (\<exists>j. it_Prev demo_iter_lib i = (Inr (), j) \<and> fst j = fst i \<and>
           demo_posn j = (case p of 0 \<Rightarrow> None | Suc q \<Rightarrow> Some q))) \<and>
     (\<exists>j. it_SeekToFirst demo_iter_lib i = (Inr (), j) \<and> fst j = fst i \<and>
        demo_posn j = (if fst i = [] then None else Some 0)) \<and>
     (\<exists>j. it_SeekToLast demo_iter_lib i = (Inr (), j) \<and> fst j = fst i \<and>
        demo_posn j = (if fst i = [] then None else Some (length (fst i) - 1))) \<and>
     (\<forall>k. \<exists>j. it_Seek demo_iter_lib k i = (Inr (), j) \<and> fst j = fst i \<and>
        demo_posn j = (let n = length (takeWhile (\<lambda>e. \<not> shorter k (fst e)) (fst i)) in
           if n < length (fst i) then Some n else None)) \<and>
     (\<forall>k. \<exists>j. it_SeekForPrev demo_iter_lib k i = (Inr (), j) \<and> fst j = fst i \<and>
        demo_posn j = (case length (takeWhile (\<lambda>e. shorter (fst e) k) (fst i)) of 0 \<Rightarrow> None | Suc n \<Rightarrow> Some n))"
    by (intro conjI allI impI)
      (simp_all add: D Let_def m split: nat.split if_splits)
qed

lemma shorter_total: "total_preorder shorter"
  by (auto simp: total_preorder_def shorter_def)

definition demo_entries :: "(bytes \<times> bytes) list" where
  "demo_entries = [([1], [10]), ([1, 2], [20]), ([1, 2, 3], [30])]"

definition demo_it :: "demo_iter db_iter" where
  "demo_it = \<lparr>it_kind = ItemsIterator, it_ptr = Some (demo_entries, 0), it_handle = None\<rparr>"

theorem iterate_forward_witness:
  "\<exists>s. fst (drain (BaseIterator_next demo_iter_lib) 4 s) =
     Some (Inr [PTuple [PBytes [1, 2], PBytes [20]], PTuple [PBytes [1, 2, 3], PBytes [30]]])"
proof -
  have "sorted_entries shorter (fst (demo_entries, 0))"
    by (simp add: sorted_entries_def shorter_def demo_entries_def)
  note F = iterate_forward [where it = demo_it and n = 4 and k = "[7, 7]", OF demo_iter_contract _ this shorter_total]
  then obtain s where "fst (drain (BaseIterator_next demo_iter_lib) 4 s) =
      Some (Inr (map (shown_item ItemsIterator None) (filter (\<lambda>e. shorter [7, 7] (fst e)) demo_entries)))"
    by (auto simp: demo_it_def demo_entries_def)
  then show ?thesis
    by (intro exI [of _ s]) (simp add: demo_entries_def shorter_def shown_item_def with_handle_def slice_to_bytes_def)
qed

theorem iterate_backward_witness:
  "\<exists>s. fst (drain (ReversedIterator_next demo_iter_lib) 4 s) =
     Some (Inr [PTuple [PBytes [1, 2], PBytes [20]], PTuple [PBytes [1], PBytes [10]]])"
proof -
  have "sorted_entries shorter (fst (demo_entries, 0))"
    by (simp add: sorted_entries_def shorter_def demo_entries_def)
  note F = iterate_backward [where it = demo_it and n = 4 and k = "[7, 7]", OF demo_iter_contract _ this shorter_total]
  then obtain s where "fst (drain (ReversedIterator_next demo_iter_lib) 4 s) =
      Some (Inr (map (shown_item ItemsIterator None) (rev (filter (\<lambda>e. shorter (fst e) [7, 7]) demo_entries))))"
    by (auto simp: demo_it_def demo_entries_def)
  then show ?thesis
    by (intro exI [of _ s]) (simp add: demo_entries_def shorter_def shown_item_def with_handle_def slice_to_bytes_def)
qed

definition demo_iter_db :: "(contents, demo_iter) iter_db_lib" where
  "demo_iter_db = \<lparr>lib_NewIterator = (\<lambda>_ _ h d. (Inr (demo_entries, h), d)),
     lib_NewIterators = (\<lambda>_ _ hs _ d. (Inr (status_of Ok [], map (\<lambda>h. Some (demo_entries, h)) hs), d)),
     lib_GetSnapshot = (\<lambda>_ d. (Inr 0, d)), lib_ReleaseSnapshot = (\<lambda>_ _ d. d)\<rparr>"

theorem iterskeys_in_order_witness:
  "fst (DB_iterskeys map_lib demo_iter_db plain_env demo_heap 0 (PList [PCF 2]) [] [] (\<lambda>_ _. None)) =
     Inr [\<lparr>it_kind = KeysIterator, it_ptr = Some (demo_entries, 7), it_handle = Some 2\<rparr>]"
proof -
  let ?f = "DB_iterskeys map_lib demo_iter_db plain_env demo_heap"
  have h: "get_handle demo_store 2 = Inr 7"
    by (simp add: get_handle_def deref_def demo_store_def demo_handle_def)
  have m: "map_of (multi_methods map_lib demo_iter_db plain_env demo_heap) ''iterskeys'' = Some ?f"
    by (simp add: multi_methods_def)
  have "is_ok (fst (?f 0 (PList [PCF 2]) [] [] (\<lambda>_ _. None)))"
    by (simp add: DB_iterskeys_def new_iterators_def py_len_def family_handles_def for_each_list
        typed_handle_def demo_heap_def h read_options_def parse_read_opts_def unpack_arguments_def
        read_opts_signature_def bind_py_def cpp_py_def demo_iter_db_def handle_arg_def)
  then obtain its d' where r: "?f 0 (PList [PCF 2]) [] [] (\<lambda>_ _. None) = (Inr its, d')"
    by (cases "?f 0 (PList [PCF 2]) [] [] (\<lambda>_ _. None)") (auto simp: is_ok_def split: sum.splits)
  have "length its = length [PCF 2] \<and> (\<forall>j<length [PCF 2]. \<exists>c h i. [PCF 2] ! j = PCF c \<and>
      get_handle (cf_objects demo_heap) c = Inr h \<and> i = (demo_entries, h) \<and>
      its ! j = \<lparr>it_kind = KeysIterator, it_ptr = Some i, it_handle = Some c\<rparr>)"
    by (rule iterskeys_in_order [OF m r])
      (auto simp: demo_iter_db_def list_all2_conv_all_nth)
  then show ?thesis using r h by (cases its) (auto simp: demo_heap_def)
qed

end
