(* ===== verification/Consistency.thy ===== *)
theory Consistency
  imports Iterators
begin

section \<open>Batches and snapshots on a database\<close>

text \<open>
  How the parts compose: a write batch (\<open>WriteBatch\<close>) written by \<open>DB.write\<close>, and reads through a
  \<open>Snapshot\<close> object (\<open>Iterators\<close>) while writes go on. RocksDB is described by what it documents
  of \<open>Write\<close>, \<open>Merge\<close>, \<open>GetSnapshot\<close> and of reads with a snapshot.
\<close>

subsection \<open>RocksDB's write\<close>

text \<open>
  Families are named by the ids RocksDB gives them; \<open>num h\<close> is the id of the family of a handle, so
  several handles may have one id. The effect of one record, which names its family by id, on the
  contents; what a merge makes of a value is up to the merge operator, \<open>mrg\<close>.
\<close>

type_synonym merging = "nat \<Rightarrow> bytes \<Rightarrow> bytes option \<Rightarrow> bytes \<Rightarrow> bytes"

fun apply_record :: "merging \<Rightarrow> handler_call \<Rightarrow> contents \<Rightarrow> contents" where
  "apply_record mrg (CallPutCF cf k v) m = m(nat cf := (m (nat cf))(k \<mapsto> v))"
| "apply_record mrg (CallMergeCF cf k v) m =
     m(nat cf := (m (nat cf))(k \<mapsto> mrg (nat cf) k (m (nat cf) k) v))"
| "apply_record mrg (CallDeleteCF cf k) m = m(nat cf := (m (nat cf))(k := None))"

abbreviation fam_of :: "(nat \<Rightarrow> int) \<Rightarrow> nat \<Rightarrow> nat" where
  "fam_of num \<equiv> \<lambda>h. nat (num h)"

text \<open>
  A successful \<open>Write\<close> applies the records of the batch in order, a successful \<open>Merge\<close> merges one
  value; neither changes the default family. Failing calls are not described.
\<close>

definition write_contract ::
    "('d, 'b) db_lib \<Rightarrow> nat \<Rightarrow> (nat \<Rightarrow> int) \<Rightarrow> ('d \<Rightarrow> contents) \<Rightarrow> ('b \<Rightarrow> handler_call list) \<Rightarrow> merging \<Rightarrow> bool"
  where
  "write_contract L db num val recs mrg \<longleftrightarrow>
     (\<forall>wo b d st d'. lib_Write L db wo b d = (Inr st, d') \<longrightarrow> st_ok st \<longrightarrow>
        val d' = fold (apply_record mrg) (recs b) (val d)) \<and>
     (\<forall>wo h k v d st d'. lib_Merge L db wo h k v d = (Inr st, d') \<longrightarrow> st_ok st \<longrightarrow>
        val d' = (val d)(fam_of num h := (val d (fam_of num h))
          (k \<mapsto> mrg (fam_of num h) k (val d (fam_of num h) k) v)) \<and>
        lib_DefaultColumnFamily L db d' = lib_DefaultColumnFamily L db d)"

lemma write_contractD:
  assumes "write_contract L db num val recs mrg"
  shows "lib_Write L db wo b d = (Inr st, d') \<Longrightarrow> st_ok st \<Longrightarrow>
        val d' = fold (apply_record mrg) (recs b) (val d)"
    and "lib_Merge L db wo h k v d = (Inr st, d') \<Longrightarrow> st_ok st \<Longrightarrow>
        val d' = (val d)(fam_of num h := (val d (fam_of num h))
          (k \<mapsto> mrg (fam_of num h) k (val d (fam_of num h) k) v)) \<and>
        lib_DefaultColumnFamily L db d' = lib_DefaultColumnFamily L db d"
  using assms unfolding write_contract_def by metis+

subsection \<open>The same changes one by one\<close>

fun write_one :: "pyenv \<Rightarrow> ('d, 'b) db_lib \<Rightarrow> heap \<Rightarrow> nat \<Rightarrow> batch_cmd \<Rightarrow> ('d, pyobj) py" where
  "write_one E L H db (DoPut key val) = DB_put E L H db key val (PBool False) (PBool False)"
| "write_one E L H db (DoMerge key val) = DB_merge E L H db key val (PBool False) (PBool False)"
| "write_one E L H db (DoDelete key) = DB_delete E L H db key (PBool False) (PBool False)"
| "write_one E L H db DoClear = ret_py PNone"

fun write_each :: "pyenv \<Rightarrow> ('d, 'b) db_lib \<Rightarrow> heap \<Rightarrow> nat \<Rightarrow> batch_cmd list \<Rightarrow> ('d, pyobj) py" where
  "write_each E L H db [] = ret_py PNone"
| "write_each E L H db (c # cs) = bind_py (write_one E L H db c) (\<lambda>_. write_each E L H db cs)"

text \<open>The commands a batch still holds: those after the last clear.\<close>

fun keep_cmd :: "batch_cmd list \<Rightarrow> batch_cmd \<Rightarrow> batch_cmd list" where
  "keep_cmd cs DoClear = []"
| "keep_cmd cs c = cs @ [c]"

definition since_clear :: "batch_cmd list \<Rightarrow> batch_cmd list" where
  "since_clear cmds = foldl keep_cmd [] cmds"

text \<open>The record a command leaves in a batch.\<close>

fun record_of :: "cf_store \<Rightarrow> (nat \<Rightarrow> int) \<Rightarrow> batch_cmd \<Rightarrow> handler_call option" where
  "record_of S num (DoPut key (PBytes v)) =
     (case unpack_key S key of
        Inr (h, PBytes k) \<Rightarrow> Some (CallPutCF (case h of None \<Rightarrow> 0 | Some p \<Rightarrow> num p) k v)
      | _ \<Rightarrow> None)"
| "record_of S num (DoMerge key (PBytes v)) =
     (case unpack_key S key of
        Inr (h, PBytes k) \<Rightarrow> Some (CallMergeCF (case h of None \<Rightarrow> 0 | Some p \<Rightarrow> num p) k v)
      | _ \<Rightarrow> None)"
| "record_of S num (DoDelete key) =
     (case unpack_key S key of
        Inr (h, PBytes k) \<Rightarrow> Some (CallDeleteCF (case h of None \<Rightarrow> 0 | Some p \<Rightarrow> num p) k)
      | _ \<Rightarrow> None)"
| "record_of S num _ = None"

lemma run_cmd_record:
  assumes "batch_contract B num recs" "run_cmd B S b c = Inr b'"
    "map Some (recs (batch b)) = map (record_of S num) cs"
  shows "map Some (recs (batch b')) = map (record_of S num) (keep_cmd cs c)"
proof -
  note C = batch_contractD [OF assms(1)]
  show ?thesis
    using assms(2,3)
    by (cases c)
      (auto simp: WriteBatch_put_def WriteBatch_merge_def WriteBatch_delete_def WriteBatch_clear_def
        bind_res_convs bytes_to_slice_iff changed_def dest!: C(2-5))
qed

lemma run_cmds_records:
  assumes "batch_contract B num recs" "run_cmds B S b cmds = Inr b'"
    "map Some (recs (batch b)) = map (record_of S num) cs"
  shows "map Some (recs (batch b')) = map (record_of S num) (foldl keep_cmd cs cmds)"
  using assms(2,3)
  by (induction cmds arbitrary: b cs) (auto simp: bind_res_convs dest: run_cmd_record [OF assms(1)])

text \<open>The two ways of unpacking a key agree.\<close>

lemma unpack_key_cases:
  assumes "unpack_key S key = Inr (h, PBytes k)"
  obtains "key = PBytes k" "h = None"
  | i p where "key = PTuple [PCF i, PBytes k]" "get_handle S i = Inr p" "h = Some p"
  using assms by (auto simp: unpack_key_def bind_res_convs split: pyobj.splits list.splits if_splits)

lemma unpack_key_resolves:
  assumes "unpack_key (cf_objects H) key = Inr (h, PBytes k)"
  shows "resolve_key E H dflt key = Inr (case h of None \<Rightarrow> dflt | Some p \<Rightarrow> p, k)"
  using assms
proof (cases rule: unpack_key_cases)
  case 1
  then show ?thesis by (simp add: resolve_key_def split_key_def choose_handle_def)
next
  case (2 i p)
  then show ?thesis by (simp add: resolve_key_def split_key_def choose_handle_def typed_handle_def)
qed

lemma DB_merge_ok:
  assumes "write_contract L db num val recs mrg" "DB_merge E L H db key v sync wal d = (Inr r, d')"
  obtains h k bs where "resolve_key E H (lib_DefaultColumnFamily L db d) key = Inr (h, k)"
    "v = PBytes bs"
    "val d' = (val d)(fam_of num h := (val d (fam_of num h))
      (k \<mapsto> mrg (fam_of num h) k (val d (fam_of num h) k) bs))"
    "lib_DefaultColumnFamily L db d' = lib_DefaultColumnFamily L db d"
  using assms(2)
  by (auto simp: DB_merge_def py_convs bind_res_convs resolve_key_def bytes_to_slice_iff
      dest!: write_contractD(2) [OF assms(1)] split: prod.splits)

text \<open>The family a command names by id is the family of the handle its key resolves to.\<close>

lemma unpack_key_family:
  assumes "unpack_key (cf_objects H) key = Inr (h, PBytes k)" "num dflt = 0"
    "resolve_key E H dflt key = Inr (p, k')"
  shows "k' = k \<and> num p = (case h of None \<Rightarrow> 0 | Some q \<Rightarrow> num q)"
  using unpack_key_resolves [OF assms(1), of E dflt] assms(2,3) by (cases h) auto

lemma record_of_Some:
  assumes "record_of S num c = Some rc"
  obtains key v h k where "c = DoPut key (PBytes v)" "unpack_key S key = Inr (h, PBytes k)"
    "rc = CallPutCF (case h of None \<Rightarrow> 0 | Some p \<Rightarrow> num p) k v"
  | key v h k where "c = DoMerge key (PBytes v)" "unpack_key S key = Inr (h, PBytes k)"
    "rc = CallMergeCF (case h of None \<Rightarrow> 0 | Some p \<Rightarrow> num p) k v"
  | key h k where "c = DoDelete key" "unpack_key S key = Inr (h, PBytes k)"
    "rc = CallDeleteCF (case h of None \<Rightarrow> 0 | Some p \<Rightarrow> num p) k"
  using assms
  by (cases "(S, num, c)" rule: record_of.cases)
    (auto split: sum.splits prod.splits pyobj.splits)

lemma write_one_record:
  assumes "kv_contract L db (fam_of num) val" "write_contract L db num val recs mrg"
    "num (lib_DefaultColumnFamily L db d) = 0"
    "record_of (cf_objects H) num c = Some rc" "write_one E L H db c d = (Inr r, d')"
  shows "val d' = apply_record mrg rc (val d) \<and>
    lib_DefaultColumnFamily L db d' = lib_DefaultColumnFamily L db d"
  using assms(4)
proof (cases rule: record_of_Some)
  case (1 key v h k)
  note family = unpack_key_family [where num = num, OF 1(2) assms(3)]
  show ?thesis
    using assms(5) 1 by (auto elim!: DB_put_ok [OF assms(1)] dest!: family)
next
  case (2 key v h k)
  note family = unpack_key_family [where num = num, OF 2(2) assms(3)]
  show ?thesis
    using assms(5) 2 by (auto elim!: DB_merge_ok [OF assms(2)] dest!: family)
next
  case (3 key h k)
  note family = unpack_key_family [where num = num, OF 3(2) assms(3)]
  show ?thesis
    using assms(5) 3 by (auto elim!: DB_delete_ok [OF assms(1)] dest!: family)
qed

lemma write_each_records:
  assumes "kv_contract L db (fam_of num) val" "write_contract L db num val recs mrg"
    "num (lib_DefaultColumnFamily L db d) = 0"
    "map (record_of (cf_objects H) num) cs = map Some rcs" "write_each E L H db cs d = (Inr r, d')"
  shows "val d' = fold (apply_record mrg) rcs (val d)"
  using assms(3-5)
proof (induction cs arbitrary: d rcs)
  case Nil
  then show ?case by simp
next
  case (Cons c cs)
  then obtain rc rcs' u d1 where "rcs = rc # rcs'" "record_of (cf_objects H) num c = Some rc"
    "map (record_of (cf_objects H) num) cs = map Some rcs'"
    "write_one E L H db c d = (Inr u, d1)" "write_each E L H db cs d1 = (Inr r, d')"
    by (cases rcs) (auto simp: bind_py_Inr)
  then show ?case
    using write_one_record [where c = c and rc = rc, OF assms(1,2) Cons.prems(1)] Cons.IH [of d1 rcs'] Cons.prems(1)
    by simp
qed

subsection \<open>What an operation keeps\<close>

text \<open>\<open>leaves f m\<close>: whatever \<open>m\<close> returns or raises, it leaves what \<open>f\<close> sees of the state as it was.\<close>

definition leaves :: "('s \<Rightarrow> 'x) \<Rightarrow> ('s, 'a) py \<Rightarrow> bool" where
  "leaves f m \<longleftrightarrow> (\<forall>s. f (snd (m s)) = f s)"

named_theorems keeping

lemma leavesD: "leaves f m \<Longrightarrow> f (snd (m s)) = f s"
  by (simp add: leaves_def)

lemma leaves_bind [keeping]:
  "leaves f m \<Longrightarrow> (\<And>v. leaves f (g v)) \<Longrightarrow> leaves f (bind_py m g)"
  by (auto simp: leaves_def bind_py_def split: prod.split sum.split) (metis snd_conv)+

lemma leaves_lift [keeping]: "leaves f (lift_py r)"
  by (simp add: leaves_def)

lemma leaves_ret [keeping]: "leaves f (ret_py v)"
  by (simp add: leaves_def)

lemma leaves_cpp [keeping]: "(\<And>s. f (snd (m s)) = f s) \<Longrightarrow> leaves f (cpp_py m)"
  by (simp add: leaves_def cpp_py_def split: prod.split) (metis snd_conv)

lemma leaves_if [keeping]: "leaves f m \<Longrightarrow> leaves f n \<Longrightarrow> leaves f (if b then m else n)"
  by simp

lemma leaves_case_prod [keeping]:
  "(\<And>a b. leaves f (g a b)) \<Longrightarrow> leaves f (case x of (a, b) \<Rightarrow> g a b)"
  by (cases x) simp

subsection \<open>RocksDB's snapshots\<close>

text \<open>
  \<open>kept d p\<close>: what the unreleased snapshot \<open>p\<close> shows. A new snapshot keeps the contents of its
  moment, under a pointer no unreleased one has; releasing forgets one; writes and reads change
  none; a full read with a snapshot answers from what it keeps.
\<close>

definition snapshot_contract ::
    "('d, 'b) db_lib \<Rightarrow> ('d, 'i) iter_db_lib \<Rightarrow> nat \<Rightarrow> ('d \<Rightarrow> contents) \<Rightarrow> ('d \<Rightarrow> nat \<Rightarrow> contents option) \<Rightarrow> bool"
  where
  "snapshot_contract L N db val kept \<longleftrightarrow>
     (\<forall>d p d'. lib_GetSnapshot N db d = (Inr p, d') \<longrightarrow>
        kept d p = None \<and> kept d' = (kept d)(p \<mapsto> val d)) \<and>
     (\<forall>d e d'. lib_GetSnapshot N db d = (Inl e, d') \<longrightarrow> kept d' = kept d) \<and>
     (\<forall>d p. kept (lib_ReleaseSnapshot N db p d) = (kept d)(p := None)) \<and>
     (\<forall>wo h k v d. kept (snd (lib_Put L db wo h k v d)) = kept d \<and>
        kept (snd (lib_Merge L db wo h k v d)) = kept d \<and>
        kept (snd (lib_Delete L db wo h k d)) = kept d) \<and>
     (\<forall>wo b d. kept (snd (lib_Write L db wo b d)) = kept d) \<and>
     (\<forall>ro hs ks d. kept (snd (lib_MultiGet L db ro hs ks d)) = kept d) \<and>
     (\<forall>ro h k d. kept (snd (lib_Get L db ro h k d)) = kept d) \<and>
     (\<forall>ro h k d r d' p m. lib_Get L db ro h k d = (Inr r, d') \<longrightarrow> ro_read_tier ro = kReadAllTier \<longrightarrow>
        ro_snapshot ro = Some p \<longrightarrow> kept d p = Some m \<longrightarrow> answer_ok m h k r)"

lemma snapshot_contractD:
  assumes "snapshot_contract L N db val kept"
  shows "lib_GetSnapshot N db d = (Inr p, d') \<Longrightarrow> kept d p = None \<and> kept d' = (kept d)(p \<mapsto> val d)"
    and "lib_GetSnapshot N db d = (Inl e, d') \<Longrightarrow> kept d' = kept d"
    and "kept (lib_ReleaseSnapshot N db p d) = (kept d)(p := None)"
    and "kept (snd (lib_Put L db wo h k v d)) = kept d"
    and "kept (snd (lib_Merge L db wo h k v d)) = kept d"
    and "kept (snd (lib_Delete L db wo h k d)) = kept d"
    and "kept (snd (lib_Write L db wo b d)) = kept d"
    and "kept (snd (lib_MultiGet L db ro hs ks d)) = kept d"
    and "kept (snd (lib_Get L db ro h k d)) = kept d"
    and "lib_Get L db ro h k d = (Inr r, d') \<Longrightarrow> ro_read_tier ro = kReadAllTier \<Longrightarrow>
        ro_snapshot ro = Some p \<Longrightarrow> kept d p = Some m \<Longrightarrow> answer_ok m h k r"
  using assms unfolding snapshot_contract_def by (metis | blast)+

text \<open>The methods of \<open>DB\<close> change no snapshot.\<close>

lemma DB_put_keeps:
  "snapshot_contract L N db val kept \<Longrightarrow> kept (snd (DB_put E L H db key v s w d)) = kept d"
  unfolding DB_put_def put_unlocked_def by (rule leavesD) (intro keeping snapshot_contractD(4))

lemma DB_merge_keeps:
  "snapshot_contract L N db val kept \<Longrightarrow> kept (snd (DB_merge E L H db key v s w d)) = kept d"
  unfolding DB_merge_def merge_unlocked_def by (rule leavesD) (intro keeping snapshot_contractD(5))

lemma DB_delete_keeps:
  "snapshot_contract L N db val kept \<Longrightarrow> kept (snd (DB_delete E L H db key s w d)) = kept d"
  unfolding DB_delete_def delete_unlocked_def by (rule leavesD) (intro keeping snapshot_contractD(6))

lemma DB_write_keeps:
  "snapshot_contract L N db val kept \<Longrightarrow> kept (snd (DB_write E L db b s w d)) = kept d"
  unfolding DB_write_def by (rule leavesD) (intro keeping snapshot_contractD(7))

lemma DB_get_keeps:
  "snapshot_contract L N db val kept \<Longrightarrow> kept (snd (DB_get E L H db key args kwds d)) = kept d"
  unfolding DB_get_def get_unlocked_def by (rule leavesD) (intro keeping snapshot_contractD(9))

lemma DB_multi_get_keeps:
  "snapshot_contract L N db val kept \<Longrightarrow> kept (snd (DB_multi_get E L H db keys args kwds d)) = kept d"
  unfolding DB_multi_get_def multi_get_unlocked_def by (rule leavesD) (intro keeping snapshot_contractD(8))

lemmas methods_keep =
  DB_put_keeps DB_merge_keeps DB_delete_keeps DB_write_keeps DB_get_keeps DB_multi_get_keeps

subsection \<open>A program with snapshots\<close>

text \<open>
  The database with the \<open>Snapshot\<close> objects made so far (\<open>None\<close> once deallocated); the identity of
  an object is its index.
\<close>

record 'd client =
  w_db :: 'd
  w_snaps :: "snapshot_object option list"

datatype 'b act =
    ActPut pyobj pyobj pyobj pyobj
  | ActMerge pyobj pyobj pyobj pyobj
  | ActDelete pyobj pyobj pyobj
  | ActWrite "'b WriteBatch" pyobj pyobj
  | ActGet pyobj "pyobj list" kwargs
  | ActMultiGet pyobj "pyobj list" kwargs
  | ActSnapshot
  | ActDealloc nat

definition snap_at :: "'d client \<Rightarrow> nat \<Rightarrow> snapshot_object option" where
  "snap_at w i = (if i < length (w_snaps w) then w_snaps w ! i else None)"

definition client_heap :: "cf_store \<Rightarrow> 'd client \<Rightarrow> heap" where
  "client_heap S w = \<lparr>cf_objects = S,
     snapshots = (\<lambda>i. case snap_at w i of Some s \<Rightarrow> snap_ptr s | None \<Rightarrow> None)\<rparr>"

fun run_act ::
    "pyenv \<Rightarrow> ('d, 'b) db_lib \<Rightarrow> ('d, 'i) iter_db_lib \<Rightarrow> cf_store \<Rightarrow> nat \<Rightarrow> 'd client \<Rightarrow> 'b act \<Rightarrow> 'd client"
  where
  "run_act E L N S db w (ActPut key v sync wal) =
     w\<lparr>w_db := snd (DB_put E L (client_heap S w) db key v sync wal (w_db w))\<rparr>"
| "run_act E L N S db w (ActMerge key v sync wal) =
     w\<lparr>w_db := snd (DB_merge E L (client_heap S w) db key v sync wal (w_db w))\<rparr>"
| "run_act E L N S db w (ActDelete key sync wal) =
     w\<lparr>w_db := snd (DB_delete E L (client_heap S w) db key sync wal (w_db w))\<rparr>"
| "run_act E L N S db w (ActWrite b sync wal) =
     w\<lparr>w_db := snd (DB_write E L db b sync wal (w_db w))\<rparr>"
| "run_act E L N S db w (ActGet key args kwds) =
     w\<lparr>w_db := snd (DB_get E L (client_heap S w) db key args kwds (w_db w))\<rparr>"
| "run_act E L N S db w (ActMultiGet keys args kwds) =
     w\<lparr>w_db := snd (DB_multi_get E L (client_heap S w) db keys args kwds (w_db w))\<rparr>"
| "run_act E L N S db w ActSnapshot =
     (case DB_snapshot N db (w_db w) of
        (Inr s, d') \<Rightarrow> \<lparr>w_db = d', w_snaps = w_snaps w @ [Some s]\<rparr>
      | (Inl e, d') \<Rightarrow> w\<lparr>w_db := d'\<rparr>)"
| "run_act E L N S db w (ActDealloc i) =
     (case snap_at w i of
        Some s \<Rightarrow> \<lparr>w_db = Snapshot_dealloc N s (w_db w), w_snaps = (w_snaps w)[i := None]\<rparr>
      | None \<Rightarrow> w)"

definition run_acts ::
    "pyenv \<Rightarrow> ('d, 'b) db_lib \<Rightarrow> ('d, 'i) iter_db_lib \<Rightarrow> cf_store \<Rightarrow> nat \<Rightarrow> 'd client \<Rightarrow> 'b act list \<Rightarrow> 'd client"
  where
  "run_acts E L N S db w acts = foldl (run_act E L N S db) w acts"

text \<open>Every live object holds an unreleased snapshot of the database, and no two share one.\<close>

definition snaps_ok :: "nat \<Rightarrow> ('d \<Rightarrow> nat \<Rightarrow> contents option) \<Rightarrow> 'd client \<Rightarrow> bool" where
  "snaps_ok db kept w \<longleftrightarrow>
     (\<forall>i s. snap_at w i = Some s \<longrightarrow>
        snap_db s = db \<and> (\<exists>p. snap_ptr s = Some p \<and> kept (w_db w) p \<noteq> None)) \<and>
     (\<forall>i j s t. snap_at w i = Some s \<longrightarrow> snap_at w j = Some t \<longrightarrow> snap_ptr s = snap_ptr t \<longrightarrow> i = j)"

lemma snap_at_append:
  "snap_at \<lparr>w_db = d, w_snaps = w_snaps w @ [x]\<rparr> i = (if i = length (w_snaps w) then x else snap_at w i)"
  by (simp add: snap_at_def nth_append)

lemma snap_at_update:
  "snap_at \<lparr>w_db = d, w_snaps = (w_snaps w)[i := None]\<rparr> j = (if j = i then None else snap_at w j)"
  by (simp add: snap_at_def nth_list_update)

lemma snap_at_db [simp]: "snap_at (w\<lparr>w_db := d\<rparr>) i = snap_at w i"
  by (simp add: snap_at_def)

lemma snaps_ok_db:
  "snaps_ok db kept w \<Longrightarrow> kept d = kept (w_db w) \<Longrightarrow> snaps_ok db kept (w\<lparr>w_db := d\<rparr>)"
  by (simp add: snaps_ok_def)

text \<open>What the object \<open>i\<close> shows.\<close>

definition shows_contents :: "('d \<Rightarrow> nat \<Rightarrow> contents option) \<Rightarrow> 'd client \<Rightarrow> nat \<Rightarrow> contents option" where
  "shows_contents kept w i =
     (case snap_at w i of
        Some s \<Rightarrow> (case snap_ptr s of Some p \<Rightarrow> kept (w_db w) p | None \<Rightarrow> None)
      | None \<Rightarrow> None)"

lemma new_snapshot:
  assumes "snapshot_contract L N db val kept" "DB_snapshot N db d = (Inr s, d')"
  obtains p where "s = \<lparr>snap_ptr = Some p, snap_db = db\<rparr>" "kept d p = None" "kept d' = (kept d)(p \<mapsto> val d)"
  using assms(2) snapshot_contractD(1) [OF assms(1)]
  by (auto simp: DB_snapshot_def Snapshot_cinit_def py_convs)

lemma failed_snapshot:
  assumes "snapshot_contract L N db val kept" "DB_snapshot N db d = (Inl e, d')"
  shows "kept d' = kept d"
proof -
  have "\<exists>e'. lib_GetSnapshot N db d = (Inl e', d')"
    using assms(2)
    by (cases "lib_GetSnapshot N db d"; cases "fst (lib_GetSnapshot N db d)")
      (auto simp: DB_snapshot_def Snapshot_cinit_def bind_py_def cpp_py_def)
  then show ?thesis using snapshot_contractD(2) [OF assms(1)] by blast
qed

lemma snaps_ok_new:
  assumes "snaps_ok db kept w" "kept (w_db w) p = None" "kept d = (kept (w_db w))(p \<mapsto> m)"
  shows "snaps_ok db kept \<lparr>w_db = d, w_snaps = w_snaps w @ [Some \<lparr>snap_ptr = Some p, snap_db = db\<rparr>]\<rparr>"
proof -
  have live: "snap_db t = db \<and> (\<exists>q. snap_ptr t = Some q \<and> q \<noteq> p \<and> kept (w_db w) q \<noteq> None)"
    if "snap_at w j = Some t" for j t
    using assms(1,2) that unfolding snaps_ok_def by metis
  have eq: "i = j" if "snap_at w i = Some t" "snap_at w j = Some u" "snap_ptr t = snap_ptr u" for i j t u
    using assms(1) that unfolding snaps_ok_def by blast
  show ?thesis
    unfolding snaps_ok_def snap_at_append
    using assms(3) by (intro conjI allI impI; force dest: live eq split: if_splits)
qed

lemma snaps_ok_release:
  assumes "snaps_ok db kept w" "snap_at w i = Some s" "snap_ptr s = Some p"
    "kept d = (kept (w_db w))(p := None)"
  shows "snaps_ok db kept \<lparr>w_db = d, w_snaps = (w_snaps w)[i := None]\<rparr>"
proof -
  have live: "snap_db t = db \<and> (\<exists>q. snap_ptr t = Some q \<and> q \<noteq> p \<and> kept (w_db w) q \<noteq> None)"
    if "snap_at w j = Some t" "j \<noteq> i" for j t
    using assms(1-3) that unfolding snaps_ok_def by metis
  have eq: "j = l" if "snap_at w j = Some t" "snap_at w l = Some u" "snap_ptr t = snap_ptr u" for j l t u
    using assms(1) that unfolding snaps_ok_def by blast
  show ?thesis
    unfolding snaps_ok_def snap_at_update
    using assms(4) by (intro conjI allI impI; force dest: live eq split: if_splits)
qed

lemma run_act_ok:
  assumes "snapshot_contract L N db val kept" "snaps_ok db kept w"
  shows "snaps_ok db kept (run_act E L N S db w a)"
proof (cases a)
  case ActSnapshot
  then show ?thesis
    using snaps_ok_new [OF assms(2)] snaps_ok_db [OF assms(2)] failed_snapshot [OF assms(1)]
    by (auto split: prod.split sum.split elim!: new_snapshot [OF assms(1)])
next
  case (ActDealloc i)
  show ?thesis
  proof (cases "snap_at w i")
    case None
    then show ?thesis using ActDealloc assms(2) by simp
  next
    case (Some s)
    then obtain p where p: "snap_ptr s = Some p" "snap_db s = db"
      using assms(2) unfolding snaps_ok_def by blast
    have "kept (Snapshot_dealloc N s (w_db w)) = (kept (w_db w))(p := None)"
      using p snapshot_contractD(3) [OF assms(1)] by (simp add: Snapshot_dealloc_def)
    then show ?thesis using ActDealloc Some snaps_ok_release [OF assms(2) Some p(1)] by simp
  qed
qed (simp_all add: snaps_ok_db [OF assms(2)] methods_keep [OF assms(1)])

text \<open>
  A step changes what the object \<open>i\<close> shows only if it deallocates \<open>i\<close>: no other object shares its
  C++ snapshot, and a new one gets another.
\<close>

lemma run_act_shows:
  assumes "snapshot_contract L N db val kept" "snaps_ok db kept w" "shows_contents kept w i = Some m"
    "a \<noteq> ActDealloc i"
  shows "shows_contents kept (run_act E L N S db w a) i = Some m"
proof -
  obtain s p where i: "snap_at w i = Some s" "snap_ptr s = Some p" "kept (w_db w) p = Some m"
    using assms(3) by (auto simp: shows_contents_def split: option.splits)
  then have lt: "i < length (w_snaps w)" by (simp add: snap_at_def split: if_splits)
  have same: "shows_contents kept (w\<lparr>w_db := d\<rparr>) i = Some m" if "kept d = kept (w_db w)" for d
    using i that by (simp add: shows_contents_def)
  show ?thesis
  proof (cases a)
    case ActSnapshot
    then show ?thesis
      using i lt same failed_snapshot [OF assms(1)]
      by (auto simp: shows_contents_def snap_at_append split: prod.split sum.split
          elim!: new_snapshot [OF assms(1)])
  next
    case (ActDealloc j)
    show ?thesis
    proof (cases "snap_at w j")
      case None
      then show ?thesis using ActDealloc assms(3) by simp
    next
      case (Some t)
      then obtain q where q: "snap_ptr t = Some q" "snap_db t = db"
        using assms(2) unfolding snaps_ok_def by blast
      have "q \<noteq> p" using assms(2,4) ActDealloc Some i q unfolding snaps_ok_def by metis
      moreover have "kept (Snapshot_dealloc N t (w_db w)) = (kept (w_db w))(q := None)"
        using q snapshot_contractD(3) [OF assms(1)] by (simp add: Snapshot_dealloc_def)
      ultimately show ?thesis
        using ActDealloc Some i assms(4) by (simp add: shows_contents_def snap_at_update)
    qed
  qed (simp_all add: same methods_keep [OF assms(1)])
qed

lemma run_acts_shows:
  assumes "snapshot_contract L N db val kept" "snaps_ok db kept w" "shows_contents kept w i = Some m"
    "ActDealloc i \<notin> set acts"
  shows "shows_contents kept (run_acts E L N S db w acts) i = Some m"
  using assms(2-4)
  by (induction acts arbitrary: w)
    (auto simp: run_acts_def run_act_ok [OF assms(1)] run_act_shows [OF assms(1)])

lemma run_acts_ok:
  assumes "snapshot_contract L N db val kept" "snaps_ok db kept w"
  shows "snaps_ok db kept (run_acts E L N S db w acts)"
  using assms(2) by (induction acts arbitrary: w) (simp_all add: run_acts_def run_act_ok [OF assms(1)])

lemma no_snaps_ok: "snaps_ok db kept \<lparr>w_db = d, w_snaps = []\<rparr>"
  by (simp add: snaps_ok_def snap_at_def)

text \<open>A read with \<open>snapshot=s\<close>, \<open>s\<close> the object \<open>i\<close>.\<close>

lemma snapshot_read_options:
  assumes "snapshots H i = Some p"
  shows "\<exists>ro. read_options E L H [] [(''snapshot'', PObj i)] = Inr ro \<and>
    ro_snapshot ro = Some p \<and> ro_read_tier ro = kReadAllTier"
  using assms
  by (simp add: read_options_def parse_read_opts_def unpack_arguments_def read_opts_signature_def
      build_read_opts_def read_opts_body_def snapshot_ptr_def)

lemma DB_get_snapshot:
  assumes "snapshot_contract L N db val kept" "snapshots H i = Some p" "kept d p = Some m"
    "DB_get E L H db key [] [(''snapshot'', PObj i)] d = (Inr r, d')"
  shows "\<exists>h k. resolve_key E H (lib_DefaultColumnFamily L db d) key = Inr (h, k) \<and> r = shown_value (m h k)"
proof -
  obtain ro where ro: "read_options E L H [] [(''snapshot'', PObj i)] = Inr ro"
    "ro_snapshot ro = Some p" "ro_read_tier ro = kReadAllTier"
    using snapshot_read_options [OF assms(2)] by blast
  from assms(4) ro obtain c k' k h st res where
    "split_key key = Inr (c, k')" "bytes_to_slice k' = Inr k"
    "choose_handle E H (lib_DefaultColumnFamily L db d) c = Inr h"
    and g: "lib_Get L db ro h k d = (Inr (st, res), d')"
    and r: "st_ok st \<and> r = PBytes res \<or> \<not> st_ok st \<and> IsNotFound st \<and> r = PNone"
    by (auto simp: DB_get_def py_convs string_to_bytes_def split: if_splits)
  moreover have "r = shown_value (m h k)"
    using snapshot_contractD(10) [OF assms(1) g ro(3,2) assms(3)] r answer_shown by metis
  ultimately show ?thesis by (intro exI [of _ h] exI [of _ k]) (simp add: resolve_key_def)
qed

lemma snapshot_shows:
  assumes "snapshot_contract L N db val kept" "DB_snapshot N db (w_db w) = (Inr s, d')"
  shows "shows_contents kept (run_act E L N S db w ActSnapshot) (length (w_snaps w)) = Some (val (w_db w))"
  using assms by (auto simp: shows_contents_def snap_at_append elim!: new_snapshot [OF assms(1)])

subsection \<open>Properties\<close>

text \<open>
  C2. Writing a batch does what its changes do one by one: for every sequence of puts, merges and
  deletes (with any clears in between) that could be recorded in a batch, plain keys and keys of
  families mixed, the database has the same contents after \<open>write(batch)\<close> as after the \<open>put\<close>,
  \<open>merge\<close> and \<open>delete\<close> calls of the commands since the last clear, when these succeed. Several handles
  may belong to one family; the default family has the id 0.
\<close>

theorem batch_write_equals_single_writes:
  assumes "batch_contract B num recs" "kv_contract L db (fam_of num) val" "write_contract L db num val recs mrg"
    and "num (lib_DefaultColumnFamily L db d) = 0"
    and "WriteBatch_cinit B PNone = Inr b0" "run_cmds B (cf_objects H) b0 cmds = Inr b"
    and "DB_write E L db b sync wal d = (Inr r, d1)"
    and "write_each E L H db (since_clear cmds) d = (Inr r', d2)"
  shows "val d1 = val d2"
proof -
  have "recs (batch b0) = []"
    using assms(5) batch_contractD(1) [OF assms(1)] by (auto simp: WriteBatch_cinit_def bind_res_convs)
  then have "map Some (recs (batch b)) = map (record_of (cf_objects H) num) (since_clear cmds)"
    using run_cmds_records [OF assms(1,6), of "[]"] by (simp add: since_clear_def)
  then have "val d2 = fold (apply_record mrg) (recs (batch b)) (val d)"
    using write_each_records [OF assms(2-4) _ assms(8)] by metis
  moreover have "val d1 = fold (apply_record mrg) (recs (batch b)) (val d)"
    using assms(7) write_contractD(1) [OF assms(3)] by (auto simp: DB_write_def py_convs)
  ultimately show ?thesis by simp
qed

text \<open>
  C6. Reads through a snapshot are repeatable: whatever was done before, and whatever puts, merges,
  deletes, batch writes and reads, successful or not, and whatever new or deallocated snapshots
  come between, \<open>get(key, snapshot=s)\<close> returns what the key was bound to when \<open>s\<close> was
  made, as long as \<open>s\<close> itself lives.
\<close>

theorem snapshot_reads_repeatable:
  assumes "snapshot_contract L N db val kept"
    and "w = run_acts E L N S db \<lparr>w_db = d, w_snaps = []\<rparr> before"
    and "DB_snapshot N db (w_db w) = (Inr s, ds)" "i = length (w_snaps w)"
    and "w' = run_acts E L N S db w (ActSnapshot # later)" "ActDealloc i \<notin> set later"
    and "DB_get E L (client_heap S w') db key [] [(''snapshot'', PObj i)] (w_db w') = (Inr r, d')"
  shows "\<exists>h k. resolve_key E (client_heap S w') (lib_DefaultColumnFamily L db (w_db w')) key = Inr (h, k) \<and>
    r = shown_value (val (w_db w) h k)"
proof -
  let ?w1 = "run_act E L N S db w ActSnapshot"
  have "snaps_ok db kept ?w1"
    unfolding assms(2) by (intro run_act_ok [OF assms(1)] run_acts_ok [OF assms(1)] no_snaps_ok)
  moreover have "shows_contents kept ?w1 i = Some (val (w_db w))"
    unfolding assms(4) by (rule snapshot_shows [OF assms(1,3)])
  ultimately have "shows_contents kept (run_acts E L N S db ?w1 later) i = Some (val (w_db w))"
    using run_acts_shows [OF assms(1)] assms(6) by blast
  then have "shows_contents kept w' i = Some (val (w_db w))"
    using assms(5) by (simp add: run_acts_def)
  then obtain p where "snapshots (client_heap S w') i = Some p" "kept (w_db w') p = Some (val (w_db w))"
    by (auto simp: shows_contents_def client_heap_def split: option.splits)
  then show ?thesis by (rule DB_get_snapshot [OF assms(1) _ _ assms(7)])
qed

subsection \<open>A database for examples\<close>

text \<open>The contents, and what each snapshot taken so far keeps (\<open>None\<close> once released).\<close>

type_synonym snap_db = "contents \<times> contents option list"

definition demo_merging :: merging where
  "demo_merging h k old v = (case old of None \<Rightarrow> v | Some u \<Rightarrow> u @ v)"

definition snap_kept :: "snap_db \<Rightarrow> nat \<Rightarrow> contents option" where
  "snap_kept d p = (if p < length (snd d) then snd d ! p else None)"

definition snap_seen :: "read_opts \<Rightarrow> snap_db \<Rightarrow> contents" where
  "snap_seen ro d =
     (case ro_snapshot ro of
        None \<Rightarrow> fst d
      | Some p \<Rightarrow> (case snap_kept d p of None \<Rightarrow> fst d | Some m \<Rightarrow> m))"

definition demo_answer :: "bytes option \<Rightarrow> status \<times> bytes" where
  "demo_answer v = (case v of Some bs \<Rightarrow> (status_of Ok [], bs) | None \<Rightarrow> (status_of NotFoundCode [], []))"

definition snap_lib :: "(snap_db, handler_call list) db_lib" where
  "snap_lib =
     \<lparr>lib_default_ReadOptions = \<lparr>ro_verify_checksums = True, ro_fill_cache = True,
        ro_snapshot = None, ro_read_tier = kReadAllTier\<rparr>,
      lib_DefaultColumnFamily = (\<lambda>_ _. 0),
      lib_Put = (\<lambda>_ _ h k v d. (Inr (status_of Ok []), apfst (apply_record demo_merging (CallPutCF (demo_num h) k v)) d)),
      lib_Delete = (\<lambda>_ _ h k d. (Inr (status_of Ok []), apfst (apply_record demo_merging (CallDeleteCF (demo_num h) k)) d)),
      lib_Merge = (\<lambda>_ _ h k v d. (Inr (status_of Ok []), apfst (apply_record demo_merging (CallMergeCF (demo_num h) k v)) d)),
      lib_Write = (\<lambda>_ _ b d. (Inr (status_of Ok []), apfst (fold (apply_record demo_merging) b) d)),
      lib_Get = (\<lambda>_ ro h k d. (Inr (demo_answer (snap_seen ro d (fam_of demo_num h) k)), d)),
      lib_MultiGet = (\<lambda>_ ro hs ks d. (Inr (map (\<lambda>(h, k). demo_answer (snap_seen ro d (fam_of demo_num h) k)) (zip hs ks)), d)),
      lib_KeyMayExist = (\<lambda>_ ro h k d. (Inr (snap_seen ro d (fam_of demo_num h) k \<noteq> None, [], False), d)),
      lib_GetProperty = (\<lambda>_ _ _ d. (Inr (False, []), d)),
      lib_GetLiveFilesMetaData = (\<lambda>_ d. (Inr [], d)),
      lib_CompactRange = (\<lambda>_ _ _ _ _ d. (Inr (status_of Ok []), d))\<rparr>"

definition snap_iter_lib :: "(snap_db, demo_iter) iter_db_lib" where
  "snap_iter_lib = \<lparr>lib_NewIterator = (\<lambda>_ _ h d. (Inr (demo_entries, h), d)),
     lib_NewIterators = (\<lambda>_ _ hs _ d. (Inr (status_of Ok [], map (\<lambda>h. Some (demo_entries, h)) hs), d)),
     lib_GetSnapshot = (\<lambda>_ d. (Inr (length (snd d)), (fst d, snd d @ [Some (fst d)]))),
     lib_ReleaseSnapshot = (\<lambda>_ p d. (fst d, (snd d)[p := None]))\<rparr>"

lemma demo_answer_ok: "demo_answer (m h k) = r \<Longrightarrow> answer_ok m h k r"
  by (auto simp: answer_ok_def demo_answer_def status_of_def split: option.splits)

lemma snap_lib_kv: "kv_contract snap_lib db (fam_of demo_num) fst"
  by (auto simp: kv_contract_def snap_lib_def newest_def snap_seen_def intro!: demo_answer_ok)

lemma snap_lib_write: "write_contract snap_lib db demo_num fst id demo_merging"
  by (simp add: write_contract_def snap_lib_def)

text \<open>The contents as seen through handles.\<close>

definition by_handle :: "contents \<Rightarrow> contents" where
  "by_handle m h = m (fam_of demo_num h)"

definition snap_shown :: "snap_db \<Rightarrow> nat \<Rightarrow> contents option" where
  "snap_shown d p = map_option by_handle (snap_kept d p)"

lemma snap_lib_snapshots: "snapshot_contract snap_lib snap_iter_lib db (by_handle \<circ> fst) snap_shown"
  by (auto simp: snapshot_contract_def snap_lib_def snap_iter_lib_def snap_shown_def snap_kept_def snap_seen_def
      by_handle_def nth_append nth_list_update fun_eq_iff intro!: demo_answer_ok)

lemma demo_store_handle: "get_handle demo_store 2 = Inr 7"
  by (simp add: get_handle_def deref_def demo_store_def demo_handle_def)

text \<open>A batch with plain keys, keys of another family and keys given through a handle of \<open>default\<close>.\<close>

theorem batch_write_equals_single_writes_witness:
  "fst (snd (DB_write plain_env snap_lib 0
      \<lparr>batch = [CallPutCF 0 [1] [2], CallMergeCF 7 [3] [4], CallMergeCF 0 [1] [5]], version = 5\<rparr>
      (PBool False) (PBool False) (\<lambda>_ _. None, []))) =
   fst (snd (write_each plain_env snap_lib alias_heap 0
      [DoPut (PBytes [1]) (PBytes [2]), DoMerge (PTuple [PCF 2, PBytes [3]]) (PBytes [4]),
       DoMerge (PTuple [PCF 4, PBytes [1]]) (PBytes [5])] (\<lambda>_ _. None, [])))"
proof -
  let ?cs = "[DoPut (PBytes [1]) (PBytes [2]), DoMerge (PTuple [PCF 2, PBytes [3]]) (PBytes [4]),
       DoMerge (PTuple [PCF 4, PBytes [1]]) (PBytes [5])]"
  let ?b = "\<lparr>batch = [CallPutCF 0 [1] [2], CallMergeCF 7 [3] [4], CallMergeCF 0 [1] [5]], version = 5\<rparr>"
  let ?w = "DB_write plain_env snap_lib 0 ?b (PBool False) (PBool False) (\<lambda>_ _. None, [])"
  let ?e = "write_each plain_env snap_lib alias_heap 0 ?cs (\<lambda>_ _. None, [])"
  have c: "WriteBatch_cinit list_batch PNone = Inr \<lparr>batch = [], version = 0\<rparr>"
    by (simp add: WriteBatch_cinit_def list_batch_def)
  have u: "unpack_key (cf_objects alias_heap) (PTuple [PCF 2, PBytes [3]]) = Inr (Some 7, PBytes [3])"
    "unpack_key (cf_objects alias_heap) (PTuple [PCF 4, PBytes [1]]) = Inr (Some 9, PBytes [1])"
    "\<And>bs. unpack_key (cf_objects alias_heap) (PBytes bs) = Inr (None, PBytes bs)"
    by (simp_all add: unpack_key_def alias_handles)
  have r: "run_cmds list_batch (cf_objects alias_heap) \<lparr>batch = [], version = 0\<rparr>
      (DoPut (PBytes [9]) (PBytes [9]) # DoClear # ?cs) = Inr ?b"
    by (simp add: WriteBatch_put_def WriteBatch_merge_def WriteBatch_clear_def u changed_def
        list_batch_def cf_num_def demo_num_def)
  have s: "since_clear (DoPut (PBytes [9]) (PBytes [9]) # DoClear # ?cs) = ?cs"
    by (simp add: since_clear_def)
  have w: "?w = (Inr PNone, snd ?w)"
    by (simp add: DB_write_def write_options_def snap_lib_def bind_py_def cpp_py_def status_of_def)
  have e: "?e = (Inr PNone, snd ?e)"
    by (simp add: DB_put_def DB_merge_def write_options_def split_key_def choose_handle_def typed_handle_def
        alias_handles snap_lib_def bind_py_def cpp_py_def status_of_def)
  have e': "write_each plain_env snap_lib alias_heap 0
      (since_clear (DoPut (PBytes [9]) (PBytes [9]) # DoClear # ?cs)) (\<lambda>_ _. None, []) = (Inr PNone, snd ?e)"
    unfolding s by (rule e)
  have f: "demo_num (lib_DefaultColumnFamily snap_lib 0 (\<lambda>_ _. None, [])) = 0"
    by (simp add: snap_lib_def demo_num_def)
  show ?thesis
    by (rule batch_write_equals_single_writes [OF list_batch_contract snap_lib_kv snap_lib_write f c r w e'])
qed

definition demo_client :: "snap_db client" where
  "demo_client =
     \<lparr>w_db = ((\<lambda>_ _. None)(0 := [[1] \<mapsto> [3]]), [Some ((\<lambda>_ _. None)(0 := [[1] \<mapsto> [2]]))]),
      w_snaps = [Some \<lparr>snap_ptr = Some 0, snap_db = 0\<rparr>]\<rparr>"

theorem snapshot_reads_repeatable_witness:
  "\<exists>d'. DB_get plain_env snap_lib (client_heap demo_store demo_client) 0 (PBytes [1]) []
      [(''snapshot'', PObj 0)] (w_db demo_client) = (Inr (PBytes [2]), d')"
proof -
  let ?run = "run_acts plain_env snap_lib snap_iter_lib demo_store 0"
  let ?f = "PBool False"
  define w where "w = ?run \<lparr>w_db = (\<lambda>_ _. None, []), w_snaps = []\<rparr> [ActPut (PBytes [1]) (PBytes [2]) ?f ?f]"
  have w: "w = \<lparr>w_db = ((\<lambda>_ _. None)(0 := [[1] \<mapsto> [2]]), []), w_snaps = []\<rparr>"
    by (simp add: w_def run_acts_def DB_put_def write_options_def split_key_def choose_handle_def
        snap_lib_def bind_py_def cpp_py_def status_of_def demo_num_def)
  have w': "demo_client = ?run w (ActSnapshot # [ActPut (PBytes [1]) (PBytes [3]) ?f ?f])"
    by (simp add: demo_client_def w run_acts_def DB_put_def write_options_def split_key_def choose_handle_def
        snap_lib_def bind_py_def cpp_py_def status_of_def DB_snapshot_def Snapshot_cinit_def
        snap_iter_lib_def demo_num_def)
  have s: "\<exists>s ds. DB_snapshot snap_iter_lib 0 (w_db w) = (Inr s, ds)"
    by (simp add: DB_snapshot_def Snapshot_cinit_def snap_iter_lib_def bind_py_def cpp_py_def)
  have g: "\<exists>r d'. DB_get plain_env snap_lib (client_heap demo_store demo_client) 0 (PBytes [1]) []
      [(''snapshot'', PObj 0)] (w_db demo_client) = (Inr r, d')"
    by (simp add: DB_get_def read_options_def parse_read_opts_def unpack_arguments_def
        read_opts_signature_def build_read_opts_def read_opts_body_def snapshot_ptr_def client_heap_def
        demo_client_def snap_at_def split_key_def choose_handle_def bind_py_def cpp_py_def snap_lib_def demo_answer_def
        snap_seen_def snap_kept_def status_of_def demo_num_def)
  obtain s ds r d' where S: "DB_snapshot snap_iter_lib 0 (w_db w) = (Inr s, ds)"
    and G: "DB_get plain_env snap_lib (client_heap demo_store demo_client) 0 (PBytes [1]) []
      [(''snapshot'', PObj 0)] (w_db demo_client) = (Inr r, d')"
    using s g by blast
  have "0 = length (w_snaps w)" by (simp add: w)
  note P = snapshot_reads_repeatable [OF snap_lib_snapshots w_def S this w' _ G]
  have "r = PBytes [2]"
    using P by (auto simp: w resolve_key_def split_key_def choose_handle_def shown_value_def snap_lib_def
        by_handle_def demo_num_def)
  then show ?thesis using G by simp
qed

end
