(* ===== verification/Options.thy ===== *)
theory Options
  imports Database Merge
begin

section \<open>Options objects\<close>

text \<open>
  The Cython classes \<open>ColumnFamilyOptions\<close> and \<open>Options\<close> of \<open>rocksdb/_rocksdb.cpp\<close>: properties that
  read and write fields of the C++ options structures, each with the conversion of its C type,
  and properties that hold Python objects whose C++ parts the options point to. The state of an
  object is the part of the C++ structure these properties reach.
\<close>

subsection \<open>C slots\<close>

datatype slot = SInt | SUInt | SSize | SU64 | SU32 | SBool

definition slot_as :: "pyenv \<Rightarrow> slot \<Rightarrow> pyobj \<Rightarrow> pyexn + int" where
  "slot_as E t v =
     (case t of
        SInt \<Rightarrow> PyInt_As_int E v
      | SUInt \<Rightarrow> PyInt_As_unsigned_int E v
      | SSize \<Rightarrow> PyInt_As_size_t E v
      | SU64 \<Rightarrow> PyInt_As_uint64_t E v
      | SU32 \<Rightarrow> PyInt_As_uint32_t E v
      | SBool \<Rightarrow> bind_res (PyObject_IsTrue E v) (\<lambda>b. Inr (of_bool b)))"

definition slot_from :: "slot \<Rightarrow> int \<Rightarrow> pyobj" where
  "slot_from t n =
     (case t of
        SInt \<Rightarrow> PyInt_From_int n
      | SUInt \<Rightarrow> PyInt_From_unsigned_int n
      | SSize \<Rightarrow> PyInt_FromSize_t n
      | SU64 \<Rightarrow> PyInt_From_uint64_t n
      | SU32 \<Rightarrow> PyInt_From_uint32_t n
      | SBool \<Rightarrow> PBool (n \<noteq> 0))"

definition slot_valid :: "slot \<Rightarrow> int \<Rightarrow> bool" where
  "slot_valid t n =
     (case t of
        SInt \<Rightarrow> in_range c_int n | SUInt \<Rightarrow> in_range c_uint n | SSize \<Rightarrow> in_range c_size_t n
      | SU64 \<Rightarrow> in_range c_uint64_t n | SU32 \<Rightarrow> in_range c_uint32_t n | SBool \<Rightarrow> n = 0 \<or> n = 1)"

subsection \<open>Enumerations\<close>

text \<open>
  Values are compared with \<open>==\<close>: \<open>str\<close> objects by their text, other builtin values are different from
  any text, and \<open>eq_str\<close> is what a user class says. \<open>first_equal\<close> is the chain of
  \<open>if value == ...: elif value == ...:\<close>.
\<close>

definition str_equal :: "(nat \<Rightarrow> string \<Rightarrow> pyexn + bool) \<Rightarrow> pyobj \<Rightarrow> string \<Rightarrow> pyexn + bool" where
  "str_equal eq_str value s =
     (case value of PStr t \<Rightarrow> Inr (t = s) | PObj i \<Rightarrow> eq_str i s | _ \<Rightarrow> Inr False)"

fun first_equal :: "(nat \<Rightarrow> string \<Rightarrow> pyexn + bool) \<Rightarrow> pyobj \<Rightarrow> (string \<times> 'a) list \<Rightarrow> pyexn \<Rightarrow> pyexn + 'a"
  where
  "first_equal eq_str value [] e = Inl e"
| "first_equal eq_str value ((s, c) # cases) e =
     bind_res (str_equal eq_str value s) (\<lambda>b.
       if b then Inr c else first_equal eq_str value cases e)"

datatype compression_type =
    kNoCompression | kSnappyCompression | kZlibCompression | kBZip2Compression | kLZ4Compression
  | kLZ4HCCompression | kXpressCompression | kZSTD | kZSTDNotFinalCompression
  | kDisableCompressionOption | other_compression int

datatype compaction_pri =
    kByCompensatedSize | kOldestLargestSeqFirst | kOldestSmallestSeqFirst | kMinOverlappingRatio
  | other_pri int

datatype compaction_style =
    kCompactionStyleLevel | kCompactionStyleUniversal | kCompactionStyleFIFO | kCompactionStyleNone
  | other_style int

datatype stop_style =
    kCompactionStopStyleSimilarSize | kCompactionStopStyleTotalSize | other_stop int

text \<open>
  What the getters and the setters compare with, in their order. The setter of \<open>compression\<close> has
  no case for \<open>xpress_compression\<close>.
\<close>

fun compression_get :: "compression_type \<Rightarrow> pyexn + pyobj" where
  "compression_get kNoCompression = Inr (PStr ''no_compression'')"
| "compression_get kSnappyCompression = Inr (PStr ''snappy_compression'')"
| "compression_get kZlibCompression = Inr (PStr ''zlib_compression'')"
| "compression_get kBZip2Compression = Inr (PStr ''bzip2_compression'')"
| "compression_get kLZ4Compression = Inr (PStr ''lz4_compression'')"
| "compression_get kLZ4HCCompression = Inr (PStr ''lz4hc_compression'')"
| "compression_get kXpressCompression = Inr (PStr ''xpress_compression'')"
| "compression_get kZSTD = Inr (PStr ''zstd_compression'')"
| "compression_get kZSTDNotFinalCompression = Inr (PStr ''zstdnotfinal_compression'')"
| "compression_get kDisableCompressionOption = Inr (PStr ''disable_compression'')"
| "compression_get (other_compression _) = Inl (Exn AttributeError (Text ''opts''))"

definition compression_set :: "(nat \<Rightarrow> string \<Rightarrow> pyexn + bool) \<Rightarrow> pyobj \<Rightarrow> pyexn + compression_type" where
  "compression_set eq_str value =
     first_equal eq_str value
        [(''no_compression'', kNoCompression),
         (''snappy_compression'', kSnappyCompression),
         (''zlib_compression'', kZlibCompression),
         (''bzip2_compression'', kBZip2Compression),
         (''lz4_compression'', kLZ4Compression),
         (''lz4hc_compression'', kLZ4HCCompression),
         (''zstd_compression'', kZSTD),
         (''zstdnotfinal_compression'', kZSTDNotFinalCompression),
         (''disable_compression'', kDisableCompressionOption)]
        (Exn TypeError (Fmt ''Unknown compression: %s'' [value]))"

fun compaction_pri_get :: "compaction_pri \<Rightarrow> pyexn + pyobj" where
  "compaction_pri_get kByCompensatedSize = Inr (PStr ''by_compensated_size'')"
| "compaction_pri_get kOldestLargestSeqFirst = Inr (PStr ''oldest_largest_seq_first'')"
| "compaction_pri_get kOldestSmallestSeqFirst = Inr (PStr ''oldest_smallest_seq_first'')"
| "compaction_pri_get kMinOverlappingRatio = Inr (PStr ''min_overlapping_ratio'')"
| "compaction_pri_get (other_pri _) = Inr PNone"

definition compaction_pri_set :: "(nat \<Rightarrow> string \<Rightarrow> pyexn + bool) \<Rightarrow> pyobj \<Rightarrow> pyexn + compaction_pri" where
  "compaction_pri_set eq_str value =
     first_equal eq_str value
        [(''by_compensated_size'', kByCompensatedSize),
         (''oldest_largest_seq_first'', kOldestLargestSeqFirst),
         (''oldest_smallest_seq_first'', kOldestSmallestSeqFirst),
         (''min_overlapping_ratio'', kMinOverlappingRatio)]
        (Exn TypeError (Fmt ''Unknown compaction pri: %s'' [value]))"

fun compaction_style_get :: "compaction_style \<Rightarrow> pyexn + pyobj" where
  "compaction_style_get kCompactionStyleLevel = Inr (PStr ''level'')"
| "compaction_style_get kCompactionStyleUniversal = Inr (PStr ''universal'')"
| "compaction_style_get kCompactionStyleFIFO = Inr (PStr ''fifo'')"
| "compaction_style_get kCompactionStyleNone = Inr (PStr ''none'')"
| "compaction_style_get (other_style _) = Inl (Exn PlainException (Text ''Unknown compaction_style''))"

text \<open>The parameter is declared \<open>str\<close>: \<open>None\<close> passes that test and then equals no name.\<close>

definition arg_type_test :: "(pyobj \<Rightarrow> bool) \<Rightarrow> pyobj \<Rightarrow> pyexn + unit" where
  "arg_type_test has_type value =
     (if value = PNone \<or> has_type value then Inr ()
      else Inl (Exn TypeError (Fmt ''Argument has incorrect type'' [value])))"

definition compaction_style_set ::
    "(nat \<Rightarrow> string \<Rightarrow> pyexn + bool) \<Rightarrow> pyobj \<Rightarrow> pyexn + compaction_style" where
  "compaction_style_set eq_str value =
     bind_res (arg_type_test (\<lambda>v. case v of PStr _ \<Rightarrow> True | _ \<Rightarrow> False) value) (\<lambda>_.
       first_equal eq_str value
         [(''level'', kCompactionStyleLevel), (''universal'', kCompactionStyleUniversal),
          (''fifo'', kCompactionStyleFIFO), (''none'', kCompactionStyleNone)]
         (Exn PlainException (Text ''Unknown compaction style'')))"

definition stop_style_set :: "(nat \<Rightarrow> string \<Rightarrow> pyexn + bool) \<Rightarrow> pyobj \<Rightarrow> pyexn + stop_style" where
  "stop_style_set eq_str value =
     first_equal eq_str value
       [(''similar_size'', kCompactionStopStyleSimilarSize),
        (''total_size'', kCompactionStopStyleTotalSize)]
       (Exn PlainException (Text ''Unknown compaction style''))"

fun stop_style_get :: "stop_style \<Rightarrow> pyexn + pyobj" where
  "stop_style_get kCompactionStopStyleSimilarSize = Inr (PStr ''similar_size'')"
| "stop_style_get kCompactionStopStyleTotalSize = Inr (PStr ''total_size'')"
| "stop_style_get (other_stop _) = Inl (Exn PlainException (Text ''Unknown compaction style''))"

subsection \<open>State\<close>

text \<open>
  \<open>'f\<close> are C doubles, with the conversions of the interpreter. \<open>eq_str\<close> compares an object of a user class
  with a text. The Python objects the options hold:
  comparators are those of the binding (\<open>BaseComparator\<close>: an object of the base class, whose C++
  comparator is null; a bytewise comparator is known by its object), the factories and caches are
  known by the shared pointer they own. \<open>obj_of\<close> is the object of a user class, the \<open>_at\<close> fields
  are the type tests and what the object owns, \<open>new_bytewise\<close> is what \<open>BytewiseComparator()\<close> gives.
\<close>

record 'f real_env =
  PyFloat_AsDouble :: "pyobj \<Rightarrow> pyexn + 'f"
  PyFloat_FromDouble :: "'f \<Rightarrow> pyobj"

datatype comparator = BaseComparator | BytewiseComparator pyobj | GenericComparator PyGenericComparator

record class_env =
  eq_str :: "nat \<Rightarrow> string \<Rightarrow> pyexn + bool"
  obj_of :: "pyobj \<Rightarrow> user_ob"
  comparator_at :: "pyobj \<Rightarrow> comparator option"
  new_bytewise :: pyobj
  table_factory_at :: "pyobj \<Rightarrow> nat option"
  memtable_factory_at :: "pyobj \<Rightarrow> nat option"
  cache_at :: "pyobj \<Rightarrow> nat option"

record compression_opts =
  window_bits :: int
  clevel :: int
  strategy :: int
  max_dict_bytes :: int

record universal_opts =
  size_ratio :: int
  min_merge_width :: int
  max_merge_width :: int
  max_size_amplification_percent :: int
  compression_size_percent :: int
  stop_style :: stop_style

text \<open>
  Fields with the prefix \<open>py_\<close> are the Python objects, \<open>c_\<close> the C++ side. A hook of the C++ side
  that was never set has RocksDB's default, which is \<open>None\<close> here.
\<close>

record 'f options =
  scalars :: "string \<Rightarrow> int"
  reals_of :: "string \<Rightarrow> 'f"
  paths :: "string \<Rightarrow> bytes"
  multipliers :: "int list"
  compression :: compression_type
  compaction_pri :: compaction_pri
  compaction_style :: compaction_style
  comp_opts :: compression_opts
  universal :: universal_opts
  py_comparator :: comparator
  c_comparator :: "comparator option"
  py_merge_operator :: "PyMergeOperator option"
  c_merge_operator :: "PyMergeOperator option"
  py_prefix_extractor :: "PySliceTransform option"
  c_prefix_extractor :: "PySliceTransform option"
  py_table_factory :: pyobj
  c_table_factory :: "nat option"
  py_memtable_factory :: pyobj
  c_memtable_factory :: "nat option"
  py_row_cache :: pyobj
  c_row_cache :: "nat option"


subsection \<open>Reading and assigning one field\<close>

text \<open>A conversion, then the assignment when it succeeded.\<close>

definition assign :: "pyexn + 'a \<Rightarrow> ('a \<Rightarrow> 's \<Rightarrow> 's) \<Rightarrow> ('s, unit) py" where
  "assign r upd S = (case r of Inl e \<Rightarrow> (Inl e, S) | Inr x \<Rightarrow> (Inr (), upd x S))"

definition scalar_get :: "slot \<Rightarrow> string \<Rightarrow> 'f options \<Rightarrow> pyexn + pyobj" where
  "scalar_get t field S = Inr (slot_from t (scalars S field))"

definition scalar_set :: "pyenv \<Rightarrow> slot \<Rightarrow> string \<Rightarrow> pyobj \<Rightarrow> ('f options, unit) py" where
  "scalar_set E t field value =
     assign (slot_as E t value) (\<lambda>n. scalars_update (\<lambda>f. f(field := n)))"

definition real_get :: "'f real_env \<Rightarrow> string \<Rightarrow> 'f options \<Rightarrow> pyexn + pyobj" where
  "real_get R field S = Inr (PyFloat_FromDouble R (reals_of S field))"

definition real_set :: "'f real_env \<Rightarrow> string \<Rightarrow> pyobj \<Rightarrow> ('f options, unit) py" where
  "real_set R field value =
     assign (PyFloat_AsDouble R value) (\<lambda>x. reals_of_update (\<lambda>f. f(field := x)))"

definition path_get :: "pyenv \<Rightarrow> string \<Rightarrow> 'f options \<Rightarrow> pyexn + pyobj" where
  "path_get E field S = string_to_path E (paths S field)"

definition path_set :: "pyenv \<Rightarrow> string \<Rightarrow> pyobj \<Rightarrow> ('f options, unit) py" where
  "path_set E field value =
     assign (path_to_string E value) (\<lambda>p. paths_update (\<lambda>f. f(field := p)))"

subsection \<open>The properties of one field\<close>

definition write_buffer_size_get :: "'f options \<Rightarrow> pyexn + pyobj" where
  "write_buffer_size_get = scalar_get SSize ''write_buffer_size''"

definition write_buffer_size_set :: "pyenv \<Rightarrow> pyobj \<Rightarrow> ('f options, unit) py" where
  "write_buffer_size_set E = scalar_set E SSize ''write_buffer_size''"

definition max_write_buffer_number_get :: "'f options \<Rightarrow> pyexn + pyobj" where
  "max_write_buffer_number_get = scalar_get SInt ''max_write_buffer_number''"

definition max_write_buffer_number_set :: "pyenv \<Rightarrow> pyobj \<Rightarrow> ('f options, unit) py" where
  "max_write_buffer_number_set E = scalar_set E SInt ''max_write_buffer_number''"

definition min_write_buffer_number_to_merge_get :: "'f options \<Rightarrow> pyexn + pyobj" where
  "min_write_buffer_number_to_merge_get = scalar_get SInt ''min_write_buffer_number_to_merge''"

definition min_write_buffer_number_to_merge_set :: "pyenv \<Rightarrow> pyobj \<Rightarrow> ('f options, unit) py" where
  "min_write_buffer_number_to_merge_set E = scalar_set E SInt ''min_write_buffer_number_to_merge''"

definition max_compaction_bytes_get :: "'f options \<Rightarrow> pyexn + pyobj" where
  "max_compaction_bytes_get = scalar_get SU64 ''max_compaction_bytes''"

definition max_compaction_bytes_set :: "pyenv \<Rightarrow> pyobj \<Rightarrow> ('f options, unit) py" where
  "max_compaction_bytes_set E = scalar_set E SU64 ''max_compaction_bytes''"

definition num_levels_get :: "'f options \<Rightarrow> pyexn + pyobj" where
  "num_levels_get = scalar_get SInt ''num_levels''"

definition num_levels_set :: "pyenv \<Rightarrow> pyobj \<Rightarrow> ('f options, unit) py" where
  "num_levels_set E = scalar_set E SInt ''num_levels''"

definition level0_file_num_compaction_trigger_get :: "'f options \<Rightarrow> pyexn + pyobj" where
  "level0_file_num_compaction_trigger_get = scalar_get SInt ''level0_file_num_compaction_trigger''"

definition level0_file_num_compaction_trigger_set :: "pyenv \<Rightarrow> pyobj \<Rightarrow> ('f options, unit) py" where
  "level0_file_num_compaction_trigger_set E = scalar_set E SInt ''level0_file_num_compaction_trigger''"

definition level0_slowdown_writes_trigger_get :: "'f options \<Rightarrow> pyexn + pyobj" where
  "level0_slowdown_writes_trigger_get = scalar_get SInt ''level0_slowdown_writes_trigger''"

definition level0_slowdown_writes_trigger_set :: "pyenv \<Rightarrow> pyobj \<Rightarrow> ('f options, unit) py" where
  "level0_slowdown_writes_trigger_set E = scalar_set E SInt ''level0_slowdown_writes_trigger''"

definition level0_stop_writes_trigger_get :: "'f options \<Rightarrow> pyexn + pyobj" where
  "level0_stop_writes_trigger_get = scalar_get SInt ''level0_stop_writes_trigger''"

definition level0_stop_writes_trigger_set :: "pyenv \<Rightarrow> pyobj \<Rightarrow> ('f options, unit) py" where
  "level0_stop_writes_trigger_set E = scalar_set E SInt ''level0_stop_writes_trigger''"

definition max_mem_compaction_level_get :: "'f options \<Rightarrow> pyexn + pyobj" where
  "max_mem_compaction_level_get = scalar_get SInt ''max_mem_compaction_level''"

definition max_mem_compaction_level_set :: "pyenv \<Rightarrow> pyobj \<Rightarrow> ('f options, unit) py" where
  "max_mem_compaction_level_set E = scalar_set E SInt ''max_mem_compaction_level''"

definition target_file_size_base_get :: "'f options \<Rightarrow> pyexn + pyobj" where
  "target_file_size_base_get = scalar_get SU64 ''target_file_size_base''"

definition target_file_size_base_set :: "pyenv \<Rightarrow> pyobj \<Rightarrow> ('f options, unit) py" where
  "target_file_size_base_set E = scalar_set E SU64 ''target_file_size_base''"

definition target_file_size_multiplier_get :: "'f options \<Rightarrow> pyexn + pyobj" where
  "target_file_size_multiplier_get = scalar_get SInt ''target_file_size_multiplier''"

definition target_file_size_multiplier_set :: "pyenv \<Rightarrow> pyobj \<Rightarrow> ('f options, unit) py" where
  "target_file_size_multiplier_set E = scalar_set E SInt ''target_file_size_multiplier''"

definition max_bytes_for_level_base_get :: "'f options \<Rightarrow> pyexn + pyobj" where
  "max_bytes_for_level_base_get = scalar_get SU64 ''max_bytes_for_level_base''"

definition max_bytes_for_level_base_set :: "pyenv \<Rightarrow> pyobj \<Rightarrow> ('f options, unit) py" where
  "max_bytes_for_level_base_set E = scalar_set E SU64 ''max_bytes_for_level_base''"

definition rate_limit_delay_max_milliseconds_get :: "'f options \<Rightarrow> pyexn + pyobj" where
  "rate_limit_delay_max_milliseconds_get = scalar_get SUInt ''rate_limit_delay_max_milliseconds''"

definition rate_limit_delay_max_milliseconds_set :: "pyenv \<Rightarrow> pyobj \<Rightarrow> ('f options, unit) py" where
  "rate_limit_delay_max_milliseconds_set E = scalar_set E SUInt ''rate_limit_delay_max_milliseconds''"

definition arena_block_size_get :: "'f options \<Rightarrow> pyexn + pyobj" where
  "arena_block_size_get = scalar_get SSize ''arena_block_size''"

definition arena_block_size_set :: "pyenv \<Rightarrow> pyobj \<Rightarrow> ('f options, unit) py" where
  "arena_block_size_set E = scalar_set E SSize ''arena_block_size''"

definition disable_auto_compactions_get :: "'f options \<Rightarrow> pyexn + pyobj" where
  "disable_auto_compactions_get = scalar_get SBool ''disable_auto_compactions''"

definition disable_auto_compactions_set :: "pyenv \<Rightarrow> pyobj \<Rightarrow> ('f options, unit) py" where
  "disable_auto_compactions_set E = scalar_set E SBool ''disable_auto_compactions''"

definition purge_redundant_kvs_while_flush_get :: "'f options \<Rightarrow> pyexn + pyobj" where
  "purge_redundant_kvs_while_flush_get = scalar_get SBool ''purge_redundant_kvs_while_flush''"

definition purge_redundant_kvs_while_flush_set :: "pyenv \<Rightarrow> pyobj \<Rightarrow> ('f options, unit) py" where
  "purge_redundant_kvs_while_flush_set E = scalar_set E SBool ''purge_redundant_kvs_while_flush''"

definition max_sequential_skip_in_iterations_get :: "'f options \<Rightarrow> pyexn + pyobj" where
  "max_sequential_skip_in_iterations_get = scalar_get SU64 ''max_sequential_skip_in_iterations''"

definition max_sequential_skip_in_iterations_set :: "pyenv \<Rightarrow> pyobj \<Rightarrow> ('f options, unit) py" where
  "max_sequential_skip_in_iterations_set E = scalar_set E SU64 ''max_sequential_skip_in_iterations''"

definition inplace_update_support_get :: "'f options \<Rightarrow> pyexn + pyobj" where
  "inplace_update_support_get = scalar_get SBool ''inplace_update_support''"

definition inplace_update_support_set :: "pyenv \<Rightarrow> pyobj \<Rightarrow> ('f options, unit) py" where
  "inplace_update_support_set E = scalar_set E SBool ''inplace_update_support''"

definition inplace_update_num_locks_get :: "'f options \<Rightarrow> pyexn + pyobj" where
  "inplace_update_num_locks_get = scalar_get SSize ''inplace_update_num_locks''"

definition inplace_update_num_locks_set :: "pyenv \<Rightarrow> pyobj \<Rightarrow> ('f options, unit) py" where
  "inplace_update_num_locks_set E = scalar_set E SSize ''inplace_update_num_locks''"

definition create_if_missing_get :: "'f options \<Rightarrow> pyexn + pyobj" where
  "create_if_missing_get = scalar_get SBool ''create_if_missing''"

definition create_if_missing_set :: "pyenv \<Rightarrow> pyobj \<Rightarrow> ('f options, unit) py" where
  "create_if_missing_set E = scalar_set E SBool ''create_if_missing''"

definition error_if_exists_get :: "'f options \<Rightarrow> pyexn + pyobj" where
  "error_if_exists_get = scalar_get SBool ''error_if_exists''"

definition error_if_exists_set :: "pyenv \<Rightarrow> pyobj \<Rightarrow> ('f options, unit) py" where
  "error_if_exists_set E = scalar_set E SBool ''error_if_exists''"

definition paranoid_checks_get :: "'f options \<Rightarrow> pyexn + pyobj" where
  "paranoid_checks_get = scalar_get SBool ''paranoid_checks''"

definition paranoid_checks_set :: "pyenv \<Rightarrow> pyobj \<Rightarrow> ('f options, unit) py" where
  "paranoid_checks_set E = scalar_set E SBool ''paranoid_checks''"

definition max_open_files_get :: "'f options \<Rightarrow> pyexn + pyobj" where
  "max_open_files_get = scalar_get SInt ''max_open_files''"

definition max_open_files_set :: "pyenv \<Rightarrow> pyobj \<Rightarrow> ('f options, unit) py" where
  "max_open_files_set E = scalar_set E SInt ''max_open_files''"

definition use_fsync_get :: "'f options \<Rightarrow> pyexn + pyobj" where
  "use_fsync_get = scalar_get SBool ''use_fsync''"

definition use_fsync_set :: "pyenv \<Rightarrow> pyobj \<Rightarrow> ('f options, unit) py" where
  "use_fsync_set E = scalar_set E SBool ''use_fsync''"

definition delete_obsolete_files_period_micros_get :: "'f options \<Rightarrow> pyexn + pyobj" where
  "delete_obsolete_files_period_micros_get = scalar_get SU64 ''delete_obsolete_files_period_micros''"

definition delete_obsolete_files_period_micros_set :: "pyenv \<Rightarrow> pyobj \<Rightarrow> ('f options, unit) py" where
  "delete_obsolete_files_period_micros_set E = scalar_set E SU64 ''delete_obsolete_files_period_micros''"

definition max_background_compactions_get :: "'f options \<Rightarrow> pyexn + pyobj" where
  "max_background_compactions_get = scalar_get SInt ''max_background_compactions''"

definition max_background_compactions_set :: "pyenv \<Rightarrow> pyobj \<Rightarrow> ('f options, unit) py" where
  "max_background_compactions_set E = scalar_set E SInt ''max_background_compactions''"

definition max_background_flushes_get :: "'f options \<Rightarrow> pyexn + pyobj" where
  "max_background_flushes_get = scalar_get SInt ''max_background_flushes''"

definition max_background_flushes_set :: "pyenv \<Rightarrow> pyobj \<Rightarrow> ('f options, unit) py" where
  "max_background_flushes_set E = scalar_set E SInt ''max_background_flushes''"

definition max_log_file_size_get :: "'f options \<Rightarrow> pyexn + pyobj" where
  "max_log_file_size_get = scalar_get SSize ''max_log_file_size''"

definition max_log_file_size_set :: "pyenv \<Rightarrow> pyobj \<Rightarrow> ('f options, unit) py" where
  "max_log_file_size_set E = scalar_set E SSize ''max_log_file_size''"

definition log_file_time_to_roll_get :: "'f options \<Rightarrow> pyexn + pyobj" where
  "log_file_time_to_roll_get = scalar_get SSize ''log_file_time_to_roll''"

definition log_file_time_to_roll_set :: "pyenv \<Rightarrow> pyobj \<Rightarrow> ('f options, unit) py" where
  "log_file_time_to_roll_set E = scalar_set E SSize ''log_file_time_to_roll''"

definition keep_log_file_num_get :: "'f options \<Rightarrow> pyexn + pyobj" where
  "keep_log_file_num_get = scalar_get SSize ''keep_log_file_num''"

definition keep_log_file_num_set :: "pyenv \<Rightarrow> pyobj \<Rightarrow> ('f options, unit) py" where
  "keep_log_file_num_set E = scalar_set E SSize ''keep_log_file_num''"

definition max_manifest_file_size_get :: "'f options \<Rightarrow> pyexn + pyobj" where
  "max_manifest_file_size_get = scalar_get SU64 ''max_manifest_file_size''"

definition max_manifest_file_size_set :: "pyenv \<Rightarrow> pyobj \<Rightarrow> ('f options, unit) py" where
  "max_manifest_file_size_set E = scalar_set E SU64 ''max_manifest_file_size''"

definition table_cache_numshardbits_get :: "'f options \<Rightarrow> pyexn + pyobj" where
  "table_cache_numshardbits_get = scalar_get SInt ''table_cache_numshardbits''"

definition table_cache_numshardbits_set :: "pyenv \<Rightarrow> pyobj \<Rightarrow> ('f options, unit) py" where
  "table_cache_numshardbits_set E = scalar_set E SInt ''table_cache_numshardbits''"

definition wal_ttl_seconds_get :: "'f options \<Rightarrow> pyexn + pyobj" where
  "wal_ttl_seconds_get = scalar_get SU64 ''WAL_ttl_seconds''"

definition wal_ttl_seconds_set :: "pyenv \<Rightarrow> pyobj \<Rightarrow> ('f options, unit) py" where
  "wal_ttl_seconds_set E = scalar_set E SU64 ''WAL_ttl_seconds''"

definition wal_size_limit_mb_get :: "'f options \<Rightarrow> pyexn + pyobj" where
  "wal_size_limit_mb_get = scalar_get SU64 ''WAL_size_limit_MB''"

definition wal_size_limit_mb_set :: "pyenv \<Rightarrow> pyobj \<Rightarrow> ('f options, unit) py" where
  "wal_size_limit_mb_set E = scalar_set E SU64 ''WAL_size_limit_MB''"

definition manifest_preallocation_size_get :: "'f options \<Rightarrow> pyexn + pyobj" where
  "manifest_preallocation_size_get = scalar_get SSize ''manifest_preallocation_size''"

definition manifest_preallocation_size_set :: "pyenv \<Rightarrow> pyobj \<Rightarrow> ('f options, unit) py" where
  "manifest_preallocation_size_set E = scalar_set E SSize ''manifest_preallocation_size''"

definition enable_write_thread_adaptive_yield_get :: "'f options \<Rightarrow> pyexn + pyobj" where
  "enable_write_thread_adaptive_yield_get = scalar_get SBool ''enable_write_thread_adaptive_yield''"

definition enable_write_thread_adaptive_yield_set :: "pyenv \<Rightarrow> pyobj \<Rightarrow> ('f options, unit) py" where
  "enable_write_thread_adaptive_yield_set E = scalar_set E SBool ''enable_write_thread_adaptive_yield''"

definition allow_concurrent_memtable_write_get :: "'f options \<Rightarrow> pyexn + pyobj" where
  "allow_concurrent_memtable_write_get = scalar_get SBool ''allow_concurrent_memtable_write''"

definition allow_concurrent_memtable_write_set :: "pyenv \<Rightarrow> pyobj \<Rightarrow> ('f options, unit) py" where
  "allow_concurrent_memtable_write_set E = scalar_set E SBool ''allow_concurrent_memtable_write''"

definition allow_mmap_reads_get :: "'f options \<Rightarrow> pyexn + pyobj" where
  "allow_mmap_reads_get = scalar_get SBool ''allow_mmap_reads''"

definition allow_mmap_reads_set :: "pyenv \<Rightarrow> pyobj \<Rightarrow> ('f options, unit) py" where
  "allow_mmap_reads_set E = scalar_set E SBool ''allow_mmap_reads''"

definition allow_mmap_writes_get :: "'f options \<Rightarrow> pyexn + pyobj" where
  "allow_mmap_writes_get = scalar_get SBool ''allow_mmap_writes''"

definition allow_mmap_writes_set :: "pyenv \<Rightarrow> pyobj \<Rightarrow> ('f options, unit) py" where
  "allow_mmap_writes_set E = scalar_set E SBool ''allow_mmap_writes''"

definition is_fd_close_on_exec_get :: "'f options \<Rightarrow> pyexn + pyobj" where
  "is_fd_close_on_exec_get = scalar_get SBool ''is_fd_close_on_exec''"

definition is_fd_close_on_exec_set :: "pyenv \<Rightarrow> pyobj \<Rightarrow> ('f options, unit) py" where
  "is_fd_close_on_exec_set E = scalar_set E SBool ''is_fd_close_on_exec''"

definition skip_log_error_on_recovery_get :: "'f options \<Rightarrow> pyexn + pyobj" where
  "skip_log_error_on_recovery_get = scalar_get SBool ''skip_log_error_on_recovery''"

definition skip_log_error_on_recovery_set :: "pyenv \<Rightarrow> pyobj \<Rightarrow> ('f options, unit) py" where
  "skip_log_error_on_recovery_set E = scalar_set E SBool ''skip_log_error_on_recovery''"

definition stats_dump_period_sec_get :: "'f options \<Rightarrow> pyexn + pyobj" where
  "stats_dump_period_sec_get = scalar_get SUInt ''stats_dump_period_sec''"

definition stats_dump_period_sec_set :: "pyenv \<Rightarrow> pyobj \<Rightarrow> ('f options, unit) py" where
  "stats_dump_period_sec_set E = scalar_set E SUInt ''stats_dump_period_sec''"

definition advise_random_on_open_get :: "'f options \<Rightarrow> pyexn + pyobj" where
  "advise_random_on_open_get = scalar_get SBool ''advise_random_on_open''"

definition advise_random_on_open_set :: "pyenv \<Rightarrow> pyobj \<Rightarrow> ('f options, unit) py" where
  "advise_random_on_open_set E = scalar_set E SBool ''advise_random_on_open''"

definition use_adaptive_mutex_get :: "'f options \<Rightarrow> pyexn + pyobj" where
  "use_adaptive_mutex_get = scalar_get SBool ''use_adaptive_mutex''"

definition use_adaptive_mutex_set :: "pyenv \<Rightarrow> pyobj \<Rightarrow> ('f options, unit) py" where
  "use_adaptive_mutex_set E = scalar_set E SBool ''use_adaptive_mutex''"

definition bytes_per_sync_get :: "'f options \<Rightarrow> pyexn + pyobj" where
  "bytes_per_sync_get = scalar_get SU64 ''bytes_per_sync''"

definition bytes_per_sync_set :: "pyenv \<Rightarrow> pyobj \<Rightarrow> ('f options, unit) py" where
  "bytes_per_sync_set E = scalar_set E SU64 ''bytes_per_sync''"

definition manual_wal_flush_get :: "'f options \<Rightarrow> pyexn + pyobj" where
  "manual_wal_flush_get = scalar_get SBool ''manual_wal_flush''"

definition manual_wal_flush_set :: "pyenv \<Rightarrow> pyobj \<Rightarrow> ('f options, unit) py" where
  "manual_wal_flush_set E = scalar_set E SBool ''manual_wal_flush''"

definition two_write_queues_get :: "'f options \<Rightarrow> pyexn + pyobj" where
  "two_write_queues_get = scalar_get SBool ''two_write_queues''"

definition two_write_queues_set :: "pyenv \<Rightarrow> pyobj \<Rightarrow> ('f options, unit) py" where
  "two_write_queues_set E = scalar_set E SBool ''two_write_queues''"

definition avoid_unnecessary_blocking_io_get :: "'f options \<Rightarrow> pyexn + pyobj" where
  "avoid_unnecessary_blocking_io_get = scalar_get SBool ''avoid_unnecessary_blocking_io''"

definition avoid_unnecessary_blocking_io_set :: "pyenv \<Rightarrow> pyobj \<Rightarrow> ('f options, unit) py" where
  "avoid_unnecessary_blocking_io_set E = scalar_set E SBool ''avoid_unnecessary_blocking_io''"

definition unordered_write_get :: "'f options \<Rightarrow> pyexn + pyobj" where
  "unordered_write_get = scalar_get SBool ''unordered_write''"

definition unordered_write_set :: "pyenv \<Rightarrow> pyobj \<Rightarrow> ('f options, unit) py" where
  "unordered_write_set E = scalar_set E SBool ''unordered_write''"

definition max_background_jobs_get :: "'f options \<Rightarrow> pyexn + pyobj" where
  "max_background_jobs_get = scalar_get SInt ''max_background_jobs''"

definition max_background_jobs_set :: "pyenv \<Rightarrow> pyobj \<Rightarrow> ('f options, unit) py" where
  "max_background_jobs_set E = scalar_set E SInt ''max_background_jobs''"

definition use_direct_io_for_flush_and_compaction_get :: "'f options \<Rightarrow> pyexn + pyobj" where
  "use_direct_io_for_flush_and_compaction_get = scalar_get SBool ''use_direct_io_for_flush_and_compaction''"

definition use_direct_io_for_flush_and_compaction_set :: "pyenv \<Rightarrow> pyobj \<Rightarrow> ('f options, unit) py" where
  "use_direct_io_for_flush_and_compaction_set E = scalar_set E SBool ''use_direct_io_for_flush_and_compaction''"

definition use_direct_reads_get :: "'f options \<Rightarrow> pyexn + pyobj" where
  "use_direct_reads_get = scalar_get SBool ''use_direct_reads''"

definition use_direct_reads_set :: "pyenv \<Rightarrow> pyobj \<Rightarrow> ('f options, unit) py" where
  "use_direct_reads_set E = scalar_set E SBool ''use_direct_reads''"

definition level_compaction_dynamic_level_bytes_get :: "'f options \<Rightarrow> pyexn + pyobj" where
  "level_compaction_dynamic_level_bytes_get = scalar_get SBool ''level_compaction_dynamic_level_bytes''"

definition level_compaction_dynamic_level_bytes_set :: "pyenv \<Rightarrow> pyobj \<Rightarrow> ('f options, unit) py" where
  "level_compaction_dynamic_level_bytes_set E = scalar_set E SBool ''level_compaction_dynamic_level_bytes''"

definition max_bytes_for_level_multiplier_get :: "'f real_env \<Rightarrow> 'f options \<Rightarrow> pyexn + pyobj" where
  "max_bytes_for_level_multiplier_get R = real_get R ''max_bytes_for_level_multiplier''"

definition max_bytes_for_level_multiplier_set :: "'f real_env \<Rightarrow> pyobj \<Rightarrow> ('f options, unit) py" where
  "max_bytes_for_level_multiplier_set R = real_set R ''max_bytes_for_level_multiplier''"

definition soft_rate_limit_get :: "'f real_env \<Rightarrow> 'f options \<Rightarrow> pyexn + pyobj" where
  "soft_rate_limit_get R = real_get R ''soft_rate_limit''"

definition soft_rate_limit_set :: "'f real_env \<Rightarrow> pyobj \<Rightarrow> ('f options, unit) py" where
  "soft_rate_limit_set R = real_set R ''soft_rate_limit''"

definition hard_rate_limit_get :: "'f real_env \<Rightarrow> 'f options \<Rightarrow> pyexn + pyobj" where
  "hard_rate_limit_get R = real_get R ''hard_rate_limit''"

definition hard_rate_limit_set :: "'f real_env \<Rightarrow> pyobj \<Rightarrow> ('f options, unit) py" where
  "hard_rate_limit_set R = real_set R ''hard_rate_limit''"

definition db_log_dir_get :: "pyenv \<Rightarrow> 'f options \<Rightarrow> pyexn + pyobj" where
  "db_log_dir_get E = path_get E ''db_log_dir''"

definition db_log_dir_set :: "pyenv \<Rightarrow> pyobj \<Rightarrow> ('f options, unit) py" where
  "db_log_dir_set E = path_set E ''db_log_dir''"

definition wal_dir_get :: "pyenv \<Rightarrow> 'f options \<Rightarrow> pyexn + pyobj" where
  "wal_dir_get E = path_get E ''wal_dir''"

definition wal_dir_set :: "pyenv \<Rightarrow> pyobj \<Rightarrow> ('f options, unit) py" where
  "wal_dir_set E = path_set E ''wal_dir''"

subsection \<open>Lists, dictionaries and enumerations\<close>

definition multiplier_additional_get :: "'f options \<Rightarrow> pyexn + pyobj" where
  "multiplier_additional_get S = Inr (convert_vector_to_py_int (multipliers S))"

definition multiplier_additional_set :: "pyenv \<Rightarrow> pyobj \<Rightarrow> ('f options, unit) py" where
  "multiplier_additional_set E value =
     assign (convert_vector_from_py_int E value) (\<lambda>v. multipliers_update (\<lambda>_. v))"

text \<open>
  \<open>if key in value: field = value[key]\<close> for a parameter declared \<open>dict\<close>, which \<open>None\<close> passes.
\<close>

definition dict_step ::
    "(pyobj \<times> pyobj) list \<Rightarrow> string \<Rightarrow> (pyobj \<Rightarrow> pyexn + 'a) \<Rightarrow> ('a \<Rightarrow> 's \<Rightarrow> 's) \<Rightarrow> ('s, unit) py" where
  "dict_step d key conv upd =
     (case map_of d (PStr key) of None \<Rightarrow> ret_py () | Some v \<Rightarrow> assign (conv v) upd)"

definition with_dict :: "((pyobj \<times> pyobj) list \<Rightarrow> ('s, unit) py) \<Rightarrow> pyobj \<Rightarrow> ('s, unit) py" where
  "with_dict body value =
     (case value of
        PDict d \<Rightarrow> body d
      | PNone \<Rightarrow> lift_py (Inl (Exn TypeError (Text ''NoneType object is not iterable'')))
      | _ \<Rightarrow> lift_py (Inl (Exn TypeError (Fmt ''Argument has incorrect type'' [value]))))"

definition compression_opts_get :: "'f options \<Rightarrow> pyexn + pyobj" where
  "compression_opts_get S =
     Inr (PDict
       [(PStr ''window_bits'', PyInt_From_int (window_bits (comp_opts S))),
        (PStr ''level'', PyInt_From_int (clevel (comp_opts S))),
        (PStr ''strategy'', PyInt_From_int (strategy (comp_opts S))),
        (PStr ''max_dict_bytes'', PyInt_From_uint32_t (max_dict_bytes (comp_opts S)))])"

definition compression_opts_set :: "pyenv \<Rightarrow> pyobj \<Rightarrow> ('f options, unit) py" where
  "compression_opts_set E =
     with_dict (\<lambda>d.
       bind_py (dict_step d ''window_bits'' (PyInt_As_int E)
                  (\<lambda>n. comp_opts_update (window_bits_update (\<lambda>_. n)))) (\<lambda>_.
       bind_py (dict_step d ''level'' (PyInt_As_int E)
                  (\<lambda>n. comp_opts_update (clevel_update (\<lambda>_. n)))) (\<lambda>_.
       bind_py (dict_step d ''strategy'' (PyInt_As_int E)
                  (\<lambda>n. comp_opts_update (strategy_update (\<lambda>_. n)))) (\<lambda>_.
       dict_step d ''max_dict_bytes'' (PyInt_As_uint32_t E)
                  (\<lambda>n. comp_opts_update (max_dict_bytes_update (\<lambda>_. n)))))))"

definition universal_get :: "'f options \<Rightarrow> pyexn + pyobj" where
  "universal_get S =
     (let uopts = universal S in
      bind_res (stop_style_get (stop_style uopts)) (\<lambda>style.
        Inr (PDict
          [(PStr ''size_ratio'', PyInt_From_unsigned_int (size_ratio uopts)),
           (PStr ''min_merge_width'', PyInt_From_unsigned_int (min_merge_width uopts)),
           (PStr ''max_merge_width'', PyInt_From_unsigned_int (max_merge_width uopts)),
           (PStr ''max_size_amplification_percent'',
              PyInt_From_unsigned_int (max_size_amplification_percent uopts)),
           (PStr ''compression_size_percent'', PyInt_From_int (compression_size_percent uopts)),
           (PStr ''stop_style'', style)])))"

definition universal_set :: "pyenv \<Rightarrow> class_env \<Rightarrow> pyobj \<Rightarrow> ('f options, unit) py" where
  "universal_set E C =
     with_dict (\<lambda>d.
       bind_py (dict_step d ''size_ratio'' (PyInt_As_unsigned_int E)
                  (\<lambda>n. universal_update (size_ratio_update (\<lambda>_. n)))) (\<lambda>_.
       bind_py (dict_step d ''min_merge_width'' (PyInt_As_unsigned_int E)
                  (\<lambda>n. universal_update (min_merge_width_update (\<lambda>_. n)))) (\<lambda>_.
       bind_py (dict_step d ''max_merge_width'' (PyInt_As_unsigned_int E)
                  (\<lambda>n. universal_update (max_merge_width_update (\<lambda>_. n)))) (\<lambda>_.
       bind_py (dict_step d ''max_size_amplification_percent'' (PyInt_As_unsigned_int E)
                  (\<lambda>n. universal_update (max_size_amplification_percent_update (\<lambda>_. n)))) (\<lambda>_.
       bind_py (dict_step d ''compression_size_percent'' (PyInt_As_int E)
                  (\<lambda>n. universal_update (compression_size_percent_update (\<lambda>_. n)))) (\<lambda>_.
       dict_step d ''stop_style'' (stop_style_set (eq_str C))
                  (\<lambda>s. universal_update (stop_style_update (\<lambda>_. s)))))))))"

definition compression_option_get :: "'f options \<Rightarrow> pyexn + pyobj" where
  "compression_option_get S = compression_get (compression S)"

definition compression_option_set :: "class_env \<Rightarrow> pyobj \<Rightarrow> ('f options, unit) py" where
  "compression_option_set C value =
     assign (compression_set (eq_str C) value) (\<lambda>c. compression_update (\<lambda>_. c))"

definition compaction_pri_option_get :: "'f options \<Rightarrow> pyexn + pyobj" where
  "compaction_pri_option_get S = compaction_pri_get (compaction_pri S)"

definition compaction_pri_option_set :: "class_env \<Rightarrow> pyobj \<Rightarrow> ('f options, unit) py" where
  "compaction_pri_option_set C value =
     assign (compaction_pri_set (eq_str C) value) (\<lambda>c. compaction_pri_update (\<lambda>_. c))"

definition compaction_style_option_get :: "'f options \<Rightarrow> pyexn + pyobj" where
  "compaction_style_option_get S = compaction_style_get (compaction_style S)"

definition compaction_style_option_set :: "class_env \<Rightarrow> pyobj \<Rightarrow> ('f options, unit) py" where
  "compaction_style_option_set C value =
     assign (compaction_style_set (eq_str C) value) (\<lambda>c. compaction_style_update (\<lambda>_. c))"

subsection \<open>Objects the options hold\<close>

definition table_factory_get :: "'f options \<Rightarrow> pyexn + pyobj" where
  "table_factory_get S = Inr (py_table_factory S)"

definition memtable_factory_get :: "'f options \<Rightarrow> pyexn + pyobj" where
  "memtable_factory_get S = Inr (py_memtable_factory S)"

text \<open>
  The parameter is declared with the extension type, so \<open>None\<close> passes the test of its type; the
  virtual method is then called through the method table of \<open>None\<close>, which has none: \<open>None\<close> of HOL
  stands for that undefined behaviour.
\<close>

definition table_factory_set ::
    "class_env \<Rightarrow> pyobj \<Rightarrow> 'f options \<Rightarrow> ((pyexn + unit) \<times> 'f options) option" where
  "table_factory_set C value S =
     (case arg_type_test (\<lambda>v. table_factory_at C v \<noteq> None) value of
        Inl e \<Rightarrow> Some (Inl e, S)
      | Inr _ \<Rightarrow>
          if value = PNone then None
          else Some (Inr (), S\<lparr>py_table_factory := value, c_table_factory := table_factory_at C value\<rparr>))"

definition memtable_factory_set ::
    "class_env \<Rightarrow> pyobj \<Rightarrow> 'f options \<Rightarrow> ((pyexn + unit) \<times> 'f options) option" where
  "memtable_factory_set C value S =
     (case arg_type_test (\<lambda>v. memtable_factory_at C v \<noteq> None) value of
        Inl e \<Rightarrow> Some (Inl e, S)
      | Inr _ \<Rightarrow>
          if value = PNone then None
          else Some (Inr (), S\<lparr>py_memtable_factory := value,
                               c_memtable_factory := memtable_factory_at C value\<rparr>))"

fun comparator_ob :: "comparator \<Rightarrow> pyobj" where
  "comparator_ob BaseComparator = PNone"
| "comparator_ob (BytewiseComparator self) = self"
| "comparator_ob (GenericComparator c) = ob_self (gc_ob c)"

text \<open>\<open>get_comparator()\<close>: null for an object of the base class.\<close>

fun get_comparator :: "comparator \<Rightarrow> comparator option" where
  "get_comparator BaseComparator = None"
| "get_comparator c = Some c"

definition comparator_get :: "'f options \<Rightarrow> pyexn + pyobj" where
  "comparator_get S = Inr (comparator_ob (py_comparator S))"

definition comparator_set :: "class_env \<Rightarrow> pyobj \<Rightarrow> ('f options, unit) py" where
  "comparator_set C value =
     assign
       (case comparator_at C value of
          Some c \<Rightarrow>
            if get_comparator c = None
            then Inl (Exn PlainException (Fmt ''Cannot set %s as comparator'' [value]))
            else Inr c
        | None \<Rightarrow> bind_res (PyGenericComparator_cinit (obj_of C value)) (\<lambda>g. Inr (GenericComparator g)))
       (\<lambda>c S. S\<lparr>py_comparator := c, c_comparator := get_comparator c\<rparr>)"

definition merge_operator_get :: "'f options \<Rightarrow> pyexn + pyobj" where
  "merge_operator_get S =
     Inr (case py_merge_operator S of None \<Rightarrow> PNone | Some m \<Rightarrow> ob_self (mop_ob m))"

definition merge_operator_set :: "class_env \<Rightarrow> pyobj \<Rightarrow> ('f options, unit) py" where
  "merge_operator_set C value =
     assign (PyMergeOperator_cinit (obj_of C value))
       (\<lambda>m S. S\<lparr>py_merge_operator := Some m, c_merge_operator := Some m\<rparr>)"

definition prefix_extractor_get :: "'f options \<Rightarrow> pyexn + pyobj" where
  "prefix_extractor_get S =
     Inr (case py_prefix_extractor S of None \<Rightarrow> PNone | Some t \<Rightarrow> ob_self (gs_ob t))"

definition prefix_extractor_set :: "class_env \<Rightarrow> pyobj \<Rightarrow> ('f options, unit) py" where
  "prefix_extractor_set C value =
     assign (PySliceTransform_cinit (obj_of C value))
       (\<lambda>t S. S\<lparr>py_prefix_extractor := Some t, c_prefix_extractor := Some t\<rparr>)"

definition row_cache_get :: "'f options \<Rightarrow> pyexn + pyobj" where
  "row_cache_get S = Inr (py_row_cache S)"

definition row_cache_set :: "class_env \<Rightarrow> pyobj \<Rightarrow> ('f options, unit) py" where
  "row_cache_set C value =
     assign
       (if value = PNone then Inr None
        else case cache_at C value of
               None \<Rightarrow> Inl (Exn PlainException (Text ''row_cache must be a Cache object''))
             | Some p \<Rightarrow> Inr (Some p))
       (\<lambda>p S. S\<lparr>py_row_cache := value, c_row_cache := p\<rparr>)"

subsection \<open>Attributes\<close>

text \<open>
  \<open>setattr\<close> and reading an attribute: the table of the class (with that of its base class)
  decides, a name that is in neither raises \<open>AttributeError\<close>.
\<close>

datatype options_class = ColumnFamilyOptions | Options

definition defined :: "(pyobj \<Rightarrow> ('s, unit) py) \<Rightarrow> pyobj \<Rightarrow> 's \<Rightarrow> ((pyexn + unit) \<times> 's) option" where
  "defined f value S = Some (f value S)"

definition cf_setters :: "pyenv \<Rightarrow> class_env \<Rightarrow> 'f real_env \<Rightarrow>
    (string \<times> (pyobj \<Rightarrow> 'f options \<Rightarrow> ((pyexn + unit) \<times> 'f options) option)) list" where
  "cf_setters E C R =
     [(''write_buffer_size'', defined (write_buffer_size_set E)),
      (''max_write_buffer_number'', defined (max_write_buffer_number_set E)),
      (''min_write_buffer_number_to_merge'', defined (min_write_buffer_number_to_merge_set E)),
      (''max_compaction_bytes'', defined (max_compaction_bytes_set E)),
      (''num_levels'', defined (num_levels_set E)),
      (''level0_file_num_compaction_trigger'', defined (level0_file_num_compaction_trigger_set E)),
      (''level0_slowdown_writes_trigger'', defined (level0_slowdown_writes_trigger_set E)),
      (''level0_stop_writes_trigger'', defined (level0_stop_writes_trigger_set E)),
      (''max_mem_compaction_level'', defined (max_mem_compaction_level_set E)),
      (''target_file_size_base'', defined (target_file_size_base_set E)),
      (''target_file_size_multiplier'', defined (target_file_size_multiplier_set E)),
      (''max_bytes_for_level_base'', defined (max_bytes_for_level_base_set E)),
      (''rate_limit_delay_max_milliseconds'', defined (rate_limit_delay_max_milliseconds_set E)),
      (''arena_block_size'', defined (arena_block_size_set E)),
      (''disable_auto_compactions'', defined (disable_auto_compactions_set E)),
      (''purge_redundant_kvs_while_flush'', defined (purge_redundant_kvs_while_flush_set E)),
      (''max_sequential_skip_in_iterations'', defined (max_sequential_skip_in_iterations_set E)),
      (''inplace_update_support'', defined (inplace_update_support_set E)),
      (''inplace_update_num_locks'', defined (inplace_update_num_locks_set E)),
      (''max_bytes_for_level_multiplier'', defined (max_bytes_for_level_multiplier_set R)),
      (''soft_rate_limit'', defined (soft_rate_limit_set R)),
      (''hard_rate_limit'', defined (hard_rate_limit_set R)),
      (''max_bytes_for_level_multiplier_additional'', defined (multiplier_additional_set E)),
      (''compression_opts'', defined (compression_opts_set E)),
      (''compaction_pri'', defined (compaction_pri_option_set C)),
      (''compression'', defined (compression_option_set C)),
      (''compaction_style'', defined (compaction_style_option_set C)),
      (''compaction_options_universal'', defined (universal_set E C)),
      (''table_factory'', table_factory_set C),
      (''memtable_factory'', memtable_factory_set C),
      (''comparator'', defined (comparator_set C)),
      (''merge_operator'', defined (merge_operator_set C)),
      (''prefix_extractor'', defined (prefix_extractor_set C))]"

definition db_setters :: "pyenv \<Rightarrow> class_env \<Rightarrow>
    (string \<times> (pyobj \<Rightarrow> 'f options \<Rightarrow> ((pyexn + unit) \<times> 'f options) option)) list" where
  "db_setters E C =
     [(''create_if_missing'', defined (create_if_missing_set E)),
      (''error_if_exists'', defined (error_if_exists_set E)),
      (''paranoid_checks'', defined (paranoid_checks_set E)),
      (''max_open_files'', defined (max_open_files_set E)),
      (''use_fsync'', defined (use_fsync_set E)),
      (''delete_obsolete_files_period_micros'', defined (delete_obsolete_files_period_micros_set E)),
      (''max_background_compactions'', defined (max_background_compactions_set E)),
      (''max_background_flushes'', defined (max_background_flushes_set E)),
      (''max_log_file_size'', defined (max_log_file_size_set E)),
      (''log_file_time_to_roll'', defined (log_file_time_to_roll_set E)),
      (''keep_log_file_num'', defined (keep_log_file_num_set E)),
      (''max_manifest_file_size'', defined (max_manifest_file_size_set E)),
      (''table_cache_numshardbits'', defined (table_cache_numshardbits_set E)),
      (''wal_ttl_seconds'', defined (wal_ttl_seconds_set E)),
      (''wal_size_limit_mb'', defined (wal_size_limit_mb_set E)),
      (''manifest_preallocation_size'', defined (manifest_preallocation_size_set E)),
      (''enable_write_thread_adaptive_yield'', defined (enable_write_thread_adaptive_yield_set E)),
      (''allow_concurrent_memtable_write'', defined (allow_concurrent_memtable_write_set E)),
      (''allow_mmap_reads'', defined (allow_mmap_reads_set E)),
      (''allow_mmap_writes'', defined (allow_mmap_writes_set E)),
      (''is_fd_close_on_exec'', defined (is_fd_close_on_exec_set E)),
      (''skip_log_error_on_recovery'', defined (skip_log_error_on_recovery_set E)),
      (''stats_dump_period_sec'', defined (stats_dump_period_sec_set E)),
      (''advise_random_on_open'', defined (advise_random_on_open_set E)),
      (''use_adaptive_mutex'', defined (use_adaptive_mutex_set E)),
      (''bytes_per_sync'', defined (bytes_per_sync_set E)),
      (''manual_wal_flush'', defined (manual_wal_flush_set E)),
      (''two_write_queues'', defined (two_write_queues_set E)),
      (''avoid_unnecessary_blocking_io'', defined (avoid_unnecessary_blocking_io_set E)),
      (''unordered_write'', defined (unordered_write_set E)),
      (''max_background_jobs'', defined (max_background_jobs_set E)),
      (''use_direct_io_for_flush_and_compaction'', defined (use_direct_io_for_flush_and_compaction_set E)),
      (''use_direct_reads'', defined (use_direct_reads_set E)),
      (''level_compaction_dynamic_level_bytes'', defined (level_compaction_dynamic_level_bytes_set E)),
      (''db_log_dir'', defined (db_log_dir_set E)),
      (''wal_dir'', defined (wal_dir_set E)),
      (''row_cache'', defined (row_cache_set C))]"

definition cf_getters :: "'f real_env \<Rightarrow> (string \<times> ('f options \<Rightarrow> pyexn + pyobj)) list" where
  "cf_getters R =
     [(''write_buffer_size'', write_buffer_size_get),
      (''max_write_buffer_number'', max_write_buffer_number_get),
      (''min_write_buffer_number_to_merge'', min_write_buffer_number_to_merge_get),
      (''max_compaction_bytes'', max_compaction_bytes_get),
      (''num_levels'', num_levels_get),
      (''level0_file_num_compaction_trigger'', level0_file_num_compaction_trigger_get),
      (''level0_slowdown_writes_trigger'', level0_slowdown_writes_trigger_get),
      (''level0_stop_writes_trigger'', level0_stop_writes_trigger_get),
      (''max_mem_compaction_level'', max_mem_compaction_level_get),
      (''target_file_size_base'', target_file_size_base_get),
      (''target_file_size_multiplier'', target_file_size_multiplier_get),
      (''max_bytes_for_level_base'', max_bytes_for_level_base_get),
      (''rate_limit_delay_max_milliseconds'', rate_limit_delay_max_milliseconds_get),
      (''arena_block_size'', arena_block_size_get),
      (''disable_auto_compactions'', disable_auto_compactions_get),
      (''purge_redundant_kvs_while_flush'', purge_redundant_kvs_while_flush_get),
      (''max_sequential_skip_in_iterations'', max_sequential_skip_in_iterations_get),
      (''inplace_update_support'', inplace_update_support_get),
      (''inplace_update_num_locks'', inplace_update_num_locks_get),
      (''max_bytes_for_level_multiplier'', max_bytes_for_level_multiplier_get R),
      (''soft_rate_limit'', soft_rate_limit_get R),
      (''hard_rate_limit'', hard_rate_limit_get R),
      (''max_bytes_for_level_multiplier_additional'', multiplier_additional_get),
      (''compression_opts'', compression_opts_get),
      (''compaction_pri'', compaction_pri_option_get),
      (''compression'', compression_option_get),
      (''compaction_style'', compaction_style_option_get),
      (''compaction_options_universal'', universal_get),
      (''table_factory'', table_factory_get),
      (''memtable_factory'', memtable_factory_get),
      (''comparator'', comparator_get),
      (''merge_operator'', merge_operator_get),
      (''prefix_extractor'', prefix_extractor_get)]"

definition db_getters :: "pyenv \<Rightarrow> (string \<times> ('f options \<Rightarrow> pyexn + pyobj)) list" where
  "db_getters E =
     [(''create_if_missing'', create_if_missing_get),
      (''error_if_exists'', error_if_exists_get),
      (''paranoid_checks'', paranoid_checks_get),
      (''max_open_files'', max_open_files_get),
      (''use_fsync'', use_fsync_get),
      (''delete_obsolete_files_period_micros'', delete_obsolete_files_period_micros_get),
      (''max_background_compactions'', max_background_compactions_get),
      (''max_background_flushes'', max_background_flushes_get),
      (''max_log_file_size'', max_log_file_size_get),
      (''log_file_time_to_roll'', log_file_time_to_roll_get),
      (''keep_log_file_num'', keep_log_file_num_get),
      (''max_manifest_file_size'', max_manifest_file_size_get),
      (''table_cache_numshardbits'', table_cache_numshardbits_get),
      (''wal_ttl_seconds'', wal_ttl_seconds_get),
      (''wal_size_limit_mb'', wal_size_limit_mb_get),
      (''manifest_preallocation_size'', manifest_preallocation_size_get),
      (''enable_write_thread_adaptive_yield'', enable_write_thread_adaptive_yield_get),
      (''allow_concurrent_memtable_write'', allow_concurrent_memtable_write_get),
      (''allow_mmap_reads'', allow_mmap_reads_get),
      (''allow_mmap_writes'', allow_mmap_writes_get),
      (''is_fd_close_on_exec'', is_fd_close_on_exec_get),
      (''skip_log_error_on_recovery'', skip_log_error_on_recovery_get),
      (''stats_dump_period_sec'', stats_dump_period_sec_get),
      (''advise_random_on_open'', advise_random_on_open_get),
      (''use_adaptive_mutex'', use_adaptive_mutex_get),
      (''bytes_per_sync'', bytes_per_sync_get),
      (''manual_wal_flush'', manual_wal_flush_get),
      (''two_write_queues'', two_write_queues_get),
      (''avoid_unnecessary_blocking_io'', avoid_unnecessary_blocking_io_get),
      (''unordered_write'', unordered_write_get),
      (''max_background_jobs'', max_background_jobs_get),
      (''use_direct_io_for_flush_and_compaction'', use_direct_io_for_flush_and_compaction_get),
      (''use_direct_reads'', use_direct_reads_get),
      (''level_compaction_dynamic_level_bytes'', level_compaction_dynamic_level_bytes_get),
      (''db_log_dir'', db_log_dir_get E),
      (''wal_dir'', wal_dir_get E),
      (''row_cache'', row_cache_get)]"

definition setters_of where
  "setters_of c E C R =
     (case c of ColumnFamilyOptions \<Rightarrow> cf_setters E C R | Options \<Rightarrow> db_setters E C @ cf_setters E C R)"

definition getters_of where
  "getters_of c E R =
     (case c of ColumnFamilyOptions \<Rightarrow> cf_getters R | Options \<Rightarrow> db_getters E @ cf_getters R)"

definition set_option :: "options_class \<Rightarrow> pyenv \<Rightarrow> class_env \<Rightarrow> 'f real_env \<Rightarrow> string \<Rightarrow> pyobj \<Rightarrow>
    'f options \<Rightarrow> ((pyexn + unit) \<times> 'f options) option" where
  "set_option c E C R name value S =
     (case map_of (setters_of c E C R) name of
        Some f \<Rightarrow> f value S
      | None \<Rightarrow> Some (Inl (Exn AttributeError (Text name)), S))"

definition get_option :: "options_class \<Rightarrow> pyenv \<Rightarrow> 'f real_env \<Rightarrow> string \<Rightarrow> 'f options \<Rightarrow> pyexn + pyobj"
  where
  "get_option c E R name S =
     (case map_of (getters_of c E R) name of
        Some g \<Rightarrow> g S
      | None \<Rightarrow> Inl (Exn AttributeError (Text name)))"

subsection \<open>Construction\<close>

text \<open>
  \<open>__init__\<close> runs on the structure that \<open>__cinit__\<close> created (RocksDB's defaults, a parameter): it
  sets the Python fields, not their C++ counterparts, then every keyword argument in turn. The
  one of \<open>Options\<close> calls the one of \<open>ColumnFamilyOptions\<close> without arguments.
\<close>

fun set_all :: "options_class \<Rightarrow> pyenv \<Rightarrow> class_env \<Rightarrow> 'f real_env \<Rightarrow> (string \<times> pyobj) list \<Rightarrow>
    'f options \<Rightarrow> ((pyexn + unit) \<times> 'f options) option" where
  "set_all c E C R [] S = Some (Inr (), S)"
| "set_all c E C R ((key, value) # kwargs) S =
     (case set_option c E C R key value S of
        None \<Rightarrow> None
      | Some (Inl e, S') \<Rightarrow> Some (Inl e, S')
      | Some (Inr _, S') \<Rightarrow> set_all c E C R kwargs S')"

definition ColumnFamilyOptions_init where
  "ColumnFamilyOptions_init c E C R kwargs S =
     set_all c E C R kwargs
       (S\<lparr>py_comparator := BytewiseComparator (new_bytewise C), py_merge_operator := None,
          py_prefix_extractor := None, py_table_factory := PNone, py_memtable_factory := PNone\<rparr>)"

definition Options_init where
  "Options_init E C R kwargs S =
     (case ColumnFamilyOptions_init Options E C R [] S of
        Some (Inr _, S') \<Rightarrow> set_all Options E C R kwargs (S'\<lparr>py_row_cache := PNone\<rparr>)
      | other \<Rightarrow> other)"

end
