(* ===== verification/OptionsSpec.thy ===== *)
theory OptionsSpec
  imports Options
begin

section \<open>Properties of options objects\<close>

text \<open>
  What assignments to the properties of \<open>ColumnFamilyOptions\<close> and \<open>Options\<close> keep: the types of the
  fields, the agreement of the C++ structure with the Python objects it points to, and that a
  value read back is the value stored.
\<close>

subsection \<open>The properties of one slot\<close>

text \<open>Name, C++ field, type: a table to state theorems over.\<close>

definition cf_scalars :: "(string \<times> string \<times> slot) list" where
  "cf_scalars =
     [(''write_buffer_size'', ''write_buffer_size'', SSize),
      (''max_write_buffer_number'', ''max_write_buffer_number'', SInt),
      (''min_write_buffer_number_to_merge'', ''min_write_buffer_number_to_merge'', SInt),
      (''max_compaction_bytes'', ''max_compaction_bytes'', SU64),
      (''num_levels'', ''num_levels'', SInt),
      (''level0_file_num_compaction_trigger'', ''level0_file_num_compaction_trigger'', SInt),
      (''level0_slowdown_writes_trigger'', ''level0_slowdown_writes_trigger'', SInt),
      (''level0_stop_writes_trigger'', ''level0_stop_writes_trigger'', SInt),
      (''max_mem_compaction_level'', ''max_mem_compaction_level'', SInt),
      (''target_file_size_base'', ''target_file_size_base'', SU64),
      (''target_file_size_multiplier'', ''target_file_size_multiplier'', SInt),
      (''max_bytes_for_level_base'', ''max_bytes_for_level_base'', SU64),
      (''rate_limit_delay_max_milliseconds'', ''rate_limit_delay_max_milliseconds'', SUInt),
      (''arena_block_size'', ''arena_block_size'', SSize),
      (''disable_auto_compactions'', ''disable_auto_compactions'', SBool),
      (''purge_redundant_kvs_while_flush'', ''purge_redundant_kvs_while_flush'', SBool),
      (''max_sequential_skip_in_iterations'', ''max_sequential_skip_in_iterations'', SU64),
      (''inplace_update_support'', ''inplace_update_support'', SBool),
      (''inplace_update_num_locks'', ''inplace_update_num_locks'', SSize)]"

definition db_scalars :: "(string \<times> string \<times> slot) list" where
  "db_scalars =
     [(''create_if_missing'', ''create_if_missing'', SBool),
      (''error_if_exists'', ''error_if_exists'', SBool),
      (''paranoid_checks'', ''paranoid_checks'', SBool),
      (''max_open_files'', ''max_open_files'', SInt),
      (''use_fsync'', ''use_fsync'', SBool),
      (''delete_obsolete_files_period_micros'', ''delete_obsolete_files_period_micros'', SU64),
      (''max_background_compactions'', ''max_background_compactions'', SInt),
      (''max_background_flushes'', ''max_background_flushes'', SInt),
      (''max_log_file_size'', ''max_log_file_size'', SSize),
      (''log_file_time_to_roll'', ''log_file_time_to_roll'', SSize),
      (''keep_log_file_num'', ''keep_log_file_num'', SSize),
      (''max_manifest_file_size'', ''max_manifest_file_size'', SU64),
      (''table_cache_numshardbits'', ''table_cache_numshardbits'', SInt),
      (''wal_ttl_seconds'', ''WAL_ttl_seconds'', SU64),
      (''wal_size_limit_mb'', ''WAL_size_limit_MB'', SU64),
      (''manifest_preallocation_size'', ''manifest_preallocation_size'', SSize),
      (''enable_write_thread_adaptive_yield'', ''enable_write_thread_adaptive_yield'', SBool),
      (''allow_concurrent_memtable_write'', ''allow_concurrent_memtable_write'', SBool),
      (''allow_mmap_reads'', ''allow_mmap_reads'', SBool),
      (''allow_mmap_writes'', ''allow_mmap_writes'', SBool),
      (''is_fd_close_on_exec'', ''is_fd_close_on_exec'', SBool),
      (''skip_log_error_on_recovery'', ''skip_log_error_on_recovery'', SBool),
      (''stats_dump_period_sec'', ''stats_dump_period_sec'', SUInt),
      (''advise_random_on_open'', ''advise_random_on_open'', SBool),
      (''use_adaptive_mutex'', ''use_adaptive_mutex'', SBool),
      (''bytes_per_sync'', ''bytes_per_sync'', SU64),
      (''manual_wal_flush'', ''manual_wal_flush'', SBool),
      (''two_write_queues'', ''two_write_queues'', SBool),
      (''avoid_unnecessary_blocking_io'', ''avoid_unnecessary_blocking_io'', SBool),
      (''unordered_write'', ''unordered_write'', SBool),
      (''max_background_jobs'', ''max_background_jobs'', SInt),
      (''use_direct_io_for_flush_and_compaction'', ''use_direct_io_for_flush_and_compaction'', SBool),
      (''use_direct_reads'', ''use_direct_reads'', SBool),
      (''level_compaction_dynamic_level_bytes'', ''level_compaction_dynamic_level_bytes'', SBool)]"

definition scalar_props :: "(string \<times> string \<times> slot) list" where
  "scalar_props = db_scalars @ cf_scalars"

lemmas option_defs =
  write_buffer_size_get_def write_buffer_size_set_def
  max_write_buffer_number_get_def max_write_buffer_number_set_def
  min_write_buffer_number_to_merge_get_def min_write_buffer_number_to_merge_set_def
  max_compaction_bytes_get_def max_compaction_bytes_set_def
  num_levels_get_def num_levels_set_def
  level0_file_num_compaction_trigger_get_def level0_file_num_compaction_trigger_set_def
  level0_slowdown_writes_trigger_get_def level0_slowdown_writes_trigger_set_def
  level0_stop_writes_trigger_get_def level0_stop_writes_trigger_set_def
  max_mem_compaction_level_get_def max_mem_compaction_level_set_def
  target_file_size_base_get_def target_file_size_base_set_def
  target_file_size_multiplier_get_def target_file_size_multiplier_set_def
  max_bytes_for_level_base_get_def max_bytes_for_level_base_set_def
  rate_limit_delay_max_milliseconds_get_def rate_limit_delay_max_milliseconds_set_def
  arena_block_size_get_def arena_block_size_set_def
  disable_auto_compactions_get_def disable_auto_compactions_set_def
  purge_redundant_kvs_while_flush_get_def purge_redundant_kvs_while_flush_set_def
  max_sequential_skip_in_iterations_get_def max_sequential_skip_in_iterations_set_def
  inplace_update_support_get_def inplace_update_support_set_def
  inplace_update_num_locks_get_def inplace_update_num_locks_set_def
  create_if_missing_get_def create_if_missing_set_def
  error_if_exists_get_def error_if_exists_set_def
  paranoid_checks_get_def paranoid_checks_set_def
  max_open_files_get_def max_open_files_set_def
  use_fsync_get_def use_fsync_set_def
  delete_obsolete_files_period_micros_get_def delete_obsolete_files_period_micros_set_def
  max_background_compactions_get_def max_background_compactions_set_def
  max_background_flushes_get_def max_background_flushes_set_def
  max_log_file_size_get_def max_log_file_size_set_def
  log_file_time_to_roll_get_def log_file_time_to_roll_set_def
  keep_log_file_num_get_def keep_log_file_num_set_def
  max_manifest_file_size_get_def max_manifest_file_size_set_def
  table_cache_numshardbits_get_def table_cache_numshardbits_set_def
  wal_ttl_seconds_get_def wal_ttl_seconds_set_def
  wal_size_limit_mb_get_def wal_size_limit_mb_set_def
  manifest_preallocation_size_get_def manifest_preallocation_size_set_def
  enable_write_thread_adaptive_yield_get_def enable_write_thread_adaptive_yield_set_def
  allow_concurrent_memtable_write_get_def allow_concurrent_memtable_write_set_def
  allow_mmap_reads_get_def allow_mmap_reads_set_def
  allow_mmap_writes_get_def allow_mmap_writes_set_def
  is_fd_close_on_exec_get_def is_fd_close_on_exec_set_def
  skip_log_error_on_recovery_get_def skip_log_error_on_recovery_set_def
  stats_dump_period_sec_get_def stats_dump_period_sec_set_def
  advise_random_on_open_get_def advise_random_on_open_set_def
  use_adaptive_mutex_get_def use_adaptive_mutex_set_def
  bytes_per_sync_get_def bytes_per_sync_set_def
  manual_wal_flush_get_def manual_wal_flush_set_def
  two_write_queues_get_def two_write_queues_set_def
  avoid_unnecessary_blocking_io_get_def avoid_unnecessary_blocking_io_set_def
  unordered_write_get_def unordered_write_set_def
  max_background_jobs_get_def max_background_jobs_set_def
  use_direct_io_for_flush_and_compaction_get_def use_direct_io_for_flush_and_compaction_set_def
  use_direct_reads_get_def use_direct_reads_set_def
  level_compaction_dynamic_level_bytes_get_def level_compaction_dynamic_level_bytes_set_def

definition scalar_setter where
  "scalar_setter E = (\<lambda>(name, field, t). (name, defined (scalar_set E t field)))"

definition scalar_getter where
  "scalar_getter = (\<lambda>(name, field, t). (name, scalar_get t field))"

lemma cf_setters_split:
  "cf_setters E C R = map (scalar_setter E) cf_scalars @ drop 19 (cf_setters E C R)"
  by (simp add: cf_setters_def cf_scalars_def scalar_setter_def option_defs)

lemma db_setters_split:
  "db_setters E C = map (scalar_setter E) db_scalars @ drop 34 (db_setters E C)"
  by (simp add: db_setters_def db_scalars_def scalar_setter_def option_defs)

lemma cf_getters_split:
  "cf_getters R = map scalar_getter cf_scalars @ drop 19 (cf_getters R)"
  by (simp add: cf_getters_def cf_scalars_def scalar_getter_def option_defs)

lemma db_getters_split:
  "db_getters E = map scalar_getter db_scalars @ drop 34 (db_getters E)"
  by (simp add: db_getters_def db_scalars_def scalar_getter_def option_defs)

lemma same_names: "map fst (getters_of c E R) = map fst (setters_of c E' C R')"
  by (simp add: getters_of_def setters_of_def cf_setters_def cf_getters_def db_setters_def
      db_getters_def split: options_class.split)

lemma distinct_names: "distinct (map fst (setters_of Options E C R))"
  by (simp add: setters_of_def cf_setters_def db_setters_def)

lemma distinct_fields: "distinct (map (fst \<circ> snd) scalar_props)"
  by (simp add: scalar_props_def db_scalars_def cf_scalars_def)

subsection \<open>Tables and lookups\<close>

lemma scalar_props_setter:
  assumes "(name, field, t) \<in> set scalar_props"
  shows "map_of (setters_of Options E C R) name = Some (defined (scalar_set E t field))"
proof (rule map_of_is_SomeI)
  show "distinct (map fst (setters_of Options E C R))" by (rule distinct_names)
  have "scalar_setter E (name, field, t) \<in> set (setters_of Options E C R)"
    using assms
    by (subst setters_of_def, subst cf_setters_split, subst db_setters_split)
      (auto simp: scalar_props_def)
  then show "(name, defined (scalar_set E t field)) \<in> set (setters_of Options E C R)"
    by (simp add: scalar_setter_def)
qed

lemma scalar_props_getter:
  assumes "(name, field, t) \<in> set scalar_props"
  shows "map_of (getters_of Options E R) name = Some (scalar_get t field)"
proof (rule map_of_is_SomeI)
  show "distinct (map fst (getters_of Options E R))"
    by (subst same_names [of Options E R E undefined R]) (rule distinct_names)
  have "scalar_getter (name, field, t) \<in> set (getters_of Options E R)"
    using assms
    by (subst getters_of_def, subst cf_getters_split, subst db_getters_split)
      (auto simp: scalar_props_def)
  then show "(name, scalar_get t field) \<in> set (getters_of Options E R)"
    by (simp add: scalar_getter_def)
qed

lemmas other_getters =
  max_bytes_for_level_multiplier_get_def soft_rate_limit_get_def hard_rate_limit_get_def real_get_def
  db_log_dir_get_def wal_dir_get_def path_get_def multiplier_additional_get_def
  compression_opts_get_def compaction_pri_option_get_def compression_option_get_def
  compaction_style_option_get_def universal_get_def table_factory_get_def memtable_factory_get_def
  comparator_get_def merge_operator_get_def prefix_extractor_get_def row_cache_get_def

text \<open>Every reader of \<open>Options\<close> is one of a scalar property or does not look at the scalars.\<close>

lemma getter_cases:
  assumes "map_of (getters_of Options E R) name = Some g"
  obtains (scalar) field t where "(name, field, t) \<in> set scalar_props" "g = scalar_get t field"
  | (other) "\<And>S f. g (S\<lparr>scalars := f\<rparr>) = g S"
proof -
  have rest: "\<forall>(n, h) \<in> set (drop 34 (db_getters E) @ drop 19 (cf_getters R)).
      \<forall>S f. h (S\<lparr>scalars := f\<rparr>) = h S"
    by (simp add: cf_getters_def db_getters_def other_getters)
  have "(name, g) \<in> set (getters_of Options E R)"
    using assms by (rule map_of_SomeD)
  then have "(name, g) \<in> set (map scalar_getter scalar_props) \<or>
      (name, g) \<in> set (drop 34 (db_getters E) @ drop 19 (cf_getters R))"
    by (subst (asm) getters_of_def, subst (asm) cf_getters_split, subst (asm) db_getters_split)
      (auto simp: scalar_props_def)
  then show thesis
  proof
    assume "(name, g) \<in> set (map scalar_getter scalar_props)"
    then show thesis by (auto simp: scalar_getter_def intro: scalar)
  next
    assume "(name, g) \<in> set (drop 34 (db_getters E) @ drop 19 (cf_getters R))"
    then have "\<forall>S f. g (S\<lparr>scalars := f\<rparr>) = g S" using rest by (blast dest: bspec)
    then show thesis by (blast intro: other)
  qed
qed

lemma same_field:
  assumes "(n, f, t) \<in> set scalar_props" "(n', f, t') \<in> set scalar_props"
  shows "n = n'" and "t = t'"
proof -
  have "inj_on (fst \<circ> snd) (set scalar_props)"
    using distinct_fields by (simp only: distinct_map)
  from inj_onD [OF this _ assms] show "n = n'" "t = t'" by simp_all
qed

subsection \<open>Slots\<close>

lemma slot_as_valid: "slot_as E t v = Inr n \<Longrightarrow> slot_valid t n"
  by (auto simp: slot_as_def slot_valid_def bind_res_convs split: slot.splits
      dest: slot_int.as_result slot_uint.as_result slot_size_t.as_result slot_uint64.as_result
        slot_uint32.as_result)

lemma slot_store_load: "slot_valid t n \<Longrightarrow> slot_as E t (slot_from t n) = Inr n"
  by (auto simp: slot_as_def slot_valid_def slot_from_def split: slot.splits
      intro: slot_int.load_store slot_uint.load_store slot_size_t.load_store
        slot_uint64.load_store slot_uint32.load_store)

lemma assign_simps [simp]:
  "assign (Inl e) upd S = (Inl e, S)"
  "assign (Inr x) upd S = (Inr (), upd x S)"
  by (simp_all add: assign_def)

text \<open>
  C11. Every one of the 53 numeric and boolean properties of an options object: assigning a
  value that does not convert to the C type of the field raises the conversion's exception and
  changes nothing. Otherwise the value can be read back as the stored C value, assigning what was
  read changes nothing, and no other property of the object changes its value.
\<close>

theorem option_round_trip:
  assumes "(name, field, t) \<in> set scalar_props"
  shows "case slot_as E t v of
      Inl e \<Rightarrow> set_option Options E C R name v S = Some (Inl e, S)
    | Inr n \<Rightarrow> \<exists>S'. set_option Options E C R name v S = Some (Inr (), S') \<and>
        get_option Options E R name S' = Inr (slot_from t n) \<and>
        set_option Options E C R name (slot_from t n) S' = Some (Inr (), S') \<and>
        (\<forall>n'. n' \<noteq> name \<longrightarrow> get_option Options E R n' S' = get_option Options E R n' S)"
proof (cases "slot_as E t v")
  case (Inl e)
  then show ?thesis
    by (simp add: set_option_def scalar_props_setter [OF assms] defined_def scalar_set_def)
next
  case (Inr n)
  define S' where "S' = S\<lparr>scalars := (scalars S)(field := n)\<rparr>"
  have frame: "get_option Options E R n' S' = get_option Options E R n' S" if "n' \<noteq> name" for n'
  proof (cases "map_of (getters_of Options E R) n'")
    case (Some g)
    from Some have "g S' = g S"
    proof (cases rule: getter_cases)
      case (scalar field' t')
      then have "field' \<noteq> field" using same_field(1) assms that by blast
      then show ?thesis using scalar by (simp add: scalar_get_def S'_def)
    qed (simp add: S'_def)
    then show ?thesis using Some by (simp add: get_option_def)
  qed (simp add: get_option_def)
  have again: "slot_as E t (slot_from t n) = Inr n"
    using Inr by (intro slot_store_load slot_as_valid)
  have "set_option Options E C R name v S = Some (Inr (), S')"
    "set_option Options E C R name (slot_from t n) S' = Some (Inr (), S')"
    "get_option Options E R name S' = Inr (slot_from t n)"
    using Inr again
    by (simp_all add: set_option_def get_option_def scalar_props_setter [OF assms]
        scalar_props_getter [OF assms] defined_def scalar_set_def scalar_get_def S'_def)
  then show ?thesis using Inr frame by auto
qed

subsection \<open>Invariants of all assignments\<close>

text \<open>\<open>keeps P f\<close>: when the assignment \<open>f\<close> is defined, it keeps \<open>P\<close>, whether it raises or not.\<close>

definition keeps :: "('s \<Rightarrow> bool) \<Rightarrow> (pyobj \<Rightarrow> 's \<Rightarrow> ((pyexn + unit) \<times> 's) option) \<Rightarrow> bool" where
  "keeps P f \<longleftrightarrow> (\<forall>v S r S'. P S \<longrightarrow> f v S = Some (r, S') \<longrightarrow> P S')"

definition keeps_py :: "('s \<Rightarrow> bool) \<Rightarrow> ('s, unit) py \<Rightarrow> bool" where
  "keeps_py P m \<longleftrightarrow> (\<forall>S. P S \<longrightarrow> P (snd (m S)))"

lemma keeps_defined [intro]: "(\<And>v. keeps_py P (f v)) \<Longrightarrow> keeps P (defined f)"
  unfolding keeps_def keeps_py_def defined_def by (metis option.inject snd_conv)

lemma keeps_assign [intro]: "(\<And>x S. r = Inr x \<Longrightarrow> P S \<Longrightarrow> P (upd x S)) \<Longrightarrow> keeps_py P (assign r upd)"
  by (auto simp: keeps_py_def assign_def split: sum.split)

lemma keeps_bind [intro]: "keeps_py P m \<Longrightarrow> (\<And>x. keeps_py P (f x)) \<Longrightarrow> keeps_py P (bind_py m f)"
  unfolding keeps_py_def bind_py_def by (fastforce split: prod.split sum.split)

lemma keeps_dict_step [intro]:
  "(\<And>v x S. conv v = Inr x \<Longrightarrow> P S \<Longrightarrow> P (upd x S)) \<Longrightarrow> keeps_py P (dict_step d key conv upd)"
  by (auto simp: dict_step_def split: option.split) (simp add: keeps_py_def)

lemma keeps_with_dict [intro]: "(\<And>d. keeps_py P (body d)) \<Longrightarrow> keeps_py P (with_dict body v)"
  by (cases v) (auto simp: with_dict_def keeps_py_def)

text \<open>The writers that are not of a scalar property.\<close>

lemmas other_setters =
  max_bytes_for_level_multiplier_set_def soft_rate_limit_set_def hard_rate_limit_set_def real_set_def
  db_log_dir_set_def wal_dir_set_def path_set_def multiplier_additional_set_def
  compression_opts_set_def compaction_pri_option_set_def compression_option_set_def
  compaction_style_option_set_def universal_set_def comparator_set_def merge_operator_set_def
  prefix_extractor_set_def row_cache_set_def

lemma set_setters:
  "set (setters_of c E C R) \<subseteq> set (map (scalar_setter E) scalar_props) \<union>
     set (drop 34 (db_setters E C) @ drop 19 (cf_setters E C R))"
proof -
  have cf: "set (cf_setters E C R) =
      set (map (scalar_setter E) cf_scalars) \<union> set (drop 19 (cf_setters E C R))"
    by (subst cf_setters_split) (simp only: set_append)
  have db: "set (db_setters E C) =
      set (map (scalar_setter E) db_scalars) \<union> set (drop 34 (db_setters E C))"
    by (subst db_setters_split) (simp only: set_append)
  show ?thesis
    by (cases c) (auto simp only: setters_of_def options_class.case set_append cf db scalar_props_def
        map_append)
qed

lemma keeps_setters:
  assumes "\<And>name field t. (name, field, t) \<in> set scalar_props \<Longrightarrow> keeps P (defined (scalar_set E t field))"
    and "\<forall>(n, f) \<in> set (drop 34 (db_setters E C) @ drop 19 (cf_setters E C R)). keeps P f"
  shows "\<forall>(n, f) \<in> set (setters_of c E C R). keeps P f"
proof -
  have "\<forall>(n, f) \<in> set (map (scalar_setter E) scalar_props). keeps P f"
    using assms(1) by (auto simp: scalar_setter_def)
  then show ?thesis using assms(2) set_setters [of c E C R] by blast
qed

lemma keeps_set_option:
  assumes "\<forall>(n, f) \<in> set (setters_of c E C R). keeps P f" "P S"
    "set_option c E C R name v S = Some (r, S')"
  shows "P S'"
proof (cases "map_of (setters_of c E C R) name")
  case None
  then show ?thesis using assms by (simp add: set_option_def)
next
  case (Some f)
  then have "keeps P f" using assms(1) by (blast dest: map_of_SomeD)
  then show ?thesis using assms(2,3) Some unfolding keeps_def set_option_def by simp
qed

lemma keeps_set_all:
  assumes "\<forall>(n, f) \<in> set (setters_of c E C R). keeps P f" "P S"
    "set_all c E C R kwargs S = Some (r, S')"
  shows "P S'"
  using assms(2,3)
proof (induction kwargs arbitrary: S)
  case (Cons kv kwargs)
  obtain key v where kv: "kv = (key, v)" by (cases kv)
  then obtain q S1 where step: "set_option c E C R key v S = Some (q, S1)"
    using Cons.prems(2) by (cases "set_option c E C R key v S") auto
  then have "P S1" using keeps_set_option [OF assms(1) Cons.prems(1)] by blast
  then show ?case using Cons step kv by (cases q) auto
qed simp

subsection \<open>Types of the fields\<close>

definition valid_compression_opts :: "compression_opts \<Rightarrow> bool" where
  "valid_compression_opts co \<longleftrightarrow>
     in_range c_int (window_bits co) \<and> in_range c_int (clevel co) \<and> in_range c_int (strategy co) \<and>
     in_range c_uint32_t (max_dict_bytes co)"

definition valid_universal :: "universal_opts \<Rightarrow> bool" where
  "valid_universal u \<longleftrightarrow>
     in_range c_uint (size_ratio u) \<and> in_range c_uint (min_merge_width u) \<and>
     in_range c_uint (max_merge_width u) \<and> in_range c_uint (max_size_amplification_percent u) \<and>
     in_range c_int (compression_size_percent u)"

definition valid_scalars :: "(string \<Rightarrow> int) \<Rightarrow> bool" where
  "valid_scalars f \<longleftrightarrow> (\<forall>(name, field, t) \<in> set scalar_props. slot_valid t (f field))"

definition valid_options :: "'f options \<Rightarrow> bool" where
  "valid_options S \<longleftrightarrow>
     valid_scalars (scalars S) \<and>
     (\<forall>n \<in> set (multipliers S). in_range c_int n) \<and>
     valid_compression_opts (comp_opts S) \<and> valid_universal (universal S)"

lemma map_res_result: "map_res f xs = Inr ys \<Longrightarrow> y \<in> set ys \<Longrightarrow> \<exists>x. f x = Inr y"
  by (induction xs arbitrary: ys) (auto simp: bind_res_convs)

lemma vector_int_valid: "convert_vector_from_py_int E x = Inr ys \<Longrightarrow> \<forall>n \<in> set ys. in_range c_int n"
  by (auto simp: convert_vector_from_py_int_def for_each_def bind_res_convs split: option.splits
      dest!: map_res_result dest: slot_int.as_result)

lemma valid_scalars_upd:
  assumes "(name, field, t) \<in> set scalar_props" "slot_valid t n" "valid_scalars f"
  shows "valid_scalars (f(field := n))"
  unfolding valid_scalars_def
proof (clarify)
  fix name' field' t' assume e: "(name', field', t') \<in> set scalar_props"
  show "slot_valid t' ((f(field := n)) field')"
  proof (cases "field' = field")
    case True
    then have "t' = t" using same_field(2) [of name' field t' name t] e assms(1) by simp
    then show ?thesis using True assms(2) by simp
  next
    case False
    then show ?thesis using assms(3) e unfolding valid_scalars_def by auto
  qed
qed

lemma valid_scalar_set:
  assumes "(name, field, t) \<in> set scalar_props"
  shows "keeps valid_options (defined (scalar_set E t field))"
  unfolding scalar_set_def
  by (intro keeps_defined keeps_assign)
    (simp add: valid_options_def slot_as_valid valid_scalars_upd [OF assms])

lemma valid_setters: "\<forall>(n, f) \<in> set (setters_of c E C R). keeps valid_options f"
proof (rule keeps_setters)
  have hook: "keeps valid_options (table_factory_set C)" "keeps valid_options (memtable_factory_set C)"
    by (auto simp: keeps_def table_factory_set_def memtable_factory_set_def valid_options_def
        split: sum.splits if_splits)
  have dict: "keeps valid_options (defined (compression_opts_set E))"
    "keeps valid_options (defined (universal_set E C))"
    unfolding other_setters
    by (intro keeps_defined keeps_with_dict keeps_bind keeps_dict_step;
        auto simp: valid_options_def valid_compression_opts_def valid_universal_def
          dest: slot_int.as_result slot_uint32.as_result slot_uint.as_result)+
  have mult: "keeps valid_options (defined (multiplier_additional_set E))"
    unfolding other_setters
    by (intro keeps_defined keeps_assign) (auto simp: valid_options_def dest: vector_int_valid)
  have same: "keeps_py valid_options (assign r upd)"
    if "\<And>x S. scalars (upd x S) = scalars S \<and> multipliers (upd x S) = multipliers S \<and>
      comp_opts (upd x S) = comp_opts S \<and> universal (upd x S) = universal S"
    for r :: "pyexn + 'b" and upd :: "'b \<Rightarrow> 'a options \<Rightarrow> 'a options"
    using that by (intro keeps_assign) (simp add: valid_options_def)
  show "\<forall>(n, f) \<in> set (drop 34 (db_setters E C) @ drop 19 (cf_setters E C R)). keeps valid_options f"
    apply (simp add: cf_setters_def db_setters_def hook dict mult)
    apply (unfold other_setters)
    apply (intro conjI keeps_defined same)
    apply simp_all
    done
qed (rule valid_scalar_set)

subsection \<open>What the C++ side points to\<close>

text \<open>
  Comparators, merge operators and slice transforms of the C++ structure call objects that only the
  Python fields keep alive: whatever the structure points to must be what the Python field holds.
\<close>

definition hooks_owned :: "class_env \<Rightarrow> 'f options \<Rightarrow> bool" where
  "hooks_owned C S \<longleftrightarrow>
     c_comparator S \<in> {None, Some (py_comparator S)} \<and>
     c_merge_operator S \<in> {None, py_merge_operator S} \<and>
     c_prefix_extractor S \<in> {None, py_prefix_extractor S} \<and>
     c_table_factory S \<in> {None, table_factory_at C (py_table_factory S)} \<and>
     c_memtable_factory S \<in> {None, memtable_factory_at C (py_memtable_factory S)} \<and>
     c_row_cache S \<in> {None, cache_at C (py_row_cache S)}"

definition no_hooks :: "'f options \<Rightarrow> bool" where
  "no_hooks S \<longleftrightarrow>
     c_comparator S = None \<and> c_merge_operator S = None \<and> c_prefix_extractor S = None \<and>
     c_table_factory S = None \<and> c_memtable_factory S = None \<and> c_row_cache S = None"

lemma get_comparator_cases: "get_comparator c \<in> {None, Some c}"
  by (cases c) auto

lemma owned_same:
  assumes "\<And>x S. hooks_owned C (upd x S) = hooks_owned C S"
  shows "keeps_py (hooks_owned C) (assign r upd)"
  using assms by (intro keeps_assign) simp

lemma owned_scalar_set: "keeps (hooks_owned C) (defined (scalar_set E t field))"
  unfolding scalar_set_def by (intro keeps_defined owned_same) (simp add: hooks_owned_def)

lemma owned_setters: "\<forall>(n, f) \<in> set (setters_of c E C R). keeps (hooks_owned C) f"
proof (rule keeps_setters)
  have factories: "keeps (hooks_owned C) (table_factory_set C)"
    "keeps (hooks_owned C) (memtable_factory_set C)"
    by (auto simp: keeps_def table_factory_set_def memtable_factory_set_def hooks_owned_def
        split: sum.splits if_splits)
  have dict: "keeps (hooks_owned C) (defined (compression_opts_set E))"
    "keeps (hooks_owned C) (defined (universal_set E C))"
    unfolding other_setters
    by (intro keeps_defined keeps_with_dict keeps_bind keeps_dict_step; simp add: hooks_owned_def)+
  have hooks: "keeps (hooks_owned C) (defined (comparator_set C))"
    "keeps (hooks_owned C) (defined (merge_operator_set C))"
    "keeps (hooks_owned C) (defined (prefix_extractor_set C))"
    "keeps (hooks_owned C) (defined (row_cache_set C))"
    unfolding other_setters
    by (intro keeps_defined keeps_assign;
        use get_comparator_cases in \<open>auto simp: hooks_owned_def split: if_splits option.splits\<close>)+
  show "\<forall>(n, f) \<in> set (drop 34 (db_setters E C) @ drop 19 (cf_setters E C R)). keeps (hooks_owned C) f"
    apply (simp add: cf_setters_def db_setters_def factories dict hooks)
    apply (unfold other_setters)
    apply (intro conjI keeps_defined owned_same)
    apply (simp_all add: hooks_owned_def)
    done
qed (rule owned_scalar_set)

definition options_inv :: "class_env \<Rightarrow> 'f options \<Rightarrow> bool" where
  "options_inv C S \<longleftrightarrow> valid_options S \<and> hooks_owned C S"

lemma set_all_inv:
  "options_inv C S \<Longrightarrow> set_all c E C R kwargs S = Some (r, S') \<Longrightarrow> options_inv C S'"
  unfolding options_inv_def
  by (blast intro: keeps_set_all [OF valid_setters] keeps_set_all [OF owned_setters])

text \<open>Making an object: the call of the class with keyword arguments.\<close>

definition new_options where
  "new_options c E C R kwargs defaults =
     (case c of
        ColumnFamilyOptions \<Rightarrow> ColumnFamilyOptions_init ColumnFamilyOptions E C R kwargs defaults
      | Options \<Rightarrow> Options_init E C R kwargs defaults)"

lemma init_inv:
  assumes "valid_options D" "no_hooks D"
  shows "options_inv C (D\<lparr>py_comparator := c, py_merge_operator := m, py_prefix_extractor := t,
     py_table_factory := f, py_memtable_factory := g\<rparr>)"
    "options_inv C (D\<lparr>py_comparator := c, py_merge_operator := m, py_prefix_extractor := t,
     py_table_factory := f, py_memtable_factory := g, py_row_cache := h\<rparr>)"
  using assms by (simp_all add: options_inv_def valid_options_def no_hooks_def hooks_owned_def)

text \<open>
  C14. Whatever keyword arguments an options object is made with and whatever is assigned to
  its properties later, in any order and whether the assignments succeed or raise: every field of
  the C++ structure holds a value of its C type, and every comparator, merge operator, slice
  transform, factory and cache the structure points to is the one the Python object keeps alive.
\<close>

theorem options_stay_valid:
  assumes "valid_options defaults" "no_hooks defaults"
    and "new_options c E C R kwargs defaults = Some (r, S)"
    and "set_all c E C R assignments S = Some (q, S')"
  shows "options_inv C S'"
proof -
  have "options_inv C S"
    using assms(3)
    by (auto simp: new_options_def Options_init_def ColumnFamilyOptions_init_def
        split: options_class.splits elim: set_all_inv [rotated] intro: init_inv [OF assms(1,2)])
  then show ?thesis using assms(4) by (rule set_all_inv)
qed

subsection \<open>Failed assignments\<close>

definition atomic :: "(pyobj \<Rightarrow> 's \<Rightarrow> ((pyexn + unit) \<times> 's) option) \<Rightarrow> bool" where
  "atomic f \<longleftrightarrow> (\<forall>v S e S'. f v S = Some (Inl e, S') \<longrightarrow> S' = S)"

lemma atomic_assign: "atomic (defined (\<lambda>v. assign (r v) (upd v)))"
  by (simp add: atomic_def defined_def assign_def split: sum.split)

lemma atomic_setters:
  assumes "(name, f) \<in> set (setters_of c E C R)"
    "name \<notin> {''compression_opts'', ''compaction_options_universal''}"
  shows "atomic f"
proof -
  have scalar: "atomic (defined (scalar_set E t field))" for t field
    unfolding scalar_set_def by (rule atomic_assign)
  have factories: "atomic (table_factory_set C)" "atomic (memtable_factory_set C)"
    by (auto simp: atomic_def table_factory_set_def memtable_factory_set_def
        split: sum.splits if_splits)
  have rest: "\<forall>(n, g) \<in> set (drop 34 (db_setters E C) @ drop 19 (cf_setters E C R)).
      n \<notin> {''compression_opts'', ''compaction_options_universal''} \<longrightarrow> atomic g"
    apply (simp add: cf_setters_def db_setters_def factories)
    apply (unfold other_setters)
    apply (intro conjI)
    apply (rule atomic_assign [unfolded defined_def] atomic_assign)+
    done
  have "(name, f) \<in> set (map (scalar_setter E) scalar_props) \<or>
      (name, f) \<in> set (drop 34 (db_setters E C) @ drop 19 (cf_setters E C R))"
    using assms(1) set_setters [of c E C R] by blast
  then show ?thesis
    using rest assms(2) scalar by (auto simp: scalar_setter_def)
qed

lemma failed_assignment_changes_nothing:
  assumes "name \<notin> {''compression_opts'', ''compaction_options_universal''}"
    and "set_option c E C R name v S = Some (Inl e, S')"
  shows "S' = S"
proof (cases "map_of (setters_of c E C R) name")
  case (Some f)
  then have "atomic f" using assms(1) by (blast intro: atomic_setters dest: map_of_SomeD)
  then show ?thesis using assms(2) Some by (simp add: atomic_def set_option_def)
qed (use assms(2) in \<open>simp add: set_option_def\<close>)

subsection \<open>More about single properties\<close>

lemma set_option_undefined:
  "set_option Options E C R name v S = None \<longleftrightarrow>
     v = PNone \<and> name \<in> {''table_factory'', ''memtable_factory''}"
proof -
  have rest: "\<forall>(n, f) \<in> set (drop 34 (db_setters E C) @ drop 19 (cf_setters E C R)).
      f v S = None \<longleftrightarrow> v = PNone \<and> n \<in> {''table_factory'', ''memtable_factory''}"
    by (simp add: cf_setters_def db_setters_def defined_def table_factory_set_def
        memtable_factory_set_def arg_type_test_def split: sum.split)
  have scalar: "\<forall>(n, f) \<in> set (map (scalar_setter E) scalar_props).
      f v S \<noteq> None \<and> n \<notin> {''table_factory'', ''memtable_factory''}"
    by (simp add: scalar_props_def db_scalars_def cf_scalars_def scalar_setter_def defined_def)
  show ?thesis
  proof (cases "map_of (setters_of Options E C R) name")
    case None
    then have "name \<notin> fst ` set (setters_of Options E C R)" by (simp add: map_of_eq_None_iff)
    then have "name \<notin> {''table_factory'', ''memtable_factory''}"
      by (auto simp: setters_of_def cf_setters_def)
    then show ?thesis using None by (simp add: set_option_def)
  next
    case (Some f)
    then have "(name, f) \<in> set (setters_of Options E C R)" by (rule map_of_SomeD)
    then have "(name, f) \<in> set (map (scalar_setter E) scalar_props) \<or>
        (name, f) \<in> set (drop 34 (db_setters E C) @ drop 19 (cf_setters E C R))"
      using set_setters [of Options E C R] by blast
    then have "f v S = None \<longleftrightarrow> v = PNone \<and> name \<in> {''table_factory'', ''memtable_factory''}"
      using bspec [OF scalar, of "(name, f)"] bspec [OF rest, of "(name, f)"]
      unfolding split_beta fst_conv snd_conv by argo
    then show ?thesis using Some by (simp add: set_option_def)
  qed
qed

lemma compression_round_trip:
  assumes "compression_set eq (PStr name) = Inr c"
  shows "compression_get c = Inr (PStr name)"
  using assms by (auto simp: compression_set_def str_equal_def split: if_splits)

lemma compression_xpress_refused:
  "compression_get kXpressCompression = Inr (PStr ''xpress_compression'') \<and>
   compression_set eq (PStr ''xpress_compression'') =
     Inl (Exn TypeError (Fmt ''Unknown compression: %s'' [PStr ''xpress_compression'']))"
  by (simp add: compression_set_def str_equal_def)

lemma compaction_style_round_trip:
  "compaction_style_set eq (PStr name) = Inr c \<Longrightarrow> compaction_style_get c = Inr (PStr name)"
  by (auto simp: compaction_style_set_def arg_type_test_def str_equal_def split: if_splits)

lemma compaction_pri_round_trip:
  "compaction_pri_set eq (PStr name) = Inr c \<Longrightarrow> compaction_pri_get c = Inr (PStr name)"
  by (auto simp: compaction_pri_set_def str_equal_def split: if_splits)

text \<open>
  Running \<open>__init__\<close> again replaces the Python fields only: the C++ structure then points to a
  comparator that the object no longer keeps alive.
\<close>

lemma init_again_disowns_comparator:
  assumes "c_comparator S = Some (GenericComparator g)"
    and "Options_init E C R [] S = Some (r, S')"
  shows "\<not> hooks_owned C S'"
  using assms by (auto simp: Options_init_def ColumnFamilyOptions_init_def hooks_owned_def)

subsection \<open>A concrete object\<close>

definition demo_classes :: class_env where
  "demo_classes =
     \<lparr>eq_str = (\<lambda>_ _. Inr False), obj_of = (\<lambda>_. answering (\<lambda>_ _. Inr PNone)), comparator_at = (\<lambda>_. None),
      new_bytewise = PObj 1, table_factory_at = (\<lambda>_. None), memtable_factory_at = (\<lambda>_. None),
      cache_at = (\<lambda>v. if v = PObj 2 then Some 20 else None)\<rparr>"

definition demo_reals :: "int real_env" where
  "demo_reals =
     \<lparr>PyFloat_AsDouble = (\<lambda>v. case v of PInt n \<Rightarrow> Inr n | _ \<Rightarrow> Inl (Exn TypeError NoMsg)),
      PyFloat_FromDouble = PInt\<rparr>"

definition demo_options :: "int options" where
  "demo_options =
     \<lparr>scalars = (\<lambda>_. 0), reals_of = (\<lambda>_. 0), paths = (\<lambda>_. []), multipliers = [1, 1],
      compression = kSnappyCompression, compaction_pri = kByCompensatedSize,
      compaction_style = kCompactionStyleLevel,
      comp_opts = \<lparr>window_bits = - 14, clevel = 32767, strategy = 0, max_dict_bytes = 0\<rparr>,
      universal = \<lparr>size_ratio = 1, min_merge_width = 2, max_merge_width = 4294967295,
        max_size_amplification_percent = 200, compression_size_percent = - 1,
        stop_style = kCompactionStopStyleTotalSize\<rparr>,
      py_comparator = BaseComparator, c_comparator = None, py_merge_operator = None,
      c_merge_operator = None, py_prefix_extractor = None, c_prefix_extractor = None,
      py_table_factory = PNone, c_table_factory = None, py_memtable_factory = PNone,
      c_memtable_factory = None, py_row_cache = PNone, c_row_cache = None\<rparr>"

lemma demo_valid: "valid_options demo_options" "no_hooks demo_options"
  by (simp_all add: valid_options_def valid_scalars_def scalar_props_def cf_scalars_def
      db_scalars_def slot_valid_def valid_compression_opts_def valid_universal_def no_hooks_def
      demo_options_def in_range_def ctype_defs)

lemma partial_dict_update:
  "compression_opts_set plain_env (PDict [(PStr ''window_bits'', PInt 5), (PStr ''level'', PStr ''x'')])
     demo_options =
   (Inl (Exn TypeError (Text ''an integer is required'')),
    demo_options\<lparr>comp_opts := (comp_opts demo_options)\<lparr>window_bits := 5\<rparr>\<rparr>)"
  by (simp add: compression_opts_set_def with_dict_def dict_step_def slot_int.as_valid in_range_def
      ctype_defs bind_py_def, simp add: PyInt_As_int_def PyInt_As_def PyNumber_IntOrLong_def no_int_def)

theorem option_round_trip_witness:
  "(''num_levels'', ''num_levels'', SInt) \<in> set scalar_props \<and>
   set_option Options plain_env demo_classes demo_reals ''num_levels'' (PInt 7) demo_options =
     Some (Inr (), demo_options\<lparr>scalars := (\<lambda>_. 0)(''num_levels'' := 7)\<rparr>)"
proof -
  have member: "(''num_levels'', ''num_levels'', SInt) \<in> set scalar_props"
    by (simp add: scalar_props_def cf_scalars_def)
  have int: "slot_as plain_env SInt (PInt 7) = Inr 7"
    by (simp add: slot_as_def slot_int.as_valid in_range_def ctype_defs)
  obtain S' where "set_option Options plain_env demo_classes demo_reals ''num_levels'' (PInt 7)
      demo_options = Some (Inr (), S')"
    using option_round_trip [where E = plain_env and v = "PInt 7" and C = demo_classes and
        R = demo_reals and S = demo_options, OF member] int
    by auto
  then show ?thesis
    using member int
    by (simp add: set_option_def scalar_props_setter [OF member] defined_def scalar_set_def
        demo_options_def)
qed

theorem options_stay_valid_witness:
  "\<exists>S'. set_all Options plain_env demo_classes demo_reals [(''row_cache'', PObj 2)]
      (demo_options\<lparr>py_comparator := BytewiseComparator (PObj 1)\<rparr>) = Some (Inr (), S') \<and>
    c_row_cache S' = Some 20 \<and> options_inv demo_classes S'"
proof -
  let ?S = "demo_options\<lparr>py_comparator := BytewiseComparator (PObj 1)\<rparr>"
  have made: "new_options Options plain_env demo_classes demo_reals [] demo_options = Some (Inr (), ?S)"
    by (simp add: new_options_def Options_init_def ColumnFamilyOptions_init_def demo_classes_def
        demo_options_def)
  have look: "map_of (setters_of Options plain_env demo_classes demo_reals) ''row_cache'' =
      Some (defined (row_cache_set demo_classes))"
    by (simp add: setters_of_def db_setters_def)
  have cache: "cache_at demo_classes (PObj 2) = Some 20"
    by (simp add: demo_classes_def)
  have set: "set_all Options plain_env demo_classes demo_reals [(''row_cache'', PObj 2)] ?S =
      Some (Inr (), ?S\<lparr>py_row_cache := PObj 2, c_row_cache := Some 20\<rparr>)"
    by (simp add: set_option_def look defined_def row_cache_set_def cache)
  show ?thesis
    using set options_stay_valid [OF demo_valid made set] by (intro exI conjI) simp_all
qed

end
