(* ===== verification/Factories.thy ===== *)
theory Factories
  imports OptionsSpec ArgParse
begin

section \<open>Caches and factories\<close>

text \<open>
  The classes whose objects options point to: \<open>PyLRUCache\<close>, the table factories and the memtable
  factories of \<open>rocksdb/_rocksdb.cpp\<close>, with \<open>rocksdb/cpp/memtable_factories.hpp\<close>. An object owns a
  shared pointer to what RocksDB made, a natural number here; RocksDB's constructors and its
  default options are parameters.
\<close>

subsection \<open>Calls\<close>

text \<open>
  A wrapper unpacks its arguments and calls the body with them. Every parameter has received a
  value when unpacking succeeded and the required ones come first.
\<close>

definition wrapped :: "signature \<Rightarrow> (pyobj list \<Rightarrow> pyexn + 'a) \<Rightarrow> pyobj list \<Rightarrow> kwargs \<Rightarrow> pyexn + 'a" where
  "wrapped sg body args kwds = bind_res (unpack_arguments sg args kwds) (\<lambda>vs. body (map the vs))"

subsection \<open>LRU cache\<close>

record cache_lib =
  NewLRUCache :: "int \<Rightarrow> nat"
  NewLRUCache_sharded :: "int \<Rightarrow> int \<Rightarrow> nat"

definition PyLRUCache_cinit :: "pyenv \<Rightarrow> cache_lib \<Rightarrow> pyobj \<Rightarrow> pyobj \<Rightarrow> pyexn + nat" where
  "PyLRUCache_cinit E L capacity shard_bits =
     (if shard_bits \<noteq> PNone
      then bind_res (PyInt_As_size_t E capacity) (\<lambda>c.
           bind_res (PyInt_As_int E shard_bits) (\<lambda>s. Inr (NewLRUCache_sharded L c s)))
      else bind_res (PyInt_As_size_t E capacity) (\<lambda>c. Inr (NewLRUCache L c)))"

definition PyLRUCache_signature :: signature where
  "PyLRUCache_signature = \<lparr>fn_name = ''__cinit__'', num_required = 1,
     params = [(''capacity'', None), (''shard_bits'', Some PNone)]\<rparr>"

definition PyLRUCache_new :: "pyenv \<Rightarrow> cache_lib \<Rightarrow> pyobj list \<Rightarrow> kwargs \<Rightarrow> pyexn + nat" where
  "PyLRUCache_new E L = wrapped PyLRUCache_signature (\<lambda>vs. PyLRUCache_cinit E L (vs ! 0) (vs ! 1))"

text \<open>\<open>get_cache\<close>: a \<open>PyCache\<close> of the base class gives an empty pointer.\<close>

datatype cache_object = BaseCache | LRUCache nat

fun get_cache :: "cache_object \<Rightarrow> nat option" where
  "get_cache BaseCache = None"
| "get_cache (LRUCache p) = Some p"

subsection \<open>Table factories\<close>

datatype index_type = kBinarySearch | kHashSearch
datatype checksum_type = kCRC32c | kxxHash
datatype encoding_type = kPlain | kPrefix

datatype filter_policy =
    BaseFilterPolicy
  | BloomFilterPolicy bloom_policy
  | GenericFilterPolicy PyGenericFilterPolicy

text \<open>\<open>get_policy()\<close>: an empty pointer for an object of the base class.\<close>

fun get_policy :: "filter_policy \<Rightarrow> filter_policy option" where
  "get_policy BaseFilterPolicy = None"
| "get_policy p = Some p"

record block_table_options =
  cache_index_and_filter_blocks :: bool
  bt_index_type :: index_type
  hash_index_allow_collision :: bool
  bt_checksum :: checksum_type
  no_block_cache :: bool
  bt_block_size :: int
  block_size_deviation :: int
  block_restart_interval :: int
  whole_key_filtering :: bool
  block_cache :: "nat option"
  block_cache_compressed :: "nat option"
  bt_filter_policy :: "filter_policy option"

record 'f plain_table_options =
  user_key_len :: int
  bloom_bits_per_key :: int
  hash_table_ratio :: 'f
  index_sparseness :: int
  huge_page_tlb_size :: int
  pt_encoding_type :: encoding_type
  full_scan_mode :: bool

record 'f table_lib =
  default_block_table :: block_table_options
  default_plain_table :: "'f plain_table_options"
  NewBlockBasedTableFactory :: "block_table_options \<Rightarrow> cpp_exn + nat"
  NewPlainTableFactory :: "'f plain_table_options \<Rightarrow> cpp_exn + nat"

record table_factory =
  py_filter_policy :: "filter_policy option"
  tf_factory :: "nat option"

text \<open>What the runtime says of arguments: their classes, and the caches and policies they are.\<close>

record arg_classes =
  class_eq :: "nat \<Rightarrow> string \<Rightarrow> pyexn + bool"
  cache_of :: "pyobj \<Rightarrow> cache_object option"
  filter_policy_of :: "pyobj \<Rightarrow> filter_policy option"
  user_of :: "pyobj \<Rightarrow> user_ob"

fun is_bool :: "pyobj \<Rightarrow> bool" where
  "is_bool (PBool _) = True"
| "is_bool _ = False"

text \<open>\<open>if value is not None: field = value\<close>.\<close>

definition unless_None :: "pyobj \<Rightarrow> (pyobj \<Rightarrow> pyexn + 'a) \<Rightarrow> ('a \<Rightarrow> 's \<Rightarrow> 's) \<Rightarrow> 's \<Rightarrow> pyexn + 's" where
  "unless_None v conv upd o' =
     (if v = PNone then Inr o' else bind_res (conv v) (\<lambda>x. Inr (upd x o')))"

definition index_type_of :: "arg_classes \<Rightarrow> pyobj \<Rightarrow> pyexn + index_type" where
  "index_type_of C v =
     first_equal (class_eq C) v [(''binary_search'', kBinarySearch), (''hash_search'', kHashSearch)]
       (Exn ValueError (Fmt ''Unknown index_type: %s'' [v]))"

definition checksum_of :: "arg_classes \<Rightarrow> pyobj \<Rightarrow> pyexn + checksum_type" where
  "checksum_of C v =
     first_equal (class_eq C) v [(''crc32'', kCRC32c), (''xxhash'', kxxHash)]
       (Exn ValueError (Fmt ''Unknown checksum: %s'' [v]))"

definition encoding_type_of :: "arg_classes \<Rightarrow> pyobj \<Rightarrow> pyexn + encoding_type" where
  "encoding_type_of C v =
     first_equal (class_eq C) v [(''plain'', kPlain), (''prefix'', kPrefix)]
       (Exn ValueError (Fmt ''Unknown encoding_type: %s'' [v]))"

definition cache_pointer :: "arg_classes \<Rightarrow> pyobj \<Rightarrow> pyexn + nat option" where
  "cache_pointer C v = Inr (case cache_of C v of None \<Rightarrow> None | Some c \<Rightarrow> get_cache c)"

text \<open>The table options of a block based table, in the order the constructor fills them.\<close>

definition block_table_options_of ::
    "pyenv \<Rightarrow> arg_classes \<Rightarrow> block_table_options \<Rightarrow> pyobj list \<Rightarrow> pyexn + block_table_options" where
  "block_table_options_of E C dflt vs =
     bind_res (PyObject_IsTrue E (vs ! 11)) (\<lambda>cif.
     bind_res (index_type_of C (vs ! 0)) (\<lambda>it.
     bind_res (PyObject_IsTrue E (vs ! 1)) (\<lambda>hiac.
     bind_res (checksum_of C (vs ! 2)) (\<lambda>cs.
     bind_res (PyObject_IsTrue E (vs ! 6)) (\<lambda>nbc.
     bind_res (unless_None (vs ! 7) (PyInt_As_size_t E) (\<lambda>n. bt_block_size_update (\<lambda>_. n))
       (dflt\<lparr>cache_index_and_filter_blocks := cif, bt_index_type := it,
             hash_index_allow_collision := hiac, bt_checksum := cs, no_block_cache := nbc\<rparr>)) (\<lambda>o1.
     bind_res (unless_None (vs ! 8) (PyInt_As_int E) (\<lambda>n. block_size_deviation_update (\<lambda>_. n)) o1) (\<lambda>o2.
     bind_res (unless_None (vs ! 9) (PyInt_As_int E) (\<lambda>n. block_restart_interval_update (\<lambda>_. n)) o2) (\<lambda>o3.
     bind_res (unless_None (vs ! 10) (PyObject_IsTrue E) (\<lambda>b. whole_key_filtering_update (\<lambda>_. b)) o3) (\<lambda>o4.
     bind_res (unless_None (vs ! 3) (cache_pointer C) (\<lambda>p. block_cache_update (\<lambda>_. p)) o4) (\<lambda>o5.
     unless_None (vs ! 4) (cache_pointer C) (\<lambda>p. block_cache_compressed_update (\<lambda>_. p)) o5))))))))))"

text \<open>
  The filter policy: an object of the binding's classes is taken unless it is of the base class,
  any other object is wrapped.
\<close>

definition filter_policy_arg :: "arg_classes \<Rightarrow> pyobj \<Rightarrow> pyexn + filter_policy option" where
  "filter_policy_arg C v =
     (if v = PNone then Inr None
      else case filter_policy_of C v of
             Some p \<Rightarrow>
               if get_policy p = None
               then Inl (Exn PlainException (Fmt ''Cannot set filter policy: %s'' [v]))
               else Inr (Some p)
           | None \<Rightarrow> bind_res (PyGenericFilterPolicy_cinit (user_of C v))
               (\<lambda>g. Inr (Some (GenericFilterPolicy g))))"

definition BlockBasedTableFactory_init ::
    "pyenv \<Rightarrow> arg_classes \<Rightarrow> 'f table_lib \<Rightarrow> pyobj list \<Rightarrow> (table_factory, unit) py" where
  "BlockBasedTableFactory_init E C L vs self =
     (case block_table_options_of E C (default_block_table L) vs of
        Inl e \<Rightarrow> (Inl e, self)
      | Inr opts \<Rightarrow>
          (case filter_policy_arg C (vs ! 5) of
             Inl e \<Rightarrow> (Inl e, self\<lparr>py_filter_policy := None\<rparr>)
           | Inr p \<Rightarrow>
               (case catch_cpp (NewBlockBasedTableFactory L
                   (case p of None \<Rightarrow> opts | Some q \<Rightarrow> opts\<lparr>bt_filter_policy := get_policy q\<rparr>)) of
                  Inl e \<Rightarrow> (Inl e, self\<lparr>py_filter_policy := p\<rparr>)
                | Inr f \<Rightarrow> (Inr (), self\<lparr>py_filter_policy := p, tf_factory := Some f\<rparr>))))"

definition BlockBasedTableFactory_signature :: signature where
  "BlockBasedTableFactory_signature = \<lparr>fn_name = ''__init__'', num_required = 0,
     params = [(''index_type'', Some (PStr ''binary_search'')),
       (''hash_index_allow_collision'', Some (PBool True)), (''checksum'', Some (PStr ''crc32'')),
       (''block_cache'', Some PNone), (''block_cache_compressed'', Some PNone),
       (''filter_policy'', Some PNone), (''no_block_cache'', Some (PBool False)),
       (''block_size'', Some PNone), (''block_size_deviation'', Some PNone),
       (''block_restart_interval'', Some PNone), (''whole_key_filtering'', Some PNone),
       (''cache_index_and_filter_blocks'', Some (PBool False))]\<rparr>"

definition is_cache :: "arg_classes \<Rightarrow> pyobj \<Rightarrow> bool" where
  "is_cache C v \<longleftrightarrow> cache_of C v \<noteq> None"

text \<open>The wrapper unpacks, tests the three arguments with a declared type and runs the body.\<close>

definition BlockBasedTableFactory_args ::
    "arg_classes \<Rightarrow> pyobj list \<Rightarrow> kwargs \<Rightarrow> pyexn + pyobj list" where
  "BlockBasedTableFactory_args C =
     wrapped BlockBasedTableFactory_signature (\<lambda>vs.
       bind_res (arg_type_test is_bool (vs ! 1)) (\<lambda>_.
       bind_res (arg_type_test (is_cache C) (vs ! 3)) (\<lambda>_.
       bind_res (arg_type_test (is_cache C) (vs ! 4)) (\<lambda>_. Inr vs))))"

definition BlockBasedTableFactory_call ::
    "pyenv \<Rightarrow> arg_classes \<Rightarrow> 'f table_lib \<Rightarrow> pyobj list \<Rightarrow> kwargs \<Rightarrow> (table_factory, unit) py" where
  "BlockBasedTableFactory_call E C L args kwds self =
     (case BlockBasedTableFactory_args C args kwds of
        Inl e \<Rightarrow> (Inl e, self)
      | Inr vs \<Rightarrow> BlockBasedTableFactory_init E C L vs self)"

fun filter_policy_set_info_log :: "log_ptr \<Rightarrow> filter_policy \<Rightarrow> filter_policy" where
  "filter_policy_set_info_log log (GenericFilterPolicy p) =
     GenericFilterPolicy (PyGenericFilterPolicy_set_info_log log p)"
| "filter_policy_set_info_log log p = p"

definition BlockBasedTableFactory_set_info_log :: "log_ptr \<Rightarrow> table_factory \<Rightarrow> table_factory" where
  "BlockBasedTableFactory_set_info_log log self =
     (case py_filter_policy self of
        None \<Rightarrow> self
      | Some p \<Rightarrow> self\<lparr>py_filter_policy := Some (filter_policy_set_info_log log p)\<rparr>)"

definition PlainTableFactory_init ::
    "pyenv \<Rightarrow> arg_classes \<Rightarrow> 'f real_env \<Rightarrow> 'f table_lib \<Rightarrow> pyobj list \<Rightarrow> pyexn + nat" where
  "PlainTableFactory_init E C R L vs =
     bind_res (PyInt_As_uint32_t E (vs ! 0)) (\<lambda>ukl.
     bind_res (PyInt_As_int E (vs ! 1)) (\<lambda>bits.
     bind_res (PyFloat_AsDouble R (vs ! 2)) (\<lambda>ratio.
     bind_res (PyInt_As_size_t E (vs ! 3)) (\<lambda>sparse.
     bind_res (PyInt_As_size_t E (vs ! 4)) (\<lambda>huge.
     bind_res (encoding_type_of C (vs ! 5)) (\<lambda>enc.
     bind_res (PyObject_IsTrue E (vs ! 6)) (\<lambda>scan.
       catch_cpp (NewPlainTableFactory L
         ((default_plain_table L)\<lparr>user_key_len := ukl, bloom_bits_per_key := bits,
            hash_table_ratio := ratio, index_sparseness := sparse, huge_page_tlb_size := huge,
            pt_encoding_type := enc, full_scan_mode := scan\<rparr>)))))))))"

definition PlainTableFactory_signature :: "'f real_env \<Rightarrow> 'f \<Rightarrow> signature" where
  "PlainTableFactory_signature R three_quarters = \<lparr>fn_name = ''__init__'', num_required = 0,
     params = [(''user_key_len'', Some (PInt 0)), (''bloom_bits_per_key'', Some (PInt 10)),
       (''hash_table_ratio'', Some (PyFloat_FromDouble R three_quarters)),
       (''index_sparseness'', Some (PInt 10)), (''huge_page_tlb_size'', Some (PInt 0)),
       (''encoding_type'', Some (PStr ''plain'')), (''full_scan_mode'', Some (PBool False))]\<rparr>"

definition PlainTableFactory_call ::
    "pyenv \<Rightarrow> arg_classes \<Rightarrow> 'f real_env \<Rightarrow> 'f \<Rightarrow> 'f table_lib \<Rightarrow> pyobj list \<Rightarrow> kwargs \<Rightarrow> pyexn + nat"
  where
  "PlainTableFactory_call E C R three_quarters L =
     wrapped (PlainTableFactory_signature R three_quarters) (\<lambda>vs.
       bind_res (arg_type_test is_bool (vs ! 6)) (\<lambda>_. PlainTableFactory_init E C R L vs))"

subsection \<open>Memtable factories\<close>

text \<open>
  The two functions of \<open>memtable_factories.hpp\<close> construct RocksDB's classes; the other two
  factories come from RocksDB directly.
\<close>

record memtable_lib =
  VectorRepFactory :: "int \<Rightarrow> cpp_exn + nat"
  SkipListFactory :: "cpp_exn + nat"
  NewHashSkipListRepFactory :: "int \<Rightarrow> int \<Rightarrow> int \<Rightarrow> cpp_exn + nat"
  NewHashLinkListRepFactory :: "int \<Rightarrow> cpp_exn + nat"

definition NewVectorRepFactory :: "memtable_lib \<Rightarrow> int \<Rightarrow> cpp_exn + nat" where
  "NewVectorRepFactory L count = VectorRepFactory L count"

definition NewSkipListFactory :: "memtable_lib \<Rightarrow> cpp_exn + nat" where
  "NewSkipListFactory L = SkipListFactory L"

definition SkipListMemtableFactory_init :: "memtable_lib \<Rightarrow> pyexn + nat" where
  "SkipListMemtableFactory_init L = catch_cpp (NewSkipListFactory L)"

definition VectorMemtableFactory_init :: "pyenv \<Rightarrow> memtable_lib \<Rightarrow> pyobj \<Rightarrow> pyexn + nat" where
  "VectorMemtableFactory_init E L count =
     bind_res (PyInt_As_size_t E count) (\<lambda>n. catch_cpp (NewVectorRepFactory L n))"

definition HashSkipListMemtableFactory_init ::
    "pyenv \<Rightarrow> memtable_lib \<Rightarrow> pyobj \<Rightarrow> pyobj \<Rightarrow> pyobj \<Rightarrow> pyexn + nat" where
  "HashSkipListMemtableFactory_init E L bucket_count skiplist_height skiplist_branching_factor =
     bind_res (PyInt_As_size_t E bucket_count) (\<lambda>n.
     bind_res (PyInt_As_int32_t E skiplist_height) (\<lambda>h.
     bind_res (PyInt_As_int32_t E skiplist_branching_factor) (\<lambda>b.
       catch_cpp (NewHashSkipListRepFactory L n h b))))"

definition HashLinkListMemtableFactory_init :: "pyenv \<Rightarrow> memtable_lib \<Rightarrow> pyobj \<Rightarrow> pyexn + nat" where
  "HashLinkListMemtableFactory_init E L bucket_count =
     bind_res (PyInt_As_size_t E bucket_count) (\<lambda>n. catch_cpp (NewHashLinkListRepFactory L n))"

definition VectorMemtableFactory_signature :: signature where
  "VectorMemtableFactory_signature = \<lparr>fn_name = ''__init__'', num_required = 0,
     params = [(''count'', Some (PInt 0))]\<rparr>"

definition HashSkipListMemtableFactory_signature :: signature where
  "HashSkipListMemtableFactory_signature = \<lparr>fn_name = ''__init__'', num_required = 0,
     params = [(''bucket_count'', Some (PInt 1000000)), (''skiplist_height'', Some (PInt 4)),
       (''skiplist_branching_factor'', Some (PInt 4))]\<rparr>"

definition HashLinkListMemtableFactory_signature :: signature where
  "HashLinkListMemtableFactory_signature = \<lparr>fn_name = ''__init__'', num_required = 0,
     params = [(''bucket_count'', Some (PInt 50000))]\<rparr>"

definition VectorMemtableFactory_call ::
    "pyenv \<Rightarrow> memtable_lib \<Rightarrow> pyobj list \<Rightarrow> kwargs \<Rightarrow> pyexn + nat" where
  "VectorMemtableFactory_call E L =
     wrapped VectorMemtableFactory_signature (\<lambda>vs. VectorMemtableFactory_init E L (vs ! 0))"

definition HashSkipListMemtableFactory_call ::
    "pyenv \<Rightarrow> memtable_lib \<Rightarrow> pyobj list \<Rightarrow> kwargs \<Rightarrow> pyexn + nat" where
  "HashSkipListMemtableFactory_call E L =
     wrapped HashSkipListMemtableFactory_signature
       (\<lambda>vs. HashSkipListMemtableFactory_init E L (vs ! 0) (vs ! 1) (vs ! 2))"

definition HashLinkListMemtableFactory_call ::
    "pyenv \<Rightarrow> memtable_lib \<Rightarrow> pyobj list \<Rightarrow> kwargs \<Rightarrow> pyexn + nat" where
  "HashLinkListMemtableFactory_call E L =
     wrapped HashLinkListMemtableFactory_signature (\<lambda>vs. HashLinkListMemtableFactory_init E L (vs ! 0))"

subsection \<open>Properties\<close>

definition valid_block_table :: "block_table_options \<Rightarrow> bool" where
  "valid_block_table o' \<longleftrightarrow>
     in_range c_size_t (bt_block_size o') \<and> in_range c_int (block_size_deviation o') \<and>
     in_range c_int (block_restart_interval o')"

definition valid_plain_table :: "'f plain_table_options \<Rightarrow> bool" where
  "valid_plain_table o' \<longleftrightarrow>
     in_range c_uint32_t (user_key_len o') \<and> in_range c_int (bloom_bits_per_key o') \<and>
     in_range c_size_t (index_sparseness o') \<and> in_range c_size_t (huge_page_tlb_size o')"

lemma unless_None_keeps:
  assumes "unless_None v conv upd S = Inr S'" "P S" "\<And>x. conv v = Inr x \<Longrightarrow> P S \<Longrightarrow> P (upd x S)"
  shows "P S'"
  using assms by (auto simp: unless_None_def bind_res_convs split: if_splits)

lemma block_table_options_valid:
  assumes "block_table_options_of E C dflt vs = Inr opts" "valid_block_table dflt"
  shows "valid_block_table opts \<and> bt_filter_policy opts = bt_filter_policy dflt"
proof -
  let ?P = "\<lambda>opts. valid_block_table opts \<and> bt_filter_policy opts = bt_filter_policy dflt"
  from assms(1) obtain cif it hiac cs nbc o1 o2 o3 o4 o5 where
    s1: "unless_None (vs ! 7) (PyInt_As_size_t E) (\<lambda>n. bt_block_size_update (\<lambda>_. n))
       (dflt\<lparr>cache_index_and_filter_blocks := cif, bt_index_type := it,
             hash_index_allow_collision := hiac, bt_checksum := cs, no_block_cache := nbc\<rparr>) = Inr o1"
    and s2: "unless_None (vs ! 8) (PyInt_As_int E) (\<lambda>n. block_size_deviation_update (\<lambda>_. n)) o1 = Inr o2"
    and s3: "unless_None (vs ! 9) (PyInt_As_int E) (\<lambda>n. block_restart_interval_update (\<lambda>_. n)) o2 = Inr o3"
    and s4: "unless_None (vs ! 10) (PyObject_IsTrue E) (\<lambda>b. whole_key_filtering_update (\<lambda>_. b)) o3 = Inr o4"
    and s5: "unless_None (vs ! 3) (cache_pointer C) (\<lambda>p. block_cache_update (\<lambda>_. p)) o4 = Inr o5"
    and s6: "unless_None (vs ! 4) (cache_pointer C) (\<lambda>p. block_cache_compressed_update (\<lambda>_. p)) o5 = Inr opts"
    unfolding block_table_options_of_def bind_res_Inr_conv by blast
  have "?P o1"
    by (rule unless_None_keeps [OF s1, where P = ?P])
      (use assms(2) in \<open>auto simp: valid_block_table_def dest: slot_size_t.as_result\<close>)
  then have "?P o2"
    by (rule unless_None_keeps [OF s2, where P = ?P]) (auto simp: valid_block_table_def dest: slot_int.as_result)
  then have "?P o3"
    by (rule unless_None_keeps [OF s3, where P = ?P]) (auto simp: valid_block_table_def dest: slot_int.as_result)
  then have "?P o4" by (rule unless_None_keeps [OF s4, where P = ?P]) (auto simp: valid_block_table_def)
  then have "?P o5" by (rule unless_None_keeps [OF s5, where P = ?P]) (auto simp: valid_block_table_def)
  then show "?P opts" by (rule unless_None_keeps [OF s6, where P = ?P]) (auto simp: valid_block_table_def)
qed

text \<open>
  C24. A call of \<open>BlockBasedTableFactory\<close> with any arguments either raises and leaves the factory
  the object had, or hands RocksDB options whose numbers fit their C types and whose filter policy
  is the one the Python object keeps alive, or RocksDB's default when none was given, and keeps
  what RocksDB returned.
\<close>

theorem block_factory_call:
  assumes "valid_block_table (default_block_table L)"
    and "BlockBasedTableFactory_call E C L args kwds self = (r, self')"
  shows "case r of
      Inl _ \<Rightarrow> tf_factory self' = tf_factory self
    | Inr _ \<Rightarrow> \<exists>opts f. valid_block_table opts \<and>
        bt_filter_policy opts =
          (case py_filter_policy self' of
             None \<Rightarrow> bt_filter_policy (default_block_table L) | Some p \<Rightarrow> Some p) \<and>
        NewBlockBasedTableFactory L opts = Inr f \<and> tf_factory self' = Some f"
proof -
  have init: "case q of
      Inl _ \<Rightarrow> tf_factory t = tf_factory self
    | Inr _ \<Rightarrow> \<exists>opts f. valid_block_table opts \<and>
        bt_filter_policy opts =
          (case py_filter_policy t of
             None \<Rightarrow> bt_filter_policy (default_block_table L) | Some p \<Rightarrow> Some p) \<and>
        NewBlockBasedTableFactory L opts = Inr f \<and> tf_factory t = Some f"
    if run: "BlockBasedTableFactory_init E C L vs self = (q, t)" for vs q t
  proof (cases "block_table_options_of E C (default_block_table L) vs")
    case (Inl e)
    then show ?thesis using run by (auto simp: BlockBasedTableFactory_init_def)
  next
    case (Inr opts)
    then have ok: "valid_block_table opts"
      "bt_filter_policy opts = bt_filter_policy (default_block_table L)"
      using block_table_options_valid assms(1) by blast+
    have policy: "filter_policy_arg C v = Inr (Some p) \<Longrightarrow> get_policy p = Some p" for v p
      by (cases p) (auto simp: filter_policy_arg_def bind_res_convs split: if_splits option.splits)
    show ?thesis
    proof (cases "filter_policy_arg C (vs ! 5)")
      case Inl': (Inl e)
      then show ?thesis using run Inr by (auto simp: BlockBasedTableFactory_init_def)
    next
      case Inr': (Inr p)
      let ?opts = "case p of None \<Rightarrow> opts | Some q \<Rightarrow> opts\<lparr>bt_filter_policy := get_policy q\<rparr>"
      have "valid_block_table ?opts"
        using ok(1) by (cases p) (simp_all add: valid_block_table_def)
      moreover have "bt_filter_policy ?opts = (case p of
          None \<Rightarrow> bt_filter_policy (default_block_table L) | Some p \<Rightarrow> Some p)"
        using ok(2) policy Inr' by (cases p) auto
      ultimately show ?thesis
        using run Inr Inr'
        by (cases "NewBlockBasedTableFactory L ?opts") (auto simp: BlockBasedTableFactory_init_def)
    qed
  qed
  show ?thesis
    using assms(2) by (cases "BlockBasedTableFactory_args C args kwds")
      (auto simp: BlockBasedTableFactory_call_def dest!: init split: sum.splits)
qed

lemma plain_factory_options_valid:
  assumes "PlainTableFactory_init E C R L vs = Inr f"
  shows "\<exists>opts. valid_plain_table opts \<and> NewPlainTableFactory L opts = Inr f"
proof -
  from assms obtain ukl bits ratio sparse huge enc scan where
    "PyInt_As_uint32_t E (vs ! 0) = Inr ukl" "PyInt_As_int E (vs ! 1) = Inr bits"
    "PyInt_As_size_t E (vs ! 3) = Inr sparse" "PyInt_As_size_t E (vs ! 4) = Inr huge"
    and new: "NewPlainTableFactory L
         ((default_plain_table L)\<lparr>user_key_len := ukl, bloom_bits_per_key := bits,
            hash_table_ratio := ratio, index_sparseness := sparse, huge_page_tlb_size := huge,
            pt_encoding_type := enc, full_scan_mode := scan\<rparr>) = Inr f"
    unfolding PlainTableFactory_init_def bind_res_Inr_conv catch_cpp_Inr_iff by blast
  then show ?thesis
    by (intro exI conjI, rule_tac [2] new)
      (simp add: valid_plain_table_def slot_uint32.as_result slot_int.as_result slot_size_t.as_result)
qed

lemma set_info_log_reaches_policy:
  assumes "py_filter_policy t = Some (GenericFilterPolicy p)"
  shows "\<exists>q. py_filter_policy (BlockBasedTableFactory_set_info_log log t) = Some (GenericFilterPolicy q) \<and>
     gf_ob q = gf_ob p \<and> fp_info_log (policy q) = log"
  using assms
  by (simp add: BlockBasedTableFactory_set_info_log_def PyGenericFilterPolicy_set_info_log_def
      FilterPolicyWrapper_set_info_log_def)

definition demo_arg_classes :: arg_classes where
  "demo_arg_classes =
     \<lparr>class_eq = (\<lambda>_ _. Inr False), cache_of = (\<lambda>v. if v = PObj 2 then Some (LRUCache 20) else None),
      filter_policy_of = (\<lambda>v. if v = PObj 3 then Some BaseFilterPolicy else None),
      user_of = (\<lambda>_. answering (\<lambda>_ _. Inr (PBytes [1])))\<rparr>"

definition demo_table_lib :: "int table_lib" where
  "demo_table_lib =
     \<lparr>default_block_table = \<lparr>cache_index_and_filter_blocks = False, bt_index_type = kBinarySearch,
        hash_index_allow_collision = True, bt_checksum = kCRC32c, no_block_cache = False,
        bt_block_size = 4096, block_size_deviation = 10, block_restart_interval = 16,
        whole_key_filtering = True, block_cache = None, block_cache_compressed = None,
        bt_filter_policy = None\<rparr>,
      default_plain_table = \<lparr>user_key_len = 0, bloom_bits_per_key = 10, hash_table_ratio = 0,
        index_sparseness = 16, huge_page_tlb_size = 0, pt_encoding_type = kPlain,
        full_scan_mode = False\<rparr>,
      NewBlockBasedTableFactory = (\<lambda>o'. Inr (nat (bt_block_size o'))),
      NewPlainTableFactory = (\<lambda>_. Inr 7)\<rparr>"

lemma demo_block_call:
  "BlockBasedTableFactory_call plain_env demo_arg_classes demo_table_lib [PStr ''hash_search'']
     [(''block_size'', PInt 8192), (''block_cache'', PObj 2)] \<lparr>py_filter_policy = None, tf_factory = None\<rparr> =
   (Inr (), \<lparr>py_filter_policy = None, tf_factory = Some 8192\<rparr>)"
  by (simp add: BlockBasedTableFactory_call_def BlockBasedTableFactory_args_def wrapped_def unpack_arguments_def
      BlockBasedTableFactory_signature_def arg_type_test_def is_cache_def demo_arg_classes_def
      BlockBasedTableFactory_init_def block_table_options_of_def demo_table_lib_def
      index_type_of_def checksum_of_def str_equal_def unless_None_def filter_policy_arg_def
      cache_pointer_def slot_size_t.as_valid in_range_def ctype_defs numeral_eq_Suc)

theorem block_factory_call_witness:
  "valid_block_table (default_block_table demo_table_lib) \<and>
   (\<exists>opts f. valid_block_table opts \<and> NewBlockBasedTableFactory demo_table_lib opts = Inr f \<and> f = 8192)"
proof -
  have valid: "valid_block_table (default_block_table demo_table_lib)"
    by (simp add: valid_block_table_def demo_table_lib_def in_range_def ctype_defs)
  then show ?thesis
    using block_factory_call [OF valid demo_block_call] by auto
qed

end
