(* ===== verification/Backup.thy ===== *)
theory Backup
  imports Factories
begin

section \<open>Backups and offline operations\<close>

text \<open>
  \<open>BackupEngine\<close> of \<open>rocksdb/_rocksdb.cpp\<close> and the module functions \<open>repair_db\<close> and
  \<open>list_column_families\<close>. RocksDB's backup engine is a parameter that acts on a state \<open>'s\<close> (the
  backups and the file system); every method converts its arguments, calls the engine without the
  GIL and turns the status into an exception.
\<close>

record backup_info =
  backup_id :: int
  backup_timestamp :: int
  backup_size :: int

record ('s, 'o) backup_lib =
  BackupEngine_Open :: "bytes \<Rightarrow> 's \<Rightarrow> (status \<times> nat option) \<times> 's"
  delete_engine :: "nat \<Rightarrow> 's \<Rightarrow> 's"
  CreateNewBackup :: "nat \<Rightarrow> nat option \<Rightarrow> bool \<Rightarrow> 's \<Rightarrow> (cpp_exn + status) \<times> 's"
  RestoreDBFromBackup :: "nat \<Rightarrow> int \<Rightarrow> bytes \<Rightarrow> bytes \<Rightarrow> 's \<Rightarrow> (cpp_exn + status) \<times> 's"
  RestoreDBFromLatestBackup :: "nat \<Rightarrow> bytes \<Rightarrow> bytes \<Rightarrow> 's \<Rightarrow> (cpp_exn + status) \<times> 's"
  StopBackup :: "nat \<Rightarrow> 's \<Rightarrow> (cpp_exn + unit) \<times> 's"
  PurgeOldBackups :: "nat \<Rightarrow> int \<Rightarrow> 's \<Rightarrow> (cpp_exn + status) \<times> 's"
  DeleteBackup :: "nat \<Rightarrow> int \<Rightarrow> 's \<Rightarrow> (cpp_exn + status) \<times> 's"
  GetBackupInfo :: "nat \<Rightarrow> 's \<Rightarrow> (cpp_exn + backup_info list) \<times> 's"
  RepairDB :: "bytes \<Rightarrow> 'o \<Rightarrow> 's \<Rightarrow> status \<times> 's"
  ListColumnFamilies :: "'o \<Rightarrow> bytes \<Rightarrow> 's \<Rightarrow> (cpp_exn + status \<times> bytes list) \<times> 's"

text \<open>\<open>st = engine.method(...)\<close> followed by \<open>check_status(st)\<close>.\<close>

definition checked :: "('s \<Rightarrow> (cpp_exn + status) \<times> 's) \<Rightarrow> ('s, unit) py" where
  "checked f = bind_py (cpp_py f) (\<lambda>st. lift_py (check_status st))"

definition dealloc_engine :: "('s, 'o) backup_lib \<Rightarrow> nat option \<Rightarrow> 's \<Rightarrow> 's" where
  "dealloc_engine L engine s = (case engine of None \<Rightarrow> s | Some p \<Rightarrow> delete_engine L p s)"

text \<open>
  The constructor: when the status is an error the object is destroyed again, and with it what
  \<open>Open\<close> may have stored in \<open>engine\<close>.
\<close>

definition BackupEngine_cinit :: "pyenv \<Rightarrow> ('s, 'o) backup_lib \<Rightarrow> pyobj \<Rightarrow> ('s, nat option) py" where
  "BackupEngine_cinit E L backup_dir =
     bind_py (lift_py (path_to_string E backup_dir)) (\<lambda>c_backup_dir s.
       (case BackupEngine_Open L c_backup_dir s of
          ((st, engine), s') \<Rightarrow>
            (case check_status st of
               Inl e \<Rightarrow> (Inl e, dealloc_engine L engine s')
             | Inr _ \<Rightarrow> (Inr engine, s'))))"

text \<open>
  \<open>db\<close> is the pointer of the \<open>DB\<close> object; whether it is null is not checked.
\<close>

definition create_backup ::
    "pyenv \<Rightarrow> ('s, 'o) backup_lib \<Rightarrow> nat \<Rightarrow> nat option \<Rightarrow> pyobj \<Rightarrow> ('s, unit) py" where
  "create_backup E L engine db flush_before_backup =
     bind_py (lift_py (PyObject_IsTrue E flush_before_backup)) (\<lambda>c_flush.
       checked (CreateNewBackup L engine db c_flush))"

definition restore_backup ::
    "pyenv \<Rightarrow> ('s, 'o) backup_lib \<Rightarrow> nat \<Rightarrow> pyobj \<Rightarrow> pyobj \<Rightarrow> pyobj \<Rightarrow> ('s, unit) py" where
  "restore_backup E L engine b_id db_dir wal_dir =
     bind_py (lift_py (PyInt_As_uint32_t E b_id)) (\<lambda>c_backup_id.
     bind_py (lift_py (path_to_string E db_dir)) (\<lambda>c_db_dir.
     bind_py (lift_py (path_to_string E wal_dir)) (\<lambda>c_wal_dir.
       checked (RestoreDBFromBackup L engine c_backup_id c_db_dir c_wal_dir))))"

definition restore_latest_backup ::
    "pyenv \<Rightarrow> ('s, 'o) backup_lib \<Rightarrow> nat \<Rightarrow> pyobj \<Rightarrow> pyobj \<Rightarrow> ('s, unit) py" where
  "restore_latest_backup E L engine db_dir wal_dir =
     bind_py (lift_py (path_to_string E db_dir)) (\<lambda>c_db_dir.
     bind_py (lift_py (path_to_string E wal_dir)) (\<lambda>c_wal_dir.
       checked (RestoreDBFromLatestBackup L engine c_db_dir c_wal_dir)))"

definition stop_backup :: "('s, 'o) backup_lib \<Rightarrow> nat \<Rightarrow> ('s, unit) py" where
  "stop_backup L engine = cpp_py (StopBackup L engine)"

definition purge_old_backups :: "pyenv \<Rightarrow> ('s, 'o) backup_lib \<Rightarrow> nat \<Rightarrow> pyobj \<Rightarrow> ('s, unit) py" where
  "purge_old_backups E L engine num_backups_to_keep =
     bind_py (lift_py (PyInt_As_uint32_t E num_backups_to_keep)) (\<lambda>n.
       checked (PurgeOldBackups L engine n))"

definition delete_backup :: "pyenv \<Rightarrow> ('s, 'o) backup_lib \<Rightarrow> nat \<Rightarrow> pyobj \<Rightarrow> ('s, unit) py" where
  "delete_backup E L engine b_id =
     bind_py (lift_py (PyInt_As_uint32_t E b_id)) (\<lambda>n. checked (DeleteBackup L engine n))"

definition info_dict :: "backup_info \<Rightarrow> pyobj" where
  "info_dict ob = PDict
     [(PStr ''backup_id'', PyInt_From_uint32_t (backup_id ob)),
      (PStr ''timestamp'', PyInt_From_int64_t (backup_timestamp ob)),
      (PStr ''size'', PyInt_From_uint64_t (backup_size ob))]"

definition get_backup_info :: "('s, 'o) backup_lib \<Rightarrow> nat \<Rightarrow> ('s, pyobj) py" where
  "get_backup_info L engine =
     bind_py (cpp_py (GetBackupInfo L engine)) (\<lambda>infos. ret_py (PList (map info_dict infos)))"

subsection \<open>Without a database\<close>

definition repair_db :: "pyenv \<Rightarrow> ('s, 'o) backup_lib \<Rightarrow> pyobj \<Rightarrow> 'o \<Rightarrow> ('s, unit) py" where
  "repair_db E L db_name opts =
     bind_py (lift_py (path_to_string E db_name)) (\<lambda>db_path s.
       (case RepairDB L db_path opts s of (st, s') \<Rightarrow> (check_status st, s')))"

definition list_column_families :: "pyenv \<Rightarrow> ('s, 'o) backup_lib \<Rightarrow> pyobj \<Rightarrow> 'o \<Rightarrow> ('s, pyobj) py" where
  "list_column_families E L db_name opts =
     bind_py (lift_py (path_to_string E db_name)) (\<lambda>db_path.
     bind_py (cpp_py (ListColumnFamilies L opts db_path)) (\<lambda>(st, column_families).
     bind_py (lift_py (check_status st)) (\<lambda>_.
       ret_py (convert_vector_to_py_string column_families))))"

subsection \<open>Sequences of calls\<close>

text \<open>The calls of a client on one engine, and what they are in terms of RocksDB.\<close>

datatype backup_call =
    Create "nat option" pyobj
  | Restore pyobj pyobj pyobj
  | RestoreLatest pyobj pyobj
  | Stop
  | Purge pyobj
  | Delete pyobj

fun do_backup_call :: "pyenv \<Rightarrow> ('s, 'o) backup_lib \<Rightarrow> nat \<Rightarrow> backup_call \<Rightarrow> ('s, unit) py" where
  "do_backup_call E L p (Create db v) = create_backup E L p db v"
| "do_backup_call E L p (Restore v d w) = restore_backup E L p v d w"
| "do_backup_call E L p (RestoreLatest d w) = restore_latest_backup E L p d w"
| "do_backup_call E L p Stop = stop_backup L p"
| "do_backup_call E L p (Purge v) = purge_old_backups E L p v"
| "do_backup_call E L p (Delete v) = delete_backup E L p v"

text \<open>A client that goes on after an exception.\<close>

fun run_backup_calls ::
    "pyenv \<Rightarrow> ('s, 'o) backup_lib \<Rightarrow> nat \<Rightarrow> backup_call list \<Rightarrow> 's \<Rightarrow> (pyexn + unit) list \<times> 's" where
  "run_backup_calls E L p [] s = ([], s)"
| "run_backup_calls E L p (c # cs) s =
     (case do_backup_call E L p c s of (r, s') \<Rightarrow>
        (case run_backup_calls E L p cs s' of (rs, s'') \<Rightarrow> (r # rs, s'')))"

subsection \<open>Properties\<close>

lemma checked_result:
  "checked f s = (case f s of
     (Inl x, s') \<Rightarrow> (Inl (CppExn2PyErr None x), s') | (Inr st, s') \<Rightarrow> (check_status st, s'))"
  by (simp add: checked_def bind_py_def cpp_py_def catch_cpp_def split: prod.split sum.split)

text \<open>Numbers that are no unsigned 32-bit values never reach RocksDB.\<close>

lemma backup_numbers_checked:
  assumes "\<not> in_range c_uint32_t n"
  shows "\<exists>m. purge_old_backups E L p (PInt n) s = (Inl (Exn OverflowError m), s)"
    and "\<exists>m. delete_backup E L p (PInt n) s = (Inl (Exn OverflowError m), s)"
    and "\<exists>m. restore_backup E L p (PInt n) d w s = (Inl (Exn OverflowError m), s)"
proof -
  obtain msg where "PyInt_As_uint32_t E (PInt n) = Inl (Exn OverflowError (Text msg))"
    using slot_uint32.as_invalid [OF assms] by blast
  then show "\<exists>m. purge_old_backups E L p (PInt n) s = (Inl (Exn OverflowError m), s)"
    and "\<exists>m. delete_backup E L p (PInt n) s = (Inl (Exn OverflowError m), s)"
    and "\<exists>m. restore_backup E L p (PInt n) d w s = (Inl (Exn OverflowError m), s)"
    by (simp_all add: purge_old_backups_def delete_backup_def restore_backup_def)
qed

lemma failed_open_deletes_engine:
  assumes "path_to_string E dir = Inr d" "BackupEngine_Open L d s = ((st, Some p), s')"
    and "check_status st = Inl e"
  shows "BackupEngine_cinit E L dir s = (Inl e, delete_engine L p s')"
  using assms by (simp add: BackupEngine_cinit_def bind_py_def dealloc_engine_def)

lemma backup_info_readable:
  assumes "\<forall>b \<in> set infos. in_range c_uint32_t (backup_id b)"
    and "GetBackupInfo L p s = (Inr infos, s')"
  shows "get_backup_info L p s =
      (Inr (PList (map (\<lambda>b. PDict [(PStr ''backup_id'', PInt (backup_id b)),
         (PStr ''timestamp'', PyInt_From_int64_t (backup_timestamp b)),
         (PStr ''size'', PyInt_From_uint64_t (backup_size b))]) infos)), s')"
  using assms
  by (simp add: get_backup_info_def bind_py_def cpp_py_def info_dict_def slot_uint32.from_valid)

end
