(* ===== verification/Pickle.thy ===== *)
theory Pickle
  imports ArgParse IntConv
begin

section \<open>Pickling\<close>

text \<open>
  The pickling support Cython generates: the five classes of \<open>rocksdb/_rocksdb.cpp\<close> without C
  state of their own (\<open>PyComparator\<close>, \<open>PyFilterPolicy\<close>, \<open>PyCache\<close>, \<open>CompressionType\<close>,
  \<open>CompactionPri\<close>) reduce to a call of their \<open>__pyx_unpickle_\<close> function, every other class
  refuses. What an instance carries is its type and, if the type is a Python subclass, a
  \<open>__dict__\<close>; the type object says whether its instances have one.
\<close>

type_synonym dict = "(pyobj \<times> pyobj) list"

record py_instance =
  inst_type :: nat
  inst_dict :: "dict option"

datatype unpickler =
    unpickle_PyComparator | unpickle_PyFilterPolicy | unpickle_PyCache | unpickle_CompressionType
  | unpickle_CompactionPri


text \<open>
  Of the interpreter: \<open>new\<close> is \<open>C.__new__(type)\<close> for the extension class \<open>C\<close> of an unpickler (it raises
  for anything but a subtype of \<open>C\<close>; a type object is its number as a \<open>PObj\<close>), and \<open>update_from\<close> is \<open>dict.update\<close> with an argument that is not a dictionary.
\<close>

record pickle_env =
  new :: "unpickler \<Rightarrow> pyobj \<Rightarrow> pyexn + py_instance"
  update_from :: "dict \<Rightarrow> pyobj \<Rightarrow> pyexn + dict"

definition checksum :: int where
  "checksum = 0xd41d8cd"

subsection \<open>Reduction\<close>







text \<open>The classes with C state of their own, for both methods.\<close>

definition no_default_reduce :: "pyexn + 'a" where
  "no_default_reduce =
     Inl (Exn TypeError (Text ''no default __reduce__ due to non-trivial __cinit__''))"

subsection \<open>Restoring the state\<close>

definition dict_set :: "pyobj \<Rightarrow> pyobj \<Rightarrow> dict \<Rightarrow> dict" where
  "dict_set k v d =
     (if k \<in> fst ` set d then map (\<lambda>(k', v'). (k', if k' = k then v else v')) d else d @ [(k, v)])"

fun dict_update :: "dict \<Rightarrow> dict \<Rightarrow> dict" where
  "dict_update d [] = d"
| "dict_update d ((k, v) # kvs) = dict_update (dict_set k v d) kvs"

text \<open>\<open>dict.update\<close> with one argument.\<close>

definition update :: "pickle_env \<Rightarrow> dict \<Rightarrow> pyobj \<Rightarrow> pyexn + dict" where
  "update P d x = (case x of PDict kvs \<Rightarrow> Inr (dict_update d kvs) | _ \<Rightarrow> update_from P d x)"

text \<open>\<open>__set_state\<close>: its parameter is a tuple or \<open>None\<close>.\<close>

definition set_state :: "pickle_env \<Rightarrow> py_instance \<Rightarrow> pyobj list option \<Rightarrow> pyexn + py_instance" where
  "set_state P result state =
     (case state of
        None \<Rightarrow> Inl (Exn TypeError (Text ''object of type NoneType has no len()''))
      | Some st \<Rightarrow>
          (if length st > 0
           then (case inst_dict result of
                   None \<Rightarrow> Inr result
                 | Some d \<Rightarrow> bind_res (update P d (st ! 0)) (\<lambda>d'. Inr (result\<lparr>inst_dict := Some d'\<rparr>)))
           else Inr result))"

definition tuple_or_None :: "pyobj \<Rightarrow> pyexn + pyobj list option" where
  "tuple_or_None x =
     (case x of
        PTuple xs \<Rightarrow> Inr (Some xs)
      | PNone \<Rightarrow> Inr None
      | _ \<Rightarrow> Inl (Exn TypeError (Fmt ''Expected tuple, got %.200s'' [x])))"

text \<open>One copy of the function for each class.\<close>

definition unpickle_PyComparator_set_state :: "pickle_env \<Rightarrow> py_instance \<Rightarrow> pyobj list option \<Rightarrow> pyexn + py_instance" where
  "unpickle_PyComparator_set_state = set_state"

definition unpickle_PyFilterPolicy_set_state :: "pickle_env \<Rightarrow> py_instance \<Rightarrow> pyobj list option \<Rightarrow> pyexn + py_instance" where
  "unpickle_PyFilterPolicy_set_state = set_state"

definition unpickle_PyCache_set_state :: "pickle_env \<Rightarrow> py_instance \<Rightarrow> pyobj list option \<Rightarrow> pyexn + py_instance" where
  "unpickle_PyCache_set_state = set_state"

definition unpickle_CompressionType_set_state :: "pickle_env \<Rightarrow> py_instance \<Rightarrow> pyobj list option \<Rightarrow> pyexn + py_instance" where
  "unpickle_CompressionType_set_state = set_state"

definition unpickle_CompactionPri_set_state :: "pickle_env \<Rightarrow> py_instance \<Rightarrow> pyobj list option \<Rightarrow> pyexn + py_instance" where
  "unpickle_CompactionPri_set_state = set_state"

fun class_set_state ::
    "unpickler \<Rightarrow> pickle_env \<Rightarrow> py_instance \<Rightarrow> pyobj list option \<Rightarrow> pyexn + py_instance" where
  "class_set_state unpickle_PyComparator = unpickle_PyComparator_set_state"
| "class_set_state unpickle_PyFilterPolicy = unpickle_PyFilterPolicy_set_state"
| "class_set_state unpickle_PyCache = unpickle_PyCache_set_state"
| "class_set_state unpickle_CompressionType = unpickle_CompressionType_set_state"
| "class_set_state unpickle_CompactionPri = unpickle_CompactionPri_set_state"








subsection \<open>The unpickling functions\<close>

text \<open>
  \<open>PickleError\<close> is a class of the module \<open>pickle\<close>, the first user class here; the checksum is
  converted to a \<open>long\<close> by the wrapper.
\<close>

definition PickleError :: exn_class where
  "PickleError = UserExn 0"

definition unpickle :: "unpickler \<Rightarrow> pickle_env \<Rightarrow> pyobj \<Rightarrow> int \<Rightarrow> pyobj \<Rightarrow> pyexn + py_instance" where
  "unpickle fn P type cs state =
     (if cs \<noteq> checksum
      then Inl (Exn PickleError (Fmt ''Incompatible checksums (%s vs 0xd41d8cd = ())'' [PyInt_From_long cs]))
      else bind_res (new P fn type) (\<lambda>result.
             if state \<noteq> PNone
             then bind_res (tuple_or_None state) (class_set_state fn P result)
             else Inr result))"
















subsection \<open>Properties\<close>

lemma dict_set_fresh: "k \<notin> fst ` set d \<Longrightarrow> dict_set k v d = d @ [(k, v)]"
  by (simp add: dict_set_def)


lemma map_of_replace:
  "map_of (map (\<lambda>(a, b). (a, if a = k' then v else b)) d) k =
     (if k = k' \<and> k' \<in> fst ` set d then Some v else map_of d k)"
proof (induction d)
  case (Cons e d)
  obtain a b where e: "e = (a, b)" by (cases e)
  show ?case
    by (cases "a = k'"; cases "a = k") (simp_all add: e Cons.IH)
qed simp

lemma dict_set_lookup: "map_of (dict_set k' v d) k = (if k = k' then Some v else map_of d k)"
proof (cases "k' \<in> fst ` set d")
  case True
  then have "dict_set k' v d = map (\<lambda>(a, b). (a, if a = k' then v else b)) d"
    by (simp add: dict_set_def)
  then show ?thesis by (simp only: map_of_replace True simp_thms)
next
  case False
  then have "map_of d k' = None" by (simp add: map_of_eq_None_iff)
  then show ?thesis using False
    by (cases "k = k'") (simp_all add: dict_set_fresh map_add_def split: option.split)
qed

lemma dict_update_lookup:
  "map_of (dict_update d kvs) k =
     (case map_of (rev kvs) k of Some v \<Rightarrow> Some v | None \<Rightarrow> map_of d k)"
proof (induction kvs arbitrary: d)
  case (Cons kv kvs)
  obtain k' v' where kv: "kv = (k', v')" by (cases kv)
  show ?case
    unfolding kv dict_update.simps Cons.IH dict_set_lookup
    by (cases "map_of (rev kvs) k") (simp_all add: map_add_def)
qed simp






lemma wrong_checksum_refused:
  "cs \<noteq> checksum \<Longrightarrow> \<exists>m. unpickle fn P ty cs st = Inl (Exn PickleError m)"
  by (simp add: unpickle_def)



end
