(* ===== verification/Wrappers.thy ===== *)
theory Wrappers
  imports Factories Pickle
begin

section \<open>The wrappers of the module\<close>



subsection \<open>What a wrapper does\<close>




subsection \<open>The parameter lists\<close>




































subsection \<open>Collecting keywords\<close>



subsection \<open>Unpacking with collected arguments\<close>




subsection \<open>Calls\<close>












end
