(* ===== verification/IntFormat.thy ===== *)
theory IntFormat
  imports IntConv ColumnFamily "HOL-Library.Signed_Division"
begin

section \<open>Formatting integers\<close>

text \<open>
  \<open>__Pyx_PyUnicode_From_int\<close> and \<open>__Pyx_PyUnicode_BuildFromAscii\<close> of \<open>rocksdb/_rocksdb.cpp\<close>, which
  format the identifier of a column family in its \<open>repr\<close>: digits are written backwards into a
  buffer of 14 characters, two at a time from a table of pairs, a leading zero is taken off again,
  and a sign and padding are put in front.
\<close>

definition DIGIT_PAIRS_10 :: string where
  "DIGIT_PAIRS_10 =
     ''00010203040506070809'' @ ''10111213141516171819'' @ ''20212223242526272829'' @
     ''30313233343536373839'' @ ''40414243444546474849'' @ ''50515253545556575859'' @
     ''60616263646566676869'' @ ''70717273747576777879'' @ ''80818283848586878889'' @
     ''90919293949596979899''"

definition DIGIT_PAIRS_8 :: string where
  "DIGIT_PAIRS_8 =
     ''0001020304050607'' @ ''1011121314151617'' @ ''2021222324252627'' @ ''3031323334353637'' @
     ''4041424344454647'' @ ''5051525354555657'' @ ''6061626364656667'' @ ''7071727374757677''"

definition DIGITS_HEX :: string where
  "DIGITS_HEX = ''0123456789abcdef'' @ ''0123456789ABCDEF''"

definition buffer_size :: nat where
  "buffer_size = 4 * 3 + 2"

text \<open>
  Writing in front of \<open>dpos\<close>: what the buffer holds from \<open>dpos\<close> on is a string, a write below the
  start of the buffer is \<open>None\<close>.
\<close>

definition write_front :: "string \<Rightarrow> string \<Rightarrow> string option" where
  "write_front s buf = (if length s + length buf \<le> buffer_size then Some (s @ buf) else None)"

definition pair_at :: "string \<Rightarrow> int \<Rightarrow> string" where
  "pair_at table k = [table ! (2 * nat k), table ! (2 * nat k + 1)]"

text \<open>
  One run of the body of the loop: the characters, the rest (C division truncates toward zero) and
  whether the last pair has a leading zero. For another format character nothing is written and
  nothing is divided.
\<close>

definition digit_step :: "string \<Rightarrow> char \<Rightarrow> int \<Rightarrow> bool \<Rightarrow> string \<times> int \<times> bool" where
  "digit_step hex_digits format_char remaining last_one_off =
     (if format_char = CHR ''o'' then
        (let digit_pos = \<bar>remaining smod 64\<bar>
         in (pair_at DIGIT_PAIRS_8 digit_pos, remaining sdiv 64, digit_pos < 8))
      else if format_char = CHR ''d'' then
        (let digit_pos = \<bar>remaining smod 100\<bar>
         in (pair_at DIGIT_PAIRS_10 digit_pos, remaining sdiv 100, digit_pos < 10))
      else if format_char = CHR ''x'' then
        ([hex_digits ! nat \<bar>remaining smod 16\<bar>], remaining sdiv 16, last_one_off)
      else ([], remaining, last_one_off))"

text \<open>The \<open>do ... while\<close> loop; \<open>None\<close> also when it does not end.\<close>

partial_function (option) digits_loop ::
    "string \<Rightarrow> char \<Rightarrow> int \<Rightarrow> bool \<Rightarrow> string \<Rightarrow> (string \<times> bool) option" where
  "digits_loop hex_digits format_char remaining last_one_off buf =
     (case digit_step hex_digits format_char remaining last_one_off of
        (s, remaining', last') \<Rightarrow>
          (case write_front s buf of
             None \<Rightarrow> None
           | Some buf' \<Rightarrow>
               if remaining' \<noteq> 0 then digits_loop hex_digits format_char remaining' last' buf'
               else Some (buf', last')))"

definition BuildFromAscii :: "int \<Rightarrow> string \<Rightarrow> int \<Rightarrow> bool \<Rightarrow> char \<Rightarrow> string" where
  "BuildFromAscii ulength chars clength prepend_sign padding_char =
     (let uoffset = ulength - clength
      in (if uoffset > 0
          then (if prepend_sign then CHR ''-'' # replicate (nat (uoffset - 1)) padding_char
                else replicate (nat uoffset) padding_char)
          else []) @ take (nat clength) chars)"

text \<open>What follows the loop: the sign, written into the buffer or left to the padding, and the width.\<close>

definition sign_in_buffer :: "int \<Rightarrow> int \<Rightarrow> char \<Rightarrow> int \<Rightarrow> bool" where
  "sign_in_buffer val width padding_char len \<longleftrightarrow>
     val \<le> -1 \<and> (padding_char = CHR '' '' \<or> width \<le> len + 1)"

definition finish_format :: "int \<Rightarrow> int \<Rightarrow> char \<Rightarrow> string \<Rightarrow> string option" where
  "finish_format val width padding_char dpos =
     (let add_sign = sign_in_buffer val width padding_char (int (length dpos));
          prepend_sign = (val \<le> -1 \<and> \<not> add_sign)
      in case (if add_sign then write_front ''-'' dpos else Some dpos) of
           None \<Rightarrow> None
         | Some dpos \<Rightarrow>
             (let len = int (length dpos);
                  ulength = max width (if prepend_sign then len + 1 else len)
              in Some (if ulength = 1 then [dpos ! 0]
                       else BuildFromAscii ulength dpos len prepend_sign padding_char)))"

definition PyUnicode_From_int :: "int \<Rightarrow> int \<Rightarrow> char \<Rightarrow> char \<Rightarrow> string option" where
  "PyUnicode_From_int val width padding_char format_char =
     (let hex_digits = (if format_char = CHR ''X'' then drop 16 DIGITS_HEX else DIGITS_HEX);
          format_char = (if format_char = CHR ''X'' then CHR ''x'' else format_char)
      in case digits_loop hex_digits format_char val False [] of
           None \<Rightarrow> None
         | Some (dpos, last_one_off) \<Rightarrow>
             finish_format val width padding_char (if last_one_off then tl dpos else dpos))"

subsection \<open>Reference\<close>

text \<open>The numeral of a natural number, one digit at a time, and the formatted integer.\<close>

fun numeral_in :: "string \<Rightarrow> nat \<Rightarrow> nat \<Rightarrow> string" where
  "numeral_in digits b n =
     (if n < b \<or> b < 2 then [digits ! n] else numeral_in digits b (n div b) @ [digits ! (n mod b)])"

declare numeral_in.simps [simp del]

definition format_base :: "char \<Rightarrow> nat" where
  "format_base c =
     (if c = CHR ''o'' then 8 else if c = CHR ''d'' then 10 else 16)"

definition format_digits :: "char \<Rightarrow> string" where
  "format_digits c = (if c = CHR ''X'' then ''0123456789ABCDEF'' else ''0123456789abcdef'')"

definition format_int :: "int \<Rightarrow> int \<Rightarrow> char \<Rightarrow> char \<Rightarrow> string" where
  "format_int val width pad c =
     (let body = numeral_in (format_digits c) (format_base c) (nat \<bar>val\<bar>);
          sign = (if val < 0 then ''-'' else '''');
          padding = replicate (nat width - length (sign @ body)) pad
      in if pad = CHR '' '' then padding @ sign @ body else sign @ padding @ body)"

subsection \<open>Division and digits\<close>

lemma smod_abs: "0 < k \<Longrightarrow> \<bar>r smod k\<bar> = \<bar>r\<bar> mod (k::int)"
  by (cases "r = 0") (simp_all add: signed_modulo_int_def abs_mult)

lemma sdiv_abs: "0 < k \<Longrightarrow> \<bar>r sdiv k\<bar> = \<bar>r\<bar> div (k::int)"
  by (cases "r = 0") (simp_all add: signed_divide_int_def abs_mult abs_of_nonneg pos_imp_zdiv_nonneg_iff)

lemma nat_smod: "0 < k \<Longrightarrow> nat \<bar>r smod int k\<bar> = nat \<bar>r\<bar> mod k"
  by (simp add: smod_abs nat_mod_distrib)

lemma smod_int: "0 < k \<Longrightarrow> \<bar>r smod int k\<bar> = int (nat \<bar>r\<bar> mod k)"
  by (simp add: smod_abs zmod_int)

lemma nat_sdiv: "0 < k \<Longrightarrow> nat \<bar>r sdiv int k\<bar> = nat \<bar>r\<bar> div k"
  by (simp add: sdiv_abs nat_div_distrib)

lemma sdiv_zero_iff: "0 < k \<Longrightarrow> r sdiv int k = 0 \<longleftrightarrow> nat \<bar>r\<bar> < k"
  using nat_sdiv [of k r] by (metis abs_eq_0 div_eq_0_iff nat_eq_iff2 nat_0_iff abs_le_zero_iff neq0_conv)

lemma small_numeral: "m < b \<Longrightarrow> numeral_in D b m = [D ! m]"
  by (subst numeral_in.simps) simp

lemma big_numeral: "2 \<le> b \<Longrightarrow> b \<le> m \<Longrightarrow> numeral_in D b m = numeral_in D b (m div b) @ [D ! (m mod b)]"
  by (subst numeral_in.simps) simp

lemma numeral_length:
  "2 \<le> b \<Longrightarrow> 0 < k \<Longrightarrow> m < b ^ k \<Longrightarrow> length (numeral_in D b m) \<le> k"
proof (induction k arbitrary: m)
  case (Suc k)
  show ?case
  proof (cases "m < b")
    case False
    then have "0 < k" using Suc.prems by (cases k) auto
    moreover have "m div b < b ^ k"
      using Suc.prems by (simp add: less_mult_imp_div_less mult.commute)
    ultimately show ?thesis using Suc False by (simp add: big_numeral)
  qed (simp add: small_numeral)
qed simp

lemma pairs_10: "\<forall>k \<in> set [0..<100]. pair_at DIGIT_PAIRS_10 (int k) =
    [''0123456789abcdef'' ! (k div 10), ''0123456789abcdef'' ! (k mod 10)]"
  by code_simp

lemma pairs_8: "\<forall>k \<in> set [0..<64]. pair_at DIGIT_PAIRS_8 (int k) =
    [''0123456789abcdef'' ! (k div 8), ''0123456789abcdef'' ! (k mod 8)]"
  by code_simp

subsection \<open>The loop\<close>

definition pair_step :: "string \<Rightarrow> char \<Rightarrow> nat \<Rightarrow> bool" where
  "pair_step D c b \<longleftrightarrow>
     2 \<le> b \<and> D ! 0 = CHR ''0'' \<and>
     (\<forall>hex r l. digit_step hex c r l =
        (let k = nat \<bar>r\<bar> mod (b * b) in
         ([D ! (k div b), D ! (k mod b)], r sdiv int (b * b), k < b)))"

lemma pair_step_o: "pair_step ''0123456789abcdef'' (CHR ''o'') 8"
proof -
  have r: "\<bar>r smod 64\<bar> = int (nat \<bar>r\<bar> mod 64)" for r :: int
    using smod_int [of 64 r] by simp
  have k: "nat \<bar>r\<bar> mod 64 \<in> set [0..<64]" for r :: int by simp
  show ?thesis
    unfolding pair_step_def digit_step_def r Let_def using bspec [OF pairs_8 k] by simp
qed

lemma pair_step_d: "pair_step ''0123456789abcdef'' (CHR ''d'') 10"
proof -
  have r: "\<bar>r smod 100\<bar> = int (nat \<bar>r\<bar> mod 100)" for r :: int
    using smod_int [of 100 r] by simp
  have k: "nat \<bar>r\<bar> mod 100 \<in> set [0..<100]" for r :: int by simp
  show ?thesis
    unfolding pair_step_def digit_step_def r Let_def using bspec [OF pairs_10 k] by simp
qed

text \<open>The numeral with an even number of digits, as the pairs give it.\<close>

definition paired :: "string \<Rightarrow> string" where
  "paired s = (if odd (length s) then CHR ''0'' # s else s)"

lemma paired_append: "even (length t) \<Longrightarrow> paired (s @ t) = paired s @ t"
  by (simp add: paired_def)

lemma numeral_two:
  assumes "2 \<le> b" "b * b \<le> m"
  shows "numeral_in D b m =
    numeral_in D b (m div (b * b)) @ [D ! (m mod (b * b) div b), D ! (m mod (b * b) mod b)]"
proof -
  have "b \<le> b * b" using assms(1) by simp
  then have "b \<le> m" using assms(2) by (rule order_trans)
  moreover have "b \<le> m div b" using assms by (simp add: less_eq_div_iff_mult_less_eq)
  moreover have "m mod (b * b) div b = m div b mod b" "m mod (b * b) mod b = m mod b"
    using assms(1) by (simp_all add: mod_mult2_eq mod_mod_cancel div_add1_eq)
  ultimately show ?thesis using assms(1) by (simp add: big_numeral div_mult2_eq)
qed

lemma pair_loop:
  assumes "pair_step D c b" "length (paired (numeral_in D b (nat \<bar>r\<bar>))) + length buf \<le> buffer_size"
  shows "digits_loop hex c r l buf =
    Some (paired (numeral_in D b (nat \<bar>r\<bar>)) @ buf, odd (length (numeral_in D b (nat \<bar>r\<bar>))))"
  using assms(2)
proof (induction "nat \<bar>r\<bar>" arbitrary: r l buf rule: less_induct)
  case less
  let ?m = "nat \<bar>r\<bar>" and ?k = "nat \<bar>r\<bar> mod (b * b)"
  have b: "2 \<le> b" "D ! 0 = CHR ''0''" using assms(1) by (simp_all add: pair_step_def)
  have pos: "0 < b * b" using b by simp
  have step: "digit_step hex c r l = ([D ! (?k div b), D ! (?k mod b)], r sdiv int (b * b), ?k < b)"
    using assms(1) by (simp add: pair_step_def Let_def)
  show ?case
  proof (cases "?m < b * b")
    case True
    then have k: "?k = ?m" by simp
    have zero: "r sdiv int (b * b) = 0" using sdiv_zero_iff [OF pos] True by blast
    have "paired (numeral_in D b ?m) = [D ! (?m div b), D ! (?m mod b)] \<and>
        odd (length (numeral_in D b ?m)) = (?m < b)"
    proof (cases "?m < b")
      case False
      then have "?m div b < b" using True by (simp add: less_mult_imp_div_less)
      then show ?thesis using False b by (simp add: big_numeral small_numeral paired_def)
    qed (use b in \<open>simp add: small_numeral paired_def\<close>)
    then show ?thesis
      using less.prems by (subst digits_loop.simps) (simp add: step k zero [simplified] write_front_def)
  next
    case False
    let ?r = "r sdiv int (b * b)" and ?buf = "[D ! (?k div b), D ! (?k mod b)] @ buf"
    have m: "nat \<bar>?r\<bar> = ?m div (b * b)" by (rule nat_sdiv [OF pos])
    have two: "numeral_in D b ?m =
        numeral_in D b (nat \<bar>?r\<bar>) @ [D ! (?k div b), D ! (?k mod b)]"
      using numeral_two [OF b(1), of ?m D] False by (simp add: m [simplified])
    have "b \<le> b * b" using b by simp
    then have "1 < b * b" using b(1) by linarith
    moreover have "0 < ?m" using False pos by (meson not_less order_less_le_trans)
    ultimately have "nat \<bar>?r\<bar> < ?m" unfolding m by (intro div_less_dividend)
    then have "digits_loop hex c ?r (?k < b) ?buf =
        Some (paired (numeral_in D b (nat \<bar>?r\<bar>)) @ ?buf, odd (length (numeral_in D b (nat \<bar>?r\<bar>))))"
      using less.prems by (intro less.hyps) (simp_all add: two paired_append)
    moreover have "?r \<noteq> 0" using sdiv_zero_iff [OF pos] False by blast
    ultimately show ?thesis
      using less.prems by (subst digits_loop.simps) (simp add: step write_front_def two paired_append)
  qed
qed

lemma hex_loop:
  assumes "16 \<le> length hex"
    and "length (numeral_in hex 16 (nat \<bar>r\<bar>)) + length buf \<le> buffer_size"
  shows "digits_loop hex (CHR ''x'') r l buf = Some (numeral_in hex 16 (nat \<bar>r\<bar>) @ buf, l)"
  using assms(2)
proof (induction "nat \<bar>r\<bar>" arbitrary: r buf rule: less_induct)
  case less
  let ?m = "nat \<bar>r\<bar>"
  have step: "digit_step hex (CHR ''x'') r l = ([hex ! (?m mod 16)], r sdiv 16, l)"
    using nat_smod [of 16 r] by (simp add: digit_step_def)
  have zero: "r sdiv 16 = 0 \<longleftrightarrow> ?m < 16" using sdiv_zero_iff [of 16 r] by simp
  have m: "nat \<bar>r sdiv 16\<bar> = ?m div 16" using nat_sdiv [of 16 r] by simp
  show ?case
  proof (cases "?m < 16")
    case True
    then show ?thesis
      using less.prems zero
      by (subst digits_loop.simps) (simp add: step small_numeral write_front_def)
  next
    case False
    then have big: "numeral_in hex 16 ?m = numeral_in hex 16 (nat \<bar>r sdiv 16\<bar>) @ [hex ! (?m mod 16)]"
      by (simp add: big_numeral m)
    have "digits_loop hex (CHR ''x'') (r sdiv 16) l ([hex ! (?m mod 16)] @ buf) =
        Some (numeral_in hex 16 (nat \<bar>r sdiv 16\<bar>) @ [hex ! (?m mod 16)] @ buf, l)"
      using less.prems False by (intro less.hyps) (simp_all add: m big)
    then show ?thesis
      using less.prems zero False
      by (subst digits_loop.simps) (simp add: step write_front_def big)
  qed
qed

subsection \<open>Properties\<close>

lemma abs_int_bound: "in_range c_int v \<Longrightarrow> nat \<bar>v\<bar> \<le> 2 ^ 31"
  by (auto simp: in_range_def ctype_defs)

lemma numeral_room:
  assumes "in_range c_int v" "b \<in> {8, 10, 16}"
  shows "length (numeral_in D b (nat \<bar>v\<bar>)) \<le> (if b = 8 then 11 else if b = 10 then 10 else 8)"
  using assms abs_int_bound [OF assms(1)]
  by (auto intro: numeral_length)

lemma numeral_nonempty: "numeral_in D b m \<noteq> []"
  by (subst numeral_in.simps) simp

text \<open>The loop, with the leading zero taken off: it always ends and stays in the buffer.\<close>

lemma loop_result:
  assumes "in_range c_int val" "c \<in> {CHR ''o'', CHR ''d'', CHR ''x'', CHR ''X''}"
  shows "\<exists>dpos off. digits_loop (if c = CHR ''X'' then drop 16 DIGITS_HEX else DIGITS_HEX)
      (if c = CHR ''X'' then CHR ''x'' else c) val False [] = Some (dpos, off) \<and>
    (if off then tl dpos else dpos) = numeral_in (format_digits c) (format_base c) (nat \<bar>val\<bar>)"
proof -
  let ?n = "\<lambda>D b. numeral_in D b (nat \<bar>val\<bar>)"
  have pair: "\<exists>dpos off. digits_loop hex c val False [] = Some (dpos, off) \<and>
      (if off then tl dpos else dpos) = ?n D b"
    if "pair_step D c b" "b \<in> {8, 10}" for D b hex
  proof -
    have "length (paired (?n D b)) \<le> 12"
      using numeral_room [OF assms(1), of b D] that(2) by (auto simp: paired_def split: if_splits)
    then have "digits_loop hex c val False [] = Some (paired (?n D b) @ [], odd (length (?n D b)))"
      by (intro pair_loop [OF that(1)]) (simp add: buffer_size_def)
    then show ?thesis by (intro exI conjI) (auto simp: paired_def)
  qed
  have hex: "digits_loop hex (CHR ''x'') val False [] = Some (?n hex 16, False)"
    if "16 \<le> length hex" for hex
    using hex_loop [OF that, of val "[]" False] numeral_room [OF assms(1), of 16 hex]
    by (simp add: buffer_size_def)
  have lower: "?n DIGITS_HEX 16 = ?n ''0123456789abcdef'' 16"
  proof -
    have "\<forall>k \<in> set [0..<16]. DIGITS_HEX ! k = ''0123456789abcdef'' ! k"
      by code_simp
    then have "numeral_in DIGITS_HEX 16 m = numeral_in ''0123456789abcdef'' 16 m" for m
      by (induction m rule: less_induct) (subst (1 2) numeral_in.simps, auto)
    then show ?thesis .
  qed
  have upper: "drop 16 DIGITS_HEX = ''0123456789ABCDEF''" by (simp add: DIGITS_HEX_def)
  consider "c = CHR ''o''" | "c = CHR ''d''" | "c = CHR ''x''" | "c = CHR ''X''" using assms(2) by auto
  then show ?thesis
  proof cases
    case 1
    then show ?thesis using pair [of "''0123456789abcdef''" 8 DIGITS_HEX] pair_step_o
      by (simp add: format_base_def format_digits_def)
  next
    case 2
    then show ?thesis using pair [of "''0123456789abcdef''" 10 DIGITS_HEX] pair_step_d
      by (simp add: format_base_def format_digits_def)
  next
    case 3
    have "16 \<le> length DIGITS_HEX" by (simp add: DIGITS_HEX_def)
    with 3 show ?thesis using hex [of DIGITS_HEX] lower
      by (intro exI [of _ "?n DIGITS_HEX 16"] exI [of _ False])
        (simp add: format_base_def format_digits_def)
  next
    case 4
    then show ?thesis using hex [of "''0123456789ABCDEF''"] upper
      by (intro exI [of _ "?n ''0123456789ABCDEF'' 16"] exI [of _ False]) (simp add: format_base_def format_digits_def)
  qed
qed

lemma finish_spec:
  assumes "write_front ''-'' B = Some (''-'' @ B)" "B \<noteq> []"
  shows "finish_format val width pad B =
    Some (let sign = (if val < 0 then ''-'' else []);
              padding = replicate (nat width - length (sign @ B)) pad
          in if pad = CHR '' '' then padding @ sign @ B else sign @ padding @ B)"
proof -
  have one: "int (length B) = 1 \<Longrightarrow> [B ! 0] = B" using assms(2) by (cases B) auto
  have pos: "1 \<le> int (length B)" using assms(2) by (cases B) auto
  consider (plus) "\<not> val \<le> -1" | (inside) "val \<le> -1" "sign_in_buffer val width pad (int (length B))"
    | (outside) "val \<le> -1" "\<not> sign_in_buffer val width pad (int (length B))" by blast
  then show ?thesis
  proof cases
    case plus
    then show ?thesis
      using one pos
      by (auto simp: finish_format_def sign_in_buffer_def Let_def BuildFromAscii_def max_def
          nat_diff_distrib)
  next
    case inside
    then show ?thesis
      using assms(1) pos
      by (auto simp: finish_format_def Let_def BuildFromAscii_def max_def sign_in_buffer_def
          nat_diff_distrib)
  next
    case outside
    then show ?thesis
      using pos
      by (auto simp: finish_format_def Let_def BuildFromAscii_def max_def sign_in_buffer_def
          nat_diff_distrib)
  qed
qed

lemma loop_then_finish:
  assumes "in_range c_int val" "c \<in> {CHR ''o'', CHR ''d'', CHR ''x'', CHR ''X''}"
  shows "PyUnicode_From_int val width pad c = Some (format_int val width pad c)"
proof -
  let ?body = "numeral_in (format_digits c) (format_base c) (nat \<bar>val\<bar>)"
  obtain dpos off where loop: "digits_loop (if c = CHR ''X'' then drop 16 DIGITS_HEX else DIGITS_HEX)
      (if c = CHR ''X'' then CHR ''x'' else c) val False [] = Some (dpos, off)"
    and body: "(if off then tl dpos else dpos) = ?body"
    using loop_result [OF assms] by blast
  have "length ?body \<le> 11"
    using numeral_room [OF assms(1), of "format_base c" "format_digits c"]
    by (auto simp: format_base_def split: if_splits)
  then have sign: "write_front ''-'' ?body = Some (''-'' @ ?body)"
    by (simp add: write_front_def buffer_size_def)
  show ?thesis
    unfolding PyUnicode_From_int_def Let_def loop option.case prod.case body
    using finish_spec [OF sign numeral_nonempty] by (simp add: format_int_def Let_def)
qed

text \<open>
  C16. Formatting any C \<open>int\<close> in octal, decimal or hexadecimal, with any width and padding: the loop
  ends, nothing is written outside the 14 characters of the buffer, and the result is the numeral of
  the value, one digit at a time, with its sign and the padding in the right order.
\<close>

theorem int_format_returns:
  assumes "in_range c_int val" "c \<in> {CHR ''o'', CHR ''d'', CHR ''x'', CHR ''X''}"
  shows "PyUnicode_From_int val width pad c = Some (format_int val width pad c)"
  using assms by (rule loop_then_finish)

theorem int_format_returns_witness:
  "PyUnicode_From_int (- 2147483648) 0 (CHR '' '') (CHR ''d'') = Some ''-2147483648''"
proof -
  have "numeral_in ''0123456789abcdef'' 10 2147483648 = ''2147483648''"
    by (simp add: numeral_in.simps)
  then show ?thesis
    using int_format_returns [of "- 2147483648" "CHR ''d''" 0 "CHR '' ''"]
    by (simp add: in_range_def ctype_defs format_int_def format_base_def format_digits_def)
qed

subsection \<open>Joining texts\<close>

text \<open>
  \<open>__Pyx_PyUnicode_Join\<close>: the texts are copied one after the other into a new text whose length the
  caller has computed. A character that was never written is \<open>None\<close>; a copy beyond the end of the
  text makes the whole result \<open>None\<close>.
\<close>

definition memcpy_at :: "nat \<Rightarrow> 'c list \<Rightarrow> 'c option list \<Rightarrow> 'c option list option" where
  "memcpy_at pos s buf =
     (if pos + length s \<le> length buf
      then Some (take pos buf @ map Some s @ drop (pos + length s) buf) else None)"

fun join_loop :: "'c list list \<Rightarrow> nat \<Rightarrow> 'c option list \<Rightarrow> 'c option list option" where
  "join_loop [] char_pos result = Some result"
| "join_loop (uval # uvals) char_pos result =
     (if uval = [] then join_loop uvals char_pos result
      else case memcpy_at char_pos uval result of
             None \<Rightarrow> None
           | Some result' \<Rightarrow> join_loop uvals (char_pos + length uval) result')"

definition PyUnicode_Join :: "'c list list \<Rightarrow> nat \<Rightarrow> 'c option list option" where
  "PyUnicode_Join value_tuple result_ulength =
     join_loop value_tuple 0 (replicate result_ulength None)"

lemma join_loop_exact:
  "join_loop uvals (length done') (map Some done' @ replicate (length (concat uvals)) None) =
     Some (map Some (done' @ concat uvals))"
proof (induction uvals arbitrary: done')
  case (Cons u uvals)
  show ?case
  proof (cases "u = []")
    case False
    have "memcpy_at (length done') u (map Some done' @ replicate (length u + length (concat uvals)) None) =
        Some (map Some (done' @ u) @ replicate (length (concat uvals)) None)"
      by (simp add: memcpy_at_def)
    then show ?thesis using Cons.IH [of "done' @ u"] False by simp
  qed (use Cons.IH [of done'] in simp)
qed simp

lemma join_exact: "PyUnicode_Join parts (length (concat parts)) = Some (map Some (concat parts))"
  using join_loop_exact [of parts "[]"] by (simp add: PyUnicode_Join_def)

subsection \<open>The representation of a column family handle\<close>

text \<open>
  \<open>format_bytes\<close> is \<open>format(name)\<close> of a \<open>bytes\<close> object. The length of the result is added up along
  the way, with the lengths of the constant parts written out.
\<close>

definition ColumnFamilyHandle_repr ::
    "(bytes \<Rightarrow> string) \<Rightarrow> cf_store \<Rightarrow> cf_handle \<Rightarrow> char option list option" where
  "ColumnFamilyHandle_repr format_bytes S c =
     (let valid = (if is_valid S c then ''valid'' else ''invalid'');
          name = format_bytes (cf_name c)
      in case PyUnicode_From_int (cf_id c) 0 (CHR '' '') (CHR ''d'') of
           None \<Rightarrow> None
         | Some i \<Rightarrow>
             PyUnicode_Join
               [''<ColumnFamilyHandle name: '', name, '', id: '', i, '', state: '', valid, ''>'']
               (26 + length name + 6 + length i + 9 + length valid + 1))"

lemma repr_complete:
  assumes "in_range c_int (cf_id c)"
  shows "ColumnFamilyHandle_repr fmt S c = Some (map Some
    (''<ColumnFamilyHandle name: '' @ fmt (cf_name c) @ '', id: '' @
     format_int (cf_id c) 0 (CHR '' '') (CHR ''d'') @ '', state: '' @
     (if is_valid S c then ''valid'' else ''invalid'') @ ''>''))"
proof -
  let ?i = "format_int (cf_id c) 0 (CHR '' '') (CHR ''d'')"
  let ?v = "if is_valid S c then ''valid'' else ''invalid''"
  let ?parts = "[''<ColumnFamilyHandle name: '', fmt (cf_name c), '', id: '', ?i, '', state: '', ?v, ''>'']"
  have "PyUnicode_From_int (cf_id c) 0 (CHR '' '') (CHR ''d'') = Some ?i"
    by (rule loop_then_finish [OF assms]) simp
  moreover have "26 + length (fmt (cf_name c)) + 6 + length ?i + 9 + length ?v + 1 = length (concat ?parts)"
    by simp
  ultimately show ?thesis
    unfolding ColumnFamilyHandle_repr_def Let_def by (simp only: option.case join_exact) simp
qed

end
