(* ===== verification/CodeCache.thy ===== *)
theory CodeCache
  imports Prelude
begin

section \<open>The cache of traceback code objects\<close>

text \<open>
  \<open>__pyx_code_cache\<close> of \<open>rocksdb/_rocksdb.cpp\<close>: an array of (line, code object) pairs,
  sorted by line, that every \<open>__Pyx_AddTraceback\<close> on an error path consults. The array has
  \<open>max_count\<close> allocated slots of which the first \<open>count\<close> are in use; a slot that was never
  written is \<open>None\<close>. C \<open>int\<close>s are integers (line numbers and counts stay far below
  \<open>2 ^ 31\<close>). \<open>refs\<close> records the reference counts of code objects.
\<close>

record code_entry =
  code_line :: int
  code_object :: nat

record code_cache =
  count :: int
  max_count :: int
  entries :: "code_entry option list option"
  refs :: "nat \<Rightarrow> int"

definition empty_cache :: code_cache where
  "empty_cache = \<lparr>count = 0, max_count = 0, entries = None, refs = (\<lambda>_. 0)\<rparr>"

definition incref :: "nat \<Rightarrow> code_cache \<Rightarrow> code_cache" where
  "incref ob c = c\<lparr>refs := (refs c)(ob := refs c ob + 1)\<rparr>"

definition decref :: "nat \<Rightarrow> code_cache \<Rightarrow> code_cache" where
  "decref ob c = c\<lparr>refs := (refs c)(ob := refs c ob - 1)\<rparr>"

definition line_at :: "code_entry option list \<Rightarrow> int \<Rightarrow> int" where
  "line_at A i = (case A ! nat i of Some e \<Rightarrow> code_line e | None \<Rightarrow> 0)"

subsection \<open>Bisection\<close>

text \<open>The loop: \<open>Inl\<close> is the \<open>return mid\<close> inside it, \<open>Inr\<close> the value of \<open>mid\<close> at its exit.\<close>

function bisect_loop :: "code_entry option list \<Rightarrow> int \<Rightarrow> int \<Rightarrow> int \<Rightarrow> int \<Rightarrow> int + int" where
  "bisect_loop A line start fin mid =
     (if start < fin
      then (let m = start + (fin - start) div 2
            in if line < line_at A m then bisect_loop A line start m m
               else if line > line_at A m then bisect_loop A line (m + 1) fin m
               else Inl m)
      else Inr mid)"
  by pat_completeness auto
termination
  by (relation "measure (\<lambda>(A, line, start, fin, mid). nat (fin - start))") auto

declare bisect_loop.simps [simp del]

definition bisect_code_objects :: "code_entry option list \<Rightarrow> int \<Rightarrow> int \<Rightarrow> int" where
  "bisect_code_objects A n line =
     (if n - 1 \<ge> 0 \<and> line > line_at A (n - 1) then n
      else case bisect_loop A line 0 (n - 1) 0 of
             Inl m \<Rightarrow> m
           | Inr m \<Rightarrow> if line \<le> line_at A m then m else m + 1)"

subsection \<open>Lookup and insertion\<close>

definition find_code_object :: "int \<Rightarrow> code_cache \<Rightarrow> nat option \<times> code_cache" where
  "find_code_object line c =
     (if line = 0 then (None, c)
      else case entries c of
             None \<Rightarrow> (None, c)
           | Some A \<Rightarrow>
               (let pos = bisect_code_objects A (count c) line
                in if pos \<ge> count c \<or> line_at A pos \<noteq> line then (None, c)
                   else case A ! nat pos of
                          None \<Rightarrow> (None, c)
                        | Some e \<Rightarrow> (Some (code_object e), incref (code_object e) c)))"

text \<open>\<open>for (i = count; i > pos; i--) entries[i] = entries[i-1];\<close>\<close>

function shift_up :: "code_entry option list \<Rightarrow> int \<Rightarrow> int \<Rightarrow> code_entry option list" where
  "shift_up A i pos =
     (if i > pos \<and> 0 < i then shift_up (A[nat i := A ! nat (i - 1)]) (i - 1) pos else A)"
  by pat_completeness auto
termination
  by (relation "measure (\<lambda>(A, i, pos). nat i)") auto

declare shift_up.simps [simp del]

text \<open>
  \<open>malloc_ok\<close> and \<open>realloc_ok\<close> are the outcomes of \<open>PyMem_Malloc\<close> and
  \<open>PyMem_Realloc\<close>; a failed allocation leaves the cache as it is.
\<close>

definition insert_code_object ::
    "bool \<Rightarrow> bool \<Rightarrow> int \<Rightarrow> nat \<Rightarrow> code_cache \<Rightarrow> code_cache" where
  "insert_code_object malloc_ok realloc_ok line ob c =
     (if line = 0 then c
      else case entries c of
        None \<Rightarrow>
          if malloc_ok
          then incref ob (c\<lparr>entries := Some ((replicate 64 None)
                  [0 := Some \<lparr>code_line = line, code_object = ob\<rparr>]),
                max_count := 64, count := 1\<rparr>)
          else c
      | Some A \<Rightarrow>
          (let pos = bisect_code_objects A (count c) line
           in if pos < count c \<and> line_at A pos = line
              then (case A ! nat pos of
                      None \<Rightarrow> c
                    | Some e \<Rightarrow>
                        decref (code_object e)
                          (c\<lparr>entries := Some (A[nat pos := Some (e\<lparr>code_object := ob\<rparr>)])\<rparr>))
              else if count c = max_count c \<and> \<not> realloc_ok then c
              else (let A' = (if count c = max_count c then A @ replicate 64 None else A);
                        m' = (if count c = max_count c then max_count c + 64 else max_count c);
                        A'' = shift_up A' (count c) pos
                    in incref ob
                         (c\<lparr>entries := Some (A''[nat pos :=
                                Some \<lparr>code_line = line, code_object = ob\<rparr>]),
                             max_count := m', count := count c + 1\<rparr>))))"

text \<open>
  The part of \<open>__Pyx_AddTraceback\<close> that uses the cache: look the line up, create a code object
  and insert it when it is missing (\<open>fresh\<close>: the object \<open>PyCode_New\<close> makes, with one
  reference, or \<open>None\<close> when that fails), and drop the own reference at the end.
\<close>

definition add_traceback ::
    "bool \<Rightarrow> bool \<Rightarrow> int \<Rightarrow> int \<Rightarrow> nat option \<Rightarrow> code_cache \<Rightarrow> code_cache" where
  "add_traceback malloc_ok realloc_ok c_line py_line fresh c =
     (let key = (if c_line \<noteq> 0 then - c_line else py_line)
      in case find_code_object key c of
           (Some ob, c') \<Rightarrow> decref ob c'
         | (None, c') \<Rightarrow>
             (case fresh of
                None \<Rightarrow> c'
              | Some ob \<Rightarrow>
                  decref ob (insert_code_object malloc_ok realloc_ok key ob (incref ob c'))))"

subsection \<open>Invariant and abstraction\<close>

definition used :: "code_cache \<Rightarrow> code_entry list" where
  "used c = (case entries c of None \<Rightarrow> [] | Some A \<Rightarrow> map the (take (nat (count c)) A))"

definition cache_inv :: "code_cache \<Rightarrow> bool" where
  "cache_inv c \<longleftrightarrow>
     (case entries c of
        None \<Rightarrow> count c = 0
      | Some A \<Rightarrow> 0 < count c \<and> count c \<le> max_count c \<and> int (length A) = max_count c \<and>
          (\<forall>i < nat (count c). A ! i \<noteq> None)) \<and>
     sorted_wrt (<) (map code_line (used c)) \<and> 0 \<notin> set (map code_line (used c))"

definition cache_map :: "code_cache \<Rightarrow> int \<Rightarrow> nat option" where
  "cache_map c = map_of (map (\<lambda>e. (code_line e, code_object e)) (used c))"

subsection \<open>Bisection finds the insertion point\<close>

definition insertion_point :: "code_entry option list \<Rightarrow> int \<Rightarrow> int \<Rightarrow> int \<Rightarrow> bool" where
  "insertion_point A n line p \<longleftrightarrow>
     0 \<le> p \<and> p \<le> n \<and> (\<forall>i. 0 \<le> i \<and> i < p \<longrightarrow> line_at A i < line) \<and>
     (p < n \<longrightarrow> line \<le> line_at A p)"

lemma bisect_loop_point:
  assumes "\<And>i j. 0 \<le> i \<Longrightarrow> i < j \<Longrightarrow> j < n \<Longrightarrow> line_at A i < line_at A j"
    and "0 \<le> start" "start \<le> fin" "fin < n"
    and "\<And>i. 0 \<le> i \<Longrightarrow> i < start \<Longrightarrow> line_at A i < line"
    and "line \<le> line_at A fin"
    and "start < fin \<or> mid = fin \<or> mid = start - 1 \<and> line_at A mid < line"
  shows "insertion_point A n line
           (case bisect_loop A line start fin mid of
              Inl m \<Rightarrow> m | Inr m \<Rightarrow> if line \<le> line_at A m then m else m + 1)"
  using assms
proof (induction A line start fin mid rule: bisect_loop.induct)
  case (1 A line start fin mid)
  show ?case
  proof (cases "start < fin")
    case False
    then have "bisect_loop A line start fin mid = Inr mid"
      by (simp add: bisect_loop.simps [of A line start fin mid])
    moreover have "start = fin" using False "1.prems" by simp
    ultimately show ?thesis
      using "1.prems" by (auto simp: insertion_point_def)
  next
    case True
    define m where "m = start + (fin - start) div 2"
    have m: "start \<le> m" "m < fin" using True by (auto simp: m_def)
    note mono = "1.prems"(1)
    consider "line < line_at A m" | "line > line_at A m" | "line = line_at A m"
      by (rule linorder_cases)
    then show ?thesis
    proof cases
      case 1
      have "insertion_point A n line (case bisect_loop A line start m m of
              Inl m \<Rightarrow> m | Inr m \<Rightarrow> if line \<le> line_at A m then m else m + 1)"
        using True m 1 "1.prems" by (intro "1.IH"(1) [OF True m_def]) auto
      then show ?thesis
        using True 1 by (simp add: bisect_loop.simps [of A line start fin mid] m_def Let_def)
    next
      case 2
      have low: "line_at A i < line" if "0 \<le> i" "i < m + 1" for i
        using mono [of i m] that 2 m "1.prems"(4) by (cases "i = m") force+
      have notless: "\<not> line < line_at A m" using 2 by simp
      have "insertion_point A n line (case bisect_loop A line (m + 1) fin m of
              Inl m \<Rightarrow> m | Inr m \<Rightarrow> if line \<le> line_at A m then m else m + 1)"
        using True m 2 "1.prems" low
        by (intro "1.IH"(2) [OF True m_def notless 2]) auto
      then show ?thesis
        using True 2 by (simp add: bisect_loop.simps [of A line start fin mid] m_def Let_def)
    next
      case 3
      have "insertion_point A n line m"
        using mono [of _ m] m 3 "1.prems"(2-4) by (auto simp: insertion_point_def)
      moreover have "bisect_loop A line start fin mid = Inl m"
        unfolding bisect_loop.simps [of A line start fin mid] m_def [symmetric]
        using True 3 by (simp add: Let_def)
      ultimately show ?thesis by simp
    qed
  qed
qed

lemma bisect_point:
  assumes mono: "\<And>i j. 0 \<le> i \<Longrightarrow> i < j \<Longrightarrow> j < n \<Longrightarrow> line_at A i < line_at A j" and "0 < n"
  shows "insertion_point A n line (bisect_code_objects A n line)"
proof (cases "line > line_at A (n - 1)")
  case True
  have "line_at A i < line" if "0 \<le> i" "i < n" for i
    using mono [of i "n - 1"] that True by (cases "i = n - 1") auto
  then show ?thesis
    using True \<open>0 < n\<close> by (simp add: bisect_code_objects_def insertion_point_def)
next
  case False
  then have "insertion_point A n line (case bisect_loop A line 0 (n - 1) 0 of
              Inl m \<Rightarrow> m | Inr m \<Rightarrow> if line \<le> line_at A m then m else m + 1)"
    using \<open>0 < n\<close> mono by (intro bisect_loop_point) auto
  then show ?thesis using False by (simp add: bisect_code_objects_def)
qed

subsection \<open>The used part of the array\<close>

lemma in_set_drop_conv: "x \<in> set (drop m xs) \<longleftrightarrow> (\<exists>k. m + k < length xs \<and> x = xs ! (m + k))"
proof
  assume "x \<in> set (drop m xs)"
  then obtain k where "k < length xs - m" "x = drop m xs ! k"
    by (auto simp: in_set_conv_nth)
  then show "\<exists>k. m + k < length xs \<and> x = xs ! (m + k)" by (intro exI [of _ k]) auto
next
  assume "\<exists>k. m + k < length xs \<and> x = xs ! (m + k)"
  then obtain k where "m + k < length xs" "x = xs ! (m + k)" by auto
  then show "x \<in> set (drop m xs)"
    by (auto simp: in_set_conv_nth intro!: exI [of _ k])
qed

lemma inv_SomeD:
  assumes "cache_inv c" "entries c = Some A"
  shows "0 < count c" "count c \<le> max_count c" "int (length A) = max_count c"
    "length (used c) = nat (count c)"
    "\<And>i. 0 \<le> i \<Longrightarrow> i < count c \<Longrightarrow> A ! nat i = Some (used c ! nat i)"
    "\<And>i. 0 \<le> i \<Longrightarrow> i < count c \<Longrightarrow> line_at A i = code_line (used c ! nat i)"
proof -
  show b: "0 < count c" "count c \<le> max_count c" "int (length A) = max_count c"
    "length (used c) = nat (count c)"
    using assms by (auto simp: cache_inv_def used_def)
  show at: "A ! nat i = Some (used c ! nat i)" if "0 \<le> i" "i < count c" for i
  proof -
    have "A ! nat i \<noteq> None" using assms that by (auto simp: cache_inv_def)
    then show ?thesis using assms(2) that b by (auto simp: used_def)
  qed
  show "line_at A i = code_line (used c ! nat i)" if "0 \<le> i" "i < count c" for i
    using at [OF that] by (simp add: line_at_def)
qed

lemma inv_sorted:
  assumes "cache_inv c" "entries c = Some A" "0 \<le> i" "i < j" "j < count c"
  shows "line_at A i < line_at A j"
proof -
  have "sorted_wrt (<) (map code_line (used c))" using assms(1) by (simp add: cache_inv_def)
  then have "code_line (used c ! nat i) < code_line (used c ! nat j)"
    using inv_SomeD(4) [OF assms(1,2)] assms(3-5) by (auto simp: sorted_wrt_iff_nth_less)
  then show ?thesis using inv_SomeD(6) [OF assms(1,2)] assms(3-5) by simp
qed

lemma bisect_inv:
  assumes "cache_inv c" "entries c = Some A"
  fixes line :: int defines "p \<equiv> bisect_code_objects A (count c) line"
  shows "0 \<le> p" "p \<le> count c"
    "e \<in> set (take (nat p) (used c)) \<Longrightarrow> code_line e < line"
    "e \<in> set (drop (nat p) (used c)) \<Longrightarrow> line \<le> code_line e"
    "p < count c \<Longrightarrow> line \<le> line_at A p"
proof -
  note D = inv_SomeD [OF assms(1,2)]
  have pt: "insertion_point A (count c) line p"
    unfolding p_def using inv_sorted [OF assms(1,2)] D(1) by (rule bisect_point)
  then show p: "0 \<le> p" "p \<le> count c" and up: "p < count c \<Longrightarrow> line \<le> line_at A p"
    by (auto simp: insertion_point_def)
  show "code_line e < line" if "e \<in> set (take (nat p) (used c))"
  proof -
    from that obtain k where k: "k < nat p" "k < length (used c)" "e = used c ! k"
      by (auto simp: in_set_conv_nth)
    then have "line_at A (int k) < line" using pt by (auto simp: insertion_point_def)
    then show ?thesis using D(6) [of "int k"] k D(4) by simp
  qed
  show "line \<le> code_line e" if "e \<in> set (drop (nat p) (used c))"
  proof -
    from that obtain k where k: "nat p + k < length (used c)" "e = used c ! (nat p + k)"
      by (auto simp: in_set_drop_conv)
    then have lt: "p + int k < count c" "p < count c" using p D(4) by auto
    have "line \<le> line_at A (p + int k)"
      using up lt inv_sorted [OF assms(1,2), of p "p + int k"] p by (cases "k = 0") auto
    also have "\<dots> = code_line (used c ! nat (p + int k))" using D(6) lt p by simp
    also have "nat (p + int k) = nat p + k" using p by simp
    finally show ?thesis using k by simp
  qed
qed

lemma line_in_used_iff:
  assumes "cache_inv c" "entries c = Some A"
  fixes line :: int defines "p \<equiv> bisect_code_objects A (count c) line"
  shows "p < count c \<and> line_at A p = line \<longleftrightarrow> line \<in> code_line ` set (used c)"
proof
  note D = inv_SomeD [OF assms(1,2)]
  note B = bisect_inv [OF assms(1,2), where line = line, folded p_def]
  show "line \<in> code_line ` set (used c)" if "p < count c \<and> line_at A p = line"
    using that D(4,6) B(1) by (auto intro!: image_eqI [of _ _ "used c ! nat p"])
  assume "line \<in> code_line ` set (used c)"
  then obtain e where e: "e \<in> set (used c)" "code_line e = line" by auto
  then have "e \<in> set (take (nat p) (used c)) \<or> e \<in> set (drop (nat p) (used c))"
    by (metis UnE append_take_drop_id set_append)
  with B(3) e have "e \<in> set (drop (nat p) (used c))" by fastforce
  then obtain k where k: "nat p + k < length (used c)" "e = used c ! (nat p + k)"
    by (auto simp: in_set_drop_conv)
  then have lt: "p + int k < count c" "p < count c" using B(1) D(4) by auto
  have "line_at A (p + int k) = line"
    using D(6) [of "p + int k"] lt B(1) k e by (simp add: nat_add_distrib)
  then have "k = 0" using B(5) [OF lt(2)] inv_sorted [OF assms(1,2), of p "p + int k"] lt B(1)
    by (cases k) auto
  with \<open>line_at A (p + int k) = line\<close> lt show "p < count c \<and> line_at A p = line" by simp
qed

subsection \<open>Insertion into the array\<close>

lemma shift_up_length: "length (shift_up A i pos) = length A"
  by (induction A i pos rule: shift_up.induct) (simp add: shift_up.simps)

lemma shift_up_nth:
  assumes "0 \<le> pos" "nat n < length A" "k < length A"
  shows "shift_up A n pos ! k = (if pos < int k \<and> int k \<le> n then A ! (k - 1) else A ! k)"
  using assms
proof (induction A n pos rule: shift_up.induct)
  case (1 A i pos)
  show ?case
  proof (cases "pos < i \<and> 0 < i")
    case False
    then show ?thesis using "1.prems" by (auto simp: shift_up.simps [of A i pos])
  next
    case True
    let ?A = "A[nat i := A ! nat (i - 1)]"
    have IH: "shift_up ?A (i - 1) pos ! k =
        (if pos < int k \<and> int k \<le> i - 1 then ?A ! (k - 1) else ?A ! k)"
      using "1.prems" True by (intro "1.IH") auto
    have "nat (i - 1) = nat i - 1" using True by simp
    then show ?thesis
      using IH True "1.prems"
      by (auto simp: shift_up.simps [of A i pos] nth_list_update)
  qed
qed

lemma used_after_insert:
  assumes inv: "cache_inv c" "entries c = Some A"
    and p: "0 \<le> p" "p \<le> count c"
    and A': "length A' = nat m'" "count c < m'" "\<And>i. i < nat (count c) \<Longrightarrow> A' ! i = A ! i"
  shows "map the (take (nat (count c + 1)) ((shift_up A' (count c) p)[nat p := Some e])) =
           take (nat p) (used c) @ e # drop (nat p) (used c)"
    (is "?l = ?r")
proof (rule nth_equalityI)
  note D = inv_SomeD [OF inv]
  have len: "length (shift_up A' (count c) p) = nat m'" by (simp add: shift_up_length A')
  then show eq: "length ?l = length ?r" using D p A' by auto
  fix k assume "k < length ?l"
  then have k: "k < nat (count c + 1)" "k < nat m'" using len by auto
  have sh: "shift_up A' (count c) p ! k =
      (if p < int k \<and> int k \<le> count c then A' ! (k - 1) else A' ! k)"
    using p k A'(1,2) D(1) by (intro shift_up_nth) auto
  have at: "i < nat (count c) \<Longrightarrow> A' ! i = Some (used c ! i)" for i
    using D(5) [of "int i"] A'(3) by auto
  show "?l ! k = ?r ! k"
  proof (cases "k < nat p")
    case True
    then show ?thesis using k len sh at [of k] D p by (auto simp: nth_append)
  next
    case False
    then have "nat p \<le> k" by simp
    then consider "k = nat p" | "nat p < k" by linarith
    then show ?thesis
    proof cases
      case 1
      then show ?thesis using k len D p by (auto simp: nth_append)
    next
      case 2
      then have "?l ! k = the (A' ! (k - 1))" using k len sh p by auto
      also have "\<dots> = used c ! (k - 1)" using at [of "k - 1"] 2 k by auto
      also have "\<dots> = ?r ! k"
        using 2 k D(4) p by (auto simp: nth_append nth_Cons' min_def)
      finally show ?thesis .
    qed
  qed
qed

lemma sorted_insert_between:
  assumes "sorted_wrt (<) (map code_line es)"
    and "\<And>e. e \<in> set (take p es) \<Longrightarrow> code_line e < code_line x"
    and "\<And>e. e \<in> set (drop p es) \<Longrightarrow> code_line x < code_line e"
  shows "sorted_wrt (<) (map code_line (take p es @ x # drop p es))"
proof -
  have "sorted_wrt (<) (map code_line (take p es @ drop p es))" using assms(1) by simp
  then have "sorted_wrt (<) (map code_line (take p es))" "sorted_wrt (<) (map code_line (drop p es))"
    "\<forall>a \<in> set (take p es). \<forall>b \<in> set (drop p es). code_line a < code_line b"
    unfolding map_append sorted_wrt_append by auto
  with assms(2,3) show ?thesis by (auto simp: sorted_wrt_append)
qed

lemma map_of_insert_between:
  assumes "k \<notin> set (map fst (take p xs))"
  shows "map_of (take p xs @ (k, v) # drop p xs) = (map_of xs)(k \<mapsto> v)"
proof
  fix x
  have "map_of xs = map_of (take p xs @ drop p xs)" by simp
  also have "\<dots> = map_of (drop p xs) ++ map_of (take p xs)" by (rule map_of_append)
  finally have xs: "map_of xs = map_of (drop p xs) ++ map_of (take p xs)" .
  have none: "map_of (take p xs) k = None"
    using assms by (simp add: map_of_eq_None_iff)
  show "map_of (take p xs @ (k, v) # drop p xs) x = ((map_of xs)(k \<mapsto> v)) x"
    unfolding xs using none by (auto simp: map_add_def split: option.splits)
qed

lemma cache_map_insert_between:
  assumes "\<And>e. e \<in> set (take p es) \<Longrightarrow> code_line e < code_line x"
  shows "map_of (map (\<lambda>e. (code_line e, code_object e)) (take p es @ x # drop p es)) =
     (map_of (map (\<lambda>e. (code_line e, code_object e)) es))(code_line x \<mapsto> code_object x)"
proof -
  have "map_of (take p (map (\<lambda>e. (code_line e, code_object e)) es) @
      (code_line x, code_object x) # drop p (map (\<lambda>e. (code_line e, code_object e)) es)) =
     (map_of (map (\<lambda>e. (code_line e, code_object e)) es))(code_line x \<mapsto> code_object x)"
    using assms by (intro map_of_insert_between) (force simp: take_map)
  then show ?thesis by (simp add: take_map drop_map)
qed

lemma cache_map_replace:
  assumes "sorted_wrt (<) (map code_line es)" "p < length es" "code_line x = code_line (es ! p)"
  shows "map_of (map (\<lambda>e. (code_line e, code_object e)) (es[p := x])) =
     (map_of (map (\<lambda>e. (code_line e, code_object e)) es))(code_line x \<mapsto> code_object x)"
    and "map code_line (es[p := x]) = map code_line es"
proof -
  have es: "es[p := x] = take p es @ x # drop (Suc p) es" "es = take p es @ es ! p # drop (Suc p) es"
    using assms(2) by (auto simp: upd_conv_take_nth_drop id_take_nth_drop)
  have low: "code_line e < code_line x" if "e \<in> set (take p es)" for e
  proof -
    from that obtain k where "k < p" "e = es ! k" by (auto simp: in_set_conv_nth)
    then show ?thesis using assms by (auto simp: sorted_wrt_iff_nth_less)
  qed
  let ?f = "\<lambda>e. (code_line e, code_object e)"
  have none: "map_of (map ?f (take p es)) (code_line x) = None"
    using low by (fastforce simp: map_of_eq_None_iff)
  have "map_of (map ?f es) = map_of (map ?f (take p es @ es ! p # drop (Suc p) es))"
    using es(2) by simp
  then show "map_of (map ?f (es[p := x])) = (map_of (map ?f es))(code_line x \<mapsto> code_object x)"
    using none assms(3) unfolding es(1)
    by (auto simp: fun_eq_iff map_add_def split: option.splits)
  show "map code_line (es[p := x]) = map code_line es"
    unfolding map_update assms(3) nth_map [OF assms(2), symmetric] by (rule list_update_id)
qed

lemma used_Some: "entries c = Some A \<Longrightarrow> used c = map the (take (nat (count c)) A)"
  by (simp add: used_def)

lemma used_None: "entries c = None \<Longrightarrow> used c = []"
  by (simp add: used_def)

lemma used_refs [simp]: "used (incref ob c) = used c" "used (decref ob c) = used c"
  by (simp_all add: used_def incref_def decref_def split: option.splits)

lemma cache_inv_refs [simp]:
  "cache_inv (incref ob c) = cache_inv c" "cache_inv (decref ob c) = cache_inv c"
  by (auto simp: cache_inv_def incref_def decref_def used_def split: option.splits)

lemma cache_map_refs [simp]:
  "cache_map (incref ob c) = cache_map c" "cache_map (decref ob c) = cache_map c"
  by (simp_all add: cache_map_def)

lemma count_refs [simp]: "count (incref ob c) = count c" "count (decref ob c) = count c"
  "entries (incref ob c) = entries c" "entries (decref ob c) = entries c"
  "max_count (incref ob c) = max_count c" "max_count (decref ob c) = max_count c"
  by (simp_all add: incref_def decref_def)

lemma cache_map_None_iff: "cache_map c line = None \<longleftrightarrow> line \<notin> code_line ` set (used c)"
  by (force simp: cache_map_def map_of_eq_None_iff)

lemma cache_inv_empty: "cache_inv empty_cache"
  by (simp add: cache_inv_def empty_cache_def used_def)

lemma cache_inv_zero: "cache_inv c \<Longrightarrow> cache_map c 0 = None"
  by (simp add: cache_inv_def cache_map_None_iff)

lemma find_code_object_spec:
  assumes inv: "cache_inv c"
  shows "fst (find_code_object line c) = cache_map c line"
    and "snd (find_code_object line c) =
           (case cache_map c line of None \<Rightarrow> c | Some ob \<Rightarrow> incref ob c)"
proof -
  have "fst (find_code_object line c) = cache_map c line \<and>
        snd (find_code_object line c) =
           (case cache_map c line of None \<Rightarrow> c | Some ob \<Rightarrow> incref ob c)"
  proof (cases "line = 0 \<or> entries c = None")
    case True
    then have "cache_map c line = None"
      using cache_inv_zero [OF inv] by (auto simp: cache_map_def used_None)
    then show ?thesis using True by (auto simp: find_code_object_def)
  next
    case False
    then obtain A where A: "entries c = Some A" and nz: "line \<noteq> 0" by auto
    let ?p = "bisect_code_objects A (count c) line"
    note D = inv_SomeD [OF inv A]
    note iff = line_in_used_iff [OF inv A, of line]
    show ?thesis
    proof (cases "line \<in> code_line ` set (used c)")
      case True
      then have p: "?p < count c" "line_at A ?p = line" "0 \<le> ?p"
        using iff bisect_inv(1) [OF inv A, of line] by auto
      let ?e = "used c ! nat ?p"
      have at: "A ! nat ?p = Some ?e" "code_line ?e = line"
        using D(5,6) [of ?p] p by simp_all
      have "?e \<in> set (used c)" using p D(4) by (intro nth_mem) auto
      moreover have "distinct (map code_line (used c))"
        using inv by (auto simp: cache_inv_def strict_sorted_iff)
      ultimately have "cache_map c line = Some (code_object ?e)"
        using at(2) unfolding cache_map_def
        by (intro map_of_is_SomeI) (auto simp: comp_def image_iff intro!: bexI [of _ ?e])
      then show ?thesis using p at nz A by (simp add: find_code_object_def Let_def)
    next
      case notin: False
      then have "cache_map c line = None" by (simp add: cache_map_None_iff)
      moreover have "?p \<ge> count c \<or> line_at A ?p \<noteq> line" using iff notin by auto
      ultimately show ?thesis using nz A by (auto simp: find_code_object_def Let_def)
    qed
  qed
  then show "fst (find_code_object line c) = cache_map c line"
    "snd (find_code_object line c) =
           (case cache_map c line of None \<Rightarrow> c | Some ob \<Rightarrow> incref ob c)" by auto
qed

lemma update_Some_nth:
  "i < length A \<Longrightarrow> (i \<noteq> p \<Longrightarrow> A ! i \<noteq> None) \<Longrightarrow> A[p := Some e] ! i \<noteq> None"
  by (cases "i = p") auto

text \<open>What one insertion does to the used entries, on each branch that changes them.\<close>

lemma insert_first:
  assumes "cache_inv c" "entries c = None" "line \<noteq> 0"
  fixes r ob defines "c' \<equiv> insert_code_object True r line ob c"
  shows "used c' = [\<lparr>code_line = line, code_object = ob\<rparr>]" "cache_inv c'"
    "refs c' = (refs c)(ob := refs c ob + 1)"
proof -
  have c': "c' = incref ob (c\<lparr>entries := Some ((replicate 64 None)
                  [0 := Some \<lparr>code_line = line, code_object = ob\<rparr>]),
                max_count := 64, count := 1\<rparr>)"
    using assms(2,3) by (simp add: c'_def insert_code_object_def)
  show u: "used c' = [\<lparr>code_line = line, code_object = ob\<rparr>]"
    unfolding c' used_refs by (simp add: used_def take_Suc numeral_eq_Suc)
  show "cache_inv c'"
    using assms(3) u unfolding cache_inv_def by (simp add: c' nth_list_update)
  show "refs c' = (refs c)(ob := refs c ob + 1)" by (simp add: c' incref_def)
qed

lemma insert_new:
  assumes inv: "cache_inv c" "entries c = Some A" and "line \<noteq> 0"
    and new: "line \<notin> code_line ` set (used c)"
  fixes m ob defines "c' \<equiv> insert_code_object m True line ob c"
    and "p \<equiv> nat (bisect_code_objects A (count c) line)"
    and "e \<equiv> \<lparr>code_line = line, code_object = ob\<rparr>"
  shows "used c' = take p (used c) @ e # drop p (used c)" "cache_inv c'"
    "refs c' = (refs c)(ob := refs c ob + 1)"
proof -
  let ?p = "bisect_code_objects A (count c) line"
  note D = inv_SomeD [OF inv]
  note B = bisect_inv [OF inv, where line = line]
  define A' where "A' = (if count c = max_count c then A @ replicate 64 None else A)"
  define m' where "m' = (if count c = max_count c then max_count c + 64 else max_count c)"
  define A'' where "A'' = (shift_up A' (count c) ?p)[p := Some e]"
  have A': "length A' = nat m'" "count c < m'" "\<And>i. i < nat (count c) \<Longrightarrow> A' ! i = A ! i"
    using D by (auto simp: A'_def m'_def nth_append)
  have c': "c' = incref ob (c\<lparr>entries := Some A'', max_count := m', count := count c + 1\<rparr>)"
    using assms(2,3) new line_in_used_iff [OF inv, of line]
    by (auto simp: c'_def insert_code_object_def Let_def A'_def m'_def A''_def p_def e_def)
  have "used c' = map the (take (nat (count c + 1)) A'')"
    unfolding c' used_refs by (simp add: used_def)
  also have "\<dots> = take p (used c) @ e # drop p (used c)"
    using used_after_insert [OF inv B(1,2) A'] by (simp add: A''_def p_def)
  finally show u: "used c' = take p (used c) @ e # drop p (used c)" .
  have lenA'': "length A'' = nat m'" by (simp add: A''_def shift_up_length A')
  have some: "A'' ! i \<noteq> None" if "i < nat (count c + 1)" for i
  proof -
    have "(shift_up A' (count c) ?p) ! i =
        (if ?p < int i \<and> int i \<le> count c then A' ! (i - 1) else A' ! i)"
      using that B(1) A'(1,2) D(1) by (intro shift_up_nth) auto
    moreover have "k < nat (count c) \<Longrightarrow> A' ! k \<noteq> None" for k
      using D(5) [of "int k"] A'(3) by auto
    ultimately show ?thesis
      using that lenA'' B(1,2) D(1) A'(2) unfolding A''_def
      by (intro update_Some_nth) (auto simp: p_def)
  qed
  have low: "code_line x < code_line e" if "x \<in> set (take p (used c))" for x
    using B(3) that by (simp add: p_def e_def)
  have high: "code_line e < code_line x" if "x \<in> set (drop p (used c))" for x
    using B(4) [of x] that new in_set_dropD [OF that] by (fastforce simp: p_def e_def)
  have "sorted_wrt (<) (map code_line (used c'))"
    unfolding u using inv(1) low high by (intro sorted_insert_between) (auto simp: cache_inv_def)
  moreover have "0 \<notin> set (map code_line (used c'))"
    using inv(1) \<open>line \<noteq> 0\<close>
    by (auto simp: u cache_inv_def e_def dest: in_set_takeD in_set_dropD)
  ultimately show "cache_inv c'"
    using some lenA'' A'(2) D(1) unfolding cache_inv_def by (auto simp: c')
  show "refs c' = (refs c)(ob := refs c ob + 1)" by (simp add: c' incref_def)
qed

lemma insert_replace:
  assumes inv: "cache_inv c" "entries c = Some A" and "line \<noteq> 0"
    and old: "line \<in> code_line ` set (used c)"
  fixes m r ob defines "c' \<equiv> insert_code_object m r line ob c"
    and "p \<equiv> nat (bisect_code_objects A (count c) line)"
  shows "used c' = (used c)[p := \<lparr>code_line = line, code_object = ob\<rparr>]" "cache_inv c'"
    "p < length (used c)" "code_line (used c ! p) = line"
proof -
  let ?p = "bisect_code_objects A (count c) line"
  note D = inv_SomeD [OF inv]
  have p: "?p < count c" "line_at A ?p = line" "0 \<le> ?p"
    using old line_in_used_iff [OF inv, of line] bisect_inv(1) [OF inv, of line] by auto
  define e where "e = used c ! p"
  have at: "A ! p = Some e" "code_line e = line"
    using D(5,6) [of ?p] p by (simp_all add: p_def e_def)
  then show "code_line (used c ! p) = line" by (simp add: e_def)
  show lt: "p < length (used c)" using p D(4) by (simp add: p_def)
  have upd: "e\<lparr>code_object := ob\<rparr> = \<lparr>code_line = line, code_object = ob\<rparr>" using at(2) by simp
  have c': "c' = decref (code_object e)
      (c\<lparr>entries := Some (A[p := Some \<lparr>code_line = line, code_object = ob\<rparr>])\<rparr>)"
    using p inv(2) \<open>line \<noteq> 0\<close> at
    by (simp add: c'_def insert_code_object_def Let_def upd p_def [symmetric])
  show u: "used c' = (used c)[p := \<lparr>code_line = line, code_object = ob\<rparr>]"
    unfolding c' used_refs using lt by (simp add: used_def inv(2) take_update_swap map_update)
  have "map code_line (used c') = map code_line (used c)"
    unfolding u using inv(1) lt at(2)
    by (intro cache_map_replace(2)) (auto simp: cache_inv_def e_def)
  then show "cache_inv c'"
    using inv(1) D(1-3) inv(2) update_Some_nth [of _ A p "\<lparr>code_line = line, code_object = ob\<rparr>"]
    unfolding cache_inv_def by (auto simp: c')
qed

lemma insert_code_object_spec:
  assumes "cache_inv c" "line \<noteq> 0"
  shows "cache_inv (insert_code_object True True line ob c)"
    and "cache_map (insert_code_object True True line ob c) = (cache_map c)(line \<mapsto> ob)"
proof -
  let ?c = "insert_code_object True True line ob c"
  have "cache_inv ?c \<and> cache_map ?c = (cache_map c)(line \<mapsto> ob)"
  proof (cases "entries c")
    case None
    then show ?thesis
      using insert_first [OF assms(1) None assms(2), where r = True and ob = ob] by (simp add: cache_map_def used_None)
  next
    case (Some A)
    show ?thesis
    proof (cases "line \<in> code_line ` set (used c)")
      case True
      note R = insert_replace(1,2) [OF assms(1) Some assms(2) True, where m = True and r = True and ob = ob]
      insert_replace(3,4) [OF assms(1) Some assms(2) True]
      have "sorted_wrt (<) (map code_line (used c))" using assms(1) by (simp add: cache_inv_def)
      then have "map_of (map (\<lambda>e. (code_line e, code_object e)) (used (insert_code_object True True line ob c))) =
          (map_of (map (\<lambda>e. (code_line e, code_object e)) (used c)))(line \<mapsto> ob)"
        using cache_map_replace(1) [OF _ R(3), of "\<lparr>code_line = line, code_object = ob\<rparr>"] R(1,4)
        by simp
      then show ?thesis using R(2) by (simp add: cache_map_def)
    next
      case False
      note N = insert_new [OF assms(1) Some assms(2) False, where m = True and ob = ob]
      have "code_line e < line"
        if "e \<in> set (take (nat (bisect_code_objects A (count c) line)) (used c))" for e
        using bisect_inv(3) [OF assms(1) Some that] .
      then show ?thesis
        using N cache_map_insert_between [of "nat (bisect_code_objects A (count c) line)"
            "used c" "\<lparr>code_line = line, code_object = ob\<rparr>"]
        by (simp add: cache_map_def)
    qed
  qed
  then show "cache_inv ?c" "cache_map ?c = (cache_map c)(line \<mapsto> ob)" by auto
qed

subsection \<open>The cache as a map: interface and interpretation\<close>

locale line_cache =
  fixes lookup :: "'c \<Rightarrow> int \<Rightarrow> nat option"
    and enter :: "int \<Rightarrow> nat \<Rightarrow> 'c \<Rightarrow> 'c"
    and invar :: "'c \<Rightarrow> bool"
  assumes invar_enter: "invar c \<Longrightarrow> k \<noteq> 0 \<Longrightarrow> invar (enter k v c)"
    and lookup_enter: "invar c \<Longrightarrow> k \<noteq> 0 \<Longrightarrow> lookup (enter k v c) = (lookup c)(k \<mapsto> v)"
begin

lemma enter_same: "invar c \<Longrightarrow> k \<noteq> 0 \<Longrightarrow> lookup (enter k v c) k = Some v"
  by (simp add: lookup_enter)

lemma enter_other: "invar c \<Longrightarrow> k \<noteq> 0 \<Longrightarrow> l \<noteq> k \<Longrightarrow> lookup (enter k v c) l = lookup c l"
  by (simp add: lookup_enter)

lemma enter_all:
  assumes "invar c" "\<forall>kv \<in> set kvs. fst kv \<noteq> 0"
  shows "invar (fold (\<lambda>(k, v). enter k v) kvs c)"
    and "lookup (fold (\<lambda>(k, v). enter k v) kvs c) = lookup c ++ map_of (rev kvs)"
proof -
  have "invar (fold (\<lambda>(k, v). enter k v) kvs c) \<and>
        lookup (fold (\<lambda>(k, v). enter k v) kvs c) = lookup c ++ map_of (rev kvs)"
    using assms
  proof (induction kvs arbitrary: c)
    case Nil
    then show ?case by simp
  next
    case (Cons kv kvs)
    obtain k v where kv: "kv = (k, v)" by (cases kv)
    with Cons show ?case
      by (auto simp: invar_enter lookup_enter map_add_def fun_eq_iff split: option.splits)
  qed
  then show "invar (fold (\<lambda>(k, v). enter k v) kvs c)"
    "lookup (fold (\<lambda>(k, v). enter k v) kvs c) = lookup c ++ map_of (rev kvs)" by auto
qed

end

interpretation code_lines: line_cache "\<lambda>c line. fst (find_code_object line c)"
  "insert_code_object True True" cache_inv
  by unfold_locales
    (simp_all add: insert_code_object_spec find_code_object_spec(1) fun_eq_iff)

subsection \<open>Reference counts\<close>

text \<open>
  The cache owns one reference for each of its entries; \<open>ext\<close> counts the references held
  elsewhere.
\<close>

definition owned :: "code_cache \<Rightarrow> nat \<Rightarrow> int" where
  "owned c ob = int (count_list (map code_object (used c)) ob)"

definition refs_inv :: "(nat \<Rightarrow> int) \<Rightarrow> code_cache \<Rightarrow> bool" where
  "refs_inv ext c \<longleftrightarrow> cache_inv c \<and> (\<forall>ob. refs c ob = ext ob + owned c ob)"

lemma refs_upd [simp]: "refs (incref ob c) = (refs c)(ob := refs c ob + 1)"
  "refs (decref ob c) = (refs c)(ob := refs c ob - 1)"
  by (simp_all add: decref_def incref_def)

lemma refs_decref_incref: "refs (decref ob (incref ob c)) = refs c"
  by (simp add: decref_def incref_def fun_eq_iff)

lemma owned_refs [simp]: "owned (incref ob c) = owned c" "owned (decref ob c) = owned c"
  by (simp_all add: owned_def fun_eq_iff)

lemma insert_code_object_cases:
  assumes "cache_inv c" "line = 0 \<or> cache_map c line = None"
  shows "insert_code_object m r line ob c = c \<or>
    cache_inv (insert_code_object m r line ob c) \<and>
    refs (insert_code_object m r line ob c) = (refs c)(ob := refs c ob + 1) \<and>
    owned (insert_code_object m r line ob c) = (owned c)(ob := owned c ob + 1)"
proof (cases "line = 0")
  case True
  then show ?thesis by (simp add: insert_code_object_def)
next
  case nz: False
  with assms have new: "line \<notin> code_line ` set (used c)" by (simp add: cache_map_None_iff)
  show ?thesis
  proof (cases "entries c")
    case None
    show ?thesis
    proof (cases m)
      case True
      then show ?thesis
        using insert_first [OF assms(1) None nz, where r = r and ob = ob] None
        by (simp add: owned_def used_None fun_eq_iff)
    next
      case False
      with None nz show ?thesis by (simp add: insert_code_object_def)
    qed
  next
    case (Some A)
    show ?thesis
    proof (cases r)
      case True
      note N = insert_new [OF assms(1) Some nz new, where m = m and ob = ob]
      let ?p = "nat (bisect_code_objects A (count c) line)"
      have "owned (insert_code_object m r line ob c) x =
          int (count_list (map code_object (take ?p (used c) @ drop ?p (used c))) x) +
          (if x = ob then 1 else 0)" for x
        using N(1) True by (simp add: owned_def del: append_take_drop_id)
      then show ?thesis using N(2,3) True by (simp add: owned_def fun_eq_iff)
    next
      case False
      show ?thesis
      proof (cases "count c = max_count c")
        case True
        with False Some nz line_in_used_iff [OF assms(1) Some, of line] new show ?thesis
          by (auto simp: insert_code_object_def Let_def)
      next
        case room: False
        have same: "insert_code_object m r line ob c = insert_code_object m True line ob c"
          using room Some by (simp add: insert_code_object_def Let_def)
        note N = insert_new [OF assms(1) Some nz new, where m = m and ob = ob]
        let ?p = "nat (bisect_code_objects A (count c) line)"
        have "owned (insert_code_object m r line ob c) x =
            int (count_list (map code_object (take ?p (used c) @ drop ?p (used c))) x) +
            (if x = ob then 1 else 0)" for x
          using N(1) same by (simp add: owned_def del: append_take_drop_id)
        then show ?thesis using N(2,3) same by (simp add: owned_def fun_eq_iff)
      qed
    qed
  qed
qed

lemma add_traceback_refs_inv:
  assumes "refs_inv ext c"
  shows "refs_inv ext (add_traceback m r c_line py_line fresh c)"
proof -
  let ?key = "if c_line \<noteq> 0 then - c_line else py_line"
  have inv: "cache_inv c" and refs: "refs c x = ext x + owned c x" for x
    using assms by (auto simp: refs_inv_def)
  note F = find_code_object_spec [OF inv, of ?key]
  show ?thesis
  proof (cases "cache_map c ?key")
    case (Some ob)
    then have "find_code_object ?key c = (Some ob, incref ob c)"
      using F by (simp add: prod_eq_iff)
    then have "add_traceback m r c_line py_line fresh c = decref ob (incref ob c)"
      unfolding add_traceback_def Let_def by simp
    then show ?thesis using inv refs by (simp add: refs_inv_def)
  next
    case None
    then have find: "find_code_object ?key c = (None, c)"
      using F by (simp add: prod_eq_iff)
    show ?thesis
    proof (cases fresh)
      case None
      with find show ?thesis
        using assms unfolding add_traceback_def Let_def by simp
    next
      case (Some ob)
      define d where "d = insert_code_object m r ?key ob (incref ob c)"
      have res: "add_traceback m r c_line py_line fresh c = decref ob d"
        using find Some unfolding add_traceback_def Let_def d_def by simp
      have "d = incref ob c \<or> cache_inv d \<and>
          refs d = (refs (incref ob c))(ob := refs (incref ob c) ob + 1) \<and>
          owned d = (owned c)(ob := owned c ob + 1)"
        using insert_code_object_cases [of "incref ob c" ?key m r ob] inv None
        by (simp add: d_def)
      then show ?thesis
        using inv refs by (auto simp: res refs_inv_def)
    qed
  qed
qed

subsection \<open>Properties\<close>

text \<open>
  C15. Bisection returns the insertion point of a line in a non-empty sorted array: everything
  before it is smaller, the entry at it (if there is one) is not, so a stale \<open>mid\<close> after the
  loop never points one place off.
\<close>

theorem bisect_finds_insertion_point:
  assumes "cache_inv c" "entries c = Some A"
  shows "insertion_point A (count c) line (bisect_code_objects A (count c) line)"
  using inv_sorted [OF assms] inv_SomeD(1) [OF assms] by (rule bisect_point)

text \<open>
  C30. The sorted array implements a finite map from lines to code objects: after any series of
  insertions into an empty cache, looking a line up gives the object inserted last for it, and
  nothing for other lines; growing the array past 64 entries changes nothing.
\<close>

theorem code_cache_refines_map:
  assumes "\<forall>kv \<in> set kvs. fst kv \<noteq> 0"
  defines "c \<equiv> fold (\<lambda>(k, v). insert_code_object True True k v) kvs empty_cache"
  shows "cache_inv c \<and> fst (find_code_object line c) = map_of (rev kvs) line"
proof -
  have "cache_inv c"
    unfolding c_def using cache_inv_empty assms(1) by (rule code_lines.enter_all(1))
  moreover have "(\<lambda>line. fst (find_code_object line c)) =
      (\<lambda>line. fst (find_code_object line empty_cache)) ++ map_of (rev kvs)"
    unfolding c_def using cache_inv_empty assms(1) by (rule code_lines.enter_all(2))
  ultimately show ?thesis
    by (simp add: fun_eq_iff map_add_def find_code_object_def empty_cache_def
        split: option.splits)
qed

text \<open>
  Reporting a traceback keeps the accounts: whatever allocation fails and whether or not the
  line is cached, afterwards the cache is well formed and owns exactly one reference to the code
  object of each of its entries, so no entry dangles and no object leaks.
\<close>

theorem add_traceback_keeps_accounts:
  assumes "refs_inv ext c"
  shows "refs_inv ext (add_traceback m r c_line py_line fresh c)"
  using assms by (rule add_traceback_refs_inv)

theorem bisect_finds_insertion_point_witness:
  "insertion_point [Some \<lparr>code_line = 7, code_object = 0\<rparr>] 1 5
     (bisect_code_objects [Some \<lparr>code_line = 7, code_object = 0\<rparr>] 1 5)"
  using bisect_finds_insertion_point
    [of "\<lparr>count = 1, max_count = 1, entries = Some [Some \<lparr>code_line = 7, code_object = 0\<rparr>],
          refs = (\<lambda>_. 0)\<rparr>" "[Some \<lparr>code_line = 7, code_object = 0\<rparr>]" 5]
  by (simp add: cache_inv_def used_def)

theorem code_cache_refines_map_witness:
  "fst (find_code_object 30
     (fold (\<lambda>(k, v). insert_code_object True True k v) [(30, 1), (- 20, 2), (30, 3)] empty_cache))
   = Some 3"
  using code_cache_refines_map [of "[(30, 1), (- 20, 2), (30, 3)]" 30] by simp

theorem add_traceback_keeps_accounts_witness:
  "refs_inv (\<lambda>_. 0) (add_traceback True True 4711 0 (Some 9) empty_cache)"
  by (rule add_traceback_keeps_accounts)
    (simp add: refs_inv_def cache_inv_empty owned_def, simp add: empty_cache_def used_def)

end
