(* ===== verification/TypeTables.thy ===== *)
theory TypeTables
  imports Prelude
begin

section \<open>The extension types\<close>

text \<open>
  The 34 extension types of \<open>rocksdb/_rocksdb.cpp\<close> as the module defines them: how an object is
  made (\<open>tp_new\<close>), destroyed (\<open>tp_dealloc\<close>), shown to the garbage collector (\<open>tp_traverse\<close>)
  and cleared by it (\<open>tp_clear\<close>), its tables of methods and attributes and the slots of its type
  object; then the steps of \<open>__Pyx_modinit_type_init_code\<close> for it. The functions are straight-line
  code, so they are lists of steps here; \<open>ObjectLife\<close> runs them.
\<close>

datatype ext_type =
    Ty_PyComparator | Ty_PyGenericComparator | Ty_PyBytewiseComparator | Ty_PyFilterPolicy |
    Ty_PyGenericFilterPolicy | Ty_PyBloomFilterPolicy | Ty_PyMergeOperator | Ty_PyCache |
    Ty_PyLRUCache | Ty_PySliceTransform | Ty_PyTableFactory | Ty_BlockBasedTableFactory |
    Ty_PlainTableFactory | Ty_PyMemtableFactory | Ty_SkipListMemtableFactory |
    Ty_VectorMemtableFactory | Ty_HashSkipListMemtableFactory | Ty_HashLinkListMemtableFactory |
    Ty_CompressionType | Ty_CompactionPri | Ty_ColumnFamilyHandle_real | Ty_ColumnFamilyHandle |
    Ty_ColumnFamilyOptions | Ty_Options | Ty_Snapshot | Ty_BaseIterator | Ty_KeysIterator |
    Ty_ValuesIterator | Ty_ItemsIterator | Ty_ReversedIterator | Ty_WriteBatchIterator |
    Ty_WriteBatch | Ty_DB | Ty_BackupEngine

text \<open>
  Steps of \<open>tp_new\<close>: the base's \<open>tp_new\<close>, allocation, the table of C methods, construction of a C++
  member, a field set to \<open>None\<close>, and \<open>__cinit__\<close>, with the arguments of the call or without any; when
  it fails the new object is released.
\<close>

datatype new_step =
    NewBase ext_type | Alloc | SetVtab | ConstructMember string | InitNone string | Cinit bool

text \<open>
  Steps of \<open>tp_dealloc\<close>: the finalizer of a Python subclass, leaving the collector, \<open>__dealloc__\<close>
  with the pending exception saved, destruction of a C++ member, clearing of weak references and of
  fields, and either the base's \<open>tp_dealloc\<close> (before which the object is tracked again, where
  \<open>Track only_if_base_has_gc\<close> is) or the release of the memory.
\<close>

datatype dealloc_step =
    Finalize | Untrack | CallDealloc | DestroyMember string | ClearWeakRefs | ClearField string
  | Track bool | DeallocBase ext_type | Free

datatype visit_step = VisitBase ext_type | Visit string

datatype clear_step = ClearBase ext_type | ResetField string

datatype call_kind = NoArgs | OneArg | Keywords

text \<open>
  A slot that holds the function of a type is that type; \<open>other_slots\<close> are the further slots that
  are not zero.
\<close>

record type_def =
  tp_name :: string
  own_new :: "new_step list"
  own_dealloc :: "dealloc_step list option"
  own_traverse :: "visit_step list option"
  own_clear :: "clear_step list option"
  tp_dealloc :: ext_type
  tp_traverse :: "ext_type option"
  tp_clear :: "ext_type option"
  has_gc :: bool
  other_slots :: "string list"
  tp_methods :: "(string \<times> call_kind) list"
  tp_getset :: "(string \<times> bool) list"

subsection \<open>The type objects\<close>

definition PyComparator_type :: type_def where
  "PyComparator_type =
     \<lparr>tp_name = ''rocksdb._rocksdb.PyComparator'',
      own_new = [Alloc, SetVtab],
      own_dealloc = Some [Finalize, Free],
      own_traverse = None,
      own_clear = None,
      tp_dealloc = Ty_PyComparator,
      tp_traverse = None,
      tp_clear = None,
      has_gc = False,
      other_slots = [],
      tp_methods = [(''__reduce_cython__'', NoArgs), (''__setstate_cython__'', OneArg)],
      tp_getset = []\<rparr>"

definition PyGenericComparator_type :: type_def where
  "PyGenericComparator_type =
     \<lparr>tp_name = ''rocksdb._rocksdb.PyGenericComparator'',
      own_new = [NewBase Ty_PyComparator, SetVtab, InitNone ''ob'', Cinit True],
      own_dealloc = Some [Finalize, Untrack, CallDealloc, ClearField ''ob'', Track True,
        DeallocBase Ty_PyComparator],
      own_traverse = Some [VisitBase Ty_PyComparator, Visit ''ob''],
      own_clear = Some [ClearBase Ty_PyComparator, ResetField ''ob''],
      tp_dealloc = Ty_PyGenericComparator,
      tp_traverse = Some Ty_PyGenericComparator,
      tp_clear = Some Ty_PyGenericComparator,
      has_gc = True,
      other_slots = [],
      tp_methods = [(''__reduce_cython__'', NoArgs), (''__setstate_cython__'', OneArg)],
      tp_getset = []\<rparr>"

definition PyBytewiseComparator_type :: type_def where
  "PyBytewiseComparator_type =
     \<lparr>tp_name = ''rocksdb._rocksdb.PyBytewiseComparator'',
      own_new = [NewBase Ty_PyComparator, SetVtab, Cinit False],
      own_dealloc = None,
      own_traverse = None,
      own_clear = None,
      tp_dealloc = Ty_PyComparator,
      tp_traverse = None,
      tp_clear = None,
      has_gc = False,
      other_slots = [],
      tp_methods = [(''name'', NoArgs), (''compare'', Keywords), (''__reduce_cython__'', NoArgs),
        (''__setstate_cython__'', OneArg)],
      tp_getset = []\<rparr>"

definition PyFilterPolicy_type :: type_def where
  "PyFilterPolicy_type =
     \<lparr>tp_name = ''rocksdb._rocksdb.PyFilterPolicy'',
      own_new = [Alloc, SetVtab],
      own_dealloc = Some [Finalize, Free],
      own_traverse = None,
      own_clear = None,
      tp_dealloc = Ty_PyFilterPolicy,
      tp_traverse = None,
      tp_clear = None,
      has_gc = False,
      other_slots = [],
      tp_methods = [(''__reduce_cython__'', NoArgs), (''__setstate_cython__'', OneArg)],
      tp_getset = []\<rparr>"

definition PyGenericFilterPolicy_type :: type_def where
  "PyGenericFilterPolicy_type =
     \<lparr>tp_name = ''rocksdb._rocksdb.PyGenericFilterPolicy'',
      own_new = [NewBase Ty_PyFilterPolicy, SetVtab, ConstructMember ''policy'', InitNone ''ob'',
        Cinit True],
      own_dealloc = Some [Finalize, Untrack, DestroyMember ''policy'', ClearField ''ob'',
        Track True, DeallocBase Ty_PyFilterPolicy],
      own_traverse = Some [VisitBase Ty_PyFilterPolicy, Visit ''ob''],
      own_clear = Some [ClearBase Ty_PyFilterPolicy, ResetField ''ob''],
      tp_dealloc = Ty_PyGenericFilterPolicy,
      tp_traverse = Some Ty_PyGenericFilterPolicy,
      tp_clear = Some Ty_PyGenericFilterPolicy,
      has_gc = True,
      other_slots = [],
      tp_methods = [(''__reduce_cython__'', NoArgs), (''__setstate_cython__'', OneArg)],
      tp_getset = []\<rparr>"

definition PyBloomFilterPolicy_type :: type_def where
  "PyBloomFilterPolicy_type =
     \<lparr>tp_name = ''rocksdb._rocksdb.PyBloomFilterPolicy'',
      own_new = [NewBase Ty_PyFilterPolicy, SetVtab, ConstructMember ''policy'', Cinit True],
      own_dealloc = Some [Finalize, DestroyMember ''policy'', DeallocBase Ty_PyFilterPolicy],
      own_traverse = None,
      own_clear = None,
      tp_dealloc = Ty_PyBloomFilterPolicy,
      tp_traverse = None,
      tp_clear = None,
      has_gc = False,
      other_slots = [],
      tp_methods = [(''name'', NoArgs), (''create_filter'', OneArg),
        (''key_may_match'', Keywords), (''__reduce_cython__'', NoArgs),
        (''__setstate_cython__'', OneArg)],
      tp_getset = []\<rparr>"

definition PyMergeOperator_type :: type_def where
  "PyMergeOperator_type =
     \<lparr>tp_name = ''rocksdb._rocksdb.PyMergeOperator'',
      own_new = [Alloc, SetVtab, ConstructMember ''merge_op'', InitNone ''ob'', Cinit True],
      own_dealloc = Some [Finalize, Untrack, DestroyMember ''merge_op'', ClearField ''ob'', Free],
      own_traverse = Some [Visit ''ob''],
      own_clear = Some [ResetField ''ob''],
      tp_dealloc = Ty_PyMergeOperator,
      tp_traverse = Some Ty_PyMergeOperator,
      tp_clear = Some Ty_PyMergeOperator,
      has_gc = True,
      other_slots = [],
      tp_methods = [(''__reduce_cython__'', NoArgs), (''__setstate_cython__'', OneArg)],
      tp_getset = []\<rparr>"

definition PyCache_type :: type_def where
  "PyCache_type =
     \<lparr>tp_name = ''rocksdb._rocksdb.PyCache'',
      own_new = [Alloc, SetVtab],
      own_dealloc = Some [Finalize, Free],
      own_traverse = None,
      own_clear = None,
      tp_dealloc = Ty_PyCache,
      tp_traverse = None,
      tp_clear = None,
      has_gc = False,
      other_slots = [],
      tp_methods = [(''__reduce_cython__'', NoArgs), (''__setstate_cython__'', OneArg)],
      tp_getset = []\<rparr>"

definition PyLRUCache_type :: type_def where
  "PyLRUCache_type =
     \<lparr>tp_name = ''rocksdb._rocksdb.PyLRUCache'',
      own_new = [NewBase Ty_PyCache, SetVtab, ConstructMember ''cache_ob'', Cinit True],
      own_dealloc = Some [Finalize, DestroyMember ''cache_ob'', DeallocBase Ty_PyCache],
      own_traverse = None,
      own_clear = None,
      tp_dealloc = Ty_PyLRUCache,
      tp_traverse = None,
      tp_clear = None,
      has_gc = False,
      other_slots = [],
      tp_methods = [(''__reduce_cython__'', NoArgs), (''__setstate_cython__'', OneArg)],
      tp_getset = []\<rparr>"

definition PySliceTransform_type :: type_def where
  "PySliceTransform_type =
     \<lparr>tp_name = ''rocksdb._rocksdb.PySliceTransform'',
      own_new = [Alloc, SetVtab, ConstructMember ''transfomer'', InitNone ''ob'', Cinit True],
      own_dealloc = Some [Finalize, Untrack, DestroyMember ''transfomer'', ClearField ''ob'',
        Free],
      own_traverse = Some [Visit ''ob''],
      own_clear = Some [ResetField ''ob''],
      tp_dealloc = Ty_PySliceTransform,
      tp_traverse = Some Ty_PySliceTransform,
      tp_clear = Some Ty_PySliceTransform,
      has_gc = True,
      other_slots = [],
      tp_methods = [(''__reduce_cython__'', NoArgs), (''__setstate_cython__'', OneArg)],
      tp_getset = []\<rparr>"

definition PyTableFactory_type :: type_def where
  "PyTableFactory_type =
     \<lparr>tp_name = ''rocksdb._rocksdb.PyTableFactory'',
      own_new = [Alloc, SetVtab, ConstructMember ''factory''],
      own_dealloc = Some [Finalize, DestroyMember ''factory'', Free],
      own_traverse = None,
      own_clear = None,
      tp_dealloc = Ty_PyTableFactory,
      tp_traverse = None,
      tp_clear = None,
      has_gc = False,
      other_slots = [],
      tp_methods = [(''__reduce_cython__'', NoArgs), (''__setstate_cython__'', OneArg)],
      tp_getset = []\<rparr>"

definition BlockBasedTableFactory_type :: type_def where
  "BlockBasedTableFactory_type =
     \<lparr>tp_name = ''rocksdb._rocksdb.BlockBasedTableFactory'',
      own_new = [NewBase Ty_PyTableFactory, SetVtab, InitNone ''py_filter_policy''],
      own_dealloc = Some [Finalize, Untrack, ClearField ''py_filter_policy'', Track True,
        DeallocBase Ty_PyTableFactory],
      own_traverse = Some [VisitBase Ty_PyTableFactory, Visit ''py_filter_policy''],
      own_clear = Some [ClearBase Ty_PyTableFactory, ResetField ''py_filter_policy''],
      tp_dealloc = Ty_BlockBasedTableFactory,
      tp_traverse = Some Ty_BlockBasedTableFactory,
      tp_clear = Some Ty_BlockBasedTableFactory,
      has_gc = True,
      other_slots = [''tp_init''],
      tp_methods = [(''__reduce_cython__'', NoArgs), (''__setstate_cython__'', OneArg)],
      tp_getset = []\<rparr>"

definition PlainTableFactory_type :: type_def where
  "PlainTableFactory_type =
     \<lparr>tp_name = ''rocksdb._rocksdb.PlainTableFactory'',
      own_new = [NewBase Ty_PyTableFactory, SetVtab],
      own_dealloc = None,
      own_traverse = None,
      own_clear = None,
      tp_dealloc = Ty_PyTableFactory,
      tp_traverse = None,
      tp_clear = None,
      has_gc = False,
      other_slots = [''tp_init''],
      tp_methods = [(''__reduce_cython__'', NoArgs), (''__setstate_cython__'', OneArg)],
      tp_getset = []\<rparr>"

definition PyMemtableFactory_type :: type_def where
  "PyMemtableFactory_type =
     \<lparr>tp_name = ''rocksdb._rocksdb.PyMemtableFactory'',
      own_new = [Alloc, SetVtab, ConstructMember ''factory''],
      own_dealloc = Some [Finalize, DestroyMember ''factory'', Free],
      own_traverse = None,
      own_clear = None,
      tp_dealloc = Ty_PyMemtableFactory,
      tp_traverse = None,
      tp_clear = None,
      has_gc = False,
      other_slots = [],
      tp_methods = [(''__reduce_cython__'', NoArgs), (''__setstate_cython__'', OneArg)],
      tp_getset = []\<rparr>"

definition SkipListMemtableFactory_type :: type_def where
  "SkipListMemtableFactory_type =
     \<lparr>tp_name = ''rocksdb._rocksdb.SkipListMemtableFactory'',
      own_new = [NewBase Ty_PyMemtableFactory, SetVtab],
      own_dealloc = None,
      own_traverse = None,
      own_clear = None,
      tp_dealloc = Ty_PyMemtableFactory,
      tp_traverse = None,
      tp_clear = None,
      has_gc = False,
      other_slots = [''tp_init''],
      tp_methods = [(''__reduce_cython__'', NoArgs), (''__setstate_cython__'', OneArg)],
      tp_getset = []\<rparr>"

definition VectorMemtableFactory_type :: type_def where
  "VectorMemtableFactory_type =
     \<lparr>tp_name = ''rocksdb._rocksdb.VectorMemtableFactory'',
      own_new = [NewBase Ty_PyMemtableFactory, SetVtab],
      own_dealloc = None,
      own_traverse = None,
      own_clear = None,
      tp_dealloc = Ty_PyMemtableFactory,
      tp_traverse = None,
      tp_clear = None,
      has_gc = False,
      other_slots = [''tp_init''],
      tp_methods = [(''__reduce_cython__'', NoArgs), (''__setstate_cython__'', OneArg)],
      tp_getset = []\<rparr>"

definition HashSkipListMemtableFactory_type :: type_def where
  "HashSkipListMemtableFactory_type =
     \<lparr>tp_name = ''rocksdb._rocksdb.HashSkipListMemtableFactory'',
      own_new = [NewBase Ty_PyMemtableFactory, SetVtab],
      own_dealloc = None,
      own_traverse = None,
      own_clear = None,
      tp_dealloc = Ty_PyMemtableFactory,
      tp_traverse = None,
      tp_clear = None,
      has_gc = False,
      other_slots = [''tp_init''],
      tp_methods = [(''__reduce_cython__'', NoArgs), (''__setstate_cython__'', OneArg)],
      tp_getset = []\<rparr>"

definition HashLinkListMemtableFactory_type :: type_def where
  "HashLinkListMemtableFactory_type =
     \<lparr>tp_name = ''rocksdb._rocksdb.HashLinkListMemtableFactory'',
      own_new = [NewBase Ty_PyMemtableFactory, SetVtab],
      own_dealloc = None,
      own_traverse = None,
      own_clear = None,
      tp_dealloc = Ty_PyMemtableFactory,
      tp_traverse = None,
      tp_clear = None,
      has_gc = False,
      other_slots = [''tp_init''],
      tp_methods = [(''__reduce_cython__'', NoArgs), (''__setstate_cython__'', OneArg)],
      tp_getset = []\<rparr>"

definition CompressionType_type :: type_def where
  "CompressionType_type =
     \<lparr>tp_name = ''rocksdb._rocksdb.CompressionType'',
      own_new = [Alloc],
      own_dealloc = Some [Finalize, Free],
      own_traverse = None,
      own_clear = None,
      tp_dealloc = Ty_CompressionType,
      tp_traverse = None,
      tp_clear = None,
      has_gc = False,
      other_slots = [],
      tp_methods = [(''__reduce_cython__'', NoArgs), (''__setstate_cython__'', OneArg)],
      tp_getset = []\<rparr>"

definition CompactionPri_type :: type_def where
  "CompactionPri_type =
     \<lparr>tp_name = ''rocksdb._rocksdb.CompactionPri'',
      own_new = [Alloc],
      own_dealloc = Some [Finalize, Free],
      own_traverse = None,
      own_clear = None,
      tp_dealloc = Ty_CompactionPri,
      tp_traverse = None,
      tp_clear = None,
      has_gc = False,
      other_slots = [],
      tp_methods = [(''__reduce_cython__'', NoArgs), (''__setstate_cython__'', OneArg)],
      tp_getset = []\<rparr>"

definition ColumnFamilyHandle_real_type :: type_def where
  "ColumnFamilyHandle_real_type =
     \<lparr>tp_name = ''rocksdb._rocksdb._ColumnFamilyHandle'',
      own_new = [Alloc, SetVtab, InitNone ''weak_handle'', Cinit False],
      own_dealloc = Some [Finalize, Untrack, CallDealloc, ClearWeakRefs,
        ClearField ''weak_handle'', Free],
      own_traverse = Some [Visit ''weak_handle''],
      own_clear = Some [ResetField ''weak_handle''],
      tp_dealloc = Ty_ColumnFamilyHandle_real,
      tp_traverse = Some Ty_ColumnFamilyHandle_real,
      tp_clear = Some Ty_ColumnFamilyHandle_real,
      has_gc = True,
      other_slots = [],
      tp_methods = [(''__reduce_cython__'', NoArgs), (''__setstate_cython__'', OneArg)],
      tp_getset = [(''name'', False), (''id'', False), (''weakref'', False)]\<rparr>"

definition ColumnFamilyHandle_type :: type_def where
  "ColumnFamilyHandle_type =
     \<lparr>tp_name = ''rocksdb._rocksdb.ColumnFamilyHandle'',
      own_new = [Alloc, SetVtab, InitNone ''_ref'', InitNone ''name'', Cinit True],
      own_dealloc = Some [Finalize, Untrack, ClearField ''_ref'', ClearField ''name'', Free],
      own_traverse = Some [Visit ''_ref''],
      own_clear = Some [ResetField ''_ref''],
      tp_dealloc = Ty_ColumnFamilyHandle,
      tp_traverse = Some Ty_ColumnFamilyHandle,
      tp_clear = Some Ty_ColumnFamilyHandle,
      has_gc = True,
      other_slots = [''tp_repr'', ''tp_hash'', ''tp_richcompare'', ''tp_init''],
      tp_methods = [(''__reduce_cython__'', NoArgs), (''__setstate_cython__'', OneArg)],
      tp_getset = [(''is_valid'', False), (''name'', False), (''id'', False)]\<rparr>"

definition ColumnFamilyOptions_attributes :: "(string \<times> bool) list" where
  "ColumnFamilyOptions_attributes =
     [(''write_buffer_size'', True), (''max_write_buffer_number'', True),
      (''min_write_buffer_number_to_merge'', True), (''compression_opts'', True),
      (''compaction_pri'', True), (''compression'', True), (''max_compaction_bytes'', True),
      (''num_levels'', True), (''level0_file_num_compaction_trigger'', True),
      (''level0_slowdown_writes_trigger'', True), (''level0_stop_writes_trigger'', True),
      (''max_mem_compaction_level'', True), (''target_file_size_base'', True),
      (''target_file_size_multiplier'', True), (''max_bytes_for_level_base'', True),
      (''max_bytes_for_level_multiplier'', True),
      (''max_bytes_for_level_multiplier_additional'', True), (''soft_rate_limit'', True),
      (''hard_rate_limit'', True), (''rate_limit_delay_max_milliseconds'', True),
      (''arena_block_size'', True), (''disable_auto_compactions'', True),
      (''purge_redundant_kvs_while_flush'', True), (''compaction_style'', True),
      (''compaction_options_universal'', True), (''max_sequential_skip_in_iterations'', True),
      (''inplace_update_support'', True), (''table_factory'', True),
      (''memtable_factory'', True), (''inplace_update_num_locks'', True), (''comparator'', True),
      (''merge_operator'', True), (''prefix_extractor'', True)]"

definition ColumnFamilyOptions_type :: type_def where
  "ColumnFamilyOptions_type =
     \<lparr>tp_name = ''rocksdb._rocksdb.ColumnFamilyOptions'',
      own_new = [Alloc, InitNone ''py_comparator'', InitNone ''py_merge_operator'',
        InitNone ''py_prefix_extractor'', InitNone ''py_table_factory'',
        InitNone ''py_memtable_factory'', Cinit False],
      own_dealloc = Some [Finalize, Untrack, CallDealloc, ClearField ''py_comparator'',
        ClearField ''py_merge_operator'', ClearField ''py_prefix_extractor'',
        ClearField ''py_table_factory'', ClearField ''py_memtable_factory'', Free],
      own_traverse = Some [Visit ''py_comparator'', Visit ''py_merge_operator'',
        Visit ''py_prefix_extractor'', Visit ''py_table_factory'', Visit ''py_memtable_factory''],
      own_clear = Some [ResetField ''py_comparator'', ResetField ''py_merge_operator'',
        ResetField ''py_prefix_extractor'', ResetField ''py_table_factory'',
        ResetField ''py_memtable_factory''],
      tp_dealloc = Ty_ColumnFamilyOptions,
      tp_traverse = Some Ty_ColumnFamilyOptions,
      tp_clear = Some Ty_ColumnFamilyOptions,
      has_gc = True,
      other_slots = [''tp_init''],
      tp_methods = [(''__reduce_cython__'', NoArgs), (''__setstate_cython__'', OneArg)],
      tp_getset = ColumnFamilyOptions_attributes\<rparr>"

definition Options_attributes :: "(string \<times> bool) list" where
  "Options_attributes =
     [(''create_if_missing'', True), (''error_if_exists'', True), (''paranoid_checks'', True),
      (''max_open_files'', True), (''use_fsync'', True), (''db_log_dir'', True),
      (''wal_dir'', True), (''delete_obsolete_files_period_micros'', True),
      (''max_background_compactions'', True), (''max_background_flushes'', True),
      (''max_log_file_size'', True), (''log_file_time_to_roll'', True),
      (''keep_log_file_num'', True), (''max_manifest_file_size'', True),
      (''table_cache_numshardbits'', True), (''wal_ttl_seconds'', True),
      (''wal_size_limit_mb'', True), (''manifest_preallocation_size'', True),
      (''enable_write_thread_adaptive_yield'', True),
      (''allow_concurrent_memtable_write'', True), (''allow_mmap_reads'', True),
      (''allow_mmap_writes'', True), (''is_fd_close_on_exec'', True),
      (''skip_log_error_on_recovery'', True), (''stats_dump_period_sec'', True),
      (''advise_random_on_open'', True), (''use_adaptive_mutex'', True),
      (''bytes_per_sync'', True), (''row_cache'', True), (''manual_wal_flush'', True),
      (''two_write_queues'', True), (''avoid_unnecessary_blocking_io'', True),
      (''unordered_write'', True), (''max_background_jobs'', True),
      (''use_direct_io_for_flush_and_compaction'', True), (''use_direct_reads'', True),
      (''level_compaction_dynamic_level_bytes'', True)]"

definition Options_type :: type_def where
  "Options_type =
     \<lparr>tp_name = ''rocksdb._rocksdb.Options'',
      own_new = [NewBase Ty_ColumnFamilyOptions, InitNone ''py_row_cache'', Cinit False],
      own_dealloc = Some [Finalize, Untrack, CallDealloc, ClearField ''py_row_cache'',
        Track False, DeallocBase Ty_ColumnFamilyOptions],
      own_traverse = Some [VisitBase Ty_ColumnFamilyOptions, Visit ''py_row_cache''],
      own_clear = Some [ClearBase Ty_ColumnFamilyOptions, ResetField ''py_row_cache''],
      tp_dealloc = Ty_Options,
      tp_traverse = Some Ty_Options,
      tp_clear = Some Ty_Options,
      has_gc = True,
      other_slots = [''tp_init''],
      tp_methods = [(''__reduce_cython__'', NoArgs), (''__setstate_cython__'', OneArg)],
      tp_getset = Options_attributes\<rparr>"

definition Snapshot_type :: type_def where
  "Snapshot_type =
     \<lparr>tp_name = ''rocksdb._rocksdb.Snapshot'',
      own_new = [Alloc, InitNone ''db'', Cinit True],
      own_dealloc = Some [Finalize, Untrack, CallDealloc, ClearField ''db'', Free],
      own_traverse = Some [Visit ''db''],
      own_clear = None,
      tp_dealloc = Ty_Snapshot,
      tp_traverse = Some Ty_Snapshot,
      tp_clear = None,
      has_gc = True,
      other_slots = [],
      tp_methods = [(''__reduce_cython__'', NoArgs), (''__setstate_cython__'', OneArg)],
      tp_getset = []\<rparr>"

definition BaseIterator_type :: type_def where
  "BaseIterator_type =
     \<lparr>tp_name = ''rocksdb._rocksdb.BaseIterator'',
      own_new = [Alloc, SetVtab, InitNone ''db'', InitNone ''handle'', Cinit True],
      own_dealloc = Some [Finalize, Untrack, CallDealloc, ClearField ''db'',
        ClearField ''handle'', Free],
      own_traverse = Some [Visit ''db'', Visit ''handle''],
      own_clear = Some [ResetField ''db'', ResetField ''handle''],
      tp_dealloc = Ty_BaseIterator,
      tp_traverse = Some Ty_BaseIterator,
      tp_clear = Some Ty_BaseIterator,
      has_gc = True,
      other_slots = [''tp_iter'', ''tp_iternext''],
      tp_methods = [(''__next__'', NoArgs), (''get'', NoArgs), (''__reversed__'', NoArgs),
        (''seek_to_first'', NoArgs), (''seek_to_last'', NoArgs), (''seek'', OneArg),
        (''seek_for_prev'', OneArg), (''__reduce_cython__'', NoArgs),
        (''__setstate_cython__'', OneArg)],
      tp_getset = []\<rparr>"

definition KeysIterator_type :: type_def where
  "KeysIterator_type =
     \<lparr>tp_name = ''rocksdb._rocksdb.KeysIterator'',
      own_new = [NewBase Ty_BaseIterator, SetVtab],
      own_dealloc = None,
      own_traverse = None,
      own_clear = None,
      tp_dealloc = Ty_BaseIterator,
      tp_traverse = Some Ty_BaseIterator,
      tp_clear = Some Ty_BaseIterator,
      has_gc = True,
      other_slots = [''tp_iter'', ''tp_iternext''],
      tp_methods = [(''__reduce_cython__'', NoArgs), (''__setstate_cython__'', OneArg)],
      tp_getset = []\<rparr>"

definition ValuesIterator_type :: type_def where
  "ValuesIterator_type =
     \<lparr>tp_name = ''rocksdb._rocksdb.ValuesIterator'',
      own_new = [NewBase Ty_BaseIterator, SetVtab],
      own_dealloc = None,
      own_traverse = None,
      own_clear = None,
      tp_dealloc = Ty_BaseIterator,
      tp_traverse = Some Ty_BaseIterator,
      tp_clear = Some Ty_BaseIterator,
      has_gc = True,
      other_slots = [''tp_iter'', ''tp_iternext''],
      tp_methods = [(''__reduce_cython__'', NoArgs), (''__setstate_cython__'', OneArg)],
      tp_getset = []\<rparr>"

definition ItemsIterator_type :: type_def where
  "ItemsIterator_type =
     \<lparr>tp_name = ''rocksdb._rocksdb.ItemsIterator'',
      own_new = [NewBase Ty_BaseIterator, SetVtab],
      own_dealloc = None,
      own_traverse = None,
      own_clear = None,
      tp_dealloc = Ty_BaseIterator,
      tp_traverse = Some Ty_BaseIterator,
      tp_clear = Some Ty_BaseIterator,
      has_gc = True,
      other_slots = [''tp_iter'', ''tp_iternext''],
      tp_methods = [(''__reduce_cython__'', NoArgs), (''__setstate_cython__'', OneArg)],
      tp_getset = []\<rparr>"

definition ReversedIterator_type :: type_def where
  "ReversedIterator_type =
     \<lparr>tp_name = ''rocksdb._rocksdb.ReversedIterator'',
      own_new = [Alloc, InitNone ''it'', Cinit True],
      own_dealloc = Some [Finalize, Untrack, ClearField ''it'', Free],
      own_traverse = Some [Visit ''it''],
      own_clear = Some [ResetField ''it''],
      tp_dealloc = Ty_ReversedIterator,
      tp_traverse = Some Ty_ReversedIterator,
      tp_clear = Some Ty_ReversedIterator,
      has_gc = True,
      other_slots = [''tp_iter'', ''tp_iternext''],
      tp_methods = [(''seek_to_first'', NoArgs), (''seek_to_last'', NoArgs), (''seek'', OneArg),
        (''seek_for_prev'', OneArg), (''get'', NoArgs), (''__reversed__'', NoArgs),
        (''__next__'', NoArgs), (''__reduce_cython__'', NoArgs),
        (''__setstate_cython__'', OneArg)],
      tp_getset = []\<rparr>"

definition WriteBatchIterator_type :: type_def where
  "WriteBatchIterator_type =
     \<lparr>tp_name = ''rocksdb._rocksdb.WriteBatchIterator'',
      own_new = [Alloc, ConstructMember ''items'', InitNone ''batch''],
      own_dealloc = Some [Finalize, Untrack, DestroyMember ''items'', ClearField ''batch'', Free],
      own_traverse = Some [Visit ''batch''],
      own_clear = Some [ResetField ''batch''],
      tp_dealloc = Ty_WriteBatchIterator,
      tp_traverse = Some Ty_WriteBatchIterator,
      tp_clear = Some Ty_WriteBatchIterator,
      has_gc = True,
      other_slots = [''tp_iter'', ''tp_iternext'', ''tp_init''],
      tp_methods = [(''__next__'', NoArgs), (''__reduce_cython__'', NoArgs),
        (''__setstate_cython__'', OneArg)],
      tp_getset = []\<rparr>"

definition WriteBatch_type :: type_def where
  "WriteBatch_type =
     \<lparr>tp_name = ''rocksdb._rocksdb.WriteBatch'',
      own_new = [Alloc, Cinit True],
      own_dealloc = Some [Finalize, CallDealloc, Free],
      own_traverse = None,
      own_clear = None,
      tp_dealloc = Ty_WriteBatch,
      tp_traverse = None,
      tp_clear = None,
      has_gc = False,
      other_slots = [''tp_iter''],
      tp_methods = [(''put'', Keywords), (''merge'', Keywords), (''delete'', OneArg),
        (''clear'', NoArgs), (''data'', NoArgs), (''count'', NoArgs),
        (''__reduce_cython__'', NoArgs), (''__setstate_cython__'', OneArg)],
      tp_getset = []\<rparr>"

definition DB_type :: type_def where
  "DB_type =
     \<lparr>tp_name = ''rocksdb._rocksdb.DB'',
      own_new = [Alloc, SetVtab, InitNone ''opts'', InitNone ''cf_handles'',
        InitNone ''cf_options'', Cinit True],
      own_dealloc = Some [Finalize, Untrack, CallDealloc, ClearField ''opts'',
        ClearField ''cf_handles'', ClearField ''cf_options'', Free],
      own_traverse = Some [Visit ''opts'', Visit ''cf_handles'', Visit ''cf_options''],
      own_clear = None,
      tp_dealloc = Ty_DB,
      tp_traverse = Some Ty_DB,
      tp_clear = None,
      has_gc = True,
      other_slots = [],
      tp_methods = [(''get_column_family'', OneArg), (''put'', Keywords), (''delete'', Keywords),
        (''merge'', Keywords), (''write'', Keywords), (''get'', Keywords),
        (''multi_get'', Keywords), (''key_may_exist'', Keywords), (''iterkeys'', Keywords),
        (''itervalues'', Keywords), (''iteritems'', Keywords), (''iterskeys'', Keywords),
        (''itersvalues'', Keywords), (''iterskeys'', Keywords), (''snapshot'', NoArgs),
        (''get_property'', Keywords), (''get_live_files_metadata'', NoArgs),
        (''compact_range'', Keywords), (''__parse_read_opts'', Keywords),
        (''create_column_family'', Keywords), (''drop_column_family'', OneArg),
        (''__reduce_cython__'', NoArgs), (''__setstate_cython__'', OneArg)],
      tp_getset = [(''column_families'', False), (''options'', False)]\<rparr>"

definition BackupEngine_type :: type_def where
  "BackupEngine_type =
     \<lparr>tp_name = ''rocksdb._rocksdb.BackupEngine'',
      own_new = [Alloc, Cinit True],
      own_dealloc = Some [Finalize, CallDealloc, Free],
      own_traverse = None,
      own_clear = None,
      tp_dealloc = Ty_BackupEngine,
      tp_traverse = None,
      tp_clear = None,
      has_gc = False,
      other_slots = [],
      tp_methods = [(''create_backup'', Keywords), (''restore_backup'', Keywords),
        (''restore_latest_backup'', Keywords), (''stop_backup'', NoArgs),
        (''purge_old_backups'', OneArg), (''delete_backup'', OneArg),
        (''get_backup_info'', NoArgs), (''__reduce_cython__'', NoArgs),
        (''__setstate_cython__'', OneArg)],
      tp_getset = []\<rparr>"

fun type_of :: "ext_type \<Rightarrow> type_def" where
  "type_of Ty_PyComparator = PyComparator_type"
| "type_of Ty_PyGenericComparator = PyGenericComparator_type"
| "type_of Ty_PyBytewiseComparator = PyBytewiseComparator_type"
| "type_of Ty_PyFilterPolicy = PyFilterPolicy_type"
| "type_of Ty_PyGenericFilterPolicy = PyGenericFilterPolicy_type"
| "type_of Ty_PyBloomFilterPolicy = PyBloomFilterPolicy_type"
| "type_of Ty_PyMergeOperator = PyMergeOperator_type"
| "type_of Ty_PyCache = PyCache_type"
| "type_of Ty_PyLRUCache = PyLRUCache_type"
| "type_of Ty_PySliceTransform = PySliceTransform_type"
| "type_of Ty_PyTableFactory = PyTableFactory_type"
| "type_of Ty_BlockBasedTableFactory = BlockBasedTableFactory_type"
| "type_of Ty_PlainTableFactory = PlainTableFactory_type"
| "type_of Ty_PyMemtableFactory = PyMemtableFactory_type"
| "type_of Ty_SkipListMemtableFactory = SkipListMemtableFactory_type"
| "type_of Ty_VectorMemtableFactory = VectorMemtableFactory_type"
| "type_of Ty_HashSkipListMemtableFactory = HashSkipListMemtableFactory_type"
| "type_of Ty_HashLinkListMemtableFactory = HashLinkListMemtableFactory_type"
| "type_of Ty_CompressionType = CompressionType_type"
| "type_of Ty_CompactionPri = CompactionPri_type"
| "type_of Ty_ColumnFamilyHandle_real = ColumnFamilyHandle_real_type"
| "type_of Ty_ColumnFamilyHandle = ColumnFamilyHandle_type"
| "type_of Ty_ColumnFamilyOptions = ColumnFamilyOptions_type"
| "type_of Ty_Options = Options_type"
| "type_of Ty_Snapshot = Snapshot_type"
| "type_of Ty_BaseIterator = BaseIterator_type"
| "type_of Ty_KeysIterator = KeysIterator_type"
| "type_of Ty_ValuesIterator = ValuesIterator_type"
| "type_of Ty_ItemsIterator = ItemsIterator_type"
| "type_of Ty_ReversedIterator = ReversedIterator_type"
| "type_of Ty_WriteBatchIterator = WriteBatchIterator_type"
| "type_of Ty_WriteBatch = WriteBatch_type"
| "type_of Ty_DB = DB_type"
| "type_of Ty_BackupEngine = BackupEngine_type"

definition all_types :: "ext_type list" where
  "all_types =
     [Ty_PyComparator, Ty_PyGenericComparator, Ty_PyBytewiseComparator, Ty_PyFilterPolicy,
      Ty_PyGenericFilterPolicy, Ty_PyBloomFilterPolicy, Ty_PyMergeOperator, Ty_PyCache,
      Ty_PyLRUCache, Ty_PySliceTransform, Ty_PyTableFactory, Ty_BlockBasedTableFactory,
      Ty_PlainTableFactory, Ty_PyMemtableFactory, Ty_SkipListMemtableFactory,
      Ty_VectorMemtableFactory, Ty_HashSkipListMemtableFactory, Ty_HashLinkListMemtableFactory,
      Ty_CompressionType, Ty_CompactionPri, Ty_ColumnFamilyHandle_real, Ty_ColumnFamilyHandle,
      Ty_ColumnFamilyOptions, Ty_Options, Ty_Snapshot, Ty_BaseIterator, Ty_KeysIterator,
      Ty_ValuesIterator, Ty_ItemsIterator, Ty_ReversedIterator, Ty_WriteBatchIterator,
      Ty_WriteBatch, Ty_DB, Ty_BackupEngine]"

lemma all_types_all: "t \<in> set all_types"
  by (cases t) (simp_all add: all_types_def)

lemma distinct_all_types: "distinct all_types"
  by (simp add: all_types_def)

text \<open>What is evaluated for each type of the list holds for every type.\<close>

instantiation ext_type :: enum
begin

definition "enum_ext_type = all_types"
definition "enum_all_ext_type P \<longleftrightarrow> list_all P all_types"
definition "enum_ex_ext_type P \<longleftrightarrow> list_ex P all_types"

instance
  by intro_classes
    (auto simp: enum_ext_type_def enum_all_ext_type_def enum_ex_ext_type_def all_types_all
      distinct_all_types list_all_iff list_ex_iff)

end

subsection \<open>Initialisation of the types\<close>

text \<open>
  Per type: the table of C methods (inherited first, then its own methods), the base type,
  \<open>PyType_Ready\<close>, the table put into the dictionary of the type, its name set in the module, the
  pickling methods put in place and the type pointer exported.
\<close>

datatype init_step =
    MakeVtable | InheritVtable ext_type | SetMethod string ext_type | SetBase ext_type | Ready
  | PutVtable | Publish | WeakList | SetupReduce | Export

definition PyComparator_type_init :: "init_step list" where
  "PyComparator_type_init =
     [MakeVtable, SetMethod ''get_ob'' Ty_PyComparator,
      SetMethod ''get_comparator'' Ty_PyComparator, SetMethod ''set_info_log'' Ty_PyComparator,
      Ready, PutVtable, SetupReduce, Export]"

definition PyGenericComparator_type_init :: "init_step list" where
  "PyGenericComparator_type_init =
     [MakeVtable, InheritVtable Ty_PyComparator, SetMethod ''get_ob'' Ty_PyGenericComparator,
      SetMethod ''get_comparator'' Ty_PyGenericComparator,
      SetMethod ''set_info_log'' Ty_PyGenericComparator, SetBase Ty_PyComparator, Ready,
      PutVtable, SetupReduce, Export]"

definition PyBytewiseComparator_type_init :: "init_step list" where
  "PyBytewiseComparator_type_init =
     [MakeVtable, InheritVtable Ty_PyComparator, SetMethod ''get_ob'' Ty_PyBytewiseComparator,
      SetMethod ''get_comparator'' Ty_PyBytewiseComparator, SetBase Ty_PyComparator, Ready,
      PutVtable, SetupReduce, Export]"

definition PyFilterPolicy_type_init :: "init_step list" where
  "PyFilterPolicy_type_init =
     [MakeVtable, SetMethod ''get_ob'' Ty_PyFilterPolicy,
      SetMethod ''get_policy'' Ty_PyFilterPolicy, SetMethod ''set_info_log'' Ty_PyFilterPolicy,
      Ready, PutVtable, SetupReduce, Export]"

definition PyGenericFilterPolicy_type_init :: "init_step list" where
  "PyGenericFilterPolicy_type_init =
     [MakeVtable, InheritVtable Ty_PyFilterPolicy, SetMethod ''get_ob'' Ty_PyGenericFilterPolicy,
      SetMethod ''get_policy'' Ty_PyGenericFilterPolicy,
      SetMethod ''set_info_log'' Ty_PyGenericFilterPolicy, SetBase Ty_PyFilterPolicy, Ready,
      PutVtable, SetupReduce, Export]"

definition PyBloomFilterPolicy_type_init :: "init_step list" where
  "PyBloomFilterPolicy_type_init =
     [MakeVtable, InheritVtable Ty_PyFilterPolicy, SetMethod ''get_ob'' Ty_PyBloomFilterPolicy,
      SetMethod ''get_policy'' Ty_PyBloomFilterPolicy, SetBase Ty_PyFilterPolicy, Ready,
      PutVtable, SetupReduce, Export]"

definition PyMergeOperator_type_init :: "init_step list" where
  "PyMergeOperator_type_init =
     [MakeVtable, SetMethod ''get_ob'' Ty_PyMergeOperator,
      SetMethod ''get_operator'' Ty_PyMergeOperator, Ready, PutVtable, SetupReduce, Export]"

definition PyCache_type_init :: "init_step list" where
  "PyCache_type_init =
     [MakeVtable, SetMethod ''get_cache'' Ty_PyCache, Ready, PutVtable, SetupReduce, Export]"

definition PyLRUCache_type_init :: "init_step list" where
  "PyLRUCache_type_init =
     [MakeVtable, InheritVtable Ty_PyCache, SetMethod ''get_cache'' Ty_PyLRUCache,
      SetBase Ty_PyCache, Ready, PutVtable, SetupReduce, Export]"

definition PySliceTransform_type_init :: "init_step list" where
  "PySliceTransform_type_init =
     [MakeVtable, SetMethod ''get_ob'' Ty_PySliceTransform,
      SetMethod ''get_transformer'' Ty_PySliceTransform,
      SetMethod ''set_info_log'' Ty_PySliceTransform, Ready, PutVtable, SetupReduce, Export]"

definition PyTableFactory_type_init :: "init_step list" where
  "PyTableFactory_type_init =
     [MakeVtable, SetMethod ''get_table_factory'' Ty_PyTableFactory,
      SetMethod ''set_info_log'' Ty_PyTableFactory, Ready, PutVtable, SetupReduce, Export]"

definition BlockBasedTableFactory_type_init :: "init_step list" where
  "BlockBasedTableFactory_type_init =
     [MakeVtable, InheritVtable Ty_PyTableFactory,
      SetMethod ''set_info_log'' Ty_BlockBasedTableFactory, SetBase Ty_PyTableFactory, Ready,
      PutVtable, Publish, SetupReduce, Export]"

definition PlainTableFactory_type_init :: "init_step list" where
  "PlainTableFactory_type_init =
     [MakeVtable, InheritVtable Ty_PyTableFactory, SetBase Ty_PyTableFactory, Ready, PutVtable,
      Publish, SetupReduce, Export]"

definition PyMemtableFactory_type_init :: "init_step list" where
  "PyMemtableFactory_type_init =
     [MakeVtable, SetMethod ''get_memtable_factory'' Ty_PyMemtableFactory, Ready, PutVtable,
      SetupReduce, Export]"

definition SkipListMemtableFactory_type_init :: "init_step list" where
  "SkipListMemtableFactory_type_init =
     [MakeVtable, InheritVtable Ty_PyMemtableFactory, SetBase Ty_PyMemtableFactory, Ready,
      PutVtable, Publish, SetupReduce, Export]"

definition VectorMemtableFactory_type_init :: "init_step list" where
  "VectorMemtableFactory_type_init =
     [MakeVtable, InheritVtable Ty_PyMemtableFactory, SetBase Ty_PyMemtableFactory, Ready,
      PutVtable, Publish, SetupReduce, Export]"

definition HashSkipListMemtableFactory_type_init :: "init_step list" where
  "HashSkipListMemtableFactory_type_init =
     [MakeVtable, InheritVtable Ty_PyMemtableFactory, SetBase Ty_PyMemtableFactory, Ready,
      PutVtable, Publish, SetupReduce, Export]"

definition HashLinkListMemtableFactory_type_init :: "init_step list" where
  "HashLinkListMemtableFactory_type_init =
     [MakeVtable, InheritVtable Ty_PyMemtableFactory, SetBase Ty_PyMemtableFactory, Ready,
      PutVtable, Publish, SetupReduce, Export]"

definition CompressionType_type_init :: "init_step list" where
  "CompressionType_type_init =
     [Ready, Publish, SetupReduce, Export]"

definition CompactionPri_type_init :: "init_step list" where
  "CompactionPri_type_init =
     [Ready, Publish, SetupReduce, Export]"

definition ColumnFamilyHandle_real_type_init :: "init_step list" where
  "ColumnFamilyHandle_real_type_init =
     [MakeVtable, SetMethod ''from_handle_ptr'' Ty_ColumnFamilyHandle_real, Ready, PutVtable,
      WeakList, SetupReduce, Export]"

definition ColumnFamilyHandle_type_init :: "init_step list" where
  "ColumnFamilyHandle_type_init =
     [MakeVtable, SetMethod ''from_wrapper'' Ty_ColumnFamilyHandle,
      SetMethod ''get_handle'' Ty_ColumnFamilyHandle, Ready, PutVtable, Publish, SetupReduce,
      Export]"

definition ColumnFamilyOptions_type_init :: "init_step list" where
  "ColumnFamilyOptions_type_init =
     [Ready, Publish, SetupReduce, Export]"

definition Options_type_init :: "init_step list" where
  "Options_type_init =
     [SetBase Ty_ColumnFamilyOptions, Ready, Publish, SetupReduce, Export]"

definition Snapshot_type_init :: "init_step list" where
  "Snapshot_type_init =
     [Ready, SetupReduce, Export]"

definition BaseIterator_type_init :: "init_step list" where
  "BaseIterator_type_init =
     [MakeVtable, SetMethod ''seek_to_first'' Ty_BaseIterator,
      SetMethod ''seek_to_last'' Ty_BaseIterator, SetMethod ''seek'' Ty_BaseIterator,
      SetMethod ''seek_for_prev'' Ty_BaseIterator, SetMethod ''get_ob'' Ty_BaseIterator, Ready,
      PutVtable, SetupReduce, Export]"

definition KeysIterator_type_init :: "init_step list" where
  "KeysIterator_type_init =
     [MakeVtable, InheritVtable Ty_BaseIterator, SetMethod ''get_ob'' Ty_KeysIterator,
      SetBase Ty_BaseIterator, Ready, PutVtable, SetupReduce, Export]"

definition ValuesIterator_type_init :: "init_step list" where
  "ValuesIterator_type_init =
     [MakeVtable, InheritVtable Ty_BaseIterator, SetMethod ''get_ob'' Ty_ValuesIterator,
      SetBase Ty_BaseIterator, Ready, PutVtable, SetupReduce, Export]"

definition ItemsIterator_type_init :: "init_step list" where
  "ItemsIterator_type_init =
     [MakeVtable, InheritVtable Ty_BaseIterator, SetMethod ''get_ob'' Ty_ItemsIterator,
      SetBase Ty_BaseIterator, Ready, PutVtable, SetupReduce, Export]"

definition ReversedIterator_type_init :: "init_step list" where
  "ReversedIterator_type_init =
     [Ready, SetupReduce, Export]"

definition WriteBatchIterator_type_init :: "init_step list" where
  "WriteBatchIterator_type_init =
     [Ready, SetupReduce, Export]"

definition WriteBatch_type_init :: "init_step list" where
  "WriteBatch_type_init =
     [Ready, Publish, SetupReduce, Export]"

definition DB_type_init :: "init_step list" where
  "DB_type_init =
     [MakeVtable, SetMethod ''build_read_opts'' Ty_DB, Ready, PutVtable, Publish, SetupReduce,
      Export]"

definition BackupEngine_type_init :: "init_step list" where
  "BackupEngine_type_init =
     [Ready, Publish, SetupReduce, Export]"

definition modinit_type_init_code :: "(ext_type \<times> init_step list) list" where
  "modinit_type_init_code =
     [(Ty_PyComparator, PyComparator_type_init),
      (Ty_PyGenericComparator, PyGenericComparator_type_init),
      (Ty_PyBytewiseComparator, PyBytewiseComparator_type_init),
      (Ty_PyFilterPolicy, PyFilterPolicy_type_init),
      (Ty_PyGenericFilterPolicy, PyGenericFilterPolicy_type_init),
      (Ty_PyBloomFilterPolicy, PyBloomFilterPolicy_type_init),
      (Ty_PyMergeOperator, PyMergeOperator_type_init), (Ty_PyCache, PyCache_type_init),
      (Ty_PyLRUCache, PyLRUCache_type_init), (Ty_PySliceTransform, PySliceTransform_type_init),
      (Ty_PyTableFactory, PyTableFactory_type_init),
      (Ty_BlockBasedTableFactory, BlockBasedTableFactory_type_init),
      (Ty_PlainTableFactory, PlainTableFactory_type_init),
      (Ty_PyMemtableFactory, PyMemtableFactory_type_init),
      (Ty_SkipListMemtableFactory, SkipListMemtableFactory_type_init),
      (Ty_VectorMemtableFactory, VectorMemtableFactory_type_init),
      (Ty_HashSkipListMemtableFactory, HashSkipListMemtableFactory_type_init),
      (Ty_HashLinkListMemtableFactory, HashLinkListMemtableFactory_type_init),
      (Ty_CompressionType, CompressionType_type_init),
      (Ty_CompactionPri, CompactionPri_type_init),
      (Ty_ColumnFamilyHandle_real, ColumnFamilyHandle_real_type_init),
      (Ty_ColumnFamilyHandle, ColumnFamilyHandle_type_init),
      (Ty_ColumnFamilyOptions, ColumnFamilyOptions_type_init), (Ty_Options, Options_type_init),
      (Ty_Snapshot, Snapshot_type_init), (Ty_BaseIterator, BaseIterator_type_init),
      (Ty_KeysIterator, KeysIterator_type_init), (Ty_ValuesIterator, ValuesIterator_type_init),
      (Ty_ItemsIterator, ItemsIterator_type_init),
      (Ty_ReversedIterator, ReversedIterator_type_init),
      (Ty_WriteBatchIterator, WriteBatchIterator_type_init),
      (Ty_WriteBatch, WriteBatch_type_init), (Ty_DB, DB_type_init),
      (Ty_BackupEngine, BackupEngine_type_init)]"

end
