(* ===== verification/ObjectLife.thy ===== *)
theory ObjectLife
  imports TypeTables "HOL-Library.Multiset"
begin

section \<open>The life of objects\<close>

text \<open>
  Objects are released by reference counting: when the last reference goes, the steps of \<open>tp_dealloc\<close>
  run, which may release further objects before they go on. The C++ objects behind the
  Python ones are deleted by \<open>__dealloc__\<close> on the way, and some of them use others: an iterator or a
  snapshot its database, a database the hooks of its options.
\<close>

subsection \<open>What \<open>__dealloc__\<close> does\<close>

text \<open>
  The first name is the pointer that is tested for \<open>NULL\<close>; \<open>EmptyList\<close> is \<open>clear()\<close> of a list the
  object holds, which releases the items from the last to the first, \<open>NullPtr\<close> an assignment of
  \<open>NULL\<close>. \<open>EmptyButLast\<close> is the loop of \<open>DB.__dealloc__\<close> over \<open>cf_options\<close> with the \<open>clear()\<close> after it: the
  local variable \<open>copts\<close> still holds the last item, until the function ends; the list stands for
  that variable meanwhile. The marks \<open>in_use\<close> of options that \<open>DB.__dealloc__\<close>
  resets are modelled in \<open>Families\<close>.
\<close>

datatype prim =
    EmptyList string string | EmptyButLast string string | NullPtr string string | DeletePtr string | Drop string | DropItems
  | FreeMem

definition PyGenericComparator_dealloc_body :: "prim list" where
  "PyGenericComparator_dealloc_body = [DeletePtr ''comparator_ptr'']"

definition ColumnFamilyHandle_real_dealloc_body :: "prim list" where
  "ColumnFamilyHandle_real_dealloc_body = [DeletePtr ''handle'']"

definition ColumnFamilyOptions_dealloc_body :: "prim list" where
  "ColumnFamilyOptions_dealloc_body = [DeletePtr ''copts'']"

definition Options_dealloc_body :: "prim list" where
  "Options_dealloc_body = [NullPtr ''opts'' ''copts'', DeletePtr ''opts'']"

definition WriteBatch_dealloc_body :: "prim list" where
  "WriteBatch_dealloc_body = [DeletePtr ''batch'']"

definition DB_dealloc_body :: "prim list" where
  "DB_dealloc_body =
     [EmptyList ''db'' ''cf_handles'', EmptyButLast ''db'' ''cf_options'', DeletePtr ''db'',
      EmptyList ''db'' ''cf_options'']"

definition Snapshot_dealloc_body :: "prim list" where
  "Snapshot_dealloc_body = [DeletePtr ''ptr'']"

definition BaseIterator_dealloc_body :: "prim list" where
  "BaseIterator_dealloc_body = [DeletePtr ''ptr'']"

definition BackupEngine_dealloc_body :: "prim list" where
  "BackupEngine_dealloc_body = [DeletePtr ''engine'']"

fun dealloc_body :: "ext_type \<Rightarrow> prim list" where
  "dealloc_body Ty_PyGenericComparator = PyGenericComparator_dealloc_body"
| "dealloc_body Ty_ColumnFamilyHandle_real = ColumnFamilyHandle_real_dealloc_body"
| "dealloc_body Ty_ColumnFamilyOptions = ColumnFamilyOptions_dealloc_body"
| "dealloc_body Ty_Options = Options_dealloc_body"
| "dealloc_body Ty_WriteBatch = WriteBatch_dealloc_body"
| "dealloc_body Ty_DB = DB_dealloc_body"
| "dealloc_body Ty_Snapshot = Snapshot_dealloc_body"
| "dealloc_body Ty_BaseIterator = BaseIterator_dealloc_body"
| "dealloc_body Ty_BackupEngine = BackupEngine_dealloc_body"
| "dealloc_body _ = []"

text \<open>
  The steps of \<open>tp_dealloc\<close> with those of the base in place, and what of them matters here. The
  finalizer exists only in Python subclasses, tracking concerns the collector, and the C++ members
  that are destroyed are shared pointers.
\<close>

fun expand :: "nat \<Rightarrow> ext_type \<Rightarrow> (ext_type \<times> dealloc_step) list" where
  "expand 0 t = []"
| "expand (Suc n) t =
     concat (map (\<lambda>s. case s of DeallocBase b \<Rightarrow> expand n b | _ \<Rightarrow> [(t, s)])
       (case own_dealloc (type_of t) of None \<Rightarrow> [] | Some steps \<Rightarrow> steps))"

fun prims :: "ext_type \<times> dealloc_step \<Rightarrow> prim list" where
  "prims (t, CallDealloc) = dealloc_body t"
| "prims (t, ClearField f) = [Drop f]"
| "prims (t, Free) = [FreeMem]"
| "prims (t, _) = []"

datatype kind = Ext ext_type | Builtin

text \<open>Objects of Python itself release what they refer to.\<close>

fun program :: "kind \<Rightarrow> prim list" where
  "program (Ext t) = concat (map prims (expand 3 (tp_dealloc (type_of t))))"
| "program Builtin = [DropItems, FreeMem]"

subsection \<open>Releasing a reference\<close>

datatype phase = Live | Dying | Freed

text \<open>
  An object has the fields that refer to other objects (those that hold \<open>None\<close> are left out), the
  items of a container (\<open>None\<close> is an object like others there), and the pointers to C++ objects that are not \<open>NULL\<close>.
\<close>

record ext_obj =
  okind :: kind
  refcnt :: nat
  attrs :: "(string \<times> nat) list"
  contents :: "nat list"
  ptrs :: "(string \<times> nat) list"
  status :: phase

type_synonym objects = "ext_obj list"

text \<open>
  \<open>Deleted x p n H\<close>: the pointer \<open>p\<close> of object \<open>x\<close>, to the C++ object \<open>n\<close>, is deleted in state \<open>H\<close>;
  \<open>Dangling x\<close>: a reference to an object that is gone is released.
\<close>

datatype event = Deleted nat string nat objects | Dangling nat

datatype task = Decref nat | Step nat prim

fun exec_prim :: "nat \<Rightarrow> prim \<Rightarrow> objects \<Rightarrow> nat list \<times> objects \<times> event list" where
  "exec_prim x (EmptyList g f) H =
     (case (map_of (ptrs (H ! x)) g, map_of (attrs (H ! x)) f) of
        (Some _, Some l) \<Rightarrow>
          if l < length H then (rev (contents (H ! l)), H[l := (H ! l)\<lparr>contents := []\<rparr>], [])
          else ([], H, [Dangling l])
      | _ \<Rightarrow> ([], H, []))"
| "exec_prim x (NullPtr g p) H =
     (case map_of (ptrs (H ! x)) g of
        None \<Rightarrow> ([], H, [])
      | Some _ \<Rightarrow> ([], H[x := (H ! x)\<lparr>ptrs := filter (\<lambda>q. fst q \<noteq> p) (ptrs (H ! x))\<rparr>], []))"
| "exec_prim x (DeletePtr p) H =
     (case map_of (ptrs (H ! x)) p of
        None \<Rightarrow> ([], H, [])
      | Some n \<Rightarrow> ([], H, [Deleted x p n H]))"
| "exec_prim x (Drop f) H =
     (map snd (filter (\<lambda>q. fst q = f) (attrs (H ! x))),
      H[x := (H ! x)\<lparr>attrs := filter (\<lambda>q. fst q \<noteq> f) (attrs (H ! x))\<rparr>], [])"
| "exec_prim x DropItems H = (contents (H ! x), H[x := (H ! x)\<lparr>contents := []\<rparr>], [])"
| "exec_prim x FreeMem H = ([], H[x := (H ! x)\<lparr>status := Freed\<rparr>], [])"
| "exec_prim x (EmptyButLast g f) H =
     (case (map_of (ptrs (H ! x)) g, map_of (attrs (H ! x)) f) of
        (Some _, Some l) \<Rightarrow>
          if l < length H
          then (let c = contents (H ! l); n = length c - 1
                in (rev (take n c), H[l := (H ! l)\<lparr>contents := drop n c\<rparr>], []))
          else ([], H, [Dangling l])
      | _ \<Rightarrow> ([], H, []))"

fun exec_task :: "task \<Rightarrow> objects \<Rightarrow> task list \<times> objects \<times> event list" where
  "exec_task (Decref x) H =
     (if x < length H \<and> status (H ! x) = Live then
        (if refcnt (H ! x) \<le> 1
         then (map (Step x) (program (okind (H ! x))), H[x := (H ! x)\<lparr>refcnt := 0, status := Dying\<rparr>], [])
         else ([], H[x := (H ! x)\<lparr>refcnt := refcnt (H ! x) - 1\<rparr>], []))
      else ([], H, [Dangling x]))"
| "exec_task (Step x p) H =
     (if x < length H then case exec_prim x p H of (rs, H', ev) \<Rightarrow> (map Decref rs, H', ev)
      else ([], H, [Dangling x]))"

text \<open>References of an object, and all of them.\<close>

definition refs_of :: "ext_obj \<Rightarrow> nat list" where
  "refs_of b = map snd (attrs b) @ contents b"

definition all_refs :: "objects \<Rightarrow> nat multiset" where
  "all_refs H = sum_list (map (\<lambda>b. mset (refs_of b)) H)"

definition live_count :: "objects \<Rightarrow> nat" where
  "live_count H = sum_list (map (\<lambda>b. if status b = Live then 1 else 0) H)"

lemma sum_list_update_add:
  fixes f :: "'a \<Rightarrow> 'b::comm_monoid_add"
  shows "i < length xs \<Longrightarrow> sum_list (map f (xs[i := y])) + f (xs ! i) = sum_list (map f xs) + f y"
proof (induction xs arbitrary: i)
  case (Cons a xs)
  show ?case
  proof (cases i)
    case (Suc j)
    then show ?thesis using Cons.IH [of j] Cons.prems by (simp add: add.assoc)
  qed (simp add: ac_simps)
qed simp

lemma all_refs_update:
  "i < length H \<Longrightarrow> all_refs (H[i := b]) + mset (refs_of (H ! i)) = all_refs H + mset (refs_of b)"
  unfolding all_refs_def by (rule sum_list_update_add)

lemma all_refs_same: "refs_of b = refs_of (H ! i) \<Longrightarrow> all_refs (H[i := b]) = all_refs H"
proof (cases "i < length H")
  case True
  assume "refs_of b = refs_of (H ! i)"
  then show ?thesis using all_refs_update [OF True, of b] by simp
qed (simp add: list_update_beyond)

lemma live_count_update:
  "i < length H \<Longrightarrow> live_count (H[i := b]) + (if status (H ! i) = Live then 1 else 0) =
     live_count H + (if status b = Live then 1 else 0)"
  unfolding live_count_def by (rule sum_list_update_add)

lemma live_count_le:
  assumes "status b = Live \<longrightarrow> status (H ! i) = Live"
  shows "live_count (H[i := b]) \<le> live_count H"
proof (cases "i < length H")
  case True
  then show ?thesis using live_count_update [OF True, of b] assms by (auto split: if_splits)
qed (simp add: list_update_beyond)

text \<open>A step hands over exactly the references it removes.\<close>

lemma mset_filter_split: "mset (map f (filter P xs)) + mset (map f (filter (\<lambda>x. \<not> P x) xs)) = mset (map f xs)"
  by (induction xs) auto

lemma mset_handed_over:
  assumes "A + B = C" "D + C = R + B"
  shows "A + D = (R::'a multiset)"
proof -
  have "(A + D) + B = D + (A + B)" by (simp only: ac_simps)
  also have "\<dots> = R + B" using assms by simp
  finally show ?thesis by simp
qed

lemma exec_prim_refs:
  assumes "exec_prim x p H = (rs, H', ev)" "x < length H"
  shows "mset rs + all_refs H' = all_refs H"
proof (cases "(x, p, H)" rule: exec_prim.cases)
  case (1 y g f K)
  show ?thesis
  proof (cases "map_of (ptrs (H ! x)) g = None \<or> map_of (attrs (H ! x)) f = None")
    case True
    then show ?thesis using assms 1 by (auto split: option.splits)
  next
    case False
    then obtain l where l: "map_of (attrs (H ! x)) f = Some l" "\<exists>n. map_of (ptrs (H ! x)) g = Some n" by auto
    then show ?thesis
      using assms 1 all_refs_update [of l H "(H ! l)\<lparr>contents := []\<rparr>"]
      by (auto simp: refs_of_def ac_simps split: if_splits)
  qed
next
  case (2 y g q K)
  then show ?thesis using assms by (auto simp: all_refs_same refs_of_def split: option.splits)
next
  case (3 y q K)
  then show ?thesis using assms by (auto split: option.splits)
next
  case (4 y f K)
  let ?b = "(H ! x)\<lparr>attrs := filter (\<lambda>q. fst q \<noteq> f) (attrs (H ! x))\<rparr>"
  have "mset rs + mset (refs_of ?b) = mset (refs_of (H ! x))"
    using 4 assms mset_filter_split [of snd "\<lambda>q. fst q = f" "attrs (H ! x)"]
    by (simp add: refs_of_def del: mset_filter)
  moreover have "all_refs H' + mset (refs_of (H ! x)) = all_refs H + mset (refs_of ?b)"
    using 4 assms all_refs_update [of x H ?b] by simp
  ultimately show ?thesis by (rule mset_handed_over)
next
  case (5 y K)
  then show ?thesis
    using assms all_refs_update [of x H "(H ! x)\<lparr>contents := []\<rparr>"]
    by (auto simp: refs_of_def ac_simps)
next
  case (6 y K)
  then show ?thesis using assms by (auto simp: all_refs_same refs_of_def)
next
  case (7 y g f K)
  show ?thesis
  proof (cases "\<exists>n l. map_of (ptrs (H ! x)) g = Some n \<and> map_of (attrs (H ! x)) f = Some l \<and> l < length H")
    case False
    then show ?thesis using assms 7 by (auto split: option.splits)
  next
    case True
    then obtain m l where l: "map_of (ptrs (H ! x)) g = Some m" "map_of (attrs (H ! x)) f = Some l" "l < length H"
      by auto
    let ?c = "contents (H ! l)"
    let ?b = "(H ! l)\<lparr>contents := drop (length ?c - 1) ?c\<rparr>"
    have r: "rs = rev (take (length ?c - 1) ?c)" "H' = H[l := ?b]"
      using assms 7 l by (auto simp: Let_def)
    have "mset (take (length ?c - 1) ?c) + mset (drop (length ?c - 1) ?c) = mset ?c"
      by (simp add: append_take_drop_id flip: mset_append)
    then have "mset rs + mset (refs_of ?b) = mset (refs_of (H ! l))"
      unfolding r(1) by (simp add: refs_of_def ac_simps)
    moreover have "all_refs H' + mset (refs_of (H ! l)) = all_refs H + mset (refs_of ?b)"
      unfolding r(2) by (rule all_refs_update [OF l(3)])
    ultimately show ?thesis by (rule mset_handed_over)
  qed
qed

lemma exec_prim_live:
  assumes "exec_prim x p H = (rs, H', ev)" "x < length H"
  shows "live_count H' \<le> live_count H"
  using assms
  by (cases "(x, p, H)" rule: exec_prim.cases)
    (auto simp: Let_def split: option.splits if_splits intro!: live_count_le)

definition work_order :: "((task list \<times> objects) \<times> task list \<times> objects) set" where
  "work_order = inv_image (less_than <*lex*> less_than <*lex*> less_than)
     (\<lambda>(ts, H). (live_count H, size (all_refs H), length ts))"

lemma wf_work_order: "wf work_order"
  by (auto simp: work_order_def)

lemma exec_task_decreases:
  assumes e: "exec_task t H = (new, H', ev)"
  shows "((new @ ts, H'), t # ts, H) \<in> work_order"
proof (cases t)
  case (Decref x)
  show ?thesis
  proof (cases "x < length H \<and> status (H ! x) = Live")
    case True
    show ?thesis
    proof (cases "refcnt (H ! x) \<le> 1")
      case True
      then show ?thesis
        using e Decref \<open>x < length H \<and> status (H ! x) = Live\<close>
          live_count_update [of x H "(H ! x)\<lparr>refcnt := 0, status := Dying\<rparr>"] by (auto simp: work_order_def)
    next
      case False
      then show ?thesis
        using e Decref \<open>x < length H \<and> status (H ! x) = Live\<close>
          live_count_update [of x H "(H ! x)\<lparr>refcnt := refcnt (H ! x) - 1\<rparr>"]
        by (auto simp: work_order_def all_refs_same refs_of_def)
    qed
  qed (use e Decref in \<open>auto simp: work_order_def\<close>)
next
  case (Step x p)
  show ?thesis
  proof (cases "x < length H")
    case True
    obtain rs where r: "exec_prim x p H = (rs, H', ev)" "new = map Decref rs"
      using e Step True by (auto split: prod.splits)
    have "size (all_refs H) = length rs + size (all_refs H')"
      using arg_cong [OF exec_prim_refs [OF r(1) True], of size] by simp
    then show ?thesis using exec_prim_live [OF r(1) True] r(2) by (cases rs) (auto simp: work_order_def)
  qed (use e Step in \<open>auto simp: work_order_def\<close>)
qed

text \<open>The tasks are worked off from the front: what a step releases comes before the next step.\<close>

function release :: "task list \<Rightarrow> objects \<Rightarrow> event list \<Rightarrow> objects \<times> event list" where
  "release [] H L = (H, L)"
| "release (t # ts) H L =
     (case exec_task t H of (new, H', ev) \<Rightarrow> release (new @ ts) H' (L @ ev))"
  by pat_completeness auto
termination
  by (relation "inv_image work_order (\<lambda>(ts, H, L). (ts, H))")
    (simp_all add: wf_inv_image wf_work_order, metis exec_task_decreases)

subsection \<open>Accounts\<close>

text \<open>
  References that are held outside the objects (by variables of the program) are counted by
  \<open>ext\<close>. The accounts are right when whatever is referred to is live and the count of each live
  object is the number of references to it, those that are about to be released included.
\<close>

definition pending :: "task list \<Rightarrow> nat \<Rightarrow> nat" where
  "pending ts x = count (mset ts) (Decref x)"

definition referred :: "(nat \<Rightarrow> nat) \<Rightarrow> task list \<Rightarrow> objects \<Rightarrow> nat \<Rightarrow> nat" where
  "referred ext ts H x = ext x + count (all_refs H) x + pending ts x"

definition counted :: "(nat \<Rightarrow> nat) \<Rightarrow> task list \<Rightarrow> objects \<Rightarrow> bool" where
  "counted ext ts H \<longleftrightarrow>
     (\<forall>x. 0 < referred ext ts H x \<longrightarrow> x < length H \<and> status (H ! x) = Live) \<and>
     (\<forall>x < length H. status (H ! x) = Live \<longrightarrow> 0 < refcnt (H ! x) \<and> refcnt (H ! x) = referred ext ts H x)"

lemma countedD:
  assumes "counted ext ts H"
  shows "0 < referred ext ts H x \<Longrightarrow> x < length H"
    and "0 < referred ext ts H x \<Longrightarrow> status (H ! x) = Live"
    and "x < length H \<Longrightarrow> status (H ! x) = Live \<Longrightarrow> 0 < refcnt (H ! x)"
    and "x < length H \<Longrightarrow> status (H ! x) = Live \<Longrightarrow> refcnt (H ! x) = referred ext ts H x"
  using assms by (auto simp: counted_def)

lemma countedI:
  assumes "\<And>x. 0 < referred ext ts H x \<Longrightarrow> x < length H \<and> status (H ! x) = Live"
    and "\<And>x. x < length H \<Longrightarrow> status (H ! x) = Live \<Longrightarrow> 0 < refcnt (H ! x) \<and> refcnt (H ! x) = referred ext ts H x"
  shows "counted ext ts H"
  unfolding counted_def using assms by blast

lemma counted_ref_live:
  assumes "counted ext ts H" "x \<in># all_refs H"
  shows "x < length H \<and> status (H ! x) = Live"
proof -
  have "0 < referred ext ts H x" using assms(2) by (simp add: referred_def)
  then show ?thesis using countedD(1,2) [OF assms(1)] by blast
qed

lemma nth_upd: "xs[i := b] ! j = (if i = j \<and> i < length xs then b else xs ! j)"
  by (cases "i < length xs") (auto simp: list_update_beyond)

lemma exec_prim_frame:
  assumes "exec_prim x p H = (rs, H', ev)"
  shows "length H' = length H"
    and "refcnt (H' ! y) = refcnt (H ! y)"
    and "okind (H' ! y) = okind (H ! y)"
    and "x < length H \<Longrightarrow> status (H' ! y) = (if y = x \<and> p = FreeMem then Freed else status (H ! y))"
  using assms
  by (cases p; auto simp: nth_upd Let_def split: option.splits if_splits)+

lemma counted_step:
  assumes "counted ext (Step x p # ts) H" "exec_prim x p H = (rs, H', ev)" "x < length H"
    and "status (H ! x) = Dying"
  shows "counted ext (map Decref rs @ ts) H'"
proof -
  note frame = exec_prim_frame [OF assms(2)]
  have pend: "count (mset (map Decref rs)) (Decref y) = count (mset rs) y" for y
    by (induction rs) auto
  have same: "referred ext (map Decref rs @ ts) H' y = referred ext (Step x p # ts) H y" for y
    using exec_prim_refs [OF assms(2,3), symmetric] pend [of y]
    by (simp add: referred_def pending_def)
  have live: "status (H' ! y) = Live \<longleftrightarrow> status (H ! y) = Live" for y
    using frame(4) [of y] assms(3,4) by auto
  show ?thesis
    using assms(1) unfolding counted_def same frame(1,2) live .
qed

lemma no_decref: "count (image_mset (Step x) M) (Decref y) = 0"
  by (auto simp: count_eq_zero_iff)

lemma counted_decref:
  assumes "counted ext (Decref x # ts) H" "exec_task (Decref x) H = (new, H', ev)"
  shows "counted ext (new @ ts) H'"
proof -
  have r: "0 < referred ext (Decref x # ts) H x" by (simp add: referred_def pending_def)
  have x: "x < length H" "status (H ! x) = Live" using countedD(1,2) [OF assms(1) r] by blast+
  have n: "refcnt (H ! x) = Suc (referred ext ts H x)"
    using countedD(4) [OF assms(1) x] by (simp add: referred_def pending_def)
  have others: "referred ext (Decref x # ts) H y = (if y = x then Suc (referred ext ts H x) else referred ext ts H y)"
    for y by (simp add: referred_def pending_def)
  show ?thesis
  proof (cases "refcnt (H ! x) \<le> 1")
    case True
    let ?b = "(H ! x)\<lparr>refcnt := 0, status := Dying\<rparr>"
    have e: "new = map (Step x) (program (okind (H ! x)))" "H' = H[x := ?b]"
      using assms(2) x True by auto
    have "all_refs H' = all_refs H" unfolding e by (simp add: all_refs_same refs_of_def)
    moreover have "pending (new @ ts) y = pending ts y" for y
      unfolding e pending_def by (simp add: no_decref)
    ultimately have same: "referred ext (new @ ts) H' y = referred ext ts H y" for y
      by (simp add: referred_def)
    have gone: "referred ext ts H x = 0" using n True by simp
    have now: "length H' = length H" "status (H' ! y) = (if y = x then Dying else status (H ! y))"
        "y \<noteq> x \<Longrightarrow> refcnt (H' ! y) = refcnt (H ! y)" for y
      using x by (auto simp: e(2) nth_upd)
    have old: "y \<noteq> x \<and> y < length H \<and> status (H ! y) = Live" if "0 < referred ext ts H y" for y
      using that gone countedD(1,2) [OF assms(1), of y] others [of y] by (cases "y = x") simp_all
    have kept: "0 < refcnt (H' ! y) \<and> refcnt (H' ! y) = referred ext ts H y"
      if "y < length H" "y \<noteq> x" "status (H ! y) = Live" for y
      using countedD(3,4) [OF assms(1) that(1,3)] others [of y] now(3) [OF that(2)] that(2) by simp
    show ?thesis
    proof (rule countedI)
      fix y assume y: "y < length H'" "status (H' ! y) = Live"
      then have "y \<noteq> x" "status (H ! y) = Live" using now(2) [of y] by (auto split: if_splits)
      then show "0 < refcnt (H' ! y) \<and> refcnt (H' ! y) = referred ext (new @ ts) H' y"
        unfolding same using y(1) now(1) by (intro kept) simp_all
    qed (use old in \<open>simp add: same now\<close>)
  next
    case False
    let ?b = "(H ! x)\<lparr>refcnt := refcnt (H ! x) - 1\<rparr>"
    have e: "new = []" "H' = H[x := ?b]" using assms(2) x False by auto
    have "all_refs H' = all_refs H" unfolding e by (simp add: all_refs_same refs_of_def)
    then have same: "referred ext (new @ ts) H' y = referred ext ts H y" for y
      by (simp add: referred_def e(1))
    have now: "length H' = length H" "status (H' ! y) = status (H ! y)"
        "refcnt (H' ! y) = (if y = x then refcnt (H ! x) - 1 else refcnt (H ! y))" for y
      using x by (auto simp: e(2) nth_upd)
    have old: "y < length H \<and> status (H ! y) = Live" if "0 < referred ext ts H y" for y
      using that countedD(1,2) [OF assms(1), of y] others [of y] x by (cases "y = x") simp_all
    have kept: "0 < refcnt (H' ! y) \<and> refcnt (H' ! y) = referred ext ts H y"
      if "y < length H" "status (H ! y) = Live" for y
      using countedD(3,4) [OF assms(1) that] others [of y] now(3) [of y] n False by (cases "y = x") simp_all
    show ?thesis
    proof (rule countedI)
      fix y assume "y < length H'" "status (H' ! y) = Live"
      then show "0 < refcnt (H' ! y) \<and> refcnt (H' ! y) = referred ext (new @ ts) H' y"
        unfolding same using now(1,2) by (intro kept) simp_all
    qed (use old in \<open>simp add: same now\<close>)
  qed
qed

end
