(* ===== verification/ReleaseOrder.thy ===== *)
theory ReleaseOrder
  imports ObjectLife
begin

section \<open>The order in which objects are destroyed\<close>

text \<open>
  What the releases of \<open>ObjectLife\<close> keep, whatever objects a program has: references are counted right, a
  C++ object is deleted once and after those that use it. Then what the garbage collector changes
  about that, and the consistency of the type tables the order depends on.
\<close>

subsection \<open>What the order of the steps has to guarantee\<close>

text \<open>The fields whose objects the C++ object behind a pointer uses.\<close>

definition native_uses :: "string \<Rightarrow> string list" where
  "native_uses p =
     (if p = ''ptr'' then [''db'']
      else if p = ''db'' then [''opts'']
      else if p = ''copts'' \<or> p = ''opts''
      then [''py_comparator'', ''py_merge_operator'', ''py_prefix_extractor'', ''py_table_factory'',
            ''py_memtable_factory'']
      else if p = ''comparator_ptr'' then [''ob'']
      else [])"






subsection \<open>Objects under way\<close>

text \<open>The steps still to be done for an object.\<close>

definition steps_of :: "nat \<Rightarrow> task list \<Rightarrow> prim list" where
  "steps_of x ts = concat (map (\<lambda>t. case t of Step y p \<Rightarrow> if y = x then [p] else [] | Decref y \<Rightarrow> []) ts)"

lemma steps_of_simps [simp]:
  "steps_of x [] = []"
  "steps_of x (ts @ us) = steps_of x ts @ steps_of x us"
  "steps_of x (Decref y # ts) = steps_of x ts"
  "steps_of x (Step y p # ts) = (if y = x then p # steps_of x ts else steps_of x ts)"
  by (simp_all add: steps_of_def)

lemma steps_of_decrefs [simp]: "steps_of x (map Decref rs) = []"
  by (induction rs) simp_all

lemma steps_of_own [simp]: "steps_of x (map (Step y) ps) = (if y = x then ps else [])"
  by (induction ps) auto

definition kept_attrs :: "prim list \<Rightarrow> (string \<times> nat) list \<Rightarrow> (string \<times> nat) list" where
  "kept_attrs us = filter (\<lambda>q. Drop (fst q) \<notin> set us)"

definition kept_ptrs :: "prim list \<Rightarrow> (string \<times> nat) list \<Rightarrow> (string \<times> nat) list" where
  "kept_ptrs us ps = filter (\<lambda>q. \<not> (\<exists>g \<in> fst ` set ps. NullPtr g (fst q) \<in> set us)) ps"


lemma kept_attrs_Nil [simp]: "kept_attrs [] as = as"
  by (simp add: kept_attrs_def)

lemma kept_ptrs_Nil [simp]: "kept_ptrs [] ps = ps"
  by (simp add: kept_ptrs_def)








subsection \<open>Deletions\<close>


fun native_of :: "event \<Rightarrow> nat option" where
  "native_of (Deleted x p n K) = Some n"
| "native_of (Dangling x) = None"















subsection \<open>The invariant\<close>











subsection \<open>The garbage collector\<close>

text \<open>
  For unreachable cycles the collector calls \<open>tp_clear\<close>, which drops the fields of an object before
  \<open>__dealloc__\<close> has run. The collector itself (of CPython) holds a reference to the object meanwhile
  and skips the objects that are gone and the types without \<open>tp_clear\<close>.
\<close>

fun cleared_fields :: "nat \<Rightarrow> ext_type \<Rightarrow> string list" where
  "cleared_fields 0 t = []"
| "cleared_fields (Suc n) t =
     concat (map (\<lambda>s. case s of ClearBase b \<Rightarrow> cleared_fields n b | ResetField f \<Rightarrow> [f])
       (case own_clear (type_of t) of None \<Rightarrow> [] | Some steps \<Rightarrow> steps))"

definition gc_fields :: "ext_type \<Rightarrow> string list" where
  "gc_fields t = (case tp_clear (type_of t) of None \<Rightarrow> [] | Some owner \<Rightarrow> cleared_fields 3 owner)"

definition gc_clear :: "nat \<Rightarrow> objects \<times> event list \<Rightarrow> objects \<times> event list" where
  "gc_clear x = (\<lambda>(H, L).
     if status (H ! x) \<noteq> Live then (H, L)
     else case okind (H ! x) of
            Builtin \<Rightarrow> (H, L)
          | Ext t \<Rightarrow> release (map (\<lambda>f. Step x (Drop f)) (gc_fields t) @ [Decref x])
              (H[x := (H ! x)\<lparr>refcnt := refcnt (H ! x) + 1\<rparr>]) L)"

definition collect :: "nat list \<Rightarrow> objects \<Rightarrow> objects \<times> event list" where
  "collect xs H = fold gc_clear xs (H, [])"

text \<open>The types whose \<open>tp_clear\<close> drops a field that the C++ object behind a pointer of theirs uses.\<close>

definition clears_too_early :: "ext_type \<Rightarrow> bool" where
  "clears_too_early t \<longleftrightarrow>
     list_ex (\<lambda>p. case p of DeletePtr q \<Rightarrow> list_ex (\<lambda>f. f \<in> set (gc_fields t)) (native_uses q) | _ \<Rightarrow> False)
       (program (Ext t))"

text \<open>
  A cycle: an iterator of a database whose comparator keeps the iterator alive. All of it is garbage.
\<close>

definition ext_object :: "ext_type \<Rightarrow> (string \<times> nat) list \<Rightarrow> (string \<times> nat) list \<Rightarrow> ext_obj" where
  "ext_object t as ps = \<lparr>okind = Ext t, refcnt = 1, attrs = as, contents = [], ptrs = ps, status = Live\<rparr>"

definition python_object :: "nat list \<Rightarrow> ext_obj" where
  "python_object xs = \<lparr>okind = Builtin, refcnt = 1, attrs = [], contents = xs, ptrs = [], status = Live\<rparr>"

definition garbage_cycle :: "ext_type \<Rightarrow> objects" where
  "garbage_cycle t =
     [ext_object t [(''db'', 1)] [(''ptr'', 100)],
      ext_object Ty_DB [(''opts'', 2), (''cf_handles'', 5), (''cf_options'', 6)] [(''db'', 200)],
      ext_object Ty_Options [(''py_comparator'', 3)] [(''opts'', 300), (''copts'', 300)],
      ext_object Ty_PyGenericComparator [(''ob'', 4)] [(''comparator_ptr'', 400)],
      python_object [0], python_object [], python_object []]"

subsection \<open>The tables agree\<close>

fun creation :: "nat \<Rightarrow> ext_type \<Rightarrow> new_step list" where
  "creation 0 t = []"
| "creation (Suc n) t =
     concat (map (\<lambda>s. case s of NewBase b \<Rightarrow> creation n b | _ \<Rightarrow> [s]) (own_new (type_of t)))"

fun visited_fields :: "nat \<Rightarrow> ext_type \<Rightarrow> string list" where
  "visited_fields 0 t = []"
| "visited_fields (Suc n) t =
     concat (map (\<lambda>s. case s of VisitBase b \<Rightarrow> visited_fields n b | Visit f \<Rightarrow> [f])
       (case own_traverse (type_of t) of None \<Rightarrow> [] | Some steps \<Rightarrow> steps))"

definition gc_visits :: "ext_type \<Rightarrow> string list" where
  "gc_visits t = (case tp_traverse (type_of t) of None \<Rightarrow> [] | Some owner \<Rightarrow> visited_fields 3 owner)"

definition new_fields :: "new_step list \<Rightarrow> string list" where
  "new_fields steps = concat (map (\<lambda>s. case s of InitNone f \<Rightarrow> [f] | _ \<Rightarrow> []) steps)"

definition new_members :: "new_step list \<Rightarrow> string list" where
  "new_members steps = concat (map (\<lambda>s. case s of ConstructMember f \<Rightarrow> [f] | _ \<Rightarrow> []) steps)"

definition old_fields :: "ext_type \<Rightarrow> string list" where
  "old_fields t = concat (map (\<lambda>(c, s). case s of ClearField f \<Rightarrow> [f] | _ \<Rightarrow> []) (expand 3 (tp_dealloc (type_of t))))"

definition old_members :: "ext_type \<Rightarrow> string list" where
  "old_members t = concat (map (\<lambda>(c, s). case s of DestroyMember f \<Rightarrow> [f] | _ \<Rightarrow> []) (expand 3 (tp_dealloc (type_of t))))"

definition same_items :: "string list \<Rightarrow> string list \<Rightarrow> bool" where
  "same_items xs ys \<longleftrightarrow> distinct xs \<and> distinct ys \<and> list_all (\<lambda>x. x \<in> set ys) xs \<and> list_all (\<lambda>y. y \<in> set xs) ys"

text \<open>
  The base is the one \<open>__Pyx_modinit_type_init_code\<close> puts into \<open>tp_base\<close>. The functions of a type call
  those of this base and of no other type, and a slot without a function of the type's own holds what
  the slot of the base holds.
\<close>

definition declared_base :: "ext_type \<Rightarrow> ext_type option" where
  "declared_base t =
     (case map_of modinit_type_init_code t of
        None \<Rightarrow> None
      | Some steps \<Rightarrow>
          (case concat (map (\<lambda>s. case s of SetBase b \<Rightarrow> [b] | _ \<Rightarrow> []) steps) of
             [] \<Rightarrow> None
           | b # _ \<Rightarrow> Some b))"

definition called_types :: "ext_type \<Rightarrow> ext_type list" where
  "called_types t =
     concat (map (\<lambda>s. case s of NewBase b \<Rightarrow> [b] | _ \<Rightarrow> []) (own_new (type_of t))) @
     concat (map (\<lambda>s. case s of DeallocBase b \<Rightarrow> [b] | _ \<Rightarrow> [])
       (case own_dealloc (type_of t) of None \<Rightarrow> [] | Some steps \<Rightarrow> steps)) @
     concat (map (\<lambda>s. case s of VisitBase b \<Rightarrow> [b] | _ \<Rightarrow> [])
       (case own_traverse (type_of t) of None \<Rightarrow> [] | Some steps \<Rightarrow> steps)) @
     concat (map (\<lambda>s. case s of ClearBase b \<Rightarrow> [b] | _ \<Rightarrow> [])
       (case own_clear (type_of t) of None \<Rightarrow> [] | Some steps \<Rightarrow> steps))"

definition inherits_slot :: "'a option \<Rightarrow> (type_def \<Rightarrow> ext_type option) \<Rightarrow> ext_type \<Rightarrow> bool" where
  "inherits_slot own slot t \<longleftrightarrow>
     slot (type_of t) =
       (if own \<noteq> None then Some t
        else case declared_base t of None \<Rightarrow> None | Some b \<Rightarrow> slot (type_of b))"

definition slots_inherited :: "ext_type \<Rightarrow> bool" where
  "slots_inherited t \<longleftrightarrow>
     list_all (\<lambda>b. declared_base t = Some b) (called_types t) \<and>
     inherits_slot (own_dealloc (type_of t)) (\<lambda>d. Some (tp_dealloc d)) t \<and>
     inherits_slot (own_traverse (type_of t)) tp_traverse t \<and>
     inherits_slot (own_clear (type_of t)) tp_clear t"

text \<open>
  Destruction releases exactly the fields and destroys exactly the members that creation made, also when
  a \<open>__cinit__\<close> on the way fails and the object is released at once. The collector is shown every field
  but the name of a handle, which is a \<open>bytes\<close> object, clears only fields it was shown, and knows of the
  types that have such fields and of no others; these leave it before they are destroyed.
\<close>

definition type_consistent :: "ext_type \<Rightarrow> bool" where
  "type_consistent t \<longleftrightarrow>
     (let made = creation 3 t; fs = new_fields made; gone = map snd (expand 3 (tp_dealloc (type_of t)))
      in same_items fs (old_fields t) \<and> same_items (new_members made) (old_members t) \<and>
         list_all (\<lambda>i. case made ! i of Cinit b \<Rightarrow> list_all (\<lambda>m. m \<in> set (new_members (take i made))) (old_members t)
           | _ \<Rightarrow> True) [0..<length made] \<and>
         same_items (gc_visits t) (filter (\<lambda>f. f \<noteq> ''name'') fs) \<and>
         list_all (\<lambda>f. f \<in> set (gc_visits t)) (gc_fields t) \<and>
         (has_gc (type_of t) \<longleftrightarrow> gc_visits t \<noteq> []) \<and>
         (has_gc (type_of t) \<longleftrightarrow> Untrack \<in> set gone) \<and>
         (tp_traverse (type_of t) = None \<longrightarrow> tp_clear (type_of t) = None) \<and>
         slots_inherited t)"

text \<open>
  C22. Every one of the 34 extension types is consistent: its creation, destruction, traversal and clearing
  functions and the flags of its type object name the same fields and C++ members, through all its
  bases; a failing \<open>__cinit__\<close> leaves nothing that is destroyed without having been constructed; the
  functions call those of the base the type is given when it is made ready, and where a type has none of
  its own the slot holds the function of that base.
\<close>

theorem types_consistent: "type_consistent t"
proof -
  have "list_all type_consistent all_types" by code_simp
  then show ?thesis using all_types_all by (simp add: list_all_iff)
qed

lemma count_mset_count_list: "count (mset xs) x = count_list xs x"
  by (induction xs) auto

lemma counted_by_check:
  assumes "\<And>x. length H \<le> x \<Longrightarrow> ext x = 0" "list_all (\<lambda>b. list_all (\<lambda>x. x < length H) (refs_of b)) H"
    and "list_all (\<lambda>x. if status (H ! x) = Live
      then 0 < refcnt (H ! x) \<and> refcnt (H ! x) = ext x + count_list (concat (map refs_of H)) x
      else ext x + count_list (concat (map refs_of H)) x = 0) [0..<length H]"
  shows "counted ext [] H"
proof -
  have refs: "count (all_refs H) x = count_list (concat (map refs_of H)) x" for x
    unfolding all_refs_def by (induction H) (auto simp: count_mset_count_list)
  have out: "count (all_refs H) x = 0" if "length H \<le> x" for x
    using assms(2) that unfolding refs by (fastforce simp: list_all_iff count_list_0_iff)
  have r: "referred ext [] H x = ext x + count_list (concat (map refs_of H)) x" for x
    by (simp add: referred_def pending_def refs)
  show ?thesis
  proof (rule countedI)
    fix x assume pos: "0 < referred ext [] H x"
    then have "x < length H" using assms(1) out refs unfolding r by (metis add_0 leI less_irrefl)
    then show "x < length H \<and> status (H ! x) = Live"
      using assms(3) pos unfolding r by (auto simp: list_all_iff split: if_splits)
  next
    fix x assume x: "x < length H" "status (H ! x) = Live"
    have "if status (H ! x) = Live
      then 0 < refcnt (H ! x) \<and> refcnt (H ! x) = ext x + count_list (concat (map refs_of H)) x
      else ext x + count_list (concat (map refs_of H)) x = 0"
      by (rule bspec [OF assms(3) [unfolded list_all_iff set_upt], of x]) (simp add: x(1))
    from this [unfolded if_P [OF x(2)]]
    show "0 < refcnt (H ! x) \<and> refcnt (H ! x) = referred ext [] H x"
      unfolding r .
  qed
qed


text \<open>
  A program holds an iterator and nothing else of what it needs (the database, its options and
  comparator), and the options of a second family of the database, with a comparator, or not. The last
  object is \<open>None\<close>, which the database keeps as the options of its default family.
\<close>

definition demo_objects :: "nat \<Rightarrow> objects" where
  "demo_objects held =
     [ext_object Ty_KeysIterator [(''db'', 1)] [(''ptr'', 100)],
      ext_object Ty_DB [(''opts'', 2), (''cf_handles'', 5), (''cf_options'', 6)] [(''db'', 200)],
      ext_object Ty_Options [(''py_comparator'', 3)] [(''opts'', 300), (''copts'', 300)],
      ext_object Ty_PyGenericComparator [(''ob'', 4)] [(''comparator_ptr'', 400)],
      python_object [], python_object [7], python_object [8, 11],
      ext_object Ty_ColumnFamilyHandle_real [] [(''handle'', 500)],
      (ext_object Ty_ColumnFamilyOptions [(''py_comparator'', 9)] [(''copts'', 600)])\<lparr>refcnt := 1 + held\<rparr>,
      ext_object Ty_PyGenericComparator [(''ob'', 10)] [(''comparator_ptr'', 700)],
      python_object [], (python_object [])\<lparr>refcnt := 2\<rparr>]"

definition demo_ext :: "nat \<Rightarrow> nat \<Rightarrow> nat" where
  "demo_ext held x = (if x = 0 \<or> x = 11 then 1 else if x = 8 then held else 0)"

lemma demo_ext_out: "length (demo_objects h) \<le> x \<Longrightarrow> demo_ext h x = 0"
  by (simp add: demo_objects_def demo_ext_def)


lemma demo_objects_unheld: "counted (demo_ext 0) [] (demo_objects 0)"
  by (rule counted_by_check [OF demo_ext_out]) (assumption, code_simp, code_simp)



text \<open>
  When the program does not hold the options of the second family any more, its comparator (700) and
  options (600) are deleted before the C++ database (200) that uses the comparator.
\<close>

lemma family_hooks_too_early:
  "counted (demo_ext 0) [] (demo_objects 0) \<and>
   map native_of (snd (release [Decref 0] (demo_objects 0) [])) =
     [Some 100, Some 500, Some 600, Some 700, Some 200, Some 300, Some 400]"
  by (rule conjI [OF demo_objects_unheld]) code_simp

subsection \<open>What the collector does to the order\<close>

text \<open>
  The garbage collector breaks the order that counting keeps. The types whose \<open>tp_clear\<close> drops a
  field that the C++ object behind them uses are the comparator, both options and all iterators (the
  snapshot and the database are declared without \<open>tp_clear\<close>). So when a cycle through an iterator is
  collected its database is deleted before it, and in one through a snapshot the comparator is
  deleted before the database that uses it.
\<close>

theorem collector_breaks_order:
  "filter clears_too_early all_types =
     [Ty_PyGenericComparator, Ty_ColumnFamilyOptions, Ty_Options, Ty_BaseIterator, Ty_KeysIterator,
      Ty_ValuesIterator, Ty_ItemsIterator] \<and>
   map native_of (snd (collect [0, 1, 2, 3] (garbage_cycle Ty_KeysIterator))) =
     [Some 200, Some 300, Some 400, Some 100] \<and>
   map native_of (snd (collect [0, 1, 2, 3] (garbage_cycle Ty_Snapshot))) =
     [Some 400, Some 100, Some 200, Some 300]"
proof (intro conjI)
  show "filter clears_too_early all_types =
     [Ty_PyGenericComparator, Ty_ColumnFamilyOptions, Ty_Options, Ty_BaseIterator, Ty_KeysIterator,
      Ty_ValuesIterator, Ty_ItemsIterator]"
    by code_simp
  show "map native_of (snd (collect [0, 1, 2, 3] (garbage_cycle Ty_KeysIterator))) =
     [Some 200, Some 300, Some 400, Some 100]"
    by code_simp
  show "map native_of (snd (collect [0, 1, 2, 3] (garbage_cycle Ty_Snapshot))) =
     [Some 400, Some 100, Some 200, Some 300]"
    by code_simp
qed

end
