(* ===== verification/TypeInit.thy ===== *)
theory TypeInit
  imports ReleaseOrder "HOL-Library.AList"
begin

section \<open>Making the types ready\<close>

text \<open>
  \<open>__Pyx_modinit_type_init_code\<close> of \<open>rocksdb/_rocksdb.cpp\<close> run step by step, with \<open>__Pyx_setup_reduce\<close>,
  which puts the pickling methods of each type in place, and the methods of the types that refuse
  to be pickled.
\<close>

subsection \<open>Types that refuse pickling\<close>

text \<open>
  Each of these types has methods \<open>__reduce_cython__\<close> and \<open>__setstate_cython__\<close> that raise \<open>TypeError\<close>, called
  with a constant of the module, \<open>__pyx_tuple_N\<close>; the first has no number in the code and is 1 here. What
  the constants hold is seen in \<open>ModuleImport\<close>.
\<close>

record refusal =
  reduce_tuple :: nat
  setstate_tuple :: nat

definition PyGenericComparator_pickling :: refusal where
  "PyGenericComparator_pickling = \<lparr>reduce_tuple = 1, setstate_tuple = 2\<rparr>"

definition PyBytewiseComparator_pickling :: refusal where
  "PyBytewiseComparator_pickling = \<lparr>reduce_tuple = 3, setstate_tuple = 4\<rparr>"

definition PyGenericFilterPolicy_pickling :: refusal where
  "PyGenericFilterPolicy_pickling = \<lparr>reduce_tuple = 5, setstate_tuple = 6\<rparr>"

definition PyBloomFilterPolicy_pickling :: refusal where
  "PyBloomFilterPolicy_pickling = \<lparr>reduce_tuple = 7, setstate_tuple = 8\<rparr>"

definition PyMergeOperator_pickling :: refusal where
  "PyMergeOperator_pickling = \<lparr>reduce_tuple = 9, setstate_tuple = 10\<rparr>"

definition PyLRUCache_pickling :: refusal where
  "PyLRUCache_pickling = \<lparr>reduce_tuple = 11, setstate_tuple = 12\<rparr>"

definition PySliceTransform_pickling :: refusal where
  "PySliceTransform_pickling = \<lparr>reduce_tuple = 13, setstate_tuple = 14\<rparr>"

definition PyTableFactory_pickling :: refusal where
  "PyTableFactory_pickling = \<lparr>reduce_tuple = 15, setstate_tuple = 16\<rparr>"

definition BlockBasedTableFactory_pickling :: refusal where
  "BlockBasedTableFactory_pickling = \<lparr>reduce_tuple = 17, setstate_tuple = 18\<rparr>"

definition PlainTableFactory_pickling :: refusal where
  "PlainTableFactory_pickling = \<lparr>reduce_tuple = 19, setstate_tuple = 20\<rparr>"

definition PyMemtableFactory_pickling :: refusal where
  "PyMemtableFactory_pickling = \<lparr>reduce_tuple = 21, setstate_tuple = 22\<rparr>"

definition SkipListMemtableFactory_pickling :: refusal where
  "SkipListMemtableFactory_pickling = \<lparr>reduce_tuple = 23, setstate_tuple = 24\<rparr>"

definition VectorMemtableFactory_pickling :: refusal where
  "VectorMemtableFactory_pickling = \<lparr>reduce_tuple = 25, setstate_tuple = 26\<rparr>"

definition HashSkipListMemtableFactory_pickling :: refusal where
  "HashSkipListMemtableFactory_pickling = \<lparr>reduce_tuple = 27, setstate_tuple = 28\<rparr>"

definition HashLinkListMemtableFactory_pickling :: refusal where
  "HashLinkListMemtableFactory_pickling = \<lparr>reduce_tuple = 29, setstate_tuple = 30\<rparr>"

definition ColumnFamilyHandle_real_pickling :: refusal where
  "ColumnFamilyHandle_real_pickling = \<lparr>reduce_tuple = 31, setstate_tuple = 32\<rparr>"

definition ColumnFamilyHandle_pickling :: refusal where
  "ColumnFamilyHandle_pickling = \<lparr>reduce_tuple = 35, setstate_tuple = 36\<rparr>"

definition ColumnFamilyOptions_pickling :: refusal where
  "ColumnFamilyOptions_pickling = \<lparr>reduce_tuple = 39, setstate_tuple = 40\<rparr>"

definition Options_pickling :: refusal where
  "Options_pickling = \<lparr>reduce_tuple = 42, setstate_tuple = 43\<rparr>"

definition Snapshot_pickling :: refusal where
  "Snapshot_pickling = \<lparr>reduce_tuple = 57, setstate_tuple = 58\<rparr>"

definition BaseIterator_pickling :: refusal where
  "BaseIterator_pickling = \<lparr>reduce_tuple = 59, setstate_tuple = 60\<rparr>"

definition KeysIterator_pickling :: refusal where
  "KeysIterator_pickling = \<lparr>reduce_tuple = 61, setstate_tuple = 62\<rparr>"

definition ValuesIterator_pickling :: refusal where
  "ValuesIterator_pickling = \<lparr>reduce_tuple = 63, setstate_tuple = 64\<rparr>"

definition ItemsIterator_pickling :: refusal where
  "ItemsIterator_pickling = \<lparr>reduce_tuple = 65, setstate_tuple = 66\<rparr>"

definition ReversedIterator_pickling :: refusal where
  "ReversedIterator_pickling = \<lparr>reduce_tuple = 67, setstate_tuple = 68\<rparr>"

definition WriteBatchIterator_pickling :: refusal where
  "WriteBatchIterator_pickling = \<lparr>reduce_tuple = 46, setstate_tuple = 47\<rparr>"

definition WriteBatch_pickling :: refusal where
  "WriteBatch_pickling = \<lparr>reduce_tuple = 44, setstate_tuple = 45\<rparr>"

definition DB_pickling :: refusal where
  "DB_pickling = \<lparr>reduce_tuple = 55, setstate_tuple = 56\<rparr>"

definition BackupEngine_pickling :: refusal where
  "BackupEngine_pickling = \<lparr>reduce_tuple = 69, setstate_tuple = 70\<rparr>"

lemmas refusal_defs =
  PyGenericComparator_pickling_def PyBytewiseComparator_pickling_def
  PyGenericFilterPolicy_pickling_def PyBloomFilterPolicy_pickling_def PyMergeOperator_pickling_def
  PyLRUCache_pickling_def PySliceTransform_pickling_def PyTableFactory_pickling_def
  BlockBasedTableFactory_pickling_def PlainTableFactory_pickling_def PyMemtableFactory_pickling_def
  SkipListMemtableFactory_pickling_def VectorMemtableFactory_pickling_def
  HashSkipListMemtableFactory_pickling_def HashLinkListMemtableFactory_pickling_def
  ColumnFamilyHandle_real_pickling_def ColumnFamilyHandle_pickling_def
  ColumnFamilyOptions_pickling_def Options_pickling_def Snapshot_pickling_def
  BaseIterator_pickling_def KeysIterator_pickling_def ValuesIterator_pickling_def
  ItemsIterator_pickling_def ReversedIterator_pickling_def WriteBatchIterator_pickling_def
  WriteBatch_pickling_def DB_pickling_def BackupEngine_pickling_def

text \<open>The five other types are pickled as modelled in \<open>Pickle\<close>.\<close>

fun refusal_of :: "ext_type \<Rightarrow> refusal option" where
  "refusal_of Ty_PyGenericComparator = Some PyGenericComparator_pickling"
| "refusal_of Ty_PyBytewiseComparator = Some PyBytewiseComparator_pickling"
| "refusal_of Ty_PyGenericFilterPolicy = Some PyGenericFilterPolicy_pickling"
| "refusal_of Ty_PyBloomFilterPolicy = Some PyBloomFilterPolicy_pickling"
| "refusal_of Ty_PyMergeOperator = Some PyMergeOperator_pickling"
| "refusal_of Ty_PyLRUCache = Some PyLRUCache_pickling"
| "refusal_of Ty_PySliceTransform = Some PySliceTransform_pickling"
| "refusal_of Ty_PyTableFactory = Some PyTableFactory_pickling"
| "refusal_of Ty_BlockBasedTableFactory = Some BlockBasedTableFactory_pickling"
| "refusal_of Ty_PlainTableFactory = Some PlainTableFactory_pickling"
| "refusal_of Ty_PyMemtableFactory = Some PyMemtableFactory_pickling"
| "refusal_of Ty_SkipListMemtableFactory = Some SkipListMemtableFactory_pickling"
| "refusal_of Ty_VectorMemtableFactory = Some VectorMemtableFactory_pickling"
| "refusal_of Ty_HashSkipListMemtableFactory = Some HashSkipListMemtableFactory_pickling"
| "refusal_of Ty_HashLinkListMemtableFactory = Some HashLinkListMemtableFactory_pickling"
| "refusal_of Ty_ColumnFamilyHandle_real = Some ColumnFamilyHandle_real_pickling"
| "refusal_of Ty_ColumnFamilyHandle = Some ColumnFamilyHandle_pickling"
| "refusal_of Ty_ColumnFamilyOptions = Some ColumnFamilyOptions_pickling"
| "refusal_of Ty_Options = Some Options_pickling"
| "refusal_of Ty_Snapshot = Some Snapshot_pickling"
| "refusal_of Ty_BaseIterator = Some BaseIterator_pickling"
| "refusal_of Ty_KeysIterator = Some KeysIterator_pickling"
| "refusal_of Ty_ValuesIterator = Some ValuesIterator_pickling"
| "refusal_of Ty_ItemsIterator = Some ItemsIterator_pickling"
| "refusal_of Ty_ReversedIterator = Some ReversedIterator_pickling"
| "refusal_of Ty_WriteBatchIterator = Some WriteBatchIterator_pickling"
| "refusal_of Ty_WriteBatch = Some WriteBatch_pickling"
| "refusal_of Ty_DB = Some DB_pickling"
| "refusal_of Ty_BackupEngine = Some BackupEngine_pickling"
| "refusal_of _ = None"

subsection \<open>Dictionaries of types\<close>

text \<open>
  What a lookup can find: a method of an extension type, by the name it was defined with, or a method
  of \<open>object\<close>.
\<close>

datatype attribute = Method ext_type string | ObjectMethod string

type_synonym type_dict = "(string \<times> attribute) list"

record init_state =
  dict_of :: "ext_type \<Rightarrow> type_dict"
  base_of :: "ext_type \<Rightarrow> ext_type option"
  vtable_of :: "ext_type \<Rightarrow> (string \<times> ext_type) list option"
  exported :: "ext_type list"
  published :: "ext_type list"

text \<open>Lookup along the chain of bases, which is at most three types long, and in \<open>object\<close> at last.\<close>

fun lookup_type :: "nat \<Rightarrow> init_state \<Rightarrow> string list \<Rightarrow> ext_type \<Rightarrow> string \<Rightarrow> attribute option" where
  "lookup_type 0 S obj t k = None"
| "lookup_type (Suc n) S obj t k =
     (case map_of (dict_of S t) k of
        Some a \<Rightarrow> Some a
      | None \<Rightarrow>
          (case base_of S t of
             Some b \<Rightarrow> lookup_type n S obj b k
           | None \<Rightarrow> if k \<in> set obj then Some (ObjectMethod k) else None))"

fun method_name :: "attribute \<Rightarrow> string" where
  "method_name (Method t k) = k"
| "method_name (ObjectMethod k) = k"

text \<open>\<open>PyDict_SetItem\<close> and \<open>PyDict_DelItem\<close> on the dictionary of the type; deletion needs the key there.\<close>

definition move_item :: "string \<Rightarrow> string \<Rightarrow> attribute \<Rightarrow> type_dict \<Rightarrow> type_dict option" where
  "move_item old new a d =
     (if map_of d old = None then None
      else Some (AList.delete old (AList.update new a d)))"

text \<open>
  \<open>__Pyx_setup_reduce\<close>: \<open>obj\<close> are the methods of \<open>object\<close>, which differ between versions of Python.
  \<open>None\<close> is the error exit.
\<close>

definition setup_setstate :: "string list \<Rightarrow> ext_type \<Rightarrow> init_state \<Rightarrow> init_state option" where
  "setup_setstate obj t S =
     (let setstate = lookup_type 3 S obj t ''__setstate__''
      in if (case setstate of None \<Rightarrow> True | Some a \<Rightarrow> method_name a = ''__setstate_cython__'')
         then (case lookup_type 3 S obj t ''__setstate_cython__'' of
                 Some a \<Rightarrow> map_option (\<lambda>d. S\<lparr>dict_of := (dict_of S)(t := d)\<rparr>)
                   (move_item ''__setstate_cython__'' ''__setstate__'' a (dict_of S t))
               | None \<Rightarrow> if setstate = None then None else Some S)
         else Some S)"

definition setup_reduce :: "string list \<Rightarrow> ext_type \<Rightarrow> init_state \<Rightarrow> init_state option" where
  "setup_reduce obj t S =
     (if lookup_type 3 S obj t ''__getstate__'' \<noteq> None then Some S
      else case lookup_type 3 S obj t ''__reduce_ex__'' of
             None \<Rightarrow> None
           | Some reduce_ex \<Rightarrow>
               if reduce_ex \<noteq> ObjectMethod ''__reduce_ex__'' then Some S
               else case lookup_type 3 S obj t ''__reduce__'' of
                      None \<Rightarrow> None
                    | Some reduce \<Rightarrow>
                        if reduce = ObjectMethod ''__reduce__'' \<or> method_name reduce = ''__reduce_cython__''
                        then (case lookup_type 3 S obj t ''__reduce_cython__'' of
                                Some a \<Rightarrow>
                                  Option.bind
                                    (map_option (\<lambda>d. S\<lparr>dict_of := (dict_of S)(t := d)\<rparr>)
                                      (move_item ''__reduce_cython__'' ''__reduce__'' a (dict_of S t)))
                                    (setup_setstate obj t)
                              | None \<Rightarrow>
                                  if reduce = ObjectMethod ''__reduce__'' then None
                                  else setup_setstate obj t S)
                        else Some S)"

subsection \<open>Running the initialisation\<close>

text \<open>
  The pointers of types and method tables that a step uses must be set: a base that has not been
  exported is a null pointer. \<open>PyType_Ready\<close> fills the dictionary from the table of methods.
\<close>

fun init_step_run :: "string list \<Rightarrow> ext_type \<Rightarrow> init_step \<Rightarrow> init_state \<Rightarrow> init_state option" where
  "init_step_run obj t MakeVtable S = Some (S\<lparr>vtable_of := (vtable_of S)(t := Some [])\<rparr>)"
| "init_step_run obj t (InheritVtable b) S =
     (case vtable_of S b of
        None \<Rightarrow> None
      | Some v \<Rightarrow> Some (S\<lparr>vtable_of := (vtable_of S)(t := Some v)\<rparr>))"
| "init_step_run obj t (SetMethod m c) S =
     (case vtable_of S t of
        None \<Rightarrow> None
      | Some v \<Rightarrow> Some (S\<lparr>vtable_of := (vtable_of S)(t := Some (AList.update m c v))\<rparr>))"
| "init_step_run obj t (SetBase b) S =
     (if b \<in> set (exported S) then Some (S\<lparr>base_of := (base_of S)(t := Some b)\<rparr>) else None)"
| "init_step_run obj t Ready S =
     Some (S\<lparr>dict_of := (dict_of S)(t := map (\<lambda>(m, _). (m, Method t m)) (tp_methods (type_of t)))\<rparr>)"
| "init_step_run obj t PutVtable S = (if vtable_of S t = None then None else Some S)"
| "init_step_run obj t Publish S = Some (S\<lparr>published := published S @ [t]\<rparr>)"
| "init_step_run obj t WeakList S = Some S"
| "init_step_run obj t SetupReduce S = setup_reduce obj t S"
| "init_step_run obj t Export S = Some (S\<lparr>exported := exported S @ [t]\<rparr>)"

fun init_steps_run :: "string list \<Rightarrow> (ext_type \<times> init_step) list \<Rightarrow> init_state \<Rightarrow> init_state option" where
  "init_steps_run obj [] S = Some S"
| "init_steps_run obj ((t, s) # rest) S = Option.bind (init_step_run obj t s S) (init_steps_run obj rest)"

definition init_start :: init_state where
  "init_start = \<lparr>dict_of = (\<lambda>_. []), base_of = (\<lambda>_. None), vtable_of = (\<lambda>_. None), exported = [], published = []\<rparr>"

definition run_type_init :: "string list \<Rightarrow> init_state option" where
  "run_type_init obj =
     init_steps_run obj (concat (map (\<lambda>(t, steps). map (Pair t) steps) modinit_type_init_code)) init_start"

text \<open>The methods of \<open>object\<close> before Python 3.11, and since.\<close>

definition object_methods :: "string list" where
  "object_methods = [''__reduce_ex__'', ''__reduce__'']"

definition object_methods_3_11 :: "string list" where
  "object_methods_3_11 = ''__getstate__'' # object_methods"

subsection \<open>The types after initialisation\<close>

text \<open>
  The reference for the tables of C methods: the functions \<open>__pyx_f_7rocksdb_8_rocksdb_<class>_<method>\<close> that
  are defined. A call should run the one of the nearest type on the way to the root that has one.
\<close>

definition c_functions :: "(ext_type \<times> string) list" where
  "c_functions =
     [(Ty_PyComparator, ''get_ob''), (Ty_PyComparator, ''get_comparator''),
      (Ty_PyComparator, ''set_info_log''), (Ty_PyGenericComparator, ''get_ob''),
      (Ty_PyGenericComparator, ''get_comparator''), (Ty_PyGenericComparator, ''set_info_log''),
      (Ty_PyBytewiseComparator, ''get_ob''), (Ty_PyBytewiseComparator, ''get_comparator''),
      (Ty_PyFilterPolicy, ''get_ob''), (Ty_PyFilterPolicy, ''get_policy''),
      (Ty_PyFilterPolicy, ''set_info_log''), (Ty_PyGenericFilterPolicy, ''get_ob''),
      (Ty_PyGenericFilterPolicy, ''get_policy''), (Ty_PyGenericFilterPolicy, ''set_info_log''),
      (Ty_PyBloomFilterPolicy, ''get_ob''), (Ty_PyBloomFilterPolicy, ''get_policy''),
      (Ty_PyMergeOperator, ''get_ob''), (Ty_PyMergeOperator, ''get_operator''),
      (Ty_PyCache, ''get_cache''), (Ty_PyLRUCache, ''get_cache''),
      (Ty_PySliceTransform, ''get_ob''), (Ty_PySliceTransform, ''get_transformer''),
      (Ty_PySliceTransform, ''set_info_log''), (Ty_PyTableFactory, ''get_table_factory''),
      (Ty_PyTableFactory, ''set_info_log''), (Ty_BlockBasedTableFactory, ''set_info_log''),
      (Ty_PyMemtableFactory, ''get_memtable_factory''),
      (Ty_ColumnFamilyHandle_real, ''from_handle_ptr''),
      (Ty_ColumnFamilyHandle, ''from_wrapper''), (Ty_ColumnFamilyHandle, ''get_handle''),
      (Ty_DB, ''build_read_opts''), (Ty_BaseIterator, ''seek_to_first''),
      (Ty_BaseIterator, ''seek_to_last''), (Ty_BaseIterator, ''seek''),
      (Ty_BaseIterator, ''seek_for_prev''), (Ty_BaseIterator, ''get_ob''),
      (Ty_KeysIterator, ''get_ob''), (Ty_ValuesIterator, ''get_ob''),
      (Ty_ItemsIterator, ''get_ob'')]"

fun definer :: "nat \<Rightarrow> ext_type \<Rightarrow> string \<Rightarrow> ext_type option" where
  "definer 0 t m = None"
| "definer (Suc n) t m =
     (if (t, m) \<in> set c_functions then Some t
      else case declared_base t of None \<Rightarrow> None | Some b \<Rightarrow> definer n b m)"

text \<open>The type whose function the table of \<open>t\<close> holds for the method \<open>m\<close>.\<close>

definition dispatched :: "init_state \<Rightarrow> ext_type \<Rightarrow> string \<Rightarrow> ext_type option" where
  "dispatched S t m = Option.bind (vtable_of S t) (\<lambda>v. map_of v m)"

definition c_names :: "string list" where
  "c_names = remdups (map snd c_functions)"

definition dispatches_right :: "init_state \<Rightarrow> ext_type \<Rightarrow> bool" where
  "dispatches_right S t \<longleftrightarrow>
     list_all (\<lambda>m. dispatched S t m = definer 3 t m) c_names \<and>
     (case vtable_of S t of None \<Rightarrow> True | Some v \<Rightarrow> list_all (\<lambda>m. m \<in> set c_names) (map fst v))"

lemma definer_other: "m \<notin> set c_names \<Longrightarrow> definer n t m = None"
proof (induction n arbitrary: t)
  case (Suc n)
  then have "(t, m) \<notin> set c_functions" by (force simp: c_names_def)
  then show ?case using Suc by (simp split: option.splits)
qed simp

lemma dispatches_rightD: "dispatches_right S t \<Longrightarrow> dispatched S t m = definer 3 t m"
proof (cases "m \<in> set c_names")
  case True
  then show "dispatches_right S t \<Longrightarrow> ?thesis" by (simp add: dispatches_right_def list_all_iff)
next
  case False
  assume "dispatches_right S t"
  then have "dispatched S t m = None"
    using False
    by (auto simp: dispatches_right_def list_all_iff dispatched_def map_of_eq_None_iff split: option.splits)
  then show ?thesis using definer_other [OF False] by simp
qed

text \<open>A type with a C++ object behind it: its destruction deletes a pointer or destroys a C++ member.\<close>

definition holds_native :: "ext_type \<Rightarrow> bool" where
  "holds_native t \<longleftrightarrow>
     list_ex (\<lambda>(c, s). case s of DestroyMember x \<Rightarrow> True | CallDealloc \<Rightarrow> dealloc_body c \<noteq> [] | _ \<Rightarrow> False)
       (expand 3 (tp_dealloc (type_of t)))"

definition refuses :: "string list \<Rightarrow> init_state \<Rightarrow> ext_type \<Rightarrow> bool" where
  "refuses obj S t \<longleftrightarrow>
     (case lookup_type 3 S obj t ''__reduce__'' of
        Some (Method c k) \<Rightarrow>
          k = ''__reduce_cython__'' \<and> c = t \<and> refusal_of c \<noteq> None
      | _ \<Rightarrow> False)"

definition pickling_safe :: "string list \<Rightarrow> init_state \<Rightarrow> bool" where
  "pickling_safe obj S \<longleftrightarrow> list_all (\<lambda>t. holds_native t \<longrightarrow> refuses obj S t) all_types"

text \<open>
  Since Python 3.11 \<open>object\<close> has a method \<open>__getstate__\<close>: \<open>__Pyx_setup_reduce\<close> finds it in every type and
  leaves the methods of \<open>object\<close> in place, so neither pickling nor its refusal is set up.
\<close>

definition reduces_as_object :: "string list \<Rightarrow> init_state \<Rightarrow> ext_type \<Rightarrow> bool" where
  "reduces_as_object obj S t \<longleftrightarrow> lookup_type 3 S obj t ''__reduce__'' = Some (ObjectMethod ''__reduce__'')"

lemma init_dispatch:
  "list_all (\<lambda>obj. case run_type_init obj of None \<Rightarrow> False | Some S \<Rightarrow>
     exported S = all_types \<and> list_all (dispatches_right S) all_types) [object_methods, object_methods_3_11]"
  by code_simp

lemma init_pickling:
  "case run_type_init object_methods of None \<Rightarrow> False | Some S \<Rightarrow> pickling_safe object_methods S"
  by code_simp

lemma no_pickling_since_3_11:
  "case run_type_init object_methods_3_11 of None \<Rightarrow> False | Some S \<Rightarrow>
     list_all (reduces_as_object object_methods_3_11 S) all_types"
  by code_simp

lemma init_result:
  assumes "obj \<in> {object_methods, object_methods_3_11}"
  obtains S where "run_type_init obj = Some S" "exported S = all_types" "\<And>t m. dispatched S t m = definer 3 t m"
proof -
  obtain S where S: "run_type_init obj = Some S" "exported S = all_types" "list_all (dispatches_right S) all_types"
    using init_dispatch assms by (auto split: option.splits)
  have "dispatched S t m = definer 3 t m" for t m
    using S(3) all_types_all [of t] by (intro dispatches_rightD) (simp add: list_all_iff)
  with S that show thesis by blast
qed

text \<open>
  C19. Initialising the types, before Python 3.11 and since: no step uses a type or a table of methods
  before it is ready, all 34 types are exported, and every C method of every type runs the function of the
  nearest type on the way to the root that defines one. Before 3.11 no type with a C++ object behind it can
  be pickled (its own refusing method is found under \<open>__reduce__\<close>, never one inherited from a type that
  can), so no copy ever shares the object; since 3.11 all types keep the \<open>__reduce__\<close> of \<open>object\<close>.
\<close>

theorem types_initialised:
  "(\<exists>S. run_type_init object_methods = Some S \<and> exported S = all_types \<and>
     (\<forall>t m. dispatched S t m = definer 3 t m) \<and> pickling_safe object_methods S) \<and>
   (\<exists>S. run_type_init object_methods_3_11 = Some S \<and> exported S = all_types \<and>
     (\<forall>t m. dispatched S t m = definer 3 t m) \<and> list_all (reduces_as_object object_methods_3_11 S) all_types)"
proof (intro conjI)
  obtain S where "run_type_init object_methods = Some S" "exported S = all_types"
    "\<And>t m. dispatched S t m = definer 3 t m" by (rule init_result [of object_methods]) simp_all
  then show "\<exists>S. run_type_init object_methods = Some S \<and> exported S = all_types \<and>
     (\<forall>t m. dispatched S t m = definer 3 t m) \<and> pickling_safe object_methods S"
    using init_pickling by simp
next
  obtain S where "run_type_init object_methods_3_11 = Some S" "exported S = all_types"
    "\<And>t m. dispatched S t m = definer 3 t m" by (rule init_result [of object_methods_3_11]) simp_all
  then show "\<exists>S. run_type_init object_methods_3_11 = Some S \<and> exported S = all_types \<and>
     (\<forall>t m. dispatched S t m = definer 3 t m) \<and> list_all (reduces_as_object object_methods_3_11 S) all_types"
    using no_pickling_since_3_11 by simp
qed

end
