(* ===== verification/Creation.thy ===== *)
theory Creation
  imports TypeInit
begin

section \<open>Making objects, and taking them apart when that fails\<close>

text \<open>
  What the \<open>__cinit__\<close> methods of \<open>rocksdb/_rocksdb.cpp\<close> do to the C++ objects behind an object, in
  the order of their steps, with every step that can fail. When one fails, \<open>tp_new\<close> releases the new object, so
  that its \<open>tp_dealloc\<close> meets it half made.
\<close>

subsection \<open>Steps\<close>

text \<open>
  \<open>MayRaise\<close> stands for calls of the interpreter; \<open>MakePtr\<close> and \<open>MakeMember\<close> make a C++
  object for a pointer or a shared pointer, or raise and leave it; \<open>DeleteRaw\<close> deletes what a pointer
  points to and keeps the pointer; \<open>Borrow\<close> points to an object that RocksDB owns. Where a method has branches,
  they do the same to the C++ objects. \<open>MakeOrAbort\<close> is a \<open>new\<close> outside any \<open>try\<close>, in
  \<open>ColumnFamilyOptions\<close>: an exception there is not handled by the module and leaves no object to release.
  \<open>OpenHandles p k\<close> opens a database with \<open>k\<close> families: RocksDB makes it and a handle for each family,
  or, when it fails, none of them; the handles are in a local vector. \<open>WrapHandle\<close> makes the wrapper
  of the next one and puts it into the list of the object.
\<close>

datatype cinit_step =
    SetNull string | MayRaise | StoreField string | MakePtr string | MakeOrAbort string | MakeMember string
  | DeleteRaw string | CopyPtr string string | Borrow string | OpenHandles string nat | WrapHandle

definition PyGenericComparator_cinit_steps :: "cinit_step list" where
  "PyGenericComparator_cinit_steps =
     [SetNull ''comparator_ptr'', MayRaise, StoreField ''ob'', MayRaise, MakePtr ''comparator_ptr'']"

definition PyBytewiseComparator_cinit_steps :: "cinit_step list" where
  "PyBytewiseComparator_cinit_steps =
     [Borrow ''comparator_ptr'']"

definition PyGenericFilterPolicy_cinit_steps :: "cinit_step list" where
  "PyGenericFilterPolicy_cinit_steps =
     [MayRaise, StoreField ''ob'', MayRaise, MakeMember ''policy'']"

definition PyBloomFilterPolicy_cinit_steps :: "cinit_step list" where
  "PyBloomFilterPolicy_cinit_steps =
     [MakeMember ''policy'']"

definition PyMergeOperator_cinit_steps :: "cinit_step list" where
  "PyMergeOperator_cinit_steps =
     [StoreField ''ob'', MayRaise, MakeMember ''merge_op'']"

definition PyLRUCache_cinit_steps :: "cinit_step list" where
  "PyLRUCache_cinit_steps =
     [MayRaise, MakeMember ''cache_ob'']"

definition PySliceTransform_cinit_steps :: "cinit_step list" where
  "PySliceTransform_cinit_steps =
     [MayRaise, StoreField ''ob'', MayRaise, MakeMember ''transfomer'']"

definition ColumnFamilyHandle_real_cinit_steps :: "cinit_step list" where
  "ColumnFamilyHandle_real_cinit_steps =
     [SetNull ''handle'']"

definition ColumnFamilyHandle_cinit_steps :: "cinit_step list" where
  "ColumnFamilyHandle_cinit_steps =
     [StoreField ''_ref'', MayRaise, StoreField ''name'', MayRaise]"

definition ColumnFamilyOptions_cinit_steps :: "cinit_step list" where
  "ColumnFamilyOptions_cinit_steps =
     [SetNull ''copts'', MakeOrAbort ''copts'']"

definition Options_cinit_steps :: "cinit_step list" where
  "Options_cinit_steps =
     [DeleteRaw ''copts'', SetNull ''opts'', MakePtr ''t_1'', CopyPtr ''copts'' ''t_1'', CopyPtr ''opts'' ''t_1'']"

definition Snapshot_cinit_steps :: "cinit_step list" where
  "Snapshot_cinit_steps =
     [StoreField ''db'', SetNull ''ptr'', MakePtr ''ptr'']"

definition BaseIterator_cinit_steps :: "cinit_step list" where
  "BaseIterator_cinit_steps =
     [StoreField ''db'', SetNull ''ptr'', StoreField ''handle'']"

definition ReversedIterator_cinit_steps :: "cinit_step list" where
  "ReversedIterator_cinit_steps =
     [StoreField ''it'']"

definition WriteBatch_cinit_steps :: "cinit_step list" where
  "WriteBatch_cinit_steps =
     [SetNull ''batch'', MayRaise, MakePtr ''batch'']"

text \<open>
  \<open>k\<close> is the number of families; before \<open>Open\<close> the arguments and the options are examined, and after
  the loop over the handles the logger is given to the hooks. Appending the wrapper is part of
  \<open>WrapHandle\<close> as far as the handle is concerned: if it fails the wrapper deletes its handle at once.
\<close>

definition DB_cinit_steps :: "nat \<Rightarrow> cinit_step list" where
  "DB_cinit_steps k =
     [SetNull ''db'', StoreField ''opts'', StoreField ''cf_handles'', StoreField ''cf_options'', MayRaise,
      OpenHandles ''db'' k] @ concat (replicate k [WrapHandle, MayRaise]) @ [MayRaise, StoreField ''opts'']"

definition BackupEngine_cinit_steps :: "cinit_step list" where
  "BackupEngine_cinit_steps =
     [SetNull ''engine'', MayRaise, MakePtr ''engine'']"

fun cinit_steps :: "nat \<Rightarrow> ext_type \<Rightarrow> cinit_step list" where
  "cinit_steps k Ty_PyGenericComparator = PyGenericComparator_cinit_steps"
| "cinit_steps k Ty_PyBytewiseComparator = PyBytewiseComparator_cinit_steps"
| "cinit_steps k Ty_PyGenericFilterPolicy = PyGenericFilterPolicy_cinit_steps"
| "cinit_steps k Ty_PyBloomFilterPolicy = PyBloomFilterPolicy_cinit_steps"
| "cinit_steps k Ty_PyMergeOperator = PyMergeOperator_cinit_steps"
| "cinit_steps k Ty_PyLRUCache = PyLRUCache_cinit_steps"
| "cinit_steps k Ty_PySliceTransform = PySliceTransform_cinit_steps"
| "cinit_steps k Ty_ColumnFamilyHandle_real = ColumnFamilyHandle_real_cinit_steps"
| "cinit_steps k Ty_ColumnFamilyHandle = ColumnFamilyHandle_cinit_steps"
| "cinit_steps k Ty_ColumnFamilyOptions = ColumnFamilyOptions_cinit_steps"
| "cinit_steps k Ty_Options = Options_cinit_steps"
| "cinit_steps k Ty_Snapshot = Snapshot_cinit_steps"
| "cinit_steps k Ty_BaseIterator = BaseIterator_cinit_steps"
| "cinit_steps k Ty_ReversedIterator = ReversedIterator_cinit_steps"
| "cinit_steps k Ty_WriteBatch = WriteBatch_cinit_steps"
| "cinit_steps k Ty_DB = DB_cinit_steps k"
| "cinit_steps k Ty_BackupEngine = BackupEngine_cinit_steps"
| "cinit_steps k _ = []"

subsection \<open>Running them\<close>

text \<open>
  C++ objects are numbered in the order they are made. \<open>freed\<close> lists those that were deleted, a second
  deletion of one again; \<open>loose\<close> are the handles that have no wrapper yet, \<open>wrapped\<close> those that the wrappers
  in the list of the object delete.
\<close>

record half_made =
  raw_ptrs :: "(string \<times> nat option) list"
  members :: "(string \<times> nat option) list"
  borrowed :: "string list"
  made :: nat
  freed :: "nat list"
  loose :: "nat list"
  wrapped :: "nat list"

definition pointer :: "half_made \<Rightarrow> string \<Rightarrow> nat option" where
  "pointer h p = (case map_of (raw_ptrs h) p of None \<Rightarrow> None | Some n \<Rightarrow> n)"

definition member :: "half_made \<Rightarrow> string \<Rightarrow> nat option" where
  "member h m = (case map_of (members h) m of None \<Rightarrow> None | Some n \<Rightarrow> n)"

definition set_pointer :: "string \<Rightarrow> nat option \<Rightarrow> half_made \<Rightarrow> half_made" where
  "set_pointer p v h = h\<lparr>raw_ptrs := AList.update p v (raw_ptrs h)\<rparr>"

definition free_native :: "nat option \<Rightarrow> half_made \<Rightarrow> half_made" where
  "free_native v h = (case v of None \<Rightarrow> h | Some n \<Rightarrow> h\<lparr>freed := freed h @ [n]\<rparr>)"

fun can_fail :: "cinit_step \<Rightarrow> bool" where
  "can_fail MayRaise = True"
| "can_fail (MakePtr p) = True"
| "can_fail (MakeMember m) = True"
| "can_fail (Borrow p) = True"
| "can_fail (OpenHandles p k) = True"
| "can_fail WrapHandle = True"
| "can_fail _ = False"

fun cinit_step_run :: "cinit_step \<Rightarrow> half_made \<Rightarrow> half_made" where
  "cinit_step_run (SetNull p) h = set_pointer p None h"
| "cinit_step_run MayRaise h = h"
| "cinit_step_run (StoreField f) h = h"
| "cinit_step_run (MakePtr p) h = (set_pointer p (Some (made h)) h)\<lparr>made := made h + 1\<rparr>"
| "cinit_step_run (MakeMember m) h =
     (let old = member h m
      in (free_native old h)\<lparr>members := AList.update m (Some (made h)) (members h), made := made h + 1\<rparr>)"
| "cinit_step_run (DeleteRaw p) h = free_native (pointer h p) h"
| "cinit_step_run (CopyPtr p q) h = set_pointer p (pointer h q) h"
| "cinit_step_run (Borrow p) h = h\<lparr>borrowed := p # borrowed h\<rparr>"
| "cinit_step_run (MakeOrAbort p) h = (set_pointer p (Some (made h)) h)\<lparr>made := made h + 1\<rparr>"
| "cinit_step_run (OpenHandles p k) h =
     (set_pointer p (Some (made h)) h)\<lparr>made := made h + 1 + k, loose := [made h + 1..<made h + 1 + k]\<rparr>"
| "cinit_step_run WrapHandle h = h\<lparr>loose := tl (loose h), wrapped := wrapped h @ take 1 (loose h)\<rparr>"

text \<open>All ways it can go: the first component says whether every step succeeded.\<close>

fun outcomes :: "cinit_step list \<Rightarrow> half_made \<Rightarrow> (bool \<times> half_made) list" where
  "outcomes [] h = [(True, h)]"
| "outcomes (s # steps) h =
     (if can_fail s then [(False, h)] else []) @ outcomes steps (cinit_step_run s h)"

text \<open>The \<open>tp_new\<close> of a type with those of its bases in place.\<close>

fun creation_steps :: "nat \<Rightarrow> nat \<Rightarrow> ext_type \<Rightarrow> cinit_step list" where
  "creation_steps 0 k t = []"
| "creation_steps (Suc n) k t =
     concat (map (\<lambda>s. case s of NewBase b \<Rightarrow> creation_steps n k b | Alloc \<Rightarrow> [MayRaise]
       | Cinit with_args \<Rightarrow> cinit_steps k t | _ \<Rightarrow> []) (own_new (type_of t)))"

definition unmade :: half_made where
  "unmade = \<lparr>raw_ptrs = [], members = [], borrowed = [], made = 0, freed = [], loose = [], wrapped = []\<rparr>"

definition creations :: "nat \<Rightarrow> ext_type \<Rightarrow> (bool \<times> half_made) list" where
  "creations k t = outcomes (creation_steps 3 k t) unmade"

text \<open>
  The \<open>tp_dealloc\<close> of the type on what was made; destroying a shared pointer frees its object, clearing
  the list of handles the wrapped handles, the last one first.
\<close>

fun prim_run :: "half_made \<Rightarrow> prim \<Rightarrow> half_made" where
  "prim_run h (DeletePtr p) = free_native (pointer h p) h"
| "prim_run h (NullPtr g p) = (if pointer h g = None then h else set_pointer p None h)"
| "prim_run h (EmptyList g f) =
     (if pointer h g = None \<or> f \<noteq> ''cf_handles'' then h
      else h\<lparr>freed := freed h @ rev (wrapped h), wrapped := []\<rparr>)"
| "prim_run h _ = h"

fun dealloc_step_run :: "half_made \<Rightarrow> ext_type \<times> dealloc_step \<Rightarrow> half_made" where
  "dealloc_step_run h (t, CallDealloc) = foldl prim_run h (dealloc_body t)"
| "dealloc_step_run h (t, DestroyMember m) =
     (free_native (member h m) h)\<lparr>members := AList.update m None (members h)\<rparr>"
| "dealloc_step_run h (t, s) = h"

definition discard :: "ext_type \<Rightarrow> half_made \<Rightarrow> half_made" where
  "discard t h = foldl dealloc_step_run h (expand 3 (tp_dealloc (type_of t)))"

subsection \<open>What is left\<close>

text \<open>
  After the release every C++ object that was made has been deleted, exactly once, except the handles
  that had no wrapper.
\<close>

definition released_once :: "half_made \<Rightarrow> bool" where
  "released_once h \<longleftrightarrow> mset (freed h) + mset (loose h) = mset [0..<made h]"

lemma released_onceD:
  assumes "released_once h"
  shows "distinct (freed h)" "set (freed h) = {0..<made h} - set (loose h)"
proof -
  have m: "mset (freed h @ loose h) = mset [0..<made h]"
    using assms by (simp add: released_once_def)
  have d: "distinct (freed h @ loose h)"
    using mset_eq_imp_distinct_iff [OF m] by simp
  then show "distinct (freed h)" by simp
  have "set (freed h) \<union> set (loose h) = {0..<made h}"
    using mset_eq_setD [OF m] by simp
  moreover have "set (freed h) \<inter> set (loose h) = {}" using d by auto
  ultimately show "set (freed h) = {0..<made h} - set (loose h)" by blast
qed











text \<open>Releasing an object does not touch the handles without a wrapper.\<close>

lemma loose_free [simp]: "loose (free_native v h) = loose h"
  by (simp add: free_native_def split: option.splits)

lemma loose_prim [simp]: "loose (prim_run h p) = loose h"
  by (cases p) (simp_all add: set_pointer_def)

lemma loose_prims [simp]: "loose (foldl prim_run h ps) = loose h"
  by (induction ps arbitrary: h) simp_all

lemma loose_step [simp]: "loose (dealloc_step_run h s) = loose h"
  by (cases "(h, s)" rule: dealloc_step_run.cases) simp_all



lemma options_deleted_twice:
  "map (\<lambda>(ok, h). freed (discard Ty_Options h)) (filter (\<lambda>(ok, h). freed h \<noteq> []) (creations 0 Ty_Options)) =
     [[0, 0], [0, 1]]"
  by code_simp

lemma handles_leaked:
  "map (\<lambda>(ok, h). (ok, loose h, freed (discard Ty_DB h))) (filter (\<lambda>(ok, h). loose h \<noteq> []) (creations 2 Ty_DB)) =
     [(False, [1, 2], [0]), (False, [2], [1, 0]), (False, [2], [1, 0])]"
  by code_simp

subsection \<open>The C methods that give out what an object holds\<close>

datatype c_result =
    NoneObject | SelfObject | FieldObject string | NullPointer | PointerIn string | MemberPointer string

definition PyComparator_get_ob_result :: c_result where
  "PyComparator_get_ob_result = NoneObject"

definition PyComparator_get_comparator_result :: c_result where
  "PyComparator_get_comparator_result = NullPointer"

definition PyGenericComparator_get_ob_result :: c_result where
  "PyGenericComparator_get_ob_result = FieldObject ''ob''"

definition PyGenericComparator_get_comparator_result :: c_result where
  "PyGenericComparator_get_comparator_result = PointerIn ''comparator_ptr''"

definition PyBytewiseComparator_get_ob_result :: c_result where
  "PyBytewiseComparator_get_ob_result = SelfObject"

definition PyBytewiseComparator_get_comparator_result :: c_result where
  "PyBytewiseComparator_get_comparator_result = PointerIn ''comparator_ptr''"

definition PyFilterPolicy_get_ob_result :: c_result where
  "PyFilterPolicy_get_ob_result = NoneObject"

definition PyFilterPolicy_get_policy_result :: c_result where
  "PyFilterPolicy_get_policy_result = NullPointer"

definition PyGenericFilterPolicy_get_ob_result :: c_result where
  "PyGenericFilterPolicy_get_ob_result = FieldObject ''ob''"

definition PyGenericFilterPolicy_get_policy_result :: c_result where
  "PyGenericFilterPolicy_get_policy_result = MemberPointer ''policy''"

definition PyBloomFilterPolicy_get_ob_result :: c_result where
  "PyBloomFilterPolicy_get_ob_result = SelfObject"

definition PyBloomFilterPolicy_get_policy_result :: c_result where
  "PyBloomFilterPolicy_get_policy_result = MemberPointer ''policy''"

definition PyMergeOperator_get_ob_result :: c_result where
  "PyMergeOperator_get_ob_result = FieldObject ''ob''"

definition PyMergeOperator_get_operator_result :: c_result where
  "PyMergeOperator_get_operator_result = MemberPointer ''merge_op''"

definition PyCache_get_cache_result :: c_result where
  "PyCache_get_cache_result = NullPointer"

definition PyLRUCache_get_cache_result :: c_result where
  "PyLRUCache_get_cache_result = MemberPointer ''cache_ob''"

definition PySliceTransform_get_ob_result :: c_result where
  "PySliceTransform_get_ob_result = FieldObject ''ob''"

definition PySliceTransform_get_transformer_result :: c_result where
  "PySliceTransform_get_transformer_result = MemberPointer ''transfomer''"

definition PyTableFactory_get_table_factory_result :: c_result where
  "PyTableFactory_get_table_factory_result = MemberPointer ''factory''"

definition PyMemtableFactory_get_memtable_factory_result :: c_result where
  "PyMemtableFactory_get_memtable_factory_result = MemberPointer ''factory''"

definition BaseIterator_get_ob_result :: c_result where
  "BaseIterator_get_ob_result = NoneObject"

definition c_methods :: "((ext_type \<times> string) \<times> c_result) list" where
  "c_methods =
     [((Ty_PyComparator, ''get_ob''), PyComparator_get_ob_result),
      ((Ty_PyComparator, ''get_comparator''), PyComparator_get_comparator_result),
      ((Ty_PyGenericComparator, ''get_ob''), PyGenericComparator_get_ob_result),
      ((Ty_PyGenericComparator, ''get_comparator''), PyGenericComparator_get_comparator_result),
      ((Ty_PyBytewiseComparator, ''get_ob''), PyBytewiseComparator_get_ob_result),
      ((Ty_PyBytewiseComparator, ''get_comparator''), PyBytewiseComparator_get_comparator_result),
      ((Ty_PyFilterPolicy, ''get_ob''), PyFilterPolicy_get_ob_result),
      ((Ty_PyFilterPolicy, ''get_policy''), PyFilterPolicy_get_policy_result),
      ((Ty_PyGenericFilterPolicy, ''get_ob''), PyGenericFilterPolicy_get_ob_result),
      ((Ty_PyGenericFilterPolicy, ''get_policy''), PyGenericFilterPolicy_get_policy_result),
      ((Ty_PyBloomFilterPolicy, ''get_ob''), PyBloomFilterPolicy_get_ob_result),
      ((Ty_PyBloomFilterPolicy, ''get_policy''), PyBloomFilterPolicy_get_policy_result),
      ((Ty_PyMergeOperator, ''get_ob''), PyMergeOperator_get_ob_result),
      ((Ty_PyMergeOperator, ''get_operator''), PyMergeOperator_get_operator_result),
      ((Ty_PyCache, ''get_cache''), PyCache_get_cache_result),
      ((Ty_PyLRUCache, ''get_cache''), PyLRUCache_get_cache_result),
      ((Ty_PySliceTransform, ''get_ob''), PySliceTransform_get_ob_result),
      ((Ty_PySliceTransform, ''get_transformer''), PySliceTransform_get_transformer_result),
      ((Ty_PyTableFactory, ''get_table_factory''), PyTableFactory_get_table_factory_result),
      ((Ty_PyMemtableFactory, ''get_memtable_factory''), PyMemtableFactory_get_memtable_factory_result),
      ((Ty_BaseIterator, ''get_ob''), BaseIterator_get_ob_result)]"

text \<open>A call through the table of the object's type.\<close>

definition call_c :: "init_state \<Rightarrow> ext_type \<Rightarrow> string \<Rightarrow> c_result option" where
  "call_c S t m =
     (case vtable_of S t of
        None \<Rightarrow> None
      | Some v \<Rightarrow>
          (case map_of v m of None \<Rightarrow> None | Some c \<Rightarrow> map_of c_methods (c, m)))"

definition hook_methods :: "string list" where
  "hook_methods =
     [''get_comparator'', ''get_policy'', ''get_operator'', ''get_cache'', ''get_transformer'',
      ''get_table_factory'', ''get_memtable_factory'']"

text \<open>Whether the pointer that a call gives points to an object.\<close>

definition gives_object :: "half_made \<Rightarrow> c_result \<Rightarrow> bool" where
  "gives_object h r =
     (case r of
        PointerIn p \<Rightarrow> pointer h p \<noteq> None \<or> p \<in> set (borrowed h)
      | MemberPointer m \<Rightarrow> member h m \<noteq> None
      | _ \<Rightarrow> False)"

definition gives_nothing :: "init_state \<Rightarrow> (ext_type \<times> string) list" where
  "gives_nothing S =
     concat (map (\<lambda>t. map (Pair t) (filter (\<lambda>m.
       case call_c S t m of None \<Rightarrow> False
       | Some r \<Rightarrow> list_ex (\<lambda>(ok, h). ok \<and> \<not> gives_object h r) (creations 1 t)) hook_methods)) all_types)"

lemma hooks_checked:
  "case run_type_init object_methods of None \<Rightarrow> False | Some S \<Rightarrow> gives_nothing S =
     [(Ty_PyComparator, ''get_comparator''), (Ty_PyFilterPolicy, ''get_policy''), (Ty_PyCache, ''get_cache''),
      (Ty_PyTableFactory, ''get_table_factory''), (Ty_BlockBasedTableFactory, ''get_table_factory''),
      (Ty_PlainTableFactory, ''get_table_factory''), (Ty_PyMemtableFactory, ''get_memtable_factory''),
      (Ty_SkipListMemtableFactory, ''get_memtable_factory''),
      (Ty_VectorMemtableFactory, ''get_memtable_factory''),
      (Ty_HashSkipListMemtableFactory, ''get_memtable_factory''),
      (Ty_HashLinkListMemtableFactory, ''get_memtable_factory'')]"
  by code_simp

end
