(* ===== verification/Threads.thy ===== *)
theory Threads
  imports ColumnFamily
begin

section \<open>Threads and the interpreter lock\<close>

text \<open>
  The methods of \<open>DB\<close> in \<open>rocksdb/_rocksdb.cpp\<close> call RocksDB with the lock of the interpreter
  released. What a method does between two releases is one step here: up to the call it has resolved the
  column family to a raw pointer (\<open>get_handle\<close>), after the call it goes on with the lock held. Meanwhile
  other threads run. The pointer is in use from the one step to the other.
\<close>

subsection \<open>States\<close>

text \<open>Inside a call, with the Python handle and the raw pointer it was resolved to.\<close>

datatype activity = Outside | InCall nat nat | InDrop nat nat

record threads =
  tstore :: cf_store
  acts :: "nat \<Rightarrow> activity"

fun raw_in_use :: "activity \<Rightarrow> nat option" where
  "raw_in_use Outside = None"
| "raw_in_use (InCall i h) = Some h"
| "raw_in_use (InDrop i h) = Some h"

fun cf_in_use :: "activity \<Rightarrow> nat option" where
  "cf_in_use Outside = None"
| "cf_in_use (InCall i h) = Some i"
| "cf_in_use (InDrop i h) = Some i"

fun is_drop :: "activity \<Rightarrow> bool" where
  "is_drop (InDrop i h) = True"
| "is_drop _ = False"

subsection \<open>Steps\<close>

text \<open>\<open>DB.get\<close> and the others that take a column family: up to the call, and after it.\<close>

definition call_begin :: "nat \<Rightarrow> nat \<Rightarrow> threads \<Rightarrow> (pyexn + unit) \<times> threads" where
  "call_begin t i T =
     (case get_handle (tstore T) i of
        Inl e \<Rightarrow> (Inl e, T)
      | Inr h \<Rightarrow> (Inr (), T\<lparr>acts := (acts T)(t := InCall i h)\<rparr>))"

definition call_end :: "nat \<Rightarrow> threads \<Rightarrow> threads" where
  "call_end t T = T\<lparr>acts := (acts T)(t := Outside)\<rparr>"

text \<open>
  \<open>drop_column_family\<close>: up to \<open>DropColumnFamily\<close>, and after it. The owner of the raw pointer is then
  removed from the list of the database, which was the last reference to it, and deletes the pointer; when
  another thread was faster, the weak reference gives \<open>None\<close>, which is not in the list.
\<close>

definition drop_begin :: "nat \<Rightarrow> nat \<Rightarrow> threads \<Rightarrow> (pyexn + unit) \<times> threads" where
  "drop_begin t i T =
     (case get_handle (tstore T) i of
        Inl e \<Rightarrow> (Inl e, T)
      | Inr h \<Rightarrow> (Inr (), T\<lparr>acts := (acts T)(t := InDrop i h)\<rparr>))"

definition drop_end :: "nat \<Rightarrow> status \<Rightarrow> threads \<Rightarrow> (pyexn + unit) \<times> threads" where
  "drop_end t st T =
     (case cf_in_use (acts T t) of
        None \<Rightarrow> (Inr (), T)
      | Some i \<Rightarrow>
          (let T1 = T\<lparr>acts := (acts T)(t := Outside)\<rparr>
           in case check_status st of
                Inl e \<Rightarrow> (Inl e, T1)
              | Inr _ \<Rightarrow>
                  (case cfs (tstore T) i of
                     None \<Rightarrow> (Inl attribute_error, T1)
                   | Some c \<Rightarrow>
                       (case deref (tstore T) (cf_ref c) of
                          None \<Rightarrow> (Inl (Exn ValueError (Text ''value is not in list'')), T1)
                        | Some _ \<Rightarrow> (Inr (), T1\<lparr>tstore := dealloc_real (wr_target (cf_ref c)) (tstore T)\<rparr>)))))"

text \<open>
  The rule a program may or may not follow (\<open>excl\<close>): a family is dropped while no other thread is in a
  call with it, and not used while another thread is dropping it.
\<close>

definition free_for :: "(activity \<Rightarrow> bool) \<Rightarrow> nat \<Rightarrow> nat \<Rightarrow> threads \<Rightarrow> bool" where
  "free_for P t i T \<longleftrightarrow>
     (\<forall>u h. u \<noteq> t \<longrightarrow> P (acts T u) \<longrightarrow> get_handle (tstore T) i = Inr h \<longrightarrow> raw_in_use (acts T u) \<noteq> Some h)"

inductive thread_step :: "bool \<Rightarrow> pyenv \<Rightarrow> cf_lib \<Rightarrow> threads \<Rightarrow> threads \<Rightarrow> bool" for excl E L where
  adopt: "ptr \<notin> set (deleted (tstore T)) \<Longrightarrow>
    (\<forall>r h. reals (tstore T) r = Some h \<longrightarrow> handle h \<noteq> ptr) \<Longrightarrow>
    thread_step excl E L T (T\<lparr>tstore := snd (from_handle_ptr ptr (tstore T))\<rparr>)"
| weak: "weakref_get E L r (tstore T) = Inr (i, S) \<Longrightarrow> thread_step excl E L T (T\<lparr>tstore := S\<rparr>)"
| begin_call: "acts T t = Outside \<Longrightarrow> (excl \<longrightarrow> free_for is_drop t i T) \<Longrightarrow>
    thread_step excl E L T (snd (call_begin t i T))"
| end_call: "acts T t = InCall i h \<Longrightarrow> thread_step excl E L T (call_end t T)"
| begin_drop: "acts T t = Outside \<Longrightarrow> (excl \<longrightarrow> free_for (\<lambda>_. True) t i T) \<Longrightarrow>
    thread_step excl E L T (snd (drop_begin t i T))"
| end_drop: "acts T t = InDrop i h \<Longrightarrow> thread_step excl E L T (snd (drop_end t st T))"

inductive thread_reachable :: "bool \<Rightarrow> pyenv \<Rightarrow> cf_lib \<Rightarrow> threads \<Rightarrow> bool" for excl E L where
  start: "thread_reachable excl E L \<lparr>tstore = empty_store, acts = (\<lambda>_. Outside)\<rparr>"
| step: "thread_reachable excl E L T \<Longrightarrow> thread_step excl E L T T' \<Longrightarrow> thread_reachable excl E L T'"

subsection \<open>Calls are safe when drops are exclusive\<close>

definition held :: "cf_store \<Rightarrow> nat \<Rightarrow> nat \<Rightarrow> bool" where
  "held S i h \<longleftrightarrow>
     (\<exists>c g. cfs S i = Some c \<and> reals S (wr_target (cf_ref c)) = Some g \<and> handle g = h)"

definition threads_inv :: "threads \<Rightarrow> bool" where
  "threads_inv T \<longleftrightarrow>
     (\<forall>t i h. cf_in_use (acts T t) = Some i \<longrightarrow> raw_in_use (acts T t) = Some h \<longrightarrow> held (tstore T) i h) \<and>
     (\<forall>t u h. is_drop (acts T t) \<longrightarrow> raw_in_use (acts T t) = Some h \<longrightarrow> raw_in_use (acts T u) = Some h \<longrightarrow>
        t = u)"

lemma threads_invI:
  assumes "\<And>t i h. cf_in_use (acts T t) = Some i \<Longrightarrow> raw_in_use (acts T t) = Some h \<Longrightarrow> held (tstore T) i h"
    and "\<And>t u h. is_drop (acts T t) \<Longrightarrow> raw_in_use (acts T t) = Some h \<Longrightarrow>
       raw_in_use (acts T u) = Some h \<Longrightarrow> t = u"
  shows "threads_inv T"
  using assms unfolding threads_inv_def by blast

lemma threads_invD:
  assumes "threads_inv T"
  shows "cf_in_use (acts T t) = Some i \<Longrightarrow> raw_in_use (acts T t) = Some h \<Longrightarrow> held (tstore T) i h"
    and "is_drop (acts T t) \<Longrightarrow> raw_in_use (acts T t) = Some h \<Longrightarrow> raw_in_use (acts T u) = Some h \<Longrightarrow> t = u"
  using assms unfolding threads_inv_def by blast+

lemma in_use_both: "raw_in_use a = Some h \<Longrightarrow> \<exists>i. cf_in_use a = Some i"
  by (cases a) simp_all

lemma get_handle_held: "get_handle S i = Inr h \<longleftrightarrow> held S i h"
  by (auto simp: get_handle_def held_def deref_def split: option.splits)

lemma held_adopt: "weak_inv S \<Longrightarrow> held S i h \<Longrightarrow> held (snd (from_handle_ptr ptr S)) i h"
  using weak_invD(4) by (fastforce simp: held_def from_handle_ptr_def)

lemma held_weak:
  assumes "weakref_get E L r S = Inr (j, S')" "weak_inv S" "held S i h"
  shows "held S' i h"
  using assms(1)
proof (rule weakref_get_cases)
  fix g c
  assume a: "reals S r = Some g" "j = fresh S + 1"
    "S' = S\<lparr>reals := (reals S)(r \<mapsto> g\<lparr>weak_handle := Some j\<rparr>), cfs := (cfs S)(j \<mapsto> c), fresh := fresh S + 2\<rparr>"
  from assms(3) obtain d k where d: "cfs S i = Some d" "reals S (wr_target (cf_ref d)) = Some k" "handle k = h"
    by (auto simp: held_def)
  then have "i \<noteq> j" using weak_invD(3) [OF assms(2), of i d] a(2) by simp
  then show ?thesis using d a by (auto simp: held_def)
qed (use assms(3) in simp)

lemma held_drop:
  assumes "handles_inv S" "held S i h" "held S j k" "h \<noteq> k"
    and "cfs S j = Some c"
  shows "held (dealloc_real (wr_target (cf_ref c)) S) i h"
  using assms by (auto simp: held_def dealloc_real_def)

lemma begin_inv:
  assumes "threads_inv T" "acts T t = Outside" "free_for (if is_drop a then (\<lambda>_. True) else is_drop) t i T"
    and "get_handle (tstore T) i = Inr h" "a = InCall i h \<or> a = InDrop i h"
  shows "threads_inv (T\<lparr>acts := (acts T)(t := a)\<rparr>)"
proof (rule threads_invI)
  note D = threads_invD [OF assms(1)]
  let ?T = "T\<lparr>acts := (acts T)(t := a)\<rparr>"
  show "held (tstore ?T) j k" if "cf_in_use (acts ?T u) = Some j" "raw_in_use (acts ?T u) = Some k" for u j k
    using that D(1) [of u j k] assms(4,5) by (auto simp: get_handle_held split: if_splits)
  show "u = v" if "is_drop (acts ?T u)" "raw_in_use (acts ?T u) = Some k" "raw_in_use (acts ?T v) = Some k" for u v k
    using that D(2) [of u k v] assms(3,4,5) by (auto simp: free_for_def split: if_splits)
qed

lemma thread_step_store:
  assumes "thread_step excl E L T T'"
  shows "tstore T' = tstore T \<or> cf_step E L (tstore T) (tstore T')"
  using assms
proof (induction rule: thread_step.induct)
  case (end_drop T t i h st)
  show ?case
    by (auto simp: drop_end_def Let_def cf_step.drop split: option.splits sum.splits)
qed (auto simp: call_begin_def call_end_def drop_begin_def intro: cf_step.intros split: sum.splits)

lemma thread_reachable_store: "thread_reachable excl E L T \<Longrightarrow> cf_reachable E L (tstore T)"
proof (induction rule: thread_reachable.induct)
  case (step T T')
  then show ?case using thread_step_store [OF step.hyps(2)] cf_reachable.step by metis
qed (simp add: cf_reachable.start)

lemma threads_inv_store:
  assumes "threads_inv T" "\<And>i h. held (tstore T) i h \<Longrightarrow> held S i h"
  shows "threads_inv (T\<lparr>tstore := S\<rparr>)"
  using assms by (auto simp: threads_inv_def)

lemma threads_inv_outside:
  assumes "threads_inv T"
  shows "threads_inv (T\<lparr>acts := (acts T)(t := Outside)\<rparr>)"
  using threads_invD [OF assms] by (intro threads_invI) (auto split: if_splits)

lemma drop_end_inv:
  assumes "threads_inv T" "handles_inv (tstore T)" "acts T t = InDrop i h"
  shows "threads_inv (snd (drop_end t st T))"
proof -
  note D = threads_invD [OF assms(1)]
  let ?T1 = "T\<lparr>acts := (acts T)(t := Outside)\<rparr>"
  have quiet: "threads_inv ?T1" by (rule threads_inv_outside [OF assms(1)])
  have "threads_inv (?T1\<lparr>tstore := dealloc_real (wr_target (cf_ref c)) (tstore T)\<rparr>)"
    if c: "cfs (tstore T) i = Some c" for c
  proof (rule threads_invI)
    let ?T2 = "?T1\<lparr>tstore := dealloc_real (wr_target (cf_ref c)) (tstore T)\<rparr>"
    fix u j k assume u: "cf_in_use (acts ?T2 u) = Some j" "raw_in_use (acts ?T2 u) = Some k"
    then have other: "u \<noteq> t" by (auto split: if_splits)
    have "held (tstore T) j k" using D(1) [of u j k] u other by simp
    moreover have "k \<noteq> h" using D(2) [of t h u] assms(3) u(2) other by auto
    moreover have "held (tstore T) i h" using D(1) [of t i h] assms(3) by simp
    ultimately show "held (tstore ?T2) j k"
      using held_drop [OF assms(2), of j k i h c] c by simp
  next
    fix u v k
    assume "is_drop (acts (?T1\<lparr>tstore := dealloc_real (wr_target (cf_ref c)) (tstore T)\<rparr>) u)"
      "raw_in_use (acts (?T1\<lparr>tstore := dealloc_real (wr_target (cf_ref c)) (tstore T)\<rparr>) u) = Some k"
      "raw_in_use (acts (?T1\<lparr>tstore := dealloc_real (wr_target (cf_ref c)) (tstore T)\<rparr>) v) = Some k"
    then show "u = v" using D(2) [of u k v] by (auto split: if_splits)
  qed
  then show ?thesis
    using quiet assms(1,3) by (auto simp: drop_end_def Let_def split: option.splits sum.splits)
qed

lemma threads_inv_step:
  assumes "thread_step True E L T T'" "threads_inv T" "handles_inv (tstore T)" "weak_inv (tstore T)"
  shows "threads_inv T'"
  using assms
proof (induction rule: thread_step.induct)
  case (adopt ptr T)
  then show ?case by (auto intro: threads_inv_store held_adopt)
next
  case (weak r T i S)
  then show ?case by (auto intro: threads_inv_store held_weak)
next
  case (begin_call T t i)
  show ?case
  proof (cases "get_handle (tstore T) i")
    case (Inr h)
    have "threads_inv (T\<lparr>acts := (acts T)(t := InCall i h)\<rparr>)"
      by (rule begin_inv [where i = i and h = h]) (use begin_call Inr in simp_all)
    then show ?thesis using Inr by (simp add: call_begin_def)
  qed (use begin_call in \<open>simp add: call_begin_def\<close>)
next
  case (end_call T t i h)
  then show ?case by (simp add: call_end_def threads_inv_outside)
next
  case (begin_drop T t i)
  show ?case
  proof (cases "get_handle (tstore T) i")
    case (Inr h)
    have "threads_inv (T\<lparr>acts := (acts T)(t := InDrop i h)\<rparr>)"
      by (rule begin_inv [where i = i and h = h]) (use begin_drop Inr in simp_all)
    then show ?thesis using Inr by (simp add: drop_begin_def)
  qed (use begin_drop in \<open>simp add: drop_begin_def\<close>)
next
  case (end_drop T t i h st)
  then show ?case using drop_end_inv by blast
qed

lemma threads_inv_reachable: "thread_reachable True E L T \<Longrightarrow> threads_inv T"
proof (induction rule: thread_reachable.induct)
  case start
  then show ?case by (simp add: threads_inv_def)
next
  case (step T T')
  then show ?case
    using threads_inv_step reachable_inv [OF thread_reachable_store [OF step.hyps(1)]] by blast
qed

text \<open>
  C7. Methods release the lock of the interpreter while RocksDB works with the raw pointer of a column
  family. As long as a family is dropped only while no other thread is in a call with it, and not used while
  it is being dropped, the pointer of every call in progress is valid: its C++ handle has not been
  deleted, and the Python handle still stands for it.
\<close>

theorem calls_safe_when_drops_exclusive:
  assumes "thread_reachable True E L T" "acts T t = InCall i h \<or> acts T t = InDrop i h"
  shows "h \<notin> set (deleted (tstore T)) \<and> get_handle (tstore T) i = Inr h"
proof -
  have held: "held (tstore T) i h"
    using threads_invD(1) [OF threads_inv_reachable [OF assms(1)], of t i h] assms(2) by auto
  then obtain r g where "reals (tstore T) r = Some g" "handle g = h" by (auto simp: held_def)
  then show ?thesis
    using handles_invD(2) reachable_inv [OF thread_reachable_store [OF assms(1)]] held
    by (auto simp: get_handle_held)
qed

subsection \<open>And dangle when they are not\<close>

definition demo_threads :: threads where
  "demo_threads = \<lparr>tstore = demo_store, acts = (\<lambda>_. Outside)\<rparr>"

lemma demo_threads_reachable: "thread_reachable excl plain_env demo_lib demo_threads"
proof -
  let ?T0 = "\<lparr>tstore = empty_store, acts = (\<lambda>_. Outside)\<rparr>"
  let ?S = "snd (from_handle_ptr 7 empty_store)"
  have "thread_reachable excl plain_env demo_lib (?T0\<lparr>tstore := ?S\<rparr>)"
    using thread_reachable.step [OF thread_reachable.start thread_step.adopt, of 7 excl]
    by (simp add: empty_store_def)
  then have "thread_reachable excl plain_env demo_lib ((?T0\<lparr>tstore := ?S\<rparr>)\<lparr>tstore := demo_store\<rparr>)"
    by (rule thread_reachable.step) (rule thread_step.weak [where r = 0 and i = 2], simp add: demo_weakref)
  then show ?thesis by (simp add: demo_threads_def)
qed

theorem calls_safe_when_drops_exclusive_witness:
  "7 \<notin> set (deleted (tstore (snd (call_begin 0 2 demo_threads)))) \<and>
   acts (snd (call_begin 0 2 demo_threads)) 0 = InCall 2 7"
proof -
  let ?T = "snd (call_begin 0 2 demo_threads)"
  have "thread_reachable True plain_env demo_lib ?T"
    by (rule thread_reachable.step [OF demo_threads_reachable], rule thread_step.begin_call)
      (simp_all add: demo_threads_def free_for_def)
  moreover have a: "acts ?T 0 = InCall 2 7"
    by (simp add: call_begin_def demo_threads_def get_handle_def deref_def demo_store_def demo_handle_def)
  ultimately show ?thesis using calls_safe_when_drops_exclusive [of plain_env demo_lib ?T 0 2 7] by blast
qed

text \<open>
  Without that rule, which nothing in the binding enforces, a reachable state has a thread inside a
  call on a family whose C++ handle another thread has deleted by dropping the family: \<open>get_handle\<close> guards only
  the beginning of the call.
\<close>

theorem drop_during_call_dangles:
  "\<exists>T. thread_reachable False plain_env demo_lib T \<and> acts T 0 = InCall 2 7 \<and>
     7 \<in> set (deleted (tstore T))"
proof -
  let ?T1 = "snd (call_begin 0 2 demo_threads)"
  let ?T2 = "snd (drop_begin 1 2 ?T1)"
  let ?T3 = "snd (drop_end 1 (status_of Ok []) ?T2)"
  have "thread_reachable False plain_env demo_lib ?T1"
    by (rule thread_reachable.step [OF demo_threads_reachable], rule thread_step.begin_call)
      (simp_all add: demo_threads_def)
  moreover have a1: "acts ?T1 = (\<lambda>_. Outside)(0 := InCall 2 7)" "tstore ?T1 = demo_store"
    by (simp_all add: call_begin_def demo_threads_def get_handle_def deref_def demo_store_def demo_handle_def)
  ultimately have "thread_reachable False plain_env demo_lib ?T2"
    by (elim thread_reachable.step, intro thread_step.begin_drop) simp_all
  moreover have a2: "acts ?T2 = (\<lambda>_. Outside)(0 := InCall 2 7, 1 := InDrop 2 7)" "tstore ?T2 = demo_store"
    using a1 by (simp_all add: drop_begin_def get_handle_def deref_def demo_store_def demo_handle_def)
  ultimately have "thread_reachable False plain_env demo_lib ?T3"
    by (elim thread_reachable.step, intro thread_step.end_drop [where i = 2 and h = 7]) simp_all
  moreover have "acts ?T3 0 = InCall 2 7" "7 \<in> set (deleted (tstore ?T3))"
    using a2 by (simp_all add: drop_end_def Let_def deref_def demo_store_def demo_handle_def dealloc_real_def
        check_status_def status_of_def)
  ultimately show ?thesis by blast
qed

end
