(* ===== verification/Attributes.thy ===== *)
theory Attributes
  imports OptionsSpec TypeTables
begin

section \<open>Attributes of the options\<close>

text \<open>
  Between the attribute tables of the types and the properties of the options stand the functions
  \<open>__pyx_getprop_...\<close> and \<open>__pyx_setprop_...\<close> of \<open>rocksdb/_rocksdb.cpp\<close>: reading calls the getter, assigning the setter,
  and deleting is refused.
\<close>

definition not_deletable :: pyexn where
  "not_deletable = Exn NotImplementedError (Text ''__del__'')"

definition setprop ::
    "(pyobj \<Rightarrow> 's \<Rightarrow> ((pyexn + unit) \<times> 's) option) \<Rightarrow> pyobj option \<Rightarrow> 's \<Rightarrow> ((pyexn + unit) \<times> 's) option" where
  "setprop setter v S = (case v of Some x \<Rightarrow> setter x S | None \<Rightarrow> Some (Inl not_deletable, S))"

definition ColumnFamilyOptions_setprops where
  "ColumnFamilyOptions_setprops E C R = map (\<lambda>(n, f). (n, setprop f)) (cf_setters E C R)"

definition Options_setprops where
  "Options_setprops E C = map (\<lambda>(n, f). (n, setprop f)) (db_setters E C)"

text \<open>
  \<open>setattr\<close> and \<open>delattr\<close>: the table of the type, then that of its base; an attribute without a setter, and a
  name in no table, is an \<open>AttributeError\<close>.
\<close>

definition table_of :: "options_class \<Rightarrow> (string \<times> bool) list" where
  "table_of c =
     (case c of
        ColumnFamilyOptions \<Rightarrow> tp_getset ColumnFamilyOptions_type
      | Options \<Rightarrow> tp_getset Options_type @ tp_getset ColumnFamilyOptions_type)"

definition setprops_of where
  "setprops_of c E C R =
     (case c of
        ColumnFamilyOptions \<Rightarrow> ColumnFamilyOptions_setprops E C R
      | Options \<Rightarrow> Options_setprops E C @ ColumnFamilyOptions_setprops E C R)"

definition assign_attribute where
  "assign_attribute c E C R name v S =
     (case map_of (table_of c) name of
        Some True \<Rightarrow>
          (case map_of (setprops_of c E C R) name of
             Some f \<Rightarrow> f v S
           | None \<Rightarrow> Some (Inl (Exn AttributeError (Text name)), S))
      | _ \<Rightarrow> Some (Inl (Exn AttributeError (Text name)), S))"

lemma tables_writable: "list_all (\<lambda>(n, w). w) (table_of c)"
  by (cases c) (simp_all add: table_of_def ColumnFamilyOptions_type_def Options_type_def
      ColumnFamilyOptions_attributes_def Options_attributes_def)

lemma cf_table: "set (map fst ColumnFamilyOptions_attributes) = set (map fst (cf_setters E C R))"
  by (simp add: ColumnFamilyOptions_attributes_def cf_setters_def insert_commute)

lemma db_table: "set (map fst Options_attributes) = set (map fst (db_setters E C))"
  by (simp add: Options_attributes_def db_setters_def insert_commute)

lemma table_names: "fst ` set (table_of c) = fst ` set (setters_of c E C R)"
proof (cases c)
  case ColumnFamilyOptions
  then show ?thesis
    using cf_table [of E C R] by (simp add: table_of_def setters_of_def ColumnFamilyOptions_type_def)
next
  case Options
  then show ?thesis
    unfolding table_of_def setters_of_def Options_type_def ColumnFamilyOptions_type_def
    using cf_table [of E C R] by (simp add: image_Un db_table [symmetric, unfolded set_map])
qed

lemma table_lookup: "map_of (table_of c) name = (if map_of (setters_of c E C R) name = None then None else Some True)"
proof (cases "map_of (table_of c) name")
  case None
  then show ?thesis using table_names [of c E C R] by (simp add: map_of_eq_None_iff)
next
  case (Some w)
  then have "w" using tables_writable [of c] by (auto simp: list_all_iff dest: map_of_SomeD)
  moreover have "map_of (setters_of c E C R) name \<noteq> None"
    using Some table_names [of c E C R] map_of_eq_None_iff [of "table_of c" name]
    by (simp add: map_of_eq_None_iff)
  ultimately show ?thesis using Some by simp
qed

lemma setprops_of_setters: "setprops_of c E C R = map (\<lambda>(n, f). (n, setprop f)) (setters_of c E C R)"
  by (cases c) (simp_all add: setprops_of_def setters_of_def ColumnFamilyOptions_setprops_def Options_setprops_def)

text \<open>
  The tables of the types and the properties agree: assigning any name through the type does what
  \<open>set_option\<close> does, and deleting one is refused and changes nothing.
\<close>

lemma assign_is_set_option: "assign_attribute c E C R name (Some x) S = set_option c E C R name x S"
  by (auto simp: assign_attribute_def set_option_def setprops_of_setters map_of_map table_lookup [of c name E C R]
      setprop_def split: option.splits)

lemma delete_refused:
  "assign_attribute c E C R name None S =
     Some (Inl (if map_of (table_of c) name = None then Exn AttributeError (Text name) else not_deletable), S)"
  by (auto simp: assign_attribute_def setprops_of_setters map_of_map table_lookup [of c name E C R]
      setprop_def split: option.splits)

end
