(* ===== verification/Equality.thy ===== *)
theory Equality
  imports Options
begin

section \<open>Fast comparison of texts and bytes\<close>

text \<open>
  \<open>__Pyx_PyUnicode_Equals\<close> and \<open>__Pyx_PyBytes_Equals\<close> of \<open>rocksdb/_rocksdb.cpp\<close>, with which the chains
  \<open>if value == ...\<close> of the option setters compare. They look into the objects of CPython: cached hashes,
  the width of the characters and the memory that holds them. \<open>equals\<close> is true for \<open>==\<close>, false
  for \<open>!=\<close>.
\<close>

subsection \<open>Objects in memory\<close>

text \<open>
  A text has its characters in 1, 2 or 4 bytes each, followed by a zero; both kinds of objects cache their
  hash, \<open>-1\<close> is none. \<open>address\<close> is the identity. Texts are those of CPython from version 3.3 on that are ready.
\<close>

record str_object =
  str_address :: nat
  str_hash :: int
  str_kind :: nat
  str_chars :: "nat list"

record bytes_object =
  bytes_address :: nat
  bytes_hash :: int
  bytes_data :: bytes

datatype comparand = Str str_object | Bytes bytes_object | NoneObject | Other nat

fun same_object :: "comparand \<Rightarrow> comparand \<Rightarrow> bool" where
  "same_object (Str a) (Str b) \<longleftrightarrow> str_address a = str_address b"
| "same_object (Bytes a) (Bytes b) \<longleftrightarrow> bytes_address a = bytes_address b"
| "same_object NoneObject NoneObject \<longleftrightarrow> True"
| "same_object (Other i) (Other j) \<longleftrightarrow> i = j"
| "same_object _ _ \<longleftrightarrow> False"

fun memcmp :: "bytes \<Rightarrow> bytes \<Rightarrow> int" where
  "memcmp (x # xs) (y # ys) = (if x = y then memcmp xs ys else uint x - uint y)"
| "memcmp _ _ = 0"

text \<open>The memory of a character, and of all of them (little endian).\<close>

fun char_memory :: "nat \<Rightarrow> nat \<Rightarrow> bytes" where
  "char_memory 0 c = []"
| "char_memory (Suc k) c = word_of_nat (c mod 256) # char_memory k (c div 256)"

definition str_data :: "str_object \<Rightarrow> bytes" where
  "str_data a = concat (map (char_memory (str_kind a)) (str_chars a))"

definition read_first :: "nat list \<Rightarrow> nat" where
  "read_first cs = (case cs of [] \<Rightarrow> 0 | c # _ \<Rightarrow> c)"

definition first_byte :: "bytes \<Rightarrow> byte" where
  "first_byte bs = (case bs of [] \<Rightarrow> 0 | b # _ \<Rightarrow> b)"

definition hashes_differ :: "int \<Rightarrow> int \<Rightarrow> bool" where
  "hashes_differ h k \<longleftrightarrow> h \<noteq> k \<and> h \<noteq> - 1 \<and> k \<noteq> - 1"

subsection \<open>The functions\<close>

text \<open>
  \<open>rich\<close> is \<open>PyObject_RichCompare\<close> with the truth value of its result. The branches for Python 2 are left
  out.
\<close>

definition PyBytes_Equals ::
    "(comparand \<Rightarrow> comparand \<Rightarrow> bool \<Rightarrow> pyexn + bool) \<Rightarrow> comparand \<Rightarrow> comparand \<Rightarrow> bool \<Rightarrow> pyexn + bool"
  where
  "PyBytes_Equals rich s1 s2 equals =
     (if same_object s1 s2 then Inr equals
      else case (s1, s2) of
        (Bytes a, Bytes b) \<Rightarrow>
          (let n = length (bytes_data a)
           in if n \<noteq> length (bytes_data b) then Inr (\<not> equals)
              else if first_byte (bytes_data a) \<noteq> first_byte (bytes_data b) then Inr (\<not> equals)
              else if n = 1 then Inr equals
              else if hashes_differ (bytes_hash a) (bytes_hash b) then Inr (\<not> equals)
              else (let result = memcmp (take n (bytes_data a)) (take n (bytes_data b))
                    in Inr (if equals then result = 0 else result \<noteq> 0)))
      | (NoneObject, Bytes b) \<Rightarrow> Inr (\<not> equals)
      | (Bytes a, NoneObject) \<Rightarrow> Inr (\<not> equals)
      | _ \<Rightarrow> rich s1 s2 equals)"

definition PyUnicode_Equals ::
    "(comparand \<Rightarrow> comparand \<Rightarrow> bool \<Rightarrow> pyexn + bool) \<Rightarrow> comparand \<Rightarrow> comparand \<Rightarrow> bool \<Rightarrow> pyexn + bool"
  where
  "PyUnicode_Equals rich s1 s2 equals =
     (if same_object s1 s2 then Inr equals
      else case (s1, s2) of
        (Str a, Str b) \<Rightarrow>
          (let n = length (str_chars a)
           in if n \<noteq> length (str_chars b) then Inr (\<not> equals)
              else if hashes_differ (str_hash a) (str_hash b) then Inr (\<not> equals)
              else if str_kind a \<noteq> str_kind b then Inr (\<not> equals)
              else if read_first (str_chars a) \<noteq> read_first (str_chars b) then Inr (\<not> equals)
              else if n = 1 then Inr equals
              else (let size = n * str_kind a; result = memcmp (take size (str_data a)) (take size (str_data b))
                    in Inr (if equals then result = 0 else result \<noteq> 0)))
      | (NoneObject, Str b) \<Rightarrow> Inr (\<not> equals)
      | (Str a, NoneObject) \<Rightarrow> Inr (\<not> equals)
      | _ \<Rightarrow> rich s1 s2 equals)"

subsection \<open>What CPython guarantees of its objects\<close>

definition char_kind :: "nat list \<Rightarrow> nat" where
  "char_kind cs =
     (if list_all (\<lambda>c. c < 256) cs then 1 else if list_all (\<lambda>c. c < 65536) cs then 2 else 4)"

text \<open>
  The width is the least that fits, characters are code points, and a cached hash is that of the
  contents (\<open>hash_of\<close>). Objects with the same address are the same.
\<close>

definition str_ok :: "(nat list \<Rightarrow> int) \<Rightarrow> str_object \<Rightarrow> bool" where
  "str_ok hash_of a \<longleftrightarrow>
     list_all (\<lambda>c. c < 1114112) (str_chars a) \<and> str_kind a = char_kind (str_chars a) \<and>
     (str_hash a = - 1 \<or> str_hash a = hash_of (str_chars a))"

definition bytes_ok :: "(bytes \<Rightarrow> int) \<Rightarrow> bytes_object \<Rightarrow> bool" where
  "bytes_ok hash_of a \<longleftrightarrow> bytes_hash a = - 1 \<or> bytes_hash a = hash_of (bytes_data a)"

definition one_heap :: "comparand \<Rightarrow> comparand \<Rightarrow> bool" where
  "one_heap s1 s2 \<longleftrightarrow> (same_object s1 s2 \<longrightarrow> s1 = s2)"

lemma memcmp_zero: "length xs = length ys \<Longrightarrow> memcmp xs ys = 0 \<longleftrightarrow> xs = ys"
  by (induction xs ys rule: list_induct2) (auto simp: word_uint_eq_iff)

lemma length_char_memory [simp]: "length (char_memory k c) = k"
  by (induction k c rule: char_memory.induct) simp_all

lemma char_memory_inj: "c < 256 ^ k \<Longrightarrow> d < 256 ^ k \<Longrightarrow> char_memory k c = char_memory k d \<Longrightarrow> c = d"
proof (induction k arbitrary: c d)
  case (Suc k)
  have heads: "(word_of_nat (c mod 256) :: byte) = word_of_nat (d mod 256)"
    and tails: "char_memory k (c div 256) = char_memory k (d div 256)"
    using Suc.prems(3) by simp_all
  have "unat (word_of_nat (c mod 256) :: byte) = unat (word_of_nat (d mod 256) :: byte)"
    by (simp only: heads)
  then have "c mod 256 = d mod 256" by (simp add: unat_of_nat)
  moreover have "c div 256 = d div 256"
    using Suc.IH [OF _ _ tails] Suc.prems(1,2) by (simp add: less_mult_imp_div_less mult.commute)
  ultimately show ?case by (metis div_mod_decomp)
qed simp

lemma length_data: "length (concat (map (char_memory k) cs)) = length cs * k"
  by (induction cs) simp_all

lemma data_inj:
  "length cs = length ds \<Longrightarrow> list_all (\<lambda>c. c < 256 ^ k) cs \<Longrightarrow> list_all (\<lambda>c. c < 256 ^ k) ds \<Longrightarrow>
   concat (map (char_memory k) cs) = concat (map (char_memory k) ds) \<longleftrightarrow> cs = ds"
proof (induction cs ds rule: list_induct2)
  case (Cons c cs d ds)
  then show ?case using char_memory_inj [of c k d] by auto
qed simp

lemma kind_fits: "list_all (\<lambda>c. c < 1114112) cs \<Longrightarrow> list_all (\<lambda>c. c < 256 ^ char_kind cs) cs"
  by (auto simp: char_kind_def list_all_iff)

lemma hashes_same: "str_ok H a \<Longrightarrow> str_ok H b \<Longrightarrow> str_chars a = str_chars b \<Longrightarrow> \<not> hashes_differ (str_hash a) (str_hash b)"
  by (auto simp: str_ok_def hashes_differ_def)

lemma PyUnicode_Equals_chars:
  assumes "str_ok H a" "str_ok H b" "one_heap (Str a) (Str b)"
  shows "PyUnicode_Equals rich (Str a) (Str b) equals = Inr ((str_chars a = str_chars b) = equals)"
proof (cases "same_object (Str a) (Str b)")
  case True
  then show ?thesis using assms(3) by (simp add: PyUnicode_Equals_def one_heap_def)
next
  case False
  let ?cs = "str_chars a" and ?ds = "str_chars b"
  have fits: "list_all (\<lambda>c. c < 256 ^ str_kind a) ?cs" "list_all (\<lambda>c. c < 256 ^ str_kind b) ?ds"
    using assms(1,2) kind_fits by (simp_all add: str_ok_def)
  have kinds: "?cs = ?ds \<Longrightarrow> str_kind a = str_kind b" using assms(1,2) by (simp add: str_ok_def)
  have one: "?cs = ?ds" if "length ?cs = 1" "length ?ds = 1" "read_first ?cs = read_first ?ds"
    using that by (auto simp: read_first_def length_Suc_conv)
  have same: "memcmp (take (length ?ds * str_kind b) (str_data a)) (take (length ?ds * str_kind b) (str_data b)) = 0
      \<longleftrightarrow> ?cs = ?ds"
    if "length ?cs = length ?ds" "str_kind a = str_kind b"
    using that fits data_inj [of ?cs ?ds "str_kind b"] by (simp add: str_data_def memcmp_zero length_data)
  show ?thesis
  proof (cases "?cs = ?ds")
    case True
    then show ?thesis
      using False hashes_same [OF assms(1,2)] kinds same by (simp add: PyUnicode_Equals_def Let_def)
  next
    case differ: False
    show ?thesis
    proof (cases "length ?cs = length ?ds \<and> str_kind a = str_kind b")
      case True
      then show ?thesis
        using False differ one same by (simp add: PyUnicode_Equals_def Let_def) blast
    next
      case False
      then show ?thesis
        using \<open>\<not> same_object (Str a) (Str b)\<close> differ by (auto simp: PyUnicode_Equals_def Let_def)
    qed
  qed
qed

text \<open>
  C36. Comparing two texts with \<open>__Pyx_PyUnicode_Equals\<close> gives what comparing their characters gives,
  for \<open>==\<close> and for \<open>!=\<close>, whatever hashes are cached and however wide the characters are stored.
\<close>

theorem PyUnicode_Equals_exact:
  assumes "str_ok H a" "str_ok H b" "one_heap (Str a) (Str b)"
  shows "PyUnicode_Equals rich (Str a) (Str b) equals = Inr ((str_chars a = str_chars b) = equals)"
  by (rule PyUnicode_Equals_chars [OF assms])

theorem PyUnicode_Equals_exact_witness:
  "PyUnicode_Equals (\<lambda>_ _ _. Inr False) (Str \<lparr>str_address = 1, str_hash = - 1, str_kind = 2, str_chars = [955, 120]\<rparr>)
     (Str \<lparr>str_address = 2, str_hash = 5, str_kind = 2, str_chars = [955, 121]\<rparr>) True = Inr False"
  using PyUnicode_Equals_exact
    [of "\<lambda>_. 5" "\<lparr>str_address = 1, str_hash = - 1, str_kind = 2, str_chars = [955, 120]\<rparr>"
      "\<lparr>str_address = 2, str_hash = 5, str_kind = 2, str_chars = [955, 121]\<rparr>"]
  by (simp add: str_ok_def char_kind_def one_heap_def)

lemma PyBytes_Equals_exact:
  assumes "bytes_ok H a" "bytes_ok H b" "one_heap (Bytes a) (Bytes b)"
  shows "PyBytes_Equals rich (Bytes a) (Bytes b) equals = Inr ((bytes_data a = bytes_data b) = equals)"
proof (cases "same_object (Bytes a) (Bytes b)")
  case True
  then show ?thesis using assms(3) by (simp add: PyBytes_Equals_def one_heap_def)
next
  case False
  have one: "bytes_data a = bytes_data b"
    if "length (bytes_data a) = 1" "length (bytes_data b) = 1"
      "first_byte (bytes_data a) = first_byte (bytes_data b)"
    using that by (auto simp: first_byte_def length_Suc_conv)
  have hash: "bytes_data a = bytes_data b \<Longrightarrow> \<not> hashes_differ (bytes_hash a) (bytes_hash b)"
    using assms(1,2) by (auto simp: bytes_ok_def hashes_differ_def)
  have same: "length (bytes_data a) = length (bytes_data b) \<Longrightarrow>
      memcmp (bytes_data a) (bytes_data b) = 0 \<longleftrightarrow> bytes_data a = bytes_data b"
    by (rule memcmp_zero)
  show ?thesis
    using False one hash same by (auto simp: PyBytes_Equals_def Let_def)
qed

text \<open>The comparisons of the option setters, on the texts the objects hold.\<close>

lemma str_equal_by_memory:
  assumes "str_ok H a" "str_ok H b" "one_heap (Str a) (Str b)"
    and "str_chars a = map of_char t" "str_chars b = map of_char s"
  shows "PyUnicode_Equals rich (Str a) (Str b) True = str_equal cmp (PStr t) s"
proof -
  have "inj (of_char :: char \<Rightarrow> nat)" by (simp add: inj_def)
  then have "str_chars a = str_chars b \<longleftrightarrow> t = s" using assms(4,5) by (simp add: inj_map_eq_map)
  then show ?thesis
    using PyUnicode_Equals_chars [OF assms(1,2,3), of rich True] by (simp add: str_equal_def)
qed

end
