(* ===== verification/Runtime.thy ===== *)
theory Runtime
  imports IntConv
begin

section \<open>Helpers of the generated code\<close>

text \<open>
  Fast paths of \<open>rocksdb/_rocksdb.cpp\<close> that stand for an operation of Python: adding a C integer, taking an
  object as an index, elements of lists by index, matching exceptions by class, and \<open>raise\<close>. Each is
  compared with the operation it stands for.
\<close>

subsection \<open>Adding a constant, and indices\<close>

definition c_long_long :: ctype where "c_long_long = CT ''long long'' 64 True"
definition c_ulong_long :: ctype where "c_ulong_long = CT ''unsigned long long'' 64 False"
definition c_ssize_t :: ctype where "c_ssize_t = CT ''Py_ssize_t'' 64 True"

text \<open>
  The cases of \<open>switch (size)\<close> in \<open>__Pyx_PyInt_AddObjC\<close>, in their order; a case whose widths do not fit
  falls through to the next.
\<close>

definition signed_join :: "ctype \<Rightarrow> ctype \<Rightarrow> pylong \<Rightarrow> int \<Rightarrow> int" where
  "signed_join S U x label =
     (let v = c_cast S (join_digits U (take (nat \<bar>label\<bar>) (ob_digit x)))
      in if label < 0 then c_cast S (- v) else v)"

fun add_switch :: "int list \<Rightarrow> pylong \<Rightarrow> int \<Rightarrow> pyexn + pyobj \<Rightarrow> pyexn + pyobj" where
  "add_switch [] x b otherwise = otherwise"
| "add_switch (label # labels) x b otherwise =
     (if nat \<bar>label\<bar> * PyLong_SHIFT < bits c_long - 1
      then Inr (PInt (c_cast c_long (signed_join c_long c_ulong x label + b)))
      else if nat \<bar>label\<bar> * PyLong_SHIFT < bits c_long_long - 1
      then Inr (PInt (c_cast c_long_long (signed_join c_long_long c_ulong_long x label + b)))
      else add_switch labels x b otherwise)"

definition add_labels :: "int list" where
  "add_labels = [- 2, 2, - 3, 3, - 4, 4]"

text \<open>
  \<open>number_add\<close> is \<open>PyNumber_Add\<close> (which for integers adds them), \<open>float_add\<close> the addition of a C
  integer to a \<open>float\<close>, \<open>None\<close> for other objects. \<open>op2\<close> is \<open>intval\<close> as an object.
\<close>

definition PyInt_AddObjC ::
    "(pyobj \<Rightarrow> pyobj \<Rightarrow> pyexn + pyobj) \<Rightarrow> (pyobj \<Rightarrow> int \<Rightarrow> pyobj option) \<Rightarrow> pyobj \<Rightarrow> pyobj \<Rightarrow> int \<Rightarrow> pyexn + pyobj"
  where
  "PyInt_AddObjC number_add float_add op1 op2 intval =
     (case op1 of
        PInt n \<Rightarrow>
          (let x = pylong_of n; size = Py_SIZE x
           in if \<bar>size\<bar> \<le> 1
              then (let a = (if size = 0 then 0 else ob_digit x ! 0); a' = (if size = - 1 then - a else a)
                    in Inr (PInt (c_cast c_long (a' + intval))))
              else add_switch (dropWhile (\<lambda>l. l \<noteq> size) add_labels) x intval (number_add op1 op2))
      | _ \<Rightarrow> (case float_add op1 intval of Some r \<Rightarrow> Inr r | None \<Rightarrow> number_add op1 op2))"

definition PyLong_AsSsize_t :: "pylong \<Rightarrow> pyexn + int" where
  "PyLong_AsSsize_t x =
     (if in_range c_ssize_t (pylong_value x) then Inr (pylong_value x)
      else Inl (Exn OverflowError (Text ''Python int too large to convert to C ssize_t'')))"

text \<open>\<open>__Pyx_PyIndex_AsSsize_t\<close>: \<open>number_index\<close> is \<open>PyNumber_Index\<close>, which gives an integer or raises.\<close>

definition PyIndex_AsSsize_t :: "(pyobj \<Rightarrow> pyexn + int) \<Rightarrow> pyobj \<Rightarrow> pyexn + int" where
  "PyIndex_AsSsize_t number_index ob =
     (case ob of
        PInt n \<Rightarrow>
          (let x = pylong_of n; size = Py_SIZE x
           in if \<bar>size\<bar> \<le> 1
              then (let a = (if size = 0 then 0 else ob_digit x ! 0)
                    in Inr (if size = - 1 then c_cast c_ssize_t (- a) else a))
              else if size \<in> {- 4, - 3, - 2, 2, 3, 4} \<and> nat \<bar>size\<bar> * PyLong_SHIFT < bits c_ssize_t
              then Inr (signed_join c_ssize_t c_size_t x size)
              else PyLong_AsSsize_t x)
      | _ \<Rightarrow> bind_res (number_index ob) (\<lambda>n. PyLong_AsSsize_t (pylong_of n)))"

lemma small_digit: "\<bar>Py_SIZE (pylong_of n)\<bar> \<le> 1 \<Longrightarrow>
    (if Py_SIZE (pylong_of n) = 0 then 0 else ob_digit (pylong_of n) ! 0) = \<bar>n\<bar> \<and> \<bar>n\<bar> < 2 ^ 30 \<and>
    (Py_SIZE (pylong_of n) = - 1 \<longleftrightarrow> n < 0)"
proof -
  assume small: "\<bar>Py_SIZE (pylong_of n)\<bar> \<le> 1"
  then have le: "length (digits_of (nat \<bar>n\<bar>)) \<le> 1" by (auto simp: pylong_of_simps split: if_splits)
  show ?thesis
  proof (cases "n = 0")
    case True
    then show ?thesis by (simp add: pylong_of_simps)
  next
    case False
    then have "length (digits_of (nat \<bar>n\<bar>)) = 1" using le by (cases "digits_of (nat \<bar>n\<bar>)") auto
    then show ?thesis using one_digit [of n] False by (cases "n < 0") (simp_all add: pylong_of_simps)
  qed
qed

lemma two_digit_join:
  assumes "\<bar>Py_SIZE (pylong_of n)\<bar> = 2" "bits S = 64" "is_signed S" "bits U = 64" "\<not> is_signed U"
  shows "signed_join S U (pylong_of n) (Py_SIZE (pylong_of n)) = n" and "\<bar>n\<bar> < 2 ^ 60"
proof -
  have two: "length (digits_of (nat \<bar>n\<bar>)) = 2" using assms(1) by (auto simp: pylong_of_simps split: if_splits)
  have "join_digits U (digits_of (nat \<bar>n\<bar>)) = digits_value (digits_of (nat \<bar>n\<bar>))"
    using two assms(4,5) by (intro join_digits_value) (auto dest: digits_of_digit)
  then have j: "join_digits U (take (nat \<bar>Py_SIZE (pylong_of n)\<bar>) (ob_digit (pylong_of n))) = \<bar>n\<bar>"
    using assms(1) two by (simp add: pylong_of_simps(1) digits_value_digits_of)
  show small: "\<bar>n\<bar> < 2 ^ 60" by (rule two_digits(2) [OF two])
  have "c_cast S \<bar>n\<bar> = \<bar>n\<bar>" "c_cast S (- \<bar>n\<bar>) = - \<bar>n\<bar>"
    using small assms(2,3) by (intro c_cast_in_range; simp add: in_range_def)+
  then show "signed_join S U (pylong_of n) (Py_SIZE (pylong_of n)) = n"
    using j by (cases "n < 0") (simp_all add: signed_join_def Py_SIZE_neg_iff Let_def)
qed

lemma add_exact:
  assumes "\<bar>b\<bar> < 2 ^ 62" "number_add (PInt n) (PInt b) = Inr (PInt (n + b))"
  shows "PyInt_AddObjC number_add float_add (PInt n) (PInt b) b = Inr (PInt (n + b))"
proof -
  let ?x = "pylong_of n" and ?s = "Py_SIZE (pylong_of n)"
  have cast: "c_cast c_long (n + b) = n + b" if "\<bar>n\<bar> < 2 ^ 60"
    using that assms(1) by (intro c_cast_in_range) (auto simp: in_range_def ctype_defs)
  consider "\<bar>?s\<bar> \<le> 1" | "?s = 2 \<or> ?s = - 2" | "\<bar>?s\<bar> > 2" by linarith
  then show ?thesis
  proof cases
    case 1
    then show ?thesis
      using small_digit [OF 1] cast by (auto simp: PyInt_AddObjC_def Let_def)
  next
    case 2
    then have j: "signed_join c_long c_ulong ?x ?s = n" "\<bar>n\<bar> < 2 ^ 60"
      using two_digit_join [of n c_long c_ulong] by (auto simp: ctype_defs)
    then show ?thesis
      using 2 cast by (auto simp: PyInt_AddObjC_def Let_def add_labels_def PyLong_SHIFT_def ctype_defs)
  next
    case 3
    have "add_switch (dropWhile (\<lambda>l. l \<noteq> ?s) add_labels) ?x b r = r" for r
      using 3 by (auto simp: add_labels_def PyLong_SHIFT_def ctype_defs c_long_long_def)
    then show ?thesis using 3 assms(2) by (simp add: PyInt_AddObjC_def Let_def)
  qed
qed

lemma index_exact:
  "PyIndex_AsSsize_t number_index (PInt n) = PyLong_AsSsize_t (pylong_of n)"
proof -
  let ?x = "pylong_of n" and ?s = "Py_SIZE (pylong_of n)"
  have exact: "PyLong_AsSsize_t ?x = Inr n" if "\<bar>n\<bar> < 2 ^ 60"
    using that by (auto simp: PyLong_AsSsize_t_def in_range_def c_ssize_t_def)
  consider "\<bar>?s\<bar> \<le> 1" | "?s = 2 \<or> ?s = - 2" | "\<bar>?s\<bar> > 2" by linarith
  then show ?thesis
  proof cases
    case 1
    then have "c_cast c_ssize_t (- \<bar>n\<bar>) = - \<bar>n\<bar>"
      using small_digit [OF 1] by (intro c_cast_in_range) (auto simp: in_range_def c_ssize_t_def)
    then show ?thesis
      using small_digit [OF 1] exact 1 by (auto simp: PyIndex_AsSsize_t_def Let_def)
  next
    case 2
    then have j: "signed_join c_ssize_t c_size_t ?x ?s = n" "\<bar>n\<bar> < 2 ^ 60"
      using two_digit_join [of n c_ssize_t c_size_t] by (auto simp: c_ssize_t_def ctype_defs)
    then show ?thesis
      using 2 exact by (auto simp: PyIndex_AsSsize_t_def Let_def PyLong_SHIFT_def c_ssize_t_def)
  next
    case 3
    then have "\<not> nat \<bar>?s\<bar> * PyLong_SHIFT < bits c_ssize_t"
      by (simp add: PyLong_SHIFT_def c_ssize_t_def)
    then show ?thesis using 3 by (simp add: PyIndex_AsSsize_t_def Let_def)
  qed
qed

subsection \<open>Lists\<close>

text \<open>
  A list is an array of slots of which the first \<open>ob_size\<close> are its items; an index is checked by one unsigned
  comparison.
\<close>

record 'a pylist =
  slots :: "'a list"
  ob_size :: nat

definition items :: "'a pylist \<Rightarrow> 'a list" where
  "items L = take (ob_size L) (slots L)"

definition is_valid_index :: "int \<Rightarrow> int \<Rightarrow> bool" where
  "is_valid_index i limit \<longleftrightarrow> c_cast c_size_t i < c_cast c_size_t limit"

definition index_error :: "pyexn + 'a" where
  "index_error = Inl (Exn IndexError (Text ''list index out of range''))"

text \<open>\<open>__Pyx_GetItemInt_List_Fast\<close>; \<open>generic\<close> is \<open>PyObject_GetItem\<close>.\<close>

definition GetItemInt_List_Fast ::
    "(int \<Rightarrow> pyexn + 'a) \<Rightarrow> 'a pylist \<Rightarrow> int \<Rightarrow> bool \<Rightarrow> bool \<Rightarrow> pyexn + 'a" where
  "GetItemInt_List_Fast generic L i wraparound boundscheck =
     (let wrapped_i = (if wraparound \<and> i < 0 then i + int (ob_size L) else i)
      in if \<not> boundscheck \<or> is_valid_index wrapped_i (int (ob_size L))
         then Inr (slots L ! nat wrapped_i)
         else generic i)"

text \<open>
  \<open>__Pyx__PyList_PopIndex\<close>: the last item is moved down with the others (\<open>memmove\<close>) unless the list should
  shrink; \<open>generic\<close> is the method \<open>pop\<close>.
\<close>

definition memmove_down :: "nat \<Rightarrow> nat \<Rightarrow> 'a list \<Rightarrow> 'a list" where
  "memmove_down cix n xs = take cix xs @ take n (drop (cix + 1) xs) @ drop (cix + n) xs"

definition PyList_PopIndex ::
    "('a pylist \<Rightarrow> int \<Rightarrow> (pyexn + 'a) \<times> 'a pylist) \<Rightarrow> 'a pylist \<Rightarrow> int \<Rightarrow> (pyexn + 'a) \<times> 'a pylist" where
  "PyList_PopIndex generic L ix =
     (let size = int (ob_size L); cix = (if ix < 0 then ix + size else ix)
      in if length (slots L) div 2 < ob_size L \<and> is_valid_index cix size
         then (Inr (slots L ! nat cix),
               L\<lparr>slots := memmove_down (nat cix) (ob_size L - 1 - nat cix) (slots L), ob_size := ob_size L - 1\<rparr>)
         else generic L ix)"

text \<open>The operations of Python they stand for.\<close>

definition list_item :: "'a list \<Rightarrow> int \<Rightarrow> pyexn + 'a" where
  "list_item xs i =
     (let j = (if i < 0 then i + int (length xs) else i)
      in if 0 \<le> j \<and> j < int (length xs) then Inr (xs ! nat j) else index_error)"

definition list_pop :: "'a list \<Rightarrow> int \<Rightarrow> (pyexn + 'a) \<times> 'a list" where
  "list_pop xs i =
     (let j = (if i < 0 then i + int (length xs) else i)
      in if 0 \<le> j \<and> j < int (length xs)
         then (Inr (xs ! nat j), take (nat j) xs @ drop (Suc (nat j)) xs)
         else (index_error, xs))"

definition list_ok :: "'a pylist \<Rightarrow> bool" where
  "list_ok L \<longleftrightarrow> ob_size L \<le> length (slots L) \<and> length (slots L) < 2 ^ 60"

lemma valid_index_iff:
  "- (2 ^ 63) \<le> i \<Longrightarrow> i < 2 ^ 63 \<Longrightarrow> n < 2 ^ 60 \<Longrightarrow> is_valid_index i (int n) \<longleftrightarrow> 0 \<le> i \<and> i < int n"
proof -
  assume i: "- (2 ^ 63) \<le> i" "i < 2 ^ 63" and "n < 2 ^ 60"
  then have n: "int n < 2 ^ 60" by (metis of_nat_less_iff of_nat_numeral of_nat_power)
  then have limit: "c_cast c_size_t (int n) = int n"
    by (intro c_cast_in_range) (simp_all add: in_range_def ctype_defs)
  show ?thesis
  proof (cases "0 \<le> i")
    case True
    then have "c_cast c_size_t i = i"
      using i by (intro c_cast_in_range) (simp_all add: in_range_def ctype_defs)
    then show ?thesis using True limit by (simp add: is_valid_index_def)
  next
    case False
    have "c_cast c_size_t i = (i + 2 ^ 64) mod 2 ^ 64" by (simp add: c_cast_def ctype_defs take_bit_eq_mod)
    also have "\<dots> = i + 2 ^ 64" using i False by (intro mod_pos_pos_trivial) simp_all
    finally show ?thesis using False limit i n by (simp add: is_valid_index_def)
  qed
qed

lemma index_range:
  assumes "in_range c_ssize_t i" "n < (2::nat) ^ 60"
  shows "- (2 ^ 63) \<le> (if i < 0 then i + int n else i)" "(if i < 0 then i + int n else i) < 2 ^ 63"
proof -
  have "int n < 2 ^ 60" using assms(2) by (metis of_nat_less_iff of_nat_numeral of_nat_power)
  then show "- (2 ^ 63) \<le> (if i < 0 then i + int n else i)" "(if i < 0 then i + int n else i) < 2 ^ 63"
    using assms(1) by (auto simp: in_range_def c_ssize_t_def)
qed

lemma list_item_exact:
  assumes "list_ok L" "in_range c_ssize_t i" "generic i = list_item (items L) i"
  shows "GetItemInt_List_Fast generic L i True True = list_item (items L) i"
proof -
  have n: "ob_size L < 2 ^ 60" "length (items L) = ob_size L" using assms(1) by (simp_all add: list_ok_def items_def)
  have valid: "is_valid_index (if i < 0 then i + int (ob_size L) else i) (int (ob_size L)) \<longleftrightarrow>
      0 \<le> (if i < 0 then i + int (ob_size L) else i) \<and> (if i < 0 then i + int (ob_size L) else i) < int (ob_size L)"
    by (rule valid_index_iff [OF index_range [OF assms(2) n(1)] n(1)])
  have nth: "j < ob_size L \<Longrightarrow> items L ! j = slots L ! j" for j by (simp add: items_def)
  show ?thesis
    using valid n nth assms(3) by (auto simp: GetItemInt_List_Fast_def list_item_def Let_def)
qed

lemma memmove_items:
  assumes "j < n" "n \<le> length xs"
  shows "take (n - 1) (memmove_down j (n - 1 - j) xs) = take j (take n xs) @ drop (Suc j) (take n xs)"
proof -
  obtain m where m: "n = Suc (j + m)" using assms(1) less_iff_Suc_add by blast
  have "length (take j xs) = j" "length (take m (drop (Suc j) xs)) = m"
    using assms(2) m by simp_all
  then show ?thesis using m by (simp add: memmove_down_def drop_take)
qed

text \<open>Popping from a list is popping from its items.\<close>

lemma pop_exact:
  assumes "list_ok L" "in_range c_ssize_t i"
    and "\<And>r L'. generic L i = (r, L') \<Longrightarrow> list_pop (items L) i = (r, items L')"
    and "PyList_PopIndex generic L i = (r, L')"
  shows "list_pop (items L) i = (r, items L')"
proof -
  let ?j = "if i < 0 then i + int (ob_size L) else i"
  have n: "ob_size L < 2 ^ 60" "ob_size L \<le> length (slots L)" "length (items L) = ob_size L"
    using assms(1) by (simp_all add: list_ok_def items_def)
  have valid: "is_valid_index ?j (int (ob_size L)) \<longleftrightarrow> 0 \<le> ?j \<and> ?j < int (ob_size L)"
    by (rule valid_index_iff [OF index_range [OF assms(2) n(1)] n(1)])
  show ?thesis
  proof (cases "length (slots L) div 2 < ob_size L \<and> 0 \<le> ?j \<and> ?j < int (ob_size L)")
    case True
    then have j: "nat ?j < ob_size L" by linarith
    have r: "r = Inr (slots L ! nat ?j)"
      "L' = L\<lparr>slots := memmove_down (nat ?j) (ob_size L - 1 - nat ?j) (slots L), ob_size := ob_size L - 1\<rparr>"
      using assms(4) True valid by (simp_all add: PyList_PopIndex_def Let_def)
    have "items L' = take (nat ?j) (items L) @ drop (Suc (nat ?j)) (items L)"
      using memmove_items [OF j n(2)] unfolding r(2) by (simp add: items_def)
    moreover have "items L ! nat ?j = slots L ! nat ?j" using j by (simp add: items_def)
    ultimately show ?thesis
      using True n(3) r(1) by (cases "i < 0") (simp_all add: list_pop_def Let_def)
  next
    case False
    then show ?thesis
      using assms(3) [of r L'] assms(4) valid by (simp add: PyList_PopIndex_def Let_def split: if_splits)
  qed
qed

subsection \<open>Matching exceptions by class\<close>

text \<open>
  Classes are named by numbers. \<open>mro\<close> is the tuple of a class that is ready, \<open>tp_base\<close> its first base,
  \<open>exception_class\<close> says whether it derives from \<open>BaseException\<close>.
\<close>

record classes =
  mro :: "nat \<Rightarrow> nat list option"
  tp_base :: "nat \<Rightarrow> nat option"
  object_class :: nat
  exception_class :: "nat \<Rightarrow> bool"

text \<open>\<open>__Pyx_InBases\<close> follows the first bases; the loop ends unless they form a cycle.\<close>

partial_function (option) InBases :: "classes \<Rightarrow> nat \<Rightarrow> nat \<Rightarrow> bool option" where
  "InBases C a b =
     (case tp_base C a of
        None \<Rightarrow> Some (b = object_class C)
      | Some a' \<Rightarrow> if a' = b then Some True else InBases C a' b)"

declare InBases.simps [code]

definition IsSubtype :: "classes \<Rightarrow> nat \<Rightarrow> nat \<Rightarrow> bool option" where
  "IsSubtype C a b =
     (if a = b then Some True
      else case mro C a of
             Some classes \<Rightarrow> Some (list_ex (\<lambda>c. c = b) classes)
           | None \<Rightarrow> InBases C a b)"

text \<open>What follows \<open>except\<close>: a class, a tuple, or something else.\<close>

datatype handler = Class nat | Tuple "handler list" | Thing nat

fun matches_any :: "classes \<Rightarrow> nat \<Rightarrow> handler list \<Rightarrow> bool option" where
  "matches_any C exc [] = Some False"
| "matches_any C exc (t # ts) =
     (case t of
        Class d \<Rightarrow>
          if exception_class C d
          then Option.bind (IsSubtype C exc d) (\<lambda>b. if b then Some True else matches_any C exc ts)
          else matches_any C exc ts
      | _ \<Rightarrow> matches_any C exc ts)"

definition PyErr_GivenExceptionMatchesTuple :: "classes \<Rightarrow> nat \<Rightarrow> handler list \<Rightarrow> bool option" where
  "PyErr_GivenExceptionMatchesTuple C exc ts =
     (if list_ex (\<lambda>t. t = Class exc) ts then Some True else matches_any C exc ts)"

definition PyErr_GivenExceptionMatches ::
    "classes \<Rightarrow> (nat \<Rightarrow> handler \<Rightarrow> bool) \<Rightarrow> nat \<Rightarrow> handler \<Rightarrow> bool option" where
  "PyErr_GivenExceptionMatches C slow err h =
     (if h = Class err then Some True
      else if exception_class C err
      then (case h of
              Class d \<Rightarrow> if exception_class C d then IsSubtype C err d else Some (slow err h)
            | Tuple ts \<Rightarrow> PyErr_GivenExceptionMatchesTuple C err ts
            | Thing i \<Rightarrow> Some (slow err h))
      else Some (slow err h))"

text \<open>What Python says: the class is among those of the handler or derives from one.\<close>

definition derives :: "classes \<Rightarrow> nat \<Rightarrow> nat \<Rightarrow> bool" where
  "derives C a b \<longleftrightarrow> a = b \<or> (case mro C a of Some cs \<Rightarrow> b \<in> set cs | None \<Rightarrow> False)"

lemma IsSubtype_derives: "mro C a \<noteq> None \<Longrightarrow> IsSubtype C a b = Some (derives C a b)"
  by (auto simp: IsSubtype_def derives_def list_ex_iff)

lemma matches_any_derives:
  "mro C exc \<noteq> None \<Longrightarrow>
   matches_any C exc ts = Some (\<exists>d. Class d \<in> set ts \<and> exception_class C d \<and> derives C exc d)"
  by (induction ts) (auto simp: IsSubtype_derives split: handler.splits)

lemma tuple_matches:
  assumes "mro C exc \<noteq> None" "exception_class C exc"
  shows "PyErr_GivenExceptionMatches C slow exc (Tuple ts) =
    Some (\<exists>d. Class d \<in> set ts \<and> exception_class C d \<and> derives C exc d)"
  using assms matches_any_derives [OF assms(1), of ts]
  by (auto simp: PyErr_GivenExceptionMatches_def PyErr_GivenExceptionMatchesTuple_def list_ex_iff derives_def)

lemma InBases_returns:
  assumes "\<And>a a'. tp_base C a = Some a' \<Longrightarrow> rank a' < (rank a :: nat)"
  shows "\<exists>r. InBases C a b = Some r"
proof (induction "rank a" arbitrary: a rule: less_induct)
  case less
  show ?case
  proof (cases "tp_base C a")
    case None
    then show ?thesis by (subst InBases.simps) simp
  next
    case (Some a')
    then show ?thesis using less [OF assms [OF Some]]
      by (subst InBases.simps) (auto intro: exI [of _ True])
  qed
qed

subsection \<open>The end of an iteration\<close>

text \<open>
  The exception pending in the thread state, if any. \<open>is_stop\<close> is the test for \<open>StopIteration\<close>; the first
  component of a result is \<open>-1\<close> for an error.
\<close>

definition IterFinish :: "('e \<Rightarrow> bool) \<Rightarrow> 'e option \<Rightarrow> int \<times> 'e option" where
  "IterFinish is_stop pending =
     (case pending of
        None \<Rightarrow> (0, None)
      | Some e \<Rightarrow> if is_stop e then (0, None) else (- 1, pending))"

text \<open>After the expected number of items: one more is an error.\<close>

definition IternextUnpackEndCheck ::
    "('e \<Rightarrow> bool) \<Rightarrow> 'e \<Rightarrow> 'a option \<Rightarrow> 'e option \<Rightarrow> int \<times> 'e option" where
  "IternextUnpackEndCheck is_stop too_many retval pending =
     (case retval of Some x \<Rightarrow> (- 1, Some too_many) | None \<Rightarrow> IterFinish is_stop pending)"

text \<open>\<open>next(iterator, defval)\<close>; without a default \<open>StopIteration\<close> is left pending.\<close>

definition PyIter_Next2Default ::
    "('e \<Rightarrow> bool) \<Rightarrow> 'e \<Rightarrow> 'a option \<Rightarrow> 'e option \<Rightarrow> 'a option \<times> 'e option" where
  "PyIter_Next2Default is_stop stop defval pending =
     (case pending of
        Some e \<Rightarrow> if defval = None \<or> \<not> is_stop e then (None, pending) else (defval, None)
      | None \<Rightarrow> if defval \<noteq> None then (defval, None) else (None, Some stop))"

definition PyIter_Next2 ::
    "('e \<Rightarrow> bool) \<Rightarrow> 'e \<Rightarrow> 'e \<Rightarrow> ('a option \<times> 'e option) option \<Rightarrow> 'a option \<Rightarrow> 'a option \<times> 'e option" where
  "PyIter_Next2 is_stop stop not_iterator iternext defval =
     (case iternext of
        None \<Rightarrow> (None, Some not_iterator)
      | Some (Some x, pending) \<Rightarrow> (Some x, pending)
      | Some (None, pending) \<Rightarrow> PyIter_Next2Default is_stop stop defval pending)"

lemma next_value_or_exception:
  assumes "\<And>x p. iternext = Some (Some x, p) \<Longrightarrow> p = None"
  shows "(fst (PyIter_Next2 is_stop stop not_iterator iternext defval) = None) =
    (snd (PyIter_Next2 is_stop stop not_iterator iternext defval) \<noteq> None)"
  using assms
  by (auto simp: PyIter_Next2_def PyIter_Next2Default_def split: option.splits prod.splits)

subsection \<open>Raising\<close>

text \<open>
  \<open>__Pyx_Raise(type, value, tb, cause)\<close> for Python 3. Objects are named by numbers: \<open>instance_of\<close> gives the
  class of an exception object, \<open>class_object\<close> the exception class an object is, \<open>tuple_items\<close> the
  items of a tuple; \<open>is_subclass\<close> and \<open>call\<close> run code of the program.
\<close>

record raise_env =
  instance_of :: "nat \<Rightarrow> nat option"
  class_object :: "nat \<Rightarrow> nat option"
  tuple_items :: "nat \<Rightarrow> nat list option"
  is_traceback :: "nat \<Rightarrow> bool"
  is_subclass :: "nat \<Rightarrow> nat \<Rightarrow> pyexn + bool"
  call_class :: "nat \<Rightarrow> nat list \<Rightarrow> pyexn + nat"

text \<open>What is pending afterwards: the exception raised, or one about the attempt.\<close>

record raised =
  exc_type :: nat
  exc_value :: nat
  exc_tb :: "nat option"
  exc_cause :: "nat option option"

definition type_error :: "string \<Rightarrow> pyexn + 'a" where
  "type_error s = Inl (Exn TypeError (Text s))"

definition make_instance :: "raise_env \<Rightarrow> nat \<Rightarrow> nat option \<Rightarrow> pyexn + nat" where
  "make_instance R cls val =
     bind_res (call_class R cls
       (case val of None \<Rightarrow> [] | Some v \<Rightarrow> (case tuple_items R v of Some xs \<Rightarrow> xs | None \<Rightarrow> [v])))
       (\<lambda>x. if instance_of R x = None
            then type_error ''calling %R should have returned an instance of BaseException, not %R''
            else Inr x)"

definition type_and_value :: "raise_env \<Rightarrow> nat \<Rightarrow> nat option \<Rightarrow> pyexn + (nat \<times> nat)" where
  "type_and_value R ty val =
     (case instance_of R ty of
        Some c \<Rightarrow>
          if val \<noteq> None then type_error ''instance exception may not have a separate value'' else Inr (c, ty)
      | None \<Rightarrow>
          (case class_object R ty of
             None \<Rightarrow> type_error ''raise: exception class must be a subclass of BaseException''
           | Some c \<Rightarrow>
               bind_res
                 (case val of
                    None \<Rightarrow> Inr None
                  | Some v \<Rightarrow>
                      (case instance_of R v of
                         None \<Rightarrow> Inr None
                       | Some k \<Rightarrow>
                           if k = c then Inr (Some k)
                           else bind_res (is_subclass R k c) (\<lambda>b. Inr (if b then Some k else None))))
                 (\<lambda>found. case (found, val) of
                    (Some k, Some v) \<Rightarrow> Inr (k, v)
                  | _ \<Rightarrow> bind_res (make_instance R c val) (\<lambda>x. Inr (c, x)))))"

definition fixed_cause :: "raise_env \<Rightarrow> nat \<Rightarrow> nat option \<Rightarrow> pyexn + nat option option" where
  "fixed_cause R none cause =
     (case cause of
        None \<Rightarrow> Inr None
      | Some c \<Rightarrow>
          if c = none then Inr (Some None)
          else case class_object R c of
                 Some k \<Rightarrow> bind_res (call_class R k []) (\<lambda>x. Inr (Some (Some x)))
               | None \<Rightarrow>
                   if instance_of R c \<noteq> None then Inr (Some (Some c))
                   else type_error ''exception causes must derive from BaseException'')"

definition Raise :: "raise_env \<Rightarrow> nat \<Rightarrow> nat \<Rightarrow> nat option \<Rightarrow> nat option \<Rightarrow> nat option \<Rightarrow> pyexn + raised" where
  "Raise R none ty val tb cause =
     (let tb' = (if tb = Some none then None else tb); val' = (if val = Some none then None else val)
      in if tb' \<noteq> None \<and> \<not> is_traceback R (the tb')
         then type_error ''raise: arg 3 must be a traceback or None''
         else bind_res (type_and_value R ty val') (\<lambda>(c, v).
              bind_res (fixed_cause R none cause) (\<lambda>k.
              Inr \<lparr>exc_type = c, exc_value = v, exc_tb = tb', exc_cause = k\<rparr>)))"

text \<open>Whatever \<open>raise\<close> is given, what it leaves pending is an exception object.\<close>

lemma raise_exception_object: "Raise R none ty val tb cause = Inr p \<Longrightarrow> instance_of R (exc_value p) \<noteq> None"
  by (auto simp: Raise_def Let_def type_and_value_def make_instance_def type_error_def bind_res_convs
      split: option.splits if_splits sum.splits)

text \<open>The form all statements of the module have: an exception object by itself is raised as it is.\<close>

lemma raise_instance:
  "instance_of R e = Some c \<Longrightarrow>
   Raise R none e None None None = Inr \<lparr>exc_type = c, exc_value = e, exc_tb = None, exc_cause = None\<rparr>"
  by (simp add: Raise_def type_and_value_def fixed_cause_def)

end
