(* ===== verification/Calls.thy ===== *)
theory Calls
  imports ArgParse
begin

section \<open>Calling Python\<close>

text \<open>
  The ways \<open>rocksdb/_rocksdb.cpp\<close> calls an object: instead of \<open>PyObject_Call\<close> with a tuple, the
  generated code enters Python functions and builtin functions directly, takes bound methods
  apart and keeps unbound methods of \<open>dict\<close> in a cache. Each is compared with the plain call.
\<close>

subsection \<open>Callable objects\<close>

text \<open>
  The result of a C function: \<open>None\<close> is \<open>NULL\<close> without an exception. The state \<open>'s\<close> is everything a
  call may change.
\<close>

type_synonym 's call = "'s \<Rightarrow> (pyexn + pyobj) option \<times> 's"




definition raise_call :: "pyexn \<Rightarrow> 's call" where
  "raise_call e s = (Some (Inl e), s)"

definition call_error :: "string \<Rightarrow> 's call" where
  "call_error m = raise_call (Exn TypeError (Text m))"

subsection \<open>The plain call\<close>






subsection \<open>The shortcuts\<close>













subsection \<open>Methods by name\<close>









subsection \<open>Cached unbound methods\<close>








subsection \<open>Well-behaved objects\<close>

text \<open>A C function returns an object or raises; none returns \<open>NULL\<close> without an exception.\<close>

definition answers :: "'s call \<Rightarrow> bool" where
  "answers m \<longleftrightarrow> (\<forall>s. fst (m s) \<noteq> None)"




lemma answers_simps [simp]:
  "answers (raise_call e)" "answers (call_error m)"
  by (simp_all add: answers_def raise_call_def call_error_def)













subsection \<open>Attributes that are methods\<close>





subsection \<open>Cached methods\<close>



subsection \<open>Properties\<close>






end
