(* ===== verification/Traceback.thy ===== *)
theory Traceback
  imports CodeCache IntConv
begin

section \<open>Frames of tracebacks\<close>

text \<open>
  \<open>__Pyx_AddTraceback\<close> of \<open>rocksdb/_rocksdb.cpp\<close> adds a frame for a C++ function to the traceback of an
  exception: \<open>__Pyx_CLineForTraceback\<close> decides whether the line of the C++ file is shown, the code
  object comes from the cache of \<open>CodeCache\<close> or from \<open>__Pyx_CreateCodeObjectForTraceback\<close>.
\<close>

subsection \<open>Code objects and frames\<close>

text \<open>The name of a code object: the function, or the function with the line of \<open>_rocksdb.cpp\<close>.\<close>

datatype code_name = Plain string | WithCLine string int

record code_info =
  co_name :: code_name
  co_filename :: string
  co_firstlineno :: int

record tb_frame =
  fr_code :: code_info
  fr_line :: int

text \<open>
  \<open>tb_info\<close> are the code objects made so far, numbered in order. \<open>cline_attr\<close> is the attribute
  \<open>cline_in_traceback\<close> of the module \<open>cython_runtime\<close>: \<open>None\<close> before that module is there,
  \<open>Some None\<close> while it has no such attribute.
\<close>

record tb_state =
  tb_cache :: code_cache
  tb_info :: "nat \<Rightarrow> code_info"
  tb_next :: nat
  cline_attr :: "pyobj option option"

text \<open>Which allocations succeed: the code object, the array of the cache, its growth, the frame.\<close>

record tb_alloc =
  code_ok :: bool
  malloc_ok :: bool
  realloc_ok :: bool
  frame_ok :: bool

subsection \<open>The functions\<close>

text \<open>
  An unset attribute is set to \<open>False\<close>. \<open>PyObject_Not(x) != 0\<close> is also true when the truth of \<open>x\<close>
  raises (the pending exception is restored afterwards).
\<close>

definition CLineForTraceback :: "pyenv \<Rightarrow> int \<Rightarrow> tb_state \<Rightarrow> int \<times> tb_state" where
  "CLineForTraceback E c_line S =
     (case cline_attr S of
        None \<Rightarrow> (c_line, S)
      | Some None \<Rightarrow> (0, S\<lparr>cline_attr := Some (Some (PBool False))\<rparr>)
      | Some (Some use_cline) \<Rightarrow>
          (if use_cline = PBool False \<or>
             (use_cline \<noteq> PBool True \<and> PyObject_IsTrue E use_cline \<noteq> Inr True)
           then (0, S) else (c_line, S)))"

definition CreateCodeObjectForTraceback :: "string \<Rightarrow> int \<Rightarrow> int \<Rightarrow> string \<Rightarrow> code_info" where
  "CreateCodeObjectForTraceback funcname c_line py_line filename =
     \<lparr>co_name = (if c_line \<noteq> 0 then WithCLine funcname c_line else Plain funcname),
      co_filename = filename, co_firstlineno = py_line\<rparr>"

definition new_frame :: "tb_alloc \<Rightarrow> int \<Rightarrow> nat \<Rightarrow> tb_state \<Rightarrow> tb_frame option \<times> tb_state" where
  "new_frame m py_line ob S =
     (if frame_ok m then Some \<lparr>fr_code = tb_info S ob, fr_line = py_line\<rparr> else None,
      S\<lparr>tb_cache := decref ob (tb_cache S)\<rparr>)"

definition AddTraceback ::
    "pyenv \<Rightarrow> tb_alloc \<Rightarrow> string \<Rightarrow> int \<Rightarrow> int \<Rightarrow> string \<Rightarrow> tb_state \<Rightarrow> tb_frame option \<times> tb_state" where
  "AddTraceback E m funcname c_line py_line filename S =
     (case (if c_line \<noteq> 0 then CLineForTraceback E c_line S else (c_line, S)) of
        (c_line, S) \<Rightarrow>
          let key = (if c_line \<noteq> 0 then - c_line else py_line)
          in case find_code_object key (tb_cache S) of
               (Some ob, c) \<Rightarrow> new_frame m py_line ob (S\<lparr>tb_cache := c\<rparr>)
             | (None, c) \<Rightarrow>
                 (if code_ok m
                  then let ob = tb_next S
                       in new_frame m py_line ob
                            (S\<lparr>tb_cache := insert_code_object (malloc_ok m) (realloc_ok m) key ob (incref ob c),
                               tb_info := (tb_info S)(ob :=
                                 CreateCodeObjectForTraceback funcname c_line py_line filename),
                               tb_next := ob + 1\<rparr>)
                  else (None, S\<lparr>tb_cache := c\<rparr>)))"

text \<open>On the cache it does what \<open>add_traceback\<close> describes, so the accounts stay right.\<close>

lemma AddTraceback_cache:
  "\<exists>c_line'. tb_cache (snd (AddTraceback E m f c_line py_line file S)) =
     add_traceback (malloc_ok m) (realloc_ok m) c_line' py_line
       (if code_ok m then Some (tb_next S) else None) (tb_cache S)"
proof -
  obtain c S' where cs: "(if c_line \<noteq> 0 then CLineForTraceback E c_line S else (c_line, S)) = (c, S')"
    by (cases "if c_line \<noteq> 0 then CLineForTraceback E c_line S else (c_line, S)")
  then have same: "tb_cache S' = tb_cache S" "tb_next S' = tb_next S"
    by (auto simp: CLineForTraceback_def split: if_splits option.splits)
  have "tb_cache (snd (AddTraceback E m f c_line py_line file S)) =
      add_traceback (malloc_ok m) (realloc_ok m) c py_line
       (if code_ok m then Some (tb_next S) else None) (tb_cache S)"
    by (simp add: AddTraceback_def cs add_traceback_def Let_def same new_frame_def
        split: prod.split option.split)
  then show ?thesis by blast
qed

lemma AddTraceback_keeps_accounts:
  "refs_inv ext (tb_cache S) \<Longrightarrow> refs_inv ext (tb_cache (snd (AddTraceback E m f c l file S)))"
  using AddTraceback_cache [of E m f c l "file" S] add_traceback_refs_inv by metis

subsection \<open>Which code object a frame shows\<close>

text \<open>An error exit: the function, the lines of \<open>_rocksdb.cpp\<close> and of its source file, and that file.\<close>

record site =
  s_func :: string
  s_cline :: int
  s_line :: int
  s_file :: string

definition report :: "pyenv \<Rightarrow> tb_alloc \<Rightarrow> site \<Rightarrow> tb_state \<Rightarrow> tb_frame option \<times> tb_state" where
  "report E m s = AddTraceback E m (s_func s) (s_cline s) (s_line s) (s_file s)"

fun reports :: "pyenv \<Rightarrow> tb_alloc \<Rightarrow> site list \<Rightarrow> tb_state \<Rightarrow> tb_frame option list \<times> tb_state" where
  "reports E m [] S = ([], S)"
| "reports E m (s # ss) S =
     (case report E m s S of (fr, S1) \<Rightarrow> (case reports E m ss S1 of (frs, S2) \<Rightarrow> (fr # frs, S2)))"

text \<open>Whether the lines of \<open>_rocksdb.cpp\<close> are shown.\<close>

definition clines_on :: "pyenv \<Rightarrow> pyobj option option \<Rightarrow> bool" where
  "clines_on E a =
     (case a of
        None \<Rightarrow> True
      | Some None \<Rightarrow> False
      | Some (Some v) \<Rightarrow> PyObject_IsTrue E v = Inr True)"

definition shown_cline :: "bool \<Rightarrow> site \<Rightarrow> int" where
  "shown_cline on s = (if on then s_cline s else 0)"

definition cache_key :: "bool \<Rightarrow> site \<Rightarrow> int" where
  "cache_key on s = (if shown_cline on s \<noteq> 0 then - shown_cline on s else s_line s)"

definition site_info :: "bool \<Rightarrow> site \<Rightarrow> code_info" where
  "site_info on s = CreateCodeObjectForTraceback (s_func s) (shown_cline on s) (s_line s) (s_file s)"

definition first_with :: "bool \<Rightarrow> site list \<Rightarrow> int \<Rightarrow> site option" where
  "first_with on ss key = List.find (\<lambda>s. cache_key on s = key) ss"

definition all_ok :: "tb_alloc \<Rightarrow> bool" where
  "all_ok m \<longleftrightarrow> code_ok m \<and> malloc_ok m \<and> realloc_ok m \<and> frame_ok m"

definition tb_inv :: "pyenv \<Rightarrow> bool \<Rightarrow> site list \<Rightarrow> tb_state \<Rightarrow> bool" where
  "tb_inv E on seen S \<longleftrightarrow>
     cache_inv (tb_cache S) \<and> clines_on E (cline_attr S) = on \<and>
     (\<forall>key ob. cache_map (tb_cache S) key = Some ob \<longrightarrow>
        ob < tb_next S \<and> map_option (site_info on) (first_with on seen key) = Some (tb_info S ob)) \<and>
     (\<forall>key. cache_map (tb_cache S) key = None \<longrightarrow> key \<noteq> 0 \<longrightarrow> first_with on seen key = None)"

lemma first_with_snoc:
  "first_with on (ss @ [s]) key =
     (case first_with on ss key of Some t \<Rightarrow> Some t
      | None \<Rightarrow> if cache_key on s = key then Some s else None)"
  by (induction ss) (simp_all add: first_with_def)

lemma CLine_cases:
  assumes "clines_on E (cline_attr S) = on"
  shows "\<exists>a. (if c \<noteq> 0 then CLineForTraceback E c S else (c, S)) = (if on then c else 0, S\<lparr>cline_attr := a\<rparr>) \<and>
    clines_on E a = on"
proof (cases "c = 0")
  case True
  then show ?thesis using assms by (intro exI [of _ "cline_attr S"]) simp
next
  case False
  show ?thesis
    using assms False
    by (cases "cline_attr S"; cases "the (cline_attr S)")
      (auto simp: CLineForTraceback_def clines_on_def intro: exI [of _ "cline_attr S"]
        exI [of _ "Some (Some (PBool False))"])
qed

lemma report_inv:
  assumes "tb_inv E on seen S" "all_ok m" "cache_key on s \<noteq> 0"
  shows "fst (report E m s S) =
      Some \<lparr>fr_code = site_info on (the (first_with on (seen @ [s]) (cache_key on s))), fr_line = s_line s\<rparr>"
    and "tb_inv E on (seen @ [s]) (snd (report E m s S))"
proof -
  let ?k = "cache_key on s" and ?c = "tb_cache S"
  have inv: "cache_inv ?c" and on: "clines_on E (cline_attr S) = on"
    and old: "\<And>key ob. cache_map ?c key = Some ob \<Longrightarrow>
      ob < tb_next S \<and> map_option (site_info on) (first_with on seen key) = Some (tb_info S ob)"
    and gone: "\<And>key. cache_map ?c key = None \<Longrightarrow> key \<noteq> 0 \<Longrightarrow> first_with on seen key = None"
    using assms(1) by (auto simp: tb_inv_def)
  obtain a where a: "(if s_cline s \<noteq> 0 then CLineForTraceback E (s_cline s) S else (s_cline s, S)) =
      (shown_cline on s, S\<lparr>cline_attr := a\<rparr>)" "clines_on E a = on"
    using CLine_cases [OF on, of "s_cline s"] by (auto simp: shown_cline_def)
  note F = find_code_object_spec [OF inv, of ?k]
  have "fst (report E m s S) =
      Some \<lparr>fr_code = site_info on (the (first_with on (seen @ [s]) ?k)), fr_line = s_line s\<rparr> \<and>
    tb_inv E on (seen @ [s]) (snd (report E m s S))"
  proof (cases "cache_map ?c ?k")
    case (Some ob)
    then have find: "find_code_object ?k ?c = (Some ob, incref ob ?c)" using F by (simp add: prod_eq_iff)
    have rep: "report E m s S =
        new_frame m (s_line s) ob (S\<lparr>cline_attr := a, tb_cache := incref ob ?c\<rparr>)"
      by (simp add: report_def AddTraceback_def a(1) Let_def cache_key_def [symmetric] find)
    obtain t where t: "first_with on seen ?k = Some t" "site_info on t = tb_info S ob"
      using old [OF Some] by auto
    have same: "first_with on (seen @ [s]) key = first_with on seen key" for key
      using t(1) by (cases "first_with on seen key") (auto simp: first_with_snoc)
    show ?thesis
      using inv old gone a(2) assms(2) t by (simp add: rep new_frame_def all_ok_def tb_inv_def same)
  next
    case None
    then have find: "find_code_object ?k ?c = (None, ?c)" using F by (simp add: prod_eq_iff)
    let ?ob = "tb_next S"
    let ?c' = "insert_code_object True True ?k ?ob (incref ?ob ?c)"
    have rep: "report E m s S = new_frame m (s_line s) ?ob
        (S\<lparr>cline_attr := a, tb_cache := ?c', tb_info := (tb_info S)(?ob := site_info on s), tb_next := ?ob + 1\<rparr>)"
      using assms(2)
      by (simp add: report_def AddTraceback_def a(1) Let_def cache_key_def [symmetric] find all_ok_def
          site_info_def)
    have ins: "cache_inv ?c'" "cache_map ?c' = (cache_map ?c)(?k \<mapsto> ?ob)"
      using insert_code_object_spec [of "incref ?ob ?c" ?k ?ob] inv assms(3) by simp_all
    have new: "first_with on seen ?k = None" using gone [OF None assms(3)] .
    have same: "first_with on (seen @ [s]) key = first_with on seen key" if "key \<noteq> ?k" for key
      using that by (cases "first_with on seen key") (auto simp: first_with_snoc)
    have "tb_inv E on (seen @ [s]) (snd (report E m s S))"
      unfolding tb_inv_def
      using a(2) ins gone new same
      by (auto simp: rep new_frame_def first_with_snoc dest!: old split: if_splits)
    then show ?thesis
      using assms(2) by (simp add: rep new_frame_def all_ok_def first_with_snoc new)
  qed
  then show "fst (report E m s S) =
      Some \<lparr>fr_code = site_info on (the (first_with on (seen @ [s]) ?k)), fr_line = s_line s\<rparr>"
    "tb_inv E on (seen @ [s]) (snd (report E m s S))" by auto
qed

lemma first_with_append:
  "first_with on ss key = Some t \<Longrightarrow> first_with on (ss @ ts) key = Some t"
  by (induction ss) (auto simp: first_with_def split: if_splits)

lemma reports_inv:
  assumes "all_ok m" "tb_inv E on seen S" "\<forall>s \<in> set ss. cache_key on s \<noteq> 0"
  shows "fst (reports E m ss S) =
    map (\<lambda>s. Some \<lparr>fr_code = site_info on (the (first_with on (seen @ ss) (cache_key on s))),
      fr_line = s_line s\<rparr>) ss"
  using assms(2,3)
proof (induction ss arbitrary: seen S)
  case Nil
  then show ?case by simp
next
  case (Cons s ss)
  obtain fr S1 where r: "report E m s S = (fr, S1)" by (cases "report E m s S")
  have nz: "cache_key on s \<noteq> 0" using Cons.prems(2) by simp
  note R = report_inv [OF Cons.prems(1) assms(1) nz, unfolded r fst_conv snd_conv]
  obtain frs S2 where rs: "reports E m ss S1 = (frs, S2)" by (cases "reports E m ss S1")
  obtain t where "first_with on (seen @ [s]) (cache_key on s) = Some t"
    by (cases "first_with on seen (cache_key on s)") (auto simp: first_with_snoc)
  then have "first_with on (seen @ s # ss) (cache_key on s) = first_with on (seen @ [s]) (cache_key on s)"
    using first_with_append [of on "seen @ [s]" "cache_key on s" t ss] by simp
  then show ?case
    using Cons.IH [OF R(2)] Cons.prems(2) R(1) by (simp add: r rs)
qed

text \<open>The source files of the module.\<close>

definition pyx_f :: "string list" where
  "pyx_f = [''_rocksdb.pyx'', ''stringsource'', ''type.pxd'', ''bool.pxd'', ''complex.pxd'']"

lemma no_sites_inv: "tb_cache S = empty_cache \<Longrightarrow> tb_inv E (clines_on E (cline_attr S)) [] S"
  by (simp add: tb_inv_def cache_inv_empty first_with_def)
    (simp add: cache_map_def empty_cache_def used_def)

subsection \<open>Properties\<close>

text \<open>
  C31. A frame of a traceback has the right line, but the function and file of the first error exit
  reported with the same cache key. With lines of the C++ file shown the key is that line, which no
  two exits share; without them (the default) it is the line of the source file alone, whichever
  file that is.
\<close>

theorem tracebacks_name_first_site:
  assumes "all_ok m" "tb_cache S = empty_cache" "on = clines_on E (cline_attr S)"
    and "\<forall>s \<in> set ss. cache_key on s \<noteq> 0"
  shows "fst (reports E m ss S) =
    map (\<lambda>s. Some \<lparr>fr_code = site_info on (the (first_with on ss (cache_key on s))), fr_line = s_line s\<rparr>) ss"
  using reports_inv [OF assms(1) no_sites_inv [OF assms(2), of E], folded assms(3)] assms(4) by simp

text \<open>
  The methods that refuse pickling are written into the source text \<open>stringsource\<close>, one copy for each
  class, so their lines are the same.
\<close>

definition refuse_LRUCache :: site where
  "refuse_LRUCache = \<lparr>s_func = ''rocksdb._rocksdb.PyLRUCache.__reduce_cython__'', s_cline = 10756,
     s_line = 2, s_file = pyx_f ! 1\<rparr>"

definition refuse_DB :: site where
  "refuse_DB = \<lparr>s_func = ''rocksdb._rocksdb.DB.__reduce_cython__'', s_cline = 40061,
     s_line = 2, s_file = pyx_f ! 1\<rparr>"

definition fresh_tb :: "pyobj option option \<Rightarrow> tb_state" where
  "fresh_tb a = \<lparr>tb_cache = empty_cache, tb_info = (\<lambda>_. \<lparr>co_name = Plain [], co_filename = [],
     co_firstlineno = 0\<rparr>), tb_next = 0, cline_attr = a\<rparr>"

definition plenty :: tb_alloc where
  "plenty = \<lparr>code_ok = True, malloc_ok = True, realloc_ok = True, frame_ok = True\<rparr>"

text \<open>Refusing to pickle a cache and then a database: the second traceback blames the cache.\<close>

theorem tracebacks_name_first_site_witness:
  "fst (reports plain_env plenty [refuse_LRUCache, refuse_DB] (fresh_tb (Some None))) =
     [Some \<lparr>fr_code = \<lparr>co_name = Plain ''rocksdb._rocksdb.PyLRUCache.__reduce_cython__'',
        co_filename = ''stringsource'', co_firstlineno = 2\<rparr>, fr_line = 2\<rparr>,
      Some \<lparr>fr_code = \<lparr>co_name = Plain ''rocksdb._rocksdb.PyLRUCache.__reduce_cython__'',
        co_filename = ''stringsource'', co_firstlineno = 2\<rparr>, fr_line = 2\<rparr>]"
proof -
  have off: "False = clines_on plain_env (cline_attr (fresh_tb (Some None)))"
    by (simp add: clines_on_def fresh_tb_def)
  show ?thesis
    using tracebacks_name_first_site [of plenty "fresh_tb (Some None)", OF _ _ off,
        of "[refuse_LRUCache, refuse_DB]"]
    by (simp add: all_ok_def plenty_def fresh_tb_def refuse_LRUCache_def refuse_DB_def cache_key_def
        shown_cline_def first_with_def site_info_def CreateCodeObjectForTraceback_def pyx_f_def)
qed

end
