(* ===== verification/Constants.thy ===== *)
theory Constants
  imports TypeInit Traceback
begin

section \<open>The constants of the module and the statements that make them\<close>

text \<open>
  The code of \<open>rocksdb/_rocksdb.cpp\<close> that runs when the module is imported is straight-line: every
  statement sets a C variable, puts an object into a dictionary or releases a temporary, and jumps to
  the error exit when the interpreter reports a failure. It is modelled as lists of statements and
  what a statement does. Here are the C variables, the statements, the string table
  \<open>__pyx_string_tab\<close> with its texts, and the functions that make the constants: \<open>__Pyx_InitStrings\<close>,
  \<open>__Pyx_InitGlobals\<close>, \<open>__Pyx_InitCachedBuiltins\<close>, \<open>__Pyx_InitCachedConstants\<close> and
  \<open>__Pyx_modinit_type_import_code\<close>. The branches of the code for Python 3 are followed.
\<close>

subsection \<open>C variables and objects\<close>

text \<open>
  \<open>N_s\<close>, \<open>N_u\<close>, \<open>Kp_s\<close> and \<open>Kp_u\<close> are the variables \<open>__pyx_n_s_x\<close> and so on; \<open>Vtab_var t\<close> is the pointer
  to the method table of an extension type. \<open>Tmp_0\<close> is the temporary of
  \<open>__Pyx_modinit_type_import_code\<close>, \<open>Tmp_1\<close> and \<open>Tmp_2\<close> are those of the module body.
\<close>

datatype cvar =
    N_s string | N_u string | Kp_s string | Kp_u string
  | Int_var int | Tuple_var nat | Code_var nat | Builtin_var string
  | Float_075 | Empty_tuple | Empty_bytes | Empty_unicode
  | None_var | True_var | False_var
  | Umethod string | Import_type string | Type_var ext_type | Vtab_var ext_type
  | M_var | D_var | B_var | Cython_runtime | Tmp_0 | Tmp_1 | Tmp_2

text \<open>
  The objects they point to. \<open>Interned s\<close> is the one string object with this text that the interpreter
  keeps, \<open>Ustr s\<close> a string of its own. \<open>ModuleOb n l\<close> is the module found for the name \<open>n\<close> in an import
  of level \<open>l\<close>, \<open>SelfModule m\<close> the module object being initialised, \<open>SelfDict m\<close> its dictionary.
\<close>

datatype mobj =
    Interned string | Ustr string | BytesOb string | IntOb int | FloatOb string
  | TupleOb "mobj list" | ListOb "mobj list" | DictOb
  | CodeOb nat nat mobj mobj mobj int
  | BuiltinOb string | BuiltinType string | ModuleOb string nat | AttrOb mobj string
  | TypeOb ext_type | FunctionOb string mobj | StaticOb mobj
  | SelfModule nat | SelfDict nat | NoneOb | TrueOb | FalseOb

fun text_of :: "mobj \<Rightarrow> string" where
  "text_of (Interned s) = s"
| "text_of (Ustr s) = s"
| "text_of _ = []"

text \<open>The values of the variables, by kind; \<open>None\<close> is the null pointer.\<close>

record globals =
  g_ns :: "(string \<times> mobj option) list"
  g_nu :: "(string \<times> mobj option) list"
  g_kps :: "(string \<times> mobj option) list"
  g_kpu :: "(string \<times> mobj option) list"
  g_ints :: "(int \<times> mobj option) list"
  g_tuples :: "(nat \<times> mobj option) list"
  g_codes :: "(nat \<times> mobj option) list"
  g_builtins :: "(string \<times> mobj option) list"
  g_rest :: "(cvar \<times> mobj option) list"

definition pointee :: "('k \<times> mobj option) list \<Rightarrow> 'k \<Rightarrow> mobj option" where
  "pointee m k = (case map_of m k of Some v \<Rightarrow> v | None \<Rightarrow> None)"

fun get_var :: "cvar \<Rightarrow> globals \<Rightarrow> mobj option" where
  "get_var (N_s k) G = pointee (g_ns G) k"
| "get_var (N_u k) G = pointee (g_nu G) k"
| "get_var (Kp_s k) G = pointee (g_kps G) k"
| "get_var (Kp_u k) G = pointee (g_kpu G) k"
| "get_var (Int_var k) G = pointee (g_ints G) k"
| "get_var (Tuple_var k) G = pointee (g_tuples G) k"
| "get_var (Code_var k) G = pointee (g_codes G) k"
| "get_var (Builtin_var k) G = pointee (g_builtins G) k"
| "get_var v G = pointee (g_rest G) v"

fun put_var :: "cvar \<Rightarrow> mobj option \<Rightarrow> globals \<Rightarrow> globals" where
  "put_var (N_s k) x G = G\<lparr>g_ns := (k, x) # g_ns G\<rparr>"
| "put_var (N_u k) x G = G\<lparr>g_nu := (k, x) # g_nu G\<rparr>"
| "put_var (Kp_s k) x G = G\<lparr>g_kps := (k, x) # g_kps G\<rparr>"
| "put_var (Kp_u k) x G = G\<lparr>g_kpu := (k, x) # g_kpu G\<rparr>"
| "put_var (Int_var k) x G = G\<lparr>g_ints := (k, x) # g_ints G\<rparr>"
| "put_var (Tuple_var k) x G = G\<lparr>g_tuples := (k, x) # g_tuples G\<rparr>"
| "put_var (Code_var k) x G = G\<lparr>g_codes := (k, x) # g_codes G\<rparr>"
| "put_var (Builtin_var k) x G = G\<lparr>g_builtins := (k, x) # g_builtins G\<rparr>"
| "put_var v x G = G\<lparr>g_rest := (v, x) # g_rest G\<rparr>"

text \<open>Before the first import every variable is null, save the objects of the interpreter itself.\<close>

definition no_globals :: globals where
  "no_globals = \<lparr>g_ns = [], g_nu = [], g_kps = [], g_kpu = [], g_ints = [], g_tuples = [], g_codes = [],
     g_builtins = [], g_rest = [(None_var, Some NoneOb), (True_var, Some TrueOb), (False_var, Some FalseOb)]\<rparr>"

lemma pointee_Cons [simp]: "pointee ((k, x) # m) k' = (if k' = k then x else pointee m k')"
  by (simp add: pointee_def)

lemma get_put [simp]: "get_var v (put_var w x G) = (if v = w then x else get_var v G)"
  by (cases w; cases v) simp_all

subsection \<open>Statements\<close>

text \<open>
  An entry of the string table: the variable, its text and the flags; \<open>encoding\<close> is null in every
  entry. The right-hand sides follow the functions of the C API that the code calls.
\<close>

datatype strtab_entry =
  Entry (entry_var: cvar) (entry_k: string) (is_unicode: bool) (is_str: bool) (intern: bool)

datatype rvalue =
    GivenModule | ModuleDict | AddModule string
  | NewEmpty mobj | NewInt int | NewFloat string | Decode strtab_entry
  | GetBuiltinName cvar | Pack "cvar list" | NewCode nat nat cvar cvar cvar int
  | NewList "cvar list" | NewDict | NewFunction string cvar
  | Import cvar "cvar option" int | ImportFrom cvar cvar
  | ImportModule string | ImportType cvar string | DictType
  | NameInClass ext_type cvar | CallStaticmethod cvar

datatype stmt =
    CheckVersion
  | Assign cvar rvalue
  | Clear cvar
  | SetDict cvar cvar
  | SetTypeDict ext_type cvar cvar
  | TypeModified ext_type
  | SetAttrString string cvar
  | SetAttr cvar cvar
  | RegisterModule string
  | TypeStep ext_type init_step
  | InitThreads

text \<open>The operands of \<open>__PYX_ERR\<close> at the statement (file, line) and its line in \<open>_rocksdb.cpp\<close>.\<close>

datatype location = NoLoc | Loc nat int int

subsection \<open>The string table\<close>

definition k_texts_1 :: "(string \<times> string) list" where
  "k_texts_1 =
     [(''a'', ''a''), (''b'', ''b''), (''DB'', ''DB''), (''db'', ''db''), (''id'', ''id''),
      (''it'', ''it''), (''ob'', ''ob''), (''st'', ''st''), (''Put'', ''Put''), (''_34'', ''>''),
      (''_49'', ''!''), (''all'', ''all''), (''end'', ''end''), (''get'', ''get''), (''key'', ''key''),
      (''new'', ''__new__''), (''pop'', ''pop''), (''ref'', ''ref''), (''sys'', ''sys''),
      (''data'', ''data''), (''dict'', ''__dict__''), (''fifo'', ''fifo''), (''id_2'', '', id: ''),
      (''init'', ''__init__''), (''keys'', ''keys''), (''main'', ''__main__''), (''name'', ''name''),
      (''none'', ''none''), (''opts'', ''opts''), (''prop'', ''prop''), (''seek'', ''seek''),
      (''size'', ''size''), (''skip'', ''skip''), (''sync'', ''sync''), (''test'', ''__test__''),
      (''Merge'', ''Merge''), (''ascii'', ''ascii''), (''batch'', ''batch''), (''begin'', ''begin''),
      (''cache'', ''cache''), (''clear'', ''clear''), (''copts'', ''copts''), (''count'', ''count''),
      (''crc32'', ''crc32''), (''fetch'', ''fetch''), (''force'', ''force''), (''index'', ''index''),
      (''items'', ''items''), (''level'', ''level''), (''merge'', ''merge''), (''plain'', ''plain''),
      (''range'', ''range''), (''state'', '', state: ''), (''valid'', ''valid''), (''value'', ''value''),
      (''Delete'', ''Delete''), (''db_dir'', ''db_dir''), (''encode'', ''encode''),
      (''errors'', ''errors''), (''filter'', ''filter_''), (''handle'', ''handle''),
      (''import'', ''__import__''), (''name_2'', ''__name__''), (''pickle'', ''pickle''),
      (''prefix'', ''prefix''), (''reduce'', ''__reduce__'')]"

definition k_texts_2 :: "(string \<times> string) list" where
  "k_texts_2 =
     [(''update'', ''update''), (''xxhash'', ''xxhash''), (''Options'', ''Options''),
      (''compare'', ''compare''), (''db_name'', ''db_name''), (''db_path'', ''db_path''),
      (''invalid'', ''invalid''), (''wal_dir'', ''wal_dir''), (''weakref'', ''weakref''),
      (''LRUCache'', ''LRUCache''), (''NotFound'', ''NotFound''), (''capacity'', ''capacity''),
      (''checksum'', ''checksum''), (''getstate'', ''__getstate__''), (''in_range'', ''in_range''),
      (''is_valid'', ''is_valid''), (''pyx_type'', ''__pyx_type''), (''setstate'', ''__setstate__''),
      (''snapshot'', ''snapshot''), (''strategy'', ''strategy''), (''TypeError'', ''TypeError''),
      (''backup_id'', ''backup_id''), (''enumerate'', ''enumerate''), (''in_domain'', ''in_domain''),
      (''pyx_state'', ''__pyx_state''), (''read_only'', ''read_only''), (''read_tier'', ''read_tier''),
      (''reduce_ex'', ''__reduce_ex__''), (''repair_db'', ''repair_db''), (''timestamp'', ''timestamp''),
      (''traceback'', ''traceback''), (''transform'', ''transform''), (''universal'', ''universal''),
      (''Comparator'', ''Comparator''), (''Corruption'', ''Corruption''), (''Incomplete'', ''Incomplete''),
      (''ValueError'', ''ValueError''), (''WriteBatch'', ''WriteBatch''), (''backup_dir'', ''backup_dir''),
      (''block_size'', ''block_size''), (''fill_cache'', ''fill_cache''), (''format_exc'', ''format_exc''),
      (''full_merge'', ''full_merge''), (''index_type'', ''index_type''), (''interfaces'', ''interfaces''),
      (''largestkey'', ''largestkey''), (''pyx_result'', ''__pyx_result''),
      (''pyx_vtable'', ''__pyx_vtable__''), (''shard_bits'', ''shard_bits''),
      (''size_ratio'', ''size_ratio''), (''stop_style'', ''stop_style''), (''total_size'', ''total_size''),
      (''weakhandle'', ''weakhandle''), (''IComparator'', ''IComparator''),
      (''PickleError'', ''PickleError''), (''block_cache'', ''block_cache''),
      (''compression'', ''compression''), (''disable_wal'', ''disable_wal''),
      (''hash_search'', ''hash_search''), (''rocksdb_pyx'', ''_rocksdb.pyx''),
      (''smallestkey'', ''smallestkey''), (''window_bits'', ''window_bits''),
      (''BackupEngine'', ''BackupEngine''), (''FilterPolicy'', ''FilterPolicy''),
      (''NotSupported'', ''NotSupported''), (''RocksIOError'', ''RocksIOError'')]"

definition k_texts_3 :: "(string \<times> string) list" where
  "k_texts_3 =
     [(''bits_per_key'', ''bits_per_key''), (''bucket_count'', ''bucket_count''),
      (''change_level'', ''change_level''), (''pyx_checksum'', ''__pyx_checksum''),
      (''seek_to_last'', ''seek_to_last''), (''similar_size'', ''similar_size''),
      (''staticmethod'', ''staticmethod''), (''stringsource'', ''stringsource''),
      (''target_level'', ''target_level''), (''user_key_len'', ''user_key_len''),
      (''BaseException'', ''BaseException''), (''CompactionPri'', ''CompactionPri''),
      (''IFilterPolicy'', ''IFilterPolicy''), (''MergeOperator'', ''MergeOperator''),
      (''StopIteration'', ''StopIteration''), (''binary_search'', ''binary_search''),
      (''column_family'', ''column_family''), (''create_filter'', ''create_filter''),
      (''encoding_type'', ''encoding_type''), (''filter_policy'', ''filter_policy''),
      (''key_may_match'', ''key_may_match''), (''largest_seqno'', ''largest_seqno''),
      (''partial_merge'', ''partial_merge''), (''reduce_cython'', ''__reduce_cython__''),
      (''seek_for_prev'', ''seek_for_prev''), (''seek_to_first'', ''seek_to_first''),
      (''IMergeOperator'', ''IMergeOperator''), (''NotImplemented'', ''NotImplemented''),
      (''SliceTransform'', ''SliceTransform''), (''Unknonw_type_s'', ''Unknonw type: %s''),
      (''full_scan_mode'', ''full_scan_mode''), (''is_not_of_type'', '' is not of type ''),
      (''max_dict_bytes'', ''max_dict_bytes''), (''no_block_cache'', ''no_block_cache''),
      (''no_compression'', ''no_compression''), (''smallest_seqno'', ''smallest_seqno''),
      (''CompressionType'', ''CompressionType''), (''ISliceTransform'', ''ISliceTransform''),
      (''InvalidArgument'', ''InvalidArgument''), (''MergeInProgress'', ''MergeInProgress''),
      (''Unknown_error_s'', ''Unknown error: %s''), (''column_families'', ''column_families''),
      (''lz4_compression'', ''lz4_compression''), (''max_merge_width'', ''max_merge_width''),
      (''min_merge_width'', ''min_merge_width''), (''parse_read_opts'', ''__parse_read_opts''),
      (''pyx_PickleError'', ''__pyx_PickleError''), (''setstate_cython'', ''__setstate_cython__''),
      (''skiplist_height'', ''skiplist_height''), (''hash_table_ratio'', ''hash_table_ratio''),
      (''index_sparseness'', ''index_sparseness''), (''prefix_extractor'', ''prefix_extractor''),
      (''rocksdb__rocksdb'', ''rocksdb._rocksdb''), (''verify_checksums'', ''verify_checksums''),
      (''zlib_compression'', ''zlib_compression''), (''zstd_compression'', ''zstd_compression''),
      (''BloomFilterPolicy'', ''BloomFilterPolicy''), (''Invalid_read_tier'', ''Invalid read_tier''),
      (''PlainTableFactory'', ''PlainTableFactory''), (''bzip2_compression'', ''bzip2_compression''),
      (''lz4hc_compression'', ''lz4hc_compression''), (''BytewiseComparator'', ''BytewiseComparator''),
      (''ColumnFamilyHandle'', ''ColumnFamilyHandle''), (''Unknown_checksum_s'', ''Unknown checksum: %s''),
      (''bloom_bits_per_key'', ''bloom_bits_per_key''), (''cline_in_traceback'', ''cline_in_traceback'')]"

definition k_texts_4 :: "(string \<times> string) list" where
  "k_texts_4 =
     [(''column_family_name'', ''column family name ''), (''huge_page_tlb_size'', ''huge_page_tlb_size''),
      (''s_is_not_of_type_s'', ''%s is not of type %s''), (''snappy_compression'', ''snappy_compression''),
      (''xpress_compression'', ''xpress_compression''), (''ColumnFamilyOptions'', ''ColumnFamilyOptions''),
      (''by_compensated_size'', ''by_compensated_size''),
      (''disable_compression'', ''disable_compression''),
      (''flush_before_backup'', ''flush_before_backup''),
      (''whole_key_filtering'', ''whole_key_filtering''),
      (''Unknown_index_type_s'', ''Unknown index_type: %s''),
      (''block_size_deviation'', ''block_size_deviation''),
      (''if_compaction_filter'', ''if_compaction_filter''),
      (''list_column_families'', ''list_column_families''),
      (''pyx_unpickle_PyCache'', ''__pyx_unpickle_PyCache''),
      (''Unknown_compression_s'', ''Unknown compression: %s''),
      (''VectorMemtableFactory'', ''VectorMemtableFactory''),
      (''Wrong_type_for_path_s'', ''Wrong type for path: %s''),
      (''column_family_options'', ''column family options ''),
      (''getfilesystemencoding'', ''getfilesystemencoding''),
      (''min_overlapping_ratio'', ''min_overlapping_ratio''),
      (''BlockBasedTableFactory'', ''BlockBasedTableFactory''),
      (''block_cache_compressed'', ''block_cache_compressed''),
      (''block_restart_interval'', ''block_restart_interval''),
      (''ColumnFamilyHandle_name'', ''<ColumnFamilyHandle name: ''),
      (''SkipListMemtableFactory'', ''SkipListMemtableFactory''),
      (''Unknown_encoding_type_s'', ''Unknown encoding_type: %s''),
      (''AssociativeMergeOperator'', ''AssociativeMergeOperator''),
      (''Unknown_compaction_pri_s'', ''Unknown compaction pri: %s''),
      (''Unknown_compaction_style'', ''Unknown compaction_style''),
      (''compression_size_percent'', ''compression_size_percent''),
      (''oldest_largest_seq_first'', ''oldest_largest_seq_first''),
      (''s_is_not_of_this_types_s'', ''%s is not of this types %s''),
      (''zstdnotfinal_compression'', ''zstdnotfinal_compression''),
      (''IAssociativeMergeOperator'', ''IAssociativeMergeOperator''),
      (''oldest_smallest_seq_first'', ''oldest_smallest_seq_first''),
      (''pyx_unpickle_PyComparator'', ''__pyx_unpickle_PyComparator''),
      (''skiplist_branching_factor'', ''skiplist_branching_factor''),
      (''Cannot_set_filter_policy_s'', ''Cannot set filter policy: %s''),
      (''Cannot_set_s_as_comparator'', ''Cannot set %s as comparator''),
      (''Unknown_compaction_style_2'', ''Unknown compaction style''),
      (''hash_index_allow_collision'', ''hash_index_allow_collision''),
      (''pyx_unpickle_CompactionPri'', ''__pyx_unpickle_CompactionPri''),
      (''HashLinkListMemtableFactory'', ''HashLinkListMemtableFactory''),
      (''HashSkipListMemtableFactory'', ''HashSkipListMemtableFactory''),
      (''bottommost_level_compaction'', ''bottommost_level_compaction''),
      (''pyx_unpickle_PyFilterPolicy'', ''__pyx_unpickle_PyFilterPolicy''),
      (''pyx_unpickle_CompressionType'', ''__pyx_unpickle_CompressionType''),
      (''cache_index_and_filter_blocks'', ''cache_index_and_filter_blocks''),
      (''ColumnFamilyOptions_object_for'', ''ColumnFamilyOptions object for ''),
      (''max_size_amplification_percent'', ''max_size_amplification_percent''),
      (''is_already_an_existing_column_f'', '' is already an existing column family''),
      (''is_already_used_by_another_Colu'', '' is already used by another Column Family''),
      (''is_no_longer_a_valid_ColumnFami'', '' is no longer a valid ColumnFamilyHandle!''),
      (''ColumnFamilyOptions_are_in_use_b'', ''ColumnFamilyOptions are in_use by another column family''),
      (''Incompatible_checksums_s_vs_0xd4'', ''Incompatible checksums (%s vs 0xd41d8cd = ())''),
      (''Options_object_is_already_used_b'', ''Options object is already used by another DB''),
      (''These_can_not_be_constructed_fro'', ''These can not be constructed from Python''),
      (''bottommost_level_compaction_is_n'', ''bottommost_level_compaction is not valid''),
      (''no_default___reduce___due_to_non'', ''no default __reduce__ due to non-trivial __cinit__''),
      (''offset_i_size_i_is_bigger_than_s'', ''offset(%i) + size(%i) is bigger than slice(%i)''),
      (''row_cache_must_be_a_Cache_object'', ''row_cache must be a Cache object''),
      (''self_factory_cannot_be_converted'', ''self.factory cannot be converted to a Python object for pickling''),
      (''self_items_cannot_be_converted_t'', ''self.items cannot be converted to a Python object for pickling'')]"

definition string_tab_1 :: "strtab_entry list" where
  "string_tab_1 =
     [Entry (N_s ''AssociativeMergeOperator'') ''AssociativeMergeOperator'' False True True,
      Entry (N_s ''BackupEngine'') ''BackupEngine'' False True True,
      Entry (N_s ''BaseException'') ''BaseException'' False True True,
      Entry (N_s ''BlockBasedTableFactory'') ''BlockBasedTableFactory'' False True True,
      Entry (N_s ''BloomFilterPolicy'') ''BloomFilterPolicy'' False True True,
      Entry (N_s ''BytewiseComparator'') ''BytewiseComparator'' False True True,
      Entry (Kp_s ''Cannot_set_filter_policy_s'') ''Cannot_set_filter_policy_s'' False True False,
      Entry (Kp_s ''Cannot_set_s_as_comparator'') ''Cannot_set_s_as_comparator'' False True False,
      Entry (N_s ''ColumnFamilyHandle'') ''ColumnFamilyHandle'' False True True,
      Entry (Kp_u ''ColumnFamilyHandle_name'') ''ColumnFamilyHandle_name'' True False False,
      Entry (N_s ''ColumnFamilyOptions'') ''ColumnFamilyOptions'' False True True,
      Entry (Kp_s ''ColumnFamilyOptions_are_in_use_b'') ''ColumnFamilyOptions_are_in_use_b'' False True False,
      Entry (Kp_u ''ColumnFamilyOptions_object_for'') ''ColumnFamilyOptions_object_for'' True False False,
      Entry (N_s ''CompactionPri'') ''CompactionPri'' False True True,
      Entry (N_s ''Comparator'') ''Comparator'' False True True,
      Entry (N_s ''CompressionType'') ''CompressionType'' False True True,
      Entry (N_s ''Corruption'') ''Corruption'' False True True, Entry (N_s ''DB'') ''DB'' False True True,
      Entry (N_s ''Delete'') ''Delete'' False True True,
      Entry (N_s ''FilterPolicy'') ''FilterPolicy'' False True True,
      Entry (N_s ''HashLinkListMemtableFactory'') ''HashLinkListMemtableFactory'' False True True,
      Entry (N_s ''HashSkipListMemtableFactory'') ''HashSkipListMemtableFactory'' False True True,
      Entry (N_s ''IAssociativeMergeOperator'') ''IAssociativeMergeOperator'' False True True,
      Entry (N_s ''IComparator'') ''IComparator'' False True True,
      Entry (N_s ''IFilterPolicy'') ''IFilterPolicy'' False True True,
      Entry (N_s ''IMergeOperator'') ''IMergeOperator'' False True True,
      Entry (N_s ''ISliceTransform'') ''ISliceTransform'' False True True,
      Entry (Kp_s ''Incompatible_checksums_s_vs_0xd4'') ''Incompatible_checksums_s_vs_0xd4'' False True False,
      Entry (N_s ''Incomplete'') ''Incomplete'' False True True,
      Entry (N_s ''InvalidArgument'') ''InvalidArgument'' False True True,
      Entry (Kp_s ''Invalid_read_tier'') ''Invalid_read_tier'' False True False,
      Entry (N_s ''LRUCache'') ''LRUCache'' False True True,
      Entry (N_s ''Merge'') ''Merge'' False True True,
      Entry (N_s ''MergeInProgress'') ''MergeInProgress'' False True True,
      Entry (N_s ''MergeOperator'') ''MergeOperator'' False True True,
      Entry (N_s ''NotFound'') ''NotFound'' False True True,
      Entry (N_s ''NotImplemented'') ''NotImplemented'' False True True,
      Entry (N_s ''NotSupported'') ''NotSupported'' False True True,
      Entry (N_s ''Options'') ''Options'' False True True,
      Entry (Kp_s ''Options_object_is_already_used_b'') ''Options_object_is_already_used_b'' False True False,
      Entry (N_s ''PickleError'') ''PickleError'' False True True,
      Entry (N_s ''PlainTableFactory'') ''PlainTableFactory'' False True True,
      Entry (N_s ''Put'') ''Put'' False True True,
      Entry (N_s ''RocksIOError'') ''RocksIOError'' False True True,
      Entry (N_s ''SkipListMemtableFactory'') ''SkipListMemtableFactory'' False True True,
      Entry (N_s ''SliceTransform'') ''SliceTransform'' False True True,
      Entry (N_s ''StopIteration'') ''StopIteration'' False True True,
      Entry (Kp_s ''These_can_not_be_constructed_fro'') ''These_can_not_be_constructed_fro'' False True False,
      Entry (N_s ''TypeError'') ''TypeError'' False True True,
      Entry (Kp_s ''Unknonw_type_s'') ''Unknonw_type_s'' False True False,
      Entry (Kp_s ''Unknown_checksum_s'') ''Unknown_checksum_s'' False True False,
      Entry (Kp_s ''Unknown_compaction_pri_s'') ''Unknown_compaction_pri_s'' False True False,
      Entry (Kp_s ''Unknown_compaction_style'') ''Unknown_compaction_style'' False True False,
      Entry (Kp_s ''Unknown_compaction_style_2'') ''Unknown_compaction_style_2'' False True False,
      Entry (Kp_s ''Unknown_compression_s'') ''Unknown_compression_s'' False True False,
      Entry (Kp_s ''Unknown_encoding_type_s'') ''Unknown_encoding_type_s'' False True False,
      Entry (Kp_s ''Unknown_error_s'') ''Unknown_error_s'' False True False,
      Entry (Kp_s ''Unknown_index_type_s'') ''Unknown_index_type_s'' False True False,
      Entry (N_s ''ValueError'') ''ValueError'' False True True,
      Entry (N_s ''VectorMemtableFactory'') ''VectorMemtableFactory'' False True True,
      Entry (N_s ''WriteBatch'') ''WriteBatch'' False True True,
      Entry (Kp_s ''Wrong_type_for_path_s'') ''Wrong_type_for_path_s'' False True False,
      Entry (Kp_u ''_34'') ''_34'' True False False, Entry (Kp_u ''_49'') ''_49'' True False False,
      Entry (N_s ''a'') ''a'' False True True, Entry (N_s ''all'') ''all'' False True True,
      Entry (N_s ''ascii'') ''ascii'' False True True, Entry (N_s ''b'') ''b'' False True True,
      Entry (N_s ''backup_dir'') ''backup_dir'' False True True]"

definition string_tab_2 :: "strtab_entry list" where
  "string_tab_2 =
     [Entry (N_s ''backup_id'') ''backup_id'' False True True,
      Entry (N_s ''batch'') ''batch'' False True True, Entry (N_s ''begin'') ''begin'' False True True,
      Entry (N_s ''binary_search'') ''binary_search'' False True True,
      Entry (N_s ''bits_per_key'') ''bits_per_key'' False True True,
      Entry (N_s ''block_cache'') ''block_cache'' False True True,
      Entry (N_s ''block_cache_compressed'') ''block_cache_compressed'' False True True,
      Entry (N_s ''block_restart_interval'') ''block_restart_interval'' False True True,
      Entry (N_s ''block_size'') ''block_size'' False True True,
      Entry (N_s ''block_size_deviation'') ''block_size_deviation'' False True True,
      Entry (N_s ''bloom_bits_per_key'') ''bloom_bits_per_key'' False True True,
      Entry (N_s ''bottommost_level_compaction'') ''bottommost_level_compaction'' False True True,
      Entry (Kp_s ''bottommost_level_compaction_is_n'') ''bottommost_level_compaction_is_n'' False True False,
      Entry (N_s ''bucket_count'') ''bucket_count'' False True True,
      Entry (N_s ''by_compensated_size'') ''by_compensated_size'' False True True,
      Entry (N_u ''by_compensated_size'') ''by_compensated_size'' True False True,
      Entry (N_s ''bzip2_compression'') ''bzip2_compression'' False True True,
      Entry (N_u ''bzip2_compression'') ''bzip2_compression'' True False True,
      Entry (N_s ''cache'') ''cache'' False True True,
      Entry (N_s ''cache_index_and_filter_blocks'') ''cache_index_and_filter_blocks'' False True True,
      Entry (N_s ''capacity'') ''capacity'' False True True,
      Entry (N_s ''change_level'') ''change_level'' False True True,
      Entry (N_s ''checksum'') ''checksum'' False True True,
      Entry (N_s ''clear'') ''clear'' False True True,
      Entry (N_s ''cline_in_traceback'') ''cline_in_traceback'' False True True,
      Entry (N_s ''column_families'') ''column_families'' False True True,
      Entry (N_s ''column_family'') ''column_family'' False True True,
      Entry (Kp_u ''column_family_name'') ''column_family_name'' True False False,
      Entry (Kp_u ''column_family_options'') ''column_family_options'' True False False,
      Entry (N_s ''compare'') ''compare'' False True True,
      Entry (N_s ''compression'') ''compression'' False True True,
      Entry (N_s ''compression_size_percent'') ''compression_size_percent'' False True True,
      Entry (N_s ''copts'') ''copts'' False True True, Entry (N_s ''count'') ''count'' False True True,
      Entry (N_s ''crc32'') ''crc32'' False True True,
      Entry (N_s ''create_filter'') ''create_filter'' False True True,
      Entry (N_s ''data'') ''data'' False True True, Entry (N_s ''db'') ''db'' False True True,
      Entry (N_s ''db_dir'') ''db_dir'' False True True,
      Entry (N_s ''db_name'') ''db_name'' False True True,
      Entry (N_s ''db_path'') ''db_path'' False True True, Entry (N_s ''dict'') ''dict'' False True True,
      Entry (N_s ''disable_compression'') ''disable_compression'' False True True,
      Entry (N_u ''disable_compression'') ''disable_compression'' True False True,
      Entry (N_s ''disable_wal'') ''disable_wal'' False True True,
      Entry (N_s ''encode'') ''encode'' False True True,
      Entry (N_s ''encoding_type'') ''encoding_type'' False True True,
      Entry (N_s ''end'') ''end'' False True True, Entry (N_s ''enumerate'') ''enumerate'' False True True,
      Entry (N_s ''errors'') ''errors'' False True True, Entry (N_s ''fetch'') ''fetch'' False True True,
      Entry (N_s ''fifo'') ''fifo'' False True True,
      Entry (N_s ''fill_cache'') ''fill_cache'' False True True,
      Entry (N_s ''filter'') ''filter'' False True True,
      Entry (N_s ''filter_policy'') ''filter_policy'' False True True,
      Entry (N_s ''flush_before_backup'') ''flush_before_backup'' False True True,
      Entry (N_s ''force'') ''force'' False True True,
      Entry (N_s ''format_exc'') ''format_exc'' False True True,
      Entry (N_s ''full_merge'') ''full_merge'' False True True,
      Entry (N_s ''full_scan_mode'') ''full_scan_mode'' False True True,
      Entry (N_s ''get'') ''get'' False True True,
      Entry (N_s ''getfilesystemencoding'') ''getfilesystemencoding'' False True True,
      Entry (N_s ''getstate'') ''getstate'' False True True,
      Entry (N_s ''handle'') ''handle'' False True True,
      Entry (N_s ''hash_index_allow_collision'') ''hash_index_allow_collision'' False True True,
      Entry (N_s ''hash_search'') ''hash_search'' False True True,
      Entry (N_s ''hash_table_ratio'') ''hash_table_ratio'' False True True,
      Entry (N_s ''huge_page_tlb_size'') ''huge_page_tlb_size'' False True True,
      Entry (N_s ''id'') ''id'' False True True]"

definition string_tab_3 :: "strtab_entry list" where
  "string_tab_3 =
     [Entry (Kp_u ''id_2'') ''id_2'' True False False,
      Entry (N_s ''if_compaction_filter'') ''if_compaction_filter'' False True True,
      Entry (N_s ''import'') ''import'' False True True,
      Entry (N_s ''in_domain'') ''in_domain'' False True True,
      Entry (N_s ''in_range'') ''in_range'' False True True,
      Entry (N_s ''index'') ''index'' False True True,
      Entry (N_s ''index_sparseness'') ''index_sparseness'' False True True,
      Entry (N_s ''index_type'') ''index_type'' False True True,
      Entry (N_s ''init'') ''init'' False True True,
      Entry (N_s ''interfaces'') ''interfaces'' False True True,
      Entry (N_s ''invalid'') ''invalid'' False True True,
      Entry (Kp_u ''is_already_an_existing_column_f'') ''is_already_an_existing_column_f'' True False False,
      Entry (Kp_u ''is_already_used_by_another_Colu'') ''is_already_used_by_another_Colu'' True False False,
      Entry (Kp_u ''is_no_longer_a_valid_ColumnFami'') ''is_no_longer_a_valid_ColumnFami'' True False False,
      Entry (Kp_u ''is_not_of_type'') ''is_not_of_type'' True False False,
      Entry (N_s ''is_valid'') ''is_valid'' False True True, Entry (N_s ''it'') ''it'' False True True,
      Entry (N_s ''items'') ''items'' False True True, Entry (N_s ''key'') ''key'' False True True,
      Entry (N_s ''key_may_match'') ''key_may_match'' False True True,
      Entry (N_s ''keys'') ''keys'' False True True,
      Entry (N_s ''largest_seqno'') ''largest_seqno'' False True True,
      Entry (N_s ''largestkey'') ''largestkey'' False True True,
      Entry (N_s ''level'') ''level'' False True True,
      Entry (N_s ''list_column_families'') ''list_column_families'' False True True,
      Entry (N_s ''lz4_compression'') ''lz4_compression'' False True True,
      Entry (N_u ''lz4_compression'') ''lz4_compression'' True False True,
      Entry (N_s ''lz4hc_compression'') ''lz4hc_compression'' False True True,
      Entry (N_u ''lz4hc_compression'') ''lz4hc_compression'' True False True,
      Entry (N_s ''main'') ''main'' False True True,
      Entry (N_s ''max_dict_bytes'') ''max_dict_bytes'' False True True,
      Entry (N_s ''max_merge_width'') ''max_merge_width'' False True True,
      Entry (N_s ''max_size_amplification_percent'') ''max_size_amplification_percent'' False True True,
      Entry (N_s ''merge'') ''merge'' False True True,
      Entry (N_s ''min_merge_width'') ''min_merge_width'' False True True,
      Entry (N_s ''min_overlapping_ratio'') ''min_overlapping_ratio'' False True True,
      Entry (N_u ''min_overlapping_ratio'') ''min_overlapping_ratio'' True False True,
      Entry (N_s ''name'') ''name'' False True True, Entry (N_s ''name_2'') ''name_2'' False True True,
      Entry (N_s ''new'') ''new'' False True True,
      Entry (N_s ''no_block_cache'') ''no_block_cache'' False True True,
      Entry (N_s ''no_compression'') ''no_compression'' False True True,
      Entry (N_u ''no_compression'') ''no_compression'' True False True,
      Entry (Kp_s ''no_default___reduce___due_to_non'') ''no_default___reduce___due_to_non'' False True False,
      Entry (N_s ''none'') ''none'' False True True, Entry (N_s ''ob'') ''ob'' False True True,
      Entry (Kp_s ''offset_i_size_i_is_bigger_than_s'') ''offset_i_size_i_is_bigger_than_s'' False True False,
      Entry (N_s ''oldest_largest_seq_first'') ''oldest_largest_seq_first'' False True True,
      Entry (N_u ''oldest_largest_seq_first'') ''oldest_largest_seq_first'' True False True,
      Entry (N_s ''oldest_smallest_seq_first'') ''oldest_smallest_seq_first'' False True True,
      Entry (N_u ''oldest_smallest_seq_first'') ''oldest_smallest_seq_first'' True False True,
      Entry (N_s ''opts'') ''opts'' False True True,
      Entry (N_s ''parse_read_opts'') ''parse_read_opts'' False True True,
      Entry (N_s ''partial_merge'') ''partial_merge'' False True True,
      Entry (N_s ''pickle'') ''pickle'' False True True, Entry (N_s ''plain'') ''plain'' False True True,
      Entry (N_s ''pop'') ''pop'' False True True, Entry (N_s ''prefix'') ''prefix'' False True True,
      Entry (N_s ''prefix_extractor'') ''prefix_extractor'' False True True,
      Entry (N_s ''prop'') ''prop'' False True True,
      Entry (N_s ''pyx_PickleError'') ''pyx_PickleError'' False True True,
      Entry (N_s ''pyx_checksum'') ''pyx_checksum'' False True True,
      Entry (N_s ''pyx_result'') ''pyx_result'' False True True,
      Entry (N_s ''pyx_state'') ''pyx_state'' False True True,
      Entry (N_s ''pyx_type'') ''pyx_type'' False True True,
      Entry (N_s ''pyx_unpickle_CompactionPri'') ''pyx_unpickle_CompactionPri'' False True True,
      Entry (N_s ''pyx_unpickle_CompressionType'') ''pyx_unpickle_CompressionType'' False True True,
      Entry (N_s ''pyx_unpickle_PyCache'') ''pyx_unpickle_PyCache'' False True True,
      Entry (N_s ''pyx_unpickle_PyComparator'') ''pyx_unpickle_PyComparator'' False True True]"

definition string_tab_4 :: "strtab_entry list" where
  "string_tab_4 =
     [Entry (N_s ''pyx_unpickle_PyFilterPolicy'') ''pyx_unpickle_PyFilterPolicy'' False True True,
      Entry (N_s ''pyx_vtable'') ''pyx_vtable'' False True True,
      Entry (N_s ''range'') ''range'' False True True,
      Entry (N_s ''read_only'') ''read_only'' False True True,
      Entry (N_s ''read_tier'') ''read_tier'' False True True,
      Entry (N_s ''reduce'') ''reduce'' False True True,
      Entry (N_s ''reduce_cython'') ''reduce_cython'' False True True,
      Entry (N_s ''reduce_ex'') ''reduce_ex'' False True True, Entry (N_s ''ref'') ''ref'' False True True,
      Entry (N_s ''repair_db'') ''repair_db'' False True True,
      Entry (N_s ''rocksdb__rocksdb'') ''rocksdb__rocksdb'' False True True,
      Entry (Kp_s ''rocksdb_pyx'') ''rocksdb_pyx'' False True False,
      Entry (Kp_s ''row_cache_must_be_a_Cache_object'') ''row_cache_must_be_a_Cache_object'' False True False,
      Entry (Kp_s ''s_is_not_of_this_types_s'') ''s_is_not_of_this_types_s'' False True False,
      Entry (Kp_s ''s_is_not_of_type_s'') ''s_is_not_of_type_s'' False True False,
      Entry (N_s ''seek'') ''seek'' False True True,
      Entry (N_s ''seek_for_prev'') ''seek_for_prev'' False True True,
      Entry (N_s ''seek_to_first'') ''seek_to_first'' False True True,
      Entry (N_s ''seek_to_last'') ''seek_to_last'' False True True,
      Entry (Kp_s ''self_factory_cannot_be_converted'') ''self_factory_cannot_be_converted'' False True False,
      Entry (Kp_s ''self_items_cannot_be_converted_t'') ''self_items_cannot_be_converted_t'' False True False,
      Entry (N_s ''setstate'') ''setstate'' False True True,
      Entry (N_s ''setstate_cython'') ''setstate_cython'' False True True,
      Entry (N_s ''shard_bits'') ''shard_bits'' False True True,
      Entry (N_s ''similar_size'') ''similar_size'' False True True,
      Entry (N_s ''size'') ''size'' False True True,
      Entry (N_s ''size_ratio'') ''size_ratio'' False True True,
      Entry (N_s ''skip'') ''skip'' False True True,
      Entry (N_s ''skiplist_branching_factor'') ''skiplist_branching_factor'' False True True,
      Entry (N_s ''skiplist_height'') ''skiplist_height'' False True True,
      Entry (N_s ''smallest_seqno'') ''smallest_seqno'' False True True,
      Entry (N_s ''smallestkey'') ''smallestkey'' False True True,
      Entry (N_s ''snappy_compression'') ''snappy_compression'' False True True,
      Entry (N_u ''snappy_compression'') ''snappy_compression'' True False True,
      Entry (N_s ''snapshot'') ''snapshot'' False True True, Entry (N_s ''st'') ''st'' False True True,
      Entry (Kp_u ''state'') ''state'' True False False,
      Entry (N_s ''staticmethod'') ''staticmethod'' False True True,
      Entry (N_s ''stop_style'') ''stop_style'' False True True,
      Entry (N_s ''strategy'') ''strategy'' False True True,
      Entry (Kp_s ''stringsource'') ''stringsource'' False True False,
      Entry (N_s ''sync'') ''sync'' False True True, Entry (N_s ''sys'') ''sys'' False True True,
      Entry (N_s ''target_level'') ''target_level'' False True True,
      Entry (N_s ''test'') ''test'' False True True,
      Entry (N_s ''timestamp'') ''timestamp'' False True True,
      Entry (N_s ''total_size'') ''total_size'' False True True,
      Entry (N_s ''traceback'') ''traceback'' False True True,
      Entry (N_s ''transform'') ''transform'' False True True,
      Entry (N_s ''universal'') ''universal'' False True True,
      Entry (N_s ''update'') ''update'' False True True,
      Entry (N_s ''user_key_len'') ''user_key_len'' False True True,
      Entry (N_s ''valid'') ''valid'' False True True, Entry (N_s ''value'') ''value'' False True True,
      Entry (N_s ''verify_checksums'') ''verify_checksums'' False True True,
      Entry (N_s ''wal_dir'') ''wal_dir'' False True True,
      Entry (N_s ''weakhandle'') ''weakhandle'' False True True,
      Entry (N_s ''weakref'') ''weakref'' False True True,
      Entry (N_s ''whole_key_filtering'') ''whole_key_filtering'' False True True,
      Entry (N_s ''window_bits'') ''window_bits'' False True True,
      Entry (N_s ''xpress_compression'') ''xpress_compression'' False True True,
      Entry (N_u ''xpress_compression'') ''xpress_compression'' True False True,
      Entry (N_s ''xxhash'') ''xxhash'' False True True,
      Entry (N_s ''zlib_compression'') ''zlib_compression'' False True True,
      Entry (N_u ''zlib_compression'') ''zlib_compression'' True False True,
      Entry (N_s ''zstd_compression'') ''zstd_compression'' False True True,
      Entry (N_u ''zstd_compression'') ''zstd_compression'' True False True,
      Entry (N_s ''zstdnotfinal_compression'') ''zstdnotfinal_compression'' False True True,
      Entry (N_u ''zstdnotfinal_compression'') ''zstdnotfinal_compression'' True False True]"

definition k_texts :: "(string \<times> string) list" where
  "k_texts = k_texts_1 @ k_texts_2 @ k_texts_3 @ k_texts_4"

definition k_text :: "string \<Rightarrow> string" where
  "k_text k = (case map_of k_texts k of Some t \<Rightarrow> t | None \<Rightarrow> [])"

definition string_tab :: "strtab_entry list" where
  "string_tab = string_tab_1 @ string_tab_2 @ string_tab_3 @ string_tab_4"

text \<open>
  \<open>__Pyx_InitStrings\<close> walks over the table. Under Python 3 an entry that is neither unicode nor str
  becomes a bytes object.
\<close>

definition decode_entry :: "strtab_entry \<Rightarrow> mobj" where
  "decode_entry t =
     (if is_unicode t \<or> is_str t
      then (if intern t then Interned (k_text (entry_k t)) else Ustr (k_text (entry_k t)))
      else BytesOb (k_text (entry_k t)))"

fun InitStrings :: "strtab_entry list \<Rightarrow> stmt list" where
  "InitStrings [] = []"
| "InitStrings (t # ts) = Assign (entry_var t) (Decode t) # InitStrings ts"

subsection \<open>Numbers, builtins, tuples and code objects\<close>

definition InitGlobals :: "stmt list" where
  "InitGlobals =
     [Assign (Umethod ''get'') DictType, Assign (Umethod ''items'') DictType] @
     InitStrings string_tab @
     [Assign Float_075 (NewFloat ''0.75''), Assign (Int_var 0) (NewInt 0), Assign (Int_var 1) (NewInt 1),
      Assign (Int_var 4) (NewInt 4), Assign (Int_var 10) (NewInt 10), Assign (Int_var 50000) (NewInt 50000),
      Assign (Int_var 1000000) (NewInt 1000000), Assign (Int_var 222419149) (NewInt 222419149),
      Assign (Int_var (-1)) (NewInt (-1))]"

definition InitCachedBuiltins :: "stmt list" where
  "InitCachedBuiltins =
     [Assign (Builtin_var ''staticmethod'') (GetBuiltinName (N_s ''staticmethod'')),
      Assign (Builtin_var ''TypeError'') (GetBuiltinName (N_s ''TypeError'')),
      Assign (Builtin_var ''BaseException'') (GetBuiltinName (N_s ''BaseException'')),
      Assign (Builtin_var ''range'') (GetBuiltinName (N_s ''range'')),
      Assign (Builtin_var ''ValueError'') (GetBuiltinName (N_s ''ValueError'')),
      Assign (Builtin_var ''NotImplemented'') (GetBuiltinName (N_s ''NotImplemented'')),
      Assign (Builtin_var ''id'') (GetBuiltinName (N_s ''id'')),
      Assign (Builtin_var ''StopIteration'') (GetBuiltinName (N_s ''StopIteration'')),
      Assign (Builtin_var ''enumerate'') (GetBuiltinName (N_s ''enumerate''))]"

text \<open>\<open>__Pyx_InitCachedConstants\<close>: tuples are numbered as in the code, the first is \<open>__pyx_tuple_\<close>.\<close>

definition cached_constants_1 :: "stmt list" where
  "cached_constants_1 =
     [Assign (Tuple_var 1) (Pack [Kp_s ''no_default___reduce___due_to_non'']),
      Assign (Tuple_var 2) (Pack [Kp_s ''no_default___reduce___due_to_non'']),
      Assign (Tuple_var 3) (Pack [Kp_s ''no_default___reduce___due_to_non'']),
      Assign (Tuple_var 4) (Pack [Kp_s ''no_default___reduce___due_to_non'']),
      Assign (Tuple_var 5) (Pack [Kp_s ''no_default___reduce___due_to_non'']),
      Assign (Tuple_var 6) (Pack [Kp_s ''no_default___reduce___due_to_non'']),
      Assign (Tuple_var 7) (Pack [Kp_s ''no_default___reduce___due_to_non'']),
      Assign (Tuple_var 8) (Pack [Kp_s ''no_default___reduce___due_to_non'']),
      Assign (Tuple_var 9) (Pack [Kp_s ''no_default___reduce___due_to_non'']),
      Assign (Tuple_var 10) (Pack [Kp_s ''no_default___reduce___due_to_non'']),
      Assign (Tuple_var 11) (Pack [Kp_s ''no_default___reduce___due_to_non'']),
      Assign (Tuple_var 12) (Pack [Kp_s ''no_default___reduce___due_to_non'']),
      Assign (Tuple_var 13) (Pack [Kp_s ''no_default___reduce___due_to_non'']),
      Assign (Tuple_var 14) (Pack [Kp_s ''no_default___reduce___due_to_non'']),
      Assign (Tuple_var 15) (Pack [Kp_s ''self_factory_cannot_be_converted''])]"

definition cached_constants_2 :: "stmt list" where
  "cached_constants_2 =
     [Assign (Tuple_var 16) (Pack [Kp_s ''self_factory_cannot_be_converted'']),
      Assign (Tuple_var 17) (Pack [Kp_s ''self_factory_cannot_be_converted'']),
      Assign (Tuple_var 18) (Pack [Kp_s ''self_factory_cannot_be_converted'']),
      Assign (Tuple_var 19) (Pack [Kp_s ''self_factory_cannot_be_converted'']),
      Assign (Tuple_var 20) (Pack [Kp_s ''self_factory_cannot_be_converted'']),
      Assign (Tuple_var 21) (Pack [Kp_s ''self_factory_cannot_be_converted'']),
      Assign (Tuple_var 22) (Pack [Kp_s ''self_factory_cannot_be_converted'']),
      Assign (Tuple_var 23) (Pack [Kp_s ''self_factory_cannot_be_converted'']),
      Assign (Tuple_var 24) (Pack [Kp_s ''self_factory_cannot_be_converted'']),
      Assign (Tuple_var 25) (Pack [Kp_s ''self_factory_cannot_be_converted'']),
      Assign (Tuple_var 26) (Pack [Kp_s ''self_factory_cannot_be_converted'']),
      Assign (Tuple_var 27) (Pack [Kp_s ''self_factory_cannot_be_converted'']),
      Assign (Tuple_var 28) (Pack [Kp_s ''self_factory_cannot_be_converted'']),
      Assign (Tuple_var 29) (Pack [Kp_s ''self_factory_cannot_be_converted'']),
      Assign (Tuple_var 30) (Pack [Kp_s ''self_factory_cannot_be_converted''])]"

definition cached_constants_3 :: "stmt list" where
  "cached_constants_3 =
     [Assign (Tuple_var 31) (Pack [Kp_s ''no_default___reduce___due_to_non'']),
      Assign (Tuple_var 32) (Pack [Kp_s ''no_default___reduce___due_to_non'']),
      Assign (Tuple_var 33) (Pack [Kp_s ''These_can_not_be_constructed_fro'']),
      Assign (Tuple_var 35) (Pack [Kp_s ''no_default___reduce___due_to_non'']),
      Assign (Tuple_var 36) (Pack [Kp_s ''no_default___reduce___due_to_non'']),
      Assign (Tuple_var 37) (Pack [Kp_s ''Unknown_compaction_style'']),
      Assign (Tuple_var 38) (Pack [Kp_s ''Unknown_compaction_style_2'']),
      Assign (Tuple_var 39) (Pack [Kp_s ''no_default___reduce___due_to_non'']),
      Assign (Tuple_var 40) (Pack [Kp_s ''no_default___reduce___due_to_non'']),
      Assign (Tuple_var 41) (Pack [Kp_s ''row_cache_must_be_a_Cache_object'']),
      Assign (Tuple_var 42) (Pack [Kp_s ''no_default___reduce___due_to_non'']),
      Assign (Tuple_var 43) (Pack [Kp_s ''no_default___reduce___due_to_non'']),
      Assign (Tuple_var 44) (Pack [Kp_s ''no_default___reduce___due_to_non'']),
      Assign (Tuple_var 45) (Pack [Kp_s ''no_default___reduce___due_to_non''])]"

definition cached_constants_4 :: "stmt list" where
  "cached_constants_4 =
     [Assign (Tuple_var 46) (Pack [Kp_s ''self_items_cannot_be_converted_t'']),
      Assign (Tuple_var 47) (Pack [Kp_s ''self_items_cannot_be_converted_t'']),
      Assign (Tuple_var 48) (Pack [Kp_s ''Options_object_is_already_used_b'']),
      Assign (Tuple_var 50) (Pack [True_var, None_var]),
      Assign (Tuple_var 51) (Pack [False_var, None_var]),
      Assign (Tuple_var 52) (Pack [Kp_s ''bottommost_level_compaction_is_n'']),
      Assign (Tuple_var 53) (Pack [Kp_s ''Invalid_read_tier'']),
      Assign (Tuple_var 54) (Pack [Kp_s ''ColumnFamilyOptions_are_in_use_b'']),
      Assign (Tuple_var 55) (Pack [Kp_s ''no_default___reduce___due_to_non'']),
      Assign (Tuple_var 56) (Pack [Kp_s ''no_default___reduce___due_to_non'']),
      Assign (Tuple_var 57) (Pack [Kp_s ''no_default___reduce___due_to_non'']),
      Assign (Tuple_var 58) (Pack [Kp_s ''no_default___reduce___due_to_non'']),
      Assign (Tuple_var 59) (Pack [Kp_s ''no_default___reduce___due_to_non'']),
      Assign (Tuple_var 60) (Pack [Kp_s ''no_default___reduce___due_to_non''])]"

definition cached_constants_5 :: "stmt list" where
  "cached_constants_5 =
     [Assign (Tuple_var 61) (Pack [Kp_s ''no_default___reduce___due_to_non'']),
      Assign (Tuple_var 62) (Pack [Kp_s ''no_default___reduce___due_to_non'']),
      Assign (Tuple_var 63) (Pack [Kp_s ''no_default___reduce___due_to_non'']),
      Assign (Tuple_var 64) (Pack [Kp_s ''no_default___reduce___due_to_non'']),
      Assign (Tuple_var 65) (Pack [Kp_s ''no_default___reduce___due_to_non'']),
      Assign (Tuple_var 66) (Pack [Kp_s ''no_default___reduce___due_to_non'']),
      Assign (Tuple_var 67) (Pack [Kp_s ''no_default___reduce___due_to_non'']),
      Assign (Tuple_var 68) (Pack [Kp_s ''no_default___reduce___due_to_non'']),
      Assign (Tuple_var 69) (Pack [Kp_s ''no_default___reduce___due_to_non'']),
      Assign (Tuple_var 70) (Pack [Kp_s ''no_default___reduce___due_to_non'']),
      Assign (Tuple_var 71) (Pack [N_s ''verify_checksums'', N_s ''fill_cache'', N_s ''snapshot'', N_s ''read_tier'']),
      Assign (Code_var 72) (NewCode 4 4 (Tuple_var 71) (Kp_s ''rocksdb_pyx'') (N_s ''parse_read_opts'') 2135),
      Assign (Tuple_var 73) (Pack [N_s ''db_name'', N_s ''opts'', N_s ''st'', N_s ''db_path'']),
      Assign (Code_var 74) (NewCode 2 4 (Tuple_var 73) (Kp_s ''rocksdb_pyx'') (N_s ''repair_db'') 2207),
      Assign (Tuple_var 75) (Pack [N_s ''db_name'', N_s ''opts'', N_s ''st'', N_s ''db_path'', N_s ''column_families'']),
      Assign (Code_var 76) (NewCode 2 5 (Tuple_var 75) (Kp_s ''rocksdb_pyx'') (N_s ''list_column_families'') 2216),
      Assign (Tuple_var 77) (Pack [N_s ''pyx_type'', N_s ''pyx_checksum'', N_s ''pyx_state'', N_s ''pyx_PickleError'', N_s ''pyx_result'']),
      Assign (Code_var 78) (NewCode 3 5 (Tuple_var 77) (Kp_s ''stringsource'') (N_s ''pyx_unpickle_PyComparator'') 1),
      Assign (Tuple_var 79) (Pack [N_s ''pyx_type'', N_s ''pyx_checksum'', N_s ''pyx_state'', N_s ''pyx_PickleError'', N_s ''pyx_result'']),
      Assign (Code_var 80) (NewCode 3 5 (Tuple_var 79) (Kp_s ''stringsource'') (N_s ''pyx_unpickle_PyFilterPolicy'') 1),
      Assign (Tuple_var 81) (Pack [N_s ''pyx_type'', N_s ''pyx_checksum'', N_s ''pyx_state'', N_s ''pyx_PickleError'', N_s ''pyx_result''])]"

definition cached_constants_6 :: "stmt list" where
  "cached_constants_6 =
     [Assign (Code_var 82) (NewCode 3 5 (Tuple_var 81) (Kp_s ''stringsource'') (N_s ''pyx_unpickle_PyCache'') 1),
      Assign (Tuple_var 83) (Pack [N_s ''pyx_type'', N_s ''pyx_checksum'', N_s ''pyx_state'', N_s ''pyx_PickleError'', N_s ''pyx_result'']),
      Assign (Code_var 84) (NewCode 3 5 (Tuple_var 83) (Kp_s ''stringsource'') (N_s ''pyx_unpickle_CompressionType'') 1),
      Assign (Tuple_var 85) (Pack [N_s ''pyx_type'', N_s ''pyx_checksum'', N_s ''pyx_state'', N_s ''pyx_PickleError'', N_s ''pyx_result'']),
      Assign (Code_var 86) (NewCode 3 5 (Tuple_var 85) (Kp_s ''stringsource'') (N_s ''pyx_unpickle_CompactionPri'') 1)]"

definition InitCachedConstants :: "stmt list" where
  "InitCachedConstants = cached_constants_1 @ cached_constants_2 @ cached_constants_3 @ cached_constants_4 @ cached_constants_5 @ cached_constants_6"

text \<open>\<open>__Pyx_modinit_type_import_code\<close>: the types \<open>type\<close>, \<open>bool\<close> and \<open>complex\<close> of the interpreter.\<close>

definition modinit_type_import_code :: "stmt list" where
  "modinit_type_import_code =
     [Assign Tmp_0 (ImportModule ''builtins''), Assign (Import_type ''type'') (ImportType Tmp_0 ''type''), Clear Tmp_0,
      Assign Tmp_0 (ImportModule ''builtins''), Assign (Import_type ''bool'') (ImportType Tmp_0 ''bool''), Clear Tmp_0,
      Assign Tmp_0 (ImportModule ''builtins''), Assign (Import_type ''complex'') (ImportType Tmp_0 ''complex''), Clear Tmp_0]"

text \<open>The statements of \<open>__Pyx_modinit_type_init_code\<close>, and the names its types get in the module.\<close>

definition modinit_type_init_stmts :: "stmt list" where
  "modinit_type_init_stmts =
     concat (map (\<lambda>(t, steps). map (TypeStep t) steps) modinit_type_init_code)"

fun publish_name :: "ext_type \<Rightarrow> string" where
  "publish_name Ty_BlockBasedTableFactory = ''BlockBasedTableFactory''"
| "publish_name Ty_PlainTableFactory = ''PlainTableFactory''"
| "publish_name Ty_SkipListMemtableFactory = ''SkipListMemtableFactory''"
| "publish_name Ty_VectorMemtableFactory = ''VectorMemtableFactory''"
| "publish_name Ty_HashSkipListMemtableFactory = ''HashSkipListMemtableFactory''"
| "publish_name Ty_HashLinkListMemtableFactory = ''HashLinkListMemtableFactory''"
| "publish_name Ty_CompressionType = ''CompressionType''"
| "publish_name Ty_CompactionPri = ''CompactionPri''"
| "publish_name Ty_ColumnFamilyHandle = ''ColumnFamilyHandle''"
| "publish_name Ty_ColumnFamilyOptions = ''ColumnFamilyOptions''"
| "publish_name Ty_Options = ''Options''"
| "publish_name Ty_WriteBatch = ''WriteBatch''"
| "publish_name Ty_DB = ''DB''"
| "publish_name Ty_BackupEngine = ''BackupEngine''"
| "publish_name _ = []"

end
