(* ===== verification/ModuleExec.thy ===== *)
theory ModuleExec
  imports Constants
begin

section \<open>Executing the module\<close>

text \<open>
  \<open>__pyx_pymod_create\<close> and \<open>__pyx_pymod_exec__rocksdb\<close> of \<open>rocksdb/_rocksdb.cpp\<close>: the module object is
  made once for a process, then its constants, builtins and types are set up and the statements of the
  module are run. A failing call jumps to the error exit, which adds a traceback and gives the module
  up again.
\<close>

subsection \<open>State and interpreter\<close>

record names =
  globals :: globals
  dict_at :: "nat \<Rightarrow> (string \<times> mobj) list"
  class_dict :: "ext_type \<Rightarrow> (string \<times> mobj) list"
  sys_modules :: "(string \<times> nat) list"

text \<open>
  \<open>readied\<close> are the types \<open>PyType_Ready\<close> has finished before: for them it does nothing.
  \<open>main_interpreter_id\<close> is the static variable of \<open>__Pyx_check_single_interpreter\<close>.
\<close>

record mod_state =
  nm :: names
  types :: init_state
  readied :: "ext_type list"
  tb :: tb_state
  main_interpreter_id :: int

text \<open>
  What the interpreter does. \<open>fails k\<close> is a failure of the fallible statement at position \<open>k\<close> (memory,
  a warning turned into an error and the like), with the exception if one was set.
  \<open>import_at n from l\<close> is the exception of \<open>PyImport_ImportModuleLevelObject\<close>, if any;
  \<open>lacks m n\<close> that of looking up the attribute \<open>n\<close>. \<open>object_names\<close> are the methods of \<open>object\<close>.
\<close>

record world =
  fails :: "nat \<Rightarrow> pyexn option option"
  import_at :: "string \<Rightarrow> string list \<Rightarrow> nat \<Rightarrow> pyexn option"
  lacks :: "mobj \<Rightarrow> string \<Rightarrow> pyexn option"
  is_type :: "string \<Rightarrow> bool"
  basicsize :: "string \<Rightarrow> int"
  c_size :: "string \<Rightarrow> int"
  size_warning :: "pyexn option"
  object_names :: "string list"
  cline_setting :: "pyobj option"
  py_env :: pyenv
  memory :: tb_alloc

definition var_of :: "cvar \<Rightarrow> names \<Rightarrow> mobj" where
  "var_of v N = (case get_var v (globals N) of Some x \<Rightarrow> x | None \<Rightarrow> NoneOb)"

definition name_of :: "cvar \<Rightarrow> names \<Rightarrow> string" where
  "name_of v N = text_of (var_of v N)"

definition set_var :: "cvar \<Rightarrow> mobj option \<Rightarrow> names \<Rightarrow> names" where
  "set_var v x N = N\<lparr>globals := put_var v x (globals N)\<rparr>"

text \<open>\<open>__pyx_m\<close>, and the module whose dictionary \<open>__pyx_d\<close> is.\<close>

definition module_ptr :: "names \<Rightarrow> nat option" where
  "module_ptr N = (case get_var M_var (globals N) of Some (SelfModule m) \<Rightarrow> Some m | _ \<Rightarrow> None)"

definition dict_ptr :: "names \<Rightarrow> nat option" where
  "dict_ptr N = (case get_var D_var (globals N) of Some (SelfDict m) \<Rightarrow> Some m | _ \<Rightarrow> None)"

subsection \<open>Imports\<close>

definition Pyx_MODULE_NAME :: string where
  "Pyx_MODULE_NAME = ''rocksdb._rocksdb''"

text \<open>
  \<open>__Pyx_Import\<close>: with level -1 a module inside a package first looks for a sibling (level 1) and, if
  that raises \<open>ImportError\<close>, for a module of that name anywhere. The result is the level that succeeded.
\<close>

definition Pyx_Import :: "world \<Rightarrow> string \<Rightarrow> string list \<Rightarrow> int \<Rightarrow> pyexn + nat" where
  "Pyx_Import E name from_list level =
     (let absolute = (\<lambda>l. case import_at E name from_list l of Some x \<Rightarrow> Inl x | None \<Rightarrow> Inr l)
      in if level = -1
         then (if CHR ''.'' \<in> set Pyx_MODULE_NAME
               then (case import_at E name from_list 1 of
                       None \<Rightarrow> Inr 1
                     | Some x \<Rightarrow> if exn_class x = ImportError then absolute 0 else Inl x)
               else absolute 0)
         else absolute (nat level))"

definition Pyx_ImportFrom :: "world \<Rightarrow> mobj \<Rightarrow> string \<Rightarrow> pyexn + mobj" where
  "Pyx_ImportFrom E module name =
     (case lacks E module name of
        None \<Rightarrow> Inr (AttrOb module name)
      | Some x \<Rightarrow> Inl (if exn_class x = AttributeError
                        then Exn ImportError (Fmt ''cannot import name %S'' [PStr name]) else x))"

definition Pyx_GetBuiltinName :: "world \<Rightarrow> string \<Rightarrow> pyexn + mobj" where
  "Pyx_GetBuiltinName E name =
     (case lacks E (ModuleOb ''builtins'' 0) name of
        None \<Rightarrow> Inr (BuiltinOb name)
      | Some _ \<Rightarrow> Inl (Exn NameError (Fmt ''name '%U' is not defined'' [PStr name])))"

text \<open>\<open>__Pyx_ImportType\<close>, always called with \<open>__Pyx_ImportType_CheckSize_Warn\<close>: a larger type is warned of.\<close>

definition Pyx_ImportType :: "world \<Rightarrow> mobj \<Rightarrow> string \<Rightarrow> pyexn + mobj" where
  "Pyx_ImportType E module class_name =
     (case lacks E module class_name of
        Some x \<Rightarrow> Inl x
      | None \<Rightarrow>
          if \<not> is_type E class_name
          then Inl (Exn TypeError (Fmt ''%.200s.%.200s is not a type object'' [PStr ''builtins'', PStr class_name]))
          else if basicsize E class_name < c_size E class_name
          then Inl (Exn ValueError (Fmt ''%.200s.%.200s size changed, may indicate binary incompatibility. Expected %zd from C header, got %zd from PyObject''
            [PStr ''builtins'', PStr class_name, PInt (c_size E class_name), PInt (basicsize E class_name)]))
          else if basicsize E class_name > c_size E class_name \<and> size_warning E \<noteq> None
          then Inl (the (size_warning E))
          else Inr (BuiltinType class_name))"

text \<open>
  \<open>__Pyx_GetNameInClass\<close>: the attribute of the class, or else the name in the module, or else a builtin.
\<close>

definition Pyx_GetNameInClass :: "world \<Rightarrow> ext_type \<Rightarrow> string \<Rightarrow> names \<Rightarrow> pyexn + mobj" where
  "Pyx_GetNameInClass E t name N =
     (case map_of (class_dict N t) name of
        Some x \<Rightarrow> Inr x
      | None \<Rightarrow>
          (case (case dict_ptr N of None \<Rightarrow> None | Some m \<Rightarrow> map_of (dict_at N m) name) of
             Some x \<Rightarrow> Inr x
           | None \<Rightarrow> Pyx_GetBuiltinName E name))"

subsection \<open>What a statement reads, and how it fails\<close>

fun rvalue_uses :: "rvalue \<Rightarrow> cvar list" where
  "rvalue_uses ModuleDict = [M_var]"
| "rvalue_uses (GetBuiltinName v) = [B_var, v]"
| "rvalue_uses (Pack vs) = vs"
| "rvalue_uses (NewCode a n names f nam l) = [Empty_bytes, Empty_tuple, names, f, nam]"
| "rvalue_uses (NewList vs) = vs"
| "rvalue_uses (NewFunction k v) = [v]"
| "rvalue_uses (Import v fl l) = M_var # v # (case fl of Some t \<Rightarrow> [t] | None \<Rightarrow> [])"
| "rvalue_uses (ImportFrom t v) = [t, v]"
| "rvalue_uses (ImportType t k) = [t]"
| "rvalue_uses (NameInClass t v) = [Type_var t, v]"
| "rvalue_uses (CallStaticmethod v) = [Builtin_var ''staticmethod'', v]"
| "rvalue_uses _ = []"

text \<open>\<open>__Pyx_setup_reduce\<close> looks up six names and compares \<open>__name__\<close>, \<open>__Pyx_SetVtable\<close> sets \<open>__pyx_vtable__\<close>.\<close>

definition reduce_names :: "cvar list" where
  "reduce_names = [N_s ''getstate'', N_s ''reduce_ex'', N_s ''reduce'', N_s ''reduce_cython'',
     N_s ''setstate'', N_s ''setstate_cython'', N_s ''name_2'']"

fun type_uses :: "ext_type \<Rightarrow> init_step \<Rightarrow> cvar list" where
  "type_uses t (InheritVtable b) = [Vtab_var b]"
| "type_uses t (SetMethod m c) = [Vtab_var t]"
| "type_uses t (SetBase b) = [Type_var b]"
| "type_uses t PutVtable = [Vtab_var t, N_s ''pyx_vtable'']"
| "type_uses t Publish = [M_var, N_s (publish_name t)]"
| "type_uses t SetupReduce = reduce_names"
| "type_uses t _ = []"

fun stmt_uses :: "stmt \<Rightarrow> cvar list" where
  "stmt_uses (Assign v rv) = rvalue_uses rv"
| "stmt_uses (Clear v) = [v]"
| "stmt_uses (SetDict n v) = [D_var, n, v]"
| "stmt_uses (SetTypeDict t n v) = [Type_var t, n, v]"
| "stmt_uses (TypeModified t) = [Type_var t]"
| "stmt_uses (SetAttrString n v) = [M_var, v]"
| "stmt_uses (SetAttr n v) = [M_var, n, v]"
| "stmt_uses (RegisterModule n) = [M_var]"
| "stmt_uses (TypeStep t st) = type_uses t st"
| "stmt_uses _ = []"

fun is_set :: "mod_state \<Rightarrow> cvar \<Rightarrow> bool" where
  "is_set S (Vtab_var t) \<longleftrightarrow> vtable_of (types S) t \<noteq> None"
| "is_set S (Type_var t) \<longleftrightarrow> get_var (Type_var t) (globals (nm S)) \<noteq> None \<and> t \<in> set (exported (types S))"
| "is_set S v \<longleftrightarrow> get_var v (globals (nm S)) \<noteq> None"

text \<open>Assignments of C pointers and releases cannot fail.\<close>

fun infallible :: "stmt \<Rightarrow> bool" where
  "infallible (Assign v GivenModule) \<longleftrightarrow> True"
| "infallible (Assign v DictType) \<longleftrightarrow> True"
| "infallible (Clear v) \<longleftrightarrow> True"
| "infallible (TypeModified t) \<longleftrightarrow> True"
| "infallible InitThreads \<longleftrightarrow> True"
| "infallible (TypeStep t MakeVtable) \<longleftrightarrow> True"
| "infallible (TypeStep t (InheritVtable b)) \<longleftrightarrow> True"
| "infallible (TypeStep t (SetMethod m c)) \<longleftrightarrow> True"
| "infallible (TypeStep t (SetBase b)) \<longleftrightarrow> True"
| "infallible (TypeStep t WeakList) \<longleftrightarrow> True"
| "infallible (TypeStep t Export) \<longleftrightarrow> True"
| "infallible _ \<longleftrightarrow> False"

definition from_names :: "cvar option \<Rightarrow> names \<Rightarrow> string list" where
  "from_names fl N =
     (case fl of None \<Rightarrow> [] | Some t \<Rightarrow> (case var_of t N of ListOb xs \<Rightarrow> map text_of xs | _ \<Rightarrow> []))"

definition error_of :: "pyexn + 'a \<Rightarrow> pyexn option option" where
  "error_of r = (case r of Inl x \<Rightarrow> Some (Some x) | Inr _ \<Rightarrow> None)"

fun call_raises :: "world \<Rightarrow> stmt \<Rightarrow> mod_state \<Rightarrow> pyexn option option" where
  "call_raises E (Assign v (Import n fl l)) S =
     error_of (Pyx_Import E (name_of n (nm S)) (from_names fl (nm S)) l)"
| "call_raises E (Assign v (ImportFrom t n)) S =
     error_of (Pyx_ImportFrom E (var_of t (nm S)) (name_of n (nm S)))"
| "call_raises E (Assign v (GetBuiltinName n)) S = error_of (Pyx_GetBuiltinName E (name_of n (nm S)))"
| "call_raises E (Assign v (ImportType t k)) S = error_of (Pyx_ImportType E (var_of t (nm S)) k)"
| "call_raises E (Assign v (ImportModule k)) S = error_of (Pyx_Import E k [] 0)"
| "call_raises E (Assign v (NameInClass t n)) S =
     error_of (Pyx_GetNameInClass E t (name_of n (nm S)) (nm S))"
| "call_raises E (TypeStep t SetupReduce) S =
     (if setup_reduce (object_names E) t (types S) = None
      then Some (Some (Exn RuntimeError (Fmt ''Unable to initialize pickling for %s'' [PStr (tp_name (type_of t))])))
      else None)"
| "call_raises E _ S = None"

definition stmt_raises :: "world \<Rightarrow> nat \<Rightarrow> stmt \<Rightarrow> mod_state \<Rightarrow> pyexn option option" where
  "stmt_raises E k s S =
     (if infallible s then None
      else case fails E k of Some x \<Rightarrow> Some x | None \<Rightarrow> call_raises E s S)"

subsection \<open>What a statement does\<close>

text \<open>
  \<open>lv n\<close> is the level at which the import of \<open>n\<close> succeeds. A failing statement changes nothing.
\<close>

fun rvalue_of :: "(string \<Rightarrow> string list \<Rightarrow> nat) \<Rightarrow> nat \<Rightarrow> rvalue \<Rightarrow> names \<Rightarrow> mobj" where
  "rvalue_of lv m GivenModule N = SelfModule m"
| "rvalue_of lv m ModuleDict N = (case module_ptr N of Some m' \<Rightarrow> SelfDict m' | None \<Rightarrow> NoneOb)"
| "rvalue_of lv m (AddModule k) N = ModuleOb k 0"
| "rvalue_of lv m (NewEmpty x) N = x"
| "rvalue_of lv m (NewInt i) N = IntOb i"
| "rvalue_of lv m (NewFloat k) N = FloatOb k"
| "rvalue_of lv m (Decode t) N = decode_entry t"
| "rvalue_of lv m (GetBuiltinName v) N = BuiltinOb (name_of v N)"
| "rvalue_of lv m (Pack vs) N = TupleOb (map (\<lambda>v. var_of v N) vs)"
| "rvalue_of lv m (NewCode a n vs f nam l) N = CodeOb a n (var_of vs N) (var_of f N) (var_of nam N) l"
| "rvalue_of lv m (NewList vs) N = ListOb (map (\<lambda>v. var_of v N) vs)"
| "rvalue_of lv m NewDict N = DictOb"
| "rvalue_of lv m (NewFunction k v) N = FunctionOb k (var_of v N)"
| "rvalue_of lv m (Import v fl l) N =
     ModuleOb (name_of v N) (if l = -1 then lv (name_of v N) (from_names fl N) else nat l)"
| "rvalue_of lv m (ImportFrom t v) N = AttrOb (var_of t N) (name_of v N)"
| "rvalue_of lv m (ImportModule k) N = ModuleOb k 0"
| "rvalue_of lv m (ImportType t k) N = BuiltinType k"
| "rvalue_of lv m DictType N = BuiltinType ''dict''"
| "rvalue_of lv m (NameInClass t v) N =
     (case map_of (class_dict N t) (name_of v N) of
        Some x \<Rightarrow> x
      | None \<Rightarrow>
          (case (case dict_ptr N of None \<Rightarrow> None | Some m' \<Rightarrow> map_of (dict_at N m') (name_of v N)) of
             Some x \<Rightarrow> x
           | None \<Rightarrow> BuiltinOb (name_of v N)))"
| "rvalue_of lv m (CallStaticmethod v) N = StaticOb (var_of v N)"

definition set_item :: "nat option \<Rightarrow> string \<Rightarrow> mobj \<Rightarrow> names \<Rightarrow> names" where
  "set_item d k x N =
     (case d of
        Some m \<Rightarrow> N\<lparr>dict_at := (dict_at N)(m := AList.update k x (dict_at N m))\<rparr>
      | None \<Rightarrow> N)"

text \<open>On the names; the attributes of the module are the items of its dictionary.\<close>

fun names_effect :: "(string \<Rightarrow> string list \<Rightarrow> nat) \<Rightarrow> nat \<Rightarrow> stmt \<Rightarrow> names \<Rightarrow> names" where
  "names_effect lv m (Assign v rv) N = set_var v (Some (rvalue_of lv m rv N)) N"
| "names_effect lv m (Clear v) N = set_var v None N"
| "names_effect lv m (SetDict n v) N = set_item (dict_ptr N) (name_of n N) (var_of v N) N"
| "names_effect lv m (SetTypeDict t n v) N =
     N\<lparr>class_dict := (class_dict N)(t := AList.update (name_of n N) (var_of v N) (class_dict N t))\<rparr>"
| "names_effect lv m (SetAttrString n v) N = set_item (module_ptr N) n (var_of v N) N"
| "names_effect lv m (SetAttr n v) N = set_item (module_ptr N) (name_of n N) (var_of v N) N"
| "names_effect lv m (RegisterModule n) N =
     (case map_of (sys_modules N) n of
        Some _ \<Rightarrow> N
      | None \<Rightarrow> (case module_ptr N of Some m' \<Rightarrow> N\<lparr>sys_modules := (n, m') # sys_modules N\<rparr> | None \<Rightarrow> N))"
| "names_effect lv m (TypeStep t st) N =
     (if st = Publish then set_item (module_ptr N) (name_of (N_s (publish_name t)) N) (TypeOb t) N
      else if st = Export then set_var (Type_var t) (Some (TypeOb t)) N
      else N)"
| "names_effect lv m _ N = N"

text \<open>On the types, with \<open>PyType_Ready\<close> returning at once for a type that is ready.\<close>

definition types_effect :: "world \<Rightarrow> stmt \<Rightarrow> mod_state \<Rightarrow> init_state" where
  "types_effect E s S =
     (case s of
        TypeStep t st \<Rightarrow>
          if st = Ready \<and> t \<in> set (readied S) then types S
          else (case init_step_run (object_names E) t st (types S) of Some T \<Rightarrow> T | None \<Rightarrow> types S)
      | _ \<Rightarrow> types S)"

definition readied_effect :: "stmt \<Rightarrow> ext_type list \<Rightarrow> ext_type list" where
  "readied_effect s R = (case s of TypeStep t st \<Rightarrow> if st = Ready then t # R else R | _ \<Rightarrow> R)"

text \<open>Once \<open>cython_runtime\<close> is there, tracebacks ask it whether to show lines of the C++ file.\<close>

definition tb_effect :: "world \<Rightarrow> stmt \<Rightarrow> tb_state \<Rightarrow> tb_state" where
  "tb_effect E s T =
     (case s of
        Assign v rv \<Rightarrow>
          if v = Cython_runtime \<and> cline_attr T = None then T\<lparr>cline_attr := Some (cline_setting E)\<rparr> else T
      | _ \<Rightarrow> T)"

definition level_of :: "world \<Rightarrow> string \<Rightarrow> string list \<Rightarrow> nat" where
  "level_of E n fl = (case Pyx_Import E n fl (-1) of Inr l \<Rightarrow> l | Inl _ \<Rightarrow> 0)"

definition stmt_effect :: "world \<Rightarrow> nat \<Rightarrow> stmt \<Rightarrow> mod_state \<Rightarrow> mod_state" where
  "stmt_effect E m s S =
     S\<lparr>nm := names_effect (level_of E) m s (nm S), types := types_effect E s S,
       readied := readied_effect s (readied S), tb := tb_effect E s (tb S)\<rparr>"

text \<open>
  Running statements from position \<open>k\<close> on. Reading a null pointer is not something the code checks.
\<close>

datatype progress =
    Finished mod_state
  | Raised "pyexn option" location nat mod_state
  | NullRead nat

fun run_stmts :: "world \<Rightarrow> nat \<Rightarrow> nat \<Rightarrow> (stmt \<times> location) list \<Rightarrow> mod_state \<Rightarrow> progress" where
  "run_stmts E m k [] S = Finished S"
| "run_stmts E m k ((s, l) # ps) S =
     (if \<not> list_all (is_set S) (stmt_uses s) then NullRead k
      else case stmt_raises E k s S of
             Some x \<Rightarrow> Raised x l k S
           | None \<Rightarrow> run_stmts E m (k + 1) ps (stmt_effect E m s S))"

subsection \<open>The program\<close>

text \<open>\<open>__pyx_module_is_main_rocksdb___rocksdb\<close> is 0 in an extension module.\<close>

definition module_is_main :: bool where
  "module_is_main = False"

definition at_line :: "int \<Rightarrow> stmt list \<Rightarrow> (stmt \<times> location) list" where
  "at_line c ss = map (\<lambda>s. (s, Loc 0 1 c)) ss"

definition module_setup :: "(stmt \<times> location) list" where
  "module_setup =
     at_line 54926 [CheckVersion] @
     at_line 54930 [Assign Empty_tuple (NewEmpty (TupleOb []))] @
     at_line 54931 [Assign Empty_bytes (NewEmpty (BytesOb []))] @
     at_line 54932 [Assign Empty_unicode (NewEmpty (Ustr []))] @
     [(Assign M_var GivenModule, NoLoc)] @
     at_line 54970 [Assign D_var ModuleDict] @
     at_line 54972 [Assign B_var (AddModule ''builtins'')] @
     at_line 54974 [Assign Cython_runtime (AddModule ''cython_runtime'')] @
     at_line 54976 [SetAttrString ''__builtins__'' B_var] @
     at_line 54978 InitGlobals @
     (if module_is_main then at_line 54983 [SetAttr (N_s ''name_2'') (N_s ''main'')] else []) @
     at_line 54989 [RegisterModule ''rocksdb._rocksdb''] @
     at_line 54994 InitCachedBuiltins @
     at_line 54996 InitCachedConstants @
     at_line 55001 modinit_type_init_stmts @
     at_line 55002 modinit_type_import_code"

text \<open>The statements of \<open>_rocksdb.pyx\<close> itself.\<close>

definition module_body_1 :: "(stmt \<times> location) list" where
  "module_body_1 =
     [(Assign Tmp_1 (Import (N_s ''sys'') None (-1)), Loc 0 45 55017),
      (SetDict (N_s ''sys'') Tmp_1, Loc 0 45 55019), (Clear Tmp_1, NoLoc),
      (Assign Tmp_1 (NewList [N_s ''MergeOperator'']), Loc 0 46 55029),
      (Assign Tmp_2 (Import (N_s ''interfaces'') (Some Tmp_1) (-1)), Loc 0 46 55034), (Clear Tmp_1, NoLoc),
      (Assign Tmp_1 (ImportFrom Tmp_2 (N_s ''MergeOperator'')), Loc 0 46 55037),
      (SetDict (N_s ''IMergeOperator'') Tmp_1, Loc 0 46 55039), (Clear Tmp_1, NoLoc), (Clear Tmp_2, NoLoc),
      (Assign Tmp_2 (NewList [N_s ''AssociativeMergeOperator'']), Loc 0 47 55050),
      (Assign Tmp_1 (Import (N_s ''interfaces'') (Some Tmp_2) (-1)), Loc 0 47 55055), (Clear Tmp_2, NoLoc),
      (Assign Tmp_2 (ImportFrom Tmp_1 (N_s ''AssociativeMergeOperator'')), Loc 0 47 55058),
      (SetDict (N_s ''IAssociativeMergeOperator'') Tmp_2, Loc 0 47 55060), (Clear Tmp_2, NoLoc),
      (Clear Tmp_1, NoLoc), (Assign Tmp_1 (NewList [N_s ''FilterPolicy'']), Loc 0 48 55071),
      (Assign Tmp_2 (Import (N_s ''interfaces'') (Some Tmp_1) (-1)), Loc 0 48 55076), (Clear Tmp_1, NoLoc),
      (Assign Tmp_1 (ImportFrom Tmp_2 (N_s ''FilterPolicy'')), Loc 0 48 55079),
      (SetDict (N_s ''IFilterPolicy'') Tmp_1, Loc 0 48 55081), (Clear Tmp_1, NoLoc), (Clear Tmp_2, NoLoc),
      (Assign Tmp_2 (NewList [N_s ''Comparator'']), Loc 0 49 55092),
      (Assign Tmp_1 (Import (N_s ''interfaces'') (Some Tmp_2) (-1)), Loc 0 49 55097), (Clear Tmp_2, NoLoc),
      (Assign Tmp_2 (ImportFrom Tmp_1 (N_s ''Comparator'')), Loc 0 49 55100),
      (SetDict (N_s ''IComparator'') Tmp_2, Loc 0 49 55102), (Clear Tmp_2, NoLoc), (Clear Tmp_1, NoLoc),
      (Assign Tmp_1 (NewList [N_s ''SliceTransform'']), Loc 0 50 55113),
      (Assign Tmp_2 (Import (N_s ''interfaces'') (Some Tmp_1) (-1)), Loc 0 50 55118), (Clear Tmp_1, NoLoc),
      (Assign Tmp_1 (ImportFrom Tmp_2 (N_s ''SliceTransform'')), Loc 0 50 55121),
      (SetDict (N_s ''ISliceTransform'') Tmp_1, Loc 0 50 55123), (Clear Tmp_1, NoLoc),
      (Clear Tmp_2, NoLoc), (Assign Tmp_2 (Import (N_s ''traceback'') None (-1)), Loc 0 51 55134),
      (SetDict (N_s ''traceback'') Tmp_2, Loc 0 51 55136), (Clear Tmp_2, NoLoc),
      (Assign Tmp_2 (Import (N_s ''errors'') None (-1)), Loc 0 52 55146),
      (SetDict (N_s ''errors'') Tmp_2, Loc 0 52 55148), (Clear Tmp_2, NoLoc)]"

definition module_body_2 :: "(stmt \<times> location) list" where
  "module_body_2 =
     [(Assign Tmp_2 (Import (N_s ''weakref'') None (-1)), Loc 0 53 55158),
      (SetDict (N_s ''weakref'') Tmp_2, Loc 0 53 55160), (Clear Tmp_2, NoLoc), (InitThreads, NoLoc),
      (SetDict (N_s ''BytewiseComparator'') (Type_var Ty_PyBytewiseComparator), Loc 0 201 55179),
      (SetDict (N_s ''BloomFilterPolicy'') (Type_var Ty_PyBloomFilterPolicy), Loc 0 312 55188),
      (SetDict (N_s ''LRUCache'') (Type_var Ty_PyLRUCache), Loc 0 473 55197),
      (SetTypeDict Ty_CompressionType (N_s ''no_compression'') (N_u ''no_compression''), Loc 0 724 55206),
      (TypeModified Ty_CompressionType, NoLoc),
      (SetTypeDict Ty_CompressionType (N_s ''snappy_compression'') (N_u ''snappy_compression''), Loc 0 725 55216),
      (TypeModified Ty_CompressionType, NoLoc),
      (SetTypeDict Ty_CompressionType (N_s ''zlib_compression'') (N_u ''zlib_compression''), Loc 0 726 55226),
      (TypeModified Ty_CompressionType, NoLoc),
      (SetTypeDict Ty_CompressionType (N_s ''bzip2_compression'') (N_u ''bzip2_compression''), Loc 0 727 55236),
      (TypeModified Ty_CompressionType, NoLoc),
      (SetTypeDict Ty_CompressionType (N_s ''lz4_compression'') (N_u ''lz4_compression''), Loc 0 728 55246),
      (TypeModified Ty_CompressionType, NoLoc),
      (SetTypeDict Ty_CompressionType (N_s ''lz4hc_compression'') (N_u ''lz4hc_compression''), Loc 0 729 55256),
      (TypeModified Ty_CompressionType, NoLoc),
      (SetTypeDict Ty_CompressionType (N_s ''xpress_compression'') (N_u ''xpress_compression''), Loc 0 730 55266),
      (TypeModified Ty_CompressionType, NoLoc),
      (SetTypeDict Ty_CompressionType (N_s ''zstd_compression'') (N_u ''zstd_compression''), Loc 0 731 55276),
      (TypeModified Ty_CompressionType, NoLoc),
      (SetTypeDict Ty_CompressionType (N_s ''zstdnotfinal_compression'') (N_u ''zstdnotfinal_compression''), Loc 0 732 55286),
      (TypeModified Ty_CompressionType, NoLoc),
      (SetTypeDict Ty_CompressionType (N_s ''disable_compression'') (N_u ''disable_compression''), Loc 0 733 55296),
      (TypeModified Ty_CompressionType, NoLoc)]"

definition module_body_3 :: "(stmt \<times> location) list" where
  "module_body_3 =
     [(SetTypeDict Ty_CompactionPri (N_s ''by_compensated_size'') (N_u ''by_compensated_size''), Loc 0 736 55306),
      (TypeModified Ty_CompactionPri, NoLoc),
      (SetTypeDict Ty_CompactionPri (N_s ''oldest_largest_seq_first'') (N_u ''oldest_largest_seq_first''), Loc 0 737 55316),
      (TypeModified Ty_CompactionPri, NoLoc),
      (SetTypeDict Ty_CompactionPri (N_s ''oldest_smallest_seq_first'') (N_u ''oldest_smallest_seq_first''), Loc 0 738 55326),
      (TypeModified Ty_CompactionPri, NoLoc),
      (SetTypeDict Ty_CompactionPri (N_s ''min_overlapping_ratio'') (N_u ''min_overlapping_ratio''), Loc 0 739 55336),
      (TypeModified Ty_CompactionPri, NoLoc),
      (Assign Tmp_2 (NewFunction ''__parse_read_opts'' (N_s ''rocksdb__rocksdb'')), Loc 0 2135 55346),
      (SetTypeDict Ty_DB (N_s ''parse_read_opts'') Tmp_2, Loc 0 2135 55348), (Clear Tmp_2, NoLoc),
      (TypeModified Ty_DB, NoLoc),
      (Assign Tmp_2 (NameInClass Ty_DB (N_s ''parse_read_opts'')), Loc 0 2135 55359),
      (Assign Tmp_1 (CallStaticmethod Tmp_2), Loc 0 2134 55361), (Clear Tmp_2, NoLoc),
      (SetTypeDict Ty_DB (N_s ''parse_read_opts'') Tmp_1, Loc 0 2135 55364), (Clear Tmp_1, NoLoc),
      (TypeModified Ty_DB, NoLoc),
      (Assign Tmp_1 (NewFunction ''repair_db'' (N_s ''rocksdb__rocksdb'')), Loc 0 2207 55375),
      (SetDict (N_s ''repair_db'') Tmp_1, Loc 0 2207 55377), (Clear Tmp_1, NoLoc),
      (Assign Tmp_1 (NewFunction ''list_column_families'' (N_s ''rocksdb__rocksdb'')), Loc 0 2216 55387),
      (SetDict (N_s ''list_column_families'') Tmp_1, Loc 0 2216 55389), (Clear Tmp_1, NoLoc),
      (Assign Tmp_1 (NewFunction ''__pyx_unpickle_PyComparator'' (N_s ''rocksdb__rocksdb'')), Loc 1 1 55397),
      (SetDict (N_s ''pyx_unpickle_PyComparator'') Tmp_1, Loc 1 1 55399), (Clear Tmp_1, NoLoc),
      (Assign Tmp_1 (NewFunction ''__pyx_unpickle_PyFilterPolicy'' (N_s ''rocksdb__rocksdb'')), Loc 1 1 55409),
      (SetDict (N_s ''pyx_unpickle_PyFilterPolicy'') Tmp_1, Loc 1 1 55411), (Clear Tmp_1, NoLoc),
      (Assign Tmp_1 (NewFunction ''__pyx_unpickle_PyCache'' (N_s ''rocksdb__rocksdb'')), Loc 1 1 55419),
      (SetDict (N_s ''pyx_unpickle_PyCache'') Tmp_1, Loc 1 1 55421), (Clear Tmp_1, NoLoc),
      (Assign Tmp_1 (NewFunction ''__pyx_unpickle_CompressionType'' (N_s ''rocksdb__rocksdb'')), Loc 1 1 55431),
      (SetDict (N_s ''pyx_unpickle_CompressionType'') Tmp_1, Loc 1 1 55433), (Clear Tmp_1, NoLoc),
      (Assign Tmp_1 (NewFunction ''__pyx_unpickle_CompactionPri'' (N_s ''rocksdb__rocksdb'')), Loc 1 1 55441),
      (SetDict (N_s ''pyx_unpickle_CompactionPri'') Tmp_1, Loc 1 1 55443), (Clear Tmp_1, NoLoc)]"

definition module_body_4 :: "(stmt \<times> location) list" where
  "module_body_4 =
     [(Assign Tmp_1 NewDict, Loc 0 1 55451), (SetDict (N_s ''test'') Tmp_1, Loc 0 1 55453),
      (Clear Tmp_1, NoLoc)]"

definition module_program :: "(stmt \<times> location) list" where
  "module_program = module_setup @ module_body_1 @ module_body_2 @ module_body_3 @ module_body_4"

subsection \<open>Executing and creating the module\<close>

datatype exec_result = Returned mod_state | Failed "pyexn option" mod_state | Crashed nat

text \<open>
  The error exit. \<open>__Pyx_AddTraceback\<close> is called as soon as there is a dictionary and, once
  \<open>cython_runtime\<close> is there, reads \<open>__pyx_n_s_cline_in_traceback\<close>; it makes code objects from
  the empty tuple and the empty bytes object.
\<close>

definition traceback_uses :: "mod_state \<Rightarrow> cvar list" where
  "traceback_uses S =
     [Empty_tuple, Empty_bytes] @ (if is_set S Cython_runtime then [N_s ''cline_in_traceback''] else [])"

definition init_traceback :: "world \<Rightarrow> location \<Rightarrow> mod_state \<Rightarrow> mod_state" where
  "init_traceback E l S =
     (case l of
        NoLoc \<Rightarrow> S
      | Loc f py c \<Rightarrow>
          S\<lparr>tb := snd (AddTraceback (py_env E) (memory E) ''init rocksdb._rocksdb'' c py (pyx_f ! f) (tb S))\<rparr>)"

definition clear_temps :: "mod_state \<Rightarrow> mod_state" where
  "clear_temps S = S\<lparr>nm := set_var Tmp_0 None (set_var Tmp_1 None (set_var Tmp_2 None (nm S)))\<rparr>"

definition exec_error :: "world \<Rightarrow> pyexn option \<Rightarrow> location \<Rightarrow> nat \<Rightarrow> mod_state \<Rightarrow> exec_result" where
  "exec_error E x l k S =
     (let S = clear_temps S
      in if is_set S M_var
         then (if is_set S D_var \<and> \<not> list_all (is_set S) (traceback_uses S) then Crashed k
               else let S = (if is_set S D_var then init_traceback E l S else S)
                    in Failed x (S\<lparr>nm := set_var M_var None (nm S)\<rparr>))
         else Failed (case x of None \<Rightarrow> Some (Exn ImportError (Text ''init rocksdb._rocksdb'')) | Some _ \<Rightarrow> x) S)"

definition pymod_exec :: "world \<Rightarrow> nat \<Rightarrow> mod_state \<Rightarrow> exec_result" where
  "pymod_exec E m S =
     (case module_ptr (nm S) of
        Some m' \<Rightarrow>
          if m' = m then Returned S
          else Failed (Some (Exn RuntimeError
            (Text ''Module '_rocksdb' has already been imported. Re-initialisation is not supported.''))) S
      | None \<Rightarrow>
          (case run_stmts E m 0 module_program S of
             Finished S' \<Rightarrow> Returned S'
           | Raised x l k S' \<Rightarrow> exec_error E x l k S'
           | NullRead k \<Rightarrow> Crashed k))"

text \<open>
  \<open>__Pyx_check_single_interpreter\<close> with the identity of the current interpreter, -1 on failure.
\<close>

definition check_single_interpreter :: "int \<Rightarrow> mod_state \<Rightarrow> bool \<times> pyexn option \<times> mod_state" where
  "check_single_interpreter current_id S =
     (if main_interpreter_id S = -1
      then (current_id \<noteq> -1, None, S\<lparr>main_interpreter_id := current_id\<rparr>)
      else if main_interpreter_id S \<noteq> current_id
      then (False, Some (Exn ImportError
        (Text ''Interpreter change detected - this module can only be loaded into one interpreter per process.'')), S)
      else (True, None, S))"

text \<open>
  \<open>__Pyx_copy_spec_to_module\<close>: \<open>spec\<close> gives the attributes of the module specification or the exception
  of the lookup; the result is whether it went well.
\<close>

type_synonym module_spec = "string \<Rightarrow> pyexn + mobj"

definition copy_spec_to_module ::
    "module_spec \<Rightarrow> string \<Rightarrow> string \<Rightarrow> bool \<Rightarrow> (string \<times> mobj) list \<Rightarrow> pyexn + (string \<times> mobj) list" where
  "copy_spec_to_module spec from_name to_name allow_none d =
     (case spec from_name of
        Inr v \<Rightarrow> Inr (if allow_none \<or> v \<noteq> NoneOb then AList.update to_name v d else d)
      | Inl x \<Rightarrow> if exn_class x = AttributeError then Inr d else Inl x)"

definition bind_dict :: "pyexn + 'a \<Rightarrow> ('a \<Rightarrow> pyexn + 'b) \<Rightarrow> pyexn + 'b" where
  "bind_dict r f = (case r of Inl x \<Rightarrow> Inl x | Inr v \<Rightarrow> f v)"

text \<open>\<open>__pyx_pymod_create\<close>; \<open>new_m\<close> is the module object that \<open>PyModule_NewObject\<close> makes, or its exception.\<close>

definition pymod_create ::
    "int \<Rightarrow> module_spec \<Rightarrow> pyexn + nat \<Rightarrow> mod_state \<Rightarrow> (pyexn option + nat) \<times> mod_state" where
  "pymod_create current_id spec new_m S =
     (case check_single_interpreter current_id S of
        (False, x, S) \<Rightarrow> (Inl x, S)
      | (True, _, S) \<Rightarrow>
          (case module_ptr (nm S) of
             Some m \<Rightarrow> (Inr m, S)
           | None \<Rightarrow>
               (case bind_dict (spec ''name'') (\<lambda>modname. bind_dict new_m (\<lambda>m.
                     bind_dict (copy_spec_to_module spec ''loader'' ''__loader__'' True [(''__name__'', modname)]) (\<lambda>d.
                     bind_dict (copy_spec_to_module spec ''origin'' ''__file__'' True d) (\<lambda>d.
                     bind_dict (copy_spec_to_module spec ''parent'' ''__package__'' True d) (\<lambda>d.
                     bind_dict (copy_spec_to_module spec ''submodule_search_locations'' ''__path__'' False d)
                       (\<lambda>d. Inr (m, d))))))) of
                  Inl x \<Rightarrow> (Inl (Some x), S)
                | Inr (m, d) \<Rightarrow> (Inr m, S\<lparr>nm := (nm S)\<lparr>dict_at := (dict_at (nm S))(m := d)\<rparr>\<rparr>))))"

end
