(* ===== verification/ModuleSafety.thy ===== *)
theory ModuleSafety
  imports ModuleExec
begin

section \<open>Safety of the module body\<close>

text \<open>
  A static check of the statements of \<open>__pyx_pymod_exec\<close> (which variables are set for sure before each of them), its
  soundness for every run, and the invariant of the state that any number of attempts to import the module keeps.
\<close>

subsection \<open>Nothing is read before it is set\<close>

text \<open>
  \<open>A\<close> holds the variables that are set for sure; every statement adds what it sets and removes what it
  releases. The pointers of types and method tables are set by the steps of the types alone.
\<close>

fun after :: "stmt \<Rightarrow> cvar set \<Rightarrow> cvar set" where
  "after (Assign v rv) A = insert v A"
| "after (Clear v) A = A - {v}"
| "after (TypeStep t MakeVtable) A = insert (Vtab_var t) A"
| "after (TypeStep t (InheritVtable b)) A = insert (Vtab_var t) A"
| "after (TypeStep t Export) A = insert (Type_var t) A"
| "after _ A = A"

fun plain_var :: "cvar \<Rightarrow> bool" where
  "plain_var (Type_var t) \<longleftrightarrow> False"
| "plain_var (Vtab_var t) \<longleftrightarrow> False"
| "plain_var _ \<longleftrightarrow> True"

fun plain_target :: "stmt \<Rightarrow> bool" where
  "plain_target (Assign v rv) = plain_var v"
| "plain_target (Clear v) = plain_var v"
| "plain_target _ = True"

fun definite :: "cvar set \<Rightarrow> stmt list \<Rightarrow> bool" where
  "definite A [] \<longleftrightarrow> True"
| "definite A (s # ss) \<longleftrightarrow>
     plain_target s \<and> list_all (\<lambda>v. v \<in> A) (stmt_uses s) \<and> definite (after s A) ss"

lemma after_mono: "A \<subseteq> B \<Longrightarrow> after s A \<subseteq> after s B"
  by (cases "(s, A)" rule: after.cases) auto

lemma afters_mono: "A \<subseteq> B \<Longrightarrow> fold after ss A \<subseteq> fold after ss B"
  by (induction ss arbitrary: A B) (simp_all add: after_mono)

lemma definite_mono: "definite A ss \<Longrightarrow> A \<subseteq> B \<Longrightarrow> definite B ss"
proof (induction ss arbitrary: A B)
  case (Cons s ss)
  then show ?case using after_mono [of A B s] by (auto simp: list_all_iff)
qed simp

lemma definite_append:
  "definite A (xs @ ys) \<longleftrightarrow> definite A xs \<and> definite (fold after xs A) ys"
  by (induction xs arbitrary: A) auto

text \<open>What the string table sets.\<close>

definition string_vars :: "cvar set" where
  "string_vars = set (map entry_var string_tab)"

lemma tabled:
  "list_all (\<lambda>t. entry_var t \<in> string_vars) string_tab_1"
  "list_all (\<lambda>t. entry_var t \<in> string_vars) string_tab_2"
  "list_all (\<lambda>t. entry_var t \<in> string_vars) string_tab_3"
  "list_all (\<lambda>t. entry_var t \<in> string_vars) string_tab_4"
  by (simp_all add: list_all_iff string_vars_def string_tab_def)

lemma tabled_plain: "list_all (\<lambda>t. plain_var (entry_var t)) string_tab"
  by (simp add: string_tab_def string_tab_1_def string_tab_2_def string_tab_3_def string_tab_4_def)

lemmas in_table = tabled [unfolded string_tab_1_def string_tab_2_def string_tab_3_def string_tab_4_def list.pred_inject strtab_entry.sel]

lemma InitStrings_definite:
  "list_all (\<lambda>t. plain_var (entry_var t)) ts \<Longrightarrow> definite A (InitStrings ts)"
  "fold after (InitStrings ts) A = set (map entry_var ts) \<union> A"
  by (induction ts arbitrary: A) auto

text \<open>The first statements of \<open>__pyx_pymod_exec__rocksdb\<close> need nothing but what is always there.\<close>

definition start_vars :: "cvar set" where
  "start_vars = {None_var, True_var, False_var}"

definition base_vars :: "cvar set" where
  "base_vars = start_vars \<union>
     {Empty_tuple, Empty_bytes, M_var, D_var, B_var, Cython_runtime, Builtin_var ''staticmethod''} \<union> string_vars"

lemma in_base [simp]:
  "None_var \<in> base_vars" "True_var \<in> base_vars" "False_var \<in> base_vars" "Empty_tuple \<in> base_vars"
  "Empty_bytes \<in> base_vars" "M_var \<in> base_vars" "D_var \<in> base_vars" "B_var \<in> base_vars"
  "Cython_runtime \<in> base_vars" "Builtin_var ''staticmethod'' \<in> base_vars"
  by (simp_all add: base_vars_def start_vars_def)

lemma tabled_base:
  "list_all (\<lambda>t. entry_var t \<in> base_vars) string_tab_1"
  "list_all (\<lambda>t. entry_var t \<in> base_vars) string_tab_2"
  "list_all (\<lambda>t. entry_var t \<in> base_vars) string_tab_3"
  "list_all (\<lambda>t. entry_var t \<in> base_vars) string_tab_4"
  using tabled by (simp_all add: list_all_iff base_vars_def)

lemmas named_base = tabled_base [unfolded string_tab_1_def string_tab_2_def string_tab_3_def string_tab_4_def list.pred_inject strtab_entry.sel]

lemma builtins_definite: "definite ({B_var} \<union> string_vars) InitCachedBuiltins"
  by (simp add: InitCachedBuiltins_def in_table)

lemma constants_definite: "definite base_vars InitCachedConstants"
  by (simp add: InitCachedConstants_def cached_constants_1_def cached_constants_2_def cached_constants_3_def
      cached_constants_4_def cached_constants_5_def cached_constants_6_def named_base)

lemma type_import_definite: "definite base_vars modinit_type_import_code"
  by (simp add: modinit_type_import_code_def)

lemmas type_init_defs = modinit_type_init_stmts_def modinit_type_init_code_def
  PyComparator_type_init_def PyGenericComparator_type_init_def PyBytewiseComparator_type_init_def
  PyFilterPolicy_type_init_def PyGenericFilterPolicy_type_init_def PyBloomFilterPolicy_type_init_def
  PyMergeOperator_type_init_def PyCache_type_init_def PyLRUCache_type_init_def
  PySliceTransform_type_init_def PyTableFactory_type_init_def BlockBasedTableFactory_type_init_def
  PlainTableFactory_type_init_def PyMemtableFactory_type_init_def SkipListMemtableFactory_type_init_def
  VectorMemtableFactory_type_init_def HashSkipListMemtableFactory_type_init_def
  HashLinkListMemtableFactory_type_init_def CompressionType_type_init_def CompactionPri_type_init_def
  ColumnFamilyHandle_real_type_init_def ColumnFamilyHandle_type_init_def
  ColumnFamilyOptions_type_init_def Options_type_init_def Snapshot_type_init_def
  BaseIterator_type_init_def KeysIterator_type_init_def ValuesIterator_type_init_def
  ItemsIterator_type_init_def ReversedIterator_type_init_def WriteBatchIterator_type_init_def
  WriteBatch_type_init_def DB_type_init_def BackupEngine_type_init_def

lemma type_init_definite: "definite base_vars modinit_type_init_stmts"
  by (simp add: type_init_defs reduce_names_def named_base)


lemma kept_after: "v \<in> A \<Longrightarrow> Clear v \<notin> set ss \<Longrightarrow> v \<in> fold after ss A"
proof (induction ss arbitrary: A)
  case (Cons s ss)
  have "v \<in> after s A" using Cons.prems by (cases "(s, A)" rule: after.cases) auto
  then show ?case using Cons by simp
qed simp

lemma made_after:
  assumes "s \<in> set ss" "v \<in> after s {}" "Clear v \<notin> set ss"
  shows "v \<in> fold after ss A"
proof -
  obtain pre post where ss: "ss = pre @ s # post" using split_list [OF assms(1)] by blast
  have "v \<in> after s (fold after pre A)" using after_mono [of "{}" "fold after pre A" s] assms(2) by auto
  then show ?thesis using kept_after [of v _ post] assms(3) ss by simp
qed

lemma no_clear:
  "list_all (\<lambda>s. case s of Clear v \<Rightarrow> v = Tmp_0 | _ \<Rightarrow> True)
     (InitGlobals @ InitCachedBuiltins @ InitCachedConstants @ modinit_type_init_stmts @ modinit_type_import_code)"
proof -
  have strings: "list_all (\<lambda>s. case s of Clear v \<Rightarrow> v = Tmp_0 | _ \<Rightarrow> True) (InitStrings ts)" for ts
    by (induction ts) simp_all
  have types: "list_all (\<lambda>s. case s of Clear v \<Rightarrow> v = Tmp_0 | _ \<Rightarrow> True) modinit_type_init_stmts"
    by (simp add: modinit_type_init_stmts_def list_all_iff split_beta)
  show ?thesis
    by (simp add: strings types InitGlobals_def InitCachedBuiltins_def InitCachedConstants_def
        modinit_type_import_code_def cached_constants_1_def cached_constants_2_def cached_constants_3_def
        cached_constants_4_def cached_constants_5_def cached_constants_6_def)
qed

lemma body_definite:
  "definite (base_vars \<union> range Type_var) (map fst (module_body_1 @ module_body_2 @ module_body_3 @ module_body_4))"
  by (simp add: module_body_1_def module_body_2_def module_body_3_def module_body_4_def named_base)

lemma all_exported: "TypeStep t Export \<in> set modinit_type_init_stmts"
  by (cases t) (simp_all add: type_init_defs)

definition agree :: "cvar set \<Rightarrow> mod_state \<Rightarrow> bool" where
  "agree A S \<longleftrightarrow> (\<forall>v \<in> A. is_set S v)"

lemma set_item_globals [simp]: "globals (set_item d k x N) = globals N"
  by (simp add: set_item_def split: option.split)

lemma names_effect_globals:
  "globals (names_effect lv m s N) =
     (case s of
        Assign v rv \<Rightarrow> put_var v (Some (rvalue_of lv m rv N)) (globals N)
      | Clear v \<Rightarrow> put_var v None (globals N)
      | TypeStep t st \<Rightarrow> if st = Export then put_var (Type_var t) (Some (TypeOb t)) (globals N) else globals N
      | _ \<Rightarrow> globals N)"
  by (cases s) (simp_all add: set_var_def split: option.split)

lemma setup_setstate_rest:
  "setup_setstate obj t T = Some T' \<Longrightarrow> vtable_of T' = vtable_of T \<and> exported T' = exported T"
  by (auto simp: setup_setstate_def Let_def split: option.splits if_splits)

lemma setup_reduce_rest:
  assumes "setup_reduce obj t T = Some T'"
  shows "vtable_of T' = vtable_of T \<and> exported T' = exported T"
proof -
  have "setup_setstate obj t (T\<lparr>dict_of := d\<rparr>) = Some T' \<Longrightarrow> ?thesis" for d
    using setup_setstate_rest [of obj t "T\<lparr>dict_of := d\<rparr>" T'] by simp
  then show ?thesis
    using assms setup_setstate_rest [of obj t T T']
    by (auto simp: setup_reduce_def bind_eq_Some_conv split: option.splits if_splits)
qed

lemma init_step_grows:
  assumes "init_step_run obj t st T = Some T'"
  shows "(\<forall>b. vtable_of T b \<noteq> None \<longrightarrow> vtable_of T' b \<noteq> None) \<and> set (exported T) \<subseteq> set (exported T')"
proof (cases st)
  case SetupReduce
  then show ?thesis using assms setup_reduce_rest [of obj t T T'] by simp
next
  case (InheritVtable b)
  then show ?thesis using assms by (cases "vtable_of T b") auto
next
  case (SetMethod c b)
  then show ?thesis using assms by (cases "vtable_of T t") auto
qed (use assms in \<open>auto split: if_splits\<close>)

lemma init_step_defined:
  assumes "list_all (is_set S) (type_uses t st)" "st = SetupReduce \<longrightarrow> setup_reduce obj t (types S) \<noteq> None"
  shows "init_step_run obj t st (types S) \<noteq> None"
  using assms by (cases st) auto

lemma is_set_plain: "plain_var v \<Longrightarrow> is_set S v \<longleftrightarrow> get_var v (globals (nm S)) \<noteq> None"
  by (cases v) simp_all

lemma stmt_effect_parts [simp]:
  "globals (nm (stmt_effect E m s S)) =
     (case s of
        Assign v rv \<Rightarrow> put_var v (Some (rvalue_of (level_of E) m rv (nm S))) (globals (nm S))
      | Clear v \<Rightarrow> put_var v None (globals (nm S))
      | TypeStep t st \<Rightarrow>
          if st = Export then put_var (Type_var t) (Some (TypeOb t)) (globals (nm S)) else globals (nm S)
      | _ \<Rightarrow> globals (nm S))"
  "types (stmt_effect E m s S) = types_effect E s S"
  by (simp_all add: stmt_effect_def names_effect_globals)

lemma is_set_stays:
  assumes "is_set S v" "\<forall>b. vtable_of (types S) b \<noteq> None \<longrightarrow> vtable_of (types S') b \<noteq> None"
    "set (exported (types S)) \<subseteq> set (exported (types S'))"
    "get_var v (globals (nm S)) \<noteq> None \<Longrightarrow> get_var v (globals (nm S')) \<noteq> None"
  shows "is_set S' v"
proof (cases "plain_var v")
  case True
  then show ?thesis using assms(1,4) by (simp add: is_set_plain)
next
  case False
  then show ?thesis using assms by (cases v) auto
qed

lemma stmt_effect_sound:
  assumes "agree A S" "plain_target s" "list_all (is_set S) (stmt_uses s)" "stmt_raises E k s S = None"
  shows "agree (after s A) (stmt_effect E m s S)"
  unfolding agree_def
proof
  fix v assume v: "v \<in> after s A"
  have old: "w \<in> A \<Longrightarrow> is_set S w" for w using assms(1) by (simp add: agree_def)
  show "is_set (stmt_effect E m s S) v"
  proof (cases s)
    case (TypeStep t st)
    let ?obj = "object_names E"
    have red: "st = SetupReduce \<longrightarrow> setup_reduce ?obj t (types S) \<noteq> None"
      using assms(4) TypeStep by (auto simp: stmt_raises_def split: option.splits if_splits)
    obtain T where T: "init_step_run ?obj t st (types S) = Some T"
      using init_step_defined [of S t st ?obj] assms(3) red TypeStep by fastforce
    let ?T = "types_effect E s S"
    have T': "?T = (if st = Ready \<and> t \<in> set (readied S) then types S else T)"
      by (simp add: types_effect_def TypeStep T)
    have grow: "\<forall>b. vtable_of (types S) b \<noteq> None \<longrightarrow> vtable_of ?T b \<noteq> None"
      "set (exported (types S)) \<subseteq> set (exported ?T)"
      using init_step_grows [OF T] by (simp_all add: T')
    have stay: "is_set (stmt_effect E m s S) w" if "w \<in> A" for w
      by (rule is_set_stays [OF old [OF that]]) (use grow in \<open>simp_all add: TypeStep del: get_var.simps put_var.simps\<close>)
    have same: "?T = T" if "st \<noteq> Ready" using that by (simp add: T')
    have made: "st = Export \<Longrightarrow> t \<in> set (exported T)"
      "st = MakeVtable \<or> (\<exists>b. st = InheritVtable b) \<Longrightarrow> vtable_of T t \<noteq> None"
      using T by (auto split: option.splits)
    have new: "st = Export \<Longrightarrow> is_set (stmt_effect E m s S) (Type_var t)"
      "st = MakeVtable \<or> (\<exists>b. st = InheritVtable b) \<Longrightarrow> is_set (stmt_effect E m s S) (Vtab_var t)"
      using made same by (simp_all add: TypeStep) (auto simp: TypeStep)
    show ?thesis
    proof (cases "v \<in> A")
      case False
      then show ?thesis using v new TypeStep by (cases st) auto
    qed (rule stay)
  next
    case (Assign w rv)
    have w: "plain_var w" using assms(2) Assign by simp
    show ?thesis
    proof (cases "v = w")
      case True
      then show ?thesis using w by (simp add: is_set_plain Assign del: get_var.simps put_var.simps)
    next
      case False
      then show ?thesis
        by (intro is_set_stays [OF old]) (use v in \<open>simp_all add: Assign types_effect_def del: get_var.simps put_var.simps\<close>)
    qed
  next
    case (Clear w)
    then have "v \<noteq> w" using v by simp
    then show ?thesis
      by (intro is_set_stays [OF old]) (use v in \<open>simp_all add: Clear types_effect_def del: get_var.simps put_var.simps\<close>)
  qed (use v old [of v] in \<open>auto intro!: is_set_stays [OF old] simp: types_effect_def simp del: get_var.simps put_var.simps\<close>)
qed

text \<open>
  A run reads no null pointer. It ends, or stops at a statement, in the state that the statements before
  have made.
\<close>

lemma run_stmts_sound:
  assumes "definite A (map fst ps)" "agree A S"
  shows "(\<exists>S'. run_stmts E m k ps S = Finished S' \<and> agree (fold after (map fst ps) A) S' \<and>
        S' = fold (stmt_effect E m) (map fst ps) S) \<or>
    (\<exists>x pre s l post S'. run_stmts E m k ps S = Raised x l (k + length pre) S' \<and> ps = pre @ (s, l) # post \<and>
        agree (fold after (map fst pre) A) S' \<and> S' = fold (stmt_effect E m) (map fst pre) S \<and>
        stmt_raises E (k + length pre) s S' = Some x)"
  using assms
proof (induction ps arbitrary: A S k)
  case (Cons p ps)
  obtain s l where p: "p = (s, l)" by (cases p)
  have uses: "list_all (is_set S) (stmt_uses s)"
    using Cons.prems by (auto simp: p agree_def list_all_iff)
  show ?case
  proof (cases "stmt_raises E k s S")
    case None
    let ?S = "stmt_effect E m s S"
    have "definite (after s A) (map fst ps)" "agree (after s A) ?S"
      using Cons.prems stmt_effect_sound [OF Cons.prems(2) _ uses None] by (simp_all add: p)
    from Cons.IH [OF this, of "k + 1"] show ?thesis
    proof (elim disjE exE conjE)
      fix S' assume "run_stmts E m (k + 1) ps ?S = Finished S'"
        "agree (fold after (map fst ps) (after s A)) S'" "S' = fold (stmt_effect E m) (map fst ps) ?S"
      then show ?thesis by (simp add: p uses None)
    next
      fix x pre s' l' post S'
      assume *: "run_stmts E m (k + 1) ps ?S = Raised x l' (k + 1 + length pre) S'"
        "ps = pre @ (s', l') # post" "agree (fold after (map fst pre) (after s A)) S'"
        "S' = fold (stmt_effect E m) (map fst pre) ?S" "stmt_raises E (k + 1 + length pre) s' S' = Some x"
      show ?thesis
        by (rule disjI2, rule exI [of _ x], rule exI [of _ "p # pre"], rule exI [of _ s'], rule exI [of _ l'],
            rule exI [of _ post], rule exI [of _ S']) (use * in \<open>simp add: p uses None\<close>)
    qed
  next
    case (Some x)
    then show ?thesis
      by (intro disjI2 exI [of _ x] exI [of _ "[]"] exI [of _ s] exI [of _ l] exI [of _ ps] exI [of _ S])
        (use Cons.prems Some uses in \<open>simp add: p\<close>)
  qed
qed simp

subsection \<open>The whole program\<close>

text \<open>Only temporaries are released, and the pointers to the module are assigned in one way.\<close>

definition usual :: "stmt \<Rightarrow> bool" where
  "usual s \<longleftrightarrow>
     (case s of
        Assign v rv \<Rightarrow> (v = M_var \<longrightarrow> rv = GivenModule) \<and> (v = D_var \<longrightarrow> rv = ModuleDict) \<and>
          (case rv of Import n fl l \<Rightarrow> l = -1 | _ \<Rightarrow> True)
      | Clear v \<Rightarrow> v = Tmp_0 \<or> v = Tmp_1 \<or> v = Tmp_2
      | _ \<Rightarrow> True)"

lemma entries_usual: "list_all (\<lambda>t. entry_var t \<noteq> M_var \<and> entry_var t \<noteq> D_var) string_tab"
  by (simp add: string_tab_def string_tab_1_def string_tab_2_def string_tab_3_def string_tab_4_def)

lemma InitStrings_map: "InitStrings ts = map (\<lambda>t. Assign (entry_var t) (Decode t)) ts"
  by (induction ts) simp_all

lemma map_at_line [simp]: "map fst (at_line c ss) = ss"
  by (simp add: at_line_def comp_def)

definition module_body :: "(stmt \<times> location) list" where
  "module_body = module_body_1 @ module_body_2 @ module_body_3 @ module_body_4"

definition module_head :: "stmt list" where
  "module_head =
     [CheckVersion, Assign Empty_tuple (NewEmpty (TupleOb [])), Assign Empty_bytes (NewEmpty (BytesOb [])),
      Assign Empty_unicode (NewEmpty (Ustr [])), Assign M_var GivenModule, Assign D_var ModuleDict,
      Assign B_var (AddModule ''builtins''), Assign Cython_runtime (AddModule ''cython_runtime''),
      SetAttrString ''__builtins__'' B_var] @
     InitGlobals @ [RegisterModule ''rocksdb._rocksdb'']"

lemma program_parts:
  "map fst module_program =
     module_head @ InitCachedBuiltins @ InitCachedConstants @ modinit_type_init_stmts @ modinit_type_import_code @ map fst module_body"
  by (simp add: module_program_def module_setup_def module_is_main_def module_body_def module_head_def)

lemmas constants_defs = InitCachedConstants_def cached_constants_1_def cached_constants_2_def
  cached_constants_3_def cached_constants_4_def cached_constants_5_def cached_constants_6_def

lemmas body_defs = module_body_def module_body_1_def module_body_2_def module_body_3_def module_body_4_def

lemma program_usual: "list_all usual (map fst module_program)"
proof -
  have "list_all usual (InitStrings string_tab)"
    using entries_usual by (simp add: InitStrings_map list_all_iff usual_def)
  moreover have "list_all usual modinit_type_init_stmts"
    by (simp add: modinit_type_init_stmts_def list_all_iff split_beta usual_def)
  moreover have "list_all usual InitCachedConstants" by (simp add: constants_defs usual_def)
  moreover have "list_all usual (map fst module_body)" by (simp add: body_defs usual_def)
  ultimately show ?thesis
    unfolding program_parts
    by (simp add: module_head_def InitGlobals_def InitCachedBuiltins_def modinit_type_import_code_def usual_def)
qed

lemma never_cleared:
  assumes "plain_var v" "v \<noteq> Tmp_0" "v \<noteq> Tmp_1" "v \<noteq> Tmp_2"
  shows "Clear v \<notin> set (map fst module_program)"
proof
  assume "Clear v \<in> set (map fst module_program)"
  then have "usual (Clear v)" using program_usual unfolding list_all_iff by blast
  then show False using assms by (simp add: usual_def)
qed

lemma module_definite: "definite start_vars (map fst module_program)"
proof -
  have head: "definite start_vars module_head"
    using tabled_plain
    by (simp add: module_head_def InitGlobals_def definite_append InitStrings_definite)
  define A where "A = fold after module_head start_vars"
  have A: "{M_var, D_var, B_var, Cython_runtime, Empty_tuple, Empty_bytes} \<union> start_vars \<union> string_vars \<subseteq> A"
    by (auto simp: A_def module_head_def InitGlobals_def InitStrings_definite string_vars_def start_vars_def)
  have builtins: "definite A InitCachedBuiltins"
    by (rule definite_mono [OF builtins_definite]) (use A in auto)
  have kept: "v \<in> B \<Longrightarrow> list_all usual ss \<Longrightarrow> v \<notin> {Tmp_0, Tmp_1, Tmp_2} \<Longrightarrow> v \<in> fold after ss B" for v B ss
    by (rule kept_after) (auto simp: list_all_iff usual_def)
  have usual: "list_all usual InitCachedBuiltins" "list_all usual InitCachedConstants"
    "list_all usual modinit_type_init_stmts" "list_all usual modinit_type_import_code"
    using program_usual by (simp_all add: program_parts)
  have no_tmp: "base_vars \<inter> {Tmp_0, Tmp_1, Tmp_2} = {}"
    by (auto simp: base_vars_def start_vars_def string_vars_def string_tab_def string_tab_1_def string_tab_2_def string_tab_3_def string_tab_4_def)
  define B where "B = fold after InitCachedBuiltins A"
  have B: "base_vars \<subseteq> B"
  proof
    fix v assume v: "v \<in> base_vars"
    show "v \<in> B"
    proof (cases "v = Builtin_var ''staticmethod''")
      case True
      then show ?thesis by (simp add: B_def InitCachedBuiltins_def)
    next
      case False
      then show ?thesis
        unfolding B_def
        by (intro kept) (use v A usual no_tmp in \<open>auto simp: base_vars_def\<close>)
    qed
  qed
  have keep_base: "base_vars \<subseteq> fold after ss C" if "base_vars \<subseteq> C" "list_all usual ss" for ss C
    using that kept [of _ C ss] no_tmp by blast
  define C where "C = fold after InitCachedConstants B"
  define D where "D = fold after modinit_type_init_stmts C"
  define F where "F = fold after modinit_type_import_code D"
  have C: "base_vars \<subseteq> C" and D: "base_vars \<subseteq> D" and F: "base_vars \<subseteq> F"
    using B usual keep_base by (auto simp: C_def D_def F_def)
  have exported: "Type_var t \<in> F" for t
  proof -
    have "Type_var t \<in> D"
      unfolding D_def
      by (rule made_after [OF all_exported]) (use usual in \<open>auto simp: list_all_iff usual_def\<close>)
    then show ?thesis unfolding F_def by (intro kept) (use usual in simp_all)
  qed
  have "definite F (map fst module_body)"
    by (rule definite_mono [OF body_definite [folded module_body_def]]) (use F exported in auto)
  moreover have "definite D modinit_type_import_code"
    by (rule definite_mono [OF type_import_definite D])
  moreover have "definite C modinit_type_init_stmts" by (rule definite_mono [OF type_init_definite C])
  moreover have "definite B InitCachedConstants" by (rule definite_mono [OF constants_definite B])
  ultimately show ?thesis
    using head builtins
    by (simp add: program_parts definite_append A_def [symmetric] B_def [symmetric] C_def [symmetric]
        D_def [symmetric] F_def [symmetric])
qed

subsection \<open>Attempts to import the module\<close>

text \<open>
  Between attempts: the variables of the interpreter are there, the name the tracebacks look up is
  there as soon as \<open>cython_runtime\<close> is, and \<open>__pyx_m\<close> is null or a module.
\<close>

definition import_state :: "mod_state \<Rightarrow> bool" where
  "import_state S \<longleftrightarrow> agree start_vars S \<and>
     (is_set S Cython_runtime \<longrightarrow> is_set S (N_s ''cline_in_traceback'')) \<and>
     (is_set S M_var \<longrightarrow> module_ptr (nm S) \<noteq> None)"

definition module_states :: "mod_state \<Rightarrow> nat \<Rightarrow> mobj option set" where
  "module_states S m = {get_var M_var (globals (nm S)), Some (SelfModule m)}"

lemma effects_module:
  "list_all usual ss \<Longrightarrow> get_var M_var (globals (nm (fold (stmt_effect E m) ss S))) \<in> module_states S m"
proof (induction ss arbitrary: S)
  case (Cons s ss)
  have "get_var M_var (globals (nm (stmt_effect E m s S))) \<in> module_states S m"
    using Cons.prems
    by (cases s) (auto simp: usual_def module_states_def simp del: get_var.simps put_var.simps)
  then show ?case using Cons.IH [of "stmt_effect E m s S"] Cons.prems
    by (auto simp: module_states_def)
qed (simp add: module_states_def)

text \<open>A variable is not touched by statements that do not name it as a target.\<close>

definition target :: "stmt \<Rightarrow> cvar option" where
  "target s = (case s of Assign v rv \<Rightarrow> Some v | Clear v \<Rightarrow> Some v
     | TypeStep t st \<Rightarrow> if st = Export then Some (Type_var t) else None | _ \<Rightarrow> None)"

lemma effects_untouched:
  "list_all (\<lambda>s. target s \<noteq> Some v) ss \<Longrightarrow>
     get_var v (globals (nm (fold (stmt_effect E m) ss S))) = get_var v (globals (nm S))"
proof (induction ss arbitrary: S)
  case (Cons s ss)
  have "get_var v (globals (nm (stmt_effect E m s S))) = get_var v (globals (nm S))"
    using Cons.prems by (cases s) (auto simp: target_def simp del: get_var.simps put_var.simps)
  then show ?case using Cons by simp
qed simp

text \<open>
  The statements between the assignment of \<open>__pyx_cython_runtime\<close> (the statement 7) and that of
  \<open>__pyx_n_s_cline_in_traceback\<close> (the statement 104).
\<close>

lemma program_at: "map fst module_program ! 104 = Assign (N_s ''cline_in_traceback'')
    (Decode (Entry (N_s ''cline_in_traceback'') ''cline_in_traceback'' False True True))"
  by (simp add: program_parts module_head_def InitGlobals_def InitStrings_map string_tab_def nth_append
      string_tab_1_def string_tab_2_def)

lemma program_length: "104 < length module_program"
proof -
  have "104 < length (map fst module_program)"
    unfolding program_parts by (simp add: module_head_def InitGlobals_def InitStrings_map string_tab_def string_tab_1_def string_tab_2_def)
  then show ?thesis by simp
qed


lemma is_set_set_var:
  "plain_var w \<Longrightarrow> v \<noteq> w \<Longrightarrow> is_set (S\<lparr>nm := set_var w x (nm S)\<rparr>) v = is_set S v"
  by (cases "(S, v)" rule: is_set.cases) (auto simp: set_var_def simp del: put_var.simps get_var.simps)

definition no_temp :: "cvar \<Rightarrow> bool" where
  "no_temp v \<longleftrightarrow> v \<noteq> Tmp_0 \<and> v \<noteq> Tmp_1 \<and> v \<noteq> Tmp_2"

lemma is_set_clear_temps: "no_temp v \<Longrightarrow> is_set (clear_temps S) v = is_set S v"
  by (cases "(S, v)" rule: is_set.cases)
    (auto simp: no_temp_def clear_temps_def set_var_def simp del: put_var.simps get_var.simps)

lemma module_ptr_clear_temps [simp]: "module_ptr (nm (clear_temps S)) = module_ptr (nm S)"
  by (simp add: clear_temps_def set_var_def module_ptr_def del: put_var.simps get_var.simps)

lemma init_traceback_rest [simp]: "nm (init_traceback E l S) = nm S" "types (init_traceback E l S) = types S"
  by (simp_all add: init_traceback_def split: location.split)

lemma is_set_init_traceback [simp]: "is_set (init_traceback E l S) v = is_set S v"
  by (cases "(S, v)" rule: is_set.cases) simp_all

lemma settled_if:
  assumes "\<And>v. v \<in> start_vars \<Longrightarrow> is_set S v"
    and "is_set S Cython_runtime \<Longrightarrow> is_set S (N_s ''cline_in_traceback'')"
    and "is_set S M_var \<Longrightarrow> module_ptr (nm S) \<noteq> None"
  shows "import_state S"
  using assms by (simp add: import_state_def agree_def)

text \<open>What has been set when the run stops at the statement \<open>k\<close>.\<close>

lemma stopped_state:
  assumes import_state: "import_state S" and unset: "module_ptr (nm S) = None"
    and prog: "module_program = pre @ (s, l) # post"
    and S': "S' = fold (stmt_effect E m) (map fst pre) S"
    and ag: "agree (fold after (map fst pre) {v. is_set S v}) S'"
  shows "v \<in> start_vars \<Longrightarrow> is_set S' v"
    and "is_set S' M_var \<Longrightarrow>
      5 \<le> length pre \<and> is_set S' Empty_tuple \<and> is_set S' Empty_bytes \<and> module_ptr (nm S') = Some m"
    and "is_set S' M_var \<Longrightarrow> \<not> is_set S' D_var \<Longrightarrow> length pre \<le> 5"
    and "\<not> is_set S' M_var \<Longrightarrow> length pre \<le> 4 \<and> module_ptr (nm S') = None"
    and "\<not> (8 \<le> length pre \<and> length pre \<le> 104) \<Longrightarrow> is_set S' Cython_runtime \<Longrightarrow>
      is_set S' (N_s ''cline_in_traceback'')"
proof -
  let ?k = "length pre" and ?P = "map fst module_program" and ?p = "map fst pre"
  let ?B = "fold after ?p {v. is_set S v}"
  have take: "?p = take ?k ?P" by (simp add: prog)
  have at: "?P ! i \<in> set ?p" if "i < ?k" for i using that by (simp add: prog nth_append)
  have P: "?P = [CheckVersion, Assign Empty_tuple (NewEmpty (TupleOb [])), Assign Empty_bytes (NewEmpty (BytesOb [])),
      Assign Empty_unicode (NewEmpty (Ustr [])), Assign M_var GivenModule, Assign D_var ModuleDict,
      Assign B_var (AddModule ''builtins''), Assign Cython_runtime (AddModule ''cython_runtime'')] @
      drop 8 ?P"
    by (simp add: program_parts module_head_def)
  have M: "\<not> is_set S M_var" using import_state unset by (auto simp: import_state_def)
  have usual: "list_all usual ?p" using program_usual by (simp add: prog)
  have clear: "Clear v \<notin> set ?p" if "plain_var v" "no_temp v" for v
    using never_cleared [OF that(1)] that(2) by (auto simp: prog no_temp_def)
  have made: "is_set S' v" if "i < ?k" "?P ! i = Assign v rv" "plain_var v" "no_temp v" for i v rv
    using made_after [OF at [OF that(1)], of v] clear [OF that(3,4)] that(2) ag by (simp add: agree_def)
  have kept: "is_set S' v" if "is_set S v" "plain_var v" "no_temp v" for v
    using kept_after [of v "{v. is_set S v}" ?p] clear [OF that(2,3)] that(1) ag by (simp add: agree_def)
  have same: "is_set S' v = is_set S v"
    if "list_all (\<lambda>s. target s \<noteq> Some v) (take n ?P)" "?k \<le> n" "plain_var v" for n v
  proof -
    have "take ?k ?P = take ?k (take n ?P)" using that(2) by simp
    then have "list_all (\<lambda>s. target s \<noteq> Some v) ?p"
      using that(1) unfolding take by (metis append_take_drop_id list_all_append)
    then show ?thesis using that(3) by (simp add: is_set_plain S' effects_untouched)
  qed
  have ptr: "get_var M_var (globals (nm S')) \<in> module_states S m"
    unfolding S' by (rule effects_module [OF usual])
  have none: "get_var M_var (globals (nm S)) = None" using M by simp
  show "is_set S' v" if "v \<in> start_vars"
    using kept [of v] that import_state by (auto simp: start_vars_def import_state_def agree_def no_temp_def)
  show "5 \<le> ?k \<and> is_set S' Empty_tuple \<and> is_set S' Empty_bytes \<and> module_ptr (nm S') = Some m" if set: "is_set S' M_var"
  proof -
    have "\<not> ?k \<le> 4"
    proof
      assume "?k \<le> 4"
      then have "is_set S' M_var = is_set S M_var"
        by (intro same [of _ 4]) (subst P, simp_all add: target_def)
      then show False using M set by simp
    qed
    moreover from this have "is_set S' Empty_tuple" "is_set S' Empty_bytes"
      using made [of 1 Empty_tuple] made [of 2 Empty_bytes] by (simp_all add: program_parts module_head_def no_temp_def)
    moreover have "module_ptr (nm S') = Some m"
      using ptr set none by (auto simp: module_states_def module_ptr_def)
    ultimately show ?thesis by simp
  qed
  show "?k \<le> 5" if "is_set S' M_var" "\<not> is_set S' D_var"
  proof (rule ccontr)
    assume "\<not> ?k \<le> 5"
    then have "is_set S' D_var" using made [of 5 D_var] by (simp add: program_parts module_head_def no_temp_def)
    then show False using that by simp
  qed
  show "?k \<le> 4 \<and> module_ptr (nm S') = None" if "\<not> is_set S' M_var"
  proof -
    have "\<not> 4 < ?k" using made [of 4 M_var] that by (auto simp: program_parts module_head_def no_temp_def)
    then show ?thesis using that by (simp add: module_ptr_def)
  qed
  show "is_set S' (N_s ''cline_in_traceback'')"
    if out: "\<not> (8 \<le> ?k \<and> ?k \<le> 104)" and set: "is_set S' Cython_runtime"
  proof (cases "?k \<le> 7")
    case True
    then have "is_set S' Cython_runtime = is_set S Cython_runtime"
      by (intro same [of _ 7]) (subst P, simp_all add: target_def)
    then show ?thesis using set import_state kept [of "N_s ''cline_in_traceback''"] by (simp add: import_state_def no_temp_def)
  next
    case False
    then show ?thesis using made [OF _ program_at] out by (simp add: no_temp_def)
  qed
qed

declare is_set.simps [simp del] put_var.simps [simp del] get_var.simps [simp del]

lemma exec_error_outcome:
  assumes import_state: "import_state S" and unset: "module_ptr (nm S) = None"
    and prog: "module_program = pre @ (s, l) # post"
    and S': "S' = fold (stmt_effect E m) (map fst pre) S"
    and ag: "agree (fold after (map fst pre) {v. is_set S v}) S'"
  shows "case exec_error E x l (length pre) S' of
      Returned T \<Rightarrow> False
    | Failed y T \<Rightarrow> import_state T \<and> module_ptr (nm T) = None
    | Crashed k \<Rightarrow> 8 \<le> k \<and> k \<le> 104"
proof -
  let ?T = "clear_temps S'" and ?k = "length pre"
  note stop = stopped_state [OF assms]
  have eq: "is_set ?T v = is_set S' v" if "no_temp v" for v by (rule is_set_clear_temps [OF that])
  have eqs: "is_set ?T M_var = is_set S' M_var" "is_set ?T D_var = is_set S' D_var"
    "is_set ?T Cython_runtime = is_set S' Cython_runtime" "is_set ?T Empty_tuple = is_set S' Empty_tuple"
    "is_set ?T (N_s ''cline_in_traceback'') = is_set S' (N_s ''cline_in_traceback'')"
    "is_set ?T Empty_bytes = is_set S' Empty_bytes"
    by (simp_all add: eq no_temp_def)
  have start: "is_set ?T v" if "v \<in> start_vars" for v
    using stop(1) [OF that] eq [of v] that by (auto simp: start_vars_def no_temp_def)
  show ?thesis
  proof (cases "is_set S' M_var")
    case False
    have "import_state ?T" by (rule settled_if) (use start False stop(4,5) in \<open>auto simp: eqs\<close>)
    then show ?thesis using False stop(4) by (simp add: exec_error_def eqs)
  next
    case True
    let ?c = "is_set ?T D_var \<and> \<not> list_all (is_set ?T) (traceback_uses ?T)"
    show ?thesis
    proof (cases ?c)
      case crash: True
      have "8 \<le> ?k \<and> ?k \<le> 104"
        using crash stop(2) [OF True] stop(5) by (auto simp: traceback_uses_def eqs split: if_splits)
      then show ?thesis using crash True by (simp add: exec_error_def eqs)
    next
      case safe: False
      let ?U = "if is_set ?T D_var then init_traceback E l ?T else ?T"
      let ?V = "?U\<lparr>nm := set_var M_var None (nm ?U)\<rparr>"
      have U: "is_set ?U v = is_set ?T v" for v by simp
      have V: "is_set ?V v = is_set ?T v" if "v \<noteq> M_var" for v
        using is_set_set_var [where w = M_var and v = v and S = ?U and x = None] that U by simp
      have "import_state ?V"
      proof (rule settled_if)
        show "is_set ?V v" if "v \<in> start_vars" for v
          using V [of v] start [OF that] that by (auto simp: start_vars_def)
        show "is_set ?V (N_s ''cline_in_traceback'')" if "is_set ?V Cython_runtime"
        proof (cases "is_set ?T D_var")
          case True
          then show ?thesis
            using that safe V [of Cython_runtime] V [of "N_s ''cline_in_traceback''"]
            by (auto simp: traceback_uses_def split: if_splits)
        next
          case False
          then have "?k \<le> 5" using stop(3) [OF True] by (simp add: eqs)
          then show ?thesis
            using that stop(5) V [of Cython_runtime] V [of "N_s ''cline_in_traceback''"]
            by (simp add: eqs)
        qed
        show "module_ptr (nm ?V) \<noteq> None" if "is_set ?V M_var"
          using that by (simp add: is_set_plain set_var_def)
      qed
      moreover have "module_ptr (nm ?V) = None"
        by (simp add: module_ptr_def set_var_def)
      moreover have "exec_error E x l ?k S' = Failed x ?V"
        using safe True by (simp only: exec_error_def eqs(1) Let_def if_True if_False)
      ultimately show ?thesis by (simp only: exec_result.case conj_absorb simp_thms)
    qed
  qed
qed

lemma finished_settled:
  assumes "import_state S" "module_ptr (nm S) = None"
    and "S' = fold (stmt_effect E m) (map fst module_program) S"
    and "agree (fold after (map fst module_program) {v. is_set S v}) S'"
  shows "import_state S' \<and> module_ptr (nm S') = Some m"
proof -
  let ?P = "map fst module_program"
  have made: "is_set S' v" if "Assign v rv \<in> set ?P" "plain_var v" "no_temp v" for v rv
    using made_after [OF that(1), of v] never_cleared [OF that(2)] that(3) assms(4)
    by (simp add: agree_def no_temp_def)
  have kept: "is_set S' v" if "is_set S v" "plain_var v" "no_temp v" for v
    using kept_after [of v "{v. is_set S v}" ?P] never_cleared [OF that(2)] that(1,3) assms(4)
    by (simp add: agree_def no_temp_def)
  have M: "is_set S' M_var" by (rule made [of M_var GivenModule])
      (simp_all add: program_parts module_head_def no_temp_def)
  have "get_var M_var (globals (nm S)) = None"
    using assms(1,2) by (auto simp: import_state_def is_set_plain)
  then have ptr: "module_ptr (nm S') = Some m"
    using effects_module [OF program_usual, of E m S] M assms(3)
    by (auto simp: module_states_def module_ptr_def is_set_plain)
  have "Assign (N_s ''cline_in_traceback'') (Decode (Entry (N_s ''cline_in_traceback'') ''cline_in_traceback'' False True True))
      \<in> set ?P"
    using program_at program_length nth_mem [of 104 ?P] by (metis length_map)
  then have cline: "is_set S' (N_s ''cline_in_traceback'')"
    by (rule made) (simp_all add: no_temp_def)
  have "import_state S'"
    by (rule settled_if)
      (use kept assms(1) cline ptr in \<open>auto simp: import_state_def agree_def start_vars_def no_temp_def\<close>)
  then show ?thesis using ptr by simp
qed

lemma pymod_exec_outcome:
  assumes "import_state S"
  shows "case pymod_exec E m S of
      Returned T \<Rightarrow> import_state T \<and> module_ptr (nm T) = Some m \<and> (module_ptr (nm S) \<noteq> None \<longrightarrow> T = S)
    | Failed x T \<Rightarrow> import_state T \<and> module_ptr (nm T) = module_ptr (nm S)
    | Crashed k \<Rightarrow> 8 \<le> k \<and> k \<le> 104"
proof (cases "module_ptr (nm S)")
  case None
  let ?A = "{v. is_set S v}"
  have "start_vars \<subseteq> ?A" using assms by (auto simp: import_state_def agree_def)
  then have A: "definite ?A (map fst module_program)" "agree ?A S"
    using definite_mono [OF module_definite] by (simp_all add: agree_def)
  from run_stmts_sound [OF A, of E m 0] show ?thesis
  proof (elim disjE exE conjE)
    fix S' assume *: "run_stmts E m 0 module_program S = Finished S'"
      "agree (fold after (map fst module_program) ?A) S'"
      "S' = fold (stmt_effect E m) (map fst module_program) S"
    show ?thesis using finished_settled [OF assms None *(3,2)] by (simp add: pymod_exec_def None *(1))
  next
    fix x pre s l post S'
    assume *: "run_stmts E m 0 module_program S = Raised x l (0 + length pre) S'"
      "module_program = pre @ (s, l) # post" "agree (fold after (map fst pre) ?A) S'"
      "S' = fold (stmt_effect E m) (map fst pre) S"
    show ?thesis
      using exec_error_outcome [OF assms None *(2,4,3), of x]
      by (simp add: pymod_exec_def None *(1) split: exec_result.splits)
  qed
qed (use assms in \<open>simp add: pymod_exec_def\<close>)

text \<open>A sequence of attempts, each in a world of its own; a crash ends the process.\<close>

fun attempts :: "(world \<times> nat) list \<Rightarrow> mod_state \<Rightarrow> exec_result list" where
  "attempts [] S = []"
| "attempts ((E, m) # cs) S =
     (case pymod_exec E m S of
        Returned T \<Rightarrow> Returned T # attempts cs T
      | Failed x T \<Rightarrow> Failed x T # attempts cs T
      | Crashed k \<Rightarrow> [Crashed k])"

definition good_result :: "nat option \<Rightarrow> nat \<Rightarrow> exec_result \<Rightarrow> bool" where
  "good_result M m r \<longleftrightarrow>
     (case r of
        Returned T \<Rightarrow> M = Some m \<and> module_ptr (nm T) = Some m
      | Failed x T \<Rightarrow> module_ptr (nm T) = None \<or> module_ptr (nm T) = M
      | Crashed k \<Rightarrow> 8 \<le> k \<and> k \<le> 104)"

lemma attempts_good:
  "import_state S \<Longrightarrow>
     \<exists>M. (module_ptr (nm S) \<noteq> None \<longrightarrow> M = module_ptr (nm S)) \<and>
       list_all (\<lambda>(c, r). good_result M (snd c) r) (zip cs (attempts cs S))"
proof (induction cs arbitrary: S)
  case (Cons c cs)
  obtain E m where c: "c = (E, m)" by (cases c)
  note out = pymod_exec_outcome [OF Cons.prems, where E = E and m = m]
  show ?case
  proof (cases "pymod_exec E m S")
    case (Returned T)
    with out have T: "import_state T" "module_ptr (nm T) = Some m" "module_ptr (nm S) \<noteq> None \<longrightarrow> T = S" by simp_all
    show ?thesis
      using Cons.IH [OF T(1)] T by (auto simp: c Returned good_result_def intro!: exI [of _ "Some m"])
  next
    case (Failed x T)
    with out have T: "import_state T" "module_ptr (nm T) = module_ptr (nm S)" by simp_all
    obtain M where M: "module_ptr (nm T) \<noteq> None \<longrightarrow> M = module_ptr (nm T)"
      "list_all (\<lambda>(c, r). good_result M (snd c) r) (zip cs (attempts cs T))"
      using Cons.IH [OF T(1)] by blast
    show ?thesis
    proof (intro exI [of _ M] conjI impI)
      show "M = module_ptr (nm S)" if "module_ptr (nm S) \<noteq> None" using that M(1) T(2) by simp
      have "good_result M m (Failed x T)" using M(1) by (auto simp: good_result_def)
      then show "list_all (\<lambda>(c, r). good_result M (snd c) r) (zip (c # cs) (attempts (c # cs) S))"
        using M(2) by (simp add: c Failed)
    qed
  next
    case (Crashed k)
    with out show ?thesis
      by (auto simp: c Crashed good_result_def intro!: exI [of _ "module_ptr (nm S)"])
  qed
qed simp

end
