(* ===== verification/ModuleNames.thy ===== *)
theory ModuleNames
  imports ModuleSafety "HOL-Library.List_Lexorder" "HOL-Library.Char_ord"
begin

section \<open>Names bound by the module body\<close>

text \<open>
  The texts of the names of the module are distinct, so that a list of bindings is a map; the names that a run of the
  module body stores in the module, in the builtins cache and in the dictionaries of the classes.
\<close>

subsection \<open>The texts of the names\<close>

lemma distinct_if_sorted:
  fixes f :: "'a \<Rightarrow> string"
  assumes "successively (<) (map f xs)"
  shows "distinct xs"
proof -
  have "sorted_wrt (<) (map f xs)"
    using assms by (subst (asm) successively_conv_sorted_wrt) (auto intro: transpI)
  then have "distinct (map f xs)" using strict_sorted_iff by blast
  then show ?thesis by (simp add: distinct_map)
qed

text \<open>The arrays are sorted by length and name, the table by name and kind.\<close>

definition array_key :: "string \<times> string \<Rightarrow> string" where
  "array_key p = char_of (length (fst p)) # fst p"

fun var_key :: "cvar \<Rightarrow> string" where
  "var_key (Kp_s k) = k @ [CHR 0x01]"
| "var_key (Kp_u k) = k @ [CHR 0x02]"
| "var_key (N_s k) = k @ [CHR 0x03]"
| "var_key (N_u k) = k @ [CHR 0x04]"
| "var_key _ = []"

definition entry_key :: "strtab_entry \<Rightarrow> string" where
  "entry_key t = var_key (entry_var t)"

lemma arrays_sorted:
  "successively (<) (map array_key k_texts_1)" "successively (<) (map array_key k_texts_2)"
  "successively (<) (map array_key k_texts_3)" "successively (<) (map array_key k_texts_4)"
     apply (simp add: k_texts_1_def array_key_def less_char_def)
    apply (simp add: k_texts_2_def array_key_def less_char_def)
   apply (simp add: k_texts_3_def array_key_def less_char_def)
  apply (simp add: k_texts_4_def array_key_def less_char_def)
  done

lemma arrays_joined:
  "array_key (last k_texts_1) < array_key (hd k_texts_2)"
  "array_key (last k_texts_2) < array_key (hd k_texts_3)"
  "array_key (last k_texts_3) < array_key (hd k_texts_4)"
  by (simp_all add: k_texts_1_def k_texts_2_def k_texts_3_def k_texts_4_def array_key_def less_char_def)

lemma arrays_not_empty: "k_texts_1 \<noteq> []" "k_texts_2 \<noteq> []" "k_texts_3 \<noteq> []" "k_texts_4 \<noteq> []"
  by (simp_all add: k_texts_1_def k_texts_2_def k_texts_3_def k_texts_4_def)

lemma arrays_distinct: "distinct (map fst k_texts)"
proof -
  have "successively (<) (map array_key k_texts)"
    using arrays_sorted arrays_joined
    by (simp add: k_texts_def successively_append_iff arrays_not_empty hd_map last_map)
  also have "map array_key k_texts = map (\<lambda>k. array_key (k, [])) (map fst k_texts)"
    by (simp add: array_key_def comp_def)
  finally show ?thesis by (rule distinct_if_sorted)
qed

lemma table_sorted:
  "successively (<) (map entry_key string_tab_1)" "successively (<) (map entry_key string_tab_2)"
  "successively (<) (map entry_key string_tab_3)" "successively (<) (map entry_key string_tab_4)"
     apply (simp add: string_tab_1_def entry_key_def less_char_def)
    apply (simp add: string_tab_2_def entry_key_def less_char_def)
   apply (simp add: string_tab_3_def entry_key_def less_char_def)
  apply (simp add: string_tab_4_def entry_key_def less_char_def)
  done

lemma table_joined:
  "entry_key (last string_tab_1) < entry_key (hd string_tab_2)"
  "entry_key (last string_tab_2) < entry_key (hd string_tab_3)"
  "entry_key (last string_tab_3) < entry_key (hd string_tab_4)"
  by (simp_all add: string_tab_1_def string_tab_2_def string_tab_3_def string_tab_4_def entry_key_def
      less_char_def)

lemma table_not_empty: "string_tab_1 \<noteq> []" "string_tab_2 \<noteq> []" "string_tab_3 \<noteq> []" "string_tab_4 \<noteq> []"
  by (simp_all add: string_tab_1_def string_tab_2_def string_tab_3_def string_tab_4_def)

lemma table_distinct: "distinct (map entry_var string_tab)"
proof -
  have "successively (<) (map entry_key string_tab)"
    using table_sorted table_joined
    by (simp add: string_tab_def successively_append_iff table_not_empty hd_map last_map)
  also have "map entry_key string_tab = map var_key (map entry_var string_tab)"
    by (simp add: entry_key_def comp_def)
  finally show ?thesis by (rule distinct_if_sorted)
qed

lemma k_text_pair: "p \<in> set k_texts \<Longrightarrow> k_text (fst p) = snd p"
  using map_of_is_SomeI [OF arrays_distinct, of "fst p" "snd p"] by (simp add: k_text_def)

lemma arrays_texts:
  "list_all (\<lambda>p. k_text (fst p) = snd p) k_texts_1" "list_all (\<lambda>p. k_text (fst p) = snd p) k_texts_2"
  "list_all (\<lambda>p. k_text (fst p) = snd p) k_texts_3" "list_all (\<lambda>p. k_text (fst p) = snd p) k_texts_4"
  using k_text_pair by (simp_all add: list_all_iff k_texts_def)

lemmas texts = arrays_texts [unfolded k_texts_1_def k_texts_2_def k_texts_3_def k_texts_4_def
  list.pred_inject fst_conv snd_conv]

text \<open>The state of the names once the table has been decoded.\<close>

definition named :: "globals \<Rightarrow> bool" where
  "named G \<longleftrightarrow> (\<forall>t \<in> set string_tab. get_var (entry_var t) G = Some (decode_entry t))"

lemma named_values:
  assumes "named G"
  shows "list_all (\<lambda>t. get_var (entry_var t) G = Some (decode_entry t)) string_tab_1"
    and "list_all (\<lambda>t. get_var (entry_var t) G = Some (decode_entry t)) string_tab_2"
    and "list_all (\<lambda>t. get_var (entry_var t) G = Some (decode_entry t)) string_tab_3"
    and "list_all (\<lambda>t. get_var (entry_var t) G = Some (decode_entry t)) string_tab_4"
  using assms by (simp_all add: list_all_iff named_def string_tab_def)

lemmas held = named_values [unfolded string_tab_1_def string_tab_2_def string_tab_3_def string_tab_4_def
  list.pred_inject strtab_entry.sel decode_entry_def if_True if_False simp_thms]

subsection \<open>What the module contains\<close>

lemma effects_names:
  "nm (fold (stmt_effect E m) ss S) = fold (names_effect (level_of E) m) ss (nm S)"
  by (induction ss arbitrary: S) (simp_all add: stmt_effect_def)

text \<open>Items put into a dictionary one after the other.\<close>

definition put_items :: "(string \<times> mobj) list \<Rightarrow> (string \<times> mobj) list \<Rightarrow> (string \<times> mobj) list" where
  "put_items xs d = fold (\<lambda>(k, x). AList.update k x) xs d"

lemma put_items_simps [simp]:
  "put_items [] d = d" "put_items ((k, x) # xs) d = put_items xs (AList.update k x d)"
  "put_items (xs @ ys) d = put_items ys (put_items xs d)"
  by (simp_all add: put_items_def)

lemma put_items_other: "k \<notin> fst ` set xs \<Longrightarrow> map_of (put_items xs d) k = map_of d k"
  by (induction xs arbitrary: d) (auto simp: update_conv')

lemma put_items_holds:
  "distinct (map fst xs) \<Longrightarrow> list_all (\<lambda>(k, x). map_of (put_items xs d) k = Some x) xs"
  by (induction xs arbitrary: d) (auto simp: put_items_other update_conv')

text \<open>The names that the statements of \<open>_rocksdb.pyx\<close> bind; \<open>lv\<close> is the level of an import.\<close>

definition imported :: "(string \<Rightarrow> string list \<Rightarrow> nat) \<Rightarrow> string \<Rightarrow> mobj" where
  "imported lv k = AttrOb (ModuleOb ''interfaces'' (lv ''interfaces'' [k])) k"

definition module_function :: "string \<Rightarrow> mobj" where
  "module_function k = FunctionOb k (Interned ''rocksdb._rocksdb'')"

definition compression_names :: "string list" where
  "compression_names =
     [''no_compression'', ''snappy_compression'', ''zlib_compression'', ''bzip2_compression'',
      ''lz4_compression'', ''lz4hc_compression'', ''xpress_compression'', ''zstd_compression'',
      ''zstdnotfinal_compression'', ''disable_compression'']"

definition compaction_pri_names :: "string list" where
  "compaction_pri_names =
     [''by_compensated_size'', ''oldest_largest_seq_first'', ''oldest_smallest_seq_first'',
      ''min_overlapping_ratio'']"

text \<open>The state the body runs in.\<close>

definition body_state :: "nat \<Rightarrow> names \<Rightarrow> bool" where
  "body_state m N \<longleftrightarrow> named (globals N) \<and> get_var D_var (globals N) = Some (SelfDict m) \<and>
     (\<forall>t. get_var (Type_var t) (globals N) = Some (TypeOb t))"

fun string_var :: "cvar \<Rightarrow> bool" where
  "string_var (N_s k) \<longleftrightarrow> True"
| "string_var (N_u k) \<longleftrightarrow> True"
| "string_var (Kp_s k) \<longleftrightarrow> True"
| "string_var (Kp_u k) \<longleftrightarrow> True"
| "string_var _ \<longleftrightarrow> False"

lemma table_string_vars: "list_all (\<lambda>t. string_var (entry_var t)) string_tab"
  by (simp add: string_tab_def string_tab_1_def string_tab_2_def string_tab_3_def string_tab_4_def)

lemma named_put: "\<not> string_var v \<Longrightarrow> named (put_var v x G) \<longleftrightarrow> named G"
  using table_string_vars by (auto simp: named_def list_all_iff)

text \<open>
  \<open>puts lv m ss xs cs\<close>: from any such state the statements \<open>ss\<close> put the items \<open>xs\<close> into the dictionary of
  the module and \<open>cs\<close> into those of the classes.
\<close>

definition put_class :: "(ext_type \<times> string \<times> mobj) list \<Rightarrow> (ext_type \<Rightarrow> (string \<times> mobj) list) \<Rightarrow>
    ext_type \<Rightarrow> (string \<times> mobj) list" where
  "put_class cs D = fold (\<lambda>(t, k, x) D. D(t := AList.update k x (D t))) cs D"

lemma put_class_simps [simp]:
  "put_class [] D = D" "put_class ((t, k, x) # cs) D = put_class cs (D(t := AList.update k x (D t)))"
  "put_class (cs @ cs') D = put_class cs' (put_class cs D)"
  by (simp_all add: put_class_def)

definition puts :: "(string \<Rightarrow> string list \<Rightarrow> nat) \<Rightarrow> nat \<Rightarrow> stmt list \<Rightarrow> (string \<times> mobj) list \<Rightarrow>
    (ext_type \<times> string \<times> mobj) list \<Rightarrow> bool" where
  "puts lv m ss xs cs \<longleftrightarrow>
     (\<forall>N. body_state m N \<longrightarrow>
        body_state m (fold (names_effect lv m) ss N) \<and>
        dict_at (fold (names_effect lv m) ss N) = (dict_at N)(m := put_items xs (dict_at N m)) \<and>
        class_dict (fold (names_effect lv m) ss N) = put_class cs (class_dict N))"

lemma binds_append:
  "puts lv m ss xs cs \<Longrightarrow> puts lv m ss' xs' cs' \<Longrightarrow> puts lv m (ss @ ss') (xs @ xs') (cs @ cs')"
  by (simp add: puts_def)

text \<open>The value a name has in every such state.\<close>

definition names_text :: "cvar \<Rightarrow> string \<Rightarrow> bool" where
  "names_text v s \<longleftrightarrow> (\<forall>G. named G \<longrightarrow> get_var v G = Some (Interned s))"

lemma names_textD: "names_text v s \<Longrightarrow> body_state m N \<Longrightarrow> var_of v N = Interned s \<and> name_of v N = s"
  by (simp add: names_text_def body_state_def var_of_def name_of_def)

definition import_stmts :: "cvar \<Rightarrow> string \<Rightarrow> stmt list" where
  "import_stmts t k = [Assign t (Import (N_s k) None (-1)), SetDict (N_s k) t, Clear t]"

definition from_stmts :: "cvar \<Rightarrow> cvar \<Rightarrow> string \<Rightarrow> string \<Rightarrow> stmt list" where
  "from_stmts t u k b =
     [Assign t (NewList [N_s k]), Assign u (Import (N_s ''interfaces'') (Some t) (-1)), Clear t,
      Assign t (ImportFrom u (N_s k)), SetDict (N_s b) t, Clear t, Clear u]"

definition alias_stmts :: "string \<Rightarrow> ext_type \<Rightarrow> stmt list" where
  "alias_stmts k t = [SetDict (N_s k) (Type_var t)]"

definition constant_stmts :: "ext_type \<Rightarrow> string \<Rightarrow> stmt list" where
  "constant_stmts t k = [SetTypeDict t (N_s k) (N_u k), TypeModified t]"

definition function_stmts :: "string \<Rightarrow> string \<Rightarrow> stmt list" where
  "function_stmts b k =
     [Assign Tmp_1 (NewFunction k (N_s ''rocksdb__rocksdb'')), SetDict (N_s b) Tmp_1, Clear Tmp_1]"

definition static_stmts :: "stmt list" where
  "static_stmts =
     [Assign Tmp_2 (NewFunction ''__parse_read_opts'' (N_s ''rocksdb__rocksdb'')),
      SetTypeDict Ty_DB (N_s ''parse_read_opts'') Tmp_2, Clear Tmp_2, TypeModified Ty_DB,
      Assign Tmp_2 (NameInClass Ty_DB (N_s ''parse_read_opts'')), Assign Tmp_1 (CallStaticmethod Tmp_2),
      Clear Tmp_2, SetTypeDict Ty_DB (N_s ''parse_read_opts'') Tmp_1, Clear Tmp_1, TypeModified Ty_DB]"

lemma body_source:
  "map fst module_body =
     import_stmts Tmp_1 ''sys'' @
     from_stmts Tmp_1 Tmp_2 ''MergeOperator'' ''IMergeOperator'' @
     from_stmts Tmp_2 Tmp_1 ''AssociativeMergeOperator'' ''IAssociativeMergeOperator'' @
     from_stmts Tmp_1 Tmp_2 ''FilterPolicy'' ''IFilterPolicy'' @
     from_stmts Tmp_2 Tmp_1 ''Comparator'' ''IComparator'' @
     from_stmts Tmp_1 Tmp_2 ''SliceTransform'' ''ISliceTransform'' @
     import_stmts Tmp_2 ''traceback'' @ import_stmts Tmp_2 ''errors'' @ import_stmts Tmp_2 ''weakref'' @
     [InitThreads] @
     alias_stmts ''BytewiseComparator'' Ty_PyBytewiseComparator @
     alias_stmts ''BloomFilterPolicy'' Ty_PyBloomFilterPolicy @
     alias_stmts ''LRUCache'' Ty_PyLRUCache @
     concat (map (constant_stmts Ty_CompressionType) compression_names) @
     concat (map (constant_stmts Ty_CompactionPri) compaction_pri_names) @
     static_stmts @
     function_stmts ''repair_db'' ''repair_db'' @
     function_stmts ''list_column_families'' ''list_column_families'' @
     function_stmts ''pyx_unpickle_PyComparator'' ''__pyx_unpickle_PyComparator'' @
     function_stmts ''pyx_unpickle_PyFilterPolicy'' ''__pyx_unpickle_PyFilterPolicy'' @
     function_stmts ''pyx_unpickle_PyCache'' ''__pyx_unpickle_PyCache'' @
     function_stmts ''pyx_unpickle_CompressionType'' ''__pyx_unpickle_CompressionType'' @
     function_stmts ''pyx_unpickle_CompactionPri'' ''__pyx_unpickle_CompactionPri'' @
     [Assign Tmp_1 NewDict, SetDict (N_s ''test'') Tmp_1, Clear Tmp_1]"
  by (simp add: body_defs import_stmts_def from_stmts_def alias_stmts_def constant_stmts_def static_stmts_def
      function_stmts_def compression_names_def compaction_pri_names_def)

definition temp :: "cvar \<Rightarrow> bool" where
  "temp t \<longleftrightarrow> t = Tmp_1 \<or> t = Tmp_2"

lemma temps [simp]: "temp Tmp_1" "temp Tmp_2" "\<not> temp (N_s k)" "\<not> temp (N_u k)" "\<not> temp (Type_var c)"
  by (simp_all add: temp_def)

lemma var_of_rules [simp]:
  "var_of v (set_var w x N) = (if v = w then (case x of Some y \<Rightarrow> y | None \<Rightarrow> NoneOb) else var_of v N)"
  "var_of v (N\<lparr>dict_at := D\<rparr>) = var_of v N"
  "var_of v (N\<lparr>class_dict := C\<rparr>) = var_of v N"
  by (simp_all add: var_of_def set_var_def)

lemma set_var_rest [simp]: "dict_at (set_var v x N) = dict_at N" "class_dict (set_var v x N) = class_dict N"
  by (simp_all add: set_var_def)

lemma body_state_rules:
  "temp t \<Longrightarrow> body_state m (set_var t x N) \<longleftrightarrow> body_state m N"
  "body_state m (N\<lparr>dict_at := D\<rparr>) \<longleftrightarrow> body_state m N"
  "body_state m (N\<lparr>class_dict := C\<rparr>) \<longleftrightarrow> body_state m N"
  by (auto simp: body_state_def set_var_def named_put temp_def)

lemma body_dict_ptr: "body_state m N \<Longrightarrow> dict_ptr N = Some m"
  by (simp add: body_state_def dict_ptr_def)

lemma body_types: "body_state m N \<Longrightarrow> var_of (Type_var t) N = TypeOb t"
  by (simp add: body_state_def var_of_def)

lemma names_text_var: "names_text v s \<Longrightarrow> body_state m N \<Longrightarrow> var_of v N = Interned s"
  by (simp add: names_text_def body_state_def var_of_def)

lemmas bind_rules = body_state_rules body_dict_ptr body_types set_item_def from_names_def name_of_def

lemma bindsI:
  assumes "\<And>N. body_state m N \<Longrightarrow>
      body_state m (fold (names_effect lv m) ss N) \<and>
      dict_at (fold (names_effect lv m) ss N) = (dict_at N)(m := put_items xs (dict_at N m)) \<and>
      class_dict (fold (names_effect lv m) ss N) = put_class cs (class_dict N)"
  shows "puts lv m ss xs cs"
  using assms by (simp add: puts_def)

lemma binds_import:
  "names_text (N_s k) s \<Longrightarrow> temp t \<Longrightarrow> puts lv m (import_stmts t k) [(s, ModuleOb s (lv s []))] []"
  by (rule bindsI, drule (1) names_text_var) (auto simp: import_stmts_def bind_rules temp_def)

lemma binds_from:
  assumes "names_text (N_s k) s" "names_text (N_s b) c" "names_text (N_s ''interfaces'') ''interfaces''"
    and "temp t" "temp u" "t \<noteq> u"
  shows "puts lv m (from_stmts t u k b) [(c, AttrOb (ModuleOb ''interfaces'' (lv ''interfaces'' [s])) s)] []"
proof (rule bindsI)
  fix N assume N: "body_state m N"
  note v = assms(1-3) [THEN names_text_var, OF N]
  have neq: "t \<noteq> N_s x" "u \<noteq> N_s x" "N_s x \<noteq> t" "N_s x \<noteq> u" for x
    using assms(4,5) by (auto simp: temp_def)
  show "body_state m (fold (names_effect lv m) (from_stmts t u k b) N) \<and>
      dict_at (fold (names_effect lv m) (from_stmts t u k b) N) =
        (dict_at N)(m := put_items [(c, AttrOb (ModuleOb ''interfaces'' (lv ''interfaces'' [s])) s)] (dict_at N m)) \<and>
      class_dict (fold (names_effect lv m) (from_stmts t u k b) N) = put_class [] (class_dict N)"
    using assms(4-6) N by (simp add: from_stmts_def bind_rules v neq)
qed

lemma binds_alias: "names_text (N_s k) s \<Longrightarrow> puts lv m (alias_stmts k t) [(s, TypeOb t)] []"
  by (rule bindsI, drule (1) names_text_var) (simp add: alias_stmts_def bind_rules)

lemma binds_constant:
  assumes "names_text (N_s k) s" "names_text (N_u k) s"
  shows "puts lv m (constant_stmts t k) [] [(t, s, Interned s)]"
proof (rule bindsI)
  fix N assume N: "body_state m N"
  note v = assms [THEN names_text_var, OF N]
  show "body_state m (fold (names_effect lv m) (constant_stmts t k) N) \<and>
      dict_at (fold (names_effect lv m) (constant_stmts t k) N) = (dict_at N)(m := put_items [] (dict_at N m)) \<and>
      class_dict (fold (names_effect lv m) (constant_stmts t k) N) =
        put_class [(t, s, Interned s)] (class_dict N)"
    using N by (simp add: constant_stmts_def bind_rules v)
qed

lemma binds_function:
  assumes "names_text (N_s b) s" "names_text (N_s ''rocksdb__rocksdb'') ''rocksdb._rocksdb''"
  shows "puts lv m (function_stmts b k) [(s, module_function k)] []"
proof (rule bindsI)
  fix N assume N: "body_state m N"
  note v = assms [THEN names_text_var, OF N]
  show "body_state m (fold (names_effect lv m) (function_stmts b k) N) \<and>
      dict_at (fold (names_effect lv m) (function_stmts b k) N) =
        (dict_at N)(m := put_items [(s, module_function k)] (dict_at N m)) \<and>
      class_dict (fold (names_effect lv m) (function_stmts b k) N) = put_class [] (class_dict N)"
    using N by (simp add: function_stmts_def module_function_def bind_rules v)
qed

lemma binds_test: "names_text (N_s ''test'') s \<Longrightarrow>
    puts lv m [Assign Tmp_1 NewDict, SetDict (N_s ''test'') Tmp_1, Clear Tmp_1] [(s, DictOb)] []"
  by (rule bindsI, drule (1) names_text_var) (simp add: bind_rules)

lemma binds_static:
  assumes "names_text (N_s ''parse_read_opts'') s" "names_text (N_s ''rocksdb__rocksdb'') ''rocksdb._rocksdb''"
  shows "puts lv m static_stmts []
     [(Ty_DB, s, module_function ''__parse_read_opts''),
      (Ty_DB, s, StaticOb (module_function ''__parse_read_opts''))]"
proof (rule bindsI)
  fix N assume N: "body_state m N"
  note v = assms [THEN names_text_var, OF N]
  show "body_state m (fold (names_effect lv m) static_stmts N) \<and>
      dict_at (fold (names_effect lv m) static_stmts N) = (dict_at N)(m := put_items [] (dict_at N m)) \<and>
      class_dict (fold (names_effect lv m) static_stmts N) =
        put_class [(Ty_DB, s, module_function ''__parse_read_opts''),
          (Ty_DB, s, StaticOb (module_function ''__parse_read_opts''))] (class_dict N)"
    using N by (simp add: static_stmts_def module_function_def bind_rules v update_conv')
qed

text \<open>The names the statements of \<open>_rocksdb.pyx\<close> bind; \<open>lv\<close> gives the level of an import.\<close>

definition module_bindings :: "(string \<Rightarrow> string list \<Rightarrow> nat) \<Rightarrow> (string \<times> mobj) list" where
  "module_bindings lv =
     [(''sys'', ModuleOb ''sys'' (lv ''sys'' [])),
      (''IMergeOperator'', imported lv ''MergeOperator''),
      (''IAssociativeMergeOperator'', imported lv ''AssociativeMergeOperator''),
      (''IFilterPolicy'', imported lv ''FilterPolicy''),
      (''IComparator'', imported lv ''Comparator''),
      (''ISliceTransform'', imported lv ''SliceTransform''),
      (''traceback'', ModuleOb ''traceback'' (lv ''traceback'' [])),
      (''errors'', ModuleOb ''errors'' (lv ''errors'' [])),
      (''weakref'', ModuleOb ''weakref'' (lv ''weakref'' [])),
      (''BytewiseComparator'', TypeOb Ty_PyBytewiseComparator),
      (''BloomFilterPolicy'', TypeOb Ty_PyBloomFilterPolicy),
      (''LRUCache'', TypeOb Ty_PyLRUCache),
      (''repair_db'', module_function ''repair_db''),
      (''list_column_families'', module_function ''list_column_families''),
      (''__pyx_unpickle_PyComparator'', module_function ''__pyx_unpickle_PyComparator''),
      (''__pyx_unpickle_PyFilterPolicy'', module_function ''__pyx_unpickle_PyFilterPolicy''),
      (''__pyx_unpickle_PyCache'', module_function ''__pyx_unpickle_PyCache''),
      (''__pyx_unpickle_CompressionType'', module_function ''__pyx_unpickle_CompressionType''),
      (''__pyx_unpickle_CompactionPri'', module_function ''__pyx_unpickle_CompactionPri''),
      (''__test__'', DictOb)]"

definition class_bindings :: "(ext_type \<times> string \<times> mobj) list" where
  "class_bindings =
     map (\<lambda>k. (Ty_CompressionType, k, Interned k)) compression_names @
     map (\<lambda>k. (Ty_CompactionPri, k, Interned k)) compaction_pri_names @
     [(Ty_DB, ''__parse_read_opts'', module_function ''__parse_read_opts''),
      (Ty_DB, ''__parse_read_opts'', StaticOb (module_function ''__parse_read_opts''))]"

lemmas text_rules = names_text_def held texts

lemma binds_nothing: "puts lv m [InitThreads] [] []"
  by (simp add: puts_def)

lemma binds_constants:
  "list_all (\<lambda>k. names_text (N_s k) k \<and> names_text (N_u k) k) ks \<Longrightarrow>
     puts lv m (concat (map (constant_stmts t) ks)) [] (map (\<lambda>k. (t, k, Interned k)) ks)"
proof (induction ks)
  case Nil
  then show ?case by (simp add: puts_def)
next
  case (Cons k ks)
  then show ?case
    using binds_append [OF binds_constant [of k k lv m t], of "concat (map (constant_stmts t) ks)" "[]"] by simp
qed

lemma constant_names:
  "list_all (\<lambda>k. names_text (N_s k) k \<and> names_text (N_u k) k) (compression_names @ compaction_pri_names)"
  by (simp add: compression_names_def compaction_pri_names_def text_rules)

lemma body_names:
  "names_text (N_s ''sys'') ''sys''" "names_text (N_s ''interfaces'') ''interfaces''"
  "names_text (N_s ''MergeOperator'') ''MergeOperator''" "names_text (N_s ''IMergeOperator'') ''IMergeOperator''"
  "names_text (N_s ''AssociativeMergeOperator'') ''AssociativeMergeOperator''"
  "names_text (N_s ''IAssociativeMergeOperator'') ''IAssociativeMergeOperator''"
  "names_text (N_s ''FilterPolicy'') ''FilterPolicy''" "names_text (N_s ''IFilterPolicy'') ''IFilterPolicy''"
  "names_text (N_s ''Comparator'') ''Comparator''" "names_text (N_s ''IComparator'') ''IComparator''"
  "names_text (N_s ''SliceTransform'') ''SliceTransform''" "names_text (N_s ''ISliceTransform'') ''ISliceTransform''"
  "names_text (N_s ''traceback'') ''traceback''" "names_text (N_s ''errors'') ''errors''"
  "names_text (N_s ''weakref'') ''weakref''" "names_text (N_s ''BytewiseComparator'') ''BytewiseComparator''"
  "names_text (N_s ''BloomFilterPolicy'') ''BloomFilterPolicy''" "names_text (N_s ''LRUCache'') ''LRUCache''"
  "names_text (N_s ''rocksdb__rocksdb'') ''rocksdb._rocksdb''"
  "names_text (N_s ''parse_read_opts'') ''__parse_read_opts''"
  "names_text (N_s ''repair_db'') ''repair_db''" "names_text (N_s ''list_column_families'') ''list_column_families''"
  "names_text (N_s ''pyx_unpickle_PyComparator'') ''__pyx_unpickle_PyComparator''"
  "names_text (N_s ''pyx_unpickle_PyFilterPolicy'') ''__pyx_unpickle_PyFilterPolicy''"
  "names_text (N_s ''pyx_unpickle_PyCache'') ''__pyx_unpickle_PyCache''"
  "names_text (N_s ''pyx_unpickle_CompressionType'') ''__pyx_unpickle_CompressionType''"
  "names_text (N_s ''pyx_unpickle_CompactionPri'') ''__pyx_unpickle_CompactionPri''"
  "names_text (N_s ''test'') ''__test__''"
  by (simp_all add: text_rules)

lemma body_binds: "puts lv m (map fst module_body) (module_bindings lv) class_bindings"
proof -
  have "puts lv m (map fst module_body)
    ([(''sys'', ModuleOb ''sys'' (lv ''sys'' []))] @
     [(''IMergeOperator'', AttrOb (ModuleOb ''interfaces'' (lv ''interfaces'' [''MergeOperator''])) ''MergeOperator'')] @
     [(''IAssociativeMergeOperator'', AttrOb (ModuleOb ''interfaces'' (lv ''interfaces'' [''AssociativeMergeOperator''])) ''AssociativeMergeOperator'')] @
     [(''IFilterPolicy'', AttrOb (ModuleOb ''interfaces'' (lv ''interfaces'' [''FilterPolicy''])) ''FilterPolicy'')] @
     [(''IComparator'', AttrOb (ModuleOb ''interfaces'' (lv ''interfaces'' [''Comparator''])) ''Comparator'')] @
     [(''ISliceTransform'', AttrOb (ModuleOb ''interfaces'' (lv ''interfaces'' [''SliceTransform''])) ''SliceTransform'')] @
     [(''traceback'', ModuleOb ''traceback'' (lv ''traceback'' []))] @
     [(''errors'', ModuleOb ''errors'' (lv ''errors'' []))] @
     [(''weakref'', ModuleOb ''weakref'' (lv ''weakref'' []))] @
     [] @
     [(''BytewiseComparator'', TypeOb Ty_PyBytewiseComparator)] @
     [(''BloomFilterPolicy'', TypeOb Ty_PyBloomFilterPolicy)] @
     [(''LRUCache'', TypeOb Ty_PyLRUCache)] @
     [] @
     [] @
     [] @
     [(''repair_db'', module_function ''repair_db'')] @
     [(''list_column_families'', module_function ''list_column_families'')] @
     [(''__pyx_unpickle_PyComparator'', module_function ''__pyx_unpickle_PyComparator'')] @
     [(''__pyx_unpickle_PyFilterPolicy'', module_function ''__pyx_unpickle_PyFilterPolicy'')] @
     [(''__pyx_unpickle_PyCache'', module_function ''__pyx_unpickle_PyCache'')] @
     [(''__pyx_unpickle_CompressionType'', module_function ''__pyx_unpickle_CompressionType'')] @
     [(''__pyx_unpickle_CompactionPri'', module_function ''__pyx_unpickle_CompactionPri'')] @
     [(''__test__'', DictOb)])
    ([] @ [] @ [] @ [] @ [] @ [] @ [] @ [] @ [] @ [] @ [] @ [] @ [] @ map (\<lambda>k. (Ty_CompressionType, k, Interned k)) compression_names @ map (\<lambda>k. (Ty_CompactionPri, k, Interned k)) compaction_pri_names @ [(Ty_DB, ''__parse_read_opts'', module_function ''__parse_read_opts''), (Ty_DB, ''__parse_read_opts'', StaticOb (module_function ''__parse_read_opts''))] @ [] @ [] @ [] @ [] @ [] @ [] @ [] @ [])"
    unfolding body_source
    by (intro binds_append binds_import binds_from binds_alias binds_constants binds_function binds_test
        binds_static binds_nothing body_names temps) (use constant_names in simp_all)
  then show ?thesis by (simp add: module_bindings_def class_bindings_def imported_def)
qed

subsection \<open>Stage by stage\<close>

lemma InitStrings_effect:
  "distinct (map entry_var ts) \<Longrightarrow>
     (\<forall>t \<in> set ts. get_var (entry_var t) (globals (fold (names_effect lv m) (InitStrings ts) N)) = Some (decode_entry t)) \<and>
     (\<forall>v. v \<notin> set (map entry_var ts) \<longrightarrow>
        get_var v (globals (fold (names_effect lv m) (InitStrings ts) N)) = get_var v (globals N)) \<and>
     dict_at (fold (names_effect lv m) (InitStrings ts) N) = dict_at N \<and>
     class_dict (fold (names_effect lv m) (InitStrings ts) N) = class_dict N"
proof (induction ts arbitrary: N)
  case (Cons t ts)
  then show ?case by (auto simp: set_var_def)
qed simp

text \<open>Statements that leave names, module and dictionaries alone.\<close>

fun calm :: "stmt \<Rightarrow> bool" where
  "calm (Assign v rv) \<longleftrightarrow> \<not> string_var v \<and> plain_var v \<and> v \<noteq> M_var \<and> v \<noteq> D_var"
| "calm (Clear v) \<longleftrightarrow> \<not> string_var v \<and> plain_var v \<and> v \<noteq> M_var \<and> v \<noteq> D_var"
| "calm (RegisterModule k) \<longleftrightarrow> True"
| "calm _ \<longleftrightarrow> False"

definition setup_state :: "nat \<Rightarrow> names \<Rightarrow> bool" where
  "setup_state m N \<longleftrightarrow> named (globals N) \<and> get_var D_var (globals N) = Some (SelfDict m) \<and>
     get_var M_var (globals N) = Some (SelfModule m)"

lemma calm_effect:
  "list_all calm ss \<Longrightarrow> setup_state m N \<Longrightarrow>
     setup_state m (fold (names_effect lv m) ss N) \<and>
     dict_at (fold (names_effect lv m) ss N) = dict_at N \<and>
     class_dict (fold (names_effect lv m) ss N) = class_dict N \<and>
     (\<forall>t. get_var (Type_var t) (globals (fold (names_effect lv m) ss N)) = get_var (Type_var t) (globals N))"
proof (induction ss arbitrary: N)
  case (Cons s ss)
  have "setup_state m (names_effect lv m s N) \<and> dict_at (names_effect lv m s N) = dict_at N \<and>
    class_dict (names_effect lv m s N) = class_dict N \<and>
    (\<forall>t. get_var (Type_var t) (globals (names_effect lv m s N)) = get_var (Type_var t) (globals N))"
    using Cons.prems by (cases s) (auto simp: setup_state_def named_put set_var_def split: option.split)
  then show ?case using Cons by simp
qed simp

text \<open>The steps of the types put the published ones into the dictionary and set their pointers.\<close>

definition published_by :: "stmt list \<Rightarrow> ext_type list" where
  "published_by ss = concat (map (\<lambda>s. case s of TypeStep t st \<Rightarrow> if st = Publish then [t] else [] | _ \<Rightarrow> []) ss)"

definition published_item :: "ext_type \<Rightarrow> string \<times> mobj" where
  "published_item t = (k_text (publish_name t), TypeOb t)"

definition is_type_step :: "stmt \<Rightarrow> bool" where
  "is_type_step s \<longleftrightarrow> (case s of TypeStep t st \<Rightarrow> True | _ \<Rightarrow> False)"

lemma types_effect_names:
  "list_all is_type_step ss \<Longrightarrow> setup_state m N \<Longrightarrow>
     list_all (\<lambda>t. names_text (N_s (publish_name t)) (k_text (publish_name t))) (published_by ss) \<Longrightarrow>
     setup_state m (fold (names_effect lv m) ss N) \<and>
     dict_at (fold (names_effect lv m) ss N) =
       (dict_at N)(m := put_items (map published_item (published_by ss)) (dict_at N m)) \<and>
     class_dict (fold (names_effect lv m) ss N) = class_dict N"
proof (induction ss arbitrary: N)
  case (Cons s ss)
  obtain t st where s: "s = TypeStep t st" using Cons.prems(1) by (auto simp: is_type_step_def split: stmt.splits)
  let ?N = "names_effect lv m s N"
  have pub: "published_by (s # ss) = (if st = Publish then [t] else []) @ published_by ss"
    by (simp add: published_by_def s)
  have label: "st = Publish \<Longrightarrow> name_of (N_s (publish_name t)) N = k_text (publish_name t)"
    using Cons.prems(2,3) by (simp add: pub names_text_def setup_state_def name_of_def var_of_def)
  have N: "setup_state m ?N \<and>
      dict_at ?N = (dict_at N)(m := put_items (if st = Publish then [published_item t] else []) (dict_at N m)) \<and>
      class_dict ?N = class_dict N"
    using Cons.prems(2)
    by (auto simp: s label published_item_def setup_state_def module_ptr_def set_item_def set_var_def named_put)
  then show ?case
    using Cons.IH [of ?N] Cons.prems by (auto simp: pub split: if_splits)
qed (simp add: published_by_def)

lemma exported_values:
  "list_all is_type_step ss \<Longrightarrow> TypeStep t Export \<in> set ss \<Longrightarrow>
     get_var (Type_var t) (globals (fold (names_effect lv m) ss N)) = Some (TypeOb t)"
proof (induction ss rule: rev_induct)
  case (snoc s ss)
  obtain c st where s: "s = TypeStep c st" using snoc.prems(1) by (auto simp: is_type_step_def split: stmt.splits)
  show ?case
  proof (cases "s = TypeStep t Export")
    case True
    then show ?thesis by (simp add: set_var_def)
  next
    case False
    then have "get_var (Type_var t) (globals (fold (names_effect lv m) ss N)) = Some (TypeOb t)"
      using snoc by auto
    then show ?thesis using False by (auto simp: s set_var_def)
  qed
qed simp


text \<open>The first statements.\<close>

lemma head_effect:
  "setup_state m (fold (names_effect lv m) module_head N) \<and>
     dict_at (fold (names_effect lv m) module_head N) =
       (dict_at N)(m := put_items [(''__builtins__'', ModuleOb ''builtins'' 0)] (dict_at N m)) \<and>
     class_dict (fold (names_effect lv m) module_head N) = class_dict N"
proof -
  define first where "first = [CheckVersion, Assign Empty_tuple (NewEmpty (TupleOb [])), Assign Empty_bytes (NewEmpty (BytesOb [])),
      Assign Empty_unicode (NewEmpty (Ustr [])), Assign M_var GivenModule, Assign D_var ModuleDict,
      Assign B_var (AddModule ''builtins''), Assign Cython_runtime (AddModule ''cython_runtime''),
      SetAttrString ''__builtins__'' B_var,
      Assign (Umethod ''get'') DictType, Assign (Umethod ''items'') DictType]"
  define numbers where "numbers = [Assign Float_075 (NewFloat ''0.75''), Assign (Int_var 0) (NewInt 0), Assign (Int_var 1) (NewInt 1),
      Assign (Int_var 4) (NewInt 4), Assign (Int_var 10) (NewInt 10), Assign (Int_var 50000) (NewInt 50000),
      Assign (Int_var 1000000) (NewInt 1000000), Assign (Int_var 222419149) (NewInt 222419149),
      Assign (Int_var (-1)) (NewInt (-1)), RegisterModule ''rocksdb._rocksdb'']"
  have head: "module_head = first @ InitStrings string_tab @ numbers"
    by (simp add: module_head_def InitGlobals_def first_def numbers_def)
  let ?F = "fold (names_effect lv m) first N"
  let ?G = "fold (names_effect lv m) (InitStrings string_tab) ?F"
  have F: "get_var M_var (globals ?F) = Some (SelfModule m)" "get_var D_var (globals ?F) = Some (SelfDict m)"
    "dict_at ?F = (dict_at N)(m := put_items [(''__builtins__'', ModuleOb ''builtins'' 0)] (dict_at N m))"
    "class_dict ?F = class_dict N"
    by (simp_all add: first_def set_var_def module_ptr_def var_of_def set_item_def)
  have out: "M_var \<notin> set (map entry_var string_tab)" "D_var \<notin> set (map entry_var string_tab)"
    using entries_usual by (auto simp: list_all_iff)
  note G = InitStrings_effect [OF table_distinct, of lv m ?F]
  have "setup_state m ?G"
    using G out F(1,2) by (simp add: setup_state_def named_def)
  moreover have "list_all calm numbers" by (simp add: numbers_def)
  ultimately show ?thesis
    using calm_effect [of numbers m ?G lv] G F(3,4) by (simp add: head)
qed

lemma calm_stages:
  "list_all calm InitCachedBuiltins" "list_all calm InitCachedConstants" "list_all calm modinit_type_import_code"
  by (simp_all add: InitCachedBuiltins_def constants_defs modinit_type_import_code_def)

lemma type_stage: "list_all is_type_step modinit_type_init_stmts"
  by (simp add: modinit_type_init_stmts_def list_all_iff is_type_step_def split_beta)

text \<open>The types that get a name in the module.\<close>

definition published_types :: "ext_type list" where
  "published_types =
     [Ty_BlockBasedTableFactory, Ty_PlainTableFactory, Ty_SkipListMemtableFactory, Ty_VectorMemtableFactory,
      Ty_HashSkipListMemtableFactory, Ty_HashLinkListMemtableFactory, Ty_CompressionType, Ty_CompactionPri,
      Ty_ColumnFamilyHandle, Ty_ColumnFamilyOptions, Ty_Options, Ty_WriteBatch, Ty_DB, Ty_BackupEngine]"

lemma published_by_types: "published_by modinit_type_init_stmts = published_types"
  by (simp add: published_by_def published_types_def type_init_defs)

lemma published_names:
  "list_all (\<lambda>t. names_text (N_s (publish_name t)) (k_text (publish_name t)) \<and>
     k_text (publish_name t) = publish_name t) published_types"
  by (simp add: published_types_def text_rules)

definition all_bindings :: "(string \<Rightarrow> string list \<Rightarrow> nat) \<Rightarrow> (string \<times> mobj) list" where
  "all_bindings lv =
     (''__builtins__'', ModuleOb ''builtins'' 0) # map (\<lambda>t. (publish_name t, TypeOb t)) published_types @
     module_bindings lv"

lemma program_effect:
  fixes lv m N
  defines "N' \<equiv> fold (names_effect lv m) (map fst module_program) N"
  shows "dict_at N' = (dict_at N)(m := put_items (all_bindings lv) (dict_at N m)) \<and>
    class_dict N' = put_class class_bindings (class_dict N)"
proof -
  let ?r = "fold (names_effect lv m)"
  let ?A = "?r InitCachedConstants (?r InitCachedBuiltins (?r module_head N))"
  let ?B = "?r modinit_type_init_stmts ?A"
  let ?C = "?r modinit_type_import_code ?B"
  note H = head_effect [of m lv N]
  have A: "setup_state m ?A" "dict_at ?A = dict_at (?r module_head N)" "class_dict ?A = class_dict N"
    using H calm_effect [OF calm_stages(1), of m "?r module_head N" lv]
      calm_effect [OF calm_stages(2), of m "?r InitCachedBuiltins (?r module_head N)" lv] by simp_all
  have names: "list_all (\<lambda>t. names_text (N_s (publish_name t)) (k_text (publish_name t)))
      (published_by modinit_type_init_stmts)"
    and items: "map published_item published_types = map (\<lambda>t. (publish_name t, TypeOb t)) published_types"
    using published_names by (auto simp: published_by_types list_all_iff published_item_def)
  have B: "setup_state m ?B" "class_dict ?B = class_dict N"
    "dict_at ?B = (dict_at ?A)(m := put_items (map (\<lambda>t. (publish_name t, TypeOb t)) published_types) (dict_at ?A m))"
    using types_effect_names [OF type_stage A(1) names, of lv] A(3) by (simp_all add: published_by_types items)
  have "get_var (Type_var t) (globals ?B) = Some (TypeOb t)" for t
    by (rule exported_values [OF type_stage all_exported])
  then have C: "body_state m ?C" "class_dict ?C = class_dict N" "dict_at ?C = dict_at ?B"
    using calm_effect [OF calm_stages(3) B(1), of lv] B(2) by (simp_all add: body_state_def setup_state_def)
  have N': "N' = ?r (map fst module_body) ?C" by (simp add: N'_def program_parts)
  show ?thesis
    using body_binds [of lv m] C A B H by (simp add: N' puts_def all_bindings_def)
qed

lemma bindings_distinct: "distinct (map fst (all_bindings lv))"
  by (simp add: all_bindings_def published_types_def module_bindings_def)

lemma returned_names:
  assumes "import_state S" "module_ptr (nm S) = None" "pymod_exec E m S = Returned T"
  shows "nm T = fold (names_effect (level_of E) m) (map fst module_program) (nm S)"
proof -
  let ?A = "{v. is_set S v}"
  have "start_vars \<subseteq> ?A" using assms(1) by (auto simp: import_state_def agree_def)
  then have A: "definite ?A (map fst module_program)" "agree ?A S"
    using definite_mono [OF module_definite] by (simp_all add: agree_def)
  have no: "exec_error E x l k S' \<noteq> Returned T" for x l k S'
    by (simp add: exec_error_def Let_def)
  from run_stmts_sound [OF A, of E m 0] show ?thesis
    using assms(2,3) no by (auto simp: pymod_exec_def effects_names)
qed

end
