(* ===== verification/ModuleImport.thy ===== *)
theory ModuleImport
  imports ModuleNames OptionsSpec
begin

section \<open>Importing the module\<close>

text \<open>
  A world in which every call succeeds, in which the module body is seen to run to its end, and the properties of
  the import: once only, the namespace it leaves, the tuples and messages it prepares for other functions.
\<close>

subsection \<open>A world where nothing fails\<close>

text \<open>
  The interpreter before the import, and a world in which every call succeeds and the sibling modules
  \<open>interfaces\<close> and \<open>errors\<close> are found in the package.
\<close>

definition fresh_state :: mod_state where
  "fresh_state = \<lparr>nm = \<lparr>globals = no_globals, dict_at = (\<lambda>_. []), class_dict = (\<lambda>_. []), sys_modules = []\<rparr>,
     types = init_start, readied = [], tb = fresh_tb None, main_interpreter_id = -1\<rparr>"

definition sunny :: world where
  "sunny = \<lparr>fails = (\<lambda>_. None),
     import_at = (\<lambda>k fl l. if l = 1 \<and> k \<notin> {''interfaces'', ''errors''} then Some (Exn ImportError NoMsg) else None),
     lacks = (\<lambda>_ _. None), is_type = (\<lambda>_. True), basicsize = (\<lambda>_. 32), c_size = (\<lambda>_. 32),
     size_warning = None, object_names = object_methods, cline_setting = None,
     py_env = plain_env, memory = plenty\<rparr>"

lemma fresh_settled: "import_state fresh_state"
  by (auto simp: import_state_def agree_def start_vars_def fresh_state_def no_globals_def is_set_plain
      get_var.simps pointee_def)

lemma fresh_ptr: "module_ptr (nm fresh_state) = None"
  by (simp add: fresh_state_def no_globals_def module_ptr_def get_var.simps pointee_def)

text \<open>The types alone: their steps run as in \<open>TypeInit\<close>, since no type is made ready twice.\<close>

definition type_step :: "string list \<Rightarrow> stmt \<Rightarrow> init_state \<times> ext_type list \<Rightarrow> (init_state \<times> ext_type list) option" where
  "type_step obj s TR =
     (case (s, TR) of
        (TypeStep t st, (T, R)) \<Rightarrow>
          if st = Ready \<and> t \<in> set R then Some (T, t # R)
          else map_option (\<lambda>T. (T, if st = Ready then t # R else R)) (init_step_run obj t st T)
      | _ \<Rightarrow> Some TR)"

fun type_pass :: "string list \<Rightarrow> stmt list \<Rightarrow> init_state \<times> ext_type list \<Rightarrow> (init_state \<times> ext_type list) option" where
  "type_pass obj [] TR = Some TR"
| "type_pass obj (s # ss) TR = Option.bind (type_step obj s TR) (type_pass obj ss)"

lemma type_pass_append:
  "type_pass obj (xs @ ys) TR = Option.bind (type_pass obj xs TR) (type_pass obj ys)"
  by (induction xs arbitrary: TR) (auto split: bind_splits)

lemma type_pass_other: "list_all (\<lambda>s. \<not> is_type_step s) ss \<Longrightarrow> type_pass obj ss TR = Some TR"
  by (induction ss) (auto simp: type_step_def is_type_step_def split: stmt.splits)

definition readies :: "(ext_type \<times> init_step) list \<Rightarrow> ext_type list" where
  "readies ps = map fst (filter (\<lambda>p. snd p = Ready) ps)"

lemma type_pass_run:
  "distinct (readies ps) \<Longrightarrow> set (readies ps) \<inter> set R = {} \<Longrightarrow>
     map_option fst (type_pass obj (map (\<lambda>(t, st). TypeStep t st) ps) (T, R)) = init_steps_run obj ps T"
proof (induction ps arbitrary: T R)
  case (Cons p ps)
  obtain t st where p: "p = (t, st)" by (cases p)
  show ?case
  proof (cases "init_step_run obj t st T")
    case None
    then show ?thesis using Cons.prems by (auto simp: p type_step_def readies_def)
  next
    case (Some T')
    have "type_step obj (TypeStep t st) (T, R) = Some (T', if st = Ready then t # R else R)"
      using Cons.prems Some by (auto simp: p type_step_def readies_def)
    moreover have "map_option fst (type_pass obj (map (\<lambda>(t, st). TypeStep t st) ps) (T', if st = Ready then t # R else R)) =
        init_steps_run obj ps T'"
      by (rule Cons.IH) (use Cons.prems in \<open>auto simp: p readies_def split: if_splits\<close>)
    ultimately show ?thesis by (simp add: p Some)
  qed
qed simp

lemma each_type_ready_once:
  "distinct (readies (concat (map (\<lambda>(t, steps). map (Pair t) steps) modinit_type_init_code)))"
  by (simp add: readies_def type_init_defs)

lemma type_stmts: "modinit_type_init_stmts =
    map (\<lambda>(t, st). TypeStep t st) (concat (map (\<lambda>(t, steps). map (Pair t) steps) modinit_type_init_code))"
  by (simp add: modinit_type_init_stmts_def map_concat case_prod_unfold comp_def)

lemma sunny_types: "type_pass object_methods modinit_type_init_stmts (init_start, []) \<noteq> None"
proof -
  have "run_type_init object_methods \<noteq> None" using init_pickling by (cases "run_type_init object_methods") simp_all
  then show ?thesis
    using type_pass_run [OF each_type_ready_once, of "[]" object_methods init_start]
    by (auto simp: type_stmts run_type_init_def)
qed

lemma calm_no_type: "calm s \<Longrightarrow> \<not> is_type_step s"
  by (cases s) (simp_all add: is_type_step_def)

lemma program_types: "type_pass object_methods (map fst module_program) (init_start, []) \<noteq> None"
proof -
  have calm: "list_all (\<lambda>s. \<not> is_type_step s) ss" if "list_all calm ss" for ss
    using that calm_no_type by (auto simp: list_all_iff)
  have strings: "list_all (\<lambda>s. \<not> is_type_step s) (InitStrings ts)" for ts
    by (induction ts) (simp_all add: is_type_step_def)
  have "list_all (\<lambda>s. \<not> is_type_step s) module_head"
    by (simp add: module_head_def InitGlobals_def strings) (simp add: is_type_step_def)
  moreover have "list_all (\<lambda>s. \<not> is_type_step s) (map fst module_body)"
    by (simp add: body_defs is_type_step_def)
  ultimately show ?thesis
    using sunny_types calm [OF calm_stages(1)] calm [OF calm_stages(2)] calm [OF calm_stages(3)]
    by (auto simp: program_parts type_pass_append type_pass_other)
qed

lemma type_pass_effects:
  "type_pass (object_names E) ss (types S, readied S) = Some TR \<Longrightarrow>
     (types (fold (stmt_effect E m) ss S), readied (fold (stmt_effect E m) ss S)) = TR"
proof (induction ss arbitrary: S)
  case (Cons s ss)
  have "type_step (object_names E) s (types S, readied S) =
      Some (types (stmt_effect E m s S), readied (stmt_effect E m s S))"
    if "type_step (object_names E) s (types S, readied S) \<noteq> None"
    using that by (auto simp: type_step_def stmt_effect_def types_effect_def readied_effect_def
        split: stmt.splits if_splits)
  then show ?case using Cons by (cases "type_step (object_names E) s (types S, readied S)") auto
qed simp

lemma sunny_call: "usual s \<Longrightarrow> \<forall>t. s \<noteq> TypeStep t SetupReduce \<Longrightarrow> call_raises sunny s S = None"
  by (cases "(sunny, s, S)" rule: call_raises.cases)
    (auto simp: usual_def error_of_def Pyx_Import_def Pyx_ImportFrom_def Pyx_GetBuiltinName_def Pyx_ImportType_def
      Pyx_GetNameInClass_def Pyx_MODULE_NAME_def sunny_def split: option.splits)


lemma sunny_returns: "\<exists>T. pymod_exec sunny m fresh_state = Returned T"
proof -
  let ?A = "{v. is_set fresh_state v}"
  have "start_vars \<subseteq> ?A" using fresh_settled by (auto simp: import_state_def agree_def)
  then have A: "definite ?A (map fst module_program)" "agree ?A fresh_state"
    using definite_mono [OF module_definite] by (simp_all add: agree_def)
  from run_stmts_sound [OF A, of sunny m 0] show ?thesis
  proof (elim disjE exE conjE)
    fix T assume "run_stmts sunny m 0 module_program fresh_state = Finished T"
    then show ?thesis by (simp add: pymod_exec_def fresh_ptr)
  next
    fix x pre s l post S'
    assume *: "module_program = pre @ (s, l) # post" "S' = fold (stmt_effect sunny m) (map fst pre) fresh_state"
      "stmt_raises sunny (0 + length pre) s S' = Some x"
    have call: "call_raises sunny s S' \<noteq> None"
      using *(3) by (auto simp: stmt_raises_def sunny_def split: if_splits)
    have "usual s" using program_usual by (simp add: *(1))
    from sunny_call [OF this, of S'] call obtain t where s: "s = TypeStep t SetupReduce" by metis
    then have bad: "setup_reduce object_methods t (types S') = None"
      using call by (simp add: sunny_def split: if_splits)
    obtain TR where TR: "type_pass object_methods (map fst pre) (init_start, []) = Some TR"
      "type_step object_methods s TR \<noteq> None"
      using program_types by (auto simp: *(1) type_pass_append split: bind_splits)
    have "object_names sunny = object_methods" "types fresh_state = init_start" "readied fresh_state = []"
      by (simp_all add: sunny_def fresh_state_def)
    then have "TR = (types S', readied S')"
      using type_pass_effects [of sunny "map fst pre" fresh_state TR m] TR(1) *(2) by simp
    then show ?thesis using TR(2) bad by (simp add: s type_step_def)
  qed
qed

subsection \<open>Properties\<close>

text \<open>
  C8. Whatever fails in whatever attempt to import the module, at most one module object is ever
  initialised: an attempt that succeeds leaves \<open>__pyx_m\<close> pointing to its module, any other attempt
  leaves it null or as it was, so that importing can be tried again. No statement reads a variable
  that has not been set, save the traceback of a failure between the assignment of
  \<open>__pyx_cython_runtime\<close> and that of \<open>__pyx_n_s_cline_in_traceback\<close> (statements 8 to 104), which reads
  the latter and crashes.
\<close>

theorem module_initialised_once:
  assumes "import_state S"
  shows "\<exists>M. (module_ptr (nm S) \<noteq> None \<longrightarrow> M = module_ptr (nm S)) \<and>
    list_all (\<lambda>(c, r). good_result M (snd c) r) (zip cs (attempts cs S))"
  using assms by (rule attempts_good)

text \<open>
  Importing with memory exhausted when \<open>__builtins__\<close> is set crashes; with memory exhausted earlier it
  fails, then succeeds, then is refused for another module object.
\<close>

definition failing_at :: "nat \<Rightarrow> world" where
  "failing_at k = sunny\<lparr>fails := (\<lambda>i. if i = k then Some (Some (Exn MemoryError NoMsg)) else None)\<rparr>"

lemma early_program: "\<exists>rest. module_program =
    at_line 54926 [CheckVersion] @ at_line 54930 [Assign Empty_tuple (NewEmpty (TupleOb []))] @
    at_line 54931 [Assign Empty_bytes (NewEmpty (BytesOb []))] @
    at_line 54932 [Assign Empty_unicode (NewEmpty (Ustr []))] @ [(Assign M_var GivenModule, NoLoc)] @
    at_line 54970 [Assign D_var ModuleDict] @ at_line 54972 [Assign B_var (AddModule ''builtins'')] @
    at_line 54974 [Assign Cython_runtime (AddModule ''cython_runtime'')] @
    at_line 54976 [SetAttrString ''__builtins__'' B_var] @ rest"
  by (simp add: module_program_def module_setup_def)


lemma crash_in_window: "pymod_exec (failing_at 8) m fresh_state = Crashed 8"
proof -
  obtain rest where P: "module_program =
      at_line 54926 [CheckVersion] @ at_line 54930 [Assign Empty_tuple (NewEmpty (TupleOb []))] @
      at_line 54931 [Assign Empty_bytes (NewEmpty (BytesOb []))] @
      at_line 54932 [Assign Empty_unicode (NewEmpty (Ustr []))] @ [(Assign M_var GivenModule, NoLoc)] @
      at_line 54970 [Assign D_var ModuleDict] @ at_line 54972 [Assign B_var (AddModule ''builtins'')] @
      at_line 54974 [Assign Cython_runtime (AddModule ''cython_runtime'')] @
      at_line 54976 [SetAttrString ''__builtins__'' B_var] @ rest"
    using early_program by blast
  show ?thesis
    by (simp add: pymod_exec_def fresh_ptr P at_line_def stmt_raises_def failing_at_def sunny_def)
      (simp add: stmt_effect_def set_var_def exec_error_def clear_temps_def traceback_uses_def is_set_plain
        fresh_state_def no_globals_def put_var.simps get_var.simps pointee_def)
qed

theorem module_initialised_once_witness:
  "import_state fresh_state \<and> (\<exists>T. attempts [(sunny, 0)] fresh_state = [Returned T]) \<and>
   attempts [(failing_at 8, 0)] fresh_state = [Crashed 8] \<and>
   (\<exists>M. list_all (\<lambda>(c, r). good_result M (snd c) r)
     (zip [(sunny, 0), (sunny, 0), (sunny, 1)] (attempts [(sunny, 0), (sunny, 0), (sunny, 1)] fresh_state)))"
  using module_initialised_once [OF fresh_settled, of "[(sunny, 0), (sunny, 0), (sunny, 1)]"] fresh_settled
    sunny_returns [of 0] crash_in_window [of 0] by auto

text \<open>
  What the dictionary has to hold, without looking at how the code gets there: a module is the sibling
  in the package if importing that works and the one found anywhere else otherwise; the public types are
  under the last part of their \<open>tp_name\<close>.
\<close>

definition sibling_first :: "world \<Rightarrow> string \<Rightarrow> string list \<Rightarrow> nat" where
  "sibling_first E k from_list = (if import_at E k from_list 1 = None then 1 else 0)"

definition class_name :: "ext_type \<Rightarrow> string" where
  "class_name t = rev (takeWhile (\<lambda>c. c \<noteq> CHR ''.'') (rev (tp_name (type_of t))))"

definition public_names :: "world \<Rightarrow> (string \<times> mobj) list" where
  "public_names E =
     [(''__builtins__'', ModuleOb ''builtins'' 0)] @ map (\<lambda>t. (class_name t, TypeOb t)) published_types @
     module_bindings (sibling_first E)"

lemma level_of_siblings: "level_of E = sibling_first E"
  by (intro ext) (auto simp: level_of_def sibling_first_def Pyx_Import_def Pyx_MODULE_NAME_def split: option.splits)

lemma published_class_names:
  "map (\<lambda>t. (publish_name t, TypeOb t)) published_types = map (\<lambda>t. (class_name t, TypeOb t)) published_types"
  unfolding published_types_def by code_simp

lemma all_bindings_public: "all_bindings (level_of E) = public_names E"
  unfolding all_bindings_def public_names_def level_of_siblings published_class_names
  by (simp only: append_Cons append_Nil)

text \<open>
  C20. After a successful import the dictionary of the module holds, under every name that \<open>_rocksdb.pyx\<close>
  binds, what it is bound to there, a module of the package before one of the same name elsewhere,
  every public type under the name its type object has, and the classes hold their
  constants; \<open>__parse_read_opts\<close> is a static method.
\<close>

theorem module_namespace:
  assumes "import_state S" "module_ptr (nm S) = None" "pymod_exec E m S = Returned T"
  shows "list_all (\<lambda>(k, x). map_of (dict_at (nm T) m) k = Some x) (public_names E) \<and>
    list_all (\<lambda>k. map_of (class_dict (nm T) Ty_CompressionType) k = Some (Interned k)) compression_names \<and>
    list_all (\<lambda>k. map_of (class_dict (nm T) Ty_CompactionPri) k = Some (Interned k)) compaction_pri_names \<and>
    map_of (class_dict (nm T) Ty_DB) ''__parse_read_opts'' =
      Some (StaticOb (FunctionOb ''__parse_read_opts'' (Interned ''rocksdb._rocksdb'')))"
proof -
  have "dict_at (nm T) m = put_items (all_bindings (level_of E)) (dict_at (nm S) m)"
    and "class_dict (nm T) = put_class class_bindings (class_dict (nm S))"
    using program_effect [of "level_of E" m "nm S"] returned_names [OF assms] by simp_all
  then show ?thesis
    using put_items_holds [OF bindings_distinct, of "level_of E" "dict_at (nm S) m"]
    by (simp add: all_bindings_public class_bindings_def compression_names_def compaction_pri_names_def update_conv'
        module_function_def)
qed

theorem module_namespace_witness:
  "\<exists>T. pymod_exec sunny 0 fresh_state = Returned T \<and>
     map_of (dict_at (nm T) 0) ''LRUCache'' = Some (TypeOb Ty_PyLRUCache) \<and>
     map_of (dict_at (nm T) 0) ''Options'' = Some (TypeOb Ty_Options) \<and>
     map_of (dict_at (nm T) 0) ''errors'' = Some (ModuleOb ''errors'' 1) \<and>
     map_of (dict_at (nm T) 0) ''traceback'' = Some (ModuleOb ''traceback'' 0)"
proof -
  obtain T where T: "pymod_exec sunny 0 fresh_state = Returned T" using sunny_returns [of 0] by blast
  have "sibling_first sunny ''errors'' [] = 1" "sibling_first sunny ''traceback'' [] = 0"
    by (simp_all add: sibling_first_def sunny_def)
  moreover have "class_name Ty_Options = ''Options''" by code_simp
  ultimately show ?thesis
    using module_namespace [OF fresh_settled fresh_ptr T] T
    by (simp add: public_names_def module_bindings_def published_types_def)
qed


text \<open>
  C21. Every constant that the classes \<open>CompressionType\<close> and \<open>CompactionPri\<close> hold after the import is
  accepted by the setter it is meant for and read back, save \<open>xpress_compression\<close>, which is refused.
\<close>

theorem class_constants_accepted:
  assumes "import_state S" "module_ptr (nm S) = None" "pymod_exec E m S = Returned T"
  shows "list_all (\<lambda>k. map_of (class_dict (nm T) Ty_CompressionType) k = Some (Interned k) \<and>
      (case compression_set eq (PStr k) of
         Inr c \<Rightarrow> compression_get c = Inr (PStr k)
       | Inl x \<Rightarrow> exn_class x = TypeError \<and> k = ''xpress_compression'')) compression_names \<and>
    list_all (\<lambda>k. map_of (class_dict (nm T) Ty_CompactionPri) k = Some (Interned k) \<and>
      (case compaction_pri_set eq (PStr k) of
         Inr p \<Rightarrow> compaction_pri_get p = Inr (PStr k) | Inl x \<Rightarrow> False)) compaction_pri_names"
proof -
  have "class_dict (nm T) = put_class class_bindings (class_dict (nm S))"
    using program_effect [of "level_of E" m "nm S"] returned_names [OF assms] by simp
  then show ?thesis
    by (simp add: class_bindings_def compression_names_def compaction_pri_names_def update_conv'
        compression_set_def compaction_pri_set_def str_equal_def)
qed

theorem class_constants_accepted_witness:
  "\<exists>T. pymod_exec sunny 0 fresh_state = Returned T \<and>
     map_of (class_dict (nm T) Ty_CompressionType) ''zstd_compression'' = Some (Interned ''zstd_compression'')"
proof -
  obtain T where T: "pymod_exec sunny 0 fresh_state = Returned T" using sunny_returns [of 0] by blast
  show ?thesis
    using class_constants_accepted [OF fresh_settled fresh_ptr T] T by (simp add: compression_names_def)
qed

subsection \<open>The constants the refusing methods raise with\<close>

text \<open>
  The refusing methods run \<open>__Pyx_PyObject_Call(__pyx_builtin_TypeError, __pyx_tuple_N, NULL)\<close> and raise the
  result; here the name of the class and the text it is called with.
\<close>

definition raise_type_error :: "globals \<Rightarrow> nat \<Rightarrow> (string \<times> string) option" where
  "raise_type_error G n =
     (case get_var (Builtin_var ''TypeError'') G of
        Some (BuiltinOb cls) \<Rightarrow>
          (case get_var (Tuple_var n) G of
             Some (TupleOb [Ustr s]) \<Rightarrow> Some (cls, s)
           | _ \<Rightarrow> None)
      | _ \<Rightarrow> None)"

definition reduce_cython :: "globals \<Rightarrow> ext_type \<Rightarrow> (string \<times> string) option" where
  "reduce_cython G t = Option.bind (refusal_of t) (\<lambda>r. raise_type_error G (reduce_tuple r))"

definition setstate_cython :: "globals \<Rightarrow> ext_type \<Rightarrow> (string \<times> string) option" where
  "setstate_cython G t = Option.bind (refusal_of t) (\<lambda>r. raise_type_error G (setstate_tuple r))"

text \<open>
  Why a type cannot be pickled, read off its creation: a \<open>__cinit__\<close> of it or of a base has to run, or
  else it has a C++ member, which no Python object can stand for.
\<close>

definition refusal_reason :: "ext_type \<Rightarrow> string option" where
  "refusal_reason t =
     (let made = creation 3 t
      in if list_ex (\<lambda>s. case s of Cinit b \<Rightarrow> True | _ \<Rightarrow> False) made
         then Some ''no default __reduce__ due to non-trivial __cinit__''
         else case new_members made of
                [] \<Rightarrow> None
              | m # _ \<Rightarrow> Some (''self.'' @ m @ '' cannot be converted to a Python object for pickling''))"

lemma refusal_reasons:
  "refusal_reason Ty_PyComparator = None"
  "refusal_reason Ty_PyGenericComparator = Some ''no default __reduce__ due to non-trivial __cinit__''"
  "refusal_reason Ty_PyBytewiseComparator = Some ''no default __reduce__ due to non-trivial __cinit__''"
  "refusal_reason Ty_PyFilterPolicy = None"
  "refusal_reason Ty_PyGenericFilterPolicy = Some ''no default __reduce__ due to non-trivial __cinit__''"
  "refusal_reason Ty_PyBloomFilterPolicy = Some ''no default __reduce__ due to non-trivial __cinit__''"
  "refusal_reason Ty_PyMergeOperator = Some ''no default __reduce__ due to non-trivial __cinit__''"
  "refusal_reason Ty_PyCache = None"
  "refusal_reason Ty_PyLRUCache = Some ''no default __reduce__ due to non-trivial __cinit__''"
  "refusal_reason Ty_PySliceTransform = Some ''no default __reduce__ due to non-trivial __cinit__''"
  "refusal_reason Ty_PyTableFactory = Some ''self.factory cannot be converted to a Python object for pickling''"
  "refusal_reason Ty_BlockBasedTableFactory = Some ''self.factory cannot be converted to a Python object for pickling''"
  "refusal_reason Ty_PlainTableFactory = Some ''self.factory cannot be converted to a Python object for pickling''"
  "refusal_reason Ty_PyMemtableFactory = Some ''self.factory cannot be converted to a Python object for pickling''"
  "refusal_reason Ty_SkipListMemtableFactory = Some ''self.factory cannot be converted to a Python object for pickling''"
  "refusal_reason Ty_VectorMemtableFactory = Some ''self.factory cannot be converted to a Python object for pickling''"
  "refusal_reason Ty_HashSkipListMemtableFactory = Some ''self.factory cannot be converted to a Python object for pickling''"
  "refusal_reason Ty_HashLinkListMemtableFactory = Some ''self.factory cannot be converted to a Python object for pickling''"
  "refusal_reason Ty_CompressionType = None"
  "refusal_reason Ty_CompactionPri = None"
  "refusal_reason Ty_ColumnFamilyHandle_real = Some ''no default __reduce__ due to non-trivial __cinit__''"
  "refusal_reason Ty_ColumnFamilyHandle = Some ''no default __reduce__ due to non-trivial __cinit__''"
  "refusal_reason Ty_ColumnFamilyOptions = Some ''no default __reduce__ due to non-trivial __cinit__''"
  "refusal_reason Ty_Options = Some ''no default __reduce__ due to non-trivial __cinit__''"
  "refusal_reason Ty_Snapshot = Some ''no default __reduce__ due to non-trivial __cinit__''"
  "refusal_reason Ty_BaseIterator = Some ''no default __reduce__ due to non-trivial __cinit__''"
  "refusal_reason Ty_KeysIterator = Some ''no default __reduce__ due to non-trivial __cinit__''"
  "refusal_reason Ty_ValuesIterator = Some ''no default __reduce__ due to non-trivial __cinit__''"
  "refusal_reason Ty_ItemsIterator = Some ''no default __reduce__ due to non-trivial __cinit__''"
  "refusal_reason Ty_ReversedIterator = Some ''no default __reduce__ due to non-trivial __cinit__''"
  "refusal_reason Ty_WriteBatchIterator = Some ''self.items cannot be converted to a Python object for pickling''"
  "refusal_reason Ty_WriteBatch = Some ''no default __reduce__ due to non-trivial __cinit__''"
  "refusal_reason Ty_DB = Some ''no default __reduce__ due to non-trivial __cinit__''"
  "refusal_reason Ty_BackupEngine = Some ''no default __reduce__ due to non-trivial __cinit__''"
  by code_simp+

lemma constant_targets: "distinct (map target InitCachedConstants)"
  by (simp add: constants_defs target_def)

lemma names_untouched:
  "list_all (\<lambda>s. target s \<noteq> Some v) ss \<Longrightarrow>
     get_var v (globals (fold (names_effect lv m) ss N)) = get_var v (globals N)"
proof (induction ss arbitrary: N)
  case (Cons s ss)
  have "get_var v (globals (names_effect lv m s N)) = get_var v (globals N)"
    using Cons.prems by (cases s) (auto simp: target_def names_effect_globals simp del: names_effect.simps)
  then show ?case using Cons by simp
qed simp

lemma packed_value:
  assumes "list_all calm ss" "distinct (map target ss)" "Assign v (Pack [w]) \<in> set ss"
    and "\<And>G. named G \<Longrightarrow> get_var w G = Some x" "setup_state m N"
  shows "get_var v (globals (fold (names_effect lv m) ss N)) = Some (TupleOb [x])"
proof -
  obtain pre post where ss: "ss = pre @ Assign v (Pack [w]) # post" using split_list [OF assms(3)] by blast
  let ?N = "fold (names_effect lv m) pre N"
  have pre: "list_all calm pre" using assms(1) by (simp add: ss)
  have "setup_state m ?N" using calm_effect [OF pre assms(5)] by blast
  then have "get_var w (globals ?N) = Some x" using assms(4) by (simp add: setup_state_def)
  then have now: "get_var v (globals (names_effect lv m (Assign v (Pack [w])) ?N)) = Some (TupleOb [x])"
    by (simp add: set_var_def var_of_def)
  have "target (Assign v (Pack [w])) = Some v" by (simp add: target_def)
  then have "list_all (\<lambda>s. target s \<noteq> Some v) post"
    using assms(2) by (force simp: ss list_all_iff)
  from names_untouched [OF this] now show ?thesis by (simp add: ss del: names_effect.simps)
qed

text \<open>Nothing after \<open>__Pyx_InitCachedConstants\<close> assigns a tuple.\<close>

lemma tuples_stay:
  "get_var (Tuple_var i) (globals (fold (names_effect lv m) (map fst module_program) N)) =
   get_var (Tuple_var i) (globals (fold (names_effect lv m) InitCachedConstants
     (fold (names_effect lv m) (module_head @ InitCachedBuiltins) N)))"
proof -
  have "list_all (\<lambda>s. target s \<noteq> Some (Tuple_var i)) modinit_type_init_stmts"
    by (auto simp: modinit_type_init_stmts_def list_all_iff target_def split: if_splits)
  moreover have "list_all (\<lambda>s. target s \<noteq> Some (Tuple_var i)) modinit_type_import_code"
    by (simp add: modinit_type_import_code_def target_def)
  moreover have "list_all (\<lambda>s. target s \<noteq> Some (Tuple_var i)) (map fst module_body)"
    by (simp add: body_defs target_def)
  ultimately show ?thesis by (simp add: program_parts names_untouched)
qed

definition constant_stmts_set :: "stmt set" where
  "constant_stmts_set = set InitCachedConstants"

lemma stmts_in_set:
  "list_all (\<lambda>s. s \<in> constant_stmts_set) cached_constants_1" "list_all (\<lambda>s. s \<in> constant_stmts_set) cached_constants_2"
  "list_all (\<lambda>s. s \<in> constant_stmts_set) cached_constants_3" "list_all (\<lambda>s. s \<in> constant_stmts_set) cached_constants_4"
  "list_all (\<lambda>s. s \<in> constant_stmts_set) cached_constants_5" "list_all (\<lambda>s. s \<in> constant_stmts_set) cached_constants_6"
  by (simp_all add: list_all_iff constant_stmts_set_def InitCachedConstants_def)

lemmas made_constants = stmts_in_set [unfolded cached_constants_1_def cached_constants_2_def cached_constants_3_def
  cached_constants_4_def cached_constants_5_def cached_constants_6_def list.pred_inject]

text \<open>The text that a tuple of one string is packed from.\<close>

definition packed_text :: "nat \<Rightarrow> string \<Rightarrow> bool" where
  "packed_text i s \<longleftrightarrow>
     (\<exists>k. Assign (Tuple_var i) (Pack [Kp_s k]) \<in> constant_stmts_set \<and>
        (\<forall>G. named G \<longrightarrow> get_var (Kp_s k) G = Some (Ustr s)))"

lemma refusal_texts:
  "Assign (Tuple_var i) (Pack [Kp_s ''no_default___reduce___due_to_non'']) \<in> constant_stmts_set \<Longrightarrow>
     packed_text i ''no default __reduce__ due to non-trivial __cinit__''"
  "Assign (Tuple_var i) (Pack [Kp_s ''self_factory_cannot_be_converted'']) \<in> constant_stmts_set \<Longrightarrow>
     packed_text i ''self.factory cannot be converted to a Python object for pickling''"
  "Assign (Tuple_var i) (Pack [Kp_s ''self_items_cannot_be_converted_t'']) \<in> constant_stmts_set \<Longrightarrow>
     packed_text i ''self.items cannot be converted to a Python object for pickling''"
  by (force simp: packed_text_def held texts)+

lemma packed_text_value:
  assumes "packed_text i s"
  shows "get_var (Tuple_var i) (globals (fold (names_effect lv m) (map fst module_program) N)) =
    Some (TupleOb [Ustr s])"
proof -
  obtain k where k: "Assign (Tuple_var i) (Pack [Kp_s k]) \<in> set InitCachedConstants"
    "\<And>G. named G \<Longrightarrow> get_var (Kp_s k) G = Some (Ustr s)"
    using assms by (auto simp: packed_text_def constant_stmts_set_def)
  have "setup_state m (fold (names_effect lv m) (module_head @ InitCachedBuiltins) N)"
    using head_effect [of m lv N] calm_effect [OF calm_stages(1)] by simp
  from packed_value [OF calm_stages(2) constant_targets k this] show ?thesis by (simp only: tuples_stay)
qed

text \<open>\<open>__pyx_builtin_TypeError\<close> holds the class of that name.\<close>

lemma builtin_type_error:
  "get_var (Builtin_var ''TypeError'') (globals (fold (names_effect lv m) (map fst module_program) N)) =
     Some (BuiltinOb ''TypeError'')"
proof -
  let ?v = "Builtin_var ''TypeError''" and ?s = "Assign (Builtin_var ''TypeError'') (GetBuiltinName (N_s ''TypeError''))"
  define later where "later = tl (tl InitCachedBuiltins)"
  have split: "InitCachedBuiltins = hd InitCachedBuiltins # ?s # later" "target (hd InitCachedBuiltins) \<noteq> Some (N_s ''TypeError'')"
    "calm (hd InitCachedBuiltins)"
    by (simp_all add: later_def InitCachedBuiltins_def target_def)
  let ?N = "names_effect lv m (hd InitCachedBuiltins) (fold (names_effect lv m) module_head N)"
  have "setup_state m ?N"
    using head_effect [of m lv N] calm_effect [of "[hd InitCachedBuiltins]" m _ lv] split(3) by simp
  then have "name_of (N_s ''TypeError'') ?N = ''TypeError''"
    by (simp add: setup_state_def name_of_def var_of_def held texts)
  then have now: "get_var ?v (globals (names_effect lv m ?s ?N)) = Some (BuiltinOb ''TypeError'')"
    by (simp add: set_var_def)
  have "list_all (\<lambda>s. target s \<noteq> Some ?v) modinit_type_init_stmts"
    by (auto simp: modinit_type_init_stmts_def list_all_iff target_def split: if_splits)
  moreover have "list_all (\<lambda>s. target s \<noteq> Some ?v) later"
    by (simp add: later_def InitCachedBuiltins_def target_def)
  moreover have "list_all (\<lambda>s. target s \<noteq> Some ?v) InitCachedConstants"
    by (simp add: constants_defs target_def)
  moreover have "list_all (\<lambda>s. target s \<noteq> Some ?v) modinit_type_import_code"
    by (simp add: modinit_type_import_code_def target_def)
  moreover have "list_all (\<lambda>s. target s \<noteq> Some ?v) (map fst module_body)"
    by (simp add: body_defs target_def)
  ultimately have stay: "list_all (\<lambda>s. target s \<noteq> Some ?v)
      (later @ InitCachedConstants @ modinit_type_init_stmts @ modinit_type_import_code @ map fst module_body)"
    by simp
  have "map fst module_program = (module_head @ [hd InitCachedBuiltins, ?s]) @
      (later @ InitCachedConstants @ modinit_type_init_stmts @ modinit_type_import_code @ map fst module_body)"
    using program_parts split(1) by simp
  then show ?thesis using now names_untouched [OF stay, of lv m "names_effect lv m ?s ?N"] by simp
qed

text \<open>Which tuples hold which text.\<close>

lemma cinit_tuples:
  "list_all (\<lambda>i. Assign (Tuple_var i) (Pack [Kp_s ''no_default___reduce___due_to_non'']) \<in> constant_stmts_set)
    [1, 2, 3, 4, 5, 6, 7, 8, 9, 10, 11, 12, 13, 14, 31, 32, 35, 36, 39, 40, 42, 43, 57, 58, 59, 60, 61, 62, 63, 64, 65, 66, 67, 68, 44, 45, 55, 56, 69, 70]"
  by (simp add: made_constants del: One_nat_def)

lemma factory_tuples:
  "list_all (\<lambda>i. Assign (Tuple_var i) (Pack [Kp_s ''self_factory_cannot_be_converted'']) \<in> constant_stmts_set)
    [15, 16, 17, 18, 19, 20, 21, 22, 23, 24, 25, 26, 27, 28, 29, 30]"
  by (simp add: made_constants del: One_nat_def)

lemma items_tuples:
  "list_all (\<lambda>i. Assign (Tuple_var i) (Pack [Kp_s ''self_items_cannot_be_converted_t'']) \<in> constant_stmts_set)
    [46, 47]"
  by (simp add: made_constants del: One_nat_def)

lemma tuples_packed:
  "list_all (\<lambda>i. packed_text i ''no default __reduce__ due to non-trivial __cinit__'')
    [1, 2, 3, 4, 5, 6, 7, 8, 9, 10, 11, 12, 13, 14, 31, 32, 35, 36, 39, 40, 42, 43, 57, 58, 59, 60, 61, 62, 63, 64, 65, 66, 67, 68, 44, 45, 55, 56, 69, 70]"
  "list_all (\<lambda>i. packed_text i ''self.factory cannot be converted to a Python object for pickling'')
    [15, 16, 17, 18, 19, 20, 21, 22, 23, 24, 25, 26, 27, 28, 29, 30]"
  "list_all (\<lambda>i. packed_text i ''self.items cannot be converted to a Python object for pickling'')
    [46, 47]"
    apply (rule list.pred_mono_strong [OF cinit_tuples], erule refusal_texts(1))
   apply (rule list.pred_mono_strong [OF factory_tuples], erule refusal_texts(2))
  apply (rule list.pred_mono_strong [OF items_tuples], erule refusal_texts(3))
  done

lemmas packed = tuples_packed [unfolded list.pred_inject]

lemma refusals_packed:
  "list_all (\<lambda>t. case refusal_of t of
      None \<Rightarrow> refusal_reason t = None
    | Some r \<Rightarrow> (case refusal_reason t of
        None \<Rightarrow> False
      | Some s \<Rightarrow> packed_text (reduce_tuple r) s \<and> packed_text (setstate_tuple r) s)) all_types"
  by (simp add: all_types_def refusal_reasons packed refusal_defs del: One_nat_def)

text \<open>
  C40. After a successful import the methods \<open>__reduce_cython__\<close> and \<open>__setstate_cython__\<close> of a type, for each of
  the 34 types, raise \<open>TypeError\<close> with exactly the reason why the type cannot be pickled: that its
  creation runs a \<open>__cinit__\<close>, or else the C++ member it has; the five types without either refuse nothing.
\<close>

theorem refusals_hold_messages:
  assumes "import_state S" "module_ptr (nm S) = None" "pymod_exec E m S = Returned T"
  shows "reduce_cython (globals (nm T)) t = map_option (Pair ''TypeError'') (refusal_reason t) \<and>
    setstate_cython (globals (nm T)) t = map_option (Pair ''TypeError'') (refusal_reason t)"
proof (cases "refusal_of t")
  case None
  then show ?thesis
    using refusals_packed all_types_all [of t] by (auto simp: list_all_iff reduce_cython_def setstate_cython_def)
next
  case (Some r)
  then obtain s where "refusal_reason t = Some s" "packed_text (reduce_tuple r) s" "packed_text (setstate_tuple r) s"
    using refusals_packed all_types_all [of t] by (auto simp: list_all_iff split: option.splits)
  with Some show ?thesis
    by (simp add: returned_names [OF assms] reduce_cython_def setstate_cython_def raise_type_error_def
      packed_text_value builtin_type_error)
qed

theorem refusals_hold_messages_witness:
  "\<exists>T. pymod_exec sunny 0 fresh_state = Returned T \<and>
     reduce_cython (globals (nm T)) Ty_PyTableFactory =
       Some (''TypeError'', ''self.factory cannot be converted to a Python object for pickling'')"
proof -
  obtain T where T: "pymod_exec sunny 0 fresh_state = Returned T" using sunny_returns [of 0] by blast
  show ?thesis
    using refusals_hold_messages [OF fresh_settled fresh_ptr T, of Ty_PyTableFactory] T
    by (simp add: refusal_reasons)
qed

end
