(* ===== verification/Spec2Isabelle.thy ===== *)
theory Spec2Isabelle
  imports Merge FamilyLifecycle IterProgress Consistency Backup Wrappers IntFormat CodeCache Creation Threads
    Attributes Equality Runtime Calls ModuleImport
begin

text \<open>
  \<^bold>\<open>The RocksDB binding of VerFS.\<close> VerFS is a deduplicating file system in Python that keeps its blocks and
  metadata in RocksDB. This development covers its C++ code: \<open>rocksdb/_rocksdb.cpp\<close>, the Cython
  extension module between Python and RocksDB (generated from \<open>rocksdb/_rocksdb.pyx\<close>), and the
  wrapper classes of \<open>rocksdb/cpp/*.hpp\<close> through which RocksDB calls back into Python.

  \<^bold>\<open>The parts and how they interact.\<close> A Python call enters through a wrapper (\<open>__pyx_pw_...\<close>), which binds the
  arguments, and goes on in a body (\<open>__pyx_pf_...\<close>), which converts them to C types, resolves column
  families to raw pointers, calls RocksDB with the lock of the interpreter released and turns the
  status into a result or an exception. RocksDB calls user code through the comparator, filter,
  slice transform and merge bridges. The objects of the module own C++ objects; what keeps what alive is
  decided by reference counts, the \<open>tp_dealloc\<close> and \<open>tp_clear\<close> functions of the types and weak
  references to column families.

  \<^bold>\<open>Conventions.\<close> The interpreter is 64-bit CPython 3 on an LP64 platform. A Python exception is the left part
  of a sum (\<open>NULL\<close> with the error indicator set in the code), a state is passed explicitly
  (\<open>('s, 'a) py\<close>). C integers are mathematical integers with every conversion written out
  (\<open>c_cast\<close>), bytes are \<open>8 word\<close>. Objects and C++ pointers are named by numbers. RocksDB and user classes are
  parameters: a record of the calls the code makes (\<open>family_lib\<close>, \<open>cf_lib\<close>, \<open>class_env\<close>, ...). What is
  documented about RocksDB is a named hypothesis of the theorems that need it (\<open>kv_contract\<close>,
  \<open>iter_contract\<close>, \<open>fam_contract\<close>), and their witnesses instantiate it with a concrete one.

  \<^bold>\<open>Values.\<close>
  \<^item> \<open>Prelude\<close>: Python objects and exceptions, C++ exceptions and their translation, results, the environment.
  \<^item> \<open>IntConv\<close>: \<open>__Pyx_PyInt_As_*\<close>, \<open>__Pyx_PyInt_From_*\<close>; each converter is exact or raises (a locale \<open>int_slot\<close>
    states it once for its clients). \<open>IntFormat\<close>: \<open>__Pyx_PyUnicode_From_int\<close> and the joining of texts.
  \<^item> \<open>ByteStrings\<close>: conversions of bytes, texts, paths, vectors. \<open>Status\<close>: \<open>check_status\<close>.
  \<^item> \<open>Equality\<close>, \<open>Runtime\<close>: fast paths of the generated code (comparison, addition, indices, lists, exception matching,
    \<open>raise\<close>), each against the operation of Python it stands for.
  \<^item> \<open>CodeCache\<close>: the sorted array of code objects behind tracebacks, against a finite map. \<open>Traceback\<close>:
    \<open>__Pyx_AddTraceback\<close> and what it needs of the cache; a traceback names the site that was first seen under its key.

  \<^bold>\<open>Callbacks.\<close>
  \<^item> \<open>Callbacks\<close>: \<open>comparator_wrapper.hpp\<close>, \<open>filter_policy_wrapper.hpp\<close>, \<open>slice_transform_wrapper.hpp\<close> with the callbacks and
    classes on the Cython side; the locale \<open>error_channel\<close> is the contract of all their methods.
  \<^item> \<open>Merge\<close>: \<open>merge_operator_wrapper.hpp\<close> and its callbacks (locale \<open>merge_channel\<close>).

  \<^bold>\<open>Databases.\<close>
  \<^item> \<open>ColumnFamily\<close>: the owner of a C++ handle and the weak handle given to Python; a handle never dangles.
  \<^item> \<open>WriteBatch\<close>: batches and their iteration; \<open>PyIterator\<close> is the iterator protocol as a locale.
  \<^item> \<open>Database\<close>: reads, writes and properties; against a map from families and keys to values.
  \<^item> \<open>Families\<close>, \<open>FamilyInvariant\<close>, \<open>FamilyLifecycle\<close>: opening, closing, creating and dropping, the invariant of everything
    that owns handles and options, and the reachable states.
  \<^item> \<open>Iterators\<close>, \<open>IterProgress\<close>: iterators, reversed views, snapshots; what they list, and that listing ends.
  \<^item> \<open>Consistency\<close>: a batch written to a database against the same changes made one by one (\<open>batch_contract\<close>,
    \<open>write_contract\<close>), and reads through snapshots while the database changes (\<open>snapshot_contract\<close>): the invariant that
    every live \<open>Snapshot\<close> object holds a C++ snapshot of its own.
  \<^item> \<open>Threads\<close>: calls of several threads interleaved where the lock is released.
  \<^item> \<open>Backup\<close>: backups and offline operations.

  \<^bold>\<open>Options.\<close>
  \<^item> \<open>Options\<close>, \<open>OptionsSpec\<close>: every property of \<open>ColumnFamilyOptions\<close> and \<open>Options\<close>; types, round trips, ownership of hooks.
  \<^item> \<open>Attributes\<close>: the attribute tables of the types in front of them, deletion of attributes.
  \<^item> \<open>Factories\<close>: caches, table and memtable factories.

  \<^bold>\<open>The module.\<close>
  \<^item> \<open>ArgParse\<close>, \<open>Wrappers\<close>: the unpacking of arguments, and the parameter list of every wrapper.
  \<^item> \<open>Pickle\<close>: reduction and loading of the classes without C state, through the wrappers that bind the arguments.
  \<^item> \<open>TypeTables\<close>: the 34 types with their creation, destruction, traversal, clearing and initialisation as data.
  \<^item> \<open>ObjectLife\<close>, \<open>ReleaseOrder\<close>: releasing references, the order of destruction, the collector.
  \<^item> \<open>TypeInit\<close>: the initialisation of all types run, tables of C methods, pickling set up or refused.
  \<^item> \<open>Creation\<close>: the \<open>__cinit__\<close> methods with every failing step, and the hooks objects give out.
  \<^item> \<open>Calls\<close>: the call shortcuts (fast calls of Python functions and C functions, one and two arguments, unbound
    methods), against the plain call of the interpreter.
  \<^item> \<open>Constants\<close>: the table of string constants (\<open>__Pyx_InitStrings\<close>), the cached builtins, tuples, slices and code
    objects, as lists of statements over the C variables of the module.
  \<^item> \<open>ModuleExec\<close>: \<open>PyInit\<close>, \<open>__pyx_pymod_create\<close> and \<open>__pyx_pymod_exec\<close>: the statements of the module body run in a world that
    decides which calls fail. \<open>ModuleSafety\<close>: no statement reads a variable that is not set (a static check that is
    sound for the runs), and what any number of attempts to import leaves. \<open>ModuleNames\<close>: the effect of a
    successful run on names. \<open>ModuleImport\<close>: the properties; a second successful import is refused, and an import that
    fails between statements 8 and 104 runs into the pointer that is not set yet.

  \<^bold>\<open>Bounds and fuel.\<close> No type of the module has more than one base before \<open>object\<close>, so \<open>expand\<close>,
  \<open>creation_steps\<close>, \<open>cleared_fields\<close>, \<open>lookup_type\<close> and the like, which follow bases, run with fuel 3. \<open>release\<close> is a total function: its measure is the number of live objects, then of
  references, then of tasks. The digit loop of \<open>IntFormat\<close> and the loops of iterators are proved to end; listing is bounded by
  the number of entries and one more call. \<open>__Pyx_InBases\<close> may follow a cycle, it is a partial function.

  \<^bold>\<open>Not modelled.\<close> RocksDB itself, the interpreter and user classes are parameters. Left out of the
  module: version and platform branches for other interpreters (Python 2, PyPy) and the reference counting inside
  the straight-line bodies, whose effect on objects is that of the assignments modelled. A statement of the module
  body that fails changes nothing, and \<open>__Pyx_check_binary_version\<close> is one call that may fail. The texts of exceptions that
  format objects are kept as template and arguments. The Python part of VerFS (the file system, its hash
  table and write-ahead log), the tests and the vendored \<open>pyfuse3\<close> and \<open>winfspy\<close> are outside.
\<close>

end
